(* ===== verification/Prelude.thy ===== *)
theory Prelude
  imports Main "HOL-Library.Char_ord" "HOL-Library.List_Lexorder"
begin

text \<open>
  What the components share: the result type of code that may raise (\<open>'e + 'a\<close>, the left side
  the exception) with its sequencing operators, the Python list and string operations the
  source uses, and the size lemmas that let functions recurse through optional lists.
  The collection \<open>result_iff\<close> holds the rules that turn "this sequence of checks passed" into
  the conjunction of what each check demands.
\<close>

named_theorems result_iff \<open>when a composed check or computation succeeds\<close>

section \<open>Code that may raise\<close>

fun and_then :: "'e + 'a \<Rightarrow> ('a \<Rightarrow> 'e + 'b) \<Rightarrow> 'e + 'b" where
  "and_then (Inl e) f = Inl e"
| "and_then (Inr x) f = f x"

fun run_checks :: "('e + unit) list \<Rightarrow> 'e + unit" where
  "run_checks [] = Inr ()"
| "run_checks (Inl e # cs) = Inl e"
| "run_checks (Inr u # cs) = run_checks cs"

definition raise_if :: "bool \<Rightarrow> 'e \<Rightarrow> 'e + unit" where
  "raise_if b e = (if b then Inl e else Inr ())"

definition for_each :: "('a \<Rightarrow> 'e + unit) \<Rightarrow> 'a list \<Rightarrow> 'e + unit" where
  "for_each f xs = run_checks (map f xs)"

fun map_result :: "('a \<Rightarrow> 'e + 'b) \<Rightarrow> 'a list \<Rightarrow> 'e + 'b list" where
  "map_result f [] = Inr []"
| "map_result f (x # xs) = and_then (f x) (\<lambda>y. and_then (map_result f xs) (\<lambda>ys. Inr (y # ys)))"

lemma and_then_cong [fundef_cong]:
  "m = m' \<Longrightarrow> (\<And>x. m' = Inr x \<Longrightarrow> f x = g x) \<Longrightarrow> and_then m f = and_then m' g"
  by (cases m') auto

lemma for_each_cong [fundef_cong]:
  "xs = ys \<Longrightarrow> (\<And>x. x \<in> set ys \<Longrightarrow> f x = g x) \<Longrightarrow> for_each f xs = for_each g ys"
  unfolding for_each_def by (metis (mono_tags, lifting) map_cong)

lemma map_result_cong [fundef_cong]:
  "xs = ys \<Longrightarrow> (\<And>x. x \<in> set ys \<Longrightarrow> f x = g x) \<Longrightarrow> map_result f xs = map_result g ys"
  by (induction xs arbitrary: ys) auto

lemma and_then_Inr [result_iff]:
  "and_then m f = Inr y \<longleftrightarrow> (\<exists>x. m = Inr x \<and> f x = Inr y)"
  by (cases m) auto

lemma run_checks_Inr [result_iff]:
  "run_checks cs = Inr u \<longleftrightarrow> (\<forall>c \<in> set cs. c = Inr ())"
  by (induction cs rule: run_checks.induct) auto

lemma raise_if_Inr [result_iff]: "raise_if b e = Inr u \<longleftrightarrow> \<not> b"
  by (simp add: raise_if_def)

lemma for_each_Inr [result_iff]:
  "for_each f xs = Inr u \<longleftrightarrow> (\<forall>x \<in> set xs. f x = Inr ())"
  by (simp add: for_each_def run_checks_Inr)

lemma for_each_simps [simp]:
  "for_each f [] = Inr ()"
  "for_each f (x # xs) = and_then (f x) (\<lambda>_. for_each f xs)"
  by (simp add: for_each_def, cases "f x", simp_all add: for_each_def)

lemma run_checks_append:
  "run_checks (cs @ ds) = and_then (run_checks cs) (\<lambda>_. run_checks ds)"
  by (induction cs rule: run_checks.induct) auto

lemma for_each_append:
  "for_each f (xs @ ys) = and_then (for_each f xs) (\<lambda>_. for_each f ys)"
  by (simp add: for_each_def run_checks_append)

lemma map_result_Inr [result_iff]:
  "map_result f xs = Inr ys \<longleftrightarrow> list_all2 (\<lambda>x y. f x = Inr y) xs ys"
  by (induction xs arbitrary: ys) (auto simp: and_then_Inr list_all2_Cons1)

text \<open>A loop that may raise: the state after every element, or the first error.\<close>

fun fold_result :: "('a \<Rightarrow> 's \<Rightarrow> 'e + 's) \<Rightarrow> 'a list \<Rightarrow> 's \<Rightarrow> 'e + 's" where
  "fold_result f [] s = Inr s"
| "fold_result f (x # xs) s = and_then (f x s) (fold_result f xs)"

lemma fold_result_cong [fundef_cong]:
  "xs = ys \<Longrightarrow> (\<And>x s. x \<in> set ys \<Longrightarrow> f x s = g x s) \<Longrightarrow> fold_result f xs s = fold_result g ys s"
proof (induction xs arbitrary: ys s)
  case (Cons x xs)
  then show ?case by (auto intro!: and_then_cong)
qed simp

lemma fold_result_append:
  "fold_result f (xs @ ys) s = and_then (fold_result f xs s) (fold_result f ys)"
  by (induction xs arbitrary: s) (auto split: sum.splits, metis and_then.simps sumE)

lemma fold_result_invariant:
  assumes "fold_result f xs s = Inr t" "P s"
    and "\<And>x s t. x \<in> set xs \<Longrightarrow> f x s = Inr t \<Longrightarrow> P s \<Longrightarrow> P t"
  shows "P t"
  using assms
proof (induction xs arbitrary: s)
  case (Cons x xs)
  from Cons.prems(1) obtain u where "f x s = Inr u" "fold_result f xs u = Inr t"
    by (auto simp: and_then_Inr)
  with Cons show ?case by (metis list.set_intros)
qed simp

lemma sum_unit_cases: "(c :: 'e + unit) = Inr () \<or> (\<exists>e. c = Inl e)"
  by (cases c) auto

section \<open>Optional lists\<close>

text \<open>\<open>xs or ()\<close>: a list that may be \<open>None\<close>.\<close>

definition or_nil :: "'a list option \<Rightarrow> 'a list" where
  "or_nil xs = (case xs of None \<Rightarrow> [] | Some ys \<Rightarrow> ys)"

lemma or_nil_simps [simp]: "or_nil None = []" "or_nil (Some xs) = xs"
  by (simp_all add: or_nil_def)

lemma size_list_or_nil [termination_simp]:
  "size_list f (or_nil xs) \<le> size_option (size_list f) xs"
  by (cases xs) auto

lemma size_mem_or_nil [termination_simp]:
  "x \<in> set (or_nil xs) \<Longrightarrow> f x < size_option (size_list f) xs"
  by (cases xs) (auto simp: less_Suc_eq_le intro: size_list_estimation' [OF _ order_refl])

lemma size_zip_fst [termination_simp]:
  "(a, b) \<in> set (zip xs ys) \<Longrightarrow> f a < Suc (size_list f xs)"
  by (metis le_imp_less_Suc order_refl set_zip_leftD size_list_estimation')

text \<open>\<open>option.is_some\<close>: \<open>value is not None\<close>.\<close>

abbreviation given :: "'a option \<Rightarrow> bool" where
  "given x \<equiv> x \<noteq> None"

text \<open>The first repeated element: \<open>next((x for x in xs if xs.count(x) > 1), None)\<close>.\<close>

definition first_repeated :: "'a list \<Rightarrow> 'a option" where
  "first_repeated xs = find (\<lambda>x. 1 < count_list xs x) xs"

lemma count_list_gt_1: "(\<exists>x \<in> set xs. 1 < count_list xs x) \<longleftrightarrow> \<not> distinct xs"
proof (induction xs)
  case (Cons y ys)
  have pos: "0 < count_list ys z \<longleftrightarrow> z \<in> set ys" for z
    using count_list_0_iff [of ys z] by auto
  from Cons show ?case by (auto simp: pos)
qed simp

lemma first_repeated_None [result_iff]: "first_repeated xs = None \<longleftrightarrow> distinct xs"
  using count_list_gt_1 [of xs] by (auto simp: first_repeated_def find_None_iff)

text \<open>A dict comprehension \<open>{key: value ...}\<close>: a later entry of the same key wins.\<close>

definition dict_of :: "('k \<times> 'v) list \<Rightarrow> 'k \<rightharpoonup> 'v" where
  "dict_of kvs = map_of (rev kvs)"

lemma dict_of_distinct:
  assumes "distinct (map fst kvs)"
  shows "dict_of kvs = map_of kvs"
proof
  fix k
  have rev: "distinct (map fst (rev kvs))" using assms by (simp add: rev_map [symmetric])
  show "dict_of kvs k = map_of kvs k"
  proof (cases "map_of kvs k")
    case None
    then have "k \<notin> fst ` set (rev kvs)" by (simp add: map_of_eq_None_iff)
    with None show ?thesis by (simp add: dict_of_def map_of_eq_None_iff [THEN iffD2])
  next
    case (Some v)
    then have "(k, v) \<in> set (rev kvs)" by (auto dest: map_of_SomeD)
    with rev Some show ?thesis by (simp add: dict_of_def map_of_is_SomeI)
  qed
qed

lemma dict_of_None [simp]: "dict_of kvs k = None \<longleftrightarrow> k \<notin> fst ` set kvs"
  by (simp add: dict_of_def map_of_eq_None_iff)

lemma dict_of_SomeD: "dict_of kvs k = Some v \<Longrightarrow> (k, v) \<in> set kvs"
  by (auto simp: dict_of_def dest!: map_of_SomeD)

lemma set_map_filter_iff: "y \<in> set (List.map_filter f xs) \<longleftrightarrow> (\<exists>x \<in> set xs. f x = Some y)"
  by (force simp: List.map_filter_def image_iff)

section \<open>Python strings\<close>

text \<open>\<open>s.split(c)\<close> for a one-character separator, and \<open>c.join(parts)\<close>.\<close>

fun split_on :: "char \<Rightarrow> string \<Rightarrow> string list" where
  "split_on c [] = [[]]"
| "split_on c (x # xs) =
     (if x = c then [] # split_on c xs
      else (case split_on c xs of [] \<Rightarrow> [[x]] | w # ws \<Rightarrow> (x # w) # ws))"

fun join :: "string \<Rightarrow> string list \<Rightarrow> string" where
  "join sep [] = []"
| "join sep [w] = w"
| "join sep (w # v # ws) = w @ sep @ join sep (v # ws)"

text \<open>\<open>s.split(c, 1)[0]\<close>.\<close>

definition first_part :: "char \<Rightarrow> string \<Rightarrow> string" where
  "first_part c s = takeWhile (\<lambda>x. x \<noteq> c) s"

text \<open>\<open>s.split("..")\<close>, leftmost matches first, and \<open>".." in s\<close>.\<close>

fun split_dotdot :: "string \<Rightarrow> string list" where
  "split_dotdot [] = [[]]"
| "split_dotdot [x] = [[x]]"
| "split_dotdot (x # y # r) =
     (if x = CHR ''.'' \<and> y = CHR ''.'' then [] # split_dotdot r
      else (case split_dotdot (y # r) of [] \<Rightarrow> [[x]] | w # ws \<Rightarrow> (x # w) # ws))"

fun has_dotdot :: "string \<Rightarrow> bool" where
  "has_dotdot (x # y # r) = (x = CHR ''.'' \<and> y = CHR ''.'' \<or> has_dotdot (y # r))"
| "has_dotdot s = False"

definition starts_with :: "string \<Rightarrow> string \<Rightarrow> bool" where
  "starts_with p s = (take (length p) s = p)"

definition ends_with :: "string \<Rightarrow> string \<Rightarrow> bool" where
  "ends_with p s = (length p \<le> length s \<and> drop (length s - length p) s = p)"

definition is_digit :: "char \<Rightarrow> bool" where
  "is_digit c = (CHR ''0'' \<le> c \<and> c \<le> CHR ''9'')"

definition is_lower :: "char \<Rightarrow> bool" where
  "is_lower c = (CHR ''a'' \<le> c \<and> c \<le> CHR ''z'')"

definition is_upper :: "char \<Rightarrow> bool" where
  "is_upper c = (CHR ''A'' \<le> c \<and> c \<le> CHR ''Z'')"

definition is_alpha :: "char \<Rightarrow> bool" where
  "is_alpha c = (is_lower c \<or> is_upper c)"

text \<open>\<open>str.isspace\<close> on ASCII.\<close>

definition is_space :: "char \<Rightarrow> bool" where
  "is_space c = (c \<in> set [CHR '' '', CHR 0x09, CHR 0x0A, CHR 0x0B, CHR 0x0C, CHR 0x0D,
                            CHR 0x1C, CHR 0x1D, CHR 0x1E, CHR 0x1F])"

definition strip :: "string \<Rightarrow> string" where
  "strip s = rev (dropWhile is_space (rev (dropWhile is_space s)))"

definition to_lower :: "char \<Rightarrow> char" where
  "to_lower c = (if is_upper c then char_of (of_char c + 32 :: nat) else c)"

definition lower :: "string \<Rightarrow> string" where
  "lower s = map to_lower s"

definition isdigit :: "string \<Rightarrow> bool" where
  "isdigit s = (s \<noteq> [] \<and> list_all is_digit s)"

text \<open>\<open>sorted(set(xs))\<close> on strings.\<close>

definition sorted_set :: "string list \<Rightarrow> string list" where
  "sorted_set xs = sort (remdups xs)"

lemma set_sorted_set [simp]: "set (sorted_set xs) = set xs"
  by (simp add: sorted_set_def)

lemma sorted_set_Nil_iff [simp]: "sorted_set xs = [] \<longleftrightarrow> xs = []"
  by (metis set_empty2 set_sorted_set)

lemma sorted_set_cong: "set xs = set ys \<Longrightarrow> sorted_set xs = sorted_set ys"
  unfolding sorted_set_def by (rule sorted_distinct_set_unique) simp_all

section \<open>Facts on the string operations\<close>

lemma split_on_nonempty [simp]: "split_on c s \<noteq> []"
  by (induction s) (auto split: list.splits)

lemma split_dotdot_nonempty [simp]: "split_dotdot s \<noteq> []"
  by (induction s rule: split_dotdot.induct) (auto split: list.splits)

lemma join_split_on [simp]: "join [c] (split_on c s) = s"
proof (induction s)
  case (Cons x xs)
  then show ?case
  proof (cases "split_on c xs")
    case (Cons w ws)
    with Cons.IH show ?thesis by (cases ws) auto
  qed simp
qed simp

lemma split_on_free: "w \<in> set (split_on c s) \<Longrightarrow> c \<notin> set w"
proof (induction s arbitrary: w)
  case (Cons x xs)
  from Cons show ?case by (cases "split_on c xs") (auto split: if_splits)
qed simp

lemma split_on_id: "c \<notin> set s \<Longrightarrow> split_on c s = [s]"
  by (induction s) auto

lemma split_on_append: "c \<notin> set w \<Longrightarrow> split_on c (w @ c # s) = w # split_on c s"
  by (induction w) auto

lemma split_on_join:
  "ws \<noteq> [] \<Longrightarrow> \<forall>w \<in> set ws. c \<notin> set w \<Longrightarrow> split_on c (join [c] ws) = ws"
  by (induction "[c]" ws rule: join.induct) (auto simp: split_on_id split_on_append)

lemma split_on_inject: "split_on c s = split_on c t \<longleftrightarrow> s = t"
  by (metis join_split_on)

lemma first_part_hd: "first_part c s = hd (split_on c s)"
  by (induction s) (auto simp: first_part_def split: list.splits)

end
