(* ===== verification/Json.thy ===== *)
theory Json
  imports Prelude Complex_Main
begin

text \<open>
  JSON values as Python holds them (\<open>facade/json_types.py\<close>, the \<open>JSON\<close> alias of
  \<open>vocabulary.py\<close>), with what the code does to them: equality across numeric types, hashability,
  truth, type tests; and the exceptions the code raises. A finite Python float is its rational
  value; the infinities and NaN are outside the model. An object is an association list in
  insertion order whose keys are distinct (\<open>wf_json\<close>).
\<close>

datatype json =
    JNull
  | JBool bool
  | JInt int
  | JFloat rat
  | JStr string
  | JList "json list"
  | JObj "(string \<times> json) list"

primrec json_str :: "json \<Rightarrow> string option" where
  "json_str JNull = None"
| "json_str (JBool b) = None"
| "json_str (JInt i) = None"
| "json_str (JFloat r) = None"
| "json_str (JStr s) = Some s"
| "json_str (JList xs) = None"
| "json_str (JObj kvs) = None"

text \<open>\<open>type(value).__name__\<close>.\<close>

primrec type_name :: "json \<Rightarrow> string" where
  "type_name JNull = ''NoneType''"
| "type_name (JBool b) = ''bool''"
| "type_name (JInt i) = ''int''"
| "type_name (JFloat r) = ''float''"
| "type_name (JStr s) = ''str''"
| "type_name (JList xs) = ''list''"
| "type_name (JObj kvs) = ''dict''"

definition is_str :: "json \<Rightarrow> bool" where
  "is_str v = (case v of JStr s \<Rightarrow> True | _ \<Rightarrow> False)"

definition is_bool :: "json \<Rightarrow> bool" where
  "is_bool v = (case v of JBool b \<Rightarrow> True | _ \<Rightarrow> False)"

definition is_list :: "json \<Rightarrow> bool" where
  "is_list v = (case v of JList xs \<Rightarrow> True | _ \<Rightarrow> False)"

definition is_dict :: "json \<Rightarrow> bool" where
  "is_dict v = (case v of JObj kvs \<Rightarrow> True | _ \<Rightarrow> False)"

text \<open>\<open>isinstance(value, int)\<close>: a Python bool is an int.\<close>

definition isinstance_int :: "json \<Rightarrow> bool" where
  "isinstance_int v = (case v of JInt i \<Rightarrow> True | JBool b \<Rightarrow> True | _ \<Rightarrow> False)"

definition isinstance_number :: "json \<Rightarrow> bool" where
  "isinstance_number v = (isinstance_int v \<or> (case v of JFloat r \<Rightarrow> True | _ \<Rightarrow> False))"

text \<open>\<open>value is not None\<close>.\<close>

abbreviation has_value :: "json \<Rightarrow> bool" where
  "has_value v \<equiv> v \<noteq> JNull"

text \<open>The numeric value a Python number compares by (\<open>True == 1 == 1.0\<close>).\<close>

definition num_value :: "json \<Rightarrow> rat option" where
  "num_value v = (case v of JBool b \<Rightarrow> Some (if b then 1 else 0) | JInt i \<Rightarrow> Some (of_int i)
                          | JFloat r \<Rightarrow> Some r | _ \<Rightarrow> None)"

text \<open>Python's \<open>==\<close> on JSON values.\<close>

fun py_eq :: "json \<Rightarrow> json \<Rightarrow> bool" where
  "py_eq (JList xs) (JList ys) =
     (length xs = length ys \<and> list_all (\<lambda>(x, y). py_eq x y) (zip xs ys))"
| "py_eq (JObj xs) (JObj ys) =
     (length xs = length ys \<and>
      list_all (\<lambda>(k, x). case map_of ys k of None \<Rightarrow> False | Some y \<Rightarrow> py_eq x y) xs)"
| "py_eq (JStr s) (JStr t) = (s = t)"
| "py_eq JNull JNull = True"
| "py_eq v w = (case (num_value v, num_value w) of (Some a, Some b) \<Rightarrow> a = b | _ \<Rightarrow> False)"

text \<open>A value a Python set or dict key accepts; the others raise \<open>TypeError\<close>.\<close>

definition hashable :: "json \<Rightarrow> bool" where
  "hashable v = (\<not> is_list v \<and> \<not> is_dict v)"

text \<open>\<open>d.get(key)\<close> on an object.\<close>

definition obj_get :: "(string \<times> json) list \<Rightarrow> string \<Rightarrow> json" where
  "obj_get kvs k = (case map_of kvs k of None \<Rightarrow> JNull | Some v \<Rightarrow> v)"

fun wf_json :: "json \<Rightarrow> bool" where
  "wf_json (JList xs) = list_all wf_json xs"
| "wf_json (JObj kvs) = (distinct (map fst kvs) \<and> list_all (\<lambda>(k, v). wf_json v) kvs)"
| "wf_json v = True"

section \<open>Messages and exceptions\<close>

text \<open>
  A message is kept as the pieces of the f-string that builds it: text, and values shown with
  \<open>!r\<close> or \<open>str\<close>. Rendering the pieces is Python's, and nothing in the program reads a rendered
  message back.
\<close>

datatype piece = Txt string | Repr json

type_synonym message = "piece list"

definition repr_str :: "string \<Rightarrow> piece" where
  "repr_str s = Repr (JStr s)"

definition repr_opt :: "string option \<Rightarrow> piece" where
  "repr_opt s = Repr (case s of None \<Rightarrow> JNull | Some t \<Rightarrow> JStr t)"

definition repr_strs :: "string list \<Rightarrow> piece" where
  "repr_strs ss = Repr (JList (map JStr ss))"

definition shown_int :: "int \<Rightarrow> piece" where
  "shown_int i = Repr (JInt i)"

text \<open>
  The exceptions of the modelled code. A \<open>BlokError\<close> (a subclass of \<open>ValueError\<close>) carries its
  diagnostic code and the fields its message is filled with.
\<close>

datatype py_error =
    ValueError message
  | BlokError string "(string \<times> message) list"
  | TypeError message
  | IndexError
  | KeyError message
  | OverflowError
  | PermissionError message
  | StaleRevisionError "nat option" "nat option"
  | DoesNotExist string
  | MultipleObjectsReturned string
  | IntegrityError string

definition is_value_error :: "py_error \<Rightarrow> bool" where
  "is_value_error e = (case e of ValueError t \<Rightarrow> True | BlokError c fs \<Rightarrow> True | StaleRevisionError b h \<Rightarrow> True | _ \<Rightarrow> False)"

type_synonym 'a result = "py_error + 'a"
type_synonym check = "py_error + unit"

section \<open>Facts\<close>

lemma json_str_simps [simp]:
  "json_str v = Some s \<longleftrightarrow> v = JStr s"
  by (cases v) auto

lemma json_tests [simp]:
  "is_str (JStr s)" "is_bool (JBool b)" "is_list (JList xs)" "is_dict (JObj kvs)"
  "\<not> is_str JNull" "\<not> is_bool JNull" "\<not> is_list JNull" "\<not> is_dict JNull"
  "\<not> is_str (JBool b)" "\<not> is_str (JInt i)" "\<not> is_str (JFloat r)" "\<not> is_str (JList xs)" "\<not> is_str (JObj kvs)"
  "\<not> is_list (JStr s)" "\<not> is_list (JInt i)" "\<not> is_list (JBool b)" "\<not> is_list (JFloat r)" "\<not> is_list (JObj kvs)"
  "\<not> is_dict (JStr s)" "\<not> is_dict (JInt i)" "\<not> is_dict (JBool b)" "\<not> is_dict (JFloat r)" "\<not> is_dict (JList xs)"
  "\<not> is_bool (JStr s)" "\<not> is_bool (JInt i)" "\<not> is_bool (JFloat r)" "\<not> is_bool (JList xs)" "\<not> is_bool (JObj kvs)"
  by (simp_all add: is_str_def is_bool_def is_list_def is_dict_def)

lemma py_eq_refl [simp]: "wf_json v \<Longrightarrow> py_eq v v"
proof (induction v rule: wf_json.induct)
  case (1 xs)
  then show ?case by (auto simp: list_all_iff zip_same_conv_map)
next
  case (2 kvs)
  then show ?case by (fastforce simp: list_all_iff)
qed (auto simp: num_value_def)

lemma py_eq_JStr [simp]:
  "py_eq (JStr s) v \<longleftrightarrow> v = JStr s" "py_eq v (JStr s) \<longleftrightarrow> v = JStr s"
  by (cases v; auto simp: num_value_def)+

lemma hashable_simps [simp]:
  "hashable JNull" "hashable (JStr s)" "hashable (JInt i)" "hashable (JBool b)"
  "hashable (JFloat r)" "\<not> hashable (JList xs)" "\<not> hashable (JObj kvs)"
  by (simp_all add: hashable_def)

section \<open>Sets of values\<close>

text \<open>
  \<open>_check_unique(items, attr, owner)\<close> of \<open>rekuest_core/inputs/models.py\<close>: the values are put
  into a Python set, so an unhashable one raises \<open>TypeError\<close> before it could be a duplicate.
\<close>

fun check_unique_from :: "json list \<Rightarrow> string \<Rightarrow> message \<Rightarrow> json list \<Rightarrow> check" where
  "check_unique_from seen attr owner [] = Inr ()"
| "check_unique_from seen attr owner (v # vs) =
     (if \<not> hashable v then Inl (TypeError [Txt ''unhashable type: '', repr_str (type_name v)])
      else if list_ex (\<lambda>s. py_eq s v) seen
      then Inl (ValueError (owner @ [Txt '': duplicate '', Txt attr, Txt '' '', Repr v]))
      else check_unique_from (v # seen) attr owner vs)"

definition check_unique :: "json list \<Rightarrow> string \<Rightarrow> message \<Rightarrow> check" where
  "check_unique vs attr owner = check_unique_from [] attr owner vs"

lemma check_unique_from_strings:
  "check_unique_from (map JStr seen) attr owner (map JStr ks) = Inr () \<longleftrightarrow>
   distinct ks \<and> set ks \<inter> set seen = {}"
proof (induction ks arbitrary: seen)
  case (Cons k ks)
  from Cons.IH [of "k # seen"] show ?case by (auto simp: list_ex_iff)
qed simp

lemma check_unique_strings [result_iff]:
  "check_unique (map JStr ks) attr owner = Inr () \<longleftrightarrow> distinct ks"
  using check_unique_from_strings [of "[]" attr owner ks] by (simp add: check_unique_def)

lemma check_unique_from_hashable:
  "check_unique_from seen attr owner vs = Inr () \<Longrightarrow> list_all hashable vs"
  by (induction vs arbitrary: seen) (auto split: if_splits)

lemma check_unique_hashable:
  "check_unique vs attr owner = Inr () \<Longrightarrow> list_all hashable vs"
  unfolding check_unique_def by (rule check_unique_from_hashable)

end
