(* ===== verification/Calls.thy ===== *)
theory Calls
  imports Json
begin

text \<open>
  Calls and their arguments (\<open>rekuest_core/inputs/models.py\<close>): the argument tree of a function
  call or a task call, the checks its models make when they are built, the walk over nested
  calls, and the purity check \<open>_check_pure_call\<close> that port calls and widget calls are held to.
\<close>

section \<open>Paths\<close>

text \<open>\<open>_value_path_root\<close>: the first \<open>/\<close> segment.\<close>

definition value_path_root :: "string \<Rightarrow> string" where
  "value_path_root path = first_part (CHR ''/'') (dropWhile (\<lambda>c. c = CHR ''/'') path)"

text \<open>\<open>_blok_path_root\<close>: the first segment, dotted or slashed.\<close>

definition blok_path_root :: "string \<Rightarrow> string" where
  "blok_path_root path =
     takeWhile (\<lambda>c. c \<noteq> CHR ''/'' \<and> c \<noteq> CHR ''.'') (dropWhile (\<lambda>c. c = CHR ''/'') path)"

definition BLOK_ASSETS_SEGMENT :: string where
  "BLOK_ASSETS_SEGMENT = ''assets''"

text \<open>The agent and the asset of \<open>self.assets.<name>\<close> or \<open>deps.<key>.assets.<name>\<close>.\<close>

definition blok_asset_path :: "string \<Rightarrow> (string \<times> string) option" where
  "blok_asset_path path =
     (let parts = split_on (CHR ''.'') path
      in if length parts = 3 \<and> parts ! 0 = ''self'' \<and> parts ! 1 = BLOK_ASSETS_SEGMENT \<and> parts ! 2 \<noteq> ''''
         then Some (''self'', parts ! 2)
         else if length parts = 4 \<and> parts ! 0 = ''deps'' \<and> parts ! 1 \<noteq> '''' \<and>
                 parts ! 2 = BLOK_ASSETS_SEGMENT \<and> parts ! 3 \<noteq> ''''
         then Some (parts ! 1, parts ! 3)
         else None)"

section \<open>The models\<close>

datatype argument =
  Argument (a_key: "string option") (value_literal: json) (value_path: "string option")
    (agent_call: "agent_call option") (util_call: "util_call option")
    (value_list: "argument list option") (value_dict: "argument list option")
and agent_call =
  AgentCall (call_dependency: string) (call_operation: string) (call_arguments: "argument list option")
and util_call =
  UtilCall (operation: string) (arguments: "argument list option")

lemma size_arguments [termination_simp]:
  "size_list size (or_nil (arguments c)) < size c"
  by (cases c) (simp add: le_imp_less_Suc size_list_or_nil)

lemma size_call_arguments [termination_simp]:
  "size_list size (or_nil (call_arguments c)) < size c"
  by (cases c) (simp add: le_imp_less_Suc size_list_or_nil)

text \<open>\<open>_check_keyed\<close>: call arguments and object entries need unique, non-empty keys.\<close>

fun check_keyed_from :: "string list \<Rightarrow> message \<Rightarrow> argument list \<Rightarrow> check" where
  "check_keyed_from seen owner [] = Inr ()"
| "check_keyed_from seen owner (a # as) =
     (case a_key a of
        None \<Rightarrow> Inl (ValueError (owner @ [Txt '': every entry must carry a key'']))
      | Some k \<Rightarrow>
          if k = '''' then Inl (ValueError (owner @ [Txt '': every entry must carry a key'']))
          else if k \<in> set seen then Inl (ValueError (owner @ [Txt '': duplicate key '', repr_str k]))
          else check_keyed_from (k # seen) owner as)"

definition check_keyed :: "argument list option \<Rightarrow> message \<Rightarrow> check" where
  "check_keyed args owner = check_keyed_from [] owner (or_nil args)"

text \<open>How many of the six \<open>BINDINGS\<close> of an argument are set.\<close>

definition argument_bound :: "argument \<Rightarrow> string list" where
  "argument_bound a =
     (if has_value (value_literal a) then [''value_literal''] else []) @
     (if given (value_path a) then [''value_path''] else []) @
     (if given (agent_call a) then [''agent_call''] else []) @
     (if given (util_call a) then [''util_call''] else []) @
     (if given (value_list a) then [''value_list''] else []) @
     (if given (value_dict a) then [''value_dict''] else [])"

definition check_argument_binding :: "argument \<Rightarrow> check" where
  "check_argument_binding a =
     (let bound = argument_bound a
      in run_checks
          [raise_if (1 < length bound)
             (ValueError [Txt ''ActionArgument '', repr_opt (a_key a), Txt '' must set at most one of '',
                          Txt ''value_literal, value_path, agent_call, util_call, value_list, value_dict'',
                          Txt '' (got '', repr_strs bound, Txt '')'']),
           check_keyed (value_dict a) [Txt ''value_dict of argument '', repr_opt (a_key a)],
           for_each (\<lambda>entry. raise_if (given (a_key entry))
             (ValueError [Txt ''value_list entries of argument '', repr_opt (a_key a),
                          Txt '' must not carry a key''])) (or_nil (value_list a))])"

text \<open>The validators and the field bounds (\<open>min_length=1\<close>) of the two call models.\<close>

definition check_agent_call :: "agent_call \<Rightarrow> check" where
  "check_agent_call c =
     run_checks
       [raise_if (call_dependency c = '''') (ValueError [Txt ''dependency'']),
        raise_if (call_operation c = '''') (ValueError [Txt ''operation'']),
        check_keyed (call_arguments c) [Txt ''arguments of agent call '', Txt (call_operation c)]]"

definition check_util_call :: "util_call \<Rightarrow> check" where
  "check_util_call c =
     run_checks
       [raise_if (operation c = '''') (ValueError [Txt ''operation'']),
        check_keyed (arguments c) [Txt ''arguments of '', Txt (operation c)]]"

text \<open>Every model of an argument tree passed its own validator (a nested model is built first).\<close>

fun wf_arguments :: "argument list \<Rightarrow> bool" where
  "wf_arguments [] = True"
| "wf_arguments (Argument k lit p ac uc vl vd # as) =
     (check_argument_binding (Argument k lit p ac uc vl vd) = Inr () \<and>
      (case ac of None \<Rightarrow> True | Some c \<Rightarrow> check_agent_call c = Inr () \<and> wf_arguments (or_nil (call_arguments c))) \<and>
      (case uc of None \<Rightarrow> True | Some c \<Rightarrow> check_util_call c = Inr () \<and> wf_arguments (or_nil (arguments c))) \<and>
      wf_arguments (or_nil vl) \<and> wf_arguments (or_nil vd) \<and> wf_arguments as)"

definition wf_util_call :: "util_call \<Rightarrow> bool" where
  "wf_util_call c = (check_util_call c = Inr () \<and> wf_arguments (or_nil (arguments c)))"

definition wf_agent_call :: "agent_call \<Rightarrow> bool" where
  "wf_agent_call c = (check_agent_call c = Inr () \<and> wf_arguments (or_nil (call_arguments c)))"

section \<open>Walking an argument tree\<close>

text \<open>\<open>iter_util_calls\<close>: every nested function call, depth first.\<close>

fun iter_util_calls :: "argument list \<Rightarrow> util_call list" where
  "iter_util_calls [] = []"
| "iter_util_calls (Argument k lit p ac uc vl vd # as) =
     (case uc of None \<Rightarrow> [] | Some c \<Rightarrow> c # iter_util_calls (or_nil (arguments c))) @
     (case ac of None \<Rightarrow> [] | Some c \<Rightarrow> iter_util_calls (or_nil (call_arguments c))) @
     iter_util_calls (or_nil vl) @ iter_util_calls (or_nil vd) @ iter_util_calls as"

text \<open>
  The \<open>walk\<close> of \<open>_check_pure_call\<close>: \<open>allowed\<close> are the roots a path may start at. It mutates the
  call it checks (a literal bool of a port call becomes its int), so it returns the new arguments.
\<close>

definition path_root :: "bool \<Rightarrow> string \<Rightarrow> string" where
  "path_root blok path = (if blok then blok_path_root path else value_path_root path)"

definition pure_literal :: "bool \<Rightarrow> json \<Rightarrow> json" where
  "pure_literal blok lit =
     (case lit of JBool b \<Rightarrow> if blok then lit else JInt (if b then 1 else 0) | _ \<Rightarrow> lit)"

fun pure_arguments :: "string list \<Rightarrow> bool \<Rightarrow> message \<Rightarrow> argument list \<Rightarrow> argument list result"
  and pure_argument :: "string list \<Rightarrow> bool \<Rightarrow> message \<Rightarrow> argument \<Rightarrow> argument result"
  and pure_option :: "string list \<Rightarrow> bool \<Rightarrow> message \<Rightarrow> argument list option \<Rightarrow> argument list option result"
  and pure_nested :: "string list \<Rightarrow> bool \<Rightarrow> message \<Rightarrow> util_call option \<Rightarrow> util_call option result"
where
  "pure_arguments allowed blok owner [] = Inr []"
| "pure_arguments allowed blok owner (a # as) =
     and_then (pure_argument allowed blok owner a) (\<lambda>a'.
     and_then (pure_arguments allowed blok owner as) (\<lambda>as'. Inr (a' # as')))"
| "pure_argument allowed blok owner (Argument k lit p ac uc vl vd) =
     and_then (raise_if (given ac)
        (ValueError (owner @ [Txt '' must be pure: nested agent calls are not allowed'']))) (\<lambda>_.
     and_then (case p of None \<Rightarrow> Inr ()
               | Some path \<Rightarrow> raise_if (path_root blok path \<notin> set allowed)
                   (ValueError (owner @ [Txt '' references '', repr_str (path_root blok path),
                                Txt '' via value_path but it is not in dependencies'']))) (\<lambda>_.
     and_then (pure_nested allowed blok owner uc) (\<lambda>uc'.
     and_then (pure_option allowed blok owner vl) (\<lambda>vl'.
     and_then (pure_option allowed blok owner vd) (\<lambda>vd'.
     Inr (Argument k (pure_literal blok lit) p ac uc' vl' vd'))))))"
| "pure_option allowed blok owner None = Inr None"
| "pure_option allowed blok owner (Some xs) =
     and_then (pure_arguments allowed blok owner xs) (\<lambda>xs'. Inr (Some xs'))"
| "pure_nested allowed blok owner None = Inr None"
| "pure_nested allowed blok owner (Some (UtilCall op args)) =
     and_then (pure_option allowed blok owner args) (\<lambda>args'. Inr (Some (UtilCall op args')))"

definition check_pure_call ::
  "util_call \<Rightarrow> string list option \<Rightarrow> message \<Rightarrow> string list \<Rightarrow> bool \<Rightarrow> util_call result" where
  "check_pure_call call dependencies owner extra_roots blok =
     and_then (pure_option (or_nil dependencies @ [''value''] @ extra_roots) blok owner (arguments call))
       (\<lambda>args. Inr (UtilCall (operation call) args))"

section \<open>What purity means\<close>

text \<open>Every argument nested in function calls, lists and objects (task calls are not entered).\<close>

fun nested_arguments :: "argument list \<Rightarrow> argument list" where
  "nested_arguments [] = []"
| "nested_arguments (Argument k lit p ac uc vl vd # as) =
     Argument k lit p ac uc vl vd #
     (case uc of None \<Rightarrow> [] | Some c \<Rightarrow> nested_arguments (or_nil (arguments c))) @
     nested_arguments (or_nil vl) @ nested_arguments (or_nil vd) @ nested_arguments as"

definition pure_spec :: "string list \<Rightarrow> bool \<Rightarrow> argument list \<Rightarrow> bool" where
  "pure_spec allowed blok as \<longleftrightarrow>
     (\<forall>a \<in> set (nested_arguments as).
        agent_call a = None \<and>
        (\<forall>path. value_path a = Some path \<longrightarrow> path_root blok path \<in> set allowed))"

text \<open>The same arguments with every literal as the check leaves it.\<close>

fun coerce_arguments :: "bool \<Rightarrow> argument list \<Rightarrow> argument list"
  and coerce_argument :: "bool \<Rightarrow> argument \<Rightarrow> argument"
  and coerce_option :: "bool \<Rightarrow> argument list option \<Rightarrow> argument list option"
  and coerce_nested :: "bool \<Rightarrow> util_call option \<Rightarrow> util_call option"
where
  "coerce_arguments blok [] = []"
| "coerce_arguments blok (a # as) = coerce_argument blok a # coerce_arguments blok as"
| "coerce_argument blok (Argument k lit p ac uc vl vd) =
     Argument k (pure_literal blok lit) p ac (coerce_nested blok uc) (coerce_option blok vl) (coerce_option blok vd)"
| "coerce_option blok None = None"
| "coerce_option blok (Some xs) = Some (coerce_arguments blok xs)"
| "coerce_nested blok None = None"
| "coerce_nested blok (Some (UtilCall op args)) = Some (UtilCall op (coerce_option blok args))"

lemma pure_spec_Nil [simp]: "pure_spec allowed blok []"
  by (simp add: pure_spec_def)

lemma pure_spec_append [simp]:
  "pure_spec allowed blok (Argument k lit p ac uc vl vd # as) \<longleftrightarrow>
     ac = None \<and> (\<forall>path. p = Some path \<longrightarrow> path_root blok path \<in> set allowed) \<and>
     (case uc of None \<Rightarrow> True | Some c \<Rightarrow> pure_spec allowed blok (or_nil (arguments c))) \<and>
     pure_spec allowed blok (or_nil vl) \<and> pure_spec allowed blok (or_nil vd) \<and>
     pure_spec allowed blok as"
  by (auto simp: pure_spec_def split: option.splits)

lemma pure_spec_Cons:
  "pure_spec allowed blok (a # as) \<longleftrightarrow> pure_spec allowed blok [a] \<and> pure_spec allowed blok as"
  by (cases a) auto

lemma pure_arguments_iff:
  "pure_arguments allowed blok owner as = Inr as' \<longleftrightarrow>
     pure_spec allowed blok as \<and> as' = coerce_arguments blok as"
  "pure_argument allowed blok owner a = Inr a' \<longleftrightarrow>
     pure_spec allowed blok [a] \<and> a' = coerce_argument blok a"
  "pure_option allowed blok owner xs = Inr xs' \<longleftrightarrow>
     pure_spec allowed blok (or_nil xs) \<and> xs' = coerce_option blok xs"
  "pure_nested allowed blok owner uc = Inr uc' \<longleftrightarrow>
     (case uc of None \<Rightarrow> True | Some c \<Rightarrow> pure_spec allowed blok (or_nil (arguments c))) \<and>
     uc' = coerce_nested blok uc"
proof (induction blok as and blok a and blok xs and blok uc arbitrary: as' and a' and xs' and uc'
       rule: coerce_arguments_coerce_argument_coerce_option_coerce_nested.induct)
  case (2 blok a as)
  then show ?case by (auto simp: result_iff pure_spec_Cons [of _ _ a as])
next
  case (3 blok k lit p ac uc vl vd)
  then show ?case by (auto simp: result_iff split: option.splits)
qed (auto simp: result_iff)

text \<open>
  A port call or widget call passes the purity check exactly when no argument nested in it is a
  task call and every path it reads starts at a declared dependency, at \<open>value\<close> or at an extra root;
  what comes back is the call with its literal bools as ints (kept as written in a blok tree).
\<close>

theorem check_pure_call_iff:
  "check_pure_call (UtilCall op args) dependencies owner extra_roots blok = Inr call \<longleftrightarrow>
     pure_spec (or_nil dependencies @ [''value''] @ extra_roots) blok (or_nil args) \<and>
     call = UtilCall op (coerce_option blok args)"
  by (auto simp: check_pure_call_def result_iff pure_arguments_iff)

lemma pure_literal_idem [simp]: "pure_literal blok (pure_literal blok lit) = pure_literal blok lit"
  by (auto simp: pure_literal_def split: json.splits)

lemma coerce_idem:
  "coerce_arguments blok (coerce_arguments blok as) = coerce_arguments blok as"
  "coerce_argument blok (coerce_argument blok a) = coerce_argument blok a"
  "coerce_option blok (coerce_option blok xs) = coerce_option blok xs"
  "coerce_nested blok (coerce_nested blok uc) = coerce_nested blok uc"
  by (induction blok as and blok a and blok xs and blok uc
      rule: coerce_arguments_coerce_argument_coerce_option_coerce_nested.induct) auto

lemma pure_spec_coerce:
  "pure_spec allowed blok (coerce_arguments blok as) \<longleftrightarrow> pure_spec allowed blok as"
  "pure_spec allowed blok [coerce_argument blok a] \<longleftrightarrow> pure_spec allowed blok [a]"
  "pure_spec allowed blok (or_nil (coerce_option blok xs)) \<longleftrightarrow> pure_spec allowed blok (or_nil xs)"
  "(case coerce_nested blok uc of None \<Rightarrow> True | Some c \<Rightarrow> pure_spec allowed blok (or_nil (arguments c))) \<longleftrightarrow>
   (case uc of None \<Rightarrow> True | Some c \<Rightarrow> pure_spec allowed blok (or_nil (arguments c)))"
proof (induction blok as and blok a and blok xs and blok uc
       rule: coerce_arguments_coerce_argument_coerce_option_coerce_nested.induct)
  case (2 blok a as)
  then show ?case
    by (simp add: pure_spec_Cons [of _ _ a as]
          pure_spec_Cons [of _ _ "coerce_argument blok a" "coerce_arguments blok as"])
qed auto

text \<open>
  Checking is idempotent: a call the check accepted and rewrote is accepted again, unchanged, so
  a definition that is read back and validated again hashes as it did.
\<close>

theorem check_pure_call_idempotent:
  assumes "check_pure_call call dependencies owner extra_roots blok = Inr call'"
  shows "check_pure_call call' dependencies owner' extra_roots blok = Inr call'"
  using assms
  by (cases call) (auto simp: check_pure_call_iff pure_spec_coerce coerce_idem)

section \<open>Asset paths\<close>

lemma length_3: "length xs = 3 \<longleftrightarrow> (\<exists>a b c. xs = [a, b, c])"
  by (auto simp: numeral_3_eq_3 length_Suc_conv)

lemma length_4: "length xs = 4 \<longleftrightarrow> (\<exists>a b c d. xs = [a, b, c, d])"
  by (auto simp: numeral_eq_Suc length_Suc_conv)

end
