(* ===== verification/Vocabulary.thy ===== *)
theory Vocabulary
  imports Json
begin

text \<open>
  The blok language's vocabulary, \<open>rekuest_core/vocabulary/vocabulary.py\<close>: the typed records,
  \<open>parse_vocabulary\<close> over a JSON value, and the diagnostics (\<open>Finding\<close>, \<open>BlokError\<close>). A Python
  mapping is an association list in insertion order, a frozenset a list read up to order and
  repetition. A finding keeps the fields its message is filled with instead of the filled text.
\<close>

section \<open>Reading JSON\<close>

definition vocabulary_error :: "string \<Rightarrow> string \<Rightarrow> py_error" where
  "vocabulary_error place what = ValueError [Txt ''vocabulary.json: '', Txt place, Txt what]"

definition as_object :: "json \<Rightarrow> string \<Rightarrow> (string \<times> json) list result" where
  "as_object value place =
     (case value of JObj kvs \<Rightarrow> Inr kvs | _ \<Rightarrow> Inl (vocabulary_error place '' is not an object''))"

definition as_list :: "json \<Rightarrow> string \<Rightarrow> json list result" where
  "as_list value place =
     (case value of JList xs \<Rightarrow> Inr xs | _ \<Rightarrow> Inl (vocabulary_error place '' is not a list''))"

definition as_string :: "json \<Rightarrow> string \<Rightarrow> string result" where
  "as_string value place =
     (case value of JStr s \<Rightarrow> Inr s | _ \<Rightarrow> Inl (vocabulary_error place '' is not a string''))"

definition as_strings :: "json \<Rightarrow> string \<Rightarrow> string list result" where
  "as_strings value place =
     and_then (as_list value place) (map_result (\<lambda>item. as_string item place))"

definition as_number :: "json \<Rightarrow> string \<Rightarrow> int result" where
  "as_number value place =
     (case value of JInt i \<Rightarrow> Inr i | _ \<Rightarrow> Inl (vocabulary_error place '' is not an integer''))"

definition flag :: "(string \<times> json) list \<Rightarrow> string \<Rightarrow> bool" where
  "flag entry key = (obj_get entry key = JBool True)"

text \<open>\<open>description if isinstance(description, str) else ""\<close>.\<close>

definition text_or_empty :: "(string \<times> json) list \<Rightarrow> string \<Rightarrow> string" where
  "text_or_empty entry key = (case obj_get entry key of JStr s \<Rightarrow> s | _ \<Rightarrow> '''')"

section \<open>The records\<close>

record param =
  p_key :: string
  p_kind :: string
  p_required :: bool

record blok_function =
  fn_name :: string
  fn_params :: "param list"
  fn_returns :: string
  fn_description :: string
  fn_null :: string
  fn_lazy :: bool
  fn_effect :: bool
  fn_sees_status :: bool
  fn_task_operation :: bool

definition function_keys :: "blok_function \<Rightarrow> string list" where
  "function_keys f = map p_key (fn_params f)"

definition required_keys :: "blok_function \<Rightarrow> string list" where
  "required_keys f = map p_key (filter p_required (fn_params f))"

record kind =
  k_name :: string
  k_roots :: "string list"
  k_locals :: bool
  k_contexts :: "string list"
  k_description :: string

record draw_context =
  c_name :: string
  c_text :: bool

datatype record_field =
  RecordField (rf_key: string) (rf_kind: string) (rf_nullable: bool) (rf_choices: "string list")
    (rf_children: "record_field list")

record blok_record =
  r_name :: string
  r_fields :: "record_field list"

definition record_field_of :: "blok_record \<Rightarrow> string \<Rightarrow> record_field option" where
  "record_field_of r key = find (\<lambda>f. rf_key f = key) (r_fields r)"

datatype level = Error | Warning

record diagnostic_spec =
  d_code :: string
  d_level :: level
  d_message :: string
  d_runtime :: bool
  d_hint :: "string option"

record theme =
  colour_roles :: "string list"
  status_roles :: "string list"
  spectral_roles :: "string list"
  colour_utilities :: "string list"
  palette_colours :: "string list"
  palette_role_hints :: "(string \<times> string) list"
  logo_pens :: "string list"
  logo_paint_props :: "string list"
  scene_paint_props :: "string list"
  custom_variants :: "string list"
  data_attributes :: "string list"

record limits =
  logo_max_nodes :: int
  logo_max_depth :: int
  logo_max_path_data :: int
  logo_max_foreach_items :: int
  logo_path_data_props :: "string list"

record vocabulary =
  vocab :: int
  data_roots :: "string list"
  scoped_roots :: "string list"
  function_namespaces :: "string list"
  future_roots :: "string list"
  reserved :: "string list"
  tasks_segment :: string
  assets_segment :: string
  reserved_state_names :: "string list"
  agent_fields :: "string list"
  kinds :: "(string \<times> kind) list"
  contexts :: "(string \<times> draw_context) list"
  blok_roots :: "(string \<times> string) list"
  records :: "(string \<times> blok_record) list"
  idle_task :: "(string \<times> json) list"
  function_table :: "(string \<times> blok_function) list"
  operators :: "(string \<times> string) list"
  explicit_id :: string
  the_theme :: theme
  the_limits :: limits
  base_version :: int
  catalogs :: "(string \<times> int) list"
  bind_kinds :: "(string \<times> string list) list"
  arg_kinds :: "(string \<times> string list) list"
  diagnostics :: "(string \<times> diagnostic_spec) list"

definition vocabulary_function :: "vocabulary \<Rightarrow> string \<Rightarrow> blok_function option" where
  "vocabulary_function voc name = map_of (function_table voc) name"

definition vocabulary_kind :: "vocabulary \<Rightarrow> string \<Rightarrow> kind result" where
  "vocabulary_kind voc name =
     (case map_of (kinds voc) name of
        None \<Rightarrow> Inl (ValueError [Txt ''no blok kind '', repr_str name, Txt '' (kinds: '',
                       Txt (join '', '' (sorted_set (map fst (kinds voc)))), Txt '')''])
      | Some k \<Rightarrow> Inr k)"

section \<open>Parsing the entries\<close>

lemma as_list_size: "as_list v w = Inr xs \<Longrightarrow> size v = Suc (size_list size xs)"
  by (auto simp: as_list_def split: json.splits)

lemma as_object_size: "as_object v w = Inr kvs \<Longrightarrow> size (obj_get kvs k) < Suc (size v)"
proof -
  assume "as_object v w = Inr kvs"
  then have v: "v = JObj kvs" by (auto simp: as_object_def split: json.splits)
  have "size w \<le> size_list (size_prod (\<lambda>_. 0) size) kvs" if "(a, w) \<in> set kvs" for a w
    using size_list_estimation' [OF that, of "size w" "size_prod (\<lambda>_. 0) size"] by simp
  with v show ?thesis
    by (fastforce simp: obj_get_def less_Suc_eq_le split: option.splits dest!: map_of_SomeD)
qed

function record_fields :: "json \<Rightarrow> string \<Rightarrow> record_field list result" where
  "record_fields raw place =
     and_then (as_list raw place) (map_result (\<lambda>item.
       and_then (as_object item place) (\<lambda>entry.
       and_then (as_string (obj_get entry ''key'') (place @ ''.key'')) (\<lambda>key.
       and_then (as_string (obj_get entry ''kind'') (place @ ''.kind'')) (\<lambda>kind.
       and_then (if has_value (obj_get entry ''choices'')
                 then as_strings (obj_get entry ''choices'') (place @ ''.choices'') else Inr []) (\<lambda>choices.
       and_then (if has_value (obj_get entry ''children'')
                 then record_fields (obj_get entry ''children'') (place @ ''.children'') else Inr []) (\<lambda>children.
       Inr (RecordField key kind (flag entry ''nullable'') choices children))))))))"
  by pat_completeness auto
termination
proof (relation "measure (\<lambda>(raw, place). size raw)", goal_cases)
  case (2 raw place items item entry key kind choices)
  have "size item \<le> size_list size items"
    using 2(2) by (rule size_list_estimation') simp
  with as_list_size [OF 2(1)] as_object_size [OF 2(3), of "''children''"] show ?case by simp
qed simp

declare record_fields.simps [simp del]

definition parse_param :: "string \<Rightarrow> json \<Rightarrow> param result" where
  "parse_param place item =
     and_then (as_list item place) (\<lambda>spec.
       let required = (if 2 < length spec then spec ! 2 else JBool True)
       in and_then (if spec = [] then Inl IndexError else as_string (spec ! 0) place) (\<lambda>key.
          and_then (if length spec < 2 then Inl IndexError else as_string (spec ! 1) place) (\<lambda>kind.
          Inr \<lparr>p_key = key, p_kind = kind, p_required = (required = JBool True)\<rparr>)))"

definition parse_function :: "string \<Rightarrow> json \<Rightarrow> blok_function result" where
  "parse_function name raw =
     (let place = ''functions.'' @ name
      in and_then (as_object raw place) (\<lambda>entry.
         and_then (as_list (obj_get entry ''params'') (place @ ''.params'')) (\<lambda>items.
         and_then (map_result (parse_param (place @ ''.params'')) items) (\<lambda>params.
         and_then (as_string (obj_get entry ''returns'') (place @ ''.returns'')) (\<lambda>returns.
         Inr \<lparr>fn_name = name, fn_params = params, fn_returns = returns,
              fn_description = text_or_empty entry ''description'',
              fn_null = text_or_empty entry ''null'', fn_lazy = flag entry ''lazy'',
              fn_effect = flag entry ''effect'', fn_sees_status = flag entry ''sees_status'',
              fn_task_operation = flag entry ''task_operation''\<rparr>)))))"

definition parse_kind :: "string list \<Rightarrow> string \<times> json \<Rightarrow> (string \<times> kind) result" where
  "parse_kind roots = (\<lambda>(name, item).
     let place = ''kinds.'' @ name
     in and_then (as_object item place) (\<lambda>entry.
        and_then (as_strings (obj_get entry ''roots'') (place @ ''.roots'')) (\<lambda>kind_roots.
        let unknown = sorted_set (filter (\<lambda>r. r \<notin> set roots) kind_roots)
        in if unknown \<noteq> []
           then Inl (ValueError [Txt ''vocabulary.json: kind '', Txt name,
                                 Txt '' reads unknown roots '', repr_strs unknown])
           else and_then (as_strings (obj_get entry ''contexts'') (place @ ''.contexts'')) (\<lambda>ctxs.
                Inr (name, \<lparr>k_name = name, k_roots = kind_roots, k_locals = flag entry ''locals'',
                            k_contexts = ctxs, k_description = text_or_empty entry ''description''\<rparr>)))))"

definition parse_context :: "string \<times> json \<Rightarrow> (string \<times> draw_context) result" where
  "parse_context = (\<lambda>(name, item).
     and_then (as_object item (''contexts.'' @ name)) (\<lambda>entry.
     Inr (name, \<lparr>c_name = name, c_text = flag entry ''text''\<rparr>)))"

definition parse_record :: "string \<times> json \<Rightarrow> (string \<times> blok_record \<times> (string \<times> json) list option) result" where
  "parse_record = (\<lambda>(name, item).
     and_then (as_object item (''records.'' @ name)) (\<lambda>entry.
     and_then (record_fields (obj_get entry ''fields'') (''records.'' @ name @ ''.fields'')) (\<lambda>fields.
     and_then (if name = ''task''
               then and_then (as_object (obj_get entry ''idle'') ''records.task.idle'') (\<lambda>idle. Inr (Some idle))
               else Inr None) (\<lambda>idle.
     Inr (name, \<lparr>r_name = name, r_fields = fields\<rparr>, idle)))))"

definition parse_named_function :: "string list \<Rightarrow> string \<times> json \<Rightarrow> (string \<times> blok_function) result" where
  "parse_named_function namespaces = (\<lambda>(name, item).
     if first_part (CHR ''.'') name \<notin> set namespaces \<and> name \<noteq> ''task.answer''
     then Inl (ValueError [Txt ''vocabulary.json: function '', Txt name, Txt '' is in no function namespace''])
     else and_then (parse_function name item) (\<lambda>f. Inr (name, f)))"

definition parse_operators :: "(string \<times> json) list \<Rightarrow> (string \<times> string) list" where
  "parse_operators entries =
     List.map_filter (\<lambda>(key, value). case value of
         JStr s \<Rightarrow> if key = ''description'' \<or> key = ''notes'' then None else Some (key, s)
       | _ \<Rightarrow> None) entries"

definition parse_diagnostic :: "string \<times> json \<Rightarrow> (string \<times> diagnostic_spec) result" where
  "parse_diagnostic = (\<lambda>(code, item).
     let place = ''diagnostics.'' @ code
     in and_then (as_object item place) (\<lambda>entry.
        let lev = obj_get entry ''level''
        in if lev \<noteq> JStr ''error'' \<and> lev \<noteq> JStr ''warning''
           then Inl (ValueError [Txt ''vocabulary.json: diagnostic '', Txt code, Txt '' has level '', Repr lev])
           else and_then (as_string (obj_get entry ''message'') (place @ ''.message'')) (\<lambda>msg.
                and_then (if has_value (obj_get entry ''hint'')
                          then and_then (as_string (obj_get entry ''hint'') (place @ ''.hint'')) (\<lambda>h. Inr (Some h))
                          else Inr None) (\<lambda>hint.
                Inr (code, \<lparr>d_code = code, d_level = (if lev = JStr ''error'' then Error else Warning),
                            d_message = msg, d_runtime = flag entry ''runtime'', d_hint = hint\<rparr>)))))"

definition without_description :: "(string \<times> json) list \<Rightarrow> (string \<times> json) list" where
  "without_description entries = filter (\<lambda>(key, _). key \<noteq> ''description'') entries"

definition parse_kind_table :: "(string \<times> json) list \<Rightarrow> string \<Rightarrow> (string \<times> string list) list result" where
  "parse_kind_table local_rules name =
     and_then (as_object (obj_get local_rules name) (''locals.'' @ name)) (\<lambda>table.
       map_result (\<lambda>(key, value).
         and_then (as_strings value (''locals.'' @ name @ ''.'' @ key)) (\<lambda>ks. Inr (key, ks)))
       (without_description table))"

section \<open>The whole file\<close>

record root_names =
  rn_data :: "string list"
  rn_scoped :: "string list"
  rn_namespaces :: "string list"
  rn_future :: "string list"
  rn_reserved :: "string list"

definition parse_roots :: "(string \<times> json) list \<Rightarrow> root_names result" where
  "parse_roots entries =
     and_then (as_object (obj_get entries ''roots'') ''roots'') (\<lambda>roots.
     and_then (as_object (obj_get roots ''data'') ''roots.data'') (\<lambda>data.
     and_then (as_object (obj_get roots ''scoped'') ''roots.scoped'') (\<lambda>scoped.
     and_then (as_strings (obj_get roots ''functions'') ''roots.functions'') (\<lambda>namespaces.
     and_then (as_strings (obj_get roots ''future'') ''roots.future'') (\<lambda>future.
     and_then (as_strings (obj_get entries ''reserved'') ''reserved'') (\<lambda>res.
     let expected = map fst data @ map fst scoped @ namespaces @ future
     in if set res \<noteq> set expected
        then Inl (ValueError [Txt ''vocabulary.json: reserved differs from the roots by '',
               repr_strs (sorted_set (filter (\<lambda>r. r \<notin> set expected) res
                                      @ filter (\<lambda>r. r \<notin> set res) expected))])
        else Inr \<lparr>rn_data = map fst data, rn_scoped = map fst scoped, rn_namespaces = namespaces,
                  rn_future = future, rn_reserved = res\<rparr>))))))"

definition check_kind_contexts :: "(string \<times> draw_context) list \<Rightarrow> kind \<Rightarrow> check" where
  "check_kind_contexts ctxs k =
     (let unknown = sorted_set (filter (\<lambda>c. c \<notin> set (map fst ctxs)) (k_contexts k))
      in raise_if (unknown \<noteq> [])
           (ValueError [Txt ''vocabulary.json: kind '', Txt (k_name k),
                        Txt '' is drawn in unknown contexts '', repr_strs unknown]))"

definition parse_theme :: "(string \<times> json) list \<Rightarrow> (string \<times> json) list \<Rightarrow> theme result" where
  "parse_theme t hints =
     and_then (as_strings (obj_get t ''colour_roles'') ''theme.colour_roles'') (\<lambda>a.
     and_then (as_strings (obj_get t ''status_roles'') ''theme.status_roles'') (\<lambda>b.
     and_then (as_strings (obj_get t ''spectral_roles'') ''theme.spectral_roles'') (\<lambda>c.
     and_then (as_strings (obj_get t ''colour_utilities'') ''theme.colour_utilities'') (\<lambda>d.
     and_then (as_strings (obj_get t ''palette_colours'') ''theme.palette_colours'') (\<lambda>e.
     and_then (map_result (\<lambda>(key, value). and_then (as_string value ''theme.palette_role_hints'')
                                            (\<lambda>h. Inr (key, h))) hints) (\<lambda>f.
     and_then (as_strings (obj_get t ''logo_pens'') ''theme.logo_pens'') (\<lambda>g.
     and_then (as_strings (obj_get t ''logo_paint_props'') ''theme.logo_paint_props'') (\<lambda>h.
     and_then (as_strings (obj_get t ''scene_paint_props'') ''theme.scene_paint_props'') (\<lambda>i.
     and_then (as_strings (obj_get t ''custom_variants'') ''theme.custom_variants'') (\<lambda>j.
     and_then (as_object (obj_get t ''data_attributes'') ''theme.data_attributes'') (\<lambda>k.
     Inr \<lparr>colour_roles = a, status_roles = b, spectral_roles = c, colour_utilities = d,
          palette_colours = e, palette_role_hints = f, logo_pens = g, logo_paint_props = h,
          scene_paint_props = i, custom_variants = j, data_attributes = map fst k\<rparr>)))))))))))"

definition parse_limits :: "(string \<times> json) list \<Rightarrow> limits result" where
  "parse_limits l =
     and_then (as_number (obj_get l ''logo_max_nodes'') ''limits.logo_max_nodes'') (\<lambda>a.
     and_then (as_number (obj_get l ''logo_max_depth'') ''limits.logo_max_depth'') (\<lambda>b.
     and_then (as_number (obj_get l ''logo_max_path_data'') ''limits.logo_max_path_data'') (\<lambda>c.
     and_then (as_number (obj_get l ''logo_max_foreach_items'') ''limits.logo_max_foreach_items'') (\<lambda>d.
     and_then (as_strings (obj_get l ''logo_path_data_props'') ''limits.logo_path_data_props'') (\<lambda>e.
     Inr \<lparr>logo_max_nodes = a, logo_max_depth = b, logo_max_path_data = c,
          logo_max_foreach_items = d, logo_path_data_props = e\<rparr>)))))"

text \<open>
  \<open>parse_vocabulary\<close>: the reads and checks in the order the code makes them. A dict display is
  evaluated left to right, so the fields of the \<open>Vocabulary\<close> call raise in their order.
\<close>

definition parse_vocabulary :: "json \<Rightarrow> vocabulary result" where
  "parse_vocabulary raw =
     and_then (as_object raw ''the file'') (\<lambda>entries.
     and_then (parse_roots entries) (\<lambda>names.
     and_then (as_object (obj_get entries ''agent_segments'') ''agent_segments'') (\<lambda>segments.
     and_then (as_object (obj_get entries ''kinds'') ''kinds'') (\<lambda>raw_kinds.
     and_then (map_result (parse_kind (rn_data names)) raw_kinds) (\<lambda>kds.
     and_then (as_object (obj_get entries ''contexts'') ''contexts'') (\<lambda>raw_contexts.
     and_then (map_result parse_context raw_contexts) (\<lambda>ctxs.
     and_then (as_object (obj_get entries ''blok_roots'') ''blok_roots'') (\<lambda>broots.
     and_then (as_object (obj_get broots ''roots'') ''blok_roots.roots'') (\<lambda>roots_entry.
     and_then (map_result (\<lambda>(root, c). and_then (as_string c (''blok_roots.roots.'' @ root))
                                        (\<lambda>c'. Inr (root, c'))) roots_entry) (\<lambda>blok_root_table.
     and_then (for_each (check_kind_contexts ctxs) (map snd kds)) (\<lambda>_.
     and_then (as_object (obj_get entries ''records'') ''records'') (\<lambda>raw_records.
     and_then (map_result parse_record raw_records) (\<lambda>recs.
     and_then (as_object (obj_get entries ''functions'') ''functions'') (\<lambda>raw_functions.
     and_then (map_result (parse_named_function (rn_namespaces names)) (without_description raw_functions)) (\<lambda>fns.
     and_then (as_object (obj_get entries ''operators'') ''operators'') (\<lambda>raw_operators.
     and_then (as_object (obj_get entries ''stored_tree'') ''stored_tree'') (\<lambda>stored.
     and_then (as_object (obj_get entries ''theme'') ''theme'') (\<lambda>raw_theme.
     and_then (as_object (obj_get raw_theme ''palette_role_hints'') ''theme.palette_role_hints'') (\<lambda>hints.
     and_then (as_object (obj_get entries ''limits'') ''limits'') (\<lambda>raw_limits.
     and_then (as_object (obj_get entries ''catalogs'') ''catalogs'') (\<lambda>cats.
     and_then (as_object (obj_get cats ''standard'') ''catalogs.standard'') (\<lambda>standard.
     and_then (as_object (obj_get entries ''locals'') ''locals'') (\<lambda>local_rules.
     and_then (as_object (obj_get entries ''diagnostics'') ''diagnostics'') (\<lambda>raw_diagnostics.
     and_then (map_result parse_diagnostic (without_description raw_diagnostics)) (\<lambda>diags.
     and_then (as_number (obj_get entries ''vocab'') ''vocab'') (\<lambda>v.
     and_then (as_string (obj_get segments ''tasks'') ''agent_segments.tasks'') (\<lambda>tasks.
     and_then (as_string (obj_get segments ''assets'') ''agent_segments.assets'') (\<lambda>assets.
     and_then (as_strings (obj_get segments ''reserved_state_names'') ''agent_segments'') (\<lambda>rsn.
     and_then (as_object (obj_get segments ''fields'') ''agent_segments.fields'') (\<lambda>fields.
     and_then (as_string (obj_get stored ''explicit_id'') ''stored_tree.explicit_id'') (\<lambda>pattern.
     and_then (parse_theme raw_theme hints) (\<lambda>th.
     and_then (parse_limits raw_limits) (\<lambda>lim.
     and_then (as_number (obj_get cats ''base'') ''catalogs.base'') (\<lambda>base.
     and_then (map_result (\<lambda>(name, version). and_then (as_number version (''catalogs.standard.'' @ name))
                                              (\<lambda>n. Inr (name, n))) standard) (\<lambda>cat_table.
     and_then (parse_kind_table local_rules ''bind_kinds'') (\<lambda>binds.
     and_then (parse_kind_table local_rules ''arg_kinds'') (\<lambda>argks.
     Inr \<lparr>vocab = v, data_roots = rn_data names, scoped_roots = rn_scoped names,
          function_namespaces = rn_namespaces names, future_roots = rn_future names,
          reserved = rn_reserved names, tasks_segment = tasks, assets_segment = assets,
          reserved_state_names = rsn, agent_fields = map fst fields, kinds = kds, contexts = ctxs,
          blok_roots = blok_root_table, records = map (\<lambda>(n, r, _). (n, r)) recs,
          idle_task = (case List.map_filter (\<lambda>(_, _, idle). idle) recs of [] \<Rightarrow> [] | i # _ \<Rightarrow> i),
          function_table = fns, operators = parse_operators raw_operators, explicit_id = pattern,
          the_theme = th, the_limits = lim, base_version = base, catalogs = cat_table,
          bind_kinds = binds, arg_kinds = argks,
          diagnostics = diags\<rparr>)))))))))))))))))))))))))))))))))))))"

section \<open>Diagnostics\<close>

text \<open>
  A finding: the code's row of the table, where it is, and what its message is filled with. Two
  findings are equal in the code by code, level, message and path; the message is a function of
  the code and the fields.
\<close>

type_synonym fields = "(string \<times> message) list"

record finding =
  f_code :: string
  f_level :: level
  f_path :: "string option"
  f_fields :: fields

text \<open>\<open>Finding.of(code, at, **fields)\<close>; a code that is no row of the table is a \<open>KeyError\<close>.\<close>

definition finding_of :: "vocabulary \<Rightarrow> string \<Rightarrow> string option \<Rightarrow> fields \<Rightarrow> finding result" where
  "finding_of voc code place fs =
     (case map_of (diagnostics voc) code of
        None \<Rightarrow> Inl (KeyError [Txt code])
      | Some spec \<Rightarrow> Inr \<lparr>f_code = code, f_level = d_level spec, f_path = place, f_fields = fs\<rparr>)"

text \<open>\<open>BlokError(code, **fields)\<close> reads the row's message and hint, so an unknown code is a \<open>KeyError\<close>.\<close>

definition blok_error :: "vocabulary \<Rightarrow> string \<Rightarrow> fields \<Rightarrow> py_error" where
  "blok_error voc code fs =
     (if map_of (diagnostics voc) code = None then KeyError [Txt code] else BlokError code fs)"

definition blok_error_from_finding :: "finding \<Rightarrow> py_error" where
  "blok_error_from_finding f = BlokError (f_code f) (f_fields f)"

text \<open>\<open>Finding.to_json\<close>, its message left as its fields.\<close>

definition level_name :: "level \<Rightarrow> string" where
  "level_name l = (case l of Error \<Rightarrow> ''error'' | Warning \<Rightarrow> ''warning'')"

section \<open>What parsing guarantees\<close>

text \<open>The contradictions \<open>parse_vocabulary\<close> refuses.\<close>

definition coherent_vocabulary :: "vocabulary \<Rightarrow> bool" where
  "coherent_vocabulary voc =
     (set (reserved voc) = set (data_roots voc) \<union> set (scoped_roots voc)
                           \<union> set (function_namespaces voc) \<union> set (future_roots voc)
      \<and> list_all (\<lambda>(name, k). k_name k = name \<and> set (k_roots k) \<subseteq> set (data_roots voc)
                              \<and> set (k_contexts k) \<subseteq> set (map fst (contexts voc))) (kinds voc)
      \<and> list_all (\<lambda>(name, f). fn_name f = name
                   \<and> (first_part (CHR ''.'') name \<in> set (function_namespaces voc) \<or> name = ''task.answer''))
          (function_table voc)
      \<and> list_all (\<lambda>(code, d). d_code d = code) (diagnostics voc))"

lemma parse_roots_reserved:
  "parse_roots entries = Inr names \<Longrightarrow>
   set (rn_reserved names) = set (rn_data names) \<union> set (rn_scoped names)
                             \<union> set (rn_namespaces names) \<union> set (rn_future names)"
  by (auto simp: parse_roots_def Let_def result_iff split: if_splits)

lemma parse_kind_roots:
  "parse_kind roots p = Inr q \<Longrightarrow>
   k_name (snd q) = fst q \<and> set (k_roots (snd q)) \<subseteq> set roots"
  by (auto simp: parse_kind_def Let_def result_iff filter_empty_conv split: if_splits prod.splits)

lemma parse_named_function_name:
  "parse_named_function ns p = Inr q \<Longrightarrow>
   fn_name (snd q) = fst q \<and> (first_part (CHR ''.'') (fst q) \<in> set ns \<or> fst q = ''task.answer'')"
  by (auto simp: parse_named_function_def parse_function_def Let_def result_iff split: if_splits prod.splits)

lemma parse_diagnostic_code: "parse_diagnostic p = Inr q \<Longrightarrow> d_code (snd q) = fst q"
  by (auto simp: parse_diagnostic_def Let_def result_iff split: if_splits prod.splits)

lemma check_kind_contexts_ok:
  "check_kind_contexts ctxs k = Inr () \<longleftrightarrow> set (k_contexts k) \<subseteq> set (map fst ctxs)"
  by (auto simp: check_kind_contexts_def Let_def result_iff filter_empty_conv)

lemma list_all2_list_all:
  "list_all2 P xs ys \<Longrightarrow> (\<And>x y. P x y \<Longrightarrow> Q y) \<Longrightarrow> list_all Q ys"
  by (induction rule: list_all2_induct) auto

lemma parsed_kinds_ok:
  assumes "list_all2 (\<lambda>x y. parse_kind roots x = Inr y) raw kds"
    and "\<forall>k \<in> set (map snd kds). check_kind_contexts ctxs k = Inr ()"
  shows "list_all (\<lambda>(name, k). k_name k = name \<and> set (k_roots k) \<subseteq> set roots
                              \<and> set (k_contexts k) \<subseteq> set (map fst ctxs)) kds"
proof -
  have "list_all (\<lambda>q. k_name (snd q) = fst q \<and> set (k_roots (snd q)) \<subseteq> set roots) kds"
    using assms(1) by (rule list_all2_list_all) (rule parse_kind_roots)
  with assms(2) show ?thesis
    by (fastforce simp: list_all_iff check_kind_contexts_ok)
qed

text \<open>
  Whatever \<open>parse_vocabulary\<close> accepts is coherent: the reserved names are exactly the roots
  (data, scoped, function namespaces and future), every kind reads data roots only and is drawn in
  declared contexts only, every function is in a function namespace (or is \<open>task.answer\<close>), and every
  kind, function and diagnostic is filed under its own name.
\<close>

theorem parse_vocabulary_coherent:
  assumes "parse_vocabulary raw = Inr voc"
  shows "coherent_vocabulary voc"
  using assms
  unfolding parse_vocabulary_def coherent_vocabulary_def result_iff
  apply (elim exE conjE)
  apply (drule sym [of "Inr _" "Inr voc"])
  apply (simp only: sum.inject)
  apply (intro conjI)
     apply (simp add: parse_roots_reserved)
    apply (simp add: parsed_kinds_ok del: set_map)
   apply (simp add: list_all2_list_all [OF _ parse_named_function_name] case_prod_beta')
  apply (simp add: list_all2_list_all [OF _ parse_diagnostic_code] case_prod_beta')
  done

end
