(* ===== verification/Tree.thy ===== *)
theory Tree
  imports Calls Vocabulary
begin

text \<open>
  Component trees (\<open>rekuest_core/inputs/models.py\<close>): props, nodes, what they are held to when they
  are built, and the walks that need no visitor, from there and from \<open>vocabulary/walk.py\<close>: the nodes
  in order, the names task calls write to, the loop variable of a \<open>foreach\<close>, the paths a list of
  arguments reads, the dependencies an \<open>Anchor\<close> or a \<open>Route\<close> names.
\<close>

section \<open>The models\<close>

record dynamic_value =
  dv_literal :: "string option"
  dv_path :: "string option"

record component_prop =
  pr_key :: string
  static_value :: json
  dynamic_value :: "dynamic_value option"
  declares_value :: "string option"
  pr_agent_call :: "agent_call option"
  pr_util_call :: "util_call option"

datatype component_node =
  Node (node_id: string) (component: string) (props: "component_prop list option")
    (children: "component_node list option")

definition prop_bound :: "component_prop \<Rightarrow> string list" where
  "prop_bound p =
     (if has_value (static_value p) then [''static_value''] else []) @
     (if given (dynamic_value p) then [''dynamic_value''] else []) @
     (if given (pr_agent_call p) then [''agent_call''] else []) @
     (if given (pr_util_call p) then [''util_call''] else [])"

text \<open>\<open>check_at_most_one_binding\<close> of a prop.\<close>

definition check_prop_binding :: "component_prop \<Rightarrow> check" where
  "check_prop_binding p =
     (let bound = prop_bound p
      in raise_if (1 < length bound)
           (ValueError [Txt ''ComponentProp '', repr_str (pr_key p), Txt '' must set at most one of '',
                        Txt ''static_value, dynamic_value, agent_call, util_call'',
                        Txt '' (got '', repr_strs bound, Txt '')'']))"

definition wf_prop :: "component_prop \<Rightarrow> bool" where
  "wf_prop p = (check_prop_binding p = Inr () \<and>
     (case pr_agent_call p of None \<Rightarrow> True | Some c \<Rightarrow> wf_agent_call c) \<and>
     (case pr_util_call p of None \<Rightarrow> True | Some c \<Rightarrow> wf_util_call c))"

text \<open>\<open>prop.dynamic_value.path if prop.dynamic_value is not None else None\<close>.\<close>

definition prop_path :: "component_prop \<Rightarrow> string option" where
  "prop_path p = Option.bind (dynamic_value p) dv_path"

text \<open>\<open>prop.declares_value\<close> where the code asks for its truth: a non-empty name.\<close>

definition declared_name :: "component_prop \<Rightarrow> string option" where
  "declared_name p = (case declares_value p of None \<Rightarrow> None | Some n \<Rightarrow> if n = '''' then None else Some n)"

section \<open>Walks\<close>

fun iter_nodes :: "component_node \<Rightarrow> component_node list" where
  "iter_nodes (Node i c ps cs) = Node i c ps cs # concat (map iter_nodes (or_nil cs))"

text \<open>\<open>iter_component_nodes\<close>: every node of a list of trees, each before its children.\<close>

fun iter_component_nodes :: "component_node list \<Rightarrow> component_node list" where
  "iter_component_nodes [] = []"
| "iter_component_nodes (Node i c ps cs # ns) =
     Node i c ps cs # iter_component_nodes (or_nil cs) @ iter_component_nodes ns"

text \<open>\<open><Component> (id)\<close>, and the place of a prop: \<open>onClick of <Button> (Card[0])\<close>.\<close>

definition node_context :: "component_node \<Rightarrow> string" where
  "node_context n = ''<'' @ component n @ ''> ('' @ node_id n @ '')''"

definition prop_place :: "string \<Rightarrow> component_node \<Rightarrow> string" where
  "prop_place key n = key @ '' of '' @ node_context n"

definition action_key_for :: "agent_call \<Rightarrow> string" where
  "action_key_for call = last (split_on (CHR ''.'') (call_operation call))"

definition is_effect :: "vocabulary \<Rightarrow> util_call \<Rightarrow> bool" where
  "is_effect voc call =
     (case vocabulary_function voc (operation call) of None \<Rightarrow> False | Some f \<Rightarrow> fn_effect f)"

definition is_callback_value :: "vocabulary \<Rightarrow> component_prop \<Rightarrow> bool" where
  "is_callback_value voc p =
     (given (pr_agent_call p) \<or> (case pr_util_call p of None \<Rightarrow> False | Some c \<Rightarrow> is_effect voc c))"

definition FOREACH_COMPONENT :: string where "FOREACH_COMPONENT = ''foreach''"
definition FOREACH_LET_PROP :: string where "FOREACH_LET_PROP = ''let''"
definition FOREACH_ITEMS_PROP :: string where "FOREACH_ITEMS_PROP = ''items''"
definition FOREACH_KEY_PROP :: string where "FOREACH_KEY_PROP = ''key''"
definition SUSPENSE_COMPONENT :: string where "SUSPENSE_COMPONENT = ''suspense''"
definition ERROR_SLOT :: string where "ERROR_SLOT = ''error''"
definition WHEN_PROP :: string where "WHEN_PROP = ''when''"
definition BIND_PROP :: string where "BIND_PROP = ''bind''"

lemmas component_names =
  FOREACH_COMPONENT_def FOREACH_LET_PROP_def FOREACH_ITEMS_PROP_def FOREACH_KEY_PROP_def
  SUSPENSE_COMPONENT_def ERROR_SLOT_def WHEN_PROP_def BIND_PROP_def

text \<open>
  \<open>into_sites\<close>: every name a task call writes its record to, with each call site in tree order; a
  dict in the order the names first appear (\<open>setdefault(name, []).append(site)\<close>).
\<close>

type_synonym site = "agent_call \<times> string"

fun into_props :: "component_node \<Rightarrow> (string \<times> site) list" where
  "into_props n = List.map_filter (\<lambda>p. case (pr_agent_call p, declared_name p) of
       (Some call, Some name) \<Rightarrow> Some (name, call, prop_place (pr_key p) n)
     | _ \<Rightarrow> None) (or_nil (props n))"

definition into_list :: "component_node \<Rightarrow> (string \<times> site) list" where
  "into_list node = concat (map into_props (iter_nodes node))"

fun add_site :: "(string \<times> site list) list \<Rightarrow> string \<times> site \<Rightarrow> (string \<times> site list) list" where
  "add_site [] (name, s) = [(name, [s])]"
| "add_site ((n, ss) # found) (name, s) =
     (if n = name then (n, ss @ [s]) # found else (n, ss) # add_site found (name, s))"

definition into_sites :: "component_node \<Rightarrow> (string \<times> site list) list" where
  "into_sites node = foldl add_site [] (into_list node)"

definition foreach_let :: "component_node \<Rightarrow> string option" where
  "foreach_let n =
     (if component n \<noteq> FOREACH_COMPONENT then None
      else Option.bind (find (\<lambda>p. pr_key p = FOREACH_LET_PROP \<and> given (declared_name p)) (or_nil (props n)))
             declared_name)"

text \<open>\<open>argument_paths\<close>: every path the arguments read, depth first.\<close>

fun argument_paths :: "argument list \<Rightarrow> string list" where
  "argument_paths [] = []"
| "argument_paths (Argument k lit p ac uc vl vd # as) =
     (case p of None \<Rightarrow> [] | Some path \<Rightarrow> [path]) @
     (case uc of None \<Rightarrow> [] | Some c \<Rightarrow> argument_paths (or_nil (arguments c))) @
     (case ac of None \<Rightarrow> [] | Some c \<Rightarrow> argument_paths (or_nil (call_arguments c))) @
     argument_paths (or_nil vl) @ argument_paths (or_nil vd) @ argument_paths as"

section \<open>Anchors\<close>

definition ANCHOR_COMPONENT :: string where "ANCHOR_COMPONENT = ''Anchor''"
definition ROUTE_COMPONENT :: string where "ROUTE_COMPONENT = ''Route''"

definition anchored_by :: "component_node \<Rightarrow> component_prop \<Rightarrow> (string \<times> string) list" where
  "anchored_by n p =
     (if component n = ANCHOR_COMPONENT \<and> pr_key p = ''dep'' \<and> is_str (static_value p)
      then (case static_value p of JStr s \<Rightarrow> [(s, node_id n)] | _ \<Rightarrow> [])
      else if component n = ROUTE_COMPONENT \<and> pr_key p = ''through''
      then (case static_value p of
              JList keys \<Rightarrow> map (\<lambda>s. (s, node_id n)) (List.map_filter json_str keys)
            | _ \<Rightarrow> [])
      else [])"

text \<open>\<open>anchored_keys\<close>: every dependency an \<open>Anchor\<close>'s \<open>dep\<close> or a \<open>Route\<close>'s \<open>through\<close> names.\<close>

definition anchored_keys :: "component_node list \<Rightarrow> (string \<times> string) list" where
  "anchored_keys components =
     concat (map (\<lambda>n. concat (map (anchored_by n) (or_nil (props n)))) (iter_component_nodes components))"

definition check_action_blok_anchors :: "component_node list \<Rightarrow> string list \<Rightarrow> check" where
  "check_action_blok_anchors components dependency_keys =
     for_each (\<lambda>(key, at_node). raise_if (key \<notin> set dependency_keys)
       (ValueError [Txt ''Blok manifest: component '', repr_str at_node, Txt '' names '', repr_str key,
                    Txt '', which is not a dependency of the action'', repr_strs (sorted_set dependency_keys)]))
       (anchored_keys components)"

section \<open>Facts\<close>

lemma iter_component_nodes_eq: "iter_component_nodes ns = concat (map iter_nodes ns)"
  by (induction ns rule: iter_component_nodes.induct) auto

lemma root_in_iter_nodes [simp]: "n \<in> set (iter_nodes n)"
  by (cases n) auto

lemma iter_nodes_children:
  "m \<in> set (iter_nodes n) \<longleftrightarrow> m = n \<or> (\<exists>c \<in> set (or_nil (children n)). m \<in> set (iter_nodes c))"
  by (cases n) auto

lemma add_site_keys:
  "map fst (add_site found (name, s)) =
   (if name \<in> fst ` set found then map fst found else map fst found @ [name])"
  by (induction found "(name, s)" rule: add_site.induct) auto

lemma add_site_distinct:
  "distinct (map fst found) \<Longrightarrow> distinct (map fst (add_site found x))"
  by (cases x) (auto simp: add_site_keys)

lemma add_site_lookup:
  "map_of (add_site found (name, s)) n =
   (if n = name then Some ((case map_of found n of None \<Rightarrow> [] | Some ss \<Rightarrow> ss) @ [s]) else map_of found n)"
  by (induction found "(name, s)" rule: add_site.induct) auto

lemma foldl_add_site_lookup:
  "map_of (foldl add_site found xs) n =
   (let new = map snd (filter (\<lambda>x. fst x = n) xs)
    in if new = [] then map_of found n
       else Some ((case map_of found n of None \<Rightarrow> [] | Some ss \<Rightarrow> ss) @ new))"
proof (induction xs arbitrary: found)
  case (Cons x xs)
  obtain name s where "x = (name, s)" by (cases x)
  with Cons.IH [of "add_site found (name, s)"] show ?case
    by (auto simp: add_site_lookup Let_def)
qed simp

lemma foldl_add_site_distinct:
  "distinct (map fst found) \<Longrightarrow> distinct (map fst (foldl add_site found xs))"
  by (induction xs arbitrary: found) (auto simp: add_site_distinct)

text \<open>Each name once, with all its call sites in tree order.\<close>

lemma into_sites_lookup:
  "map_of (into_sites node) name =
   (let sites = map snd (filter (\<lambda>x. fst x = name) (into_list node)) in if sites = [] then None else Some sites)"
  by (simp add: into_sites_def foldl_add_site_lookup Let_def)

lemma into_sites_distinct: "distinct (map fst (into_sites node))"
  by (simp add: into_sites_def foldl_add_site_distinct)

lemma into_sites_nonempty: "(name, sites) \<in> set (into_sites node) \<Longrightarrow> sites \<noteq> []"
  using into_sites_lookup [of node name] into_sites_distinct [of node]
  by (auto simp: Let_def dest: map_of_is_SomeI split: if_splits)

lemma into_sites_names: "fst ` set (into_sites node) = fst ` set (into_list node)"
proof -
  have "name \<in> fst ` set (into_sites node) \<longleftrightarrow> name \<in> fst ` set (into_list node)" for name
    using into_sites_lookup [of node name] map_of_eq_None_iff [of "into_sites node" name]
    by (force simp: Let_def filter_empty_conv image_iff split: if_splits)
  then show ?thesis by blast
qed

lemma into_sites_same_name:
  assumes "(name, sites) \<in> set (into_sites node)"
  shows "map (\<lambda>s. (name, s)) sites = filter (\<lambda>x. fst x = name) (into_list node)"
proof -
  have "map_of (into_sites node) name = Some sites"
    using assms into_sites_distinct by (simp add: map_of_is_SomeI)
  then have "sites = map snd (filter (\<lambda>x. fst x = name) (into_list node))"
    by (simp add: into_sites_lookup Let_def split: if_splits)
  then show ?thesis by (auto intro!: map_idI simp: o_def)
qed

text \<open>
  A tree's anchors pass exactly when every dependency a literal \<open>dep\<close> or \<open>through\<close> names, in any
  node of it, is one of the action's.
\<close>

theorem check_action_blok_anchors_iff:
  "check_action_blok_anchors components keys = Inr () \<longleftrightarrow>
     (\<forall>root \<in> set components. \<forall>n \<in> set (iter_nodes root). \<forall>p \<in> set (or_nil (props n)).
        \<forall>(key, at_node) \<in> set (anchored_by n p). key \<in> set keys)"
  by (simp add: check_action_blok_anchors_def anchored_keys_def iter_component_nodes_eq result_iff
        case_prod_beta)

end
