(* ===== verification/Ports.thy ===== *)
theory Ports
  imports Tree
begin

text \<open>
  Ports and their widgets (\<open>rekuest_core/inputs/models.py\<close>, the port kinds of \<open>enums.py\<close>): the
  models of effects, validators, choices, descriptors, widgets and ports, and what each is held to
  when it is built. A validator that rewrites its model (a literal bool to its int) returns the
  model it leaves. GraphQL's parser (\<open>graphql_of\<close>) is a parameter.
\<close>

section \<open>Kinds\<close>

datatype port_kind =
    K_INT | K_STRING | K_STRUCTURE | K_LIST | K_BOOL | K_DICT | K_FLOAT | K_DATE | K_UNION | K_ENUM
  | K_MODEL | K_MEMORY_STRUCTURE | K_INTERFACE | K_QUANTITY

primrec port_kind_value :: "port_kind \<Rightarrow> string" where
  "port_kind_value K_INT = ''INT''"
| "port_kind_value K_STRING = ''STRING''"
| "port_kind_value K_STRUCTURE = ''STRUCTURE''"
| "port_kind_value K_LIST = ''LIST''"
| "port_kind_value K_BOOL = ''BOOL''"
| "port_kind_value K_DICT = ''DICT''"
| "port_kind_value K_FLOAT = ''FLOAT''"
| "port_kind_value K_DATE = ''DATE''"
| "port_kind_value K_UNION = ''UNION''"
| "port_kind_value K_ENUM = ''ENUM''"
| "port_kind_value K_MODEL = ''MODEL''"
| "port_kind_value K_MEMORY_STRUCTURE = ''MEMORY_STRUCTURE''"
| "port_kind_value K_INTERFACE = ''INTERFACE''"
| "port_kind_value K_QUANTITY = ''QUANTITY''"

text \<open>\<open>LocalKind\<close>: a port kind, or \<open>ANY\<close>.\<close>

datatype local_kind = Kind port_kind | K_ANY

primrec local_kind_value :: "local_kind \<Rightarrow> string" where
  "local_kind_value (Kind k) = port_kind_value k"
| "local_kind_value K_ANY = ''ANY''"

lemma port_kind_value_inject [simp]: "port_kind_value k = port_kind_value l \<longleftrightarrow> k = l"
  by (cases k; cases l) simp_all

lemma local_kind_value_inject [simp]: "local_kind_value k = local_kind_value l \<longleftrightarrow> k = l"
proof (cases k; cases l)
  fix a assume "k = Kind a" "l = K_ANY" then show ?thesis by (cases a) simp_all
next
  fix a assume "k = K_ANY" "l = Kind a" then show ?thesis by (cases a) simp_all
qed simp_all

datatype effect_kind = EFFECT_MESSAGE | EFFECT_HIDE | EFFECT_CUSTOM

datatype descriptor_operator =
    MATCHES | EXISTS | LTE | GTE | EQUALS | CONTAINS | NOT_EQUALS | IN_LIST | NOT_IN

section \<open>The models\<close>

text \<open>\<open>ef_fade\<close> is \<open>None\<close> where the field was not given (it is \<open>True\<close> then).\<close>

record effect =
  ef_call :: util_call
  ef_dependencies :: "string list option"
  ef_message :: "string option"
  ef_kind :: effect_kind
  ef_fade :: "bool option"

record choice =
  ch_value :: json
  ch_label :: string

record port_validator =
  va_call :: util_call
  va_dependencies :: "string list option"
  va_label :: "string option"
  va_error_message :: "string option"

record state_accessor =
  sa_path :: "string option"
  sa_call :: "util_call option"

record descriptor_demand =
  dd_key :: string
  dd_operator :: descriptor_operator
  dd_value :: json

record optimistic =
  op_state :: string
  op_path :: "string option"
  op_path_call :: "util_call option"
  op_accessor :: "string option"

record port_base =
  pt_key :: string
  pt_kind :: port_kind
  pt_identifier :: "string option"
  pt_nullable :: bool
  pt_effects :: "effect list option"
  pt_choices :: "choice list option"
  pt_reference_unit :: "string option"
  pt_proposed_units :: "string list option"
  pt_dimension :: "string option"

datatype arg_port =
  ArgPort (a_base: port_base) (validators: "port_validator list option") (port_default: json)
    (widget: "assign_widget option") (requires: "descriptor_demand list option")
    (arg_children: "arg_port list option")
and assign_widget =
    Slider (follow_value: "string option") (slider_min: "rat option") (slider_max: "rat option") (slider_step: "rat option")
  | Choice_widget (follow_value: "string option")
  | String_widget (follow_value: "string option")
  | Search (follow_value: "string option") (search_query: string) (search_ward: string) (search_filters: "arg_port list option")
      (search_dependencies: "string list option")
  | Custom (follow_value: "string option") (custom_component: string) (custom_props: "component_prop list option")
      (custom_children: "component_node list option") (custom_dependencies: "string list option")
      (custom_fallback: "assign_widget option")
  | State_choice (follow_value: "string option") (state_path: "string option") (state_call: "util_call option")
      (state_accessors: "state_accessor list option") (state_dependencies: "string list option")
      (state_dependency: "string option")
  | Proxy (follow_value: "string option") (target_port: string) (target_action: string) (target_dependency: "string option")

datatype return_widget =
    Choice_return
  | Custom_return (return_component: string) (return_props: "component_prop list option")

datatype return_port =
  ReturnPort (r_base: port_base) (return_widget: "return_widget option")
    (provides: "descriptor_demand list option") (return_children: "return_port list option")

primrec widget_kind :: "assign_widget \<Rightarrow> string" where
  "widget_kind (Slider f lo hi st) = ''SLIDER''"
| "widget_kind (Choice_widget f) = ''CHOICE''"
| "widget_kind (String_widget f) = ''STRING''"
| "widget_kind (Search f q w fs ds) = ''SEARCH''"
| "widget_kind (Custom f c ps cs ds fb) = ''CUSTOM''"
| "widget_kind (State_choice f p c acc ds d) = ''STATE_CHOICE''"
| "widget_kind (Proxy f p a d) = ''PROXY''"

abbreviation a_key_of :: "arg_port \<Rightarrow> string" where "a_key_of p \<equiv> pt_key (a_base p)"
abbreviation a_kind :: "arg_port \<Rightarrow> port_kind" where "a_kind p \<equiv> pt_kind (a_base p)"
abbreviation a_nullable :: "arg_port \<Rightarrow> bool" where "a_nullable p \<equiv> pt_nullable (a_base p)"
abbreviation r_key_of :: "return_port \<Rightarrow> string" where "r_key_of p \<equiv> pt_key (r_base p)"

section \<open>Keys and paths\<close>

definition ITEM_KEY :: string where "ITEM_KEY = ''...''"

definition check_port_key :: "string \<Rightarrow> message \<Rightarrow> check" where
  "check_port_key key owner =
     run_checks
       [raise_if (key = '''') (ValueError (owner @ [Txt '': port key must not be empty''])),
        raise_if (key = ''value'')
          (ValueError (owner @ [Txt '': '', repr_str key, Txt '' is a reserved port key''])),
        raise_if (has_dotdot key \<and> key \<noteq> ITEM_KEY)
          (ValueError (owner @ [Txt '': port key '', repr_str key, Txt '' may not contain '', repr_str ''..'']))]"

text \<open>
  \<open>_resolve_port_path\<close> reads only the keys of argument and return ports (their \<open>key_tree\<close>): every \<open>..\<close>
  segment is the key of a child of the port before it.
\<close>

datatype key_tree = KeyTree (kt_key: string) (kt_children: "key_tree list")

fun arg_keys :: "arg_port list \<Rightarrow> key_tree list" where
  "arg_keys [] = []"
| "arg_keys (ArgPort b vs d w rq cs # ps) = KeyTree (pt_key b) (arg_keys (or_nil cs)) # arg_keys ps"

fun return_keys :: "return_port list \<Rightarrow> key_tree list" where
  "return_keys [] = []"
| "return_keys (ReturnPort b w pr cs # ps) = KeyTree (pt_key b) (return_keys (or_nil cs)) # return_keys ps"

fun resolve_segments :: "string list \<Rightarrow> key_tree list \<Rightarrow> bool" where
  "resolve_segments [] candidates = True"
| "resolve_segments (s # ss) candidates =
     (case find (\<lambda>p. kt_key p = s) candidates of
        None \<Rightarrow> False
      | Some p \<Rightarrow> resolve_segments ss (kt_children p))"

definition resolve_port_path :: "string \<Rightarrow> key_tree list \<Rightarrow> bool" where
  "resolve_port_path path ports = resolve_segments (split_dotdot path) ports"

section \<open>Effects, validators, accessors, descriptors\<close>

definition check_effect :: "effect \<Rightarrow> effect result" where
  "check_effect e =
     and_then (check_pure_call (ef_call e) (ef_dependencies e) [Txt ''Effect '', Txt (operation (ef_call e))] [] False)
       (\<lambda>call.
     and_then (raise_if (ef_kind e = EFFECT_MESSAGE \<and> (ef_message e = None \<or> ef_message e = Some ''''))
                 (ValueError [Txt ''MESSAGE effect requires a message''])) (\<lambda>_.
     and_then (raise_if (ef_kind e \<noteq> EFFECT_HIDE \<and> given (ef_fade e))
                 (ValueError [Txt ''effect must not set fade (HIDE only)''])) (\<lambda>_.
     Inr (e\<lparr>ef_call := call\<rparr>))))"

definition check_validator :: "port_validator \<Rightarrow> port_validator result" where
  "check_validator v =
     and_then (check_pure_call (va_call v) (va_dependencies v)
                 [Txt ''Validator '', Txt (case va_label v of None \<Rightarrow> operation (va_call v)
                                           | Some l \<Rightarrow> if l = '''' then operation (va_call v) else l)] [] False)
       (\<lambda>call. Inr (v\<lparr>va_call := call\<rparr>))"

definition check_state_accessor :: "state_accessor \<Rightarrow> check" where
  "check_state_accessor a =
     raise_if (given (sa_path a) \<and> given (sa_call a))
       (ValueError [Txt ''StateAccessor: set either path or call, not both''])"

definition check_descriptor :: "message \<Rightarrow> descriptor_demand \<Rightarrow> check" where
  "check_descriptor owner d =
     run_checks
       [raise_if (dd_key d = '''') (ValueError [Txt ''key'']),
        raise_if (dd_operator d \<in> {IN_LIST, NOT_IN} \<and> \<not> is_list (dd_value d))
          (ValueError (owner @ [repr_str (dd_key d), Txt '' needs a list value''])),
        raise_if (dd_operator d \<in> {LTE, GTE} \<and> (is_bool (dd_value d) \<or> \<not> isinstance_number (dd_value d)))
          (ValueError (owner @ [repr_str (dd_key d), Txt '' needs a numeric value''])),
        raise_if (dd_operator d = EXISTS \<and> has_value (dd_value d) \<and> \<not> is_bool (dd_value d))
          (ValueError (owner @ [repr_str (dd_key d), Txt '': EXISTS takes no value or a boolean'']))]"

definition check_optimistic :: "optimistic \<Rightarrow> optimistic result" where
  "check_optimistic o' =
     and_then (raise_if ((op_path o' = None) = (op_path_call o' = None))
        (ValueError [Txt ''Optimistic needs exactly one of path or path_call''])) (\<lambda>_.
     case op_path_call o' of
       None \<Rightarrow> Inr o'
     | Some call \<Rightarrow>
         and_then (check_pure_call call (Some []) [Txt ''Optimistic '', Txt (op_state o')] [''args''] False)
           (\<lambda>call'. Inr (o'\<lparr>op_path_call := Some call'\<rparr>)))"

section \<open>Widgets\<close>

text \<open>\<open>_as_widget_prop\<close> and the loop body of \<open>_check_widget_props\<close>.\<close>

definition as_widget_prop :: "message \<Rightarrow> component_prop \<Rightarrow> component_prop result" where
  "as_widget_prop owner p =
     and_then (raise_if (is_list (static_value p))
        (ValueError (owner @ [Txt '': static_value must be a string, number or dict'']))) (\<lambda>_.
     let p' = (case static_value p of
                 JBool b \<Rightarrow> p\<lparr>static_value := JInt (if b then 1 else 0)\<rparr> | _ \<Rightarrow> p)
     in and_then (raise_if (prop_bound p' = [] \<and> declared_name p' = None)
          (ValueError [Txt ''ComponentProp '', repr_str (pr_key p'),
                       Txt '' is neither bound nor declares a value''])) (\<lambda>_. Inr p'))"

definition check_widget_prop :: "string list option \<Rightarrow> message \<Rightarrow> component_prop \<Rightarrow> component_prop result" where
  "check_widget_prop dependencies owner p =
     (let prop_owner = owner @ [Txt '' prop '', repr_str (pr_key p)];
          allowed = or_nil dependencies @ [''value'']
      in and_then (as_widget_prop prop_owner p) (\<lambda>p'.
         and_then (raise_if (given (pr_agent_call p'))
           (ValueError (prop_owner @ [Txt '' must be pure: agent calls are not allowed in widgets'']))) (\<lambda>_.
         and_then (case prop_path p' of None \<Rightarrow> Inr ()
                   | Some path \<Rightarrow> raise_if (value_path_root path \<notin> set allowed)
                       (ValueError (prop_owner @ [Txt '' references '', repr_str (value_path_root path),
                          Txt '' via dynamic_value.path but it is not in dependencies'']))) (\<lambda>_.
         case pr_util_call p' of
           None \<Rightarrow> Inr p'
         | Some call \<Rightarrow>
             and_then (check_pure_call call dependencies prop_owner [] False)
               (\<lambda>call'. Inr (p'\<lparr>pr_util_call := Some call'\<rparr>))))))"

definition check_widget_props ::
  "string list option \<Rightarrow> message \<Rightarrow> component_prop list option \<Rightarrow> component_prop list option result" where
  "check_widget_props dependencies owner ps =
     (case ps of None \<Rightarrow> Inr None
      | Some xs \<Rightarrow> and_then (map_result (check_widget_prop dependencies owner) xs) (\<lambda>ys. Inr (Some ys)))"

text \<open>\<open>_check_widget_tree\<close>, which rewrites nothing (a call checked with \<open>blok\<close> keeps its literals).\<close>

definition declared_names :: "component_prop list option \<Rightarrow> string list" where
  "declared_names ps = List.map_filter declared_name (or_nil ps)"

definition check_tree_prop :: "string list \<Rightarrow> message \<Rightarrow> component_prop \<Rightarrow> check" where
  "check_tree_prop in_scope owner p =
     run_checks
       [raise_if (given (pr_agent_call p))
          (ValueError (owner @ [Txt '' must be pure: agent calls are not allowed in widgets''])),
        (case prop_path p of None \<Rightarrow> Inr ()
         | Some path \<Rightarrow>
             raise_if (blok_path_root path \<noteq> ''value'' \<and> blok_path_root path \<notin> set in_scope)
               (ValueError (owner @ [Txt '' references '', repr_str (blok_path_root path),
                  Txt '' via dynamic_value.path but it is not in dependencies'']))),
        (case pr_util_call p of None \<Rightarrow> Inr ()
         | Some call \<Rightarrow> and_then (check_pure_call call (Some in_scope) owner [] True) (\<lambda>_. Inr ()))]"

fun check_widget_tree :: "component_node list \<Rightarrow> string list \<Rightarrow> message \<Rightarrow> check" where
  "check_widget_tree [] dependencies owner = Inr ()"
| "check_widget_tree (Node i c ps cs # ns) dependencies owner =
     (let in_scope = dependencies @ declared_names ps
      in and_then (for_each (\<lambda>p. check_tree_prop in_scope
                     (owner @ [Txt '' node '', repr_str i, Txt '' prop '', repr_str (pr_key p)]) p) (or_nil ps)) (\<lambda>_.
         and_then (check_widget_tree (or_nil cs) in_scope owner) (\<lambda>_.
         check_widget_tree ns dependencies owner)))"

definition check_slider :: "rat option \<Rightarrow> rat option \<Rightarrow> rat option \<Rightarrow> check" where
  "check_slider lo hi st =
     run_checks
       [(case (lo, hi) of
           (Some a, Some b) \<Rightarrow> raise_if (b \<le> a)
              (ValueError [Txt ''SLIDER widget: min ('', Repr (JFloat a), Txt '') must be smaller than max ('',
                           Repr (JFloat b), Txt '')''])
         | _ \<Rightarrow> Inr ()),
        (case st of None \<Rightarrow> Inr ()
         | Some s \<Rightarrow> raise_if (s \<le> 0)
             (ValueError [Txt ''SLIDER widget: step must be positive, got '', Repr (JFloat s)]))]"

text \<open>
  \<open>check_query\<close>: \<open>graphql_of\<close> is \<open>graphql.parse\<close>, a document as its operation definitions, each with
  whether it is a query and the variables it declares; \<open>None\<close> is a syntax error.
\<close>

type_synonym graphql = "string \<Rightarrow> (bool \<times> string list) list option"

definition check_search :: "graphql \<Rightarrow> string \<Rightarrow> arg_port list option \<Rightarrow> check" where
  "check_search graphql_of query filters =
     (case graphql_of query of
        None \<Rightarrow> Inl (ValueError [Txt ''SEARCH widget query does not parse''])
      | Some operations \<Rightarrow>
          if length operations \<noteq> 1 \<or> \<not> fst (operations ! 0)
          then Inl (ValueError [Txt ''SEARCH widget query must contain exactly one `query` operation''])
          else
            let declared = snd (operations ! 0);
                missing = filter (\<lambda>n. n \<notin> set declared) [''search'', ''values''];
                keys = map a_key_of (or_nil filters);
                duplicates = sorted_set (filter (\<lambda>k. 1 < count_list keys k) keys);
                undeclared = sorted_set (filter (\<lambda>k. k \<notin> set declared) keys)
            in run_checks
                [raise_if (missing \<noteq> [])
                   (ValueError [Txt ''SEARCH widget query must declare the variables '', repr_strs missing]),
                 raise_if (duplicates \<noteq> [])
                   (ValueError [Txt ''SEARCH widget filters have duplicate keys '', repr_strs duplicates]),
                 raise_if (''value'' \<in> set keys)
                   (ValueError [Txt ''SEARCH widget filters may not use the reserved key 'value' '']),
                 raise_if (''requires'' \<in> set keys)
                   (ValueError [Txt ''SEARCH widget filters may not use the reserved key 'requires' '']),
                 raise_if (undeclared \<noteq> [])
                   (ValueError [Txt ''SEARCH widget query must declare a variable for each filter port: missing '',
                                repr_strs undeclared])])"

definition check_custom_component :: "string \<Rightarrow> check" where
  "check_custom_component c = raise_if (c = '''') (ValueError [Txt ''component''])"

text \<open>\<open>check_pointer\<close>, the accessors' own check first (they are built before the widget).\<close>

definition check_accessor_call :: "string list option \<Rightarrow> state_accessor \<Rightarrow> state_accessor result" where
  "check_accessor_call dependencies a =
     and_then (check_state_accessor a) (\<lambda>_.
     case sa_call a of
       None \<Rightarrow> Inr a
     | Some call \<Rightarrow> and_then (check_pure_call call dependencies [Txt ''StateAccessor''] [''state''] False)
         (\<lambda>call'. Inr (a\<lparr>sa_call := Some call'\<rparr>)))"

definition check_state_choice ::
  "string option \<Rightarrow> util_call option \<Rightarrow> state_accessor list option \<Rightarrow> string list option \<Rightarrow>
   (util_call option \<times> state_accessor list option) result" where
  "check_state_choice path call accessors dependencies =
     and_then (raise_if ((path = None) = (call = None))
       (ValueError [Txt ''STATE_CHOICE widget needs exactly one of state_path or state_call''])) (\<lambda>_.
     and_then (case call of None \<Rightarrow> Inr None
               | Some c \<Rightarrow> and_then (check_pure_call c dependencies [Txt ''StateChoice state_call''] [''state''] False)
                             (\<lambda>c'. Inr (Some c'))) (\<lambda>call'.
     and_then (case accessors of None \<Rightarrow> Inr None
               | Some as \<Rightarrow> and_then (map_result (check_accessor_call dependencies) as) (\<lambda>as'. Inr (Some as'))) (\<lambda>accessors'.
     Inr (call', accessors'))))"

text \<open>\<open>iter_widget_chain\<close>: a widget followed by its fallbacks.\<close>

fun iter_widget_chain :: "assign_widget option \<Rightarrow> assign_widget list" where
  "iter_widget_chain None = []"
| "iter_widget_chain (Some (Custom f c ps cs ds fb)) = Custom f c ps cs ds fb # iter_widget_chain fb"
| "iter_widget_chain (Some w) = [w]"

definition widget_port_kinds :: "string \<Rightarrow> port_kind list option" where
  "widget_port_kinds k =
     (if k = ''SLIDER'' then Some [K_INT, K_FLOAT, K_QUANTITY]
      else if k = ''STRING'' then Some [K_STRING]
      else if k = ''SEARCH'' then Some [K_STRUCTURE, K_MEMORY_STRUCTURE, K_LIST]
      else None)"

definition outside_slider :: "assign_widget \<Rightarrow> json \<Rightarrow> bool" where
  "outside_slider w d =
     (case w of
        Slider f lo hi st \<Rightarrow>
          if is_bool d then False
          else (case num_value d of
                  None \<Rightarrow> False
                | Some x \<Rightarrow> (case lo of None \<Rightarrow> False | Some a \<Rightarrow> x < a) \<or> (case hi of None \<Rightarrow> False | Some b \<Rightarrow> b < x))
      | _ \<Rightarrow> False)"

definition check_widget_fits_port :: "assign_widget \<Rightarrow> arg_port \<Rightarrow> check" where
  "check_widget_fits_port w p =
     run_checks
       [(case widget_port_kinds (widget_kind w) of
           None \<Rightarrow> Inr ()
         | Some fits \<Rightarrow> raise_if (a_kind p \<notin> set fits)
             (ValueError [Txt ''Port '', repr_str (a_key_of p), Txt '' of kind '', Txt (port_kind_value (a_kind p)),
                          Txt '' cannot use a '', Txt (widget_kind w), Txt '' widget''])),
        raise_if (widget_kind w = ''SEARCH'' \<and> a_kind p = K_LIST \<and>
                  (case or_nil (arg_children p) of [] \<Rightarrow> True
                   | c # _ \<Rightarrow> a_kind c \<notin> {K_STRUCTURE, K_MEMORY_STRUCTURE}))
          (ValueError [Txt ''Port '', repr_str (a_key_of p),
                       Txt '': a SEARCH widget on a LIST port needs a STRUCTURE child'']),
        raise_if (widget_kind w = ''CHOICE'' \<and> or_nil (pt_choices (a_base p)) = [])
          (ValueError [Txt ''Port '', repr_str (a_key_of p),
                       Txt '': a CHOICE widget needs the port to declare `choices`'']),
        raise_if (outside_slider w (port_default p))
          (ValueError [Txt ''Port '', repr_str (a_key_of p), Txt '': default '', Repr (port_default p),
                       Txt '' lies outside the SLIDER range''])]"

definition check_default_in_choices :: "arg_port \<Rightarrow> check" where
  "check_default_in_choices p =
     (let cs = map ch_value (or_nil (pt_choices (a_base p)))
      in raise_if (cs \<noteq> [] \<and> has_value (port_default p) \<and> \<not> list_ex (\<lambda>v. py_eq v (port_default p)) cs)
           (ValueError [Txt ''Port '', repr_str (a_key_of p), Txt '': default '', Repr (port_default p),
                        Txt '' is not one of its choices '', Repr (JList cs)]))"

section \<open>The structure of a port\<close>

definition identifier_char :: "char \<Rightarrow> bool" where
  "identifier_char c = (is_alpha c \<or> is_digit c \<or> c \<in> set ''_.-'')"

text \<open>
  \<open>IDENTIFIER_PATTERN.match\<close>: \<open>^@[A-Za-z0-9_.-]+/[A-Za-z0-9_.-]+$\<close>, where Python's \<open>$\<close> also matches
  before a final newline.
\<close>

definition identifier_matches :: "string \<Rightarrow> bool" where
  "identifier_matches s =
     (s \<noteq> [] \<and> hd s = CHR ''@'' \<and>
      (let rest = tl s;
           body = (if rest \<noteq> [] \<and> last rest = CHR 0x0A then butlast rest else rest);
           parts = split_on (CHR ''/'') body
       in length parts = 2 \<and> list_all (\<lambda>w. w \<noteq> [] \<and> list_all identifier_char w) parts))"

definition child_count :: "port_kind \<Rightarrow> (nat \<times> nat option) option" where
  "child_count k =
     (case k of K_LIST \<Rightarrow> Some (1, Some 1) | K_DICT \<Rightarrow> Some (1, None) | K_UNION \<Rightarrow> Some (2, None)
      | K_MODEL \<Rightarrow> Some (1, None) | _ \<Rightarrow> None)"

definition identified :: "port_kind \<Rightarrow> bool" where
  "identified k = (k \<in> {K_STRUCTURE, K_MEMORY_STRUCTURE, K_INTERFACE})"

definition identifiable :: "port_kind \<Rightarrow> bool" where
  "identifiable k = (k \<in> {K_MODEL, K_ENUM})"

definition has_choices :: "port_kind \<Rightarrow> bool" where
  "has_choices k = (k \<in> {K_ENUM, K_INT, K_FLOAT, K_STRING})"

text \<open>\<open>_check_port_shape\<close>: the port itself and the keys of its children.\<close>

definition check_children_shape :: "message \<Rightarrow> port_kind \<Rightarrow> string list \<Rightarrow> check" where
  "check_children_shape owner k keys =
     (case child_count k of
        None \<Rightarrow> raise_if (keys \<noteq> []) (ValueError (owner @ [Txt '' must not have children'']))
      | Some (low, high) \<Rightarrow>
          run_checks
            [raise_if (length keys < low \<or> (case high of None \<Rightarrow> False | Some h \<Rightarrow> h < length keys))
               (ValueError (owner @ [Txt '' must have '', Txt (if (low, high) = (1, Some 1) then ''exactly one child''
                  else ''at least that many children''), Txt '', got '', shown_int (int (length keys))])),
             check_unique (map JStr keys) ''key'' (owner @ [Txt '' children'']),
             raise_if (k = K_DICT \<and> 1 < length keys \<and> ITEM_KEY \<in> set keys)
               (ValueError (owner @ [Txt '': a DICT is either homogeneous or has named children, not both'']))])"

definition check_identifier :: "message \<Rightarrow> port_kind \<Rightarrow> string option \<Rightarrow> check" where
  "check_identifier owner k ident =
     (if identified k
      then (case ident of
              None \<Rightarrow> Inl (ValueError (owner @ [Txt '' must declare an identifier (@package/key)'']))
            | Some i \<Rightarrow>
                if i = '''' then Inl (ValueError (owner @ [Txt '' must declare an identifier (@package/key)'']))
                else raise_if (\<not> identifier_matches i)
                  (ValueError (owner @ [Txt '': identifier '', repr_str i, Txt '' is not of the form @package/key''])))
      else (case ident of
              None \<Rightarrow> Inr ()
            | Some i \<Rightarrow>
                if \<not> identifiable k then Inl (ValueError (owner @ [Txt '' must not declare an identifier'']))
                else raise_if (\<not> identifier_matches i)
                  (ValueError (owner @ [Txt '': identifier '', repr_str i, Txt '' is not of the form @package/key'']))))"

definition check_port_shape :: "port_base \<Rightarrow> string list \<Rightarrow> check" where
  "check_port_shape p keys =
     (let owner = [Txt ''Port '', repr_str (pt_key p), Txt '' of kind '', Txt (port_kind_value (pt_kind p))];
          cs = map ch_value (or_nil (pt_choices p))
      in run_checks
          [check_children_shape owner (pt_kind p) keys,
           check_identifier owner (pt_kind p) (pt_identifier p),
           raise_if (pt_kind p = K_ENUM \<and> cs = []) (ValueError (owner @ [Txt '' must declare choices''])),
           raise_if (cs \<noteq> [] \<and> \<not> has_choices (pt_kind p))
             (ValueError (owner @ [Txt '' must not declare choices''])),
           if cs \<noteq> [] then check_unique cs ''value'' (owner @ [Txt '' choices'']) else Inr ()])"

section \<open>Facts\<close>

lemma check_port_key_iff [result_iff]:
  "check_port_key key owner = Inr () \<longleftrightarrow>
     key \<noteq> '''' \<and> key \<noteq> ''value'' \<and> (has_dotdot key \<longrightarrow> key = ITEM_KEY)"
  by (auto simp: check_port_key_def result_iff)

text \<open>The keys and the shape a port that passed has, by kind.\<close>

lemma item_key_alone:
  "keys \<noteq> [] \<Longrightarrow> distinct keys \<Longrightarrow>
   (1 < length keys \<longrightarrow> k \<notin> set keys) \<longleftrightarrow> keys = [k] \<or> k \<notin> set keys"
  by (cases keys; cases "tl keys") auto

lemma check_children_shape_iff:
  "check_children_shape owner k keys = Inr () \<longleftrightarrow>
     distinct keys \<and>
     (case k of
        K_LIST \<Rightarrow> length keys = 1
      | K_DICT \<Rightarrow> keys \<noteq> [] \<and> (keys = [ITEM_KEY] \<or> ITEM_KEY \<notin> set keys)
      | K_UNION \<Rightarrow> 2 \<le> length keys
      | K_MODEL \<Rightarrow> keys \<noteq> []
      | _ \<Rightarrow> keys = [])"
proof -
  have one: "length keys = 1 \<Longrightarrow> distinct keys"
    by (cases keys) auto
  have len: "length keys = Suc 0 \<longleftrightarrow> keys \<noteq> [] \<and> length keys \<le> Suc 0"
    by (cases keys) auto
  show ?thesis
    using one len item_key_alone [of keys ITEM_KEY]
    by (cases k) (auto simp: check_children_shape_def child_count_def result_iff not_less Suc_le_eq)
qed

text \<open>Induction over a port's children.\<close>

lemma size_arg_child:
  "c \<in> set (or_nil (arg_children p)) \<Longrightarrow> size c < size p"
  by (cases p; cases "arg_children p")
    (auto simp: less_Suc_eq_le intro!: trans_le_add2 size_list_estimation' [OF _ order_refl] le_SucI)

lemma arg_port_children_induct:
  assumes "\<And>p. (\<And>c. c \<in> set (or_nil (arg_children p)) \<Longrightarrow> P c) \<Longrightarrow> P p"
  shows "P p"
proof (induction p rule: measure_induct_rule [of size])
  case (less p)
  show ?case by (rule assms) (rule less, rule size_arg_child)
qed

text \<open>Every port of a tree has the shape of its kind.\<close>

fun shaped_ports :: "arg_port list \<Rightarrow> bool" where
  "shaped_ports [] = True"
| "shaped_ports (ArgPort b vs d w rq cs # ps) =
     (check_port_shape b (map a_key_of (or_nil cs)) = Inr () \<and> shaped_ports (or_nil cs) \<and> shaped_ports ps)"

lemma shaped_ports_iff:
  "shaped_ports ps \<longleftrightarrow> (\<forall>p \<in> set ps. check_port_shape (a_base p) (map a_key_of (or_nil (arg_children p))) = Inr ()
                                  \<and> shaped_ports (or_nil (arg_children p)))"
proof (induction ps)
  case (Cons p ps)
  then show ?case by (cases p) auto
qed simp

text \<open>The kinds met anywhere in a list of ports.\<close>

fun kinds_in :: "arg_port list \<Rightarrow> port_kind set" where
  "kinds_in [] = {}"
| "kinds_in (ArgPort b vs d w rq cs # ps) = {pt_kind b} \<union> kinds_in (or_nil cs) \<union> kinds_in ps"

lemma kinds_in_eq: "kinds_in ps = (\<Union>p \<in> set ps. {a_kind p} \<union> kinds_in (or_nil (arg_children p)))"
proof (induction ps)
  case (Cons p ps)
  then show ?case by (cases p) auto
qed simp

lemma check_port_shape_keys:
  "check_port_shape b keys = Inr () \<Longrightarrow> distinct keys"
  by (auto simp: check_port_shape_def Let_def result_iff check_children_shape_iff)

lemma check_port_shape_choices:
  assumes "check_port_shape b keys = Inr ()"
  shows "list_all hashable (map ch_value (or_nil (pt_choices b)))"
proof (cases "or_nil (pt_choices b) = []")
  case False
  then obtain owner where "check_unique (map ch_value (or_nil (pt_choices b))) ''value'' owner = Inr ()"
    using assms by (auto simp: check_port_shape_def Let_def result_iff)
  then show ?thesis by (rule check_unique_hashable)
qed simp

end
