(* ===== verification/Values.thy ===== *)
theory Values
  imports Ports
begin

text \<open>
  \<open>rekuest_core/values.py\<close>: whether a runtime value fits a port, and whether the arguments of an
  assignment fit an action's ports, proved equal to a declarative reading. Whether Python's
  \<open>datetime.fromisoformat\<close> or \<open>date.fromisoformat\<close> accepts a string is the parameter \<open>iso_date\<close>.
\<close>

section \<open>The code\<close>

text \<open>The first item that has something wrong, in a loop that returns at once.\<close>

fun first_mismatch :: "('a \<Rightarrow> message option result) \<Rightarrow> 'a list \<Rightarrow> message option result" where
  "first_mismatch f [] = Inr None"
| "first_mismatch f (x # xs) =
     and_then (f x) (\<lambda>m. case m of None \<Rightarrow> first_mismatch f xs | Some e \<Rightarrow> Inr (Some e))"

text \<open>\<open>any(... is None for child in children)\<close>.\<close>

fun any_match :: "('a \<Rightarrow> message option result) \<Rightarrow> 'a list \<Rightarrow> bool result" where
  "any_match f [] = Inr False"
| "any_match f (x # xs) =
     and_then (f x) (\<lambda>m. case m of None \<Rightarrow> Inr True | Some e \<Rightarrow> any_match f xs)"

lemma first_mismatch_cong [fundef_cong]:
  "xs = ys \<Longrightarrow> (\<And>x. x \<in> set ys \<Longrightarrow> f x = g x) \<Longrightarrow> first_mismatch f xs = first_mismatch g ys"
  by (induction xs arbitrary: ys) (auto cong: option.case_cong intro!: arg_cong2 [of _ _ _ _ and_then])

lemma any_match_cong [fundef_cong]:
  "xs = ys \<Longrightarrow> (\<And>x. x \<in> set ys \<Longrightarrow> f x = g x) \<Longrightarrow> any_match f xs = any_match g ys"
  by (induction xs arbitrary: ys) (auto cong: option.case_cong intro!: arg_cong2 [of _ _ _ _ and_then])

definition is_number :: "json \<Rightarrow> bool" where
  "is_number v = (isinstance_number v \<and> \<not> is_bool v)"

definition is_id :: "json \<Rightarrow> bool" where
  "is_id v = (\<not> is_bool v \<and> (is_str v \<or> isinstance_int v))"

text \<open>A null item, or an item held to a child port.\<close>

definition check_item ::
  "bool \<Rightarrow> message \<Rightarrow> (message \<Rightarrow> json \<Rightarrow> message option result) \<Rightarrow> message \<Rightarrow> json \<Rightarrow> message option result" where
  "check_item optional complaint rec place item =
     (if item = JNull then Inr (if optional then None else Some complaint) else rec place item)"

text \<open>\<open>{child.key: child for child in children}\<close>, in the dict's order.\<close>

definition child_fields :: "arg_port list \<Rightarrow> (string \<times> arg_port) list" where
  "child_fields cs =
     List.map_filter (\<lambda>k. map_option (Pair k) (dict_of (map (\<lambda>c. (a_key_of c, c)) cs) k))
       (rev (remdups (rev (map a_key_of cs))))"

lemma child_fields_mem: "(k, c) \<in> set (child_fields cs) \<Longrightarrow> c \<in> set cs \<and> a_key_of c = k"
  by (auto simp: child_fields_def set_map_filter_iff dest!: dict_of_SomeD)

lemma child_fields_lookup_mem: "map_of (child_fields cs) k = Some c \<Longrightarrow> c \<in> set cs"
  by (auto dest!: map_of_SomeD child_fields_mem)

text \<open>The leaf kinds: what is wrong with a value, if anything.\<close>

definition expected :: "message \<Rightarrow> string \<Rightarrow> json \<Rightarrow> message" where
  "expected place what v = place @ [Txt '': expected '', Txt what, Txt '', got '', Txt (type_name v)]"

definition leaf_mismatch :: "(string \<Rightarrow> bool) \<Rightarrow> port_kind \<Rightarrow> message \<Rightarrow> json \<Rightarrow> message option" where
  "leaf_mismatch iso_date k place v =
     (case k of
        K_INT \<Rightarrow> if isinstance_int v \<and> \<not> is_bool v then None else Some (expected place ''an INT'' v)
      | K_FLOAT \<Rightarrow> if is_number v then None else Some (expected place ''a FLOAT'' v)
      | K_STRING \<Rightarrow> if is_str v then None else Some (expected place ''a STRING'' v)
      | K_BOOL \<Rightarrow> if is_bool v then None else Some (expected place ''a BOOL'' v)
      | K_DATE \<Rightarrow>
          (case v of
             JStr s \<Rightarrow> if iso_date s then None else Some (place @ [Txt '': '', Repr v, Txt '' is not an ISO-8601 date''])
           | _ \<Rightarrow> Some (expected place ''an ISO-8601 DATE string'' v))
      | K_QUANTITY \<Rightarrow>
          (case v of
             JObj kvs \<Rightarrow>
               if \<not> is_number (obj_get kvs ''value'') \<or>
                  (''unit'' \<in> fst ` set kvs \<and> \<not> is_str (obj_get kvs ''unit''))
               then Some (place @ [Txt '': a QUANTITY object needs a numeric `value` and an optional string `unit`''])
               else None
           | _ \<Rightarrow> if is_number v then None else Some (expected place ''a QUANTITY (number or {value, unit})'' v))
      | _ \<Rightarrow> None)"

definition reference_mismatch ::
  "bool \<Rightarrow> port_kind \<Rightarrow> string option \<Rightarrow> message \<Rightarrow> json \<Rightarrow> message option" where
  "reference_mismatch envelope k ident place v =
     (if \<not> envelope
      then (if is_id v then None else Some (expected place (port_kind_value k @ '' id (string or int)'') v))
      else
        (case v of
           JObj kvs \<Rightarrow>
             if ''__identifier'' \<notin> fst ` set kvs
             then Some (place @ [Txt (port_kind_value k), Txt '' reference is missing its `__identifier` key''])
             else if ''object'' \<notin> fst ` set kvs
             then Some (place @ [Txt (port_kind_value k), Txt '' reference is missing its `object` key''])
             else if (case ident of None \<Rightarrow> False | Some i \<Rightarrow> \<not> py_eq (obj_get kvs ''__identifier'') (JStr i))
             then Some (place @ [Txt (port_kind_value k), Txt '' reference identifier mismatch''])
             else if is_id (obj_get kvs ''object'') then None
             else Some (place @ [Txt (port_kind_value k), Txt '' reference `object` must be a str or int id''])
         | _ \<Rightarrow> Some (expected place (port_kind_value k @ '' reference'') v)))"

definition enum_mismatch :: "json list \<Rightarrow> message \<Rightarrow> json \<Rightarrow> message option result" where
  "enum_mismatch cs place v =
     and_then (for_each (\<lambda>c. raise_if (\<not> hashable c) (TypeError [Txt ''unhashable type: '', repr_str (type_name c)])) cs) (\<lambda>_.
     and_then (raise_if (\<not> hashable v) (TypeError [Txt ''unhashable type: '', repr_str (type_name v)])) (\<lambda>_.
     Inr (if list_ex (\<lambda>c. py_eq c v) cs then None
          else Some (place @ [Txt '': '', Repr v, Txt '' is not one of the choices '', Repr (JList cs)]))))"

definition unknown_fields :: "string list \<Rightarrow> (string \<times> json) list \<Rightarrow> string list" where
  "unknown_fields keys kvs = sorted_set (filter (\<lambda>k. k \<notin> set keys \<and> k \<noteq> ''__identifier'') (map fst kvs))"

lemma size_arg_children:
  "c \<in> set (or_nil cs) \<Longrightarrow> size c < Suc (n + size_option (size_list size) cs)"
  by (cases cs) (auto simp: less_Suc_eq_le intro!: trans_le_add2 size_list_estimation' [OF _ order_refl] le_SucI)

lemma first_child_mem: "x # xs = or_nil cs \<Longrightarrow> x \<in> set (or_nil cs)"
  by (metis list.set_intros(1))

text \<open>The child a DICT entry is held to: the item port of a homogeneous map, or its own field.\<close>

definition dict_child :: "arg_port list \<Rightarrow> string \<Rightarrow> arg_port option" where
  "dict_child cs name =
     (if length cs = 1 \<and> a_key_of (hd cs) = ITEM_KEY then Some (hd cs) else map_of (child_fields cs) name)"

lemma dict_child_mem: "dict_child cs name = Some c \<Longrightarrow> c \<in> set cs"
  by (cases cs) (auto simp: dict_child_def dest: child_fields_lookup_mem split: if_splits)

text \<open>\<open>value_mismatch\<close>; \<open>place\<close> is the path, empty at the top.\<close>

function value_mismatch ::
  "(string \<Rightarrow> bool) \<Rightarrow> bool \<Rightarrow> arg_port \<Rightarrow> message \<Rightarrow> json \<Rightarrow> message option result" where
  "value_mismatch iso_date envelope (ArgPort b vs d w rq cs) path v =
     (let place = (if path = [] then [Txt (pt_key b)] else path); k = pt_kind b; children = or_nil cs in
      if k = K_LIST then
        (case v of
           JList items \<Rightarrow>
             first_mismatch (\<lambda>(i, item).
               (case children of
                  [] \<Rightarrow> Inl IndexError
                | c # _ \<Rightarrow>
                    let at_item = place @ [Txt ''['', shown_int (int i), Txt '']'']
                    in check_item (a_nullable c) (at_item @ [Txt '': null is not allowed''])
                         (value_mismatch iso_date envelope c) at_item item))
               (zip [0..<length items] items)
         | _ \<Rightarrow> Inr (Some (expected place ''a LIST'' v)))
      else if k = K_DICT then
        (case v of
           JObj kvs \<Rightarrow>
             first_mismatch (\<lambda>(name, item).
               (case dict_child children name of
                  None \<Rightarrow> Inr None
                | Some c \<Rightarrow>
                    let at_item = place @ [Txt ''['', repr_str name, Txt '']'']
                    in check_item (a_nullable c) (at_item @ [Txt '': null is not allowed''])
                         (value_mismatch iso_date envelope c) at_item item)) kvs
         | _ \<Rightarrow> Inr (Some (expected place ''a DICT'' v)))
      else if k = K_MODEL then
        (case v of
           JObj kvs \<Rightarrow>
             let unknown = unknown_fields (map fst (child_fields children)) kvs
             in if unknown \<noteq> [] then Inr (Some (place @ [Txt '': unknown fields '', repr_strs unknown]))
                else first_mismatch (\<lambda>(name, c).
                       let at_item = place @ [Txt ''.'', Txt name]
                       in check_item (a_nullable c \<or> has_value (port_default c))
                            (at_item @ [Txt '': required field is missing''])
                            (value_mismatch iso_date envelope c) at_item (obj_get kvs name))
                     (child_fields children)
         | _ \<Rightarrow> Inr (Some (expected place ''a MODEL object'' v)))
      else if k = K_ENUM then enum_mismatch (map ch_value (or_nil (pt_choices b))) place v
      else if identified k then Inr (reference_mismatch envelope k (pt_identifier b) place v)
      else if k = K_UNION then
        and_then (any_match (\<lambda>c. value_mismatch iso_date envelope c place v) children) (\<lambda>found.
        Inr (if found then None
             else Some (place @ [Txt '': '', Repr v, Txt '' matches none of the UNION variants '',
                                 repr_strs (map (\<lambda>c. port_kind_value (a_kind c)) children)])))
      else Inr (leaf_mismatch iso_date k place v))"
  by pat_completeness auto
termination
proof (relation "measure (\<lambda>(iso_date, envelope, p, path, v). size p)", goal_cases)
qed (auto intro!: size_arg_children dest: dict_child_mem child_fields_mem dest!: first_child_mem)

declare value_mismatch.simps [simp del]

text \<open>\<open>validate_assignment_args\<close>, the arguments a dict.\<close>

definition validate_assignment_args :: "(string \<Rightarrow> bool) \<Rightarrow> arg_port list \<Rightarrow> (string \<times> json) list \<Rightarrow> check" where
  "validate_assignment_args iso_date ports args =
     (let known = map a_key_of ports;
          unknown = sorted_set (filter (\<lambda>k. k \<notin> set known) (map fst args))
      in and_then (raise_if (unknown \<noteq> [])
           (ValueError [Txt ''Unknown arguments '', repr_strs unknown, Txt ''; this action accepts '',
                        repr_strs (sorted_set known)])) (\<lambda>_.
         for_each (\<lambda>p.
           let v = obj_get args (a_key_of p)
           in if v = JNull
              then raise_if (\<not> a_nullable p \<and> \<not> has_value (port_default p))
                (ValueError [Txt ''Argument '', repr_str (a_key_of p), Txt '' is required and has no default''])
              else and_then (value_mismatch iso_date True p [] v) (\<lambda>m.
                     case m of None \<Rightarrow> Inr () | Some e \<Rightarrow> Inl (ValueError (Txt ''Argument '' # e)))) ports))"

section \<open>What it means to fit\<close>

inductive fits :: "(string \<Rightarrow> bool) \<Rightarrow> bool \<Rightarrow> arg_port \<Rightarrow> json \<Rightarrow> bool"
  for iso_date :: "string \<Rightarrow> bool" and envelope :: bool
where
  fits_int: "a_kind p = K_INT \<Longrightarrow> fits iso_date envelope p (JInt i)"
| fits_float_int: "a_kind p = K_FLOAT \<Longrightarrow> fits iso_date envelope p (JInt i)"
| fits_float: "a_kind p = K_FLOAT \<Longrightarrow> fits iso_date envelope p (JFloat r)"
| fits_string: "a_kind p = K_STRING \<Longrightarrow> fits iso_date envelope p (JStr s)"
| fits_bool: "a_kind p = K_BOOL \<Longrightarrow> fits iso_date envelope p (JBool b)"
| fits_date: "a_kind p = K_DATE \<Longrightarrow> iso_date s \<Longrightarrow> fits iso_date envelope p (JStr s)"
| fits_list: "a_kind p = K_LIST \<Longrightarrow> or_nil (arg_children p) = [c] \<Longrightarrow>
    \<forall>item \<in> set items. item = JNull \<and> a_nullable c \<or> item \<noteq> JNull \<and> fits iso_date envelope c item \<Longrightarrow>
    fits iso_date envelope p (JList items)"
| fits_map: "a_kind p = K_DICT \<Longrightarrow> or_nil (arg_children p) = [c] \<Longrightarrow> a_key_of c = ITEM_KEY \<Longrightarrow>
    \<forall>(name, item) \<in> set kvs. item = JNull \<and> a_nullable c \<or> item \<noteq> JNull \<and> fits iso_date envelope c item \<Longrightarrow>
    fits iso_date envelope p (JObj kvs)"
| fits_dict: "a_kind p = K_DICT \<Longrightarrow> ITEM_KEY \<notin> a_key_of ` set (or_nil (arg_children p)) \<Longrightarrow>
    \<forall>(name, item) \<in> set kvs. \<forall>c \<in> set (or_nil (arg_children p)). a_key_of c = name \<longrightarrow>
       item = JNull \<and> a_nullable c \<or> item \<noteq> JNull \<and> fits iso_date envelope c item \<Longrightarrow>
    fits iso_date envelope p (JObj kvs)"
| fits_model: "a_kind p = K_MODEL \<Longrightarrow>
    fst ` set kvs \<subseteq> insert ''__identifier'' (a_key_of ` set (or_nil (arg_children p))) \<Longrightarrow>
    \<forall>c \<in> set (or_nil (arg_children p)).
       obj_get kvs (a_key_of c) = JNull \<and> (a_nullable c \<or> has_value (port_default c))
       \<or> obj_get kvs (a_key_of c) \<noteq> JNull \<and> fits iso_date envelope c (obj_get kvs (a_key_of c)) \<Longrightarrow>
    fits iso_date envelope p (JObj kvs)"
| fits_enum: "a_kind p = K_ENUM \<Longrightarrow> ch \<in> set (or_nil (pt_choices (a_base p))) \<Longrightarrow> py_eq (ch_value ch) v \<Longrightarrow>
    fits iso_date envelope p v"
| fits_id: "identified (a_kind p) \<Longrightarrow> \<not> envelope \<Longrightarrow> v = JStr s \<or> v = JInt i \<Longrightarrow> fits iso_date envelope p v"
| fits_reference: "identified (a_kind p) \<Longrightarrow> envelope \<Longrightarrow> map_of kvs ''__identifier'' = Some t \<Longrightarrow>
    pt_identifier (a_base p) = None \<or> map_option JStr (pt_identifier (a_base p)) = Some t \<Longrightarrow>
    map_of kvs ''object'' = Some ob \<Longrightarrow> ob = JStr s \<or> ob = JInt i \<Longrightarrow>
    fits iso_date envelope p (JObj kvs)"
| fits_number: "a_kind p = K_QUANTITY \<Longrightarrow> v = JInt i \<or> v = JFloat r \<Longrightarrow> fits iso_date envelope p v"
| fits_quantity: "a_kind p = K_QUANTITY \<Longrightarrow> map_of kvs ''value'' = Some n \<Longrightarrow> n = JInt i \<or> n = JFloat r \<Longrightarrow>
    map_of kvs ''unit'' = None \<or> map_of kvs ''unit'' = Some (JStr u) \<Longrightarrow> fits iso_date envelope p (JObj kvs)"
| fits_union: "a_kind p = K_UNION \<Longrightarrow> c \<in> set (or_nil (arg_children p)) \<Longrightarrow> fits iso_date envelope c v \<Longrightarrow>
    fits iso_date envelope p v"

section \<open>The code decides it\<close>

lemma first_mismatch_None:
  "first_mismatch f xs = Inr None \<longleftrightarrow> (\<forall>x \<in> set xs. f x = Inr None)"
  by (induction xs) (auto simp: result_iff split: option.splits)

lemma first_mismatch_Some:
  "first_mismatch f xs = Inr (Some e) \<Longrightarrow> \<exists>x \<in> set xs. f x = Inr (Some e)"
  by (induction xs) (auto simp: result_iff split: option.splits)

lemma first_mismatch_Inl: "first_mismatch f xs = Inl e \<Longrightarrow> \<exists>x \<in> set xs. f x = Inl e"
proof (induction xs)
  case (Cons x xs)
  then show ?case by (cases "f x") (auto split: option.splits)
qed simp

lemma any_match_True: "any_match f xs = Inr True \<Longrightarrow> \<exists>x \<in> set xs. f x = Inr None"
  by (induction xs) (auto simp: result_iff split: option.splits)

lemma any_match_False: "any_match f xs = Inr False \<Longrightarrow> \<forall>x \<in> set xs. \<exists>e. f x = Inr (Some e)"
  by (induction xs) (auto simp: result_iff split: option.splits)

lemma any_match_Inl: "any_match f xs = Inl e \<Longrightarrow> \<exists>x \<in> set xs. f x = Inl e"
proof (induction xs)
  case (Cons x xs)
  then show ?case by (cases "f x") (auto split: option.splits)
qed simp

text \<open>
  A result decides \<open>Q\<close>: no complaint exactly if \<open>Q\<close>, and the only exception is the \<open>TypeError\<close> of an
  unhashable value, which takes an ENUM port (\<open>has_enum\<close>).
\<close>

definition decides :: "message option result \<Rightarrow> bool \<Rightarrow> bool \<Rightarrow> bool" where
  "decides r has_enum Q =
     (case r of Inl e \<Rightarrow> has_enum \<and> (\<exists>t. e = TypeError t) | Inr m \<Rightarrow> (m = None) = Q)"

lemma decides_first_mismatch:
  assumes "\<And>x. x \<in> set xs \<Longrightarrow> decides (f x) en (Q x)"
  shows "decides (first_mismatch f xs) en (\<forall>x \<in> set xs. Q x)"
proof (cases "first_mismatch f xs")
  case (Inl e)
  then obtain x where "x \<in> set xs" "f x = Inl e" using first_mismatch_Inl by fast
  with assms [of x] Inl show ?thesis by (simp add: decides_def)
next
  case (Inr m)
  show ?thesis
  proof (cases m)
    case None
    with Inr have "\<forall>x \<in> set xs. f x = Inr None" by (simp add: first_mismatch_None)
    with assms None Inr show ?thesis by (fastforce simp: decides_def)
  next
    case (Some e)
    with Inr obtain x where "x \<in> set xs" "f x = Inr (Some e)" using first_mismatch_Some by fast
    with assms [of x] have "\<not> (\<forall>x \<in> set xs. Q x)" by (auto simp: decides_def)
    with Some Inr show ?thesis by (simp add: decides_def)
  qed
qed

lemma decides_any_match:
  assumes "\<And>x. x \<in> set xs \<Longrightarrow> decides (f x) en (Q x)"
  shows "decides (and_then (any_match f xs) (\<lambda>found. Inr (if found then None else Some complaint))) en
           (\<exists>x \<in> set xs. Q x)"
proof (cases "any_match f xs")
  case (Inl e)
  then obtain x where "x \<in> set xs" "f x = Inl e" using any_match_Inl by fast
  with assms [of x] Inl show ?thesis by (simp add: decides_def)
next
  case (Inr found)
  show ?thesis
  proof (cases found)
    case True
    with Inr obtain x where "x \<in> set xs" "f x = Inr None" using any_match_True by auto
    with assms [of x] Inr True show ?thesis by (auto simp: decides_def)
  next
    case False
    with Inr have "\<forall>x \<in> set xs. \<exists>e. f x = Inr (Some e)" using any_match_False by auto
    with assms have "\<not> (\<exists>x \<in> set xs. Q x)" by (fastforce simp: decides_def)
    with Inr False show ?thesis by (simp add: decides_def)
  qed
qed

lemma decides_check_item:
  "(\<And>v. decides (rec place v) en (Q v)) \<Longrightarrow>
   decides (check_item optional complaint rec place item) en (item = JNull \<and> optional \<or> item \<noteq> JNull \<and> Q item)"
  by (cases "item = JNull") (simp add: check_item_def decides_def, simp add: check_item_def)

lemma child_fields_distinct:
  assumes "distinct (map a_key_of cs)"
  shows "child_fields cs = map (\<lambda>c. (a_key_of c, c)) cs"
proof -
  have keys: "rev (remdups (rev (map a_key_of cs))) = map a_key_of cs"
    using assms by (simp add: distinct_remdups_id rev_map [symmetric])
  have lookup: "dict_of (map (\<lambda>c. (a_key_of c, c)) cs) (a_key_of c) = Some c" if "c \<in> set cs" for c
    using assms that by (simp add: dict_of_distinct o_def map_of_is_SomeI)
  have "List.map_filter (\<lambda>k. map_option (Pair k) (dict_of (map (\<lambda>c. (a_key_of c, c)) cs) k)) (map a_key_of ds)
        = map (\<lambda>c. (a_key_of c, c)) ds" if "set ds \<subseteq> set cs" for ds
    using that by (induction ds) (auto simp: lookup List.map_filter_simps)
  then show ?thesis unfolding child_fields_def keys by blast
qed

text \<open>What fits a port of each kind.\<close>

lemma identified_simps [simp]:
  "\<not> identified K_INT" "\<not> identified K_STRING" "identified K_STRUCTURE" "\<not> identified K_LIST"
  "\<not> identified K_BOOL" "\<not> identified K_DICT" "\<not> identified K_FLOAT" "\<not> identified K_DATE"
  "\<not> identified K_UNION" "\<not> identified K_ENUM" "\<not> identified K_MODEL"
  "identified K_MEMORY_STRUCTURE" "identified K_INTERFACE" "\<not> identified K_QUANTITY"
  by (simp_all add: identified_def)

lemma fits_leaf:
  "a_kind p = K_INT \<Longrightarrow> fits iso_date envelope p v \<longleftrightarrow> (\<exists>i. v = JInt i)"
  "a_kind p = K_FLOAT \<Longrightarrow> fits iso_date envelope p v \<longleftrightarrow> (\<exists>i. v = JInt i) \<or> (\<exists>r. v = JFloat r)"
  "a_kind p = K_STRING \<Longrightarrow> fits iso_date envelope p v \<longleftrightarrow> (\<exists>s. v = JStr s)"
  "a_kind p = K_BOOL \<Longrightarrow> fits iso_date envelope p v \<longleftrightarrow> (\<exists>b. v = JBool b)"
  "a_kind p = K_DATE \<Longrightarrow> fits iso_date envelope p v \<longleftrightarrow> (\<exists>s. v = JStr s \<and> iso_date s)"
  by (subst fits.simps; simp; blast)+

lemma fits_container:
  "a_kind p = K_LIST \<Longrightarrow> or_nil (arg_children p) = [c] \<Longrightarrow>
   fits iso_date envelope p v \<longleftrightarrow> (\<exists>items. v = JList items \<and>
     (\<forall>item \<in> set items. item = JNull \<and> a_nullable c \<or> item \<noteq> JNull \<and> fits iso_date envelope c item))"
  "a_kind p = K_UNION \<Longrightarrow>
   fits iso_date envelope p v \<longleftrightarrow> (\<exists>c \<in> set (or_nil (arg_children p)). fits iso_date envelope c v)"
  "a_kind p = K_ENUM \<Longrightarrow>
   fits iso_date envelope p v \<longleftrightarrow> (\<exists>ch \<in> set (or_nil (pt_choices (a_base p))). py_eq (ch_value ch) v)"
  by (subst fits.simps; auto)+

lemma fits_DICT:
  "a_kind p = K_DICT \<Longrightarrow> or_nil (arg_children p) = [c] \<Longrightarrow> a_key_of c = ITEM_KEY \<Longrightarrow>
   fits iso_date envelope p v \<longleftrightarrow> (\<exists>kvs. v = JObj kvs \<and>
     (\<forall>(name, item) \<in> set kvs. item = JNull \<and> a_nullable c \<or> item \<noteq> JNull \<and> fits iso_date envelope c item))"
  "a_kind p = K_DICT \<Longrightarrow> ITEM_KEY \<notin> a_key_of ` set (or_nil (arg_children p)) \<Longrightarrow>
   fits iso_date envelope p v \<longleftrightarrow> (\<exists>kvs. v = JObj kvs \<and>
     (\<forall>(name, item) \<in> set kvs. \<forall>c \<in> set (or_nil (arg_children p)). a_key_of c = name \<longrightarrow>
        item = JNull \<and> a_nullable c \<or> item \<noteq> JNull \<and> fits iso_date envelope c item))"
  by (subst fits.simps; auto)+

lemma fits_MODEL:
  "a_kind p = K_MODEL \<Longrightarrow>
   fits iso_date envelope p v \<longleftrightarrow> (\<exists>kvs. v = JObj kvs \<and>
     fst ` set kvs \<subseteq> insert ''__identifier'' (a_key_of ` set (or_nil (arg_children p))) \<and>
     (\<forall>c \<in> set (or_nil (arg_children p)).
        obj_get kvs (a_key_of c) = JNull \<and> (a_nullable c \<or> has_value (port_default c))
        \<or> obj_get kvs (a_key_of c) \<noteq> JNull \<and> fits iso_date envelope c (obj_get kvs (a_key_of c))))"
  by (subst fits.simps) auto

lemma fits_id_iff:
  assumes "identified (a_kind p)" "\<not> envelope"
  shows "fits iso_date envelope p v \<longleftrightarrow> (\<exists>s. v = JStr s) \<or> (\<exists>i. v = JInt i)"
proof
  assume "fits iso_date envelope p v"
  then show "(\<exists>s. v = JStr s) \<or> (\<exists>i. v = JInt i)"
    by cases (use assms in auto)
next
  assume "(\<exists>s. v = JStr s) \<or> (\<exists>i. v = JInt i)"
  then show "fits iso_date envelope p v"
    using fits_id [OF assms] by blast
qed

lemma fits_reference_iff:
  assumes "identified (a_kind p)" "envelope"
  shows "fits iso_date envelope p v \<longleftrightarrow>
    (\<exists>kvs t ob. v = JObj kvs \<and> map_of kvs ''__identifier'' = Some t \<and>
     (pt_identifier (a_base p) = None \<or> map_option JStr (pt_identifier (a_base p)) = Some t) \<and>
     map_of kvs ''object'' = Some ob \<and> ((\<exists>s. ob = JStr s) \<or> (\<exists>i. ob = JInt i)))" (is "_ \<longleftrightarrow> ?R")
proof
  assume "fits iso_date envelope p v"
  then show ?R
  proof cases
    case (fits_reference kvs t ob s i)
    then show ?thesis by blast
  qed (use assms in simp_all)
next
  assume ?R
  then show "fits iso_date envelope p v"
    using fits_reference [OF assms] by blast
qed

lemma fits_QUANTITY:
  "a_kind p = K_QUANTITY \<Longrightarrow>
   fits iso_date envelope p v \<longleftrightarrow> (\<exists>i. v = JInt i) \<or> (\<exists>r. v = JFloat r) \<or>
     (\<exists>kvs n. v = JObj kvs \<and> map_of kvs ''value'' = Some n \<and> ((\<exists>i. n = JInt i) \<or> (\<exists>r. n = JFloat r)) \<and>
        (map_of kvs ''unit'' = None \<or> (\<exists>u. map_of kvs ''unit'' = Some (JStr u))))"
  by (subst fits.simps) auto

lemma is_number_iff: "is_number v \<longleftrightarrow> (\<exists>i. v = JInt i) \<or> (\<exists>r. v = JFloat r)"
  by (cases v) (auto simp: is_number_def isinstance_number_def isinstance_int_def)

lemma is_id_iff: "is_id v \<longleftrightarrow> (\<exists>s. v = JStr s) \<or> (\<exists>i. v = JInt i)"
  by (cases v) (auto simp: is_id_def isinstance_int_def)

lemma obj_get_iff: "obj_get kvs k = v \<longleftrightarrow> map_of kvs k = Some v \<or> map_of kvs k = None \<and> v = JNull"
  by (auto simp: obj_get_def split: option.splits)

lemma map_of_mem: "k \<in> fst ` set kvs \<longleftrightarrow> (\<exists>v. map_of kvs k = Some v)"
  by (metis map_of_eq_None_iff option.exhaust option.distinct(1))

lemma leaf_decides:
  assumes "a_kind p \<in> {K_INT, K_FLOAT, K_STRING, K_BOOL, K_DATE, K_QUANTITY}"
  shows "leaf_mismatch iso_date (a_kind p) place v = None \<longleftrightarrow> fits iso_date envelope p v"
  using assms
  by (cases "a_kind p"; cases v)
    (auto simp: leaf_mismatch_def fits_leaf fits_QUANTITY isinstance_int_def is_number_iff obj_get_iff
       map_of_mem is_str_def obj_get_def split: json.splits option.splits)

lemma reference_decides:
  assumes "identified (a_kind p)"
  shows "reference_mismatch envelope (a_kind p) (pt_identifier (a_base p)) place v = None \<longleftrightarrow>
         fits iso_date envelope p v"
proof (cases envelope)
  case True
  show ?thesis
    unfolding fits_reference_iff [OF assms True] using True
    by (cases v) (auto simp: reference_mismatch_def is_id_iff map_of_mem obj_get_def split: option.splits)
next
  case False
  show ?thesis
    unfolding fits_id_iff [OF assms False] using False
    by (simp add: reference_mismatch_def is_id_iff)
qed

lemma decides_enum:
  assumes "list_all hashable (map ch_value chs)"
  shows "decides (enum_mismatch (map ch_value chs) place v) True (\<exists>ch \<in> set chs. py_eq (ch_value ch) v)"
proof -
  have "for_each (\<lambda>c. raise_if (\<not> hashable c) (TypeError [Txt ''unhashable type: '', repr_str (type_name c)]))
          (map ch_value chs) = Inr ()"
    using assms by (auto simp: result_iff list_all_iff)
  then show ?thesis
    by (auto simp: enum_mismatch_def decides_def raise_if_def list_ex_iff)
qed

definition children_decided :: "(string \<Rightarrow> bool) \<Rightarrow> bool \<Rightarrow> arg_port list option \<Rightarrow> bool \<Rightarrow> bool" where
  "children_decided iso_date envelope cs en \<longleftrightarrow>
     (\<forall>c \<in> set (or_nil cs). \<forall>place v.
        decides (value_mismatch iso_date envelope c place v) en (fits iso_date envelope c v))"

lemma decides_child:
  assumes "children_decided iso_date envelope cs en" "c \<in> set (or_nil cs)"
  shows "decides (check_item optional complaint (value_mismatch iso_date envelope c) place item) en
    (item = JNull \<and> optional \<or> item \<noteq> JNull \<and> fits iso_date envelope c item)"
  using assms by (intro decides_check_item) (simp add: children_decided_def)

lemma decides_list:
  assumes "children_decided iso_date envelope cs en" "pt_kind b = K_LIST" "or_nil cs = [c]"
  shows "decides (value_mismatch iso_date envelope (ArgPort b vs d w rq cs) path v) en
           (fits iso_date envelope (ArgPort b vs d w rq cs) v)"
proof (cases v)
  case (JList items)
  let ?item_ok = "\<lambda>item. item = JNull \<and> a_nullable c \<or> item \<noteq> JNull \<and> fits iso_date envelope c item"
  have "(\<forall>item \<in> set items. ?item_ok item) \<longleftrightarrow> (\<forall>x \<in> set (zip [0..<length items] items). ?item_ok (snd x))"
    by (metis (no_types, lifting) in_set_impl_in_set_zip2 length_map map_nth length_upt minus_nat.diff_0 prod.collapse set_zip_rightD snd_conv)
  then have fits: "fits iso_date envelope (ArgPort b vs d w rq cs) v \<longleftrightarrow>
      (\<forall>x \<in> set (zip [0..<length items] items). ?item_ok (snd x))"
    using assms by (simp add: JList fits_container)
  show ?thesis
    unfolding fits using assms
    by (simp add: value_mismatch.simps JList Let_def decides_first_mismatch decides_child case_prod_beta)
qed (auto simp: value_mismatch.simps fits_container decides_def assms Let_def)

lemma decides_map:
  assumes "children_decided iso_date envelope cs en" "pt_kind b = K_DICT"
    and "or_nil cs = [c]" "a_key_of c = ITEM_KEY"
  shows "decides (value_mismatch iso_date envelope (ArgPort b vs d w rq cs) path v) en
           (fits iso_date envelope (ArgPort b vs d w rq cs) v)"
proof (cases v)
  case (JObj kvs)
  have fits: "fits iso_date envelope (ArgPort b vs d w rq cs) v \<longleftrightarrow> (\<forall>x \<in> set kvs.
      snd x = JNull \<and> a_nullable c \<or> snd x \<noteq> JNull \<and> fits iso_date envelope c (snd x))"
    using assms by (auto simp: JObj fits_DICT(1) case_prod_beta)
  show ?thesis
    unfolding fits using assms
    by (simp add: value_mismatch.simps JObj Let_def case_prod_beta dict_child_def
          decides_first_mismatch decides_child)
qed (auto simp: value_mismatch.simps fits_DICT(1) decides_def assms Let_def)

lemma named_child:
  assumes "distinct (map a_key_of cs)" "ITEM_KEY \<notin> a_key_of ` set cs"
  shows "dict_child cs name = Some c \<longleftrightarrow> c \<in> set cs \<and> a_key_of c = name"
proof -
  have "dict_child cs name = map_of (map (\<lambda>c. (a_key_of c, c)) cs) name"
    using assms by (cases cs) (auto simp: dict_child_def child_fields_distinct)
  then show ?thesis
    using assms(1) by (auto simp: map_of_eq_Some_iff o_def)
qed

lemma decides_dict:
  assumes "children_decided iso_date envelope cs en" "pt_kind b = K_DICT"
    and "distinct (map a_key_of (or_nil cs))" "ITEM_KEY \<notin> a_key_of ` set (or_nil cs)"
  shows "decides (value_mismatch iso_date envelope (ArgPort b vs d w rq cs) path v) en
           (fits iso_date envelope (ArgPort b vs d w rq cs) v)"
proof (cases v)
  case (JObj kvs)
  let ?item_ok = "\<lambda>c item. item = JNull \<and> a_nullable c \<or> item \<noteq> JNull \<and> fits iso_date envelope c item"
  note child = named_child [OF assms(3,4)]
  have "(\<forall>c \<in> set (or_nil cs). a_key_of c = name \<longrightarrow> ?item_ok c item) \<longleftrightarrow>
      (case dict_child (or_nil cs) name of None \<Rightarrow> True | Some c \<Rightarrow> ?item_ok c item)" for name item
  proof (cases "dict_child (or_nil cs) name")
    case None
    then show ?thesis using child [of name] by auto
  next
    case (Some c)
    then have "c' \<in> set (or_nil cs) \<and> a_key_of c' = name \<longleftrightarrow> c' = c" for c'
      using child [of name c'] by auto
    then show ?thesis by (simp add: Some Ball_def imp_conjL [symmetric])
  qed
  then have fits: "fits iso_date envelope (ArgPort b vs d w rq cs) v \<longleftrightarrow>
      (\<forall>x \<in> set kvs. case dict_child (or_nil cs) (fst x) of None \<Rightarrow> True | Some c \<Rightarrow> ?item_ok c (snd x))"
    using assms by (simp add: JObj fits_DICT(2) case_prod_beta)
  have loop: "decides (first_mismatch (\<lambda>(name, item). case dict_child (or_nil cs) name of None \<Rightarrow> Inr None
        | Some c \<Rightarrow> check_item (a_nullable c) (complaint name) (value_mismatch iso_date envelope c) (place name) item) kvs)
      en (\<forall>x \<in> set kvs. case dict_child (or_nil cs) (fst x) of None \<Rightarrow> True | Some c \<Rightarrow> ?item_ok c (snd x))"
    for complaint place
  proof (rule decides_first_mismatch)
    fix x
    show "decides (case x of (name, item) \<Rightarrow> case dict_child (or_nil cs) name of None \<Rightarrow> Inr None
        | Some c \<Rightarrow> check_item (a_nullable c) (complaint name) (value_mismatch iso_date envelope c) (place name) item) en
        (case dict_child (or_nil cs) (fst x) of None \<Rightarrow> True | Some c \<Rightarrow> ?item_ok c (snd x))"
    proof (cases "dict_child (or_nil cs) (fst x)")
      case None
      then show ?thesis by (simp add: decides_def case_prod_beta)
    next
      case (Some c)
      then show ?thesis using child [of "fst x" c] decides_child [OF assms(1), of c] by (simp add: case_prod_beta)
    qed
  qed
  define start where "start = (if path = [] then [Txt (pt_key b)] else path)"
  show ?thesis
    unfolding fits [unfolded JObj] value_mismatch.simps JObj Let_def start_def [symmetric]
    by (simp add: assms(2)) (rule loop)
qed (auto simp: value_mismatch.simps fits_DICT(2) decides_def assms Let_def)

lemma decides_model:
  assumes "children_decided iso_date envelope cs en" "pt_kind b = K_MODEL"
    and "distinct (map a_key_of (or_nil cs))"
  shows "decides (value_mismatch iso_date envelope (ArgPort b vs d w rq cs) path v) en
           (fits iso_date envelope (ArgPort b vs d w rq cs) v)"
proof (cases v)
  case (JObj kvs)
  let ?p = "ArgPort b vs d w rq cs"
  let ?ok = "\<lambda>c. obj_get kvs (a_key_of c) = JNull \<and> (a_nullable c \<or> has_value (port_default c))
        \<or> obj_get kvs (a_key_of c) \<noteq> JNull \<and> fits iso_date envelope c (obj_get kvs (a_key_of c))"
  note fields = child_fields_distinct [OF assms(3)]
  have known: "unknown_fields (map fst (child_fields (or_nil cs))) kvs = [] \<longleftrightarrow>
      fst ` set kvs \<subseteq> insert ''__identifier'' (a_key_of ` set (or_nil cs))"
    by (auto simp: unknown_fields_def fields filter_empty_conv)
  have fits: "fits iso_date envelope ?p v \<longleftrightarrow>
      unknown_fields (map fst (child_fields (or_nil cs))) kvs = [] \<and> (\<forall>x \<in> set (child_fields (or_nil cs)). ?ok (snd x))"
    using assms by (simp add: JObj fits_MODEL known) (simp add: fields)
  have loop: "decides (first_mismatch (\<lambda>x. check_item (a_nullable (snd x) \<or> has_value (port_default (snd x)))
            (complaint x) (value_mismatch iso_date envelope (snd x)) (place x) (obj_get kvs (fst x)))
          (child_fields (or_nil cs))) en (\<forall>x \<in> set (child_fields (or_nil cs)). ?ok (snd x))" for complaint place
  proof (rule decides_first_mismatch)
    fix x assume "x \<in> set (child_fields (or_nil cs))"
    then have "snd x \<in> set (or_nil cs)" "fst x = a_key_of (snd x)" by (auto simp: fields)
    then show "decides (check_item (a_nullable (snd x) \<or> has_value (port_default (snd x)))
            (complaint x) (value_mismatch iso_date envelope (snd x)) (place x) (obj_get kvs (fst x))) en (?ok (snd x))"
      using decides_child [OF assms(1)] by simp
  qed
  define start where "start = (if path = [] then [Txt (pt_key b)] else path)"
  show ?thesis
  proof (cases "unknown_fields (map fst (child_fields (or_nil cs))) kvs = []")
    case True
    show ?thesis
      unfolding fits value_mismatch.simps start_def [symmetric] using True
      by (simp add: JObj Let_def case_prod_unfold assms(2)) (rule loop)
  next
    case False
    then show ?thesis
      unfolding fits value_mismatch.simps start_def [symmetric]
      by (simp add: JObj Let_def assms(2)) (simp add: decides_def)
  qed
qed (auto simp: value_mismatch.simps fits_MODEL decides_def assms Let_def)

lemma decides_mono: "decides r en Q \<Longrightarrow> (en \<Longrightarrow> en') \<Longrightarrow> decides r en' Q"
  by (auto simp: decides_def split: sum.splits)

lemma kinds_in_child:
  "c \<in> set (or_nil cs) \<Longrightarrow> kinds_in [c] \<subseteq> kinds_in [ArgPort b vs d w rq cs]"
  by (auto simp: kinds_in_eq [of "or_nil cs"] kinds_in_eq [of "[c]"])

lemma value_mismatch_decides:
  "shaped_ports [p] \<Longrightarrow>
   decides (value_mismatch iso_date envelope p path v) (K_ENUM \<in> kinds_in [p]) (fits iso_date envelope p v)"
proof (induction p arbitrary: path v rule: arg_port_children_induct)
  case (1 p)
  obtain b vs d w rq cs where p: "p = ArgPort b vs d w rq cs" by (cases p)
  let ?en = "K_ENUM \<in> kinds_in [p]"
  have shape: "check_port_shape b (map a_key_of (or_nil cs)) = Inr ()"
    using 1(2) by (simp add: p)
  then have children: "check_children_shape owner (pt_kind b) (map a_key_of (or_nil cs)) = Inr ()" for owner
    by (auto simp: check_port_shape_def Let_def result_iff check_children_shape_iff)
  note distinct = check_port_shape_keys [OF shape]
  have ih: "children_decided iso_date envelope cs ?en"
    unfolding children_decided_def
  proof (intro ballI allI)
    fix c place v assume c: "c \<in> set (or_nil cs)"
    moreover have "shaped_ports [c]"
      using 1(2) c by (auto simp: p shaped_ports_iff [of "or_nil cs"] shaped_ports_iff [of "[c]"])
    ultimately have "decides (value_mismatch iso_date envelope c place v) (K_ENUM \<in> kinds_in [c]) (fits iso_date envelope c v)"
      using 1(1) by (simp add: p)
    then show "decides (value_mismatch iso_date envelope c place v) ?en (fits iso_date envelope c v)"
      by (rule decides_mono) (use kinds_in_child [OF c] p in blast)
  qed
  consider (list) "pt_kind b = K_LIST" | (dict) "pt_kind b = K_DICT" | (model) "pt_kind b = K_MODEL"
    | (enum) "pt_kind b = K_ENUM" | (ref) "identified (pt_kind b)" | (union) "pt_kind b = K_UNION"
    | (leaf) "pt_kind b \<in> {K_INT, K_FLOAT, K_STRING, K_BOOL, K_DATE, K_QUANTITY}"
    by (cases "pt_kind b") auto
  then show ?case
  proof cases
    case list
    then obtain c where "or_nil cs = [c]"
      using children by (auto simp: check_children_shape_iff length_Suc_conv)
    with list ih show ?thesis unfolding p by (intro decides_list) (auto simp: p)
  next
    case dict
    then consider c where "or_nil cs = [c]" "a_key_of c = ITEM_KEY"
      | "ITEM_KEY \<notin> a_key_of ` set (or_nil cs)"
      using children by (auto simp: check_children_shape_iff map_eq_Cons_conv)
    then show ?thesis
      using dict ih distinct unfolding p
      by cases (auto intro: decides_map decides_dict)
  next
    case model
    then show ?thesis using ih distinct unfolding p by (intro decides_model)
  next
    case enum
    have "fits iso_date envelope p v \<longleftrightarrow> (\<exists>ch \<in> set (or_nil (pt_choices b)). py_eq (ch_value ch) v)"
      using enum fits_container(3) [of p] by (simp add: p)
    then show ?thesis
      using enum decides_enum [OF check_port_shape_choices [OF shape]]
      by (simp add: p value_mismatch.simps Let_def)
  next
    case ref
    then have "pt_kind b \<notin> {K_LIST, K_DICT, K_MODEL, K_ENUM, K_UNION}" by auto
    then show ?thesis
      using ref reference_decides [of p envelope _ v iso_date]
      by (auto simp: p value_mismatch.simps Let_def decides_def)
  next
    case union
    have "decides (value_mismatch iso_date envelope p path v) ?en
        (\<exists>c \<in> set (or_nil cs). fits iso_date envelope c v)"
      using union ih unfolding p
      by (auto simp: value_mismatch.simps Let_def children_decided_def intro!: decides_any_match)
    then show ?thesis using union fits_container(2) [of p] by (simp add: p)
  next
    case leaf
    then have "pt_kind b \<notin> {K_LIST, K_DICT, K_MODEL, K_ENUM, K_UNION}" "\<not> identified (pt_kind b)" by auto
    then show ?thesis
      using leaf leaf_decides [of p iso_date _ v envelope]
      by (auto simp: p value_mismatch.simps Let_def decides_def)
  qed
qed

section \<open>Properties\<close>

text \<open>
  C13. For every port whose tree has the shape its kind demands, and every value, when \<open>value_mismatch\<close> answers it answers
  whether the value fits the port as the table of kinds reads. It does not answer only where the tree has an ENUM port, and
  then it raises a \<open>TypeError\<close> (a value that does not hash is looked up among the choices); a port tree with no ENUM always gets an answer.
\<close>

theorem value_mismatch_correct:
  assumes "shaped_ports [p]"
  shows "(case value_mismatch iso_date envelope p path v of
            Inr m \<Rightarrow> m = None \<longleftrightarrow> fits iso_date envelope p v
          | Inl e \<Rightarrow> K_ENUM \<in> kinds_in [p] \<and> (\<exists>t. e = TypeError t))"
  using value_mismatch_decides [OF assms, of iso_date envelope path v]
  by (simp add: decides_def split: sum.splits)

definition accepted_args :: "(string \<Rightarrow> bool) \<Rightarrow> arg_port list \<Rightarrow> (string \<times> json) list \<Rightarrow> bool" where
  "accepted_args iso_date ports args \<longleftrightarrow>
     fst ` set args \<subseteq> a_key_of ` set ports \<and>
     (\<forall>p \<in> set ports.
        if obj_get args (a_key_of p) = JNull then a_nullable p \<or> has_value (port_default p)
        else fits iso_date True p (obj_get args (a_key_of p)))"

lemma shaped_ports_single: "shaped_ports ps \<Longrightarrow> p \<in> set ps \<Longrightarrow> shaped_ports [p]"
  by (auto simp: shaped_ports_iff [of ps] shaped_ports_iff [of "[p]"])

text \<open>One argument as \<open>validate_assignment_args\<close> holds it.\<close>

lemma argument_decides:
  assumes "shaped_ports [p]" "r = (if v = JNull
      then raise_if (\<not> a_nullable p \<and> \<not> has_value (port_default p)) (ValueError missing)
      else and_then (value_mismatch iso_date True p [] v) (\<lambda>m.
             case m of None \<Rightarrow> Inr () | Some e \<Rightarrow> Inl (ValueError (Txt ''Argument '' # e))))"
  defines "ok \<equiv> (if v = JNull then a_nullable p \<or> has_value (port_default p) else fits iso_date True p v)"
  shows "r = Inr () \<and> ok \<or> (\<exists>t. r = Inl (ValueError t)) \<and> \<not> ok \<or> (\<exists>t. r = Inl (TypeError t)) \<and> K_ENUM \<in> kinds_in [p]"
  using value_mismatch_decides [OF assms(1), of iso_date True "[]" v] assms(2)
  by (cases "value_mismatch iso_date True p [] v")
    (auto simp: ok_def decides_def raise_if_def split: option.splits)

lemma for_each_Inl: "for_each f xs = Inl e \<Longrightarrow> \<exists>x \<in> set xs. f x = Inl e"
proof (induction xs)
  case (Cons x xs)
  then show ?case by (cases "f x") auto
qed simp

text \<open>
  C14. Assigning: when \<open>validate_assignment_args\<close> accepts the arguments of a task, no key is
  unknown and every port's argument fits it, or is absent or null where the port is nullable or
  has a default; when it refuses them with a \<open>ValueError\<close>, that is not so. The only other exception is a \<open>TypeError\<close>, and only where a
  port has an ENUM in its tree.
\<close>

theorem validate_assignment_args_correct:
  assumes "shaped_ports ports"
  shows "case validate_assignment_args iso_date ports args of
      Inr u \<Rightarrow> accepted_args iso_date ports args
    | Inl e \<Rightarrow> (\<exists>t. e = ValueError t) \<and> \<not> accepted_args iso_date ports args \<or> (\<exists>t. e = TypeError t) \<and> K_ENUM \<in> kinds_in ports"
proof (cases "fst ` set args \<subseteq> a_key_of ` set ports")
  case False
  then have "filter (\<lambda>k. k \<notin> a_key_of ` set ports) (map fst args) \<noteq> []"
    by (auto simp: filter_empty_conv)
  with False show ?thesis
    by (simp add: validate_assignment_args_def accepted_args_def raise_if_def)
next
  case True
  define check where "check = (\<lambda>p. let v = obj_get args (a_key_of p)
           in if v = JNull
              then raise_if (\<not> a_nullable p \<and> \<not> has_value (port_default p))
                (ValueError [Txt ''Argument '', repr_str (a_key_of p), Txt '' is required and has no default''])
              else and_then (value_mismatch iso_date True p [] v) (\<lambda>m.
                     case m of None \<Rightarrow> Inr () | Some e \<Rightarrow> Inl (ValueError (Txt ''Argument '' # e))))"
  have known: "filter (\<lambda>k. k \<notin> a_key_of ` set ports) (map fst args) = []"
    using True by (auto simp: filter_empty_conv)
  have run: "validate_assignment_args iso_date ports args = for_each check ports"
    by (simp add: validate_assignment_args_def check_def known raise_if_def sorted_set_def)
  define ok where "ok p \<longleftrightarrow> (if obj_get args (a_key_of p) = JNull then a_nullable p \<or> has_value (port_default p)
        else fits iso_date True p (obj_get args (a_key_of p)))" for p
  have each: "check p = Inr () \<and> ok p \<or> (\<exists>t. check p = Inl (ValueError t)) \<and> \<not> ok p \<or>
      (\<exists>t. check p = Inl (TypeError t)) \<and> K_ENUM \<in> kinds_in [p]"
    if "p \<in> set ports" for p
    unfolding ok_def by (rule argument_decides [OF shaped_ports_single [OF assms(1) that]]) (simp add: check_def Let_def)
  have accepted: "accepted_args iso_date ports args \<longleftrightarrow> (\<forall>p \<in> set ports. ok p)"
    using True by (simp add: accepted_args_def ok_def)
  show ?thesis
  proof (cases "for_each check ports")
    case (Inl e)
    then obtain p where p: "p \<in> set ports" "check p = Inl e" using for_each_Inl by fast
    moreover have "kinds_in [p] \<subseteq> kinds_in ports" using p(1) by (auto simp: kinds_in_eq [of ports] kinds_in_eq [of "[p]"])
    ultimately have "\<not> ok p \<and> (\<exists>t. e = ValueError t) \<or> (\<exists>t. e = TypeError t) \<and> K_ENUM \<in> kinds_in ports" using each [of p] by auto
    with p(1) show ?thesis by (auto simp: accepted run Inl)
  next
    case (Inr u)
    then have "\<forall>p \<in> set ports. ok p" using each by (fastforce simp: result_iff)
    then show ?thesis by (simp add: accepted run Inr)
  qed
qed

text \<open>A port as the examples use it.\<close>

definition example_base :: "string \<Rightarrow> port_kind \<Rightarrow> port_base" where
  "example_base key k =
     \<lparr>pt_key = key, pt_kind = k, pt_identifier = None, pt_nullable = False, pt_effects = None,
      pt_choices = (if k = K_ENUM then Some [\<lparr>ch_value = JStr ''a'', ch_label = ''A''\<rparr>] else None),
      pt_reference_unit = None, pt_proposed_units = None, pt_dimension = None\<rparr>"

definition example_port :: "string \<Rightarrow> port_kind \<Rightarrow> arg_port list \<Rightarrow> arg_port" where
  "example_port key k cs = ArgPort (example_base key k) None JNull None None (if cs = [] then None else Some cs)"

lemmas example_port_simps =
  example_port_def example_base_def value_mismatch.simps check_port_shape_def Let_def

text \<open>
  Where the code does not do what it means to: an ENUM port looks the argument up in a Python set,
  so an argument that is a list or an object raises \<open>TypeError\<close> where a mismatch is meant, and a
  UNION with an ENUM variant before a LIST variant raises on a list that the LIST variant accepts.
\<close>

definition list_or_mode :: arg_port where
  "list_or_mode = example_port ''u'' K_UNION
     [example_port ''e'' K_ENUM [], example_port ''l'' K_LIST [example_port ''...'' K_INT []]]"

lemma list_or_mode_shaped: "shaped_ports [list_or_mode, example_port ''mode'' K_ENUM []]"
  by (simp add: list_or_mode_def example_port_simps result_iff check_children_shape_iff check_identifier_def
        has_choices_def check_unique_def)

theorem enum_argument_raises:
  "shaped_ports [list_or_mode, example_port ''mode'' K_ENUM []] \<and>
   (\<exists>t. validate_assignment_args iso_date [example_port ''mode'' K_ENUM []] [(''mode'', JList [])] = Inl (TypeError t)) \<and>
   (\<exists>t. validate_assignment_args iso_date [list_or_mode] [(''u'', JList [])] = Inl (TypeError t)) \<and>
   fits iso_date True list_or_mode (JList [])"
proof (intro conjI list_or_mode_shaped)
  show "fits iso_date True list_or_mode (JList [])"
    unfolding list_or_mode_def
    by (rule fits_union [where c = "example_port ''l'' K_LIST [example_port ''...'' K_INT []]"])
      (auto simp: example_port_simps intro!: fits_list)
qed (simp_all add: validate_assignment_args_def list_or_mode_def example_port_simps enum_mismatch_def raise_if_def
       sorted_set_def obj_get_def)

theorem value_mismatch_correct_witness:
  "value_mismatch (\<lambda>s. False) True list_or_mode [] (JStr ''a'') = Inr None \<and> fits (\<lambda>s. False) True list_or_mode (JStr ''a'')"
proof -
  have "shaped_ports [list_or_mode]" using list_or_mode_shaped by (simp add: list_or_mode_def example_port_simps)
  moreover have "value_mismatch (\<lambda>s. False) True list_or_mode [] (JStr ''a'') = Inr None" by code_simp
  ultimately show ?thesis using value_mismatch_correct [of list_or_mode "\<lambda>s. False" True "JStr ''a''" "[]"] by simp
qed

theorem validate_assignment_args_correct_witness:
  "accepted_args (\<lambda>s. False) [list_or_mode, example_port ''n'' K_INT []] [(''u'', JStr ''a''), (''n'', JInt 3)] \<and>
   \<not> accepted_args (\<lambda>s. False) [list_or_mode, example_port ''n'' K_INT []] [(''u'', JStr ''b''), (''n'', JInt 3)]"
proof -
  let ?ports = "[list_or_mode, example_port ''n'' K_INT []]"
  have shaped: "shaped_ports ?ports"
    using list_or_mode_shaped by (simp add: list_or_mode_def example_port_simps result_iff check_children_shape_iff check_identifier_def)
  have yes: "validate_assignment_args (\<lambda>s. False) ?ports [(''u'', JStr ''a''), (''n'', JInt 3)] = Inr ()" by code_simp
  have "(case validate_assignment_args (\<lambda>s. False) ?ports [(''u'', JStr ''b''), (''n'', JInt 3)] of Inl (ValueError t) \<Rightarrow> True | _ \<Rightarrow> False)"
    by code_simp
  then obtain t where no: "validate_assignment_args (\<lambda>s. False) ?ports [(''u'', JStr ''b''), (''n'', JInt 3)] = Inl (ValueError t)"
    by (auto split: sum.splits py_error.splits)
  show ?thesis
    using validate_assignment_args_correct [OF shaped, of "\<lambda>s. False" "[(''u'', JStr ''a''), (''n'', JInt 3)]"] yes
      validate_assignment_args_correct [OF shaped, of "\<lambda>s. False" "[(''u'', JStr ''b''), (''n'', JInt 3)]"] no by simp
qed

end
