(* ===== verification/Units.thy ===== *)
theory Units
  imports Json
begin

text \<open>
  \<open>rekuest_core/units.py\<close>: the canonical text of a dimensionality. What pint's registry answers for
  an expression (the exponent of each dimension, or an exception) is the parameter \<open>pint\<close>. An
  exponent is a Python number, an int or a float: a rational. \<open>{exp:g}\<close> writes six digits of it.
\<close>

section \<open>The code\<close>

type_synonym dims = "(string \<times> rat) list"
type_synonym pint = "string \<Rightarrow> dims option"

definition DIMENSIONLESS :: string where
  "DIMENSIONLESS = ''dimensionless''"

definition digit :: "nat \<Rightarrow> char" where
  "digit n = char_of (48 + n)"

fun show_nat :: "nat \<Rightarrow> string" where
  "show_nat n = (if n < 10 then [digit n] else show_nat (n div 10) @ [digit (n mod 10)])"

declare show_nat.simps [simp del]

text \<open>
  \<open>f"{exp:g}"\<close> of a positive number: the six digits of the nearest decimal and its decade \<open>k\<close> (it is at least
  \<open>10^k\<close> and below \<open>10^(k+1)\<close>), zeros at the end of the fraction dropped, written with an exponent below \<open>10^-4\<close> and from a million on.
\<close>

definition shift10 :: "int \<Rightarrow> rat \<Rightarrow> rat" where
  "shift10 j x = (if 0 \<le> j then x * 10 ^ nat j else x / 10 ^ nat (- j))"

definition decade :: "rat \<Rightarrow> int" where
  "decade x =
     (if 1 \<le> x then int (length (show_nat (nat \<lfloor>x\<rfloor>))) - 1
      else - int (length (show_nat (nat (\<lceil>1 / x\<rceil> - 1)))))"

definition round_even :: "rat \<Rightarrow> int" where
  "round_even x = (let q = \<lfloor>x\<rfloor>; r = x - of_int q in if r < 1 / 2 \<or> r = 1 / 2 \<and> even q then q else q + 1)"

definition with_fraction :: "string \<Rightarrow> string \<Rightarrow> string" where
  "with_fraction whole fraction =
     (let f = rev (dropWhile (\<lambda>c. c = CHR ''0'') (rev fraction)) in if f = [] then whole else whole @ CHR ''.'' # f)"

definition show_general :: "rat \<Rightarrow> string" where
  "show_general x =
     (let k0 = decade x; m = nat (round_even (shift10 (5 - k0) x));
          (ds, k) = (if m = 1000000 then (show_nat 100000, k0 + 1) else (show_nat m, k0))
      in if 0 \<le> k \<and> k < 6 then with_fraction (take (nat k + 1) ds) (drop (nat k + 1) ds)
         else if - 4 \<le> k \<and> k < 0 then with_fraction ''0'' (replicate (nat (- k) - 1) (CHR ''0'') @ ds)
         else with_fraction (take 1 ds) (drop 1 ds) @ ''e'' @ (if k < 0 then ''-'' else ''+'') @
              (if \<bar>k\<bar> < 10 then ''0'' else []) @ show_nat (nat \<bar>k\<bar>))"

definition render_term :: "string \<times> rat \<Rightarrow> string" where
  "render_term = (\<lambda>(dim, e). if \<bar>e\<bar> = 1 then dim else dim @ '' ** '' @ show_general \<bar>e\<bar>)"

text \<open>\<open>sorted\<close> on the pairs of a mapping, whose keys are distinct.\<close>

definition positive_terms :: "dims \<Rightarrow> dims" where
  "positive_terms ds = sort_key fst (filter (\<lambda>x. 0 < snd x) ds)"

definition negative_terms :: "dims \<Rightarrow> dims" where
  "negative_terms ds = sort_key fst (filter (\<lambda>x. snd x < 0) ds)"

definition render_dimensionality :: "dims \<Rightarrow> string" where
  "render_dimensionality ds =
     (if positive_terms ds = [] \<and> negative_terms ds = [] then DIMENSIONLESS
      else foldl (\<lambda>rendered x. rendered @ '' / '' @ render_term x)
             (if positive_terms ds = [] then ''1'' else join '' * '' (map render_term (positive_terms ds)))
             (negative_terms ds))"

definition dimensionality_of :: "pint \<Rightarrow> string \<Rightarrow> string result" where
  "dimensionality_of pint expression =
     (if strip expression = DIMENSIONLESS then Inr DIMENSIONLESS
      else (case pint expression of
              None \<Rightarrow> Inl (ValueError [Txt ''Unknown or unparseable unit '', repr_str expression])
            | Some ds \<Rightarrow> Inr (render_dimensionality ds)))"

section \<open>Reading the text back\<close>

definition read_nat :: "string \<Rightarrow> nat" where
  "read_nat s = foldl (\<lambda>n c. 10 * n + (of_char c - 48)) 0 s"

lemma read_nat_snoc: "read_nat (s @ [c]) = 10 * read_nat s + (of_char c - 48)"
  by (simp add: read_nat_def)

lemma read_digit: "n < 10 \<Longrightarrow> of_char (digit n) - 48 = n"
  by (simp add: digit_def)

lemma read_show_nat [simp]: "read_nat (show_nat n) = n"
proof (induction n rule: show_nat.induct)
  case (1 n)
  show ?case
  proof (cases "n < 10")
    case True
    then show ?thesis using read_nat_snoc [of "[]" "digit n"]
      by (simp add: show_nat.simps [of n] read_digit read_nat_def)
  next
    case False
    then show ?thesis using 1 by (simp add: show_nat.simps [of n] read_nat_snoc read_digit)
  qed
qed

lemma digit_not_space: "n < 10 \<Longrightarrow> digit n \<noteq> CHR '' ''"
proof
  assume "n < 10" "digit n = CHR '' ''"
  then have "of_char (digit n) = (32 :: nat)" by simp
  with \<open>n < 10\<close> show False by (simp add: digit_def)
qed

lemma show_nat_no_space: "CHR '' '' \<notin> set (show_nat n)"
proof (induction n rule: show_nat.induct)
  case (1 n)
  then show ?case
    by (subst show_nat.simps) (use digit_not_space [of n] digit_not_space [of "n mod 10"] in auto)
qed

lemma with_fraction_set: "c \<in> set (with_fraction w f) \<Longrightarrow> c \<in> set w \<or> c \<in> set f \<or> c = CHR ''.''"
  by (auto simp: with_fraction_def Let_def dest: set_dropWhileD split: if_splits)

lemma show_general_no_space: "CHR '' '' \<notin> set (show_general x)"
proof -
  have "CHR '' '' \<notin> set (take n (show_nat m))" "CHR '' '' \<notin> set (drop n (show_nat m))" for m n
    using show_nat_no_space [of m] by (meson in_set_takeD in_set_dropD)+
  then show ?thesis
    unfolding show_general_def Let_def
    using show_nat_no_space by (auto dest!: with_fraction_set simp del: One_nat_def split: if_splits)
qed

lemma length_show_nat: "n < 10 ^ k \<Longrightarrow> 0 < k \<Longrightarrow> length (show_nat n) \<le> k"
proof (induction k arbitrary: n)
  case (Suc k)
  show ?case
  proof (cases "n < 10")
    case False
    with Suc.prems have "n div 10 < 10 ^ k" "0 < k"
      by (auto intro: less_mult_imp_div_less simp: mult.commute) (cases k; simp)
    then show ?thesis using Suc.IH [of "n div 10"] False by (simp add: show_nat.simps [of n])
  qed (simp add: show_nat.simps [of n])
qed simp

definition read_number :: "string \<Rightarrow> rat" where
  "read_number s =
     (let w = takeWhile (\<lambda>c. c \<noteq> CHR ''.'') s; f = drop 1 (dropWhile (\<lambda>c. c \<noteq> CHR ''.'') s)
      in of_nat (read_nat (w @ f)) / 10 ^ length f)"

text \<open>The exponents that the six digits of \<open>:g\<close> write exactly: every whole number below a million is one.\<close>

definition shown_exactly :: "rat \<Rightarrow> bool" where
  "shown_exactly e \<longleftrightarrow> read_number (show_general \<bar>e\<bar>) = \<bar>e\<bar>"

lemma show_nat_times_ten: "0 < n \<Longrightarrow> show_nat (n * 10 ^ j) = show_nat n @ replicate j (CHR ''0'')"
proof (induction j)
  case (Suc j)
  have "show_nat (n * 10 ^ Suc j) = show_nat (n * 10 ^ j) @ [digit 0]"
    using Suc.prems by (subst show_nat.simps) simp
  moreover have "digit 0 = CHR ''0''" by code_simp
  ultimately show ?case using Suc by (simp add: replicate_append_same)
qed simp

lemma show_nat_upper: "n < 10 ^ length (show_nat n)"
proof (induction n rule: show_nat.induct)
  case (1 n)
  show ?case
  proof (cases "n < 10")
    case False
    then have "n div 10 < 10 ^ length (show_nat (n div 10))" using 1 by simp
    then have "n < 10 * 10 ^ length (show_nat (n div 10))" by linarith
    with False show ?thesis by (subst show_nat.simps) simp
  qed (simp add: show_nat.simps [of n])
qed

lemma show_nat_no_point: "CHR ''.'' \<notin> set (show_nat n)"
proof (induction n rule: show_nat.induct)
  case (1 n)
  have "digit k \<noteq> CHR ''.''" if "k < 10" for k
  proof
    assume "digit k = CHR ''.''"
    then have "of_char (digit k) = (46 :: nat)" by simp
    with \<open>k < 10\<close> show False by (simp add: digit_def)
  qed
  note this [symmetric]
  with 1 show ?case by (subst show_nat.simps) simp
qed

lemma round_even_whole: "round_even (of_nat m) = int m"
  by (simp add: round_even_def)

lemma show_general_whole:
  assumes "0 < n" "n < 1000000"
  shows "show_general (of_nat n) = show_nat n"
proof -
  define k where "k = length (show_nat n) - 1"
  have len: "length (show_nat n) = Suc k" using show_nat.simps [of n] by (simp add: k_def)
  have "k < 6" using length_show_nat [of n 6] assms(2) len by simp
  have high: "n * 10 ^ (5 - k) < 1000000"
  proof -
    have "n * 10 ^ (5 - k) < 10 ^ Suc k * 10 ^ (5 - k)" using show_nat_upper [of n] len by simp
    also have "\<dots> = 10 ^ (Suc k + (5 - k))" by (simp only: power_add)
    also have "Suc k + (5 - k) = 6" using \<open>k < 6\<close> by simp
    finally show ?thesis by simp
  qed
  have dec: "decade (of_nat n) = int k"
    using assms(1) len by (simp add: decade_def)
  have "shift10 (5 - int k) (of_nat n) = of_nat (n * 10 ^ (5 - k))"
    using \<open>k < 6\<close> by (simp add: shift10_def nat_diff_distrib)
  then have "round_even (shift10 (5 - int k) (of_nat n)) = int (n * 10 ^ (5 - k))"
    by (simp only: round_even_whole)
  moreover define m where "m = n * 10 ^ (5 - k)"
  ultimately have mantissa: "nat (round_even (shift10 (5 - int k) (of_nat n))) = m" by (simp only: nat_int)
  have "m \<noteq> 1000000" "show_nat m = show_nat n @ replicate (5 - k) (CHR ''0'')"
    using high show_nat_times_ten [OF assms(1)] by (simp_all add: m_def)
  then show ?thesis
    using \<open>k < 6\<close> len by (simp add: show_general_def dec mantissa with_fraction_def)
qed

lemma shown_exactly_whole: "0 < \<bar>i\<bar> \<Longrightarrow> \<bar>i\<bar> < 1000000 \<Longrightarrow> shown_exactly (of_int i)"
proof -
  assume i: "0 < \<bar>i\<bar>" "\<bar>i\<bar> < 1000000"
  have whole: "\<bar>rat_of_int i\<bar> = of_nat (nat \<bar>i\<bar>)" by simp
  have before: "takeWhile (\<lambda>c. c \<noteq> CHR ''.'') (show_nat m) = show_nat m" and after: "dropWhile (\<lambda>c. c \<noteq> CHR ''.'') (show_nat m) = []" for m
    using show_nat_no_point [of m] by (auto simp: takeWhile_eq_all_conv dropWhile_eq_Nil_conv)
  show ?thesis
    unfolding shown_exactly_def whole
    using i show_general_whole [of "nat \<bar>i\<bar>"] by (simp add: read_number_def before after)
qed

definition term_tokens :: "string \<times> rat \<Rightarrow> string list" where
  "term_tokens = (\<lambda>(dim, e). if \<bar>e\<bar> = 1 then [dim] else [dim, ''**'', show_general \<bar>e\<bar>])"

definition more_tokens :: "string \<Rightarrow> dims \<Rightarrow> string list" where
  "more_tokens sep xs = concat (map (\<lambda>x. sep # term_tokens x) xs)"

fun numerator_tokens :: "dims \<Rightarrow> string list" where
  "numerator_tokens [] = [''1'']"
| "numerator_tokens (x # xs) = term_tokens x @ more_tokens ''*'' xs"

lemma join_append:
  "us \<noteq> [] \<Longrightarrow> vs \<noteq> [] \<Longrightarrow> join sep (us @ vs) = join sep us @ sep @ join sep vs"
proof (induction sep us rule: join.induct)
  case (2 sep w)
  then show ?case by (cases vs) auto
qed auto

lemma term_tokens_simps [simp]: "term_tokens x \<noteq> []" "join '' '' (term_tokens x) = render_term x"
  by (auto simp: term_tokens_def render_term_def split: prod.splits)

lemma more_tokens_simps [simp]:
  "more_tokens sep [] = []" "more_tokens sep (x # xs) = sep # term_tokens x @ more_tokens sep xs"
  by (simp_all add: more_tokens_def)

lemma foldl_tokens:
  "ts \<noteq> [] \<Longrightarrow> foldl (\<lambda>rendered x. rendered @ '' / '' @ render_term x) (join '' '' ts) xs
     = join '' '' (ts @ more_tokens ''/'' xs)"
proof (induction xs arbitrary: ts)
  case (Cons x xs)
  have "join '' '' ts @ '' / '' @ render_term x = join '' '' (ts @ [''/''] @ term_tokens x)"
    using Cons.prems by (simp add: join_append del: append_Cons append.simps)
  then show ?case using Cons.IH [of "ts @ [''/''] @ term_tokens x"] by simp
qed simp

lemma join_terms:
  "xs \<noteq> [] \<Longrightarrow> join '' * '' (map render_term xs) = join '' '' (numerator_tokens xs)"
proof (induction xs)
  case (Cons x xs)
  show ?case
  proof (cases xs)
    case (Cons y ys)
    have "join '' '' (term_tokens x @ ''*'' # numerator_tokens xs) =
        render_term x @ '' '' @ join '' '' (''*'' # numerator_tokens xs)"
      by (simp add: join_append)
    also have "\<dots> = render_term x @ '' * '' @ join '' '' (numerator_tokens xs)"
      using join_append [of "[''*'']" "numerator_tokens xs" "'' ''"] Cons by simp
    finally show ?thesis using Cons Cons.IH by (simp add: local.Cons)
  qed simp
qed simp

fun read_rest :: "string list \<Rightarrow> dims" and read_terms :: "rat \<Rightarrow> string list \<Rightarrow> dims" where
  "read_rest [] = []"
| "read_rest (sep # ts) = read_terms (if sep = ''*'' then 1 else - 1) ts"
| "read_terms s [] = []"
| "read_terms s [d] = [(d, s)]"
| "read_terms s [d, sep] = [(d, s)]"
| "read_terms s (d # sep # t # ts) =
     (if sep = ''**'' then (d, s * read_number t) # read_rest ts
      else (d, s) # read_terms (if sep = ''*'' then 1 else - 1) (t # ts))"

definition read_dimensionality :: "string \<Rightarrow> dims" where
  "read_dimensionality s =
     (let ts = split_on (CHR '' '') s
      in if s = DIMENSIONLESS then [] else if hd ts = ''1'' then read_rest (tl ts) else read_terms 1 ts)"

text \<open>A name pint gives a base dimension (\<open>[mass]\<close>): not empty, no space, and not the numeral of an empty numerator.\<close>

definition dimension_name :: "string \<Rightarrow> bool" where
  "dimension_name d = (d \<noteq> '''' \<and> CHR '' '' \<notin> set d \<and> d \<noteq> ''1'' \<and> d \<noteq> DIMENSIONLESS)"

lemma read_terms_term:
  assumes "s = 1 \<or> s = - 1" "0 < s * e" "shown_exactly e"
  shows "read_terms s (term_tokens (d, e) @ []) = [(d, e)]"
    and "sep \<noteq> ''**'' \<Longrightarrow> ts \<noteq> [] \<Longrightarrow> read_terms s (term_tokens (d, e) @ sep # ts) = (d, e) # read_rest (sep # ts)"
  using assms by (auto simp: term_tokens_def neq_Nil_conv shown_exactly_def)

lemma read_more_tokens:
  assumes "s = 1 \<and> sep = ''*'' \<or> s = - 1 \<and> sep = ''/''" "\<forall>x \<in> set xs. 0 < s * snd x \<and> shown_exactly (snd x)"
    and "rest = [] \<or> (\<exists>ts. rest = ''/'' # ts \<and> ts \<noteq> [])"
  shows "read_rest (more_tokens sep xs @ rest) = xs @ read_rest rest"
  using assms(2)
proof (induction xs)
  case (Cons x xs)
  obtain d e where x: "x = (d, e)" by (cases x)
  have s: "s = 1 \<or> s = - 1" "0 < s * e" "shown_exactly e" using assms(1) Cons.prems by (auto simp: x)
  consider "more_tokens sep xs @ rest = []" | t ts where "more_tokens sep xs @ rest = t # ts" "t \<noteq> ''**''" "ts \<noteq> []"
    using assms by (cases xs) auto
  then have "read_terms s (term_tokens x @ more_tokens sep xs @ rest) = x # read_rest (more_tokens sep xs @ rest)"
    by cases (use read_terms_term [OF s] in \<open>auto simp: x\<close>)
  then show ?case using Cons assms(1) by auto
qed simp

lemma tokens_free:
  assumes "\<forall>x \<in> set xs. dimension_name (fst x)" "CHR '' '' \<notin> set sep"
  shows "\<forall>w \<in> set (more_tokens sep xs). CHR '' '' \<notin> set w"
  using assms show_general_no_space
  by (induction xs) (auto simp: term_tokens_def dimension_name_def split: prod.splits if_splits)

lemma term_tokens_free:
  "dimension_name (fst x) \<Longrightarrow> \<forall>w \<in> set (term_tokens x). CHR '' '' \<notin> set w"
  using show_general_no_space by (auto simp: term_tokens_def dimension_name_def split: prod.splits if_splits)

definition all_tokens :: "dims \<Rightarrow> string list" where
  "all_tokens ds = numerator_tokens (positive_terms ds) @ more_tokens ''/'' (negative_terms ds)"

lemma numerator_tokens_nonempty [simp]: "numerator_tokens xs \<noteq> []"
  by (cases xs) auto

lemma render_tokens:
  "positive_terms ds \<noteq> [] \<or> negative_terms ds \<noteq> [] \<Longrightarrow> render_dimensionality ds = join '' '' (all_tokens ds)"
  using foldl_tokens [of "numerator_tokens (positive_terms ds)" "negative_terms ds"]
  by (cases "positive_terms ds = []") (auto simp: render_dimensionality_def all_tokens_def join_terms)

lemma read_all_tokens:
  assumes "\<forall>x \<in> set ds. dimension_name (fst x)" "\<forall>x \<in> set ds. shown_exactly (snd x)"
  shows "(if hd (all_tokens ds) = ''1'' then read_rest (tl (all_tokens ds)) else read_terms 1 (all_tokens ds))
         = positive_terms ds @ negative_terms ds"
proof -
  have "\<forall>x \<in> set (negative_terms ds). 0 < - 1 * snd x \<and> shown_exactly (snd x)"
    using assms(2) by (fastforce simp: negative_terms_def)
  then have neg: "read_rest (more_tokens ''/'' (negative_terms ds)) = negative_terms ds"
    using read_more_tokens [of "- 1" "''/''" "negative_terms ds" "[]"] by simp
  have rest: "more_tokens ''/'' (negative_terms ds) = [] \<or> (\<exists>ts. more_tokens ''/'' (negative_terms ds) = ''/'' # ts \<and> ts \<noteq> [])"
    by (cases "negative_terms ds") auto
  show ?thesis
  proof (cases "positive_terms ds")
    case Nil
    then show ?thesis by (simp add: all_tokens_def neg)
  next
    case (Cons x xs)
    obtain d e where x: "x = (d, e)" by (cases x)
    have pos: "\<forall>y \<in> set (x # xs). 0 < snd y \<and> dimension_name (fst y) \<and> shown_exactly (snd y)"
      unfolding Cons [symmetric] using assms by (auto simp: positive_terms_def)
    have more: "read_rest (more_tokens ''*'' xs @ more_tokens ''/'' (negative_terms ds)) = xs @ negative_terms ds"
      using read_more_tokens [OF _ _ rest, of 1 "''*''" xs] pos by (simp add: neg)
    consider "more_tokens ''*'' xs @ more_tokens ''/'' (negative_terms ds) = []"
      | t ts where "more_tokens ''*'' xs @ more_tokens ''/'' (negative_terms ds) = t # ts" "t \<noteq> ''**''" "ts \<noteq> []"
      using rest by (cases xs) auto
    then have "read_terms 1 (term_tokens x @ more_tokens ''*'' xs @ more_tokens ''/'' (negative_terms ds))
        = x # xs @ negative_terms ds"
      by cases (use pos more read_terms_term [where s = 1 and e = e and d = d] in \<open>auto simp: x\<close>)
    moreover have "hd (term_tokens x @ ts) \<noteq> ''1''" for ts
      using pos by (auto simp: x term_tokens_def dimension_name_def)
    ultimately show ?thesis by (simp add: all_tokens_def Cons)
  qed
qed

lemma read_render:
  assumes "\<forall>x \<in> set ds. dimension_name (fst x)" "\<forall>x \<in> set ds. shown_exactly (snd x)"
  shows "read_dimensionality (render_dimensionality ds) = positive_terms ds @ negative_terms ds"
proof (cases "positive_terms ds = [] \<and> negative_terms ds = []")
  case True
  then show ?thesis by (simp add: render_dimensionality_def read_dimensionality_def)
next
  case False
  have names: "\<forall>x \<in> set (positive_terms ds) \<union> set (negative_terms ds). dimension_name (fst x)"
    using assms by (auto simp: positive_terms_def negative_terms_def)
  have "\<forall>w \<in> set (numerator_tokens (positive_terms ds)). CHR '' '' \<notin> set w"
    using names tokens_free [of "tl (positive_terms ds)" "''*''"] term_tokens_free
    by (cases "positive_terms ds") auto
  then have free: "\<forall>w \<in> set (all_tokens ds). CHR '' '' \<notin> set w"
    using names tokens_free [of "negative_terms ds" "''/''"] by (auto simp: all_tokens_def)
  have ne: "all_tokens ds \<noteq> []" by (cases "positive_terms ds") (auto simp: all_tokens_def)
  have toks: "split_on (CHR '' '') (render_dimensionality ds) = all_tokens ds"
    using False by (simp add: render_tokens split_on_join [OF ne free])
  have "split_on (CHR '' '') DIMENSIONLESS = [DIMENSIONLESS]" by (simp add: DIMENSIONLESS_def)
  moreover have "all_tokens ds \<noteq> [DIMENSIONLESS]"
    using names False
    by (cases "positive_terms ds"; cases "negative_terms ds")
      (auto simp: all_tokens_def term_tokens_def dimension_name_def DIMENSIONLESS_def split: if_splits prod.splits)
  ultimately have "render_dimensionality ds \<noteq> DIMENSIONLESS" using toks by metis
  then show ?thesis
    unfolding read_dimensionality_def toks Let_def using read_all_tokens [OF assms] by simp
qed

section \<open>Properties\<close>

definition dimension_terms :: "dims \<Rightarrow> dims" where
  "dimension_terms ds = positive_terms ds @ negative_terms ds"

lemma set_dimension_terms: "set (dimension_terms ds) = {x \<in> set ds. snd x \<noteq> 0}"
  by (auto simp: dimension_terms_def positive_terms_def negative_terms_def)

lemma sort_key_distinct:
  assumes "set xs = set ys" "distinct (map fst xs)" "distinct (map fst ys)"
  shows "sort_key fst xs = sort_key (fst :: string \<times> rat \<Rightarrow> string) ys"
proof (rule map_sorted_distinct_set_unique [where f = fst])
  show "inj_on fst (set (sort_key fst xs) \<union> set (sort_key fst ys))"
    using assms by (simp add: distinct_map)
  show "distinct (map fst (sort_key fst xs))" "distinct (map fst (sort_key fst ys))"
    using assms(2,3) by (simp_all add: distinct_map)
qed (simp_all add: assms(1))

text \<open>
  C19. The text of a dimensionality is canonical. Read by its grammar (products, quotients, powers) it is the dimensions and their exponents,
  those that are zero left out, and two mappings pint may answer with (each dimension
  once, in any order, with vanished exponents or without) have the same text exactly when they are the same dimension, so comparing
  the texts compares the dimensions. The names are those of pint's base dimensions, and the six digits of \<open>:g\<close> write every exponent
  exactly, as they do any whole one below a million.
\<close>

theorem render_dimensionality_canonical:
  assumes "distinct (map fst ds)" "distinct (map fst es)"
    and "\<forall>x \<in> set ds. dimension_name (fst x)" "\<forall>x \<in> set es. dimension_name (fst x)"
    and "\<forall>x \<in> set ds \<union> set es. shown_exactly (snd x)"
  shows "set (read_dimensionality (render_dimensionality ds)) = {x \<in> set ds. snd x \<noteq> 0} \<and>
    (render_dimensionality ds = render_dimensionality es \<longleftrightarrow> {x \<in> set ds. snd x \<noteq> 0} = {x \<in> set es. snd x \<noteq> 0})"
proof (intro conjI iffI)
  have reads: "read_dimensionality (render_dimensionality ds) = dimension_terms ds" "read_dimensionality (render_dimensionality es) = dimension_terms es"
    using read_render [OF assms(3)] read_render [OF assms(4)] assms(5) by (simp_all add: dimension_terms_def)
  then show "set (read_dimensionality (render_dimensionality ds)) = {x \<in> set ds. snd x \<noteq> 0}"
    by (simp add: set_dimension_terms)
  show "{x \<in> set ds. snd x \<noteq> 0} = {x \<in> set es. snd x \<noteq> 0}" if "render_dimensionality ds = render_dimensionality es"
    using that reads by (metis set_dimension_terms)
  assume same: "{x \<in> set ds. snd x \<noteq> 0} = {x \<in> set es. snd x \<noteq> 0}"
  have "{x \<in> set ds. 0 < snd x} = {x \<in> set es. 0 < snd x}" "{x \<in> set ds. snd x < 0} = {x \<in> set es. snd x < 0}"
    using same by force+
  then have "positive_terms ds = positive_terms es" "negative_terms ds = negative_terms es"
    using assms(1,2) by (auto simp: positive_terms_def negative_terms_def distinct_map_filter intro!: sort_key_distinct)
  then show "render_dimensionality ds = render_dimensionality es"
    by (simp add: render_dimensionality_def)
qed

lemma show_two_and_a_half: "show_general (5 / 2) = ''2.5''"
proof -
  have "\<lfloor>5 / 2 :: rat\<rfloor> = 2" by (rule floor_unique) simp_all
  then have "decade (5 / 2) = 0" by (simp add: decade_def show_nat.simps [of 2])
  moreover have "round_even (shift10 5 (5 / 2)) = 250000" by (simp add: round_even_def shift10_def)
  moreover have "replicate 4 (CHR ''0'') = ''0000''" "show_nat 25 = ''25''" by code_simp+
  then have "show_nat 250000 = ''250000''" using show_nat_times_ten [of 25 4] by simp
  ultimately show ?thesis by (simp add: show_general_def with_fraction_def)
qed

theorem render_dimensionality_canonical_witness:
  "render_dimensionality [(''[time]'', - 5 / 2), (''[mass]'', 1), (''[length]'', 2)] =
     render_dimensionality [(''[length]'', 2), (''[time]'', - 5 / 2), (''[mass]'', 1)] \<and>
   set (read_dimensionality (render_dimensionality [(''[time]'', - 5 / 2), (''[mass]'', 1), (''[length]'', 2)])) =
     {(''[length]'', 2), (''[mass]'', 1), (''[time]'', - 5 / 2)} \<and>
   render_dimensionality [(''[time]'', - 5 / 2), (''[mass]'', 1), (''[length]'', 2)] = ''[length] ** 2 * [mass] / [time] ** 2.5''"
    (is "render_dimensionality ?ds = render_dimensionality ?es \<and> _")
proof -
  have "shown_exactly (- 5 / 2)"
    using show_two_and_a_half by (simp add: shown_exactly_def read_number_def read_nat_def)
  moreover have "shown_exactly 1" "shown_exactly 2"
    using shown_exactly_whole [of 1] shown_exactly_whole [of 2] by simp_all
  ultimately
  have shown: "\<forall>x \<in> set ?ds \<union> set ?es. shown_exactly (snd x)" by auto
  have names: "\<forall>x \<in> set ?ds. dimension_name (fst x)" "\<forall>x \<in> set ?es. dimension_name (fst x)"
    by (simp_all add: dimension_name_def DIMENSIONLESS_def)
  have distinct: "distinct (map fst ?ds)" "distinct (map fst ?es)" by simp_all
  have set: "{x \<in> set ?ds. snd x \<noteq> 0} = {(''[length]'', 2), (''[mass]'', 1), (''[time]'', - 5 / 2)}"
    "{x \<in> set ?es. snd x \<noteq> 0} = {(''[length]'', 2), (''[mass]'', 1), (''[time]'', - 5 / 2)}" by auto
  have "show_nat 2 = ''2''" by code_simp
  then have "show_general 2 = ''2''" using show_general_whole [of 2] by simp
  then have rendered: "render_dimensionality ?ds = ''[length] ** 2 * [mass] / [time] ** 2.5''"
    using show_two_and_a_half by (simp add: render_dimensionality_def positive_terms_def negative_terms_def render_term_def)
  note canonical = render_dimensionality_canonical [OF distinct names shown, unfolded set]
  show ?thesis by (intro conjI rendered conjunct1 [OF canonical] conjunct2 [OF canonical, THEN iffD2] refl)
qed

end
