(* ===== verification/Port_Models.thy ===== *)
theory Port_Models
  imports Values Units
begin

text \<open>
  Building the port models (\<open>rekuest_core/inputs/models.py\<close>): the QUANTITY rules, the validators of
  argument and return ports, and the construction of a whole port bottom-up (a nested model is
  built, and may be rewritten, before the validators of the model around it run). What pydantic
  does besides calling them (reading the fields, collecting several errors) is not modelled. The
  parsers the code calls are the fields of \<open>externals\<close>.
\<close>

record externals =
  ext_pint :: pint
  ext_graphql :: graphql
  ext_iso_date :: "string \<Rightarrow> bool"

section \<open>The validators of a port\<close>

definition check_quantity :: "pint \<Rightarrow> port_base \<Rightarrow> port_base result" where
  "check_quantity pint b =
     (case pt_reference_unit b of
        None \<Rightarrow> Inl (ValueError [Txt ''QUANTITY port must declare a reference_unit''])
      | Some unit \<Rightarrow>
          if unit = '''' then Inl (ValueError [Txt ''QUANTITY port must declare a reference_unit''])
          else
            and_then (dimensionality_of pint unit) (\<lambda>derived.
            and_then (case pt_dimension b of None \<Rightarrow> Inr ()
                      | Some d \<Rightarrow> and_then (dimensionality_of pint d) (\<lambda>own.
                          raise_if (own \<noteq> derived)
                            (ValueError [Txt ''QUANTITY port: dimension '', repr_str d,
                               Txt '' is inconsistent with reference_unit '', repr_str unit]))) (\<lambda>_.
            and_then (for_each (\<lambda>u. and_then (dimensionality_of pint u) (\<lambda>own.
                        raise_if (own \<noteq> derived)
                          (ValueError [Txt ''QUANTITY port: proposed unit '', repr_str u, Txt '' has dimensionality '',
                             repr_str own, Txt '', expected '', repr_str derived]))) (or_nil (pt_proposed_units b))) (\<lambda>_.
            Inr (b\<lparr>pt_dimension := Some derived\<rparr>)))))"

definition check_kind_specific_fields :: "pint \<Rightarrow> port_base \<Rightarrow> string list \<Rightarrow> port_base result" where
  "check_kind_specific_fields pint b keys =
     and_then (check_port_key (pt_key b) [Txt ''Port'']) (\<lambda>_.
     and_then (check_port_shape b keys) (\<lambda>_.
     if pt_kind b = K_QUANTITY then check_quantity pint b
     else and_then (raise_if (given (pt_reference_unit b) \<or> given (pt_proposed_units b) \<or> given (pt_dimension b))
            (ValueError [Txt ''Port '', repr_str (pt_key b), Txt '' must not set QUANTITY-only fields''])) (\<lambda>_.
          Inr b)))"

definition check_widget_and_default :: "(string \<Rightarrow> bool) \<Rightarrow> arg_port \<Rightarrow> check" where
  "check_widget_and_default iso_date p =
     and_then (if has_value (port_default p)
               then and_then (value_mismatch iso_date False p [] (port_default p)) (\<lambda>m.
                      case m of None \<Rightarrow> Inr () | Some e \<Rightarrow> Inl (ValueError (Txt ''Port default '' # e)))
               else Inr ()) (\<lambda>_.
     and_then (check_default_in_choices p) (\<lambda>_.
     for_each (\<lambda>w. check_widget_fits_port w p) (iter_widget_chain (widget p))))"

definition check_return_choices :: "return_port \<Rightarrow> check" where
  "check_return_choices p =
     raise_if (return_widget p = Some Choice_return \<and> or_nil (pt_choices (r_base p)) = [])
       (ValueError [Txt ''Port '', repr_str (r_key_of p),
                    Txt '': a CHOICE return widget needs the port to declare `choices`''])"

section \<open>Building\<close>

definition built :: "bool \<Rightarrow> check" where
  "built ok = raise_if (\<not> ok) (ValueError [Txt ''a nested model is refused''])"

definition map_option_result :: "('a \<Rightarrow> 'b result) \<Rightarrow> 'a list option \<Rightarrow> 'b list option result" where
  "map_option_result f xs =
     (case xs of None \<Rightarrow> Inr None | Some ys \<Rightarrow> and_then (map_result f ys) (\<lambda>zs. Inr (Some zs)))"

definition build_effect :: "effect \<Rightarrow> effect result" where
  "build_effect e = and_then (built (wf_util_call (ef_call e))) (\<lambda>_. check_effect e)"

definition build_validator :: "port_validator \<Rightarrow> port_validator result" where
  "build_validator v = and_then (built (wf_util_call (va_call v))) (\<lambda>_. check_validator v)"

fun wf_nodes :: "component_node list \<Rightarrow> bool" where
  "wf_nodes [] = True"
| "wf_nodes (Node i c ps cs # ns) = (list_all wf_prop (or_nil ps) \<and> wf_nodes (or_nil cs) \<and> wf_nodes ns)"

definition build_accessors :: "state_accessor list option \<Rightarrow> check" where
  "build_accessors as =
     for_each (\<lambda>a. built (case sa_call a of None \<Rightarrow> True | Some c \<Rightarrow> wf_util_call c)) (or_nil as)"

definition build_custom_props ::
  "string list option \<Rightarrow> component_prop list option \<Rightarrow> component_node list option \<Rightarrow> component_prop list option result" where
  "build_custom_props dependencies ps cs =
     and_then (built (list_all wf_prop (or_nil ps) \<and> wf_nodes (or_nil cs))) (\<lambda>_.
     and_then (check_widget_props dependencies [Txt ''CustomAssignWidget''] ps) (\<lambda>ps'.
     and_then (check_widget_tree (or_nil cs) (or_nil dependencies @ declared_names ps') [Txt ''CustomAssignWidget'']) (\<lambda>_.
     Inr ps')))"

text \<open>One port once its children and its widget are built.\<close>

definition finish_port ::
  "externals \<Rightarrow> port_base \<Rightarrow> port_validator list option \<Rightarrow> json \<Rightarrow> assign_widget option \<Rightarrow>
   descriptor_demand list option \<Rightarrow> arg_port list option \<Rightarrow> arg_port result" where
  "finish_port ext b vs d w rq cs =
     and_then (map_option_result build_effect (pt_effects b)) (\<lambda>effects.
     and_then (map_option_result build_validator vs) (\<lambda>vs'.
     and_then (for_each (check_descriptor [Txt ''requires '']) (or_nil rq)) (\<lambda>_.
     and_then (check_kind_specific_fields (ext_pint ext) (b\<lparr>pt_effects := effects\<rparr>) (map a_key_of (or_nil cs))) (\<lambda>b'.
     and_then (check_widget_and_default (ext_iso_date ext) (ArgPort b' vs' d w rq cs)) (\<lambda>_.
     Inr (ArgPort b' vs' d w rq cs))))))"

fun build_port :: "externals \<Rightarrow> arg_port \<Rightarrow> arg_port result"
  and build_widget :: "externals \<Rightarrow> assign_widget \<Rightarrow> assign_widget result"
  and build_widget_option :: "externals \<Rightarrow> assign_widget option \<Rightarrow> assign_widget option result"
  and build_ports :: "externals \<Rightarrow> arg_port list \<Rightarrow> arg_port list result"
  and build_ports_option :: "externals \<Rightarrow> arg_port list option \<Rightarrow> arg_port list option result"
where
  "build_port ext (ArgPort b vs d w rq cs) =
     and_then (build_ports_option ext cs) (\<lambda>cs'.
     and_then (build_widget_option ext w) (\<lambda>w'. finish_port ext b vs d w' rq cs'))"
| "build_widget ext (Slider f lo hi st) = and_then (check_slider lo hi st) (\<lambda>_. Inr (Slider f lo hi st))"
| "build_widget ext (Choice_widget f) = Inr (Choice_widget f)"
| "build_widget ext (String_widget f) = Inr (String_widget f)"
| "build_widget ext (Search f q ward fs ds) =
     and_then (raise_if (ward = '''') (ValueError [Txt ''ward''])) (\<lambda>_.
     and_then (build_ports_option ext fs) (\<lambda>fs'.
     and_then (check_search (ext_graphql ext) q fs') (\<lambda>_. Inr (Search f q ward fs' ds))))"
| "build_widget ext (Custom f c ps cs ds fb) =
     and_then (check_custom_component c) (\<lambda>_.
     and_then (build_widget_option ext fb) (\<lambda>fb'.
     and_then (build_custom_props ds ps cs) (\<lambda>ps'. Inr (Custom f c ps' cs ds fb'))))"
| "build_widget ext (State_choice f path call acc ds dep) =
     and_then (built (case call of None \<Rightarrow> True | Some c \<Rightarrow> wf_util_call c)) (\<lambda>_.
     and_then (build_accessors acc) (\<lambda>_.
     and_then (check_state_choice path call acc ds) (\<lambda>x. Inr (State_choice f path (fst x) (snd x) ds dep))))"
| "build_widget ext (Proxy f p a d) =
     and_then (raise_if (p = '''' \<or> a = '''') (ValueError [Txt ''target''])) (\<lambda>_. Inr (Proxy f p a d))"
| "build_widget_option ext None = Inr None"
| "build_widget_option ext (Some w) = and_then (build_widget ext w) (\<lambda>w'. Inr (Some w'))"
| "build_ports ext [] = Inr []"
| "build_ports ext (p # ps) =
     and_then (build_port ext p) (\<lambda>p'. and_then (build_ports ext ps) (\<lambda>ps'. Inr (p' # ps')))"
| "build_ports_option ext None = Inr None"
| "build_ports_option ext (Some ps) = and_then (build_ports ext ps) (\<lambda>ps'. Inr (Some ps'))"

definition build_return_widget :: "return_widget option \<Rightarrow> return_widget option result" where
  "build_return_widget w =
     (case w of
        Some (Custom_return c ps) \<Rightarrow>
          and_then (check_custom_component c) (\<lambda>_.
          and_then (built (list_all wf_prop (or_nil ps))) (\<lambda>_.
          and_then (check_widget_props None [Txt ''CustomReturnWidget''] ps) (\<lambda>ps'.
          Inr (Some (Custom_return c ps')))))
      | _ \<Rightarrow> Inr w)"

fun build_return_port :: "externals \<Rightarrow> return_port \<Rightarrow> return_port result"
  and build_return_ports :: "externals \<Rightarrow> return_port list \<Rightarrow> return_port list result"
  and build_return_option :: "externals \<Rightarrow> return_port list option \<Rightarrow> return_port list option result"
where
  "build_return_port ext (ReturnPort b w pr cs) =
     and_then (build_return_option ext cs) (\<lambda>cs'.
     and_then (map_option_result build_effect (pt_effects b)) (\<lambda>effects.
     and_then (build_return_widget w) (\<lambda>w'.
     and_then (for_each (check_descriptor [Txt ''provides '']) (or_nil pr)) (\<lambda>_.
     and_then (check_kind_specific_fields (ext_pint ext) (b\<lparr>pt_effects := effects\<rparr>) (map r_key_of (or_nil cs'))) (\<lambda>b'.
     and_then (check_return_choices (ReturnPort b' w' pr cs')) (\<lambda>_. Inr (ReturnPort b' w' pr cs')))))))"
| "build_return_ports ext [] = Inr []"
| "build_return_ports ext (p # ps) =
     and_then (build_return_port ext p) (\<lambda>p'. and_then (build_return_ports ext ps) (\<lambda>ps'. Inr (p' # ps')))"
| "build_return_option ext None = Inr None"
| "build_return_option ext (Some ps) = and_then (build_return_ports ext ps) (\<lambda>ps'. Inr (Some ps'))"

section \<open>What a built port is\<close>

fun port_tree :: "arg_port list \<Rightarrow> arg_port list" where
  "port_tree [] = []"
| "port_tree (ArgPort b vs d w rq cs # ps) = ArgPort b vs d w rq cs # port_tree (or_nil cs) @ port_tree ps"

lemma port_tree_eq: "port_tree ps = concat (map (\<lambda>p. p # port_tree (or_nil (arg_children p))) ps)"
proof (induction ps)
  case (Cons p ps)
  then show ?case by (cases p) auto
qed simp

definition quantity_ok :: "pint \<Rightarrow> port_base \<Rightarrow> bool" where
  "quantity_ok pint b \<longleftrightarrow>
     (if pt_kind b = K_QUANTITY
      then \<exists>unit derived. pt_reference_unit b = Some unit \<and> unit \<noteq> '''' \<and> dimensionality_of pint unit = Inr derived \<and>
             pt_dimension b = Some derived \<and>
             (\<forall>u \<in> set (or_nil (pt_proposed_units b)). dimensionality_of pint u = Inr derived)
      else pt_reference_unit b = None \<and> pt_proposed_units b = None \<and> pt_dimension b = None)"

definition sound_port :: "externals \<Rightarrow> arg_port \<Rightarrow> bool" where
  "sound_port ext p \<longleftrightarrow>
     a_key_of p \<noteq> '''' \<and> a_key_of p \<noteq> ''value'' \<and> (has_dotdot (a_key_of p) \<longrightarrow> a_key_of p = ITEM_KEY) \<and>
     check_port_shape (a_base p) (map a_key_of (or_nil (arg_children p))) = Inr () \<and>
     quantity_ok (ext_pint ext) (a_base p) \<and>
     (has_value (port_default p) \<longrightarrow>
        fits (ext_iso_date ext) False p (port_default p) \<and>
        (or_nil (pt_choices (a_base p)) \<noteq> [] \<longrightarrow>
           (\<exists>ch \<in> set (or_nil (pt_choices (a_base p))). py_eq (ch_value ch) (port_default p)))) \<and>
     (\<forall>w \<in> set (iter_widget_chain (widget p)). check_widget_fits_port w p = Inr ())"

lemma check_quantity_Inr:
  "check_quantity pint b = Inr b' \<Longrightarrow>
   \<exists>unit derived. pt_reference_unit b = Some unit \<and> unit \<noteq> '''' \<and> dimensionality_of pint unit = Inr derived \<and>
     b' = b\<lparr>pt_dimension := Some derived\<rparr> \<and>
     (\<forall>u \<in> set (or_nil (pt_proposed_units b)). dimensionality_of pint u = Inr derived)"
  by (auto simp: check_quantity_def result_iff split: option.splits if_splits)

text \<open>The check adds the dimension of a QUANTITY port and changes nothing else.\<close>

lemma check_kind_specific_fields_Inr:
  assumes "check_kind_specific_fields pint b keys = Inr b'"
  shows "quantity_ok pint b' \<and> check_port_key (pt_key b') [Txt ''Port''] = Inr () \<and> check_port_shape b' keys = Inr ()
     \<and> (\<exists>dim. b' = b\<lparr>pt_dimension := dim\<rparr>)"
proof -
  have shape: "check_port_shape (b\<lparr>pt_dimension := dim\<rparr>) keys = check_port_shape b keys" for dim
    by (simp add: check_port_shape_def)
  show ?thesis
  proof (cases "pt_kind b = K_QUANTITY")
    case True
    then have "check_quantity pint b = Inr b'" and base: "check_port_key (pt_key b) [Txt ''Port''] = Inr ()"
      "check_port_shape b keys = Inr ()"
      using assms by (simp_all add: check_kind_specific_fields_def and_then_Inr)
    then obtain unit derived where q: "pt_reference_unit b = Some unit" "unit \<noteq> ''''"
      "dimensionality_of pint unit = Inr derived" "b' = b\<lparr>pt_dimension := Some derived\<rparr>"
      "\<forall>u \<in> set (or_nil (pt_proposed_units b)). dimensionality_of pint u = Inr derived"
      using check_quantity_Inr by blast
    then show ?thesis using True base by (simp add: quantity_ok_def shape) blast
  next
    case False
    then have "b' = b" "pt_reference_unit b = None" "pt_proposed_units b = None" "pt_dimension b = None"
      "check_port_key (pt_key b) [Txt ''Port''] = Inr ()" "check_port_shape b keys = Inr ()"
      using assms by (auto simp: check_kind_specific_fields_def and_then_Inr raise_if_Inr)
    then show ?thesis
      using False by (auto simp: quantity_ok_def intro: exI [of _ None])
  qed
qed

lemma check_widget_and_default_Inr:
  assumes "check_widget_and_default iso_date p = Inr ()" "shaped_ports [p]"
  shows "(has_value (port_default p) \<longrightarrow>
        fits iso_date False p (port_default p) \<and>
        (or_nil (pt_choices (a_base p)) \<noteq> [] \<longrightarrow>
           (\<exists>ch \<in> set (or_nil (pt_choices (a_base p))). py_eq (ch_value ch) (port_default p)))) \<and>
     (\<forall>w \<in> set (iter_widget_chain (widget p)). check_widget_fits_port w p = Inr ())"
  using assms(1) value_mismatch_decides [OF assms(2), of iso_date False "[]" "port_default p"]
  by (auto simp: check_widget_and_default_def result_iff check_default_in_choices_def decides_def list_ex_iff
        split: option.splits)

lemma build_ports_eq: "build_ports ext ps = map_result (build_port ext) ps"
  by (induction ps) simp_all

lemma build_ports_option_or_nil:
  "build_ports_option ext cs = Inr cs' \<Longrightarrow> list_all2 (\<lambda>p p'. build_port ext p = Inr p') (or_nil cs) (or_nil cs')"
  by (cases cs) (auto simp: result_iff build_ports_eq)

lemma shaped_port_tree: "shaped_ports ps \<longleftrightarrow>
  (\<forall>p \<in> set (port_tree ps). check_port_shape (a_base p) (map a_key_of (or_nil (arg_children p))) = Inr ())"
  by (induction ps rule: shaped_ports.induct) (auto simp: ball_Un)

lemma list_all2_source: "list_all2 P xs ys \<Longrightarrow> y \<in> set ys \<Longrightarrow> \<exists>x \<in> set xs. P x y"
  by (induction rule: list_all2_induct) auto

lemma port_tree_all2:
  assumes "list_all2 (\<lambda>p p'. build_port ext p = Inr p') cs cs'"
    and "\<And>c c'. c \<in> set cs \<Longrightarrow> build_port ext c = Inr c' \<Longrightarrow> \<forall>q \<in> set (port_tree [c']). P q"
  shows "\<forall>q \<in> set (port_tree cs'). P q"
proof
  fix q assume "q \<in> set (port_tree cs')"
  then obtain c' where c': "c' \<in> set cs'" "q \<in> set (port_tree [c'])"
    by (auto simp: port_tree_eq [of cs'] port_tree_eq [of "[_]"])
  then obtain c where "c \<in> set cs" "build_port ext c = Inr c'"
    using list_all2_source [OF assms(1)] by blast
  then show "P q" using assms(2) c'(2) by blast
qed

lemma build_port_sound:
  "build_port ext p = Inr p' \<Longrightarrow> \<forall>q \<in> set (port_tree [p']). sound_port ext q"
proof (induction p arbitrary: p' rule: arg_port_children_induct)
  case (1 p)
  obtain b vs d w rq cs where p: "p = ArgPort b vs d w rq cs" by (cases p)
  then obtain cs' w' where cs': "build_ports_option ext cs = Inr cs'"
    and fin: "finish_port ext b vs d w' rq cs' = Inr p'"
    using 1(2) by (auto simp: and_then_Inr)
  then obtain effects vs' b' where
    fields: "check_kind_specific_fields (ext_pint ext) (b\<lparr>pt_effects := effects\<rparr>) (map a_key_of (or_nil cs')) = Inr b'"
    and def: "check_widget_and_default (ext_iso_date ext) (ArgPort b' vs' d w' rq cs') = Inr ()"
    and p': "p' = ArgPort b' vs' d w' rq cs'"
    by (auto simp: finish_port_def and_then_Inr)
  have kids: "\<forall>q \<in> set (port_tree (or_nil cs')). sound_port ext q"
    by (rule port_tree_all2 [OF build_ports_option_or_nil [OF cs']]) (use 1(1) in \<open>simp add: p\<close>)
  note fields' = check_kind_specific_fields_Inr [OF fields]
  have "shaped_ports [p']"
    using kids fields' by (simp add: p' shaped_port_tree) (simp add: sound_port_def)
  then have "sound_port ext p'"
    using fields' check_widget_and_default_Inr [OF def [folded p']]
    by (simp add: sound_port_def p' result_iff)
  then show ?case using kids by (simp add: p')
qed

text \<open>
  C15. Every port of a tree that was built, however deep, has a legal key, the children, identifier
  and choices its kind demands, for a QUANTITY the dimension of its reference unit, shared by every
  proposed unit, and for the other kinds no unit at all; a default that fits the port and is one of
  its choices; and widgets (fallbacks included) that can edit its kind.
\<close>

theorem build_ports_sound:
  assumes "build_ports ext ps = Inr ps'"
  shows "\<forall>p \<in> set (port_tree ps'). sound_port ext p"
  by (rule port_tree_all2 [of ext ps]) (use assms in \<open>auto simp: build_ports_eq map_result_Inr dest: build_port_sound\<close>)

end
