(* ===== verification/Walk.thy ===== *)
theory Walk
  imports Tree
begin

text \<open>
  \<open>rekuest_core/vocabulary/walk.py\<close>: the walk over a blok tree that the checker and the inference
  share. A visitor (the \<open>TreeVisitor\<close> protocol) is a record of operations on the state it keeps;
  what its \<open>bind_let\<close> and \<open>bind_into\<close> return is the binding of a name in scope. The scoping rules are
  proved against a declarative list of the tree's events, each with the names in scope there, and
  the locales \<open>visitor_invariant\<close> and \<open>visitor_reaches\<close> are how the visitors' properties are lifted
  from one operation to the whole walk.
\<close>

section \<open>The walk\<close>

record where_at =
  w_node :: component_node
  w_key :: string
  w_callback :: bool
  w_in_error :: bool

definition where_text :: "where_at \<Rightarrow> string" where
  "where_text w = prop_place (w_key w) (w_node w)"

record ('b, 's) visitor =
  visit_component :: "component_node \<Rightarrow> component_node list \<Rightarrow> (string \<rightharpoonup> 'b) \<Rightarrow> 's \<Rightarrow> 's"
  visit_path :: "string \<Rightarrow> where_at \<Rightarrow> (string \<rightharpoonup> 'b) \<Rightarrow> 's \<Rightarrow> 's"
  visit_agent_call :: "agent_call \<Rightarrow> where_at \<Rightarrow> (string \<rightharpoonup> 'b) \<Rightarrow> string option \<Rightarrow> 's \<Rightarrow> 's"
  visit_util_call :: "util_call \<Rightarrow> where_at \<Rightarrow> (string \<rightharpoonup> 'b) \<Rightarrow> bool \<Rightarrow> 's \<Rightarrow> 's"
  bind_let :: "string \<Rightarrow> component_prop option \<Rightarrow> where_at \<Rightarrow> (string \<rightharpoonup> 'b) \<Rightarrow> 's \<Rightarrow> 'b \<times> 's"
  bind_into :: "string \<Rightarrow> agent_call \<Rightarrow> 's \<Rightarrow> 'b \<times> 's"

text \<open>\<open>_walk_argument\<close> and \<open>_walk_util\<close> (a nested function call is never \<open>top\<close>).\<close>

fun walk_arguments :: "('b, 's) visitor \<Rightarrow> (string \<rightharpoonup> 'b) \<Rightarrow> where_at \<Rightarrow> argument list \<Rightarrow> 's \<Rightarrow> 's" where
  "walk_arguments v scope w [] s = s"
| "walk_arguments v scope w (Argument k lit p ac uc vl vd # as) s =
     (let s1 = (case p of None \<Rightarrow> s | Some path \<Rightarrow> visit_path v path w scope s);
          s2 = (case ac of None \<Rightarrow> s1
                | Some c \<Rightarrow> walk_arguments v scope w (or_nil (call_arguments c))
                              (visit_agent_call v c w scope None s1));
          s3 = (case uc of None \<Rightarrow> s2
                | Some c \<Rightarrow> walk_arguments v scope w (or_nil (arguments c))
                              (visit_util_call v c w scope False s2));
          s4 = walk_arguments v scope w (or_nil vl) s3;
          s5 = walk_arguments v scope w (or_nil vd) s4
      in walk_arguments v scope w as s5)"

definition prop_where :: "vocabulary \<Rightarrow> component_node \<Rightarrow> component_prop \<Rightarrow> bool \<Rightarrow> where_at" where
  "prop_where voc node p in_error =
     \<lparr>w_node = node, w_key = pr_key p, w_callback = is_callback_value voc p, w_in_error = in_error\<rparr>"

definition walk_prop ::
  "vocabulary \<Rightarrow> ('b, 's) visitor \<Rightarrow> component_node \<Rightarrow> (string \<rightharpoonup> 'b) \<Rightarrow> bool \<Rightarrow> component_prop \<Rightarrow> 's \<Rightarrow> 's" where
  "walk_prop voc v node scope in_error p s =
     (let w = prop_where voc node p in_error;
          s1 = (case prop_path p of None \<Rightarrow> s | Some path \<Rightarrow> visit_path v path w scope s);
          s2 = (case pr_agent_call p of None \<Rightarrow> s1
                | Some c \<Rightarrow> walk_arguments v scope w (or_nil (call_arguments c))
                              (visit_agent_call v c w scope (declares_value p) s1))
      in (case pr_util_call p of None \<Rightarrow> s2
          | Some c \<Rightarrow> walk_arguments v scope w (or_nil (arguments c))
                        (visit_util_call v c w scope True s2)))"

definition enter_let ::
  "('b, 's) visitor \<Rightarrow> component_node \<Rightarrow> (string \<rightharpoonup> 'b) \<Rightarrow> bool \<Rightarrow> 's \<Rightarrow> (string \<rightharpoonup> 'b) \<times> 's" where
  "enter_let v node scope in_error s =
     (case foreach_let node of
        None \<Rightarrow> (scope, s)
      | Some name \<Rightarrow>
          let items = find (\<lambda>p. pr_key p = FOREACH_ITEMS_PROP) (or_nil (props node));
              w = \<lparr>w_node = node, w_key = FOREACH_ITEMS_PROP, w_callback = False, w_in_error = in_error\<rparr>;
              (b, s1) = bind_let v name items w scope s
          in (scope(name \<mapsto> b), s1))"

definition in_error_slot :: "component_node \<Rightarrow> component_node list \<Rightarrow> bool \<Rightarrow> bool" where
  "in_error_slot node ancestors in_error =
     (in_error \<or> (component node = ERROR_SLOT \<and> ancestors \<noteq> [] \<and>
                  component (last ancestors) = SUSPENSE_COMPONENT))"

text \<open>A \<open>foreach\<close> reads its \<open>items\<close> outside the loop, its other props inside it.\<close>

definition reads_outside :: "component_node \<Rightarrow> component_prop \<Rightarrow> bool" where
  "reads_outside node p = (given (foreach_let node) \<and> pr_key p = FOREACH_ITEMS_PROP)"

fun walk_nodes ::
  "vocabulary \<Rightarrow> ('b, 's) visitor \<Rightarrow> (string \<rightharpoonup> 'b) \<Rightarrow> component_node list \<Rightarrow> bool \<Rightarrow> component_node list \<Rightarrow> 's \<Rightarrow> 's"
where
  "walk_nodes voc v scope ancestors in_error [] s = s"
| "walk_nodes voc v scope ancestors in_error (Node i c ps cs # ns) s =
     (let node = Node i c ps cs;
          s1 = visit_component v node ancestors scope s;
          (inner, s2) = enter_let v node scope in_error s1;
          s3 = foldl (\<lambda>t p. walk_prop voc v node (if reads_outside node p then scope else inner) in_error p t)
                 s2 (or_nil ps);
          s4 = walk_nodes voc v inner (ancestors @ [node]) (in_error_slot node ancestors in_error) (or_nil cs) s3
      in walk_nodes voc v scope ancestors in_error ns s4)"

text \<open>The \<open>into\<close> names, in scope in the whole tree, each bound to the record of its first call site.\<close>

fun bind_intos ::
  "('b, 's) visitor \<Rightarrow> (string \<times> site list) list \<Rightarrow> (string \<rightharpoonup> 'b) \<Rightarrow> 's \<Rightarrow> (string \<rightharpoonup> 'b) \<times> 's" where
  "bind_intos v [] scope s = (scope, s)"
| "bind_intos v ((name, sites) # rest) scope s =
     (let (b, s1) = bind_into v name (fst (hd sites)) s in bind_intos v rest (scope(name \<mapsto> b)) s1)"

definition walk_tree :: "vocabulary \<Rightarrow> ('b, 's) visitor \<Rightarrow> component_node \<Rightarrow> 's \<Rightarrow> 's" where
  "walk_tree voc v node s =
     (let (scope, s1) = bind_intos v (into_sites node) Map.empty s
      in walk_nodes voc v scope [] False [node] s1)"

section \<open>What the walk visits\<close>

text \<open>The four visits as data, and the events of a tree, each with the names in scope there.\<close>

datatype event =
    At_component component_node "component_node list"
  | At_path string where_at
  | At_agent_call agent_call where_at "string option"
  | At_util_call util_call where_at bool

fun visit :: "('b, 's) visitor \<Rightarrow> event \<Rightarrow> (string \<rightharpoonup> 'b) \<Rightarrow> 's \<Rightarrow> 's" where
  "visit v (At_component n anc) scope s = visit_component v n anc scope s"
| "visit v (At_path path w) scope s = visit_path v path w scope s"
| "visit v (At_agent_call c w name) scope s = visit_agent_call v c w scope name s"
| "visit v (At_util_call c w is_top) scope s = visit_util_call v c w scope is_top s"

fun argument_events :: "where_at \<Rightarrow> argument list \<Rightarrow> event list" where
  "argument_events w [] = []"
| "argument_events w (Argument k lit p ac uc vl vd # as) =
     (case p of None \<Rightarrow> [] | Some path \<Rightarrow> [At_path path w]) @
     (case ac of None \<Rightarrow> [] | Some c \<Rightarrow> At_agent_call c w None # argument_events w (or_nil (call_arguments c))) @
     (case uc of None \<Rightarrow> [] | Some c \<Rightarrow> At_util_call c w False # argument_events w (or_nil (arguments c))) @
     argument_events w (or_nil vl) @ argument_events w (or_nil vd) @ argument_events w as"

definition prop_events :: "vocabulary \<Rightarrow> component_node \<Rightarrow> bool \<Rightarrow> component_prop \<Rightarrow> event list" where
  "prop_events voc node in_error p =
     (let w = prop_where voc node p in_error
      in (case prop_path p of None \<Rightarrow> [] | Some path \<Rightarrow> [At_path path w]) @
         (case pr_agent_call p of None \<Rightarrow> []
          | Some c \<Rightarrow> At_agent_call c w (declares_value p) # argument_events w (or_nil (call_arguments c))) @
         (case pr_util_call p of None \<Rightarrow> []
          | Some c \<Rightarrow> At_util_call c w True # argument_events w (or_nil (arguments c))))"

definition inner_names :: "component_node \<Rightarrow> string set \<Rightarrow> string set" where
  "inner_names node names = names \<union> set_option (foreach_let node)"

fun node_events ::
  "vocabulary \<Rightarrow> string set \<Rightarrow> component_node list \<Rightarrow> bool \<Rightarrow> component_node \<Rightarrow> (event \<times> string set) list" where
  "node_events voc names ancestors in_error (Node i c ps cs) =
     (let node = Node i c ps cs; inner = inner_names node names
      in (At_component node ancestors, names) #
         concat (map (\<lambda>p. map (\<lambda>e. (e, if reads_outside node p then names else inner))
                            (prop_events voc node in_error p)) (or_nil ps)) @
         concat (map (node_events voc inner (ancestors @ [node]) (in_error_slot node ancestors in_error))
                   (or_nil cs)))"

definition into_names :: "component_node \<Rightarrow> string set" where
  "into_names node = fst ` set (into_sites node)"

definition tree_events :: "vocabulary \<Rightarrow> component_node \<Rightarrow> (event \<times> string set) list" where
  "tree_events voc tree = node_events voc (into_names tree) [] False tree"

text \<open>The visitor that only writes down where it is.\<close>

definition logger :: "(unit, (event \<times> string set) list) visitor" where
  "logger =
     \<lparr>visit_component = (\<lambda>n anc scope s. s @ [(At_component n anc, dom scope)]),
      visit_path = (\<lambda>path w scope s. s @ [(At_path path w, dom scope)]),
      visit_agent_call = (\<lambda>c w scope name s. s @ [(At_agent_call c w name, dom scope)]),
      visit_util_call = (\<lambda>c w scope is_top s. s @ [(At_util_call c w is_top, dom scope)]),
      bind_let = (\<lambda>name items w scope s. ((), s)),
      bind_into = (\<lambda>name c s. ((), s))\<rparr>"

section \<open>The walk is the visit of its events\<close>

lemma walk_arguments_fold:
  "walk_arguments v scope w as s = foldl (\<lambda>t e. visit v e scope t) s (argument_events w as)"
  by (induction v scope w as s rule: walk_arguments.induct) (auto simp: Let_def split: option.splits)

lemma walk_prop_fold:
  "walk_prop voc v node scope in_error p s =
   foldl (\<lambda>t e. visit v e scope t) s (prop_events voc node in_error p)"
  by (auto simp: walk_prop_def prop_events_def Let_def walk_arguments_fold split: option.splits)

lemma enter_let_dom:
  "enter_let v node scope in_error s = (inner, s') \<Longrightarrow> dom inner = inner_names node (dom scope)"
  by (auto simp: enter_let_def inner_names_def Let_def split: option.splits prod.splits)

lemma bind_intos_dom:
  "bind_intos v sites scope s = (scope', s') \<Longrightarrow> dom scope' = dom scope \<union> fst ` set sites"
  by (induction v sites scope s rule: bind_intos.induct) (auto simp: Let_def split: prod.splits)

lemma foldl_logger:
  "foldl (\<lambda>t e. visit logger e scope t) s es = s @ map (\<lambda>e. (e, dom scope)) es"
proof (induction es arbitrary: s)
  case (Cons e es)
  then show ?case by (cases e) (auto simp: logger_def)
qed simp

lemma foldl_append_concat: "foldl (\<lambda>t p. t @ f p) s ps = s @ concat (map f ps)"
  by (induction ps arbitrary: s) auto

lemma enter_let_logger: "snd (enter_let logger node scope in_error s) = s"
  by (auto simp: enter_let_def logger_def split: option.splits)

lemma bind_intos_logger: "snd (bind_intos logger sites scope s) = s"
  by (induction sites arbitrary: scope) (auto simp: logger_def)

lemma walk_nodes_logger:
  "walk_nodes voc logger scope ancestors in_error ns s =
   s @ concat (map (node_events voc (dom scope) ancestors in_error) ns)"
proof (induction ns arbitrary: scope ancestors in_error s rule: iter_component_nodes.induct)
  case (2 i c ps cs ns)
  let ?node = "Node i c ps cs" and ?s1 = "s @ [(At_component (Node i c ps cs) ancestors, dom scope)]"
  have comp: "visit_component logger ?node ancestors scope s = ?s1"
    by (simp add: logger_def)
  obtain inner where enter: "enter_let logger ?node scope in_error ?s1 = (inner, ?s1)"
    by (metis enter_let_logger prod.collapse)
  note dom_inner = enter_let_dom [OF enter]
  have scopes: "dom (if reads_outside ?node p then scope else inner) =
      (if reads_outside ?node p then dom scope else inner_names ?node (dom scope))" for p
    by (simp add: dom_inner)
  have props: "foldl (\<lambda>t p. walk_prop voc logger ?node (if reads_outside ?node p then scope else inner) in_error p t) ?s1 (or_nil ps)
      = ?s1 @ concat (map (\<lambda>p. map (\<lambda>e. (e, if reads_outside ?node p then dom scope
                                              else inner_names ?node (dom scope)))
                              (prop_events voc ?node in_error p)) (or_nil ps))"
    by (simp add: walk_prop_fold foldl_logger foldl_append_concat scopes)
  have step: "walk_nodes voc logger scope ancestors in_error (?node # ns) s =
      walk_nodes voc logger scope ancestors in_error ns
        (walk_nodes voc logger inner (ancestors @ [?node]) (in_error_slot ?node ancestors in_error) (or_nil cs)
          (foldl (\<lambda>t p. walk_prop voc logger ?node (if reads_outside ?node p then scope else inner) in_error p t)
             ?s1 (or_nil ps)))"
    by (simp add: Let_def comp enter)
  show ?case
    unfolding step props
    by (simp add: 2 dom_inner Let_def)
qed simp

text \<open>
  C18. The scoping rules of the walk: it visits every component, every path a prop or a (nested)
  argument reads and every call exactly once, in tree order, and what is in scope at each visit is
  exactly the \<open>into\<close> names of the whole tree and the loop variables of the enclosing
  \<open>foreach\<close> components, a \<open>foreach\<close>'s own variable included in its props other than \<open>items\<close>.
\<close>

theorem walk_tree_visits: "walk_tree voc logger tree [] = tree_events voc tree"
proof -
  obtain scope where intos: "bind_intos logger (into_sites tree) Map.empty [] = (scope, [])"
    by (metis bind_intos_logger prod.collapse)
  show ?thesis
    by (simp add: walk_tree_def intos walk_nodes_logger tree_events_def into_names_def
          bind_intos_dom [OF intos])
qed

section \<open>Lifting from one visit to the walk\<close>

locale visitor_invariant =
  fixes v :: "('b, 's) visitor" and I :: "'s \<Rightarrow> bool"
  assumes visit_keeps: "I s \<Longrightarrow> I (visit v e scope s)"
    and bind_let_keeps: "I s \<Longrightarrow> I (snd (bind_let v name items w scope s))"
    and bind_into_keeps: "I s \<Longrightarrow> I (snd (bind_into v name c s))"
begin

lemma foldl_visit_keeps: "I s \<Longrightarrow> I (foldl (\<lambda>t e. visit v e scope t) s es)"
  by (induction es arbitrary: s) (auto simp: visit_keeps)

lemma walk_prop_keeps: "I s \<Longrightarrow> I (walk_prop voc v node scope in_error p s)"
  by (simp add: walk_prop_fold foldl_visit_keeps)

lemma walk_props_keeps: "I s \<Longrightarrow> I (foldl (\<lambda>t p. walk_prop voc v node (f p) in_error p t) s ps)"
  by (induction ps arbitrary: s) (auto simp: walk_prop_keeps)

lemma enter_let_keeps: "I s \<Longrightarrow> I (snd (enter_let v node scope in_error s))"
  by (auto simp: enter_let_def Let_def split: option.splits prod.splits) (metis bind_let_keeps snd_conv)

lemma component_keeps: "I s \<Longrightarrow> I (visit_component v n anc scope s)"
  using visit_keeps [of s "At_component n anc"] by simp

lemma walk_nodes_keeps: "I s \<Longrightarrow> I (walk_nodes voc v scope ancestors in_error ns s)"
proof (induction ns arbitrary: scope ancestors in_error s rule: iter_component_nodes.induct)
  case (2 i c ps cs ns)
  obtain inner s2 where enter: "enter_let v (Node i c ps cs) scope in_error
      (visit_component v (Node i c ps cs) ancestors scope s) = (inner, s2)"
    by fastforce
  have "I s2" using enter_let_keeps [OF component_keeps [OF 2(3)]] enter by (metis snd_conv)
  then show ?case
    by (simp add: Let_def enter walk_props_keeps 2(1,2))
qed simp

lemma bind_intos_keeps: "I s \<Longrightarrow> I (snd (bind_intos v sites scope s))"
proof (induction sites arbitrary: scope s)
  case (Cons x sites)
  obtain name ss where x: "x = (name, ss)" by (cases x)
  obtain b s1 where b: "bind_into v name (fst (hd ss)) s = (b, s1)" by fastforce
  have "I s1" using bind_into_keeps [OF Cons.prems, of name "fst (hd ss)"] by (simp add: b)
  then show ?case by (simp add: x b Cons.IH)
qed simp

lemma walk_tree_keeps: "I s \<Longrightarrow> I (walk_tree voc v tree s)"
  using bind_intos_keeps [of s "into_sites tree" Map.empty]
  by (auto simp: walk_tree_def walk_nodes_keeps split: prod.splits)

end

text \<open>
  A property a visitor keeps, and that one visit establishes whatever the names in scope are bound
  to, holds after every walk that makes the visit.
\<close>

locale visitor_reaches = visitor_invariant v P for v :: "('b, 's) visitor" and P +
  fixes e :: event and names :: "string set"
  assumes visit_reaches: "dom scope = names \<Longrightarrow> P (visit v e scope s)"
begin

lemma foldl_reaches:
  "e \<in> set es \<Longrightarrow> dom scope = names \<Longrightarrow> P (foldl (\<lambda>t x. visit v x scope t) s es)"
  by (induction es arbitrary: s) (auto simp: visit_reaches foldl_visit_keeps)

lemma walk_props_reaches:
  "p \<in> set ps \<Longrightarrow> e \<in> set (prop_events voc node in_error p) \<Longrightarrow> dom (f p) = names \<Longrightarrow>
   P (foldl (\<lambda>t p. walk_prop voc v node (f p) in_error p t) s ps)"
proof (induction ps arbitrary: s)
  case (Cons q ps)
  then show ?case
    by (cases "p = q") (auto simp: walk_prop_fold foldl_reaches walk_props_keeps [unfolded walk_prop_fold])
qed simp

lemma walk_nodes_reaches:
  "(e, names) \<in> set (concat (map (node_events voc (dom scope) ancestors in_error) ns)) \<Longrightarrow>
   P (walk_nodes voc v scope ancestors in_error ns s)"
proof (induction ns arbitrary: scope ancestors in_error s rule: iter_component_nodes.induct)
  case (2 i c ps cs ns)
  let ?node = "Node i c ps cs"
  let ?s1 = "visit_component v ?node ancestors scope s"
  obtain inner s2 where enter: "enter_let v ?node scope in_error ?s1 = (inner, s2)" by fastforce
  let ?f = "\<lambda>p. if reads_outside ?node p then scope else inner"
  let ?s3 = "foldl (\<lambda>t p. walk_prop voc v ?node (?f p) in_error p t) s2 (or_nil ps)"
  let ?s4 = "walk_nodes voc v inner (ancestors @ [?node]) (in_error_slot ?node ancestors in_error) (or_nil cs) ?s3"
  have step: "walk_nodes voc v scope ancestors in_error (?node # ns) s = walk_nodes voc v scope ancestors in_error ns ?s4"
    by (simp add: Let_def enter)
  note inner = enter_let_dom [OF enter]
  consider (component) "e = At_component ?node ancestors" "names = dom scope"
    | (in_prop) p where "p \<in> set (or_nil ps)" "e \<in> set (prop_events voc ?node in_error p)" "dom (?f p) = names"
    | (child) "(e, names) \<in> set (concat (map (node_events voc (dom inner) (ancestors @ [?node])
                 (in_error_slot ?node ancestors in_error)) (or_nil cs)))"
    | (later) "(e, names) \<in> set (concat (map (node_events voc (dom scope) ancestors in_error) ns))"
    using 2(3) by (auto simp: Let_def inner split: if_splits)
  then show ?case
  proof cases
    case component
    have "P ?s1" using visit_reaches [of scope s] component by simp
    then have "P s2" using enter_let_keeps [of ?s1 ?node scope in_error] enter by simp
    then show ?thesis unfolding step by (intro walk_nodes_keeps walk_props_keeps)
  next
    case in_prop
    then show ?thesis unfolding step by (intro walk_nodes_keeps walk_props_reaches)
  next
    case child
    then show ?thesis unfolding step by (intro walk_nodes_keeps 2(1))
  next
    case later
    then show ?thesis unfolding step by (rule 2(2))
  qed
qed simp

lemma walk_tree_reaches:
  assumes "(e, names) \<in> set (tree_events voc tree)"
  shows "P (walk_tree voc v tree s)"
proof -
  obtain scope s1 where intos: "bind_intos v (into_sites tree) Map.empty s = (scope, s1)" by fastforce
  show ?thesis
    unfolding walk_tree_def intos using assms bind_intos_dom [OF intos]
    by (simp add: walk_nodes_reaches tree_events_def into_names_def)
qed

end

end
