(* ===== verification/Bloks.thy ===== *)
theory Bloks
  imports Port_Models Walk
begin

text \<open>
  What a blok declares beside its tree (\<open>rekuest_core/inputs/models.py\<close>): dependencies and their
  demands, locals, queries, subscriptions, its demo; the catalog models; the checks on the
  declarations; and the scope they are gathered in for the checker (\<open>BlokScope\<close> of
  \<open>vocabulary/check.py\<close>).
\<close>

section \<open>The models\<close>

datatype value_kind = V_STRING | V_INT | V_FLOAT | V_BOOL | V_DICT | V_LIST | V_ANY | V_CALLBACK | V_ASSET

primrec value_kind_name :: "value_kind \<Rightarrow> string" where
  "value_kind_name V_STRING = ''STRING''"
| "value_kind_name V_INT = ''INT''"
| "value_kind_name V_FLOAT = ''FLOAT''"
| "value_kind_name V_BOOL = ''BOOL''"
| "value_kind_name V_DICT = ''DICT''"
| "value_kind_name V_LIST = ''LIST''"
| "value_kind_name V_ANY = ''ANY''"
| "value_kind_name V_CALLBACK = ''CALLBACK''"
| "value_kind_name V_ASSET = ''ASSET''"

datatype component_context = HTML | SCENE | LOGO | ACTION_LOGO | OVERLAY

primrec context_name :: "component_context \<Rightarrow> string" where
  "context_name HTML = ''HTML''"
| "context_name SCENE = ''SCENE''"
| "context_name LOGO = ''LOGO''"
| "context_name ACTION_LOGO = ''ACTION_LOGO''"
| "context_name OVERLAY = ''OVERLAY''"

text \<open>A port as a demand describes it (\<open>PortMatchInputModel\<close>), with the descriptors of a candidate object.\<close>

datatype port_match =
  PortMatch (pm_at: "int option") (pm_key: "string option") (pm_kind: "port_kind option")
    (pm_identifier: "string option") (pm_nullable: "bool option") (pm_dimension: "string option")
    (pm_descriptors: "(string \<times> json) list option") (pm_children: "port_match list option")

record action_demand =
  ad_hash :: "string option"
  ad_key :: "string option"
  ad_app :: "string option"
  ad_version :: "string option"
  ad_name :: "string option"
  ad_arg_matches :: "port_match list option"
  ad_return_matches :: "port_match list option"
  ad_protocols :: "string list option"
  ad_force_arg_length :: "int option"
  ad_force_return_length :: "int option"
  ad_pure :: "bool option"
  ad_idempotent :: "bool option"
  ad_stateful :: "bool option"

record state_demand =
  sd_hash :: "string option"
  sd_key :: "string option"
  sd_app :: "string option"
  sd_matches :: "port_match list option"
  sd_protocols :: "string list option"

record action_dependency =
  acd_key :: string
  acd_description :: "string option"
  acd_demand :: "action_demand option"
  acd_optional :: bool
  acd_allow_inactive :: bool

record state_dependency =
  std_key :: string
  std_description :: "string option"
  std_demand :: "state_demand option"
  std_optional :: bool
  std_allow_inactive :: bool

record agent_dependency =
  dep_key :: string
  action_dependencies :: "action_dependency list option"
  state_dependencies :: "state_dependency list option"

text \<open>A local; \<open>None\<close> (for its default \<open>JNull\<close>) is a field its author left out (\<open>model_fields_set\<close>).\<close>

record blok_local =
  lo_key :: string
  lo_kind :: "local_kind option"
  lo_identifier :: "string option"
  lo_nullable :: "bool option"
  lo_effects :: "effect list option"
  lo_choices :: "choice list option"
  lo_reference_unit :: "string option"
  lo_proposed_units :: "string list option"
  lo_dimension :: "string option"
  lo_children :: "arg_port list option"
  lo_validators :: "port_validator list option"
  lo_default :: json
  lo_widget :: "assign_widget option"
  lo_requires :: "descriptor_demand list option"
  lo_persist :: "bool option"

record blok_query =
  q_key :: string
  q_document :: string
  q_variables :: "argument list"
  q_more :: "string option"

record blok_subscription =
  s_key :: string
  s_document :: string
  s_variables :: "argument list"
  s_history :: "string option"

record blok_demo =
  demo_deps :: json
  demo_args :: json
  demo_task :: json
  demo_queries :: json
  demo_subscriptions :: json

record catalog_event_field =
  ev_key :: string
  ev_kind :: value_kind
  ev_description :: "string option"

record catalog_prop =
  cp_key :: string
  cp_kind :: value_kind
  cp_required :: bool
  cp_description :: "string option"
  cp_event :: "catalog_event_field list option"

record catalog_component =
  cc_name :: string
  cc_description :: "string option"
  cc_props :: "catalog_prop list"
  cc_accepts_children :: bool
  cc_context :: component_context
  cc_children_context :: "component_context option"
  cc_inherits_context :: bool
  cc_downstream_of :: "string list"
  cc_not_downstream_of :: "string list"
  cc_text_prop :: "string option"
  cc_catalog :: "string option"

record catalog_argument =
  ca_key :: string
  ca_kind :: value_kind
  ca_required :: bool
  ca_description :: "string option"

record catalog_operation =
  co_name :: string
  co_description :: "string option"
  co_arguments :: "catalog_argument list"
  co_returns :: value_kind

section \<open>Catalog models\<close>

definition check_catalog_component :: "catalog_component \<Rightarrow> check" where
  "check_catalog_component c =
     run_checks
       [raise_if (cc_name c = '''') (ValueError [Txt ''name'']),
        for_each (\<lambda>p. and_then (raise_if (cp_key p = '''') (ValueError [Txt ''key''])) (\<lambda>_.
          for_each (\<lambda>f. raise_if (ev_key f = '''') (ValueError [Txt ''key''])) (or_nil (cp_event p)))) (cc_props c),
        check_unique (map (\<lambda>p. JStr (cp_key p)) (cc_props c)) ''key'' [Txt ''catalog component '', Txt (cc_name c)],
        raise_if (cc_context c = ACTION_LOGO \<or> cc_children_context c = Some ACTION_LOGO)
          (ValueError [Txt ''catalog component '', Txt (cc_name c), Txt '': ACTION_LOGO is a blok context only'']),
        raise_if (cc_context c = OVERLAY \<or> cc_children_context c = Some OVERLAY)
          (ValueError [Txt ''catalog component '', Txt (cc_name c), Txt '': OVERLAY is a blok context only''])]"

definition check_catalog_operation :: "catalog_operation \<Rightarrow> check" where
  "check_catalog_operation o' =
     run_checks
       [raise_if (co_name o' = '''') (ValueError [Txt ''name'']),
        for_each (\<lambda>a. raise_if (ca_key a = '''') (ValueError [Txt ''key''])) (co_arguments o'),
        check_unique (map (\<lambda>a. JStr (ca_key a)) (co_arguments o')) ''key'' [Txt ''catalog operation '', Txt (co_name o')]]"

text \<open>\<open>WidgetDefaultInputModel.check_selector_and_widget\<close>.\<close>

record widget_default =
  wd_kind :: "port_kind option"
  wd_identifier :: "string option"
  wd_widget :: "assign_widget option"
  wd_return_widget :: "return_widget option"

definition check_widget_default :: "widget_default \<Rightarrow> check" where
  "check_widget_default w =
     run_checks
       [raise_if (wd_kind w = None \<and> wd_identifier w = None)
          (ValueError [Txt ''WidgetDefault needs a kind and/or an identifier to match ports on'']),
        raise_if (wd_widget w = None \<and> wd_return_widget w = None)
          (ValueError [Txt ''WidgetDefault needs a widget and/or a return_widget''])]"

section \<open>Names\<close>

definition name_char :: "char \<Rightarrow> bool" where
  "name_char c = (is_alpha c \<or> is_digit c \<or> c = CHR ''_'')"

text \<open>\<open>[A-Za-z_][A-Za-z0-9_]*\<close>, and dotted paths of such names.\<close>

definition is_name :: "string \<Rightarrow> bool" where
  "is_name s = (s \<noteq> [] \<and> \<not> is_digit (hd s) \<and> list_all name_char s)"

definition is_field_path :: "string \<Rightarrow> bool" where
  "is_field_path s = list_all is_name (split_on (CHR ''.'') s)"

text \<open>\<open>[a-z][a-z0-9_-]*@[0-9]+\<close>.\<close>

definition is_catalog :: "string \<Rightarrow> bool" where
  "is_catalog s =
     (case split_on (CHR ''@'') s of
        [name, version] \<Rightarrow>
          name \<noteq> [] \<and> is_lower (hd name) \<and>
          list_all (\<lambda>c. is_lower c \<or> is_digit c \<or> c = CHR ''_'' \<or> c = CHR ''-'') name \<and> isdigit version
      | _ \<Rightarrow> False)"

text \<open>\<open>sha256:[0-9a-f]{64}\<close>.\<close>

definition is_sha_ref :: "string \<Rightarrow> bool" where
  "is_sha_ref s =
     (starts_with ''sha256:'' s \<and> length s = 71 \<and>
      list_all (\<lambda>c. is_digit c \<or> (CHR ''a'' \<le> c \<and> c \<le> CHR ''f'')) (drop 7 s))"

section \<open>Building a local\<close>

definition local_base :: "blok_local \<Rightarrow> port_kind \<Rightarrow> port_base" where
  "local_base l k =
     \<lparr>pt_key = lo_key l, pt_kind = k, pt_identifier = lo_identifier l,
      pt_nullable = (case lo_nullable l of None \<Rightarrow> False | Some b \<Rightarrow> b),
      pt_effects = lo_effects l, pt_choices = lo_choices l, pt_reference_unit = lo_reference_unit l,
      pt_proposed_units = lo_proposed_units l, pt_dimension = lo_dimension l\<rparr>"

text \<open>\<open>BlokLocalInputModel.arg_port\<close>: the port it is, built anew; none for \<open>ANY\<close> or no kind.\<close>

definition local_arg_port :: "externals \<Rightarrow> blok_local \<Rightarrow> arg_port option result" where
  "local_arg_port ext l =
     (case lo_kind l of
        Some (Kind k) \<Rightarrow>
          and_then (build_port ext (ArgPort (local_base l k) (lo_validators l) JNull (lo_widget l)
                                      (lo_requires l) (lo_children l)))
            (\<lambda>p. Inr (Some p))
      | _ \<Rightarrow> Inr None)"

text \<open>Validation: the nested models are built, then \<open>check_port\<close>, which takes over the derived dimension.\<close>

definition build_local :: "externals \<Rightarrow> blok_local \<Rightarrow> blok_local result" where
  "build_local ext l =
     and_then (map_option_result build_effect (lo_effects l)) (\<lambda>effects.
     and_then (build_ports_option ext (lo_children l)) (\<lambda>children.
     and_then (map_option_result build_validator (lo_validators l)) (\<lambda>vs.
     and_then (build_widget_option ext (lo_widget l)) (\<lambda>w.
     and_then (for_each (check_descriptor [Txt ''requires '']) (or_nil (lo_requires l))) (\<lambda>_.
     let l' = l\<lparr>lo_effects := effects, lo_children := children, lo_validators := vs, lo_widget := w\<rparr>
     in and_then (check_port_key (lo_key l) [Txt ''Local'']) (\<lambda>_.
        and_then (local_arg_port ext l') (\<lambda>port.
        Inr (case port of None \<Rightarrow> l'
             | Some p \<Rightarrow> l'\<lparr>lo_dimension := pt_dimension (a_base p)\<rparr>))))))))"

lemma build_local_kind: "build_local ext l = Inr l' \<Longrightarrow> lo_kind l' = lo_kind l \<and> lo_key l' = lo_key l"
  by (auto simp: build_local_def result_iff Let_def split: option.splits)

section \<open>The declarations\<close>

text \<open>\<open>_GRAPHQL_COMMENT.sub("", document).lstrip()\<close> and the word it starts with.\<close>

fun strip_comments :: "bool \<Rightarrow> string \<Rightarrow> string" where
  "strip_comments inside [] = []"
| "strip_comments inside (c # s) =
     (if c = CHR 0x0A then c # strip_comments False s
      else if inside then strip_comments True s
      else if c = CHR ''#'' then strip_comments True s
      else c # strip_comments False s)"

definition operation_keyword :: "string \<Rightarrow> string" where
  "operation_keyword document =
     (let body = dropWhile is_space (strip_comments False document)
      in if starts_with ''{'' body then ''query'' else takeWhile (\<lambda>c. is_alpha c \<or> c = CHR ''_'') body)"

definition check_operation :: "vocabulary \<Rightarrow> string \<Rightarrow> string \<Rightarrow> string \<Rightarrow> check" where
  "check_operation voc kind name op =
     (if op = kind then Inr ()
      else if op = ''mutation''
      then Inl (blok_error voc ''query.read_only'' [(''kind'', [Txt kind]), (''name'', [Txt name])])
      else Inl (blok_error voc ''query.kind'' [(''kind'', [Txt kind]), (''name'', [Txt name]), (''operation'', [Txt op])]))"

definition check_blok_sent_once :: "vocabulary \<Rightarrow> 'a option \<Rightarrow> string option \<Rightarrow> bool \<Rightarrow> check" where
  "check_blok_sent_once voc components source required =
     run_checks
       [raise_if (given components \<and> given source) (blok_error voc ''manifest.sent'' [(''problem'', [Txt ''not both''])]),
        raise_if (required \<and> components = None \<and> source = None)
          (blok_error voc ''manifest.sent'' [(''problem'', [Txt ''and this one has neither''])])]"

definition wrong_context :: "vocabulary \<Rightarrow> string \<Rightarrow> component_context \<Rightarrow> py_error" where
  "wrong_context voc kind ctx =
     (case vocabulary_kind voc kind of
        Inl e \<Rightarrow> e
      | Inr k \<Rightarrow> blok_error voc ''context.kind''
          [(''kind'', [Txt kind]), (''contexts'', [Txt (join '', '' (k_contexts k))]), (''context'', [Txt (context_name ctx)])])"

definition check_declared_keys :: "vocabulary \<Rightarrow> string \<Rightarrow> string list \<Rightarrow> check" where
  "check_declared_keys voc what keys =
     and_then (case first_repeated keys of None \<Rightarrow> Inr ()
               | Some k \<Rightarrow> Inl (blok_error voc ''manifest.duplicate'' [(''what'', [Txt what]), (''key'', [Txt k])])) (\<lambda>_.
     for_each (\<lambda>k. run_checks
       [raise_if (\<not> is_name k) (blok_error voc ''manifest.name'' [(''what'', [Txt what]), (''key'', [Txt k])]),
        raise_if (what = ''locals'' \<and> k \<in> set (reserved voc)) (blok_error voc ''roots.reserved'' [(''name'', [Txt k])])]) keys)"

definition check_query :: "vocabulary \<Rightarrow> blok_query \<Rightarrow> check" where
  "check_query voc q =
     and_then (check_operation voc ''query'' (q_key q) (operation_keyword (q_document q))) (\<lambda>_.
     case q_more q of None \<Rightarrow> Inr ()
     | Some m \<Rightarrow> raise_if (\<not> is_field_path m)
         (blok_error voc ''query.more'' [(''name'', [Txt (q_key q)]), (''more'', [Txt m])]))"

definition check_subscription :: "vocabulary \<Rightarrow> string list \<Rightarrow> blok_subscription \<Rightarrow> check" where
  "check_subscription voc declared s =
     and_then (check_operation voc ''subscription'' (s_key s) (operation_keyword (s_document s))) (\<lambda>_.
     case s_history s of None \<Rightarrow> Inr ()
     | Some h \<Rightarrow> raise_if (h \<notin> set declared)
         (blok_error voc ''query.history'' [(''name'', [Txt (s_key s)]), (''history'', [Txt h])]))"

definition check_blok_declarations ::
  "vocabulary \<Rightarrow> string \<Rightarrow> string list \<Rightarrow> blok_local list \<Rightarrow> blok_query list \<Rightarrow> blok_subscription list \<Rightarrow>
   string list \<Rightarrow> blok_demo option \<Rightarrow> check" where
  "check_blok_declarations voc kind cats locs qs subs dependency_keys demo =
     and_then (for_each (\<lambda>c. raise_if (\<not> is_catalog c) (blok_error voc ''manifest.catalog'' [(''catalog'', [Txt c])])) cats) (\<lambda>_.
     and_then (check_declared_keys voc ''locals'' (map lo_key locs)) (\<lambda>_.
     and_then (check_declared_keys voc ''queries'' (map q_key qs)) (\<lambda>_.
     and_then (check_declared_keys voc ''subscriptions'' (map s_key subs)) (\<lambda>_.
     and_then (for_each (check_query voc) qs) (\<lambda>_.
     and_then (for_each (check_subscription voc (map q_key qs)) subs) (\<lambda>_.
     and_then (raise_if (kind = ''action_logo'' \<and> (locs \<noteq> [] \<or> qs \<noteq> [] \<or> subs \<noteq> [] \<or> dependency_keys \<noteq> []))
       (blok_error voc ''manifest.action_logo'' [])) (\<lambda>_.
     case demo of None \<Rightarrow> Inr ()
     | Some d \<Rightarrow>
         (case demo_deps d of
            JObj kvs \<Rightarrow>
              let unknown = sorted_set (filter (\<lambda>k. k \<notin> set dependency_keys \<and> k \<noteq> ''self'') (map fst kvs))
              in raise_if (unknown \<noteq> []) (blok_error voc ''manifest.demo'' [(''keys'', [Txt (join '', '' unknown)])])
          | _ \<Rightarrow> Inr ()))))))))"

section \<open>The scope\<close>

text \<open>\<open>context\<close> is a string in the code (\<open>context.value\<close>).\<close>

record blok_scope =
  sc_kind :: string
  sc_context :: string
  sc_dependencies :: "agent_dependency list"
  sc_locals :: "blok_local list"
  sc_queries :: "blok_query list"
  sc_subscriptions :: "blok_subscription list"
  sc_args :: "string list option"
  sc_catalogs :: "string list"
  sc_demo :: "blok_demo option"
  sc_query_values :: "(string \<times> port_match) list"
  sc_assets :: "string list option"

definition drawn_in :: "blok_scope \<Rightarrow> string" where
  "drawn_in sc = (if sc_context sc = ''ACTION_LOGO'' then ''LOGO'' else sc_context sc)"

section \<open>What accepted declarations are\<close>

definition declared_ok :: "string list \<Rightarrow> bool" where
  "declared_ok keys = (distinct keys \<and> list_all is_name keys)"

lemma check_declared_keys_iff [result_iff]:
  "check_declared_keys voc what keys = Inr () \<longleftrightarrow>
     declared_ok keys \<and> (what = ''locals'' \<longrightarrow> set keys \<inter> set (reserved voc) = {})"
  by (auto simp: check_declared_keys_def declared_ok_def result_iff list_all_iff split: option.splits)
    (metis first_repeated_None option.distinct(1))+

lemma check_operation_iff [result_iff]: "check_operation voc kind name op = Inr () \<longleftrightarrow> op = kind"
  by (simp add: check_operation_def)

text \<open>
  What a blok declares beside its tree is accepted exactly when its catalogs are spelled
  \<open>name@version\<close>; its locals, queries and subscriptions are each named once by a name, a local by
  none the vocabulary reserves; every query is a \<open>query\<close> and every subscription a \<open>subscription\<close>
  (so nothing writes), a history a declared query; an action logo declares nothing; and the demo
  names only dependencies.
\<close>

theorem check_blok_declarations_iff:
  "check_blok_declarations voc kind cats locs qs subs dependency_keys demo = Inr () \<longleftrightarrow>
     list_all is_catalog cats \<and>
     declared_ok (map lo_key locs) \<and> set (map lo_key locs) \<inter> set (reserved voc) = {} \<and>
     declared_ok (map q_key qs) \<and> declared_ok (map s_key subs) \<and>
     (\<forall>q \<in> set qs. operation_keyword (q_document q) = ''query'' \<and> (\<forall>m. q_more q = Some m \<longrightarrow> is_field_path m)) \<and>
     (\<forall>s \<in> set subs. operation_keyword (s_document s) = ''subscription'' \<and>
        (\<forall>h. s_history s = Some h \<longrightarrow> h \<in> q_key ` set qs)) \<and>
     (kind = ''action_logo'' \<longrightarrow> subs = [] \<and> qs = [] \<and> locs = [] \<and> dependency_keys = []) \<and>
     (\<forall>d kvs. demo = Some d \<longrightarrow> demo_deps d = JObj kvs \<longrightarrow> fst ` set kvs \<subseteq> insert ''self'' (set dependency_keys))"
proof -
  have query: "check_query voc q = Inr () \<longleftrightarrow>
      operation_keyword (q_document q) = ''query'' \<and> (\<forall>m. q_more q = Some m \<longrightarrow> is_field_path m)" for q
    by (auto simp: check_query_def result_iff split: option.splits)
  have subscription: "check_subscription voc declared s = Inr () \<longleftrightarrow>
      operation_keyword (s_document s) = ''subscription'' \<and> (\<forall>h. s_history s = Some h \<longrightarrow> h \<in> set declared)" for declared s
    by (auto simp: check_subscription_def result_iff split: option.splits)
  have demo: "(case demo of None \<Rightarrow> Inr ()
       | Some d \<Rightarrow> (case demo_deps d of
            JObj kvs \<Rightarrow>
              let unknown = sorted_set (filter (\<lambda>k. k \<notin> set dependency_keys \<and> k \<noteq> ''self'') (map fst kvs))
              in raise_if (unknown \<noteq> []) (blok_error voc ''manifest.demo'' [(''keys'', [Txt (join '', '' unknown)])])
          | _ \<Rightarrow> Inr ())) = Inr () \<longleftrightarrow>
      (\<forall>d kvs. demo = Some d \<longrightarrow> demo_deps d = JObj kvs \<longrightarrow> fst ` set kvs \<subseteq> insert ''self'' (set dependency_keys))"
    by (auto simp: result_iff Let_def filter_empty_conv split: option.splits json.splits)
  show ?thesis
    unfolding check_blok_declarations_def
    by (simp add: result_iff query subscription demo list_all_iff)
qed

end
