(* ===== verification/View.thy ===== *)
theory View
  imports Bloks
begin

text \<open>
  \<open>rekuest_core/vocabulary/view.py\<close>: the view a blok is checked against, merged from the spec's
  catalogs (\<open>spec_catalogs\<close>, read from the JSON files beside the code: a parameter here), the vendored
  module and what registered modules add, with the rules of which definition of a name is drawn.
\<close>

section \<open>The code\<close>

definition BASE_NAME :: string where "BASE_NAME = ''base''"
definition ORKESTRATOR_MODULE :: string where "ORKESTRATOR_MODULE = ''orkestrator''"

record catalog_file =
  cf_name :: string
  cf_version :: "int option"
  cf_components :: "catalog_component list"

record shadow =
  sh_component :: string
  sh_catalog :: string
  sh_module :: string
  sh_winner :: string

record blok_view =
  view_components :: "string \<rightharpoonup> catalog_component"
  view_functions :: "string \<rightharpoonup> blok_function"
  view_label :: string
  view_complete :: bool
  view_shadows :: "string \<rightharpoonup> shadow"

definition view_component :: "blok_view \<Rightarrow> string \<Rightarrow> catalog_component option" where
  "view_component view name = view_components view name"

definition show_int :: "int \<Rightarrow> string" where
  "show_int i = (if i < 0 then ''-'' @ show_nat (nat (- i)) else show_nat (nat i))"

definition catalog_label :: "catalog_file \<Rightarrow> string" where
  "catalog_label c = (case cf_version c of None \<Rightarrow> cf_name c | Some v \<Rightarrow> cf_name c @ ''@'' @ show_int v)"

text \<open>\<open>_read\<close> stamps every component with its catalog.\<close>

definition stamp_catalog :: "catalog_file \<Rightarrow> catalog_file" where
  "stamp_catalog c = c\<lparr>cf_components := map (\<lambda>x. x\<lparr>cc_catalog := Some (catalog_label c)\<rparr>) (cf_components c)\<rparr>"

definition same_component :: "catalog_component \<Rightarrow> catalog_component \<Rightarrow> bool" where
  "same_component a b = (a\<lparr>cc_catalog := None\<rparr> = b\<lparr>cc_catalog := None\<rparr>)"

definition operation_function :: "catalog_operation \<Rightarrow> blok_function" where
  "operation_function o' =
     \<lparr>fn_name = co_name o',
      fn_params = map (\<lambda>a. \<lparr>p_key = ca_key a, p_kind = value_kind_name (ca_kind a), p_required = ca_required a\<rparr>)
                    (co_arguments o'),
      fn_returns = value_kind_name (co_returns o'), fn_description = (case co_description o' of None \<Rightarrow> '''' | Some d \<Rightarrow> d), fn_null = '''',
      fn_lazy = False, fn_effect = False, fn_sees_status = False, fn_task_operation = False\<rparr>"

type_synonym registered = "string \<times> catalog_component list \<times> catalog_operation list"
type_synonym drawn = "(string \<rightharpoonup> catalog_component) \<times> (string \<rightharpoonup> shadow)"

text \<open>\<open>add\<close> inside \<open>blok_view\<close>; \<open>base_label\<close> is what it has been set to by then.\<close>

definition add_component :: "string \<Rightarrow> catalog_component \<Rightarrow> string \<Rightarrow> bool \<Rightarrow> drawn \<Rightarrow> drawn" where
  "add_component base_label item source is_module = (\<lambda>(comps, shadows).
     case comps (cc_name item) of
       None \<Rightarrow> (comps(cc_name item \<mapsto> item), shadows)
     | Some previous \<Rightarrow>
         if same_component previous item then (comps, shadows)
         else
           let kept = (case cc_catalog previous of None \<Rightarrow> ''?'' | Some c \<Rightarrow> if c = '''' then ''?'' else c);
               other = (case cc_catalog item of None \<Rightarrow> source | Some c \<Rightarrow> if c = '''' then source else c);
               wins = (is_module \<and> kept \<noteq> base_label)
           in (if wins then comps(cc_name item \<mapsto> item) else comps,
               shadows(cc_name item \<mapsto>
                 \<lparr>sh_component = cc_name item, sh_catalog = kept, sh_module = other,
                  sh_winner = (if wins then other else kept)\<rparr>)))"

definition add_catalog :: "catalog_file \<Rightarrow> string \<times> drawn \<Rightarrow> string \<times> drawn" where
  "add_catalog c = (\<lambda>(base_label, drawn).
     let label = catalog_label c;
         base_label' = (if cf_name c = BASE_NAME then label else base_label)
     in (base_label', foldl (\<lambda>d x. add_component base_label' x label (cf_version c = None) d) drawn (cf_components c)))"

definition stamp_module :: "string \<Rightarrow> catalog_component \<Rightarrow> catalog_component" where
  "stamp_module name item =
     item\<lparr>cc_catalog := (case cc_catalog item of None \<Rightarrow> Some name | Some c \<Rightarrow> if c = '''' then Some name else Some c)\<rparr>"

definition add_registered :: "string \<Rightarrow> string \<Rightarrow> catalog_component \<Rightarrow> drawn \<Rightarrow> drawn" where
  "add_registered base_label name item d =
     (let stamped = stamp_module name item
      in if name = ORKESTRATOR_MODULE
         then (case fst d (cc_name stamped) of None \<Rightarrow> (fst d)(cc_name stamped \<mapsto> stamped) | Some _ \<Rightarrow> fst d, snd d)
         else add_component base_label stamped name True d)"

definition add_module :: "string \<Rightarrow> registered \<Rightarrow> drawn \<Rightarrow> drawn" where
  "add_module base_label = (\<lambda>(name, comps, _) d. foldl (\<lambda>d c. add_registered base_label name c d) d comps)"

definition add_operation :: "vocabulary \<Rightarrow> (string \<rightharpoonup> blok_function) \<Rightarrow> catalog_operation \<Rightarrow> (string \<rightharpoonup> blok_function)" where
  "add_operation voc fns o' =
     (if fns (co_name o') \<noteq> None \<or> first_part (CHR ''.'') (co_name o') \<notin> set (function_namespaces voc) then fns
      else fns(co_name o' \<mapsto> operation_function o'))"

definition registered_operations :: "registered list \<Rightarrow> catalog_operation list" where
  "registered_operations modules = concat (map (\<lambda>(_, _, os). os) modules)"

definition spec_view :: "catalog_file list \<Rightarrow> string \<times> drawn" where
  "spec_view specs = foldl (\<lambda>s c. add_catalog c s) ('''', Map.empty, Map.empty) specs"

definition blok_view :: "vocabulary \<Rightarrow> catalog_file list \<Rightarrow> registered list \<Rightarrow> bool \<Rightarrow> blok_view" where
  "blok_view voc specs modules all_drawn =
     (let (base_label, drawn) = spec_view specs;
          (comps, shadows) = foldl (\<lambda>d m. add_module base_label m d) drawn modules;
          ops = registered_operations modules
      in \<lparr>view_components = comps,
          view_functions = foldl (add_operation voc) (map_of (function_table voc)) ops,
          view_label = join '' + '' (map catalog_label specs @ map fst modules),
          view_complete = all_drawn, view_shadows = shadows\<rparr>)"

text \<open>\<open>catalogs_of\<close>, over every node of the trees (the order of the stack does not show in a sorted set).\<close>

definition versioned_catalog :: "blok_view \<Rightarrow> component_node \<Rightarrow> string option" where
  "versioned_catalog view n =
     (case view_component view (component n) of
        None \<Rightarrow> None
      | Some spec \<Rightarrow>
          (case cc_catalog spec of
             None \<Rightarrow> None
           | Some c \<Rightarrow> if CHR ''@'' \<in> set c \<and> \<not> starts_with (BASE_NAME @ ''@'') c then Some c else None))"

definition catalogs_of :: "component_node list \<Rightarrow> blok_view \<Rightarrow> string list" where
  "catalogs_of components view =
     sorted_set (List.map_filter (versioned_catalog view) (iter_component_nodes components))"

section \<open>Base is never shadowed\<close>

text \<open>A component of base: stamped with its label.\<close>

definition of_base :: "string \<Rightarrow> catalog_component \<Rightarrow> bool" where
  "of_base base_label c = (cc_catalog c = Some base_label)"

lemma add_component_keeps_base:
  "fst d name = Some c \<Longrightarrow> of_base base_label c \<Longrightarrow> base_label \<noteq> '''' \<Longrightarrow>
   fst (add_component base_label x source m d) name = Some c"
  by (cases d) (auto simp: add_component_def of_base_def Let_def split: option.splits)

lemma add_registered_keeps_base:
  "fst d name = Some c \<Longrightarrow> of_base base_label c \<Longrightarrow> base_label \<noteq> '''' \<Longrightarrow>
   fst (add_registered base_label m x d) name = Some c"
  by (auto simp: add_registered_def Let_def add_component_keeps_base split: option.splits)

lemma foldl_keeps:
  "(\<And>d x. P d \<Longrightarrow> P (f d x)) \<Longrightarrow> P d \<Longrightarrow> P (foldl f d xs)"
  by (induction xs arbitrary: d) auto

lemma add_module_keeps_base:
  "fst d name = Some c \<Longrightarrow> of_base base_label c \<Longrightarrow> base_label \<noteq> '''' \<Longrightarrow>
   fst (add_module base_label m d) name = Some c"
  by (cases m) (auto simp: add_module_def intro!: foldl_keeps [where P = "\<lambda>d. fst d name = Some c"]
    add_registered_keeps_base)

text \<open>
  Whatever modules an app registers, every name the spec's base catalog draws is drawn with base's
  own definition.
\<close>

theorem base_never_shadowed:
  assumes "spec_view specs = (base_label, comps, shadows)" "base_label \<noteq> ''''"
    and "comps name = Some c" "of_base base_label c"
  shows "view_components (blok_view voc specs modules all_drawn) name = Some c"
proof -
  obtain comps' shadows' where folded:
    "foldl (\<lambda>d m. add_module base_label m d) (comps, shadows) modules = (comps', shadows')" by fastforce
  have "fst (foldl (\<lambda>d m. add_module base_label m d) (comps, shadows) modules) name = Some c"
    by (rule foldl_keeps [where P = "\<lambda>d. fst d name = Some c"])
      (use assms add_module_keeps_base in auto)
  then show ?thesis by (simp add: blok_view_def assms(1) folded)
qed

section \<open>Functions\<close>

lemma add_operation_keeps: "fns name = Some f \<Longrightarrow> add_operation voc fns o' name = Some f"
  by (auto simp: add_operation_def)

lemma foldl_add_operation_keeps:
  "fns name = Some f \<Longrightarrow> foldl (add_operation voc) fns os name = Some f"
  by (rule foldl_keeps [where P = "\<lambda>fns. fns name = Some f"]) (simp_all add: add_operation_keeps)

lemma foldl_add_operation_new:
  "fns name = None \<Longrightarrow> foldl (add_operation voc) fns os name = Some f \<Longrightarrow>
   first_part (CHR ''.'') name \<in> set (function_namespaces voc) \<and> f \<in> operation_function ` set os"
proof (induction os arbitrary: fns)
  case (Cons o' os)
  show ?case
  proof (cases "add_operation voc fns o' name")
    case None
    then show ?thesis using Cons.IH [of "add_operation voc fns o'"] Cons.prems by auto
  next
    case (Some g)
    then have "g = operation_function o'" "name = co_name o'"
      "first_part (CHR ''.'') name \<in> set (function_namespaces voc)"
      using Cons.prems(1) by (auto simp: add_operation_def split: if_splits)
    moreover have "foldl (add_operation voc) (add_operation voc fns o') os name = Some g"
      using Some by (rule foldl_add_operation_keeps)
    ultimately show ?thesis using Cons.prems(2) by auto
  qed
qed simp

text \<open>
  A module adds functions, never changes one: the vocabulary's functions keep their definitions,
  and whatever else the view has is an operation a module registered under a function namespace.
\<close>

theorem view_functions_extend:
  "(case map_of (function_table voc) name of
      Some f \<Rightarrow> view_functions (blok_view voc specs modules all_drawn) name = Some f
    | None \<Rightarrow> (case view_functions (blok_view voc specs modules all_drawn) name of
          None \<Rightarrow> True
        | Some f \<Rightarrow> first_part (CHR ''.'') name \<in> set (function_namespaces voc) \<and>
            f \<in> operation_function ` set (registered_operations modules)))"
proof -
  have fns: "view_functions (blok_view voc specs modules all_drawn) =
      foldl (add_operation voc) (map_of (function_table voc)) (registered_operations modules)"
    by (simp add: blok_view_def split: prod.splits)
  show ?thesis
    unfolding fns
    by (cases "map_of (function_table voc) name")
      (auto simp: foldl_add_operation_keeps split: option.splits dest!: foldl_add_operation_new)
qed

end
