(* ===== verification/Infer.thy ===== *)
theory Infer
  imports View
begin

text \<open>
  \<open>rekuest_core/vocabulary/infer.py\<close>: what a blok leaves to its tree, the kinds of its locals. The
  uses of the locals are gathered by a visitor of the walk; the resolved scope is a fixed point.
\<close>

section \<open>Types a tree implies\<close>

text \<open>A port type as the fields of a local (\<open>Typed\<close>): a child carries its key.\<close>

datatype typed =
  Typed (ty_kind: port_kind) (ty_identifier: "string option") (ty_nullable: "bool option")
    (ty_children: "(string \<times> typed) list option")

definition scalar_kind :: "json \<Rightarrow> port_kind option" where
  "scalar_kind v =
     (case v of JBool b \<Rightarrow> Some K_BOOL | JInt i \<Rightarrow> Some K_INT | JFloat r \<Rightarrow> Some K_FLOAT | JStr s \<Rightarrow> Some K_STRING
      | _ \<Rightarrow> None)"

definition default_type :: "json \<Rightarrow> typed option" where
  "default_type d =
     (case scalar_kind d of
        Some k \<Rightarrow> Some (Typed k None None None)
      | None \<Rightarrow>
          (let items = (case d of JList xs \<Rightarrow> xs | JObj kvs \<Rightarrow> map snd kvs | _ \<Rightarrow> [])
           in (case remdups (map scalar_kind items) of
                 [Some k] \<Rightarrow> Some (Typed (if is_list d then K_LIST else K_DICT) None None
                                    (Some [(ITEM_KEY, Typed k None None None)]))
               | _ \<Rightarrow> None)))"

fun match_type :: "port_match \<Rightarrow> typed option" and match_types :: "port_match list \<Rightarrow> (string \<times> typed) list option" where
  "match_type (PortMatch i key kind ident nullable dm descs cs) =
     (case kind of
        None \<Rightarrow> None
      | Some k \<Rightarrow>
          if or_nil cs = [] then Some (Typed k ident (Some (nullable = Some True)) None)
          else (case match_types (or_nil cs) of
                  None \<Rightarrow> None
                | Some ts \<Rightarrow> Some (Typed k ident (Some (nullable = Some True)) (Some ts))))"
| "match_types [] = Some []"
| "match_types (c # cs) =
     (case match_type c of
        None \<Rightarrow> None
      | Some t \<Rightarrow>
          (case pm_key c of
             None \<Rightarrow> None
           | Some key \<Rightarrow> (case match_types cs of None \<Rightarrow> None | Some ts \<Rightarrow> Some ((key, t) # ts))))"

text \<open>A type as the raw port it is validated as.\<close>

definition bare_base :: "string \<Rightarrow> port_kind \<Rightarrow> string option \<Rightarrow> bool option \<Rightarrow> port_base" where
  "bare_base key k ident nullable =
     \<lparr>pt_key = key, pt_kind = k, pt_identifier = ident,
      pt_nullable = (case nullable of None \<Rightarrow> False | Some b \<Rightarrow> b), pt_effects = None, pt_choices = None,
      pt_reference_unit = None, pt_proposed_units = None, pt_dimension = None\<rparr>"

fun typed_port :: "string \<Rightarrow> typed \<Rightarrow> arg_port" where
  "typed_port key (Typed k ident nullable cs) =
     ArgPort (bare_base key k ident nullable) None JNull None None
       (map_option (map (\<lambda>(name, t). typed_port name t)) cs)"

section \<open>Resolving a local\<close>

text \<open>\<open>model_validate({**typed, **own})\<close>: the type fills what the local leaves out.\<close>

definition typed_fields :: "blok_local \<Rightarrow> typed \<Rightarrow> blok_local" where
  "typed_fields l t =
     l\<lparr>lo_kind := Some (Kind (ty_kind t)),
       lo_identifier := (if given (lo_identifier l) then lo_identifier l else ty_identifier t),
       lo_nullable := (if given (lo_nullable l) then lo_nullable l else ty_nullable t),
       lo_children := (if given (lo_children l) then lo_children l
                       else map_option (map (\<lambda>(name, c). typed_port name c)) (ty_children t))\<rparr>"

text \<open>A \<open>ValidationError\<close> (a \<open>ValueError\<close> of a validator) is no valid local; another exception escapes.\<close>

definition typed_local :: "externals \<Rightarrow> blok_local \<Rightarrow> typed \<Rightarrow> blok_local option result" where
  "typed_local ext l t =
     (case build_local ext (typed_fields l t) of
        Inr l' \<Rightarrow> Inr (Some l')
      | Inl e \<Rightarrow> if is_value_error e then Inr None else Inl e)"

text \<open>\<open>any_local\<close> dumps the fields that are not null, so a default of the model is a field given.\<close>

definition any_local :: "externals \<Rightarrow> blok_local \<Rightarrow> blok_local result" where
  "any_local ext l =
     build_local ext (l\<lparr>lo_kind := Some K_ANY,
       lo_nullable := (if given (lo_nullable l) then lo_nullable l else Some False),
       lo_persist := (if given (lo_persist l) then lo_persist l else Some False)\<rparr>)"

definition kind_given :: "blok_local \<Rightarrow> bool" where
  "kind_given l = given (lo_kind l)"

fun first_typed :: "externals \<Rightarrow> blok_local \<Rightarrow> typed list \<Rightarrow> blok_local result" where
  "first_typed ext l [] = any_local ext l"
| "first_typed ext l (t # ts) =
     and_then (typed_local ext l t) (\<lambda>r. case r of None \<Rightarrow> first_typed ext l ts | Some l' \<Rightarrow> Inr l')"

definition BIND_INFERRED :: "value_kind list" where
  "BIND_INFERRED = [V_STRING, V_INT, V_FLOAT, V_BOOL]"

definition bind_type :: "value_kind \<Rightarrow> typed option" where
  "bind_type k =
     (case k of
        V_STRING \<Rightarrow> Some (Typed K_STRING None None None)
      | V_INT \<Rightarrow> Some (Typed K_INT None None None)
      | V_FLOAT \<Rightarrow> Some (Typed K_FLOAT None None None)
      | V_BOOL \<Rightarrow> Some (Typed K_BOOL None None None)
      | _ \<Rightarrow> None)"

definition candidates :: "blok_local \<Rightarrow> typed list \<Rightarrow> value_kind list \<Rightarrow> typed list" where
  "candidates l args binds =
     (case default_type (lo_default l) of None \<Rightarrow> [] | Some t \<Rightarrow> [t]) @ args @ List.map_filter bind_type binds"

definition resolve_local :: "externals \<Rightarrow> blok_local \<Rightarrow> typed list \<Rightarrow> value_kind list \<Rightarrow> blok_local result" where
  "resolve_local ext l args binds =
     (if kind_given l then Inr l else first_typed ext l (candidates l args binds))"

section \<open>Where a tree uses its locals\<close>

record uses =
  used_arguments :: "(string \<times> typed) list"
  used_binds :: "(string \<times> value_kind) list"

definition bind_kind_of :: "blok_view option \<Rightarrow> component_node \<Rightarrow> value_kind option" where
  "bind_kind_of view n =
     (case view of None \<Rightarrow> None
      | Some v \<Rightarrow>
          (case view_component v (component n) of
             None \<Rightarrow> None
           | Some spec \<Rightarrow> map_option cp_kind (find (\<lambda>p. cp_key p = BIND_PROP) (cc_props spec))))"

definition bound_whole ::
  "string list \<Rightarrow> value_kind \<Rightarrow> (string \<rightharpoonup> unit) \<Rightarrow> component_prop \<Rightarrow> (string \<times> value_kind) option" where
  "bound_whole locs k scope p =
     (case (if pr_key p = BIND_PROP then prop_path p else None) of
        None \<Rightarrow> None
      | Some path \<Rightarrow> if path \<in> set locs \<and> scope path = None then Some (path, k) else None)"

definition component_binds ::
  "blok_view option \<Rightarrow> string list \<Rightarrow> component_node \<Rightarrow> (string \<rightharpoonup> unit) \<Rightarrow> (string \<times> value_kind) list" where
  "component_binds view locs n scope =
     (case bind_kind_of view n of
        None \<Rightarrow> []
      | Some k \<Rightarrow> List.map_filter (bound_whole locs k scope) (or_nil (props n)))"

text \<open>The demand of the action a task call makes, of the dependency it names (the first of that key).\<close>

definition dependency_of :: "agent_dependency list \<Rightarrow> string \<Rightarrow> agent_dependency option" where
  "dependency_of deps key = dict_of (map (\<lambda>d. (dep_key d, d)) deps) key"

definition demand_of :: "agent_dependency list \<Rightarrow> agent_call \<Rightarrow> action_demand option" where
  "demand_of deps call =
     (case dependency_of deps (call_dependency call) of
        None \<Rightarrow> None
      | Some d \<Rightarrow>
          (case find (\<lambda>a. acd_key a = action_key_for call) (or_nil (action_dependencies d)) of
             None \<Rightarrow> None
           | Some a \<Rightarrow> acd_demand a))"

definition keyed_matches :: "port_match list \<Rightarrow> (string \<rightharpoonup> port_match)" where
  "keyed_matches ms = dict_of (List.map_filter (\<lambda>m. map_option (\<lambda>k. (k, m)) (pm_key m)) ms)"

definition passed_whole ::
  "string list \<Rightarrow> (string \<rightharpoonup> port_match) \<Rightarrow> (string \<rightharpoonup> unit) \<Rightarrow> argument \<Rightarrow> (string \<times> typed) option" where
  "passed_whole locs matches scope a =
     (case (value_path a, a_key a) of
        (Some path, Some key) \<Rightarrow>
          if path \<notin> set locs \<or> scope path \<noteq> None then None
          else map_option (Pair path) (Option.bind (matches key) match_type)
      | _ \<Rightarrow> None)"

definition call_arguments_typed ::
  "string list \<Rightarrow> agent_dependency list \<Rightarrow> agent_call \<Rightarrow> (string \<rightharpoonup> unit) \<Rightarrow> (string \<times> typed) list" where
  "call_arguments_typed locs deps call scope =
     (let matches = keyed_matches (case demand_of deps call of None \<Rightarrow> [] | Some d \<Rightarrow> or_nil (ad_arg_matches d))
      in List.map_filter (passed_whole locs matches scope) (or_nil (call_arguments call)))"

definition uses_visitor :: "blok_view option \<Rightarrow> string list \<Rightarrow> agent_dependency list \<Rightarrow> (unit, uses) visitor" where
  "uses_visitor view locs deps =
     \<lparr>visit_component = (\<lambda>n anc scope u. u\<lparr>used_binds := used_binds u @ component_binds view locs n scope\<rparr>),
      visit_path = (\<lambda>path w scope u. u),
      visit_agent_call = (\<lambda>c w scope name u.
        u\<lparr>used_arguments := used_arguments u @ call_arguments_typed locs deps c scope\<rparr>),
      visit_util_call = (\<lambda>c w scope is_top u. u),
      bind_let = (\<lambda>name items w scope u. ((), u)),
      bind_into = (\<lambda>name c u. ((), u))\<rparr>"

definition tree_uses :: "vocabulary \<Rightarrow> component_node \<Rightarrow> blok_scope \<Rightarrow> blok_view option \<Rightarrow> uses" where
  "tree_uses voc tree sc view =
     walk_tree voc (uses_visitor view (map lo_key (sc_locals sc)) (sc_dependencies sc)) tree
       \<lparr>used_arguments = [], used_binds = []\<rparr>"

text \<open>\<open>uses.arguments.get(key, ())\<close>.\<close>

definition uses_of :: "string \<Rightarrow> (string \<times> 'a) list \<Rightarrow> 'a list" where
  "uses_of key xs = map snd (filter (\<lambda>x. fst x = key) xs)"

definition resolve_scope ::
  "vocabulary \<Rightarrow> externals \<Rightarrow> component_node \<Rightarrow> blok_scope \<Rightarrow> blok_view option \<Rightarrow> blok_scope result" where
  "resolve_scope voc ext tree sc view =
     (let u = tree_uses voc tree sc view
      in and_then (map_result (\<lambda>l. resolve_local ext l (uses_of (lo_key l) (used_arguments u))
                                      (uses_of (lo_key l) (used_binds u))) (sc_locals sc)) (\<lambda>locs.
         Inr (sc\<lparr>sc_locals := locs\<rparr>)))"

section \<open>The rules of a kind\<close>

lemma typed_local_Some:
  "typed_local ext l t = Inr (Some l') \<longleftrightarrow> build_local ext (typed_fields l t) = Inr l'"
  by (auto simp: typed_local_def split: sum.splits)

lemma first_typed_Inr:
  "first_typed ext l ts = Inr l' \<longleftrightarrow>
     (\<exists>us t vs. ts = us @ t # vs \<and> (\<forall>u \<in> set us. typed_local ext l u = Inr None) \<and>
        build_local ext (typed_fields l t) = Inr l') \<or>
     (\<forall>t \<in> set ts. typed_local ext l t = Inr None) \<and> any_local ext l = Inr l'"
proof (induction ts)
  case (Cons t ts)
  show ?case
  proof (cases "typed_local ext l t")
    case (Inl e)
    then show ?thesis by (auto simp: Cons_eq_append_conv typed_local_Some [symmetric])
  next
    case (Inr r)
    show ?thesis
    proof (cases r)
      case None
      then have "first_typed ext l (t # ts) = first_typed ext l ts" using Inr by simp
      moreover have "(\<exists>us u vs. t # ts = us @ u # vs \<and> (\<forall>u \<in> set us. typed_local ext l u = Inr None) \<and>
          build_local ext (typed_fields l u) = Inr l') \<longleftrightarrow>
        (\<exists>us u vs. ts = us @ u # vs \<and> (\<forall>u \<in> set us. typed_local ext l u = Inr None) \<and>
          build_local ext (typed_fields l u) = Inr l')" (is "?A \<longleftrightarrow> ?B")
      proof
        assume ?A
        then obtain us u vs where "t # ts = us @ u # vs" "\<forall>u \<in> set us. typed_local ext l u = Inr None"
          "build_local ext (typed_fields l u) = Inr l'" by blast
        then show ?B using Inr None by (cases us) (auto simp: typed_local_Some [symmetric])
      next
        assume ?B
        then show ?A using Inr None by (metis append_Cons set_ConsD)
      qed
      ultimately show ?thesis using Cons.IH Inr None by simp
    next
      case (Some m)
      then have "(\<exists>us u vs. t # ts = us @ u # vs \<and> (\<forall>u \<in> set us. typed_local ext l u = Inr None) \<and>
          build_local ext (typed_fields l u) = Inr l') \<longleftrightarrow> m = l'"
        using Inr typed_local_Some [of ext l t] by (fastforce simp: Cons_eq_append_conv)
      then show ?thesis using Some Inr by simp
    qed
  qed
qed simp

lemma resolve_local_kind:
  "resolve_local ext l args binds = Inr l' \<Longrightarrow> kind_given l' \<and> lo_key l' = lo_key l"
  by (auto simp: resolve_local_def first_typed_Inr kind_given_def any_local_def typed_fields_def
        dest: build_local_kind split: if_splits)

lemma resolve_scope_locals:
  assumes "resolve_scope voc ext tree sc view = Inr sc'"
  obtains locs where "list_all2 (\<lambda>l l'. lo_key l' = lo_key l \<and> kind_given l') (sc_locals sc) locs"
    and "sc' = sc\<lparr>sc_locals := locs\<rparr>"
proof -
  define u where "u = tree_uses voc tree sc view"
  obtain locs where all: "list_all2 (\<lambda>l l'. resolve_local ext l (uses_of (lo_key l) (used_arguments u))
      (uses_of (lo_key l) (used_binds u)) = Inr l') (sc_locals sc) locs"
    and sc': "sc' = sc\<lparr>sc_locals := locs\<rparr>"
    using assms by (auto simp: resolve_scope_def Let_def result_iff u_def)
  have "list_all2 (\<lambda>l l'. lo_key l' = lo_key l \<and> kind_given l') (sc_locals sc) locs"
    using all by (rule list_all2_mono) (use resolve_local_kind in blast)
  with sc' that show thesis by blast
qed

text \<open>
  The kind of a local is the first of: the kind it is given; the type of its default; of the task
  arguments it is passed to, in tree order; of the controls bound to it, in tree order; skipping
  each that makes no valid local with the fields it sets; else \<open>ANY\<close>.
\<close>

theorem resolve_local_rules:
  "resolve_local ext l args binds = Inr l' \<longleftrightarrow>
     (if kind_given l then l' = l
      else (\<exists>us t vs. candidates l args binds = us @ t # vs \<and> (\<forall>u \<in> set us. typed_local ext l u = Inr None) \<and>
               build_local ext (typed_fields l t) = Inr l') \<or>
           (\<forall>t \<in> set (candidates l args binds). typed_local ext l t = Inr None) \<and> any_local ext l = Inr l')"
  by (auto simp: resolve_local_def first_typed_Inr)

text \<open>
  Resolving a resolved scope changes nothing, whatever tree and view it is resolved against, so
  the server, the spec and takt may each resolve a blok again.
\<close>

theorem resolve_scope_idempotent:
  assumes "resolve_scope voc ext tree sc view = Inr sc'"
  shows "resolve_scope voc ext tree' sc' view' = Inr sc'"
proof -
  obtain locs where all: "list_all2 (\<lambda>l l'. lo_key l' = lo_key l \<and> kind_given l') (sc_locals sc) locs"
    and sc': "sc' = sc\<lparr>sc_locals := locs\<rparr>"
    using resolve_scope_locals [OF assms] .
  have "\<forall>l \<in> set (sc_locals sc'). kind_given l"
    using list_all2_source [OF all] by (auto simp: sc')
  then have "map_result (\<lambda>l. resolve_local ext l (g l) (h l)) (sc_locals sc') = Inr (sc_locals sc')" for g h
    by (auto simp: map_result_Inr resolve_local_def list_all2_same)
  then show ?thesis
    by (simp add: resolve_scope_def Let_def)
qed

section \<open>Uses are of the blok's own locals\<close>

definition own_uses :: "string list \<Rightarrow> uses \<Rightarrow> bool" where
  "own_uses locs u \<longleftrightarrow> fst ` set (used_arguments u) \<subseteq> set locs \<and> fst ` set (used_binds u) \<subseteq> set locs"

lemma bound_whole_own: "bound_whole locs k scope p = Some (path, v) \<Longrightarrow> path \<in> set locs"
  by (cases "if pr_key p = BIND_PROP then prop_path p else None") (auto simp: bound_whole_def split: if_split_asm)

lemma passed_whole_own: "passed_whole locs matches scope a = Some (path, t) \<Longrightarrow> path \<in> set locs"
  by (cases "value_path a"; cases "a_key a") (auto simp: passed_whole_def split: if_split_asm)

lemma component_binds_own: "fst ` set (component_binds view locs n scope) \<subseteq> set locs"
  by (cases "bind_kind_of view n") (auto simp: component_binds_def set_map_filter_iff dest!: bound_whole_own)

lemma call_arguments_own: "fst ` set (call_arguments_typed locs deps c scope) \<subseteq> set locs"
  by (auto simp: call_arguments_typed_def set_map_filter_iff Let_def dest!: passed_whole_own)

interpretation own_uses: visitor_invariant "uses_visitor view locs deps" "own_uses locs"
  for view locs deps
proof
  fix u e and scope :: "string \<rightharpoonup> unit"
  assume "own_uses locs u"
  then show "own_uses locs (visit (uses_visitor view locs deps) e scope u)"
    using component_binds_own [of view locs _ scope] call_arguments_own [of locs deps _ scope]
    by (cases e) (simp_all add: uses_visitor_def own_uses_def image_Un)
qed (simp_all add: uses_visitor_def)

lemma tree_uses_own: "own_uses (map lo_key (sc_locals sc)) (tree_uses voc tree sc view)"
  unfolding tree_uses_def by (rule own_uses.walk_tree_keeps) (simp add: own_uses_def)

end
