(* ===== verification/Paths.thy ===== *)
theory Paths
  imports Infer
begin

text \<open>
  What a path of a blok holds (\<open>rekuest_core/vocabulary/check.py\<close>): the shapes it descends, and
  \<open>_Checker.resolve\<close> with its helpers. Each returns what it found and the findings it adds, as
  drafts (a code, the place, the fields); the checker turns drafts into findings.
\<close>

section \<open>Shapes\<close>

type_synonym draft = "string \<times> string option \<times> fields"

definition OPEN_IDENTIFIER :: string where "OPEN_IDENTIFIER = ''*''"
definition RETURNS_FIELD :: string where "RETURNS_FIELD = ''returns''"

fun port_matches :: "int \<Rightarrow> arg_port list \<Rightarrow> port_match list" where
  "port_matches i [] = []"
| "port_matches i (ArgPort b vs d w rq cs # ps) =
     PortMatch (Some i) (Some (pt_key b)) (Some (pt_kind b)) (pt_identifier b) (Some (pt_nullable b)) None None
       (if or_nil cs = [] then None else Some (port_matches 0 (or_nil cs)))
     # port_matches (i + 1) ps"

text \<open>\<open>port_match(port).model_copy(update={"key": key, "at": None})\<close>.\<close>

definition port_shape :: "string \<Rightarrow> arg_port \<Rightarrow> port_match" where
  "port_shape key p =
     PortMatch None (Some key) (Some (a_kind p)) (pt_identifier (a_base p)) (Some (a_nullable p)) None None
       (if or_nil (arg_children p) = [] then None else Some (port_matches 0 (or_nil (arg_children p))))"

definition open_match :: "string \<Rightarrow> port_match" where
  "open_match key = PortMatch None (Some key) None (Some OPEN_IDENTIFIER) None None None None"

definition is_open :: "port_match \<Rightarrow> bool" where
  "is_open m = (pm_identifier m = Some OPEN_IDENTIFIER)"

fun with_key :: "string \<Rightarrow> port_match \<Rightarrow> port_match" where
  "with_key key (PortMatch i k kind ident n dm descs cs) = PortMatch i (Some key) kind ident n dm descs cs"

definition leaf_match :: "string \<Rightarrow> port_kind option \<Rightarrow> bool option \<Rightarrow> port_match" where
  "leaf_match key k nullable = PortMatch None (Some key) k None nullable None None None"

definition dict_match :: "string \<Rightarrow> bool option \<Rightarrow> port_match list \<Rightarrow> port_match" where
  "dict_match key nullable cs = PortMatch None (Some key) (Some K_DICT) None nullable None None (Some cs)"

definition all_port_kinds :: "port_kind list" where
  "all_port_kinds =
     [K_INT, K_STRING, K_STRUCTURE, K_LIST, K_BOOL, K_DICT, K_FLOAT, K_DATE, K_UNION, K_ENUM, K_MODEL,
      K_MEMORY_STRUCTURE, K_INTERFACE, K_QUANTITY]"

definition kind_named :: "string \<Rightarrow> port_kind option" where
  "kind_named name = find (\<lambda>k. port_kind_value k = name) all_port_kinds"

fun record_children :: "(string \<rightharpoonup> port_match) \<Rightarrow> record_field list \<Rightarrow> port_match list" where
  "record_children overrides [] = []"
| "record_children overrides (RecordField key kd nullable choices cs # fs) =
     (case overrides key of
        Some m \<Rightarrow> with_key key m
      | None \<Rightarrow>
          if cs \<noteq> [] then dict_match key (if nullable then Some True else None) (record_children Map.empty cs)
          else if kd \<in> {''DICT'', ''ANY'', ''LIST''} then open_match key
          else leaf_match key (kind_named kd) (if nullable then Some True else None))
     # record_children overrides fs"

definition record_match :: "string \<Rightarrow> record_field list \<Rightarrow> (string \<rightharpoonup> port_match) \<Rightarrow> port_match" where
  "record_match key fs overrides = dict_match key None (record_children overrides fs)"

text \<open>
  \<open>vocabulary.records[name].fields\<close>. A record that is not there would be a \<open>KeyError\<close>, and has no fields here. The vocabulary is the
  one file shipped with the code, and it has every record the code reads (\<open>shipped_vocabulary_records\<close>).
\<close>

definition record_fields_of :: "vocabulary \<Rightarrow> string \<Rightarrow> record_field list" where
  "record_fields_of voc name = (case map_of (records voc) name of None \<Rightarrow> [] | Some r \<Rightarrow> r_fields r)"

definition task_record_match :: "vocabulary \<Rightarrow> string \<Rightarrow> port_match list option \<Rightarrow> port_match" where
  "task_record_match voc key returns =
     record_match key (record_fields_of voc ''task'')
       (if or_nil returns = [] then Map.empty
        else [''returns'' \<mapsto> dict_match ''returns'' None (or_nil returns)])"

definition state_match :: "state_dependency \<Rightarrow> port_match" where
  "state_match s = PortMatch None (Some (std_key s)) (Some K_DICT) None None None None
     (case std_demand s of None \<Rightarrow> None | Some d \<Rightarrow> sd_matches d)"

section \<open>The checker's data\<close>

text \<open>
  \<open>_Checker.__init__\<close>. \<open>ck_ports\<close> holds each local's \<open>arg_port()\<close>; \<open>where\<close> is \<open>None\<close> outside the tree.
\<close>

record checker =
  ck_voc :: vocabulary
  ck_scope :: blok_scope
  ck_view :: "blok_view option"
  ck_kind :: kind
  ck_ports :: "(string \<times> arg_port option) list"

definition ck_locals :: "checker \<Rightarrow> string list" where
  "ck_locals ck = map fst (ck_ports ck)"

definition ck_query :: "checker \<Rightarrow> string \<Rightarrow> blok_query option" where
  "ck_query ck name = dict_of (map (\<lambda>q. (q_key q, q)) (sc_queries (ck_scope ck))) name"

definition ck_subscription :: "checker \<Rightarrow> string \<Rightarrow> blok_subscription option" where
  "ck_subscription ck name = dict_of (map (\<lambda>s. (s_key s, s)) (sc_subscriptions (ck_scope ck))) name"

definition ck_dependency :: "checker \<Rightarrow> string \<Rightarrow> agent_dependency option" where
  "ck_dependency ck key = dependency_of (sc_dependencies (ck_scope ck)) key"

definition ck_component :: "checker \<Rightarrow> string \<Rightarrow> catalog_component option" where
  "ck_component ck name = (case ck_view ck of None \<Rightarrow> None | Some v \<Rightarrow> view_component v name)"

definition prop_spec :: "catalog_component option \<Rightarrow> string \<Rightarrow> catalog_prop option" where
  "prop_spec spec key = (case spec of None \<Rightarrow> None | Some c \<Rightarrow> find (\<lambda>p. cp_key p = key) (cc_props c))"

definition shown_names :: "string list \<Rightarrow> message" where
  "shown_names names = [Txt (if names = [] then ''none'' else join '', '' (sorted_set names))]"

definition not_in_kind :: "checker \<Rightarrow> string \<Rightarrow> string \<Rightarrow> string option \<Rightarrow> draft" where
  "not_in_kind ck path rt place =
     (''roots.not_in_kind'', place,
      [(''path'', [Txt path]), (''kind'', [Txt (sc_kind (ck_scope ck))]), (''root'', [Txt rt]),
       (''roots'', [Txt (join '', '' (sorted_set (k_roots (ck_kind ck))))])])"

section \<open>Descending\<close>

definition child_named :: "string \<Rightarrow> port_match list \<Rightarrow> port_match option" where
  "child_named part cs =
     (case find (\<lambda>c. pm_key c = Some part) cs of
        Some c \<Rightarrow> Some c
      | None \<Rightarrow> (case cs of [c] \<Rightarrow> if pm_key c = Some ITEM_KEY then Some c else None | _ \<Rightarrow> None))"

fun descend :: "port_match \<Rightarrow> string list \<Rightarrow> string \<Rightarrow> string \<Rightarrow> port_match option \<times> draft list" where
  "descend m [] path place = (Some m, [])"
| "descend m (part # rest) path place =
     (if is_open m then (Some m, [])
      else (case child_named part (or_nil (pm_children m)) of
              None \<Rightarrow> (None, [(''path.unknown'', Some place,
                 [(''path'', [Txt path]), (''detail'', [repr_str part, Txt '' does not exist''])])])
            | Some c \<Rightarrow> descend c rest path place))"

definition unnamed_return :: "string \<Rightarrow> bool" where
  "unnamed_return s = (starts_with ''return'' s \<and> isdigit (drop 6 s))"

definition check_returns :: "string \<Rightarrow> string list \<Rightarrow> string \<Rightarrow> draft list" where
  "check_returns path rest place =
     (case rest of
        a # b # _ \<Rightarrow>
          if a = RETURNS_FIELD \<and> unnamed_return b
          then [(''returns.unnamed'', Some place, [(''path'', [Txt path]), (''port'', [Txt b])])] else []
      | _ \<Rightarrow> [])"

definition event_field :: "checker \<Rightarrow> string list \<Rightarrow> where_at \<Rightarrow> port_match option \<times> draft list" where
  "event_field ck rest w =
     (case prop_spec (ck_component ck (component (w_node w))) (w_key w) of
        None \<Rightarrow> (Some (open_match ''event''), [])
      | Some p \<Rightarrow>
          (case (cp_event p, rest) of
             (Some known, f # _) \<Rightarrow>
               if f \<notin> set (map ev_key known)
               then (None, [(''callback.event_field'', Some (node_id (w_node w)),
                       [(''field'', [Txt f]), (''key'', [Txt (w_key w)]), (''component'', [Txt (component (w_node w))])])])
               else (Some (open_match f), [])
           | _ \<Rightarrow> (Some (open_match ''event''), [])))"

section \<open>Agents\<close>

definition returns_of :: "agent_dependency option \<Rightarrow> string \<Rightarrow> port_match list option" where
  "returns_of dep action =
     (case dep of
        None \<Rightarrow> None
      | Some d \<Rightarrow>
          (case find (\<lambda>a. acd_key a = action) (or_nil (action_dependencies d)) of
             None \<Rightarrow> None
           | Some a \<Rightarrow> (case acd_demand a of None \<Rightarrow> None | Some dm \<Rightarrow> ad_return_matches dm)))"

definition agent_task :: "checker \<Rightarrow> agent_dependency option \<Rightarrow> string \<Rightarrow> string list \<Rightarrow> string \<Rightarrow> string \<Rightarrow>
    port_match option \<times> draft list" where
  "agent_task ck dep key tail path place =
     (case tail of
        [] \<Rightarrow> (None, [(''roots.whole'', Some place, [(''path'', [Txt path]), (''root'', [Txt key, Txt ''.tasks''])])])
      | action # rest \<Rightarrow>
          if (case dep of None \<Rightarrow> False
              | Some d \<Rightarrow> (case action_dependencies d of None \<Rightarrow> False | Some as \<Rightarrow> action \<notin> set (map acd_key as)))
          then (None, [(''deps.unknown_action'', Some place,
                 [(''path'', [Txt path]), (''key'', [Txt key]), (''action'', [Txt action])])])
          else
            let (m, ds) = descend (task_record_match (ck_voc ck) action (returns_of dep action)) rest path place
            in (m, check_returns path rest place @ ds))"

definition agent_asset :: "checker \<Rightarrow> string \<Rightarrow> string list \<Rightarrow> string \<Rightarrow> string \<Rightarrow> port_match option \<times> draft list" where
  "agent_asset ck key tail path place =
     (case tail of
        [name] \<Rightarrow>
          if key = ''self'' \<and> (case sc_assets (ck_scope ck) of None \<Rightarrow> False | Some as \<Rightarrow> name \<notin> set as)
          then (None, [(''deps.asset'', Some place, [(''path'', [Txt path])])])
          else (Some (leaf_match name (Some K_STRING) None), [])
      | _ \<Rightarrow> (None, [(''deps.asset'', Some place, [(''path'', [Txt path])])]))"

definition agent_state :: "agent_dependency option \<Rightarrow> string \<Rightarrow> string \<Rightarrow> string list \<Rightarrow> string \<Rightarrow> string \<Rightarrow>
    port_match option \<times> draft list" where
  "agent_state dep key head tail path place =
     (case dep of
        None \<Rightarrow> (Some (open_match path), [])
      | Some d \<Rightarrow>
          (case state_dependencies d of
             None \<Rightarrow> (Some (open_match path), [])
           | Some states \<Rightarrow>
               (case find (\<lambda>s. std_key s = head) states of
                  None \<Rightarrow> (None, [(''deps.unknown_state'', Some place,
                     [(''path'', [Txt path]), (''key'', [Txt key]), (''state'', [Txt head])])])
                | Some s \<Rightarrow> descend (state_match s) tail path place)))"

definition resolve_agent :: "checker \<Rightarrow> agent_dependency option \<Rightarrow> string \<Rightarrow> string list \<Rightarrow> string \<Rightarrow> string \<Rightarrow>
    port_match option \<times> draft list" where
  "resolve_agent ck dep key rest path place =
     (case rest of
        [] \<Rightarrow> (Some (open_match key), [])
      | head # tail \<Rightarrow>
          if head \<in> set (agent_fields (ck_voc ck))
          then (Some (leaf_match head (Some K_STRING) None),
                if tail = [] then []
                else [(''path.unknown'', Some place,
                       [(''path'', [Txt path]), (''detail'', [Txt head, Txt '' of an agent has no fields''])])])
          else if head = tasks_segment (ck_voc ck) then agent_task ck dep key tail path place
          else if head = assets_segment (ck_voc ck) then agent_asset ck key tail path place
          else agent_state dep key head tail path place)"

section \<open>Roots\<close>

definition opaque_kind :: "port_kind \<Rightarrow> bool" where
  "opaque_kind k = (k \<in> {K_STRUCTURE, K_MEMORY_STRUCTURE, K_INTERFACE, K_UNION})"

definition whole :: "string \<Rightarrow> string \<Rightarrow> string \<Rightarrow> port_match option \<times> draft list" where
  "whole path rt place = (None, [(''roots.whole'', Some place, [(''path'', [Txt path]), (''root'', [Txt rt])])])"

text \<open>The branches of a data root the blok's kind reads.\<close>

definition resolve_data :: "checker \<Rightarrow> string \<Rightarrow> string list \<Rightarrow> string \<Rightarrow> string \<Rightarrow> port_match option \<times> draft list" where
  "resolve_data ck rt rest path place =
     (if rt = ''then''
      then (Some (leaf_match ''then'' (Some K_STRING) (Some True)),
            if rest = [] then []
            else [(''path.unknown'', Some place, [(''path'', [Txt path]), (''detail'', [Txt ''then is a moment (null while live), it has no fields''])])])
      else if rt = ''self'' then resolve_agent ck (ck_dependency ck ''self'') ''self'' rest path place
      else if rt = ''deps''
      then (case rest of
              [] \<Rightarrow> whole path ''deps'' place
            | key # more_rest \<Rightarrow>
                (case ck_dependency ck key of
                   None \<Rightarrow> (None, [(''deps.unknown'', Some place,
                      [(''path'', [Txt path]), (''key'', [Txt key]),
                       (''keys'', shown_names (map dep_key (sc_dependencies (ck_scope ck))))])])
                 | Some d \<Rightarrow> resolve_agent ck (Some d) key more_rest path place))
      else if rt = ''args''
      then (case rest of
              [] \<Rightarrow> whole path ''args'' place
            | key # _ \<Rightarrow>
                if (case sc_args (ck_scope ck) of None \<Rightarrow> False | Some keys \<Rightarrow> key \<notin> set keys)
                then (None, [(''args.unknown'', Some place, [(''path'', [Txt path]), (''key'', [Txt key])])])
                else (Some (open_match path), []))
      else if rt = ''task''
      then let (m, ds) = descend (task_record_match (ck_voc ck) ''task'' None) rest path place
           in (m, check_returns path rest place @ ds)
      else if rt = ''viewer''
      then descend (record_match ''viewer'' (record_fields_of (ck_voc ck) ''viewer'') Map.empty) rest path place
      else if rt = ''queries''
      then (case rest of
              [] \<Rightarrow> whole path ''queries'' place
            | name # more_rest \<Rightarrow>
                if ck_query ck name = None
                then (None, [(''query.unknown'', Some place,
                   [(''path'', [Txt path]), (''name'', [Txt name]), (''names'', shown_names (map q_key (sc_queries (ck_scope ck))))])])
                else descend (record_match name (record_fields_of (ck_voc ck) ''query'')
                       (case map_of (sc_query_values (ck_scope ck)) name of None \<Rightarrow> Map.empty | Some m \<Rightarrow> [''value'' \<mapsto> m]))
                       more_rest path place)
      else if rt = ''subscriptions''
      then (case rest of
              [] \<Rightarrow> whole path ''subscriptions'' place
            | name # more_rest \<Rightarrow>
                if ck_subscription ck name = None
                then (None, [(''subscription.unknown'', Some place,
                   [(''path'', [Txt path]), (''name'', [Txt name]),
                    (''names'', shown_names (map s_key (sc_subscriptions (ck_scope ck))))])])
                else descend (record_match name (record_fields_of (ck_voc ck) ''subscription'') Map.empty) more_rest path place)
      else (Some (open_match path), []))"

definition local_shape :: "string \<Rightarrow> arg_port option \<Rightarrow> port_match" where
  "local_shape rt port =
     (case port of None \<Rightarrow> open_match rt
      | Some p \<Rightarrow> if opaque_kind (a_kind p) then open_match rt else port_shape rt p)"

text \<open>\<open>resolve\<close>: \<open>into\<close> are the names task calls write to, \<open>scope\<close> what is bound here.\<close>

definition resolve ::
  "checker \<Rightarrow> string list \<Rightarrow> string \<Rightarrow> where_at option \<Rightarrow> (string \<rightharpoonup> port_match) \<Rightarrow> string \<Rightarrow>
   port_match option \<times> draft list" where
  "resolve ck into path w scope owner =
     (let place = (case w of None \<Rightarrow> owner | Some x \<Rightarrow> node_id (w_node x));
          parts = split_on (CHR ''.'') path; rt = hd parts; rest = tl parts
      in case scope rt of
           Some m \<Rightarrow>
             (let (r, ds) = descend m rest path place
              in (r, (if rt \<in> set into then check_returns path rest place else []) @ ds))
         | None \<Rightarrow>
             (case dict_of (ck_ports ck) rt of
                Some port \<Rightarrow> descend (local_shape rt port) rest path place
              | None \<Rightarrow>
                  if rt = ''event''
                  then (case w of
                          Some x \<Rightarrow> if w_callback x then event_field ck rest x
                                    else (None, [(''roots.event_outside_callback'', Some place, [(''path'', [Txt path])])])
                        | None \<Rightarrow> (None, [(''roots.event_outside_callback'', Some place, [(''path'', [Txt path])])]))
                  else if rt = ''error''
                  then (case w of
                          Some x \<Rightarrow> if w_in_error x
                                    then descend (record_match ''error'' (record_fields_of (ck_voc ck) ''error'') Map.empty) rest path place
                                    else (None, [(''roots.error_outside_boundary'', Some place, [(''path'', [Txt path])])])
                        | None \<Rightarrow> (None, [(''roots.error_outside_boundary'', Some place, [(''path'', [Txt path])])]))
                  else if rt \<notin> set (data_roots (ck_voc ck))
                  then (None, [(''roots.unknown'', Some place, [(''path'', [Txt path]), (''root'', [Txt rt])])])
                  else if rt \<notin> set (k_roots (ck_kind ck))
                  then (None, [not_in_kind ck path rt (Some place)])
                  else resolve_data ck rt rest path place))"

end
