(* ===== verification/Checker.thy ===== *)
theory Checker
  imports Paths
begin

text \<open>
  \<open>rekuest_core/vocabulary/check.py\<close>: the checker of a blok tree. What the code adds to its findings
  is a list of notes in order, each a draft or the exception raised in its place; the checker's
  visitor appends them to its state. Every rule of the code is one function from what it reads to
  its notes.
\<close>

type_synonym noted = "draft result"

definition note_of :: "string \<Rightarrow> string \<Rightarrow> fields \<Rightarrow> noted" where
  "note_of code place fs = Inr (code, Some place, fs)"

section \<open>Literals\<close>

text \<open>What Python's \<open>float\<close> makes of a string (ASCII digits); a double holds at most \<open>float_bound\<close>.\<close>

datatype float_class = Finite | Infinite | Not_a_number | Malformed

definition digit_part :: "string \<Rightarrow> bool" where
  "digit_part s = list_all isdigit (split_on (CHR ''_'') s)"

definition only_digits :: "string \<Rightarrow> string" where
  "only_digits s = filter is_digit s"

definition float_bound :: nat where
  "float_bound = 2 ^ 1024 - 2 ^ 970"

definition scaled_overflow :: "nat \<Rightarrow> int \<Rightarrow> bool" where
  "scaled_overflow m e =
     (if 0 \<le> e then float_bound \<le> m * 10 ^ nat e else float_bound * 10 ^ nat (- e) \<le> m)"

definition unsigned :: "string \<Rightarrow> string" where
  "unsigned s = (case s of c # r \<Rightarrow> if c = CHR ''+'' \<or> c = CHR ''-'' then r else s | [] \<Rightarrow> [])"

definition decimal_class :: "string \<Rightarrow> float_class" where
  "decimal_class s =
     (let mant = takeWhile (\<lambda>c. c \<noteq> CHR ''e'') s; tail = dropWhile (\<lambda>c. c \<noteq> CHR ''e'') s;
          ex = (if tail = [] then ''0'' else unsigned (tl tail));
          negative = (tail \<noteq> [] \<and> starts_with ''-'' (tl tail));
          whole_part = takeWhile (\<lambda>c. c \<noteq> CHR ''.'') mant; frac = dropWhile (\<lambda>c. c \<noteq> CHR ''.'') mant;
          fraction = tl frac
      in if digit_part ex \<and> (whole_part = '''' \<or> digit_part whole_part) \<and> (fraction = '''' \<or> digit_part fraction) \<and>
            (whole_part \<noteq> '''' \<or> fraction \<noteq> '''')
         then (let n = int (read_nat (only_digits ex)); e = (if negative then - n else n)
               in if scaled_overflow (read_nat (only_digits (whole_part @ fraction))) (e - int (length (only_digits fraction)))
                  then Infinite else Finite)
         else Malformed)"

definition float_of :: "string \<Rightarrow> float_class" where
  "float_of s =
     (let t = unsigned (lower (strip s))
      in if t = ''inf'' \<or> t = ''infinity'' then Infinite else if t = ''nan'' then Not_a_number
         else decimal_class t)"

text \<open>\<open>literal_hint\<close>, which computes \<open>int(float(value))\<close> for an INT prop: the exceptions it lets out.\<close>

definition literal_hint_raises :: "value_kind \<Rightarrow> string \<Rightarrow> py_error option" where
  "literal_hint_raises k s =
     (if k \<noteq> V_INT then None
      else (case float_of s of
              Infinite \<Rightarrow> Some OverflowError
            | Not_a_number \<Rightarrow> Some (ValueError [Txt ''cannot convert float NaN to integer''])
            | _ \<Rightarrow> None))"

section \<open>What the checker is about\<close>

definition literal_value_kind :: "value_kind \<Rightarrow> bool" where
  "literal_value_kind k = (k \<in> {V_BOOL, V_INT, V_FLOAT})"

definition TOAST_COMPONENT :: string where "TOAST_COMPONENT = ''Toast''"
definition TOAST_TASK_PROP :: string where "TOAST_TASK_PROP = ''task''"
definition CLASS_NAME :: string where "CLASS_NAME = ''className''"
definition REFETCH_FUNCTION :: string where "REFETCH_FUNCTION = ''query.refetch''"
definition FETCH_MORE_FUNCTION :: string where "FETCH_MORE_FUNCTION = ''query.fetch_more''"

section \<open>Declarations\<close>

text \<open>\<open>check_local_default\<close>: whether a default is of the wrong type for the kind.\<close>

definition default_expected :: "port_kind \<Rightarrow> json \<Rightarrow> bool" where
  "default_expected k v =
     (if k \<in> {K_STRING, K_DATE, K_STRUCTURE} then is_str v
      else if k = K_INT then isinstance_int v \<and> \<not> is_bool v
      else if k \<in> {K_FLOAT, K_QUANTITY} then isinstance_number v \<and> \<not> is_bool v
      else if k = K_BOOL then is_bool v
      else if k = K_LIST then is_list v
      else if k \<in> {K_DICT, K_MODEL} then is_dict v
      else True)"

definition check_local_default :: "blok_local \<Rightarrow> noted list" where
  "check_local_default l =
     (case lo_kind l of
        Some (Kind k) \<Rightarrow>
          if lo_default l = JNull then []
          else if (if k = K_ENUM \<and> given (lo_choices l)
                   then list_ex (\<lambda>ch. py_eq (ch_value ch) (lo_default l)) (or_nil (lo_choices l))
                   else default_expected k (lo_default l))
          then []
          else [note_of ''local.default'' (''locals.'' @ lo_key l)
                  [(''name'', [Txt (lo_key l)]), (''default'', [Repr (lo_default l)]), (''kind'', [Txt (port_kind_value k)])]]
      | _ \<Rightarrow> [])"

definition context_notes :: "checker \<Rightarrow> component_node \<Rightarrow> noted list" where
  "context_notes ck tree =
     (let sc = ck_scope ck;
          wrong_logo = ((sc_context sc = ''ACTION_LOGO'') \<noteq> (sc_kind sc = ''action_logo''));
          roots = dict_of (map (\<lambda>(r, c). (c, r)) (blok_roots (ck_voc ck)))
      in (if wrong_logo \<or> drawn_in sc \<notin> set (k_contexts (ck_kind ck))
          then [Inr (''context.kind'', None, [(''kind'', [Txt (sc_kind sc)]), (''context'', [Txt (sc_context sc)])])]
          else []) @
         (case roots (sc_context sc) of
            None \<Rightarrow> []
          | Some r \<Rightarrow> if component tree \<noteq> r
              then [note_of ''context.root'' (node_id tree) [(''root'', [Txt r]), (''component'', [Txt (component tree)])]]
              else []) @
         (if sc_locals sc \<noteq> [] \<and> \<not> k_locals (ck_kind ck) then [Inr (not_in_kind ck ''locals'' ''locals'' None)] else []))"

definition local_notes :: "checker \<Rightarrow> blok_local \<Rightarrow> noted list" where
  "local_notes ck l =
     (if lo_key l \<in> set (reserved (ck_voc ck))
      then [note_of ''roots.reserved'' (''locals.'' @ lo_key l) [(''name'', [Txt (lo_key l)])]] else []) @
     check_local_default l"

definition into_notes :: "checker \<Rightarrow> string \<times> site list \<Rightarrow> noted list" where
  "into_notes ck = (\<lambda>(name, sites).
     (if name \<in> set (reserved (ck_voc ck)) then [note_of ''roots.reserved'' (snd (sites ! 0)) [(''name'', [Txt name])]] else []) @
     (if name \<in> set (ck_locals ck)
      then [note_of ''roots.shadow'' (snd (sites ! 0)) [(''name'', [Txt name]), (''first'', [Txt ''a local''])]] else []) @
     (if 1 < length sites
      then [note_of ''into.twice'' (snd (sites ! 1))
              [(''name'', [Txt name]), (''first'', [Txt (snd (sites ! 0))]), (''second'', [Txt (snd (sites ! 1))])]]
      else []))"

definition let_notes :: "checker \<Rightarrow> string list \<Rightarrow> component_node \<Rightarrow> noted list" where
  "let_notes ck into n =
     (case foreach_let n of
        None \<Rightarrow> []
      | Some name \<Rightarrow>
          if name \<in> set (reserved (ck_voc ck)) then [note_of ''roots.reserved'' (node_id n) [(''name'', [Txt name])]]
          else if name \<in> set (ck_locals ck) \<or> name \<in> set into
          then [note_of ''roots.shadow'' (node_id n) [(''name'', [Txt name])]] else [])"

definition variable_notes :: "checker \<Rightarrow> string list \<Rightarrow> string \<Rightarrow> argument list \<Rightarrow> noted list" where
  "variable_notes ck into owner as =
     concat (map (\<lambda>path. map Inr (snd (resolve ck into path None Map.empty owner))) (argument_paths as))"

definition history_notes :: "checker \<Rightarrow> blok_subscription \<Rightarrow> noted list" where
  "history_notes ck s =
     (case s_history s of
        None \<Rightarrow> []
      | Some h \<Rightarrow> if ck_query ck h = None
          then [note_of ''query.history'' (''subscriptions.'' @ s_key s) [(''name'', [Txt (s_key s)]), (''history'', [Txt h])]]
          else [])"

definition declaration_notes :: "checker \<Rightarrow> component_node \<Rightarrow> noted list" where
  "declaration_notes ck tree =
     (let sc = ck_scope ck; sites = into_sites tree; into = map fst sites
      in context_notes ck tree @
         concat (map (local_notes ck) (sc_locals sc)) @
         concat (map (into_notes ck) sites) @
         concat (map (let_notes ck into) (iter_nodes tree)) @
         concat (map (\<lambda>q. variable_notes ck into (''query '' @ q_key q) (q_variables q)) (sc_queries sc)) @
         concat (map (\<lambda>s. variable_notes ck into (''subscription '' @ s_key s) (s_variables s) @ history_notes ck s)
                   (sc_subscriptions sc)))"

section \<open>Components\<close>

definition context_above :: "checker \<Rightarrow> component_node list \<Rightarrow> component_context" where
  "context_above ck ancestors =
     foldl (\<lambda>cx a. case ck_component ck (component a) of
              None \<Rightarrow> cx
            | Some spec \<Rightarrow>
                if cc_inherits_context spec then cx
                else (case cc_children_context spec of None \<Rightarrow> cc_context spec | Some c \<Rightarrow> c)) HTML ancestors"

text \<open>\<open>standard and catalog not in self.scope.catalogs\<close>.\<close>

definition undeclared_catalog :: "checker \<Rightarrow> catalog_component \<Rightarrow> bool" where
  "undeclared_catalog ck spec =
     (case cc_catalog spec of
        None \<Rightarrow> False
      | Some c \<Rightarrow> sc_catalogs (ck_scope ck) \<noteq> [] \<and> first_part (CHR ''@'') c \<in> set (map fst (catalogs (ck_voc ck))) \<and>
          CHR ''@'' \<in> set c \<and> c \<notin> set (sc_catalogs (ck_scope ck)))"

definition catalog_notes :: "checker \<Rightarrow> component_node \<Rightarrow> catalog_component \<Rightarrow> component_node list \<Rightarrow> noted list" where
  "catalog_notes ck n spec ancestors =
     (let place = node_id n; who = (''component'', [Txt (component n)]);
          present = map pr_key (or_nil (props n));
          unknown = sorted_set (filter (\<lambda>k. k \<notin> set (map cp_key (cc_props spec)) \<and> k \<noteq> WHEN_PROP) present);
          missing = sort (map cp_key (filter (\<lambda>p. cp_required p \<and> cp_key p \<notin> set present) (cc_props spec)));
          cx = context_above ck ancestors; names = map component ancestors;
          forbidden = sorted_set (filter (\<lambda>c. c \<in> set names) (cc_not_downstream_of spec))
      in (if or_nil (children n) \<noteq> [] \<and> \<not> cc_accepts_children spec then [note_of ''catalog.children'' place [who]] else []) @
         (if unknown \<noteq> [] then [note_of ''catalog.props'' place [who, (''detail'', [Txt ''has no props '', repr_strs unknown])]] else []) @
         (if missing \<noteq> [] then [note_of ''catalog.props'' place [who, (''detail'', [Txt ''requires props '', repr_strs missing])]] else []) @
         (if \<not> cc_inherits_context spec \<and> cc_context spec \<noteq> cx
          then [note_of ''catalog.placement'' place [who, (''detail'', [Txt (context_name (cc_context spec)), Txt (context_name cx)])]]
          else []) @
         (if cc_downstream_of spec \<noteq> [] \<and> \<not> list_ex (\<lambda>c. c \<in> set names) (cc_downstream_of spec)
          then [note_of ''catalog.placement'' place [who, (''detail'', [Txt ''must be inside one of '', repr_strs (sort (cc_downstream_of spec))])]]
          else []) @
         (if forbidden \<noteq> [] then [note_of ''catalog.placement'' place [who, (''detail'', [Txt ''must not be inside '', repr_strs forbidden])]] else []) @
         (if undeclared_catalog ck spec then [note_of ''catalog.undeclared'' place [who]] else []))"

section \<open>Props\<close>

text \<open>The port a path into a local names.\<close>

fun port_below :: "arg_port option \<Rightarrow> string list \<Rightarrow> arg_port option" where
  "port_below p [] = p"
| "port_below None (part # ps) = None"
| "port_below (Some p) (part # ps) =
     port_below (case find (\<lambda>c. a_key_of c = part) (or_nil (arg_children p)) of
                   Some c \<Rightarrow> Some c
                 | None \<Rightarrow> (case or_nil (arg_children p) of
                              [c] \<Rightarrow> if a_key_of c = ITEM_KEY then Some c else None
                            | _ \<Rightarrow> None)) ps"

definition local_port :: "checker \<Rightarrow> string \<Rightarrow> arg_port option" where
  "local_port ck path =
     (let parts = split_on (CHR ''.'') path
      in port_below (case dict_of (ck_ports ck) (hd parts) of None \<Rightarrow> None | Some p \<Rightarrow> p) (tl parts))"

definition what_prop :: "component_prop \<Rightarrow> message" where
  "what_prop p =
     (if given (pr_agent_call p) then [Txt ''a task call'']
      else case pr_util_call p of
             Some c \<Rightarrow> [Txt (operation c)]
           | None \<Rightarrow> (case dynamic_value p of
                        Some d \<Rightarrow> [Txt ''the path '', repr_opt (dv_path d)]
                      | None \<Rightarrow> [Txt ''the value '', Repr (static_value p)]))"

definition bind_kind_notes :: "checker \<Rightarrow> component_node \<Rightarrow> value_kind \<Rightarrow> string \<Rightarrow> noted list" where
  "bind_kind_notes ck n k path =
     (case (map_of (bind_kinds (ck_voc ck)) (value_kind_name k), local_port ck path) of
        (Some allowed, Some port) \<Rightarrow>
          if port_kind_value (a_kind port) \<notin> set allowed
          then [note_of ''local.bind_kind'' (node_id n)
                  [(''prop_kind'', [Txt (value_kind_name k)]), (''path'', [Txt path]), (''kind'', [Txt (port_kind_value (a_kind port))])]]
          else []
      | _ \<Rightarrow> [])"

text \<open>The colour classes: \<open>_colour_pattern\<close> and \<open>_ARBITRARY_COLOUR\<close> on a token without whitespace.\<close>

definition escaped_length :: "string \<Rightarrow> nat" where
  "escaped_length u =
     length u + length (filter (\<lambda>c. c \<in> set ''()[]{}?*+-|^$.&~# '' \<or> c = CHR 0x5C \<or> is_space c \<and> c \<noteq> CHR '' '') u)"

definition slash_digits :: "string \<Rightarrow> bool" where
  "slash_digits s = (s = '''' \<or> hd s = CHR ''/'' \<and> isdigit (tl s))"

definition shade_tail :: "string \<Rightarrow> bool" where
  "shade_tail s =
     (if starts_with ''-'' s
      then length (takeWhile is_digit (tl s)) \<in> {2, 3} \<and> slash_digits (dropWhile is_digit (tl s))
      else slash_digits s)"

definition colour_match :: "theme \<Rightarrow> string \<Rightarrow> (string \<times> string) option" where
  "colour_match th base =
     find (\<lambda>(u, c). let prefix = u @ ''-'' @ c in starts_with prefix base \<and> shade_tail (drop (length prefix) base))
       (concat (map (\<lambda>u. map (\<lambda>c. (u, c)) (palette_colours th))
          (sort_key (\<lambda>u. - int (escaped_length u)) (colour_utilities th))))"

definition ARBITRARY_UTILITIES :: "string list" where
  "ARBITRARY_UTILITIES =
     [''bg'', ''text'', ''border'', ''ring'', ''fill'', ''stroke'', ''from'', ''via'', ''to'', ''outline'', ''decoration'', ''shadow'']"

definition arbitrary_colour :: "string \<Rightarrow> string option" where
  "arbitrary_colour base =
     find (\<lambda>u. list_ex (\<lambda>f. starts_with (u @ ''-['' @ f) base) [''#'', ''rgb'', ''hsl'', ''oklch'', ''color'']) ARBITRARY_UTILITIES"

fun words_from :: "string \<Rightarrow> string \<Rightarrow> string list" where
  "words_from w [] = (if w = [] then [] else [w])"
| "words_from w (c # s) = (if is_space c then (if w = [] then [] else [w]) @ words_from [] s else words_from (w @ [c]) s)"

definition class_base :: "string \<Rightarrow> string" where
  "class_base token = dropWhile (\<lambda>c. c = CHR ''!'') (last (split_on (CHR '':'') token))"

definition class_notes :: "theme \<Rightarrow> string \<Rightarrow> string \<Rightarrow> noted list" where
  "class_notes th classes place =
     concat (map (\<lambda>token.
       let base = class_base token
       in case colour_match th base of
            Some (u, c) \<Rightarrow>
              [note_of ''palette.raw_colour'' place
                 [(''token'', [Txt token]),
                  (''suggestion'', [Txt u, Txt ''-'', Txt (case map_of (palette_role_hints th) c of None \<Rightarrow> ''primary'' | Some r \<Rightarrow> r)])]]
          | None \<Rightarrow>
              (case arbitrary_colour base of
                 None \<Rightarrow> []
               | Some u \<Rightarrow> [note_of ''palette.raw_colour'' place [(''token'', [Txt token]), (''suggestion'', [Txt u, Txt ''-<role>''])]]))
       (words_from [] classes))"

definition paint_notes :: "theme \<Rightarrow> component_node \<Rightarrow> string \<Rightarrow> string \<Rightarrow> noted list" where
  "paint_notes th n key v =
     (let paint = strip v
      in if paint \<in> set (logo_pens th) \<or> starts_with ''url(#'' paint \<and> ends_with '')'' paint then []
         else [note_of ''palette.logo_paint'' (node_id n) [(''component'', [Txt (component n)]), (''prop'', [Txt key]), (''value'', [Txt v])]])"

definition scene_colour_notes :: "theme \<Rightarrow> component_node \<Rightarrow> string \<Rightarrow> string \<Rightarrow> noted list" where
  "scene_colour_notes th n key v =
     (if strip v \<in> set (colour_roles th) then []
      else [note_of ''palette.scene_colour'' (node_id n) [(''component'', [Txt (component n)]), (''prop'', [Txt key]), (''value'', [Txt v])]])"

text \<open>\<open>_class_literals\<close>: every literal string, and object key, of a \<open>str.classes\<close> call.\<close>

fun class_literals :: "argument list \<Rightarrow> string list" where
  "class_literals [] = []"
| "class_literals (Argument k lit p ac uc vl vd # as) =
     (case lit of JStr s \<Rightarrow> [s] | _ \<Rightarrow> []) @
     List.map_filter (\<lambda>x. case a_key x of None \<Rightarrow> None | Some n \<Rightarrow> if n = '''' then None else Some n) (or_nil vd) @
     (case uc of None \<Rightarrow> [] | Some c \<Rightarrow> class_literals (or_nil (arguments c))) @
     class_literals (or_nil vl) @ class_literals as"

definition callback_notes :: "component_node \<Rightarrow> component_prop \<Rightarrow> catalog_prop option \<Rightarrow> bool \<Rightarrow> noted list" where
  "callback_notes n p spec holds =
     (case spec of
        None \<Rightarrow> []
      | Some s \<Rightarrow>
          if cp_kind s = V_CALLBACK \<and> prop_bound p \<noteq> [] \<and> \<not> holds
          then [note_of ''callback.unbound'' (node_id n) [(''key'', [Txt (pr_key p)]), (''component'', [Txt (component n)])]]
          else if cp_kind s \<noteq> V_CALLBACK \<and> holds
          then [note_of ''callback.not_callback'' (node_id n)
                  [(''key'', [Txt (pr_key p)]), (''component'', [Txt (component n)]), (''what'', what_prop p)]]
          else [])"

definition literal_notes :: "component_node \<Rightarrow> component_prop \<Rightarrow> catalog_prop option \<Rightarrow> noted list" where
  "literal_notes n p spec =
     (case (spec, static_value p) of
        (Some s, JStr v) \<Rightarrow>
          if literal_value_kind (cp_kind s) \<and> pr_key p \<noteq> BIND_PROP
          then [case literal_hint_raises (cp_kind s) v of
                  Some e \<Rightarrow> Inl e
                | None \<Rightarrow> note_of ''props.literal_type'' (node_id n)
                    [(''component'', [Txt (component n)]), (''key'', [Txt (pr_key p)]), (''value'', [Txt v]),
                     (''kind'', [Txt (value_kind_name (cp_kind s))])]]
          else []
      | _ \<Rightarrow> [])"

definition asset_notes :: "checker \<Rightarrow> component_node \<Rightarrow> component_prop \<Rightarrow> catalog_prop option \<Rightarrow> noted list" where
  "asset_notes ck n p spec =
     (case spec of
        None \<Rightarrow> []
      | Some s \<Rightarrow>
          let parts = split_on (CHR ''.'') (case prop_path p of None \<Rightarrow> '''' | Some path \<Rightarrow> path);
              agent = (if hd parts = ''self'' then drop 1 parts else if hd parts = ''deps'' then drop 2 parts else [])
          in if cp_kind s = V_ASSET \<and> (length agent \<noteq> 2 \<or> agent ! 0 \<noteq> assets_segment (ck_voc ck))
             then [note_of ''catalog.asset'' (node_id n) [(''key'', [Txt (pr_key p)]), (''component'', [Txt (component n)])]]
             else [])"

definition answer_notes :: "checker \<Rightarrow> component_node \<Rightarrow> component_prop \<Rightarrow> noted list" where
  "answer_notes ck n p =
     (case pr_util_call p of
        None \<Rightarrow> []
      | Some c \<Rightarrow> if operation c = ''task.answer'' \<and> ''task'' \<notin> set (k_roots (ck_kind ck))
          then [Inr (not_in_kind ck ''task.answer'' ''task'' (Some (node_id n)))] else [])"

text \<open>A \<open>bind\<close>: its findings, and the local it writes.\<close>

definition bind_notes :: "checker \<Rightarrow> component_node \<Rightarrow> component_prop \<Rightarrow> catalog_prop option \<Rightarrow> noted list \<times> string list" where
  "bind_notes ck n p spec =
     (if pr_key p \<noteq> BIND_PROP then ([], [])
      else case prop_path p of
             None \<Rightarrow> ([note_of ''local.bind'' (node_id n) [(''what'', what_prop p)]], [])
           | Some path \<Rightarrow>
               let rt = hd (split_on (CHR ''.'') path)
               in if rt \<notin> set (ck_locals ck)
                  then ([note_of ''local.unknown'' (node_id n) [(''path'', [Txt path]), (''root'', [Txt rt])]], [])
                  else (case spec of None \<Rightarrow> [] | Some s \<Rightarrow> bind_kind_notes ck n (cp_kind s) path, [rt]))"

definition toast_notes :: "string list \<Rightarrow> component_node \<Rightarrow> component_prop \<Rightarrow> noted list" where
  "toast_notes into n p =
     (if component n = TOAST_COMPONENT \<and> pr_key p = TOAST_TASK_PROP \<and>
         (case prop_path p of None \<Rightarrow> True | Some path \<Rightarrow> path \<noteq> ''task'' \<and> path \<notin> set into)
      then [note_of ''toast.task'' (node_id n) [(''what'', what_prop p)]] else [])"

definition paint_prop_notes :: "checker \<Rightarrow> component_node \<Rightarrow> component_prop \<Rightarrow> catalog_component option \<Rightarrow> noted list" where
  "paint_prop_notes ck n p spec =
     (let th = the_theme (ck_voc ck)
      in (case static_value p of
            JStr v \<Rightarrow>
              (if pr_key p = CLASS_NAME then class_notes th v (node_id n) else []) @
              (if drawn_in (ck_scope ck) = ''LOGO'' \<and> pr_key p \<in> set (logo_paint_props th)
               then paint_notes th n (pr_key p) v else []) @
              (case spec of
                 None \<Rightarrow> []
               | Some c \<Rightarrow> if cc_context c = SCENE \<and> pr_key p \<in> set (scene_paint_props th)
                   then scene_colour_notes th n (pr_key p) v else [])
          | _ \<Rightarrow> []) @
         (case pr_util_call p of
            None \<Rightarrow> []
          | Some c \<Rightarrow> if pr_key p = CLASS_NAME
              then concat (map (\<lambda>s. class_notes th s (node_id n)) (class_literals (or_nil (arguments c)))) else []))"

definition prop_notes ::
  "checker \<Rightarrow> string list \<Rightarrow> component_node \<Rightarrow> catalog_component option \<Rightarrow> component_prop \<Rightarrow> noted list \<times> string list" where
  "prop_notes ck into n spec p =
     (let ps = prop_spec spec (pr_key p); (bound_findings, bound) = bind_notes ck n p ps
      in (callback_notes n p ps (is_callback_value (ck_voc ck) p) @ literal_notes n p ps @ asset_notes ck n p ps @
          answer_notes ck n p @ bound_findings @ toast_notes into n p @ paint_prop_notes ck n p spec, bound))"

section \<open>Calls\<close>

definition arg_kind_notes ::
  "checker \<Rightarrow> agent_call \<Rightarrow> port_match list \<Rightarrow> where_at \<Rightarrow> (string \<rightharpoonup> port_match) \<Rightarrow> argument \<Rightarrow> noted list" where
  "arg_kind_notes ck call matches w scope a =
     (case (value_path a, keyed_matches matches (case a_key a of None \<Rightarrow> '''' | Some k \<Rightarrow> k)) of
        (Some path, Some m) \<Rightarrow>
          (case (pm_kind m, if scope (hd (split_on (CHR ''.'') path)) = None then local_port ck path else None) of
             (Some port_kind, Some port) \<Rightarrow>
               let k = a_kind port; ident = pt_identifier (a_base port);
                   other = (k = K_STRUCTURE \<and> port_kind = K_STRUCTURE \<and> given ident \<and> given (pm_identifier m) \<and>
                            ident \<noteq> pm_identifier m)
               in if (case map_of (arg_kinds (ck_voc ck)) (port_kind_value k) of
                        None \<Rightarrow> False | Some allowed \<Rightarrow> port_kind_value port_kind \<notin> set allowed) \<or> other
                  then [note_of ''local.arg_kind'' (node_id (w_node w))
                          [(''call'', [Txt (call_operation call)]), (''argument'', [repr_opt (a_key a)]), (''path'', [Txt path]),
                           (''port_kind'', [Txt (port_kind_value port_kind)]), (''kind'', [Txt (port_kind_value k)])]]
                  else []
           | _ \<Rightarrow> [])
      | _ \<Rightarrow> [])"

definition agent_call_notes ::
  "checker \<Rightarrow> agent_call \<Rightarrow> where_at \<Rightarrow> (string \<rightharpoonup> port_match) \<Rightarrow> noted list" where
  "agent_call_notes ck call w scope =
     (let place = node_id (w_node w); action = action_key_for call; dep = call_dependency call
      in if dep = ''self'' \<and> ''self'' \<notin> set (k_roots (ck_kind ck))
         then [Inr (not_in_kind ck (''self.'' @ action @ ''(...)'') ''self'' (Some place))]
         else if dep \<noteq> ''self'' \<and> ''deps'' \<notin> set (k_roots (ck_kind ck))
         then [Inr (not_in_kind ck (''deps.'' @ dep @ ''.'' @ action @ ''(...)'') ''deps'' (Some place))]
         else (case ck_dependency ck dep of
                 None \<Rightarrow> if dep \<noteq> ''self''
                   then [note_of ''deps.unknown'' place
                           [(''path'', [Txt (where_text w)]), (''key'', [Txt dep]),
                            (''keys'', shown_names (map dep_key (sc_dependencies (ck_scope ck))))]]
                   else []
               | Some d \<Rightarrow>
                   if given (action_dependencies d) \<and> action \<notin> set (map acd_key (or_nil (action_dependencies d)))
                   then [note_of ''deps.unknown_action'' place
                           [(''path'', [Txt (where_text w)]), (''key'', [Txt dep]), (''action'', [Txt action])]]
                   else (case demand_of (sc_dependencies (ck_scope ck)) call of
                           None \<Rightarrow> []
                         | Some dm \<Rightarrow>
                             concat (map (arg_kind_notes ck call (or_nil (ad_arg_matches dm)) w scope)
                               (if or_nil (ad_arg_matches dm) = [] then [] else or_nil (call_arguments call))))))"

definition query_effect_notes :: "checker \<Rightarrow> util_call \<Rightarrow> where_at \<Rightarrow> noted list" where
  "query_effect_notes ck call w =
     (let place = node_id (w_node w); verb = last (split_on (CHR ''.'') (operation call))
      in case find (\<lambda>a. a_key a = Some ''query'') (or_nil (arguments call)) of
           None \<Rightarrow> []
         | Some a \<Rightarrow>
             (case (value_literal a, value_path a, util_call a, agent_call a, value_list a, value_dict a) of
                (JStr name, None, None, None, None, None) \<Rightarrow>
                  let path = ''queries.'' @ name @ ''.'' @ verb @ ''()''
                  in if ''queries'' \<notin> set (k_roots (ck_kind ck)) then [Inr (not_in_kind ck path ''queries'' (Some place))]
                     else (case ck_query ck name of
                             None \<Rightarrow> [note_of ''query.unknown'' place [(''path'', [Txt path]), (''name'', [Txt name])]]
                           | Some q \<Rightarrow> if operation call = FETCH_MORE_FUNCTION \<and> q_more q = None
                               then [note_of ''query.fetch_more'' place [(''path'', [Txt path]), (''name'', [Txt name])]] else [])
              | _ \<Rightarrow> [note_of ''query.effect_target'' place [(''function'', [Txt (operation call)])]]))"

definition view_function :: "checker \<Rightarrow> string \<Rightarrow> blok_function option" where
  "view_function ck name =
     (case ck_view ck of None \<Rightarrow> vocabulary_function (ck_voc ck) name | Some v \<Rightarrow> view_functions v name)"

definition util_call_notes :: "checker \<Rightarrow> util_call \<Rightarrow> where_at \<Rightarrow> bool \<Rightarrow> noted list" where
  "util_call_notes ck call w is_top =
     (let place = node_id (w_node w); name = operation call
      in case view_function ck name of
           None \<Rightarrow>
             if first_part (CHR ''.'') name \<notin> set (function_namespaces (ck_voc ck)) \<or> CHR ''.'' \<notin> set name
             then [note_of ''expr.unknown_callee'' place [(''callee'', [Txt name])]]
             else if given (ck_view ck) then [note_of ''expr.unknown_function'' place [(''function'', [Txt name])]] else []
         | Some f \<Rightarrow>
             let keys = List.map_filter a_key (or_nil (arguments call));
                 unknown = sorted_set (filter (\<lambda>k. k \<notin> set (function_keys f) \<and> \<not> isdigit k) keys);
                 missing = filter (\<lambda>k. k \<notin> set keys) (required_keys f)
             in (if fn_effect f \<and> \<not> is_top then [note_of ''callback.nested'' place [(''what'', [Txt name])]] else []) @
                (if (name = REFETCH_FUNCTION \<or> name = FETCH_MORE_FUNCTION) \<and> is_top then query_effect_notes ck call w else []) @
                (if unknown \<noteq> []
                 then [note_of ''expr.arguments'' place [(''function'', [Txt name]), (''detail'', [Txt ''has no argument '', repr_str (hd unknown)])]]
                 else []) @
                (if missing \<noteq> []
                 then [note_of ''expr.arguments'' place [(''function'', [Txt name]), (''detail'', [Txt ''needs '', Txt (join '', '' missing)])]]
                 else []))"

section \<open>Bindings\<close>

definition compound_kind :: "port_kind option \<Rightarrow> bool" where
  "compound_kind k = (k \<in> {Some K_DICT, Some K_MODEL, Some K_LIST, Some K_UNION})"

definition let_binding ::
  "checker \<Rightarrow> string list \<Rightarrow> string \<Rightarrow> component_prop option \<Rightarrow> where_at \<Rightarrow> (string \<rightharpoonup> port_match) \<Rightarrow>
   port_match \<times> noted list" where
  "let_binding ck into name items w scope =
     (let place = node_id (w_node w);
          keyed = list_ex (\<lambda>p. pr_key p = FOREACH_KEY_PROP) (or_nil (props (w_node w)));
          position = note_of ''foreach.position_key'' place [(''let'', [Txt name])];
          literal = (case items of
                       None \<Rightarrow> []
                     | Some p \<Rightarrow> (case static_value p of
                         JList vs \<Rightarrow> if \<not> keyed \<and> list_ex (\<lambda>v. is_dict v \<or> is_list v) vs then [position] else []
                       | _ \<Rightarrow> []))
      in case Option.bind items prop_path of
           None \<Rightarrow> (open_match name, literal)
         | Some path \<Rightarrow>
             (let (m, ds) = resolve ck into path None scope (where_text w); found = literal @ map Inr ds
              in case m of
                   None \<Rightarrow> (open_match name, found)
                 | Some r \<Rightarrow>
                     if is_open r then (open_match name, found)
                     else (case or_nil (pm_children r) of
                             [item] \<Rightarrow>
                               if pm_key item = Some ITEM_KEY
                               then (with_key name item,
                                     found @ (if \<not> keyed \<and> (or_nil (pm_children item) \<noteq> [] \<or> compound_kind (pm_kind item))
                                              then [position] else []))
                               else (open_match name, found @ (if pm_kind r \<in> {Some K_LIST, None} then []
                                     else [note_of ''path.unknown'' place [(''path'', [Txt path]), (''detail'', [Txt ''items of a foreach reads a list''])]]))
                           | _ \<Rightarrow> (open_match name, found @ (if pm_kind r \<in> {Some K_LIST, None} then []
                                     else [note_of ''path.unknown'' place [(''path'', [Txt path]), (''detail'', [Txt ''items of a foreach reads a list''])]])))))"

text \<open>\<open>bind_into\<close>: the returns of the last demand of that action that has any demand.\<close>

definition into_binding :: "checker \<Rightarrow> string \<Rightarrow> agent_call \<Rightarrow> port_match" where
  "into_binding ck name call =
     task_record_match (ck_voc ck) name
       (case ck_dependency ck (call_dependency call) of
          None \<Rightarrow> None
        | Some d \<Rightarrow>
            foldl (\<lambda>r a. if acd_key a = action_key_for call
                          then (case acd_demand a of None \<Rightarrow> r | Some dm \<Rightarrow> ad_return_matches dm) else r)
              None (or_nil (action_dependencies d)))"

section \<open>The visitor\<close>

record check_state =
  so_far :: "noted list"
  bound_locals :: "string list"
  shadowed :: "string list"

definition add_notes :: "noted list \<Rightarrow> check_state \<Rightarrow> check_state" where
  "add_notes ns s = s\<lparr>so_far := so_far s @ ns\<rparr>"

definition unknown_component_notes :: "checker \<Rightarrow> component_node \<Rightarrow> noted list" where
  "unknown_component_notes ck n =
     (case ck_view ck of
        None \<Rightarrow> []
      | Some v \<Rightarrow> if view_component v (component n) = None \<and> view_complete v
          then [note_of ''catalog.unknown_component'' (node_id n) [(''component'', [Txt (component n)])]] else [])"

definition shadow_notes :: "checker \<Rightarrow> component_node \<Rightarrow> string list \<Rightarrow> noted list" where
  "shadow_notes ck n seen =
     (case ck_view ck of
        None \<Rightarrow> []
      | Some v \<Rightarrow>
          (case view_shadows v (component n) of
             None \<Rightarrow> []
           | Some sh \<Rightarrow> if component n \<in> set seen then []
               else [note_of ''catalog.shadow'' (node_id n)
                       [(''component'', [Txt (component n)]), (''catalog'', [Txt (sh_catalog sh)]), (''module'', [Txt (sh_module sh)]),
                        (''winner'', [Txt (sh_winner sh)])]]))"

definition check_component :: "checker \<Rightarrow> string list \<Rightarrow> component_node \<Rightarrow> component_node list \<Rightarrow> check_state \<Rightarrow> check_state" where
  "check_component ck into n ancestors s =
     (let spec = ck_component ck (component n); shadow = shadow_notes ck n (shadowed s);
          found = map (prop_notes ck into n spec) (or_nil (props n))
      in s\<lparr>so_far := so_far s @ unknown_component_notes ck n @
                     (case spec of None \<Rightarrow> [] | Some c \<Rightarrow> catalog_notes ck n c ancestors) @
                     shadow @ concat (map fst found),
            bound_locals := bound_locals s @ concat (map snd found),
            shadowed := (if shadow = [] then shadowed s else component n # shadowed s)\<rparr>)"

definition check_visitor :: "checker \<Rightarrow> string list \<Rightarrow> (port_match, check_state) visitor" where
  "check_visitor ck into =
     \<lparr>visit_component = (\<lambda>n ancestors scope. check_component ck into n ancestors),
      visit_path = (\<lambda>path w scope. add_notes (map Inr (snd (resolve ck into path (Some w) scope (where_text w))))),
      visit_agent_call = (\<lambda>c w scope name. add_notes (agent_call_notes ck c w scope)),
      visit_util_call = (\<lambda>c w scope is_top. add_notes (util_call_notes ck c w is_top)),
      bind_let = (\<lambda>name items w scope s. let (m, ns) = let_binding ck into name items w scope in (m, add_notes ns s)),
      bind_into = (\<lambda>name c s. (into_binding ck name c, s))\<rparr>"

section \<open>Logos\<close>

text \<open>\<open>_demo_items\<close>: how many items the demo gives a loop.\<close>

fun demo_at :: "json \<Rightarrow> string list \<Rightarrow> json option" where
  "demo_at v [] = Some v"
| "demo_at v (part # ps) =
     (case v of
        JObj kvs \<Rightarrow> (case map_of kvs part of None \<Rightarrow> None | Some w \<Rightarrow> demo_at w ps)
      | _ \<Rightarrow> None)"

definition demo_root :: "blok_demo \<Rightarrow> string \<Rightarrow> json" where
  "demo_root d rt =
     (if rt = ''self'' then (case demo_deps d of JObj kvs \<Rightarrow> obj_get kvs ''self'' | _ \<Rightarrow> JNull)
      else if rt = ''deps'' then demo_deps d
      else if rt = ''task'' then demo_task d
      else if rt = ''args'' then demo_args d
      else JNull)"

definition demo_items :: "component_prop \<Rightarrow> blok_demo option \<Rightarrow> nat" where
  "demo_items p demo =
     (case static_value p of
        JList vs \<Rightarrow> length vs
      | _ \<Rightarrow>
          (case (prop_path p, demo) of
             (Some path, Some d) \<Rightarrow>
               (let parts = split_on (CHR ''.'') path
                in case demo_at (demo_root d (hd parts)) (tl parts) of
                     Some (JList vs) \<Rightarrow> length vs
                   | _ \<Rightarrow> 0)
           | _ \<Rightarrow> 0))"

definition complexity :: "string \<Rightarrow> message \<Rightarrow> noted" where
  "complexity place detail = note_of ''logo.complexity'' place [(''detail'', detail)]"

definition loop_notes :: "limits \<Rightarrow> blok_demo option \<Rightarrow> component_node \<Rightarrow> noted list" where
  "loop_notes lm demo n =
     concat (map (\<lambda>p.
       if component n = FOREACH_COMPONENT \<and> pr_key p = FOREACH_ITEMS_PROP \<and>
          logo_max_foreach_items lm < int (demo_items p demo)
       then [complexity (node_id n) [Txt ''a foreach in a logo draws too many items'']] else []) (or_nil (props n)))"

fun logo_walk :: "limits \<Rightarrow> blok_demo option \<Rightarrow> int \<Rightarrow> component_node \<Rightarrow> noted list" where
  "logo_walk lm demo depth (Node i c ps cs) =
     (if logo_max_depth lm < depth then [complexity i [Txt ''a logo nests too deep'']] else []) @
     loop_notes lm demo (Node i c ps cs) @
     concat (map (logo_walk lm demo (depth + 1)) (or_nil cs))"

definition path_data :: "limits \<Rightarrow> component_node \<Rightarrow> nat" where
  "path_data lm tree =
     sum_list (map (\<lambda>n. sum_list (map (\<lambda>p.
       case static_value p of JStr s \<Rightarrow> if pr_key p \<in> set (logo_path_data_props lm) then length s else 0 | _ \<Rightarrow> 0)
       (or_nil (props n)))) (iter_nodes tree))"

definition check_logo :: "limits \<Rightarrow> component_node \<Rightarrow> blok_demo option \<Rightarrow> noted list" where
  "check_logo lm tree demo =
     logo_walk lm demo 1 tree @
     (if logo_max_nodes lm < int (length (iter_nodes tree))
      then [complexity (node_id tree) [Txt ''a logo has too many components'']] else []) @
     (if logo_max_path_data lm < int (path_data lm tree)
      then [complexity (node_id tree) [Txt ''a logo holds too much path data'']] else [])"

section \<open>Checking a tree\<close>

definition persist_notes :: "checker \<Rightarrow> string list \<Rightarrow> noted list" where
  "persist_notes ck bound =
     List.map_filter (\<lambda>l. if lo_persist l = Some True \<and> lo_key l \<notin> set bound
       then Some (note_of ''local.unused_persist'' (''locals.'' @ lo_key l) [(''name'', [Txt (lo_key l)])]) else None)
     (sc_locals (ck_scope ck))"

definition tree_notes :: "checker \<Rightarrow> component_node \<Rightarrow> noted list" where
  "tree_notes ck tree =
     (let s = walk_tree (ck_voc ck) (check_visitor ck (map fst (into_sites tree))) tree
                \<lparr>so_far = declaration_notes ck tree, bound_locals = [], shadowed = []\<rparr>
      in so_far s @
         (if drawn_in (ck_scope ck) = ''LOGO'' then check_logo (the_limits (ck_voc ck)) tree (sc_demo (ck_scope ck)) else []) @
         persist_notes ck (bound_locals s))"

definition findings_of :: "vocabulary \<Rightarrow> noted list \<Rightarrow> finding list result" where
  "findings_of voc = map_result (\<lambda>n. and_then n (\<lambda>(code, place, fs). finding_of voc code place fs))"

definition make_checker ::
  "vocabulary \<Rightarrow> externals \<Rightarrow> component_node \<Rightarrow> blok_scope \<Rightarrow> blok_view option \<Rightarrow> checker result" where
  "make_checker voc ext tree sc view =
     and_then (resolve_scope voc ext tree sc view) (\<lambda>sc'.
     and_then (vocabulary_kind voc (sc_kind sc')) (\<lambda>k.
     and_then (map_result (\<lambda>l. and_then (local_arg_port ext l) (\<lambda>p. Inr (lo_key l, p))) (sc_locals sc')) (\<lambda>ports.
     Inr \<lparr>ck_voc = voc, ck_scope = sc', ck_view = view, ck_kind = k, ck_ports = ports\<rparr>)))"

definition check_blok_tree ::
  "vocabulary \<Rightarrow> externals \<Rightarrow> component_node \<Rightarrow> blok_scope \<Rightarrow> blok_view option \<Rightarrow> finding list result" where
  "check_blok_tree voc ext tree sc view =
     and_then (make_checker voc ext tree sc view) (\<lambda>ck. findings_of voc (tree_notes ck tree))"

section \<open>Notes become findings\<close>

lemma findings_of_mem:
  "findings_of voc ns = Inr fs \<Longrightarrow> Inr (code, place, fl) \<in> set ns \<Longrightarrow>
   \<exists>f \<in> set fs. f_code f = code \<and> f_path f = place \<and> finding_of voc code place fl = Inr f"
proof -
  assume "findings_of voc ns = Inr fs" "Inr (code, place, fl) \<in> set ns"
  then have "list_all2 (\<lambda>n f. and_then n (\<lambda>(code, place, fs). finding_of voc code place fs) = Inr f) ns fs"
    by (simp add: findings_of_def map_result_Inr)
  then obtain f where "f \<in> set fs" "finding_of voc code place fl = Inr f"
    using \<open>Inr (code, place, fl) \<in> set ns\<close> by (fastforce simp: list_all2_conv_all_nth in_set_conv_nth)
  then show ?thesis by (auto simp: finding_of_def split: option.splits)
qed

lemma list_all2_map_eq:
  "list_all2 P xs ys \<Longrightarrow> (\<And>x y. P x y \<Longrightarrow> f x = g y) \<Longrightarrow> map f xs = map g ys"
  by (induction rule: list_all2_induct) auto

lemma make_checker_fields:
  assumes "make_checker voc ext tree sc view = Inr ck"
  shows "ck_voc ck = voc" "ck_view ck = view" "vocabulary_kind voc (sc_kind sc) = Inr (ck_kind ck)"
    "ck_locals ck = map lo_key (sc_locals sc)" "sc_kind (ck_scope ck) = sc_kind sc"
    "sc_dependencies (ck_scope ck) = sc_dependencies sc" "sc_context (ck_scope ck) = sc_context sc"
    "sc_demo (ck_scope ck) = sc_demo sc"
proof -
  obtain sc' k ports where sc': "resolve_scope voc ext tree sc view = Inr sc'"
    and k: "vocabulary_kind voc (sc_kind sc') = Inr k"
    and ports: "map_result (\<lambda>l. and_then (local_arg_port ext l) (\<lambda>p. Inr (lo_key l, p))) (sc_locals sc') = Inr ports"
    and ck: "ck = \<lparr>ck_voc = voc, ck_scope = sc', ck_view = view, ck_kind = k, ck_ports = ports\<rparr>"
    using assms by (auto simp: make_checker_def and_then_Inr)
  obtain locs where keys: "list_all2 (\<lambda>l l'. lo_key l' = lo_key l \<and> kind_given l') (sc_locals sc) locs"
    and locs: "sc' = sc\<lparr>sc_locals := locs\<rparr>"
    using resolve_scope_locals [OF sc'] .
  have "map lo_key locs = map fst ports"
    by (rule list_all2_map_eq [where P = "\<lambda>l q. and_then (local_arg_port ext l) (\<lambda>p. Inr (lo_key l, p)) = Inr q"])
      (use ports locs in \<open>auto simp: map_result_Inr and_then_Inr\<close>)
  moreover have "map lo_key (sc_locals sc) = map lo_key locs"
    by (rule list_all2_map_eq [OF keys]) simp
  ultimately show "ck_voc ck = voc" "ck_view ck = view" "vocabulary_kind voc (sc_kind sc) = Inr (ck_kind ck)"
    "ck_locals ck = map lo_key (sc_locals sc)" "sc_kind (ck_scope ck) = sc_kind sc"
    "sc_dependencies (ck_scope ck) = sc_dependencies sc" "sc_context (ck_scope ck) = sc_context sc"
    "sc_demo (ck_scope ck) = sc_demo sc"
    using k locs by (simp_all add: ck ck_locals_def)
qed

end
