(* ===== verification/Vocabulary_Data.thy ===== *)
theory Vocabulary_Data
  imports Vocabulary
begin

text \<open>
  \<open>rekuest_core/vocabulary/vocabulary.json\<close> as a JSON value, one definition per top-level entry,
  and the vocabulary \<open>load_vocabulary\<close> reads it as. Text that is only shown to people is left out:
  descriptions, notes, the message and hint templates of the diagnostics, and the documentation
  under \<open>async\<close>, \<open>calls\<close>, \<open>stored_tree\<close> and \<open>locals\<close>. \<open>load_vocabulary_parses\<close> checks the record against
  the JSON through \<open>parse_vocabulary\<close>.
\<close>

section \<open>The file\<close>

definition json_vocab :: "json" where
  "json_vocab =
     JInt 2"

definition json_roots :: "json" where
  "json_roots =
     JObj [(''data'', JObj [(''self'', JStr ''''), (''deps'', JStr ''''), (''queries'', JStr ''''),
     (''subscriptions'', JStr ''''), (''args'', JStr ''''), (''task'', JStr ''''), (''event'',
     JStr ''''), (''viewer'', JStr ''''), (''then'', JStr '''')]), (''scoped'', JObj [(''event'',
     JStr ''''), (''error'', JStr '''')]), (''functions'', JList [JStr ''cmp'', JStr ''logic'',
     JStr ''math'', JStr ''str'', JStr ''list'', JStr ''obj'', JStr ''val'', JStr ''fmt'',
     JStr ''time'', JStr ''ui'', JStr ''query'']), (''future'', JList [JStr ''mutations''])]"

definition json_reserved :: "json" where
  "json_reserved =
     JList [JStr ''self'', JStr ''deps'', JStr ''queries'', JStr ''subscriptions'', JStr ''args'',
     JStr ''task'', JStr ''event'', JStr ''viewer'', JStr ''then'', JStr ''error'', JStr ''cmp'',
     JStr ''logic'', JStr ''math'', JStr ''str'', JStr ''list'', JStr ''obj'', JStr ''val'',
     JStr ''fmt'', JStr ''time'', JStr ''ui'', JStr ''query'', JStr ''mutations'']"

definition json_agent_segments :: "json" where
  "json_agent_segments =
     JObj [(''tasks'', JStr ''tasks''), (''assets'', JStr ''assets''), (''fields'', JObj [(''id'',
     JStr ''''), (''name'', JStr '''')]), (''reserved_state_names'', JList [JStr ''tasks'',
     JStr ''assets'', JStr ''id'', JStr ''name''])]"

definition json_kinds :: "json" where
  "json_kinds =
     JObj [(''agent'', JObj [(''roots'', JList [JStr ''self'', JStr ''args'', JStr ''queries'',
     JStr ''subscriptions'', JStr ''viewer'', JStr ''then'']), (''locals'', JBool True),
     (''contexts'', JList [JStr ''HTML'', JStr ''SCENE'', JStr ''LOGO''])]), (''custom'',
     JObj [(''roots'', JList [JStr ''deps'', JStr ''args'', JStr ''queries'',
     JStr ''subscriptions'', JStr ''viewer'', JStr ''then'']), (''locals'', JBool True),
     (''contexts'', JList [JStr ''HTML'', JStr ''SCENE''])]), (''task'', JObj [(''roots'',
     JList [JStr ''self'', JStr ''deps'', JStr ''args'', JStr ''task'', JStr ''queries'',
     JStr ''subscriptions'', JStr ''viewer'', JStr ''then'']), (''locals'', JBool True),
     (''contexts'', JList [JStr ''HTML''])]), (''action'', JObj [(''roots'', JList [JStr ''self'',
     JStr ''deps'', JStr ''args'', JStr ''task'', JStr ''queries'', JStr ''subscriptions'',
     JStr ''viewer'', JStr ''then'']), (''locals'', JBool True), (''contexts'',
     JList [JStr ''HTML'', JStr ''SCENE'', JStr ''OVERLAY''])]), (''action_logo'',
     JObj [(''roots'', JList [JStr ''task'']), (''locals'', JBool False), (''contexts'',
     JList [JStr ''LOGO''])])]"

definition json_contexts :: "json" where
  "json_contexts =
     JObj [(''HTML'', JObj [(''text'', JBool True)]), (''SCENE'', JObj [(''text'', JBool False)]),
     (''OVERLAY'', JObj [(''text'', JBool False)]), (''LOGO'', JObj [(''text'', JBool False)])]"

definition json_blok_roots :: "json" where
  "json_blok_roots =
     JObj [(''roots'', JObj [(''Html'', JStr ''HTML''), (''Scene'', JStr ''SCENE''), (''Overlay'',
     JStr ''OVERLAY''), (''AgentLogo'', JStr ''LOGO''), (''ActionLogo'', JStr ''ACTION_LOGO'')])]"

definition json_records :: "json" where
  "json_records =
     JObj [(''task'', JObj [(''fields'', JList [JObj [(''key'', JStr ''id''), (''kind'',
     JStr ''STRING''), (''nullable'', JBool True)], JObj [(''key'', JStr ''status''), (''kind'',
     JStr ''STRING''), (''choices'', JList [JStr ''idle'', JStr ''queued'', JStr ''running'',
     JStr ''asking'', JStr ''done'', JStr ''failed'', JStr ''cancelled''])], JObj [(''key'',
     JStr ''running''), (''kind'', JStr ''BOOL'')], JObj [(''key'', JStr ''done''), (''kind'',
     JStr ''BOOL'')], JObj [(''key'', JStr ''failed''), (''kind'', JStr ''BOOL'')], JObj [(''key'',
     JStr ''progress''), (''kind'', JStr ''INT'')], JObj [(''key'', JStr ''message''), (''kind'',
     JStr ''STRING''), (''nullable'', JBool True)], JObj [(''key'', JStr ''error''), (''kind'',
     JStr ''STRING''), (''nullable'', JBool True)], JObj [(''key'', JStr ''args''), (''kind'',
     JStr ''DICT'')], JObj [(''key'', JStr ''ask''), (''kind'', JStr ''DICT''), (''nullable'',
     JBool True), (''children'', JList [JObj [(''key'', JStr ''question''), (''kind'',
     JStr ''STRING'')], JObj [(''key'', JStr ''form''), (''kind'', JStr ''DICT'')]])],
     JObj [(''key'', JStr ''answer''), (''kind'', JStr ''DICT''), (''nullable'', JBool True)],
     JObj [(''key'', JStr ''returns''), (''kind'', JStr ''DICT'')]]), (''idle'', JObj [(''id'',
     JNull), (''status'', JStr ''idle''), (''running'', JBool False), (''done'', JBool False),
     (''failed'', JBool False), (''progress'', JInt 0), (''message'', JNull), (''error'', JNull),
     (''args'', JObj []), (''ask'', JNull), (''answer'', JNull), (''returns'', JObj [])])]),
     (''query'', JObj [(''fields'', JList [JObj [(''key'', JStr ''status''), (''kind'',
     JStr ''STRING''), (''choices'', JList [JStr ''pending'', JStr ''ready'', JStr ''stale'',
     JStr ''failed''])], JObj [(''key'', JStr ''value''), (''kind'', JStr ''DICT''), (''nullable'',
     JBool True)], JObj [(''key'', JStr ''error''), (''kind'', JStr ''STRING''), (''nullable'',
     JBool True)], JObj [(''key'', JStr ''refetching''), (''kind'', JStr ''BOOL'')],
     JObj [(''key'', JStr ''fetching_more''), (''kind'', JStr ''BOOL'')]])]), (''subscription'',
     JObj [(''fields'', JList [JObj [(''key'', JStr ''status''), (''kind'', JStr ''STRING''),
     (''choices'', JList [JStr ''pending'', JStr ''ready'', JStr ''stale'', JStr ''failed''])],
     JObj [(''key'', JStr ''value''), (''kind'', JStr ''ANY''), (''nullable'', JBool True)],
     JObj [(''key'', JStr ''error''), (''kind'', JStr ''STRING''), (''nullable'', JBool True)]])]),
     (''viewer'', JObj [(''fields'', JList [JObj [(''key'', JStr ''user''), (''kind'',
     JStr ''DICT''), (''children'', JList [JObj [(''key'', JStr ''id''), (''kind'',
     JStr ''STRING'')], JObj [(''key'', JStr ''username''), (''kind'', JStr ''STRING''),
     (''nullable'', JBool True)]])], JObj [(''key'', JStr ''org''), (''kind'', JStr ''DICT''),
     (''nullable'', JBool True), (''children'', JList [JObj [(''key'', JStr ''id''), (''kind'',
     JStr ''STRING'')]])], JObj [(''key'', JStr ''roles''), (''kind'', JStr ''LIST''),
     (''children'', JList [JObj [(''key'', JStr ''...''), (''kind'', JStr ''STRING'')]])]])]),
     (''error'', JObj [(''fields'', JList [JObj [(''key'', JStr ''message''), (''kind'',
     JStr ''STRING'')], JObj [(''key'', JStr ''code''), (''kind'', JStr ''STRING''), (''nullable'',
     JBool True)]])])]"

definition json_functions :: "json" where
  "json_functions =
     JObj [(''cmp.eq'', JObj [(''params'', JList [JList [JStr ''a'', JStr ''ANY''],
     JList [JStr ''b'', JStr ''ANY'']]), (''returns'', JStr ''BOOL'')]), (''cmp.ne'',
     JObj [(''params'', JList [JList [JStr ''a'', JStr ''ANY''], JList [JStr ''b'',
     JStr ''ANY'']]), (''returns'', JStr ''BOOL'')]), (''cmp.gt'', JObj [(''params'',
     JList [JList [JStr ''a'', JStr ''ANY''], JList [JStr ''b'', JStr ''ANY'']]), (''returns'',
     JStr ''BOOL'')]), (''cmp.gte'', JObj [(''params'', JList [JList [JStr ''a'', JStr ''ANY''],
     JList [JStr ''b'', JStr ''ANY'']]), (''returns'', JStr ''BOOL'')]), (''cmp.lt'',
     JObj [(''params'', JList [JList [JStr ''a'', JStr ''ANY''], JList [JStr ''b'',
     JStr ''ANY'']]), (''returns'', JStr ''BOOL'')]), (''cmp.lte'', JObj [(''params'',
     JList [JList [JStr ''a'', JStr ''ANY''], JList [JStr ''b'', JStr ''ANY'']]), (''returns'',
     JStr ''BOOL'')]), (''cmp.between'', JObj [(''params'', JList [JList [JStr ''value'',
     JStr ''ANY''], JList [JStr ''min'', JStr ''ANY''], JList [JStr ''max'', JStr ''ANY'']]),
     (''returns'', JStr ''BOOL'')]), (''logic.all'', JObj [(''params'',
     JList [JList [JStr ''values'', JStr ''LIST'']]), (''returns'', JStr ''ANY''), (''lazy'',
     JBool True)]), (''logic.any'', JObj [(''params'', JList [JList [JStr ''values'',
     JStr ''LIST'']]), (''returns'', JStr ''ANY''), (''lazy'', JBool True)]), (''logic.negate'',
     JObj [(''params'', JList [JList [JStr ''a'', JStr ''ANY'']]), (''returns'', JStr ''BOOL'')]),
     (''logic.choose'', JObj [(''params'', JList [JList [JStr ''cond'', JStr ''ANY''],
     JList [JStr ''then'', JStr ''ANY''], JList [JStr ''otherwise'', JStr ''ANY'', JBool False]]),
     (''returns'', JStr ''ANY''), (''lazy'', JBool True)]), (''logic.coalesce'', JObj [(''params'',
     JList [JList [JStr ''values'', JStr ''LIST'']]), (''returns'', JStr ''ANY''), (''lazy'',
     JBool True)]), (''math.add'', JObj [(''params'', JList [JList [JStr ''a'', JStr ''FLOAT''],
     JList [JStr ''b'', JStr ''FLOAT'']]), (''returns'', JStr ''FLOAT'')]), (''math.sub'',
     JObj [(''params'', JList [JList [JStr ''a'', JStr ''FLOAT''], JList [JStr ''b'',
     JStr ''FLOAT'']]), (''returns'', JStr ''FLOAT'')]), (''math.mul'', JObj [(''params'',
     JList [JList [JStr ''a'', JStr ''FLOAT''], JList [JStr ''b'', JStr ''FLOAT'']]), (''returns'',
     JStr ''FLOAT'')]), (''math.div'', JObj [(''params'', JList [JList [JStr ''a'',
     JStr ''FLOAT''], JList [JStr ''b'', JStr ''FLOAT'']]), (''returns'', JStr ''FLOAT'')]),
     (''math.mod'', JObj [(''params'', JList [JList [JStr ''a'', JStr ''FLOAT''],
     JList [JStr ''b'', JStr ''FLOAT'']]), (''returns'', JStr ''FLOAT'')]), (''math.pow'',
     JObj [(''params'', JList [JList [JStr ''a'', JStr ''FLOAT''], JList [JStr ''b'',
     JStr ''FLOAT'']]), (''returns'', JStr ''FLOAT'')]), (''math.neg'', JObj [(''params'',
     JList [JList [JStr ''a'', JStr ''FLOAT'']]), (''returns'', JStr ''FLOAT'')]), (''math.abs'',
     JObj [(''params'', JList [JList [JStr ''value'', JStr ''FLOAT'']]), (''returns'',
     JStr ''FLOAT'')]), (''math.round'', JObj [(''params'', JList [JList [JStr ''value'',
     JStr ''FLOAT''], JList [JStr ''digits'', JStr ''INT'', JBool False]]), (''returns'',
     JStr ''FLOAT'')]), (''math.floor'', JObj [(''params'', JList [JList [JStr ''value'',
     JStr ''FLOAT'']]), (''returns'', JStr ''FLOAT'')]), (''math.ceil'', JObj [(''params'',
     JList [JList [JStr ''value'', JStr ''FLOAT'']]), (''returns'', JStr ''FLOAT'')]),
     (''math.clamp'', JObj [(''params'', JList [JList [JStr ''value'', JStr ''FLOAT''],
     JList [JStr ''min'', JStr ''FLOAT''], JList [JStr ''max'', JStr ''FLOAT'']]), (''returns'',
     JStr ''FLOAT'')]), (''math.min'', JObj [(''params'', JList [JList [JStr ''values'',
     JStr ''LIST'']]), (''returns'', JStr ''FLOAT'')]), (''math.max'', JObj [(''params'',
     JList [JList [JStr ''values'', JStr ''LIST'']]), (''returns'', JStr ''FLOAT'')]),
     (''math.sum'', JObj [(''params'', JList [JList [JStr ''values'', JStr ''LIST'']]),
     (''returns'', JStr ''FLOAT'')]), (''math.sqrt'', JObj [(''params'',
     JList [JList [JStr ''value'', JStr ''FLOAT'']]), (''returns'', JStr ''FLOAT'')]),
     (''math.cbrt'', JObj [(''params'', JList [JList [JStr ''value'', JStr ''FLOAT'']]),
     (''returns'', JStr ''FLOAT'')]), (''math.exp'', JObj [(''params'',
     JList [JList [JStr ''value'', JStr ''FLOAT'']]), (''returns'', JStr ''FLOAT'')]),
     (''math.log'', JObj [(''params'', JList [JList [JStr ''value'', JStr ''FLOAT''],
     JList [JStr ''base'', JStr ''FLOAT'', JBool False]]), (''returns'', JStr ''FLOAT'')]),
     (''math.log2'', JObj [(''params'', JList [JList [JStr ''value'', JStr ''FLOAT'']]),
     (''returns'', JStr ''FLOAT'')]), (''math.log10'', JObj [(''params'',
     JList [JList [JStr ''value'', JStr ''FLOAT'']]), (''returns'', JStr ''FLOAT'')]),
     (''math.sin'', JObj [(''params'', JList [JList [JStr ''value'', JStr ''FLOAT'']]),
     (''returns'', JStr ''FLOAT'')]), (''math.cos'', JObj [(''params'',
     JList [JList [JStr ''value'', JStr ''FLOAT'']]), (''returns'', JStr ''FLOAT'')]),
     (''math.tan'', JObj [(''params'', JList [JList [JStr ''value'', JStr ''FLOAT'']]),
     (''returns'', JStr ''FLOAT'')]), (''math.asin'', JObj [(''params'',
     JList [JList [JStr ''value'', JStr ''FLOAT'']]), (''returns'', JStr ''FLOAT'')]),
     (''math.acos'', JObj [(''params'', JList [JList [JStr ''value'', JStr ''FLOAT'']]),
     (''returns'', JStr ''FLOAT'')]), (''math.atan'', JObj [(''params'',
     JList [JList [JStr ''value'', JStr ''FLOAT'']]), (''returns'', JStr ''FLOAT'')]),
     (''math.atan2'', JObj [(''params'', JList [JList [JStr ''y'', JStr ''FLOAT''],
     JList [JStr ''x'', JStr ''FLOAT'']]), (''returns'', JStr ''FLOAT'')]), (''math.sinh'',
     JObj [(''params'', JList [JList [JStr ''value'', JStr ''FLOAT'']]), (''returns'',
     JStr ''FLOAT'')]), (''math.cosh'', JObj [(''params'', JList [JList [JStr ''value'',
     JStr ''FLOAT'']]), (''returns'', JStr ''FLOAT'')]), (''math.tanh'', JObj [(''params'',
     JList [JList [JStr ''value'', JStr ''FLOAT'']]), (''returns'', JStr ''FLOAT'')]),
     (''math.asinh'', JObj [(''params'', JList [JList [JStr ''value'', JStr ''FLOAT'']]),
     (''returns'', JStr ''FLOAT'')]), (''math.acosh'', JObj [(''params'',
     JList [JList [JStr ''value'', JStr ''FLOAT'']]), (''returns'', JStr ''FLOAT'')]),
     (''math.atanh'', JObj [(''params'', JList [JList [JStr ''value'', JStr ''FLOAT'']]),
     (''returns'', JStr ''FLOAT'')]), (''math.degrees'', JObj [(''params'',
     JList [JList [JStr ''value'', JStr ''FLOAT'']]), (''returns'', JStr ''FLOAT'')]),
     (''math.radians'', JObj [(''params'', JList [JList [JStr ''value'', JStr ''FLOAT'']]),
     (''returns'', JStr ''FLOAT'')]), (''math.sign'', JObj [(''params'',
     JList [JList [JStr ''value'', JStr ''FLOAT'']]), (''returns'', JStr ''FLOAT'')]),
     (''math.trunc'', JObj [(''params'', JList [JList [JStr ''value'', JStr ''FLOAT'']]),
     (''returns'', JStr ''FLOAT'')]), (''math.hypot'', JObj [(''params'',
     JList [JList [JStr ''values'', JStr ''LIST'']]), (''returns'', JStr ''FLOAT'')]),
     (''math.pi'', JObj [(''params'', JList []), (''returns'', JStr ''FLOAT'')]), (''math.e'',
     JObj [(''params'', JList []), (''returns'', JStr ''FLOAT'')]), (''str.upper'',
     JObj [(''params'', JList [JList [JStr ''value'', JStr ''STRING'']]), (''returns'',
     JStr ''STRING'')]), (''str.lower'', JObj [(''params'', JList [JList [JStr ''value'',
     JStr ''STRING'']]), (''returns'', JStr ''STRING'')]), (''str.trim'', JObj [(''params'',
     JList [JList [JStr ''value'', JStr ''STRING'']]), (''returns'', JStr ''STRING'')]),
     (''str.capitalize'', JObj [(''params'', JList [JList [JStr ''value'', JStr ''STRING'']]),
     (''returns'', JStr ''STRING'')]), (''str.slice'', JObj [(''params'',
     JList [JList [JStr ''value'', JStr ''STRING''], JList [JStr ''start'', JStr ''INT''],
     JList [JStr ''end'', JStr ''INT'', JBool False]]), (''returns'', JStr ''STRING'')]),
     (''str.truncate'', JObj [(''params'', JList [JList [JStr ''value'', JStr ''STRING''],
     JList [JStr ''length'', JStr ''INT''], JList [JStr ''suffix'', JStr ''STRING'',
     JBool False]]), (''returns'', JStr ''STRING'')]), (''str.replace'', JObj [(''params'',
     JList [JList [JStr ''value'', JStr ''STRING''], JList [JStr ''search'', JStr ''STRING''],
     JList [JStr ''replacement'', JStr ''STRING'']]), (''returns'', JStr ''STRING'')]),
     (''str.split'', JObj [(''params'', JList [JList [JStr ''value'', JStr ''STRING''],
     JList [JStr ''separator'', JStr ''STRING'', JBool False]]), (''returns'', JStr ''LIST'')]),
     (''str.concat'', JObj [(''params'', JList [JList [JStr ''values'', JStr ''LIST'']]),
     (''returns'', JStr ''STRING'')]), (''str.template'', JObj [(''params'',
     JList [JList [JStr ''template'', JStr ''STRING''], JList [JStr ''values'', JStr ''LIST'']]),
     (''returns'', JStr ''STRING'')]), (''str.classes'', JObj [(''params'',
     JList [JList [JStr ''values'', JStr ''ANY'']]), (''returns'', JStr ''STRING'')]),
     (''str.starts_with'', JObj [(''params'', JList [JList [JStr ''value'', JStr ''STRING''],
     JList [JStr ''prefix'', JStr ''STRING'']]), (''returns'', JStr ''BOOL'')]),
     (''str.ends_with'', JObj [(''params'', JList [JList [JStr ''value'', JStr ''STRING''],
     JList [JStr ''suffix'', JStr ''STRING'']]), (''returns'', JStr ''BOOL'')]), (''str.contains'',
     JObj [(''params'', JList [JList [JStr ''value'', JStr ''STRING''], JList [JStr ''search'',
     JStr ''STRING'']]), (''returns'', JStr ''BOOL'')]), (''str.matches'', JObj [(''params'',
     JList [JList [JStr ''value'', JStr ''STRING''], JList [JStr ''pattern'', JStr ''STRING'']]),
     (''returns'', JStr ''BOOL'')]), (''str.length'', JObj [(''params'',
     JList [JList [JStr ''value'', JStr ''STRING'']]), (''returns'', JStr ''INT'')]),
     (''list.len'', JObj [(''params'', JList [JList [JStr ''value'', JStr ''LIST'']]),
     (''returns'', JStr ''INT'')]), (''list.contains'', JObj [(''params'',
     JList [JList [JStr ''value'', JStr ''LIST''], JList [JStr ''item'', JStr ''ANY'']]),
     (''returns'', JStr ''BOOL'')]), (''list.first'', JObj [(''params'',
     JList [JList [JStr ''value'', JStr ''LIST'']]), (''returns'', JStr ''ANY'')]), (''list.last'',
     JObj [(''params'', JList [JList [JStr ''value'', JStr ''LIST'']]), (''returns'',
     JStr ''ANY'')]), (''list.at'', JObj [(''params'', JList [JList [JStr ''value'',
     JStr ''LIST''], JList [JStr ''index'', JStr ''INT'']]), (''returns'', JStr ''ANY'')]),
     (''list.join'', JObj [(''params'', JList [JList [JStr ''value'', JStr ''LIST''],
     JList [JStr ''separator'', JStr ''STRING'', JBool False]]), (''returns'', JStr ''STRING'')]),
     (''list.slice'', JObj [(''params'', JList [JList [JStr ''value'', JStr ''LIST''],
     JList [JStr ''start'', JStr ''INT''], JList [JStr ''end'', JStr ''INT'', JBool False]]),
     (''returns'', JStr ''LIST'')]), (''list.reverse'', JObj [(''params'',
     JList [JList [JStr ''value'', JStr ''LIST'']]), (''returns'', JStr ''LIST'')]),
     (''list.unique'', JObj [(''params'', JList [JList [JStr ''value'', JStr ''LIST'']]),
     (''returns'', JStr ''LIST'')]), (''list.compact'', JObj [(''params'',
     JList [JList [JStr ''value'', JStr ''LIST'']]), (''returns'', JStr ''LIST'')]),
     (''list.pluck'', JObj [(''params'', JList [JList [JStr ''value'', JStr ''LIST''],
     JList [JStr ''key'', JStr ''STRING'']]), (''returns'', JStr ''LIST'')]), (''list.sort'',
     JObj [(''params'', JList [JList [JStr ''value'', JStr ''LIST''], JList [JStr ''key'',
     JStr ''STRING'', JBool False], JList [JStr ''descending'', JStr ''BOOL'', JBool False]]),
     (''returns'', JStr ''LIST'')]), (''list.range'', JObj [(''params'',
     JList [JList [JStr ''start'', JStr ''INT''], JList [JStr ''end'', JStr ''INT''],
     JList [JStr ''step'', JStr ''INT'', JBool False]]), (''returns'', JStr ''LIST'')]),
     (''obj.get'', JObj [(''params'', JList [JList [JStr ''value'', JStr ''DICT''],
     JList [JStr ''key'', JStr ''STRING''], JList [JStr ''default'', JStr ''ANY'', JBool False]]),
     (''returns'', JStr ''ANY'')]), (''obj.has'', JObj [(''params'', JList [JList [JStr ''value'',
     JStr ''DICT''], JList [JStr ''key'', JStr ''STRING'']]), (''returns'', JStr ''BOOL'')]),
     (''obj.keys'', JObj [(''params'', JList [JList [JStr ''value'', JStr ''DICT'']]),
     (''returns'', JStr ''LIST'')]), (''obj.values'', JObj [(''params'',
     JList [JList [JStr ''value'', JStr ''DICT'']]), (''returns'', JStr ''LIST'')]),
     (''obj.entries'', JObj [(''params'', JList [JList [JStr ''value'', JStr ''DICT'']]),
     (''returns'', JStr ''LIST'')]), (''val.is_null'', JObj [(''params'',
     JList [JList [JStr ''value'', JStr ''ANY'']]), (''returns'', JStr ''BOOL'')]),
     (''val.is_set'', JObj [(''params'', JList [JList [JStr ''value'', JStr ''ANY'']]),
     (''returns'', JStr ''BOOL'')]), (''val.is_empty'', JObj [(''params'',
     JList [JList [JStr ''value'', JStr ''ANY'']]), (''returns'', JStr ''BOOL'')]), (''val.type'',
     JObj [(''params'', JList [JList [JStr ''value'', JStr ''ANY'']]), (''returns'',
     JStr ''STRING'')]), (''val.to_string'', JObj [(''params'', JList [JList [JStr ''value'',
     JStr ''ANY'']]), (''returns'', JStr ''STRING'')]), (''val.to_number'', JObj [(''params'',
     JList [JList [JStr ''value'', JStr ''ANY'']]), (''returns'', JStr ''FLOAT'')]),
     (''val.to_bool'', JObj [(''params'', JList [JList [JStr ''value'', JStr ''ANY'']]),
     (''returns'', JStr ''BOOL'')]), (''val.status'', JObj [(''params'',
     JList [JList [JStr ''value'', JStr ''ANY'']]), (''returns'', JStr ''STRING''),
     (''sees_status'', JBool True)]), (''val.is_pending'', JObj [(''params'',
     JList [JList [JStr ''value'', JStr ''ANY'']]), (''returns'', JStr ''BOOL''), (''sees_status'',
     JBool True)]), (''val.is_ready'', JObj [(''params'', JList [JList [JStr ''value'',
     JStr ''ANY'']]), (''returns'', JStr ''BOOL''), (''sees_status'', JBool True)]),
     (''fmt.number'', JObj [(''params'', JList [JList [JStr ''value'', JStr ''FLOAT''],
     JList [JStr ''digits'', JStr ''INT'', JBool False]]), (''returns'', JStr ''STRING'')]),
     (''fmt.percent'', JObj [(''params'', JList [JList [JStr ''value'', JStr ''FLOAT''],
     JList [JStr ''digits'', JStr ''INT'', JBool False]]), (''returns'', JStr ''STRING'')]),
     (''fmt.currency'', JObj [(''params'', JList [JList [JStr ''value'', JStr ''FLOAT''],
     JList [JStr ''currency'', JStr ''STRING'']]), (''returns'', JStr ''STRING'')]),
     (''fmt.bytes'', JObj [(''params'', JList [JList [JStr ''value'', JStr ''FLOAT''],
     JList [JStr ''digits'', JStr ''INT'', JBool False]]), (''returns'', JStr ''STRING'')]),
     (''fmt.date'', JObj [(''params'', JList [JList [JStr ''value'', JStr ''STRING''],
     JList [JStr ''format'', JStr ''STRING'', JBool False]]), (''returns'', JStr ''STRING'')]),
     (''fmt.datetime'', JObj [(''params'', JList [JList [JStr ''value'', JStr ''STRING''],
     JList [JStr ''format'', JStr ''STRING'', JBool False]]), (''returns'', JStr ''STRING'')]),
     (''fmt.json'', JObj [(''params'', JList [JList [JStr ''value'', JStr ''ANY''],
     JList [JStr ''indent'', JStr ''INT'', JBool False]]), (''returns'', JStr ''STRING'')]),
     (''fmt.quantity'', JObj [(''params'', JList [JList [JStr ''value'', JStr ''ANY''],
     JList [JStr ''unit'', JStr ''STRING'', JBool False]]), (''returns'', JStr ''STRING'')]),
     (''fmt.duration'', JObj [(''params'', JList [JList [JStr ''seconds'', JStr ''FLOAT'']]),
     (''returns'', JStr ''STRING'')]), (''time.diff'', JObj [(''params'',
     JList [JList [JStr ''start'', JStr ''STRING''], JList [JStr ''end'', JStr ''STRING'']]),
     (''returns'', JStr ''FLOAT'')]), (''ui.copy'', JObj [(''params'', JList [JList [JStr ''text'',
     JStr ''ANY'']]), (''returns'', JStr ''ANY''), (''effect'', JBool True)]), (''task.answer'',
     JObj [(''params'', JList [JList [JStr ''values'', JStr ''DICT'']]), (''returns'',
     JStr ''ANY''), (''effect'', JBool True), (''task_operation'', JBool True)]),
     (''query.refetch'', JObj [(''params'', JList [JList [JStr ''query'', JStr ''STRING'']]),
     (''returns'', JStr ''ANY''), (''effect'', JBool True)]), (''query.fetch_more'',
     JObj [(''params'', JList [JList [JStr ''query'', JStr ''STRING''], JList [JStr ''variables'',
     JStr ''DICT'', JBool False]]), (''returns'', JStr ''ANY''), (''effect'', JBool True)])]"

definition json_operators :: "json" where
  "json_operators =
     JObj [(''=='', JStr ''cmp.eq''), (''!='', JStr ''cmp.ne''), (''>'', JStr ''cmp.gt''), (''>='',
     JStr ''cmp.gte''), (''<'', JStr ''cmp.lt''), (''<='', JStr ''cmp.lte''), (''&&'',
     JStr ''logic.all''), (''||'', JStr ''logic.any''), (''!'', JStr ''logic.negate''), (''?:'',
     JStr ''logic.choose''), (''??'', JStr ''logic.coalesce''), (''precedence'',
     JList [JStr ''?:'', JStr ''??'', JStr ''||'', JStr ''&&'', JStr ''== !='', JStr ''> >= < <='',
     JStr ''!''])]"

definition json_stored_tree :: "json" where
  "json_stored_tree =
     JObj [(''explicit_id'', JStr ''^[A-Za-z_][A-Za-z0-9_.:-]*$'')]"

definition json_locals :: "json" where
  "json_locals =
     JObj [(''bind_kinds'', JObj [(''STRING'', JList [JStr ''STRING'', JStr ''ENUM'',
     JStr ''DATE'']), (''FLOAT'', JList [JStr ''FLOAT'', JStr ''INT'', JStr ''QUANTITY'']),
     (''INT'', JList [JStr ''INT'']), (''BOOL'', JList [JStr ''BOOL'']), (''LIST'',
     JList [JStr ''LIST'']), (''DICT'', JList [JStr ''DICT'', JStr ''MODEL''])]), (''arg_kinds'',
     JObj [(''STRING'', JList [JStr ''STRING'']), (''INT'', JList [JStr ''INT'', JStr ''FLOAT'']),
     (''FLOAT'', JList [JStr ''FLOAT'']), (''BOOL'', JList [JStr ''BOOL'']), (''ENUM'',
     JList [JStr ''ENUM'', JStr ''STRING'']), (''DATE'', JList [JStr ''DATE'', JStr ''STRING'']),
     (''QUANTITY'', JList [JStr ''QUANTITY'', JStr ''FLOAT'']), (''LIST'', JList [JStr ''LIST'']),
     (''DICT'', JList [JStr ''DICT'']), (''MODEL'', JList [JStr ''MODEL'', JStr ''DICT'']),
     (''STRUCTURE'', JList [JStr ''STRUCTURE''])])]"

definition json_theme :: "json" where
  "json_theme =
     JObj [(''colour_roles'', JList [JStr ''background'', JStr ''foreground'', JStr ''card'',
     JStr ''card-foreground'', JStr ''popover'', JStr ''popover-foreground'', JStr ''primary'',
     JStr ''primary-foreground'', JStr ''secondary'', JStr ''secondary-foreground'',
     JStr ''muted'', JStr ''muted-foreground'', JStr ''accent'', JStr ''accent-foreground'',
     JStr ''destructive'', JStr ''border'', JStr ''input'', JStr ''ring'', JStr ''brand'',
     JStr ''brand-light'', JStr ''brand-soft'', JStr ''chart-1'', JStr ''chart-2'',
     JStr ''chart-3'', JStr ''chart-4'', JStr ''chart-5'', JStr ''success'',
     JStr ''success-foreground'', JStr ''success-soft'', JStr ''warning'',
     JStr ''warning-foreground'', JStr ''warning-soft'', JStr ''info'', JStr ''info-foreground'',
     JStr ''info-soft'', JStr ''spectrum-violet'', JStr ''spectrum-violet-soft'',
     JStr ''spectrum-blue'', JStr ''spectrum-blue-soft'', JStr ''spectrum-cyan'',
     JStr ''spectrum-cyan-soft'', JStr ''spectrum-green'', JStr ''spectrum-green-soft'',
     JStr ''spectrum-yellow'', JStr ''spectrum-yellow-soft'', JStr ''spectrum-orange'',
     JStr ''spectrum-orange-soft'', JStr ''spectrum-red'', JStr ''spectrum-red-soft'']),
     (''status_roles'', JList [JStr ''success'', JStr ''warning'', JStr ''info'']),
     (''spectral_roles'', JList [JStr ''spectrum-violet'', JStr ''spectrum-blue'',
     JStr ''spectrum-cyan'', JStr ''spectrum-green'', JStr ''spectrum-yellow'',
     JStr ''spectrum-orange'', JStr ''spectrum-red'']), (''colour_utilities'', JList [JStr ''bg'',
     JStr ''text'', JStr ''border'', JStr ''border-t'', JStr ''border-r'', JStr ''border-b'',
     JStr ''border-l'', JStr ''border-x'', JStr ''border-y'', JStr ''ring'', JStr ''ring-offset'',
     JStr ''outline'', JStr ''fill'', JStr ''stroke'', JStr ''from'', JStr ''via'', JStr ''to'',
     JStr ''divide'', JStr ''placeholder'', JStr ''caret'', JStr ''accent'', JStr ''decoration'',
     JStr ''shadow'']), (''palette_colours'', JList [JStr ''slate'', JStr ''gray'', JStr ''zinc'',
     JStr ''neutral'', JStr ''stone'', JStr ''red'', JStr ''orange'', JStr ''amber'',
     JStr ''yellow'', JStr ''lime'', JStr ''green'', JStr ''emerald'', JStr ''teal'',
     JStr ''cyan'', JStr ''sky'', JStr ''blue'', JStr ''indigo'', JStr ''violet'', JStr ''purple'',
     JStr ''fuchsia'', JStr ''pink'', JStr ''rose'', JStr ''black'', JStr ''white'']),
     (''palette_role_hints'', JObj [(''red'', JStr ''destructive''), (''rose'',
     JStr ''destructive''), (''orange'', JStr ''warning''), (''amber'', JStr ''warning''),
     (''yellow'', JStr ''warning''), (''lime'', JStr ''success''), (''green'', JStr ''success''),
     (''emerald'', JStr ''success''), (''teal'', JStr ''success''), (''cyan'', JStr ''info''),
     (''sky'', JStr ''info''), (''blue'', JStr ''info''), (''indigo'', JStr ''primary''),
     (''violet'', JStr ''brand''), (''purple'', JStr ''brand''), (''fuchsia'', JStr ''brand''),
     (''pink'', JStr ''brand''), (''slate'', JStr ''muted''), (''gray'', JStr ''muted''),
     (''zinc'', JStr ''muted''), (''neutral'', JStr ''muted''), (''stone'', JStr ''muted''),
     (''black'', JStr ''foreground''), (''white'', JStr ''background'')]), (''logo_pens'',
     JList [JStr ''ink'', JStr ''muted'', JStr ''brand'', JStr ''brand-strong'',
     JStr ''brand-soft'', JStr ''surface'', JStr ''none'', JStr ''success'', JStr ''warning'',
     JStr ''info'', JStr ''spectrum-violet'', JStr ''spectrum-blue'', JStr ''spectrum-cyan'',
     JStr ''spectrum-green'', JStr ''spectrum-yellow'', JStr ''spectrum-orange'',
     JStr ''spectrum-red'']), (''logo_paint_props'', JList [JStr ''fill'', JStr ''stroke'',
     JStr ''stopColor'']), (''scene_paint_props'', JList [JStr ''color'']), (''custom_variants'',
     JList [JStr ''dark'', JStr ''data-open'', JStr ''data-closed'', JStr ''data-checked'',
     JStr ''data-unchecked'', JStr ''data-selected'', JStr ''data-active'', JStr ''data-inactive'',
     JStr ''data-disabled'', JStr ''data-horizontal'', JStr ''data-vertical'', JStr ''data-busy'',
     JStr ''data-stale'']), (''data_attributes'', JObj [(''busy'', JStr ''''), (''stale'',
     JStr '''')])]"

definition json_limits :: "json" where
  "json_limits =
     JObj [(''logo_max_nodes'', JInt 200), (''logo_max_depth'', JInt 12), (''logo_max_path_data'',
     JInt 16384), (''logo_max_foreach_items'', JInt 64), (''logo_path_data_props'',
     JList [JStr ''d'', JStr ''points''])]"

definition json_catalogs :: "json" where
  "json_catalogs =
     JObj [(''base'', JInt 2), (''standard'', JObj [(''ui'', JInt 1), (''scene'', JInt 1),
     (''logo'', JInt 1), (''structure'', JInt 1), (''html'', JInt 1)])]"

definition json_diagnostics :: "json" where
  "json_diagnostics =
     JObj [(''bsx.syntax'', JObj [(''level'', JStr ''error''), (''message'', JStr '''')]),
     (''bsx.empty'', JObj [(''level'', JStr ''error''), (''message'', JStr '''')]),
     (''bsx.multiple_roots'', JObj [(''level'', JStr ''error''), (''message'', JStr '''')]),
     (''bsx.unclosed'', JObj [(''level'', JStr ''error''), (''message'', JStr '''')]),
     (''bsx.mismatched_tag'', JObj [(''level'', JStr ''error''), (''message'', JStr '''')]),
     (''bsx.duplicate_attribute'', JObj [(''level'', JStr ''error''), (''message'', JStr '''')]),
     (''bsx.id'', JObj [(''level'', JStr ''error''), (''message'', JStr '''')]),
     (''bsx.duplicate_id'', JObj [(''level'', JStr ''error''), (''message'', JStr '''')]),
     (''bsx.text_not_accepted'', JObj [(''level'', JStr ''error''), (''message'', JStr '''')]),
     (''bsx.text_unknown_component'', JObj [(''level'', JStr ''error''), (''message'',
     JStr '''')]), (''bsx.text_in_context'', JObj [(''level'', JStr ''error''), (''message'',
     JStr '''')]), (''bsx.text_and_prop'', JObj [(''level'', JStr ''error''), (''message'',
     JStr '''')]), (''bsx.text_callback'', JObj [(''level'', JStr ''error''), (''message'',
     JStr '''')]), (''bsx.else_outside_if'', JObj [(''level'', JStr ''error''), (''message'',
     JStr '''')]), (''bsx.else_order'', JObj [(''level'', JStr ''error''), (''message'',
     JStr '''')]), (''bsx.foreach'', JObj [(''level'', JStr ''error''), (''message'', JStr '''')]),
     (''bsx.let'', JObj [(''level'', JStr ''error''), (''message'', JStr '''')]), (''expr.syntax'',
     JObj [(''level'', JStr ''error''), (''message'', JStr '''')]), (''expr.arithmetic'',
     JObj [(''level'', JStr ''error''), (''message'', JStr '''')]), (''expr.subscript'',
     JObj [(''level'', JStr ''error''), (''message'', JStr '''')]), (''expr.chained_comparison'',
     JObj [(''level'', JStr ''error''), (''message'', JStr '''')]), (''expr.lambda'',
     JObj [(''level'', JStr ''error''), (''message'', JStr '''')]), (''expr.dynamic_container'',
     JObj [(''level'', JStr ''error''), (''message'', JStr '''')]), (''expr.unknown_callee'',
     JObj [(''level'', JStr ''error''), (''message'', JStr '''')]), (''expr.unknown_function'',
     JObj [(''level'', JStr ''warning''), (''message'', JStr '''')]), (''expr.arguments'',
     JObj [(''level'', JStr ''error''), (''message'', JStr '''')]), (''expr.duplicate_key'',
     JObj [(''level'', JStr ''error''), (''message'', JStr '''')]), (''callback.sequence'',
     JObj [(''level'', JStr ''error''), (''message'', JStr '''')]), (''callback.assignment'',
     JObj [(''level'', JStr ''error''), (''message'', JStr '''')]), (''callback.await'',
     JObj [(''level'', JStr ''error''), (''message'', JStr '''')]), (''callback.nested'',
     JObj [(''level'', JStr ''error''), (''message'', JStr '''')]), (''callback.positional'',
     JObj [(''level'', JStr ''error''), (''message'', JStr '''')]), (''callback.into'',
     JObj [(''level'', JStr ''error''), (''message'', JStr '''')]), (''callback.not_callback'',
     JObj [(''level'', JStr ''error''), (''message'', JStr '''')]), (''callback.unbound'',
     JObj [(''level'', JStr ''error''), (''message'', JStr '''')]), (''callback.event_field'',
     JObj [(''level'', JStr ''error''), (''message'', JStr '''')]), (''roots.unknown'',
     JObj [(''level'', JStr ''error''), (''message'', JStr '''')]), (''roots.not_in_kind'',
     JObj [(''level'', JStr ''error''), (''message'', JStr '''')]), (''roots.reserved'',
     JObj [(''level'', JStr ''error''), (''message'', JStr '''')]), (''roots.shadow'',
     JObj [(''level'', JStr ''error''), (''message'', JStr '''')]),
     (''roots.event_outside_callback'', JObj [(''level'', JStr ''error''), (''message'',
     JStr '''')]), (''roots.error_outside_boundary'', JObj [(''level'', JStr ''error''),
     (''message'', JStr '''')]), (''roots.whole'', JObj [(''level'', JStr ''error''), (''message'',
     JStr '''')]), (''deps.unknown'', JObj [(''level'', JStr ''error''), (''message'',
     JStr '''')]), (''deps.unknown_state'', JObj [(''level'', JStr ''error''), (''message'',
     JStr '''')]), (''deps.unknown_action'', JObj [(''level'', JStr ''error''), (''message'',
     JStr '''')]), (''path.unknown'', JObj [(''level'', JStr ''error''), (''message'',
     JStr '''')]), (''deps.reserved_state'', JObj [(''level'', JStr ''error''), (''message'',
     JStr '''')]), (''deps.asset'', JObj [(''level'', JStr ''error''), (''message'', JStr '''')]),
     (''args.unknown'', JObj [(''level'', JStr ''error''), (''message'', JStr '''')]),
     (''into.twice'', JObj [(''level'', JStr ''error''), (''message'', JStr '''')]),
     (''local.unknown'', JObj [(''level'', JStr ''error''), (''message'', JStr '''')]),
     (''local.bind'', JObj [(''level'', JStr ''error''), (''message'', JStr '''')]),
     (''local.default'', JObj [(''level'', JStr ''error''), (''message'', JStr '''')]),
     (''local.kind'', JObj [(''level'', JStr ''error''), (''message'', JStr '''')]),
     (''local.like'', JObj [(''level'', JStr ''error''), (''message'', JStr '''')]),
     (''local.bind_kind'', JObj [(''level'', JStr ''error''), (''message'', JStr '''')]),
     (''local.arg_kind'', JObj [(''level'', JStr ''error''), (''message'', JStr '''')]),
     (''local.unused_persist'', JObj [(''level'', JStr ''warning''), (''message'', JStr '''')]),
     (''query.unknown'', JObj [(''level'', JStr ''error''), (''message'', JStr '''')]),
     (''query.read_only'', JObj [(''level'', JStr ''error''), (''message'', JStr '''')]),
     (''query.schema'', JObj [(''level'', JStr ''warning''), (''message'', JStr '''')]),
     (''query.variable'', JObj [(''level'', JStr ''error''), (''message'', JStr '''')]),
     (''query.history'', JObj [(''level'', JStr ''error''), (''message'', JStr '''')]),
     (''query.kind'', JObj [(''level'', JStr ''error''), (''message'', JStr '''')]),
     (''query.more'', JObj [(''level'', JStr ''error''), (''message'', JStr '''')]),
     (''query.fetch_more'', JObj [(''level'', JStr ''error''), (''message'', JStr '''')]),
     (''query.effect_target'', JObj [(''level'', JStr ''error''), (''message'', JStr '''')]),
     (''subscription.unknown'', JObj [(''level'', JStr ''error''), (''message'', JStr '''')]),
     (''subscription.refetch'', JObj [(''level'', JStr ''error''), (''message'', JStr '''')]),
     (''toast.task'', JObj [(''level'', JStr ''error''), (''message'', JStr '''')]),
     (''palette.raw_colour'', JObj [(''level'', JStr ''warning''), (''message'', JStr '''')]),
     (''palette.logo_paint'', JObj [(''level'', JStr ''error''), (''message'', JStr '''')]),
     (''palette.scene_colour'', JObj [(''level'', JStr ''warning''), (''message'', JStr '''')]),
     (''props.literal_type'', JObj [(''level'', JStr ''error''), (''message'', JStr '''')]),
     (''foreach.position_key'', JObj [(''level'', JStr ''warning''), (''message'', JStr '''')]),
     (''returns.unnamed'', JObj [(''level'', JStr ''warning''), (''message'', JStr '''')]),
     (''context.root'', JObj [(''level'', JStr ''error''), (''message'', JStr '''')]),
     (''context.root_unknown'', JObj [(''level'', JStr ''error''), (''message'', JStr '''')]),
     (''context.kind'', JObj [(''level'', JStr ''error''), (''message'', JStr '''')]),
     (''logo.complexity'', JObj [(''level'', JStr ''error''), (''message'', JStr '''')]),
     (''catalog.unknown_component'', JObj [(''level'', JStr ''warning''), (''message'',
     JStr '''')]), (''catalog.undeclared'', JObj [(''level'', JStr ''warning''), (''message'',
     JStr '''')]), (''catalog.children'', JObj [(''level'', JStr ''warning''), (''message'',
     JStr '''')]), (''catalog.props'', JObj [(''level'', JStr ''warning''), (''message'',
     JStr '''')]), (''catalog.placement'', JObj [(''level'', JStr ''warning''), (''message'',
     JStr '''')]), (''catalog.value'', JObj [(''level'', JStr ''warning''), (''message'',
     JStr '''')]), (''catalog.asset'', JObj [(''level'', JStr ''warning''), (''message'',
     JStr '''')]), (''catalog.shadow'', JObj [(''level'', JStr ''warning''), (''message'',
     JStr '''')]), (''module.unknown'', JObj [(''level'', JStr ''warning''), (''message'',
     JStr '''')]), (''deps.unbound'', JObj [(''level'', JStr ''error''), (''runtime'', JBool True),
     (''message'', JStr '''')]), (''manifest.sent'', JObj [(''level'', JStr ''error''),
     (''message'', JStr '''')]), (''manifest.catalog'', JObj [(''level'', JStr ''error''),
     (''message'', JStr '''')]), (''manifest.duplicate'', JObj [(''level'', JStr ''error''),
     (''message'', JStr '''')]), (''manifest.name'', JObj [(''level'', JStr ''error''),
     (''message'', JStr '''')]), (''manifest.action_logo'', JObj [(''level'', JStr ''error''),
     (''message'', JStr '''')]), (''manifest.demo'', JObj [(''level'', JStr ''error''),
     (''message'', JStr '''')])]"

definition vocabulary_json :: "json" where
  "vocabulary_json =
     JObj [(''vocab'', json_vocab), (''roots'', json_roots), (''reserved'', json_reserved),
     (''agent_segments'', json_agent_segments), (''kinds'', json_kinds), (''contexts'',
     json_contexts), (''blok_roots'', json_blok_roots), (''records'', json_records),
     (''functions'', json_functions), (''operators'', json_operators), (''stored_tree'',
     json_stored_tree), (''locals'', json_locals), (''theme'', json_theme), (''limits'',
     json_limits), (''catalogs'', json_catalogs), (''diagnostics'', json_diagnostics)]"

section \<open>The vocabulary it is\<close>

definition shipped_kinds :: "(string \<times> kind) list" where
  "shipped_kinds =
     [(''agent'', \<lparr>k_name = ''agent'', k_roots = [''self'', ''args'', ''queries'',
     ''subscriptions'', ''viewer'', ''then''], k_locals = True, k_contexts = [''HTML'', ''SCENE'',
     ''LOGO''], k_description = ''''\<rparr>), (''custom'', \<lparr>k_name = ''custom'',
     k_roots = [''deps'', ''args'', ''queries'', ''subscriptions'', ''viewer'', ''then''],
     k_locals = True, k_contexts = [''HTML'', ''SCENE''], k_description = ''''\<rparr>), (''task'',
     \<lparr>k_name = ''task'', k_roots = [''self'', ''deps'', ''args'', ''task'', ''queries'',
     ''subscriptions'', ''viewer'', ''then''], k_locals = True, k_contexts = [''HTML''],
     k_description = ''''\<rparr>), (''action'', \<lparr>k_name = ''action'', k_roots = [''self'',
     ''deps'', ''args'', ''task'', ''queries'', ''subscriptions'', ''viewer'', ''then''],
     k_locals = True, k_contexts = [''HTML'', ''SCENE'', ''OVERLAY''],
     k_description = ''''\<rparr>), (''action_logo'', \<lparr>k_name = ''action_logo'',
     k_roots = [''task''], k_locals = False, k_contexts = [''LOGO''], k_description = ''''\<rparr>)]"

definition shipped_records :: "(string \<times> blok_record) list" where
  "shipped_records =
     [(''task'', \<lparr>r_name = ''task'', r_fields = [RecordField ''id'' ''STRING'' True [] [],
     RecordField ''status'' ''STRING'' False [''idle'', ''queued'', ''running'', ''asking'',
     ''done'', ''failed'', ''cancelled''] [], RecordField ''running'' ''BOOL'' False [] [],
     RecordField ''done'' ''BOOL'' False [] [], RecordField ''failed'' ''BOOL'' False [] [],
     RecordField ''progress'' ''INT'' False [] [], RecordField ''message'' ''STRING'' True [] [],
     RecordField ''error'' ''STRING'' True [] [], RecordField ''args'' ''DICT'' False [] [],
     RecordField ''ask'' ''DICT'' True [] [RecordField ''question'' ''STRING'' False [] [],
     RecordField ''form'' ''DICT'' False [] []], RecordField ''answer'' ''DICT'' True [] [],
     RecordField ''returns'' ''DICT'' False [] []]\<rparr>), (''query'',
     \<lparr>r_name = ''query'', r_fields = [RecordField ''status'' ''STRING'' False [''pending'',
     ''ready'', ''stale'', ''failed''] [], RecordField ''value'' ''DICT'' True [] [],
     RecordField ''error'' ''STRING'' True [] [], RecordField ''refetching'' ''BOOL'' False [] [],
     RecordField ''fetching_more'' ''BOOL'' False [] []]\<rparr>), (''subscription'',
     \<lparr>r_name = ''subscription'',
     r_fields = [RecordField ''status'' ''STRING'' False [''pending'', ''ready'', ''stale'',
     ''failed''] [], RecordField ''value'' ''ANY'' True [] [],
     RecordField ''error'' ''STRING'' True [] []]\<rparr>), (''viewer'',
     \<lparr>r_name = ''viewer'',
     r_fields = [RecordField ''user'' ''DICT'' False [] [RecordField ''id'' ''STRING'' False [] [],
     RecordField ''username'' ''STRING'' True [] []],
     RecordField ''org'' ''DICT'' True [] [RecordField ''id'' ''STRING'' False [] []],
     RecordField ''roles'' ''LIST'' False [] [RecordField ''...'' ''STRING'' False [] []]]\<rparr>),
     (''error'', \<lparr>r_name = ''error'',
     r_fields = [RecordField ''message'' ''STRING'' False [] [],
     RecordField ''code'' ''STRING'' True [] []]\<rparr>)]"

definition shipped_functions :: "(string \<times> blok_function) list" where
  "shipped_functions =
     [(''cmp.eq'', \<lparr>fn_name = ''cmp.eq'', fn_params = [\<lparr>p_key = ''a'',
     p_kind = ''ANY'', p_required = True\<rparr>, \<lparr>p_key = ''b'', p_kind = ''ANY'',
     p_required = True\<rparr>], fn_returns = ''BOOL'', fn_description = '''', fn_null = '''',
     fn_lazy = False, fn_effect = False, fn_sees_status = False,
     fn_task_operation = False\<rparr>), (''cmp.ne'', \<lparr>fn_name = ''cmp.ne'',
     fn_params = [\<lparr>p_key = ''a'', p_kind = ''ANY'', p_required = True\<rparr>,
     \<lparr>p_key = ''b'', p_kind = ''ANY'', p_required = True\<rparr>], fn_returns = ''BOOL'',
     fn_description = '''', fn_null = '''', fn_lazy = False, fn_effect = False,
     fn_sees_status = False, fn_task_operation = False\<rparr>), (''cmp.gt'',
     \<lparr>fn_name = ''cmp.gt'', fn_params = [\<lparr>p_key = ''a'', p_kind = ''ANY'',
     p_required = True\<rparr>, \<lparr>p_key = ''b'', p_kind = ''ANY'',
     p_required = True\<rparr>], fn_returns = ''BOOL'', fn_description = '''', fn_null = '''',
     fn_lazy = False, fn_effect = False, fn_sees_status = False,
     fn_task_operation = False\<rparr>), (''cmp.gte'', \<lparr>fn_name = ''cmp.gte'',
     fn_params = [\<lparr>p_key = ''a'', p_kind = ''ANY'', p_required = True\<rparr>,
     \<lparr>p_key = ''b'', p_kind = ''ANY'', p_required = True\<rparr>], fn_returns = ''BOOL'',
     fn_description = '''', fn_null = '''', fn_lazy = False, fn_effect = False,
     fn_sees_status = False, fn_task_operation = False\<rparr>), (''cmp.lt'',
     \<lparr>fn_name = ''cmp.lt'', fn_params = [\<lparr>p_key = ''a'', p_kind = ''ANY'',
     p_required = True\<rparr>, \<lparr>p_key = ''b'', p_kind = ''ANY'',
     p_required = True\<rparr>], fn_returns = ''BOOL'', fn_description = '''', fn_null = '''',
     fn_lazy = False, fn_effect = False, fn_sees_status = False,
     fn_task_operation = False\<rparr>), (''cmp.lte'', \<lparr>fn_name = ''cmp.lte'',
     fn_params = [\<lparr>p_key = ''a'', p_kind = ''ANY'', p_required = True\<rparr>,
     \<lparr>p_key = ''b'', p_kind = ''ANY'', p_required = True\<rparr>], fn_returns = ''BOOL'',
     fn_description = '''', fn_null = '''', fn_lazy = False, fn_effect = False,
     fn_sees_status = False, fn_task_operation = False\<rparr>), (''cmp.between'',
     \<lparr>fn_name = ''cmp.between'', fn_params = [\<lparr>p_key = ''value'', p_kind = ''ANY'',
     p_required = True\<rparr>, \<lparr>p_key = ''min'', p_kind = ''ANY'',
     p_required = True\<rparr>, \<lparr>p_key = ''max'', p_kind = ''ANY'',
     p_required = True\<rparr>], fn_returns = ''BOOL'', fn_description = '''', fn_null = '''',
     fn_lazy = False, fn_effect = False, fn_sees_status = False,
     fn_task_operation = False\<rparr>), (''logic.all'', \<lparr>fn_name = ''logic.all'',
     fn_params = [\<lparr>p_key = ''values'', p_kind = ''LIST'', p_required = True\<rparr>],
     fn_returns = ''ANY'', fn_description = '''', fn_null = '''', fn_lazy = True,
     fn_effect = False, fn_sees_status = False, fn_task_operation = False\<rparr>), (''logic.any'',
     \<lparr>fn_name = ''logic.any'', fn_params = [\<lparr>p_key = ''values'', p_kind = ''LIST'',
     p_required = True\<rparr>], fn_returns = ''ANY'', fn_description = '''', fn_null = '''',
     fn_lazy = True, fn_effect = False, fn_sees_status = False, fn_task_operation = False\<rparr>),
     (''logic.negate'', \<lparr>fn_name = ''logic.negate'', fn_params = [\<lparr>p_key = ''a'',
     p_kind = ''ANY'', p_required = True\<rparr>], fn_returns = ''BOOL'', fn_description = '''',
     fn_null = '''', fn_lazy = False, fn_effect = False, fn_sees_status = False,
     fn_task_operation = False\<rparr>), (''logic.choose'', \<lparr>fn_name = ''logic.choose'',
     fn_params = [\<lparr>p_key = ''cond'', p_kind = ''ANY'', p_required = True\<rparr>,
     \<lparr>p_key = ''then'', p_kind = ''ANY'', p_required = True\<rparr>,
     \<lparr>p_key = ''otherwise'', p_kind = ''ANY'', p_required = False\<rparr>],
     fn_returns = ''ANY'', fn_description = '''', fn_null = '''', fn_lazy = True,
     fn_effect = False, fn_sees_status = False, fn_task_operation = False\<rparr>),
     (''logic.coalesce'', \<lparr>fn_name = ''logic.coalesce'',
     fn_params = [\<lparr>p_key = ''values'', p_kind = ''LIST'', p_required = True\<rparr>],
     fn_returns = ''ANY'', fn_description = '''', fn_null = '''', fn_lazy = True,
     fn_effect = False, fn_sees_status = False, fn_task_operation = False\<rparr>), (''math.add'',
     \<lparr>fn_name = ''math.add'', fn_params = [\<lparr>p_key = ''a'', p_kind = ''FLOAT'',
     p_required = True\<rparr>, \<lparr>p_key = ''b'', p_kind = ''FLOAT'',
     p_required = True\<rparr>], fn_returns = ''FLOAT'', fn_description = '''', fn_null = '''',
     fn_lazy = False, fn_effect = False, fn_sees_status = False,
     fn_task_operation = False\<rparr>), (''math.sub'', \<lparr>fn_name = ''math.sub'',
     fn_params = [\<lparr>p_key = ''a'', p_kind = ''FLOAT'', p_required = True\<rparr>,
     \<lparr>p_key = ''b'', p_kind = ''FLOAT'', p_required = True\<rparr>], fn_returns = ''FLOAT'',
     fn_description = '''', fn_null = '''', fn_lazy = False, fn_effect = False,
     fn_sees_status = False, fn_task_operation = False\<rparr>), (''math.mul'',
     \<lparr>fn_name = ''math.mul'', fn_params = [\<lparr>p_key = ''a'', p_kind = ''FLOAT'',
     p_required = True\<rparr>, \<lparr>p_key = ''b'', p_kind = ''FLOAT'',
     p_required = True\<rparr>], fn_returns = ''FLOAT'', fn_description = '''', fn_null = '''',
     fn_lazy = False, fn_effect = False, fn_sees_status = False,
     fn_task_operation = False\<rparr>), (''math.div'', \<lparr>fn_name = ''math.div'',
     fn_params = [\<lparr>p_key = ''a'', p_kind = ''FLOAT'', p_required = True\<rparr>,
     \<lparr>p_key = ''b'', p_kind = ''FLOAT'', p_required = True\<rparr>], fn_returns = ''FLOAT'',
     fn_description = '''', fn_null = '''', fn_lazy = False, fn_effect = False,
     fn_sees_status = False, fn_task_operation = False\<rparr>), (''math.mod'',
     \<lparr>fn_name = ''math.mod'', fn_params = [\<lparr>p_key = ''a'', p_kind = ''FLOAT'',
     p_required = True\<rparr>, \<lparr>p_key = ''b'', p_kind = ''FLOAT'',
     p_required = True\<rparr>], fn_returns = ''FLOAT'', fn_description = '''', fn_null = '''',
     fn_lazy = False, fn_effect = False, fn_sees_status = False,
     fn_task_operation = False\<rparr>), (''math.pow'', \<lparr>fn_name = ''math.pow'',
     fn_params = [\<lparr>p_key = ''a'', p_kind = ''FLOAT'', p_required = True\<rparr>,
     \<lparr>p_key = ''b'', p_kind = ''FLOAT'', p_required = True\<rparr>], fn_returns = ''FLOAT'',
     fn_description = '''', fn_null = '''', fn_lazy = False, fn_effect = False,
     fn_sees_status = False, fn_task_operation = False\<rparr>), (''math.neg'',
     \<lparr>fn_name = ''math.neg'', fn_params = [\<lparr>p_key = ''a'', p_kind = ''FLOAT'',
     p_required = True\<rparr>], fn_returns = ''FLOAT'', fn_description = '''', fn_null = '''',
     fn_lazy = False, fn_effect = False, fn_sees_status = False,
     fn_task_operation = False\<rparr>), (''math.abs'', \<lparr>fn_name = ''math.abs'',
     fn_params = [\<lparr>p_key = ''value'', p_kind = ''FLOAT'', p_required = True\<rparr>],
     fn_returns = ''FLOAT'', fn_description = '''', fn_null = '''', fn_lazy = False,
     fn_effect = False, fn_sees_status = False, fn_task_operation = False\<rparr>),
     (''math.round'', \<lparr>fn_name = ''math.round'', fn_params = [\<lparr>p_key = ''value'',
     p_kind = ''FLOAT'', p_required = True\<rparr>, \<lparr>p_key = ''digits'', p_kind = ''INT'',
     p_required = False\<rparr>], fn_returns = ''FLOAT'', fn_description = '''', fn_null = '''',
     fn_lazy = False, fn_effect = False, fn_sees_status = False,
     fn_task_operation = False\<rparr>), (''math.floor'', \<lparr>fn_name = ''math.floor'',
     fn_params = [\<lparr>p_key = ''value'', p_kind = ''FLOAT'', p_required = True\<rparr>],
     fn_returns = ''FLOAT'', fn_description = '''', fn_null = '''', fn_lazy = False,
     fn_effect = False, fn_sees_status = False, fn_task_operation = False\<rparr>), (''math.ceil'',
     \<lparr>fn_name = ''math.ceil'', fn_params = [\<lparr>p_key = ''value'', p_kind = ''FLOAT'',
     p_required = True\<rparr>], fn_returns = ''FLOAT'', fn_description = '''', fn_null = '''',
     fn_lazy = False, fn_effect = False, fn_sees_status = False,
     fn_task_operation = False\<rparr>), (''math.clamp'', \<lparr>fn_name = ''math.clamp'',
     fn_params = [\<lparr>p_key = ''value'', p_kind = ''FLOAT'', p_required = True\<rparr>,
     \<lparr>p_key = ''min'', p_kind = ''FLOAT'', p_required = True\<rparr>,
     \<lparr>p_key = ''max'', p_kind = ''FLOAT'', p_required = True\<rparr>],
     fn_returns = ''FLOAT'', fn_description = '''', fn_null = '''', fn_lazy = False,
     fn_effect = False, fn_sees_status = False, fn_task_operation = False\<rparr>), (''math.min'',
     \<lparr>fn_name = ''math.min'', fn_params = [\<lparr>p_key = ''values'', p_kind = ''LIST'',
     p_required = True\<rparr>], fn_returns = ''FLOAT'', fn_description = '''', fn_null = '''',
     fn_lazy = False, fn_effect = False, fn_sees_status = False,
     fn_task_operation = False\<rparr>), (''math.max'', \<lparr>fn_name = ''math.max'',
     fn_params = [\<lparr>p_key = ''values'', p_kind = ''LIST'', p_required = True\<rparr>],
     fn_returns = ''FLOAT'', fn_description = '''', fn_null = '''', fn_lazy = False,
     fn_effect = False, fn_sees_status = False, fn_task_operation = False\<rparr>), (''math.sum'',
     \<lparr>fn_name = ''math.sum'', fn_params = [\<lparr>p_key = ''values'', p_kind = ''LIST'',
     p_required = True\<rparr>], fn_returns = ''FLOAT'', fn_description = '''', fn_null = '''',
     fn_lazy = False, fn_effect = False, fn_sees_status = False,
     fn_task_operation = False\<rparr>), (''math.sqrt'', \<lparr>fn_name = ''math.sqrt'',
     fn_params = [\<lparr>p_key = ''value'', p_kind = ''FLOAT'', p_required = True\<rparr>],
     fn_returns = ''FLOAT'', fn_description = '''', fn_null = '''', fn_lazy = False,
     fn_effect = False, fn_sees_status = False, fn_task_operation = False\<rparr>), (''math.cbrt'',
     \<lparr>fn_name = ''math.cbrt'', fn_params = [\<lparr>p_key = ''value'', p_kind = ''FLOAT'',
     p_required = True\<rparr>], fn_returns = ''FLOAT'', fn_description = '''', fn_null = '''',
     fn_lazy = False, fn_effect = False, fn_sees_status = False,
     fn_task_operation = False\<rparr>), (''math.exp'', \<lparr>fn_name = ''math.exp'',
     fn_params = [\<lparr>p_key = ''value'', p_kind = ''FLOAT'', p_required = True\<rparr>],
     fn_returns = ''FLOAT'', fn_description = '''', fn_null = '''', fn_lazy = False,
     fn_effect = False, fn_sees_status = False, fn_task_operation = False\<rparr>), (''math.log'',
     \<lparr>fn_name = ''math.log'', fn_params = [\<lparr>p_key = ''value'', p_kind = ''FLOAT'',
     p_required = True\<rparr>, \<lparr>p_key = ''base'', p_kind = ''FLOAT'',
     p_required = False\<rparr>], fn_returns = ''FLOAT'', fn_description = '''', fn_null = '''',
     fn_lazy = False, fn_effect = False, fn_sees_status = False,
     fn_task_operation = False\<rparr>), (''math.log2'', \<lparr>fn_name = ''math.log2'',
     fn_params = [\<lparr>p_key = ''value'', p_kind = ''FLOAT'', p_required = True\<rparr>],
     fn_returns = ''FLOAT'', fn_description = '''', fn_null = '''', fn_lazy = False,
     fn_effect = False, fn_sees_status = False, fn_task_operation = False\<rparr>),
     (''math.log10'', \<lparr>fn_name = ''math.log10'', fn_params = [\<lparr>p_key = ''value'',
     p_kind = ''FLOAT'', p_required = True\<rparr>], fn_returns = ''FLOAT'', fn_description = '''',
     fn_null = '''', fn_lazy = False, fn_effect = False, fn_sees_status = False,
     fn_task_operation = False\<rparr>), (''math.sin'', \<lparr>fn_name = ''math.sin'',
     fn_params = [\<lparr>p_key = ''value'', p_kind = ''FLOAT'', p_required = True\<rparr>],
     fn_returns = ''FLOAT'', fn_description = '''', fn_null = '''', fn_lazy = False,
     fn_effect = False, fn_sees_status = False, fn_task_operation = False\<rparr>), (''math.cos'',
     \<lparr>fn_name = ''math.cos'', fn_params = [\<lparr>p_key = ''value'', p_kind = ''FLOAT'',
     p_required = True\<rparr>], fn_returns = ''FLOAT'', fn_description = '''', fn_null = '''',
     fn_lazy = False, fn_effect = False, fn_sees_status = False,
     fn_task_operation = False\<rparr>), (''math.tan'', \<lparr>fn_name = ''math.tan'',
     fn_params = [\<lparr>p_key = ''value'', p_kind = ''FLOAT'', p_required = True\<rparr>],
     fn_returns = ''FLOAT'', fn_description = '''', fn_null = '''', fn_lazy = False,
     fn_effect = False, fn_sees_status = False, fn_task_operation = False\<rparr>), (''math.asin'',
     \<lparr>fn_name = ''math.asin'', fn_params = [\<lparr>p_key = ''value'', p_kind = ''FLOAT'',
     p_required = True\<rparr>], fn_returns = ''FLOAT'', fn_description = '''', fn_null = '''',
     fn_lazy = False, fn_effect = False, fn_sees_status = False,
     fn_task_operation = False\<rparr>), (''math.acos'', \<lparr>fn_name = ''math.acos'',
     fn_params = [\<lparr>p_key = ''value'', p_kind = ''FLOAT'', p_required = True\<rparr>],
     fn_returns = ''FLOAT'', fn_description = '''', fn_null = '''', fn_lazy = False,
     fn_effect = False, fn_sees_status = False, fn_task_operation = False\<rparr>), (''math.atan'',
     \<lparr>fn_name = ''math.atan'', fn_params = [\<lparr>p_key = ''value'', p_kind = ''FLOAT'',
     p_required = True\<rparr>], fn_returns = ''FLOAT'', fn_description = '''', fn_null = '''',
     fn_lazy = False, fn_effect = False, fn_sees_status = False,
     fn_task_operation = False\<rparr>), (''math.atan2'', \<lparr>fn_name = ''math.atan2'',
     fn_params = [\<lparr>p_key = ''y'', p_kind = ''FLOAT'', p_required = True\<rparr>,
     \<lparr>p_key = ''x'', p_kind = ''FLOAT'', p_required = True\<rparr>], fn_returns = ''FLOAT'',
     fn_description = '''', fn_null = '''', fn_lazy = False, fn_effect = False,
     fn_sees_status = False, fn_task_operation = False\<rparr>), (''math.sinh'',
     \<lparr>fn_name = ''math.sinh'', fn_params = [\<lparr>p_key = ''value'', p_kind = ''FLOAT'',
     p_required = True\<rparr>], fn_returns = ''FLOAT'', fn_description = '''', fn_null = '''',
     fn_lazy = False, fn_effect = False, fn_sees_status = False,
     fn_task_operation = False\<rparr>), (''math.cosh'', \<lparr>fn_name = ''math.cosh'',
     fn_params = [\<lparr>p_key = ''value'', p_kind = ''FLOAT'', p_required = True\<rparr>],
     fn_returns = ''FLOAT'', fn_description = '''', fn_null = '''', fn_lazy = False,
     fn_effect = False, fn_sees_status = False, fn_task_operation = False\<rparr>), (''math.tanh'',
     \<lparr>fn_name = ''math.tanh'', fn_params = [\<lparr>p_key = ''value'', p_kind = ''FLOAT'',
     p_required = True\<rparr>], fn_returns = ''FLOAT'', fn_description = '''', fn_null = '''',
     fn_lazy = False, fn_effect = False, fn_sees_status = False,
     fn_task_operation = False\<rparr>), (''math.asinh'', \<lparr>fn_name = ''math.asinh'',
     fn_params = [\<lparr>p_key = ''value'', p_kind = ''FLOAT'', p_required = True\<rparr>],
     fn_returns = ''FLOAT'', fn_description = '''', fn_null = '''', fn_lazy = False,
     fn_effect = False, fn_sees_status = False, fn_task_operation = False\<rparr>),
     (''math.acosh'', \<lparr>fn_name = ''math.acosh'', fn_params = [\<lparr>p_key = ''value'',
     p_kind = ''FLOAT'', p_required = True\<rparr>], fn_returns = ''FLOAT'', fn_description = '''',
     fn_null = '''', fn_lazy = False, fn_effect = False, fn_sees_status = False,
     fn_task_operation = False\<rparr>), (''math.atanh'', \<lparr>fn_name = ''math.atanh'',
     fn_params = [\<lparr>p_key = ''value'', p_kind = ''FLOAT'', p_required = True\<rparr>],
     fn_returns = ''FLOAT'', fn_description = '''', fn_null = '''', fn_lazy = False,
     fn_effect = False, fn_sees_status = False, fn_task_operation = False\<rparr>),
     (''math.degrees'', \<lparr>fn_name = ''math.degrees'', fn_params = [\<lparr>p_key = ''value'',
     p_kind = ''FLOAT'', p_required = True\<rparr>], fn_returns = ''FLOAT'', fn_description = '''',
     fn_null = '''', fn_lazy = False, fn_effect = False, fn_sees_status = False,
     fn_task_operation = False\<rparr>), (''math.radians'', \<lparr>fn_name = ''math.radians'',
     fn_params = [\<lparr>p_key = ''value'', p_kind = ''FLOAT'', p_required = True\<rparr>],
     fn_returns = ''FLOAT'', fn_description = '''', fn_null = '''', fn_lazy = False,
     fn_effect = False, fn_sees_status = False, fn_task_operation = False\<rparr>), (''math.sign'',
     \<lparr>fn_name = ''math.sign'', fn_params = [\<lparr>p_key = ''value'', p_kind = ''FLOAT'',
     p_required = True\<rparr>], fn_returns = ''FLOAT'', fn_description = '''', fn_null = '''',
     fn_lazy = False, fn_effect = False, fn_sees_status = False,
     fn_task_operation = False\<rparr>), (''math.trunc'', \<lparr>fn_name = ''math.trunc'',
     fn_params = [\<lparr>p_key = ''value'', p_kind = ''FLOAT'', p_required = True\<rparr>],
     fn_returns = ''FLOAT'', fn_description = '''', fn_null = '''', fn_lazy = False,
     fn_effect = False, fn_sees_status = False, fn_task_operation = False\<rparr>),
     (''math.hypot'', \<lparr>fn_name = ''math.hypot'', fn_params = [\<lparr>p_key = ''values'',
     p_kind = ''LIST'', p_required = True\<rparr>], fn_returns = ''FLOAT'', fn_description = '''',
     fn_null = '''', fn_lazy = False, fn_effect = False, fn_sees_status = False,
     fn_task_operation = False\<rparr>), (''math.pi'', \<lparr>fn_name = ''math.pi'',
     fn_params = [], fn_returns = ''FLOAT'', fn_description = '''', fn_null = '''',
     fn_lazy = False, fn_effect = False, fn_sees_status = False,
     fn_task_operation = False\<rparr>), (''math.e'', \<lparr>fn_name = ''math.e'', fn_params = [],
     fn_returns = ''FLOAT'', fn_description = '''', fn_null = '''', fn_lazy = False,
     fn_effect = False, fn_sees_status = False, fn_task_operation = False\<rparr>), (''str.upper'',
     \<lparr>fn_name = ''str.upper'', fn_params = [\<lparr>p_key = ''value'', p_kind = ''STRING'',
     p_required = True\<rparr>], fn_returns = ''STRING'', fn_description = '''', fn_null = '''',
     fn_lazy = False, fn_effect = False, fn_sees_status = False,
     fn_task_operation = False\<rparr>), (''str.lower'', \<lparr>fn_name = ''str.lower'',
     fn_params = [\<lparr>p_key = ''value'', p_kind = ''STRING'', p_required = True\<rparr>],
     fn_returns = ''STRING'', fn_description = '''', fn_null = '''', fn_lazy = False,
     fn_effect = False, fn_sees_status = False, fn_task_operation = False\<rparr>), (''str.trim'',
     \<lparr>fn_name = ''str.trim'', fn_params = [\<lparr>p_key = ''value'', p_kind = ''STRING'',
     p_required = True\<rparr>], fn_returns = ''STRING'', fn_description = '''', fn_null = '''',
     fn_lazy = False, fn_effect = False, fn_sees_status = False,
     fn_task_operation = False\<rparr>), (''str.capitalize'', \<lparr>fn_name = ''str.capitalize'',
     fn_params = [\<lparr>p_key = ''value'', p_kind = ''STRING'', p_required = True\<rparr>],
     fn_returns = ''STRING'', fn_description = '''', fn_null = '''', fn_lazy = False,
     fn_effect = False, fn_sees_status = False, fn_task_operation = False\<rparr>), (''str.slice'',
     \<lparr>fn_name = ''str.slice'', fn_params = [\<lparr>p_key = ''value'', p_kind = ''STRING'',
     p_required = True\<rparr>, \<lparr>p_key = ''start'', p_kind = ''INT'',
     p_required = True\<rparr>, \<lparr>p_key = ''end'', p_kind = ''INT'',
     p_required = False\<rparr>], fn_returns = ''STRING'', fn_description = '''', fn_null = '''',
     fn_lazy = False, fn_effect = False, fn_sees_status = False,
     fn_task_operation = False\<rparr>), (''str.truncate'', \<lparr>fn_name = ''str.truncate'',
     fn_params = [\<lparr>p_key = ''value'', p_kind = ''STRING'', p_required = True\<rparr>,
     \<lparr>p_key = ''length'', p_kind = ''INT'', p_required = True\<rparr>,
     \<lparr>p_key = ''suffix'', p_kind = ''STRING'', p_required = False\<rparr>],
     fn_returns = ''STRING'', fn_description = '''', fn_null = '''', fn_lazy = False,
     fn_effect = False, fn_sees_status = False, fn_task_operation = False\<rparr>),
     (''str.replace'', \<lparr>fn_name = ''str.replace'', fn_params = [\<lparr>p_key = ''value'',
     p_kind = ''STRING'', p_required = True\<rparr>, \<lparr>p_key = ''search'',
     p_kind = ''STRING'', p_required = True\<rparr>, \<lparr>p_key = ''replacement'',
     p_kind = ''STRING'', p_required = True\<rparr>], fn_returns = ''STRING'',
     fn_description = '''', fn_null = '''', fn_lazy = False, fn_effect = False,
     fn_sees_status = False, fn_task_operation = False\<rparr>), (''str.split'',
     \<lparr>fn_name = ''str.split'', fn_params = [\<lparr>p_key = ''value'', p_kind = ''STRING'',
     p_required = True\<rparr>, \<lparr>p_key = ''separator'', p_kind = ''STRING'',
     p_required = False\<rparr>], fn_returns = ''LIST'', fn_description = '''', fn_null = '''',
     fn_lazy = False, fn_effect = False, fn_sees_status = False,
     fn_task_operation = False\<rparr>), (''str.concat'', \<lparr>fn_name = ''str.concat'',
     fn_params = [\<lparr>p_key = ''values'', p_kind = ''LIST'', p_required = True\<rparr>],
     fn_returns = ''STRING'', fn_description = '''', fn_null = '''', fn_lazy = False,
     fn_effect = False, fn_sees_status = False, fn_task_operation = False\<rparr>),
     (''str.template'', \<lparr>fn_name = ''str.template'',
     fn_params = [\<lparr>p_key = ''template'', p_kind = ''STRING'', p_required = True\<rparr>,
     \<lparr>p_key = ''values'', p_kind = ''LIST'', p_required = True\<rparr>],
     fn_returns = ''STRING'', fn_description = '''', fn_null = '''', fn_lazy = False,
     fn_effect = False, fn_sees_status = False, fn_task_operation = False\<rparr>),
     (''str.classes'', \<lparr>fn_name = ''str.classes'', fn_params = [\<lparr>p_key = ''values'',
     p_kind = ''ANY'', p_required = True\<rparr>], fn_returns = ''STRING'', fn_description = '''',
     fn_null = '''', fn_lazy = False, fn_effect = False, fn_sees_status = False,
     fn_task_operation = False\<rparr>), (''str.starts_with'',
     \<lparr>fn_name = ''str.starts_with'', fn_params = [\<lparr>p_key = ''value'',
     p_kind = ''STRING'', p_required = True\<rparr>, \<lparr>p_key = ''prefix'',
     p_kind = ''STRING'', p_required = True\<rparr>], fn_returns = ''BOOL'', fn_description = '''',
     fn_null = '''', fn_lazy = False, fn_effect = False, fn_sees_status = False,
     fn_task_operation = False\<rparr>), (''str.ends_with'', \<lparr>fn_name = ''str.ends_with'',
     fn_params = [\<lparr>p_key = ''value'', p_kind = ''STRING'', p_required = True\<rparr>,
     \<lparr>p_key = ''suffix'', p_kind = ''STRING'', p_required = True\<rparr>],
     fn_returns = ''BOOL'', fn_description = '''', fn_null = '''', fn_lazy = False,
     fn_effect = False, fn_sees_status = False, fn_task_operation = False\<rparr>),
     (''str.contains'', \<lparr>fn_name = ''str.contains'', fn_params = [\<lparr>p_key = ''value'',
     p_kind = ''STRING'', p_required = True\<rparr>, \<lparr>p_key = ''search'',
     p_kind = ''STRING'', p_required = True\<rparr>], fn_returns = ''BOOL'', fn_description = '''',
     fn_null = '''', fn_lazy = False, fn_effect = False, fn_sees_status = False,
     fn_task_operation = False\<rparr>), (''str.matches'', \<lparr>fn_name = ''str.matches'',
     fn_params = [\<lparr>p_key = ''value'', p_kind = ''STRING'', p_required = True\<rparr>,
     \<lparr>p_key = ''pattern'', p_kind = ''STRING'', p_required = True\<rparr>],
     fn_returns = ''BOOL'', fn_description = '''', fn_null = '''', fn_lazy = False,
     fn_effect = False, fn_sees_status = False, fn_task_operation = False\<rparr>),
     (''str.length'', \<lparr>fn_name = ''str.length'', fn_params = [\<lparr>p_key = ''value'',
     p_kind = ''STRING'', p_required = True\<rparr>], fn_returns = ''INT'', fn_description = '''',
     fn_null = '''', fn_lazy = False, fn_effect = False, fn_sees_status = False,
     fn_task_operation = False\<rparr>), (''list.len'', \<lparr>fn_name = ''list.len'',
     fn_params = [\<lparr>p_key = ''value'', p_kind = ''LIST'', p_required = True\<rparr>],
     fn_returns = ''INT'', fn_description = '''', fn_null = '''', fn_lazy = False,
     fn_effect = False, fn_sees_status = False, fn_task_operation = False\<rparr>),
     (''list.contains'', \<lparr>fn_name = ''list.contains'',
     fn_params = [\<lparr>p_key = ''value'', p_kind = ''LIST'', p_required = True\<rparr>,
     \<lparr>p_key = ''item'', p_kind = ''ANY'', p_required = True\<rparr>], fn_returns = ''BOOL'',
     fn_description = '''', fn_null = '''', fn_lazy = False, fn_effect = False,
     fn_sees_status = False, fn_task_operation = False\<rparr>), (''list.first'',
     \<lparr>fn_name = ''list.first'', fn_params = [\<lparr>p_key = ''value'', p_kind = ''LIST'',
     p_required = True\<rparr>], fn_returns = ''ANY'', fn_description = '''', fn_null = '''',
     fn_lazy = False, fn_effect = False, fn_sees_status = False,
     fn_task_operation = False\<rparr>), (''list.last'', \<lparr>fn_name = ''list.last'',
     fn_params = [\<lparr>p_key = ''value'', p_kind = ''LIST'', p_required = True\<rparr>],
     fn_returns = ''ANY'', fn_description = '''', fn_null = '''', fn_lazy = False,
     fn_effect = False, fn_sees_status = False, fn_task_operation = False\<rparr>), (''list.at'',
     \<lparr>fn_name = ''list.at'', fn_params = [\<lparr>p_key = ''value'', p_kind = ''LIST'',
     p_required = True\<rparr>, \<lparr>p_key = ''index'', p_kind = ''INT'',
     p_required = True\<rparr>], fn_returns = ''ANY'', fn_description = '''', fn_null = '''',
     fn_lazy = False, fn_effect = False, fn_sees_status = False,
     fn_task_operation = False\<rparr>), (''list.join'', \<lparr>fn_name = ''list.join'',
     fn_params = [\<lparr>p_key = ''value'', p_kind = ''LIST'', p_required = True\<rparr>,
     \<lparr>p_key = ''separator'', p_kind = ''STRING'', p_required = False\<rparr>],
     fn_returns = ''STRING'', fn_description = '''', fn_null = '''', fn_lazy = False,
     fn_effect = False, fn_sees_status = False, fn_task_operation = False\<rparr>),
     (''list.slice'', \<lparr>fn_name = ''list.slice'', fn_params = [\<lparr>p_key = ''value'',
     p_kind = ''LIST'', p_required = True\<rparr>, \<lparr>p_key = ''start'', p_kind = ''INT'',
     p_required = True\<rparr>, \<lparr>p_key = ''end'', p_kind = ''INT'',
     p_required = False\<rparr>], fn_returns = ''LIST'', fn_description = '''', fn_null = '''',
     fn_lazy = False, fn_effect = False, fn_sees_status = False,
     fn_task_operation = False\<rparr>), (''list.reverse'', \<lparr>fn_name = ''list.reverse'',
     fn_params = [\<lparr>p_key = ''value'', p_kind = ''LIST'', p_required = True\<rparr>],
     fn_returns = ''LIST'', fn_description = '''', fn_null = '''', fn_lazy = False,
     fn_effect = False, fn_sees_status = False, fn_task_operation = False\<rparr>),
     (''list.unique'', \<lparr>fn_name = ''list.unique'', fn_params = [\<lparr>p_key = ''value'',
     p_kind = ''LIST'', p_required = True\<rparr>], fn_returns = ''LIST'', fn_description = '''',
     fn_null = '''', fn_lazy = False, fn_effect = False, fn_sees_status = False,
     fn_task_operation = False\<rparr>), (''list.compact'', \<lparr>fn_name = ''list.compact'',
     fn_params = [\<lparr>p_key = ''value'', p_kind = ''LIST'', p_required = True\<rparr>],
     fn_returns = ''LIST'', fn_description = '''', fn_null = '''', fn_lazy = False,
     fn_effect = False, fn_sees_status = False, fn_task_operation = False\<rparr>),
     (''list.pluck'', \<lparr>fn_name = ''list.pluck'', fn_params = [\<lparr>p_key = ''value'',
     p_kind = ''LIST'', p_required = True\<rparr>, \<lparr>p_key = ''key'', p_kind = ''STRING'',
     p_required = True\<rparr>], fn_returns = ''LIST'', fn_description = '''', fn_null = '''',
     fn_lazy = False, fn_effect = False, fn_sees_status = False,
     fn_task_operation = False\<rparr>), (''list.sort'', \<lparr>fn_name = ''list.sort'',
     fn_params = [\<lparr>p_key = ''value'', p_kind = ''LIST'', p_required = True\<rparr>,
     \<lparr>p_key = ''key'', p_kind = ''STRING'', p_required = False\<rparr>,
     \<lparr>p_key = ''descending'', p_kind = ''BOOL'', p_required = False\<rparr>],
     fn_returns = ''LIST'', fn_description = '''', fn_null = '''', fn_lazy = False,
     fn_effect = False, fn_sees_status = False, fn_task_operation = False\<rparr>),
     (''list.range'', \<lparr>fn_name = ''list.range'', fn_params = [\<lparr>p_key = ''start'',
     p_kind = ''INT'', p_required = True\<rparr>, \<lparr>p_key = ''end'', p_kind = ''INT'',
     p_required = True\<rparr>, \<lparr>p_key = ''step'', p_kind = ''INT'',
     p_required = False\<rparr>], fn_returns = ''LIST'', fn_description = '''', fn_null = '''',
     fn_lazy = False, fn_effect = False, fn_sees_status = False,
     fn_task_operation = False\<rparr>), (''obj.get'', \<lparr>fn_name = ''obj.get'',
     fn_params = [\<lparr>p_key = ''value'', p_kind = ''DICT'', p_required = True\<rparr>,
     \<lparr>p_key = ''key'', p_kind = ''STRING'', p_required = True\<rparr>,
     \<lparr>p_key = ''default'', p_kind = ''ANY'', p_required = False\<rparr>],
     fn_returns = ''ANY'', fn_description = '''', fn_null = '''', fn_lazy = False,
     fn_effect = False, fn_sees_status = False, fn_task_operation = False\<rparr>), (''obj.has'',
     \<lparr>fn_name = ''obj.has'', fn_params = [\<lparr>p_key = ''value'', p_kind = ''DICT'',
     p_required = True\<rparr>, \<lparr>p_key = ''key'', p_kind = ''STRING'',
     p_required = True\<rparr>], fn_returns = ''BOOL'', fn_description = '''', fn_null = '''',
     fn_lazy = False, fn_effect = False, fn_sees_status = False,
     fn_task_operation = False\<rparr>), (''obj.keys'', \<lparr>fn_name = ''obj.keys'',
     fn_params = [\<lparr>p_key = ''value'', p_kind = ''DICT'', p_required = True\<rparr>],
     fn_returns = ''LIST'', fn_description = '''', fn_null = '''', fn_lazy = False,
     fn_effect = False, fn_sees_status = False, fn_task_operation = False\<rparr>),
     (''obj.values'', \<lparr>fn_name = ''obj.values'', fn_params = [\<lparr>p_key = ''value'',
     p_kind = ''DICT'', p_required = True\<rparr>], fn_returns = ''LIST'', fn_description = '''',
     fn_null = '''', fn_lazy = False, fn_effect = False, fn_sees_status = False,
     fn_task_operation = False\<rparr>), (''obj.entries'', \<lparr>fn_name = ''obj.entries'',
     fn_params = [\<lparr>p_key = ''value'', p_kind = ''DICT'', p_required = True\<rparr>],
     fn_returns = ''LIST'', fn_description = '''', fn_null = '''', fn_lazy = False,
     fn_effect = False, fn_sees_status = False, fn_task_operation = False\<rparr>),
     (''val.is_null'', \<lparr>fn_name = ''val.is_null'', fn_params = [\<lparr>p_key = ''value'',
     p_kind = ''ANY'', p_required = True\<rparr>], fn_returns = ''BOOL'', fn_description = '''',
     fn_null = '''', fn_lazy = False, fn_effect = False, fn_sees_status = False,
     fn_task_operation = False\<rparr>), (''val.is_set'', \<lparr>fn_name = ''val.is_set'',
     fn_params = [\<lparr>p_key = ''value'', p_kind = ''ANY'', p_required = True\<rparr>],
     fn_returns = ''BOOL'', fn_description = '''', fn_null = '''', fn_lazy = False,
     fn_effect = False, fn_sees_status = False, fn_task_operation = False\<rparr>),
     (''val.is_empty'', \<lparr>fn_name = ''val.is_empty'', fn_params = [\<lparr>p_key = ''value'',
     p_kind = ''ANY'', p_required = True\<rparr>], fn_returns = ''BOOL'', fn_description = '''',
     fn_null = '''', fn_lazy = False, fn_effect = False, fn_sees_status = False,
     fn_task_operation = False\<rparr>), (''val.type'', \<lparr>fn_name = ''val.type'',
     fn_params = [\<lparr>p_key = ''value'', p_kind = ''ANY'', p_required = True\<rparr>],
     fn_returns = ''STRING'', fn_description = '''', fn_null = '''', fn_lazy = False,
     fn_effect = False, fn_sees_status = False, fn_task_operation = False\<rparr>),
     (''val.to_string'', \<lparr>fn_name = ''val.to_string'',
     fn_params = [\<lparr>p_key = ''value'', p_kind = ''ANY'', p_required = True\<rparr>],
     fn_returns = ''STRING'', fn_description = '''', fn_null = '''', fn_lazy = False,
     fn_effect = False, fn_sees_status = False, fn_task_operation = False\<rparr>),
     (''val.to_number'', \<lparr>fn_name = ''val.to_number'',
     fn_params = [\<lparr>p_key = ''value'', p_kind = ''ANY'', p_required = True\<rparr>],
     fn_returns = ''FLOAT'', fn_description = '''', fn_null = '''', fn_lazy = False,
     fn_effect = False, fn_sees_status = False, fn_task_operation = False\<rparr>),
     (''val.to_bool'', \<lparr>fn_name = ''val.to_bool'', fn_params = [\<lparr>p_key = ''value'',
     p_kind = ''ANY'', p_required = True\<rparr>], fn_returns = ''BOOL'', fn_description = '''',
     fn_null = '''', fn_lazy = False, fn_effect = False, fn_sees_status = False,
     fn_task_operation = False\<rparr>), (''val.status'', \<lparr>fn_name = ''val.status'',
     fn_params = [\<lparr>p_key = ''value'', p_kind = ''ANY'', p_required = True\<rparr>],
     fn_returns = ''STRING'', fn_description = '''', fn_null = '''', fn_lazy = False,
     fn_effect = False, fn_sees_status = True, fn_task_operation = False\<rparr>),
     (''val.is_pending'', \<lparr>fn_name = ''val.is_pending'',
     fn_params = [\<lparr>p_key = ''value'', p_kind = ''ANY'', p_required = True\<rparr>],
     fn_returns = ''BOOL'', fn_description = '''', fn_null = '''', fn_lazy = False,
     fn_effect = False, fn_sees_status = True, fn_task_operation = False\<rparr>),
     (''val.is_ready'', \<lparr>fn_name = ''val.is_ready'', fn_params = [\<lparr>p_key = ''value'',
     p_kind = ''ANY'', p_required = True\<rparr>], fn_returns = ''BOOL'', fn_description = '''',
     fn_null = '''', fn_lazy = False, fn_effect = False, fn_sees_status = True,
     fn_task_operation = False\<rparr>), (''fmt.number'', \<lparr>fn_name = ''fmt.number'',
     fn_params = [\<lparr>p_key = ''value'', p_kind = ''FLOAT'', p_required = True\<rparr>,
     \<lparr>p_key = ''digits'', p_kind = ''INT'', p_required = False\<rparr>],
     fn_returns = ''STRING'', fn_description = '''', fn_null = '''', fn_lazy = False,
     fn_effect = False, fn_sees_status = False, fn_task_operation = False\<rparr>),
     (''fmt.percent'', \<lparr>fn_name = ''fmt.percent'', fn_params = [\<lparr>p_key = ''value'',
     p_kind = ''FLOAT'', p_required = True\<rparr>, \<lparr>p_key = ''digits'', p_kind = ''INT'',
     p_required = False\<rparr>], fn_returns = ''STRING'', fn_description = '''', fn_null = '''',
     fn_lazy = False, fn_effect = False, fn_sees_status = False,
     fn_task_operation = False\<rparr>), (''fmt.currency'', \<lparr>fn_name = ''fmt.currency'',
     fn_params = [\<lparr>p_key = ''value'', p_kind = ''FLOAT'', p_required = True\<rparr>,
     \<lparr>p_key = ''currency'', p_kind = ''STRING'', p_required = True\<rparr>],
     fn_returns = ''STRING'', fn_description = '''', fn_null = '''', fn_lazy = False,
     fn_effect = False, fn_sees_status = False, fn_task_operation = False\<rparr>), (''fmt.bytes'',
     \<lparr>fn_name = ''fmt.bytes'', fn_params = [\<lparr>p_key = ''value'', p_kind = ''FLOAT'',
     p_required = True\<rparr>, \<lparr>p_key = ''digits'', p_kind = ''INT'',
     p_required = False\<rparr>], fn_returns = ''STRING'', fn_description = '''', fn_null = '''',
     fn_lazy = False, fn_effect = False, fn_sees_status = False,
     fn_task_operation = False\<rparr>), (''fmt.date'', \<lparr>fn_name = ''fmt.date'',
     fn_params = [\<lparr>p_key = ''value'', p_kind = ''STRING'', p_required = True\<rparr>,
     \<lparr>p_key = ''format'', p_kind = ''STRING'', p_required = False\<rparr>],
     fn_returns = ''STRING'', fn_description = '''', fn_null = '''', fn_lazy = False,
     fn_effect = False, fn_sees_status = False, fn_task_operation = False\<rparr>),
     (''fmt.datetime'', \<lparr>fn_name = ''fmt.datetime'', fn_params = [\<lparr>p_key = ''value'',
     p_kind = ''STRING'', p_required = True\<rparr>, \<lparr>p_key = ''format'',
     p_kind = ''STRING'', p_required = False\<rparr>], fn_returns = ''STRING'',
     fn_description = '''', fn_null = '''', fn_lazy = False, fn_effect = False,
     fn_sees_status = False, fn_task_operation = False\<rparr>), (''fmt.json'',
     \<lparr>fn_name = ''fmt.json'', fn_params = [\<lparr>p_key = ''value'', p_kind = ''ANY'',
     p_required = True\<rparr>, \<lparr>p_key = ''indent'', p_kind = ''INT'',
     p_required = False\<rparr>], fn_returns = ''STRING'', fn_description = '''', fn_null = '''',
     fn_lazy = False, fn_effect = False, fn_sees_status = False,
     fn_task_operation = False\<rparr>), (''fmt.quantity'', \<lparr>fn_name = ''fmt.quantity'',
     fn_params = [\<lparr>p_key = ''value'', p_kind = ''ANY'', p_required = True\<rparr>,
     \<lparr>p_key = ''unit'', p_kind = ''STRING'', p_required = False\<rparr>],
     fn_returns = ''STRING'', fn_description = '''', fn_null = '''', fn_lazy = False,
     fn_effect = False, fn_sees_status = False, fn_task_operation = False\<rparr>),
     (''fmt.duration'', \<lparr>fn_name = ''fmt.duration'',
     fn_params = [\<lparr>p_key = ''seconds'', p_kind = ''FLOAT'', p_required = True\<rparr>],
     fn_returns = ''STRING'', fn_description = '''', fn_null = '''', fn_lazy = False,
     fn_effect = False, fn_sees_status = False, fn_task_operation = False\<rparr>), (''time.diff'',
     \<lparr>fn_name = ''time.diff'', fn_params = [\<lparr>p_key = ''start'', p_kind = ''STRING'',
     p_required = True\<rparr>, \<lparr>p_key = ''end'', p_kind = ''STRING'',
     p_required = True\<rparr>], fn_returns = ''FLOAT'', fn_description = '''', fn_null = '''',
     fn_lazy = False, fn_effect = False, fn_sees_status = False,
     fn_task_operation = False\<rparr>), (''ui.copy'', \<lparr>fn_name = ''ui.copy'',
     fn_params = [\<lparr>p_key = ''text'', p_kind = ''ANY'', p_required = True\<rparr>],
     fn_returns = ''ANY'', fn_description = '''', fn_null = '''', fn_lazy = False,
     fn_effect = True, fn_sees_status = False, fn_task_operation = False\<rparr>),
     (''task.answer'', \<lparr>fn_name = ''task.answer'', fn_params = [\<lparr>p_key = ''values'',
     p_kind = ''DICT'', p_required = True\<rparr>], fn_returns = ''ANY'', fn_description = '''',
     fn_null = '''', fn_lazy = False, fn_effect = True, fn_sees_status = False,
     fn_task_operation = True\<rparr>), (''query.refetch'', \<lparr>fn_name = ''query.refetch'',
     fn_params = [\<lparr>p_key = ''query'', p_kind = ''STRING'', p_required = True\<rparr>],
     fn_returns = ''ANY'', fn_description = '''', fn_null = '''', fn_lazy = False,
     fn_effect = True, fn_sees_status = False, fn_task_operation = False\<rparr>),
     (''query.fetch_more'', \<lparr>fn_name = ''query.fetch_more'',
     fn_params = [\<lparr>p_key = ''query'', p_kind = ''STRING'', p_required = True\<rparr>,
     \<lparr>p_key = ''variables'', p_kind = ''DICT'', p_required = False\<rparr>],
     fn_returns = ''ANY'', fn_description = '''', fn_null = '''', fn_lazy = False,
     fn_effect = True, fn_sees_status = False, fn_task_operation = False\<rparr>)]"

definition shipped_diagnostics :: "(string \<times> diagnostic_spec) list" where
  "shipped_diagnostics =
     [(''bsx.syntax'', \<lparr>d_code = ''bsx.syntax'', d_level = Error, d_message = '''',
     d_runtime = False, d_hint = None\<rparr>), (''bsx.empty'', \<lparr>d_code = ''bsx.empty'',
     d_level = Error, d_message = '''', d_runtime = False, d_hint = None\<rparr>),
     (''bsx.multiple_roots'', \<lparr>d_code = ''bsx.multiple_roots'', d_level = Error,
     d_message = '''', d_runtime = False, d_hint = None\<rparr>), (''bsx.unclosed'',
     \<lparr>d_code = ''bsx.unclosed'', d_level = Error, d_message = '''', d_runtime = False,
     d_hint = None\<rparr>), (''bsx.mismatched_tag'', \<lparr>d_code = ''bsx.mismatched_tag'',
     d_level = Error, d_message = '''', d_runtime = False, d_hint = None\<rparr>),
     (''bsx.duplicate_attribute'', \<lparr>d_code = ''bsx.duplicate_attribute'', d_level = Error,
     d_message = '''', d_runtime = False, d_hint = None\<rparr>), (''bsx.id'',
     \<lparr>d_code = ''bsx.id'', d_level = Error, d_message = '''', d_runtime = False,
     d_hint = None\<rparr>), (''bsx.duplicate_id'', \<lparr>d_code = ''bsx.duplicate_id'',
     d_level = Error, d_message = '''', d_runtime = False, d_hint = None\<rparr>),
     (''bsx.text_not_accepted'', \<lparr>d_code = ''bsx.text_not_accepted'', d_level = Error,
     d_message = '''', d_runtime = False, d_hint = None\<rparr>), (''bsx.text_unknown_component'',
     \<lparr>d_code = ''bsx.text_unknown_component'', d_level = Error, d_message = '''',
     d_runtime = False, d_hint = None\<rparr>), (''bsx.text_in_context'',
     \<lparr>d_code = ''bsx.text_in_context'', d_level = Error, d_message = '''',
     d_runtime = False, d_hint = None\<rparr>), (''bsx.text_and_prop'',
     \<lparr>d_code = ''bsx.text_and_prop'', d_level = Error, d_message = '''', d_runtime = False,
     d_hint = None\<rparr>), (''bsx.text_callback'', \<lparr>d_code = ''bsx.text_callback'',
     d_level = Error, d_message = '''', d_runtime = False, d_hint = None\<rparr>),
     (''bsx.else_outside_if'', \<lparr>d_code = ''bsx.else_outside_if'', d_level = Error,
     d_message = '''', d_runtime = False, d_hint = None\<rparr>), (''bsx.else_order'',
     \<lparr>d_code = ''bsx.else_order'', d_level = Error, d_message = '''', d_runtime = False,
     d_hint = None\<rparr>), (''bsx.foreach'', \<lparr>d_code = ''bsx.foreach'', d_level = Error,
     d_message = '''', d_runtime = False, d_hint = None\<rparr>), (''bsx.let'',
     \<lparr>d_code = ''bsx.let'', d_level = Error, d_message = '''', d_runtime = False,
     d_hint = None\<rparr>), (''expr.syntax'', \<lparr>d_code = ''expr.syntax'', d_level = Error,
     d_message = '''', d_runtime = False, d_hint = None\<rparr>), (''expr.arithmetic'',
     \<lparr>d_code = ''expr.arithmetic'', d_level = Error, d_message = '''', d_runtime = False,
     d_hint = None\<rparr>), (''expr.subscript'', \<lparr>d_code = ''expr.subscript'',
     d_level = Error, d_message = '''', d_runtime = False, d_hint = None\<rparr>),
     (''expr.chained_comparison'', \<lparr>d_code = ''expr.chained_comparison'', d_level = Error,
     d_message = '''', d_runtime = False, d_hint = None\<rparr>), (''expr.lambda'',
     \<lparr>d_code = ''expr.lambda'', d_level = Error, d_message = '''', d_runtime = False,
     d_hint = None\<rparr>), (''expr.dynamic_container'',
     \<lparr>d_code = ''expr.dynamic_container'', d_level = Error, d_message = '''',
     d_runtime = False, d_hint = None\<rparr>), (''expr.unknown_callee'',
     \<lparr>d_code = ''expr.unknown_callee'', d_level = Error, d_message = '''',
     d_runtime = False, d_hint = None\<rparr>), (''expr.unknown_function'',
     \<lparr>d_code = ''expr.unknown_function'', d_level = Warning, d_message = '''',
     d_runtime = False, d_hint = None\<rparr>), (''expr.arguments'',
     \<lparr>d_code = ''expr.arguments'', d_level = Error, d_message = '''', d_runtime = False,
     d_hint = None\<rparr>), (''expr.duplicate_key'', \<lparr>d_code = ''expr.duplicate_key'',
     d_level = Error, d_message = '''', d_runtime = False, d_hint = None\<rparr>),
     (''callback.sequence'', \<lparr>d_code = ''callback.sequence'', d_level = Error,
     d_message = '''', d_runtime = False, d_hint = None\<rparr>), (''callback.assignment'',
     \<lparr>d_code = ''callback.assignment'', d_level = Error, d_message = '''',
     d_runtime = False, d_hint = None\<rparr>), (''callback.await'',
     \<lparr>d_code = ''callback.await'', d_level = Error, d_message = '''', d_runtime = False,
     d_hint = None\<rparr>), (''callback.nested'', \<lparr>d_code = ''callback.nested'',
     d_level = Error, d_message = '''', d_runtime = False, d_hint = None\<rparr>),
     (''callback.positional'', \<lparr>d_code = ''callback.positional'', d_level = Error,
     d_message = '''', d_runtime = False, d_hint = None\<rparr>), (''callback.into'',
     \<lparr>d_code = ''callback.into'', d_level = Error, d_message = '''', d_runtime = False,
     d_hint = None\<rparr>), (''callback.not_callback'',
     \<lparr>d_code = ''callback.not_callback'', d_level = Error, d_message = '''',
     d_runtime = False, d_hint = None\<rparr>), (''callback.unbound'',
     \<lparr>d_code = ''callback.unbound'', d_level = Error, d_message = '''', d_runtime = False,
     d_hint = None\<rparr>), (''callback.event_field'', \<lparr>d_code = ''callback.event_field'',
     d_level = Error, d_message = '''', d_runtime = False, d_hint = None\<rparr>),
     (''roots.unknown'', \<lparr>d_code = ''roots.unknown'', d_level = Error, d_message = '''',
     d_runtime = False, d_hint = None\<rparr>), (''roots.not_in_kind'',
     \<lparr>d_code = ''roots.not_in_kind'', d_level = Error, d_message = '''', d_runtime = False,
     d_hint = None\<rparr>), (''roots.reserved'', \<lparr>d_code = ''roots.reserved'',
     d_level = Error, d_message = '''', d_runtime = False, d_hint = None\<rparr>),
     (''roots.shadow'', \<lparr>d_code = ''roots.shadow'', d_level = Error, d_message = '''',
     d_runtime = False, d_hint = None\<rparr>), (''roots.event_outside_callback'',
     \<lparr>d_code = ''roots.event_outside_callback'', d_level = Error, d_message = '''',
     d_runtime = False, d_hint = None\<rparr>), (''roots.error_outside_boundary'',
     \<lparr>d_code = ''roots.error_outside_boundary'', d_level = Error, d_message = '''',
     d_runtime = False, d_hint = None\<rparr>), (''roots.whole'', \<lparr>d_code = ''roots.whole'',
     d_level = Error, d_message = '''', d_runtime = False, d_hint = None\<rparr>),
     (''deps.unknown'', \<lparr>d_code = ''deps.unknown'', d_level = Error, d_message = '''',
     d_runtime = False, d_hint = None\<rparr>), (''deps.unknown_state'',
     \<lparr>d_code = ''deps.unknown_state'', d_level = Error, d_message = '''', d_runtime = False,
     d_hint = None\<rparr>), (''deps.unknown_action'', \<lparr>d_code = ''deps.unknown_action'',
     d_level = Error, d_message = '''', d_runtime = False, d_hint = None\<rparr>),
     (''path.unknown'', \<lparr>d_code = ''path.unknown'', d_level = Error, d_message = '''',
     d_runtime = False, d_hint = None\<rparr>), (''deps.reserved_state'',
     \<lparr>d_code = ''deps.reserved_state'', d_level = Error, d_message = '''',
     d_runtime = False, d_hint = None\<rparr>), (''deps.asset'', \<lparr>d_code = ''deps.asset'',
     d_level = Error, d_message = '''', d_runtime = False, d_hint = None\<rparr>),
     (''args.unknown'', \<lparr>d_code = ''args.unknown'', d_level = Error, d_message = '''',
     d_runtime = False, d_hint = None\<rparr>), (''into.twice'', \<lparr>d_code = ''into.twice'',
     d_level = Error, d_message = '''', d_runtime = False, d_hint = None\<rparr>),
     (''local.unknown'', \<lparr>d_code = ''local.unknown'', d_level = Error, d_message = '''',
     d_runtime = False, d_hint = None\<rparr>), (''local.bind'', \<lparr>d_code = ''local.bind'',
     d_level = Error, d_message = '''', d_runtime = False, d_hint = None\<rparr>),
     (''local.default'', \<lparr>d_code = ''local.default'', d_level = Error, d_message = '''',
     d_runtime = False, d_hint = None\<rparr>), (''local.kind'', \<lparr>d_code = ''local.kind'',
     d_level = Error, d_message = '''', d_runtime = False, d_hint = None\<rparr>), (''local.like'',
     \<lparr>d_code = ''local.like'', d_level = Error, d_message = '''', d_runtime = False,
     d_hint = None\<rparr>), (''local.bind_kind'', \<lparr>d_code = ''local.bind_kind'',
     d_level = Error, d_message = '''', d_runtime = False, d_hint = None\<rparr>),
     (''local.arg_kind'', \<lparr>d_code = ''local.arg_kind'', d_level = Error, d_message = '''',
     d_runtime = False, d_hint = None\<rparr>), (''local.unused_persist'',
     \<lparr>d_code = ''local.unused_persist'', d_level = Warning, d_message = '''',
     d_runtime = False, d_hint = None\<rparr>), (''query.unknown'',
     \<lparr>d_code = ''query.unknown'', d_level = Error, d_message = '''', d_runtime = False,
     d_hint = None\<rparr>), (''query.read_only'', \<lparr>d_code = ''query.read_only'',
     d_level = Error, d_message = '''', d_runtime = False, d_hint = None\<rparr>),
     (''query.schema'', \<lparr>d_code = ''query.schema'', d_level = Warning, d_message = '''',
     d_runtime = False, d_hint = None\<rparr>), (''query.variable'',
     \<lparr>d_code = ''query.variable'', d_level = Error, d_message = '''', d_runtime = False,
     d_hint = None\<rparr>), (''query.history'', \<lparr>d_code = ''query.history'',
     d_level = Error, d_message = '''', d_runtime = False, d_hint = None\<rparr>), (''query.kind'',
     \<lparr>d_code = ''query.kind'', d_level = Error, d_message = '''', d_runtime = False,
     d_hint = None\<rparr>), (''query.more'', \<lparr>d_code = ''query.more'', d_level = Error,
     d_message = '''', d_runtime = False, d_hint = None\<rparr>), (''query.fetch_more'',
     \<lparr>d_code = ''query.fetch_more'', d_level = Error, d_message = '''', d_runtime = False,
     d_hint = None\<rparr>), (''query.effect_target'', \<lparr>d_code = ''query.effect_target'',
     d_level = Error, d_message = '''', d_runtime = False, d_hint = None\<rparr>),
     (''subscription.unknown'', \<lparr>d_code = ''subscription.unknown'', d_level = Error,
     d_message = '''', d_runtime = False, d_hint = None\<rparr>), (''subscription.refetch'',
     \<lparr>d_code = ''subscription.refetch'', d_level = Error, d_message = '''',
     d_runtime = False, d_hint = None\<rparr>), (''toast.task'', \<lparr>d_code = ''toast.task'',
     d_level = Error, d_message = '''', d_runtime = False, d_hint = None\<rparr>),
     (''palette.raw_colour'', \<lparr>d_code = ''palette.raw_colour'', d_level = Warning,
     d_message = '''', d_runtime = False, d_hint = None\<rparr>), (''palette.logo_paint'',
     \<lparr>d_code = ''palette.logo_paint'', d_level = Error, d_message = '''', d_runtime = False,
     d_hint = None\<rparr>), (''palette.scene_colour'', \<lparr>d_code = ''palette.scene_colour'',
     d_level = Warning, d_message = '''', d_runtime = False, d_hint = None\<rparr>),
     (''props.literal_type'', \<lparr>d_code = ''props.literal_type'', d_level = Error,
     d_message = '''', d_runtime = False, d_hint = None\<rparr>), (''foreach.position_key'',
     \<lparr>d_code = ''foreach.position_key'', d_level = Warning, d_message = '''',
     d_runtime = False, d_hint = None\<rparr>), (''returns.unnamed'',
     \<lparr>d_code = ''returns.unnamed'', d_level = Warning, d_message = '''', d_runtime = False,
     d_hint = None\<rparr>), (''context.root'', \<lparr>d_code = ''context.root'', d_level = Error,
     d_message = '''', d_runtime = False, d_hint = None\<rparr>), (''context.root_unknown'',
     \<lparr>d_code = ''context.root_unknown'', d_level = Error, d_message = '''',
     d_runtime = False, d_hint = None\<rparr>), (''context.kind'',
     \<lparr>d_code = ''context.kind'', d_level = Error, d_message = '''', d_runtime = False,
     d_hint = None\<rparr>), (''logo.complexity'', \<lparr>d_code = ''logo.complexity'',
     d_level = Error, d_message = '''', d_runtime = False, d_hint = None\<rparr>),
     (''catalog.unknown_component'', \<lparr>d_code = ''catalog.unknown_component'',
     d_level = Warning, d_message = '''', d_runtime = False, d_hint = None\<rparr>),
     (''catalog.undeclared'', \<lparr>d_code = ''catalog.undeclared'', d_level = Warning,
     d_message = '''', d_runtime = False, d_hint = None\<rparr>), (''catalog.children'',
     \<lparr>d_code = ''catalog.children'', d_level = Warning, d_message = '''', d_runtime = False,
     d_hint = None\<rparr>), (''catalog.props'', \<lparr>d_code = ''catalog.props'',
     d_level = Warning, d_message = '''', d_runtime = False, d_hint = None\<rparr>),
     (''catalog.placement'', \<lparr>d_code = ''catalog.placement'', d_level = Warning,
     d_message = '''', d_runtime = False, d_hint = None\<rparr>), (''catalog.value'',
     \<lparr>d_code = ''catalog.value'', d_level = Warning, d_message = '''', d_runtime = False,
     d_hint = None\<rparr>), (''catalog.asset'', \<lparr>d_code = ''catalog.asset'',
     d_level = Warning, d_message = '''', d_runtime = False, d_hint = None\<rparr>),
     (''catalog.shadow'', \<lparr>d_code = ''catalog.shadow'', d_level = Warning, d_message = '''',
     d_runtime = False, d_hint = None\<rparr>), (''module.unknown'',
     \<lparr>d_code = ''module.unknown'', d_level = Warning, d_message = '''', d_runtime = False,
     d_hint = None\<rparr>), (''deps.unbound'', \<lparr>d_code = ''deps.unbound'', d_level = Error,
     d_message = '''', d_runtime = True, d_hint = None\<rparr>), (''manifest.sent'',
     \<lparr>d_code = ''manifest.sent'', d_level = Error, d_message = '''', d_runtime = False,
     d_hint = None\<rparr>), (''manifest.catalog'', \<lparr>d_code = ''manifest.catalog'',
     d_level = Error, d_message = '''', d_runtime = False, d_hint = None\<rparr>),
     (''manifest.duplicate'', \<lparr>d_code = ''manifest.duplicate'', d_level = Error,
     d_message = '''', d_runtime = False, d_hint = None\<rparr>), (''manifest.name'',
     \<lparr>d_code = ''manifest.name'', d_level = Error, d_message = '''', d_runtime = False,
     d_hint = None\<rparr>), (''manifest.action_logo'', \<lparr>d_code = ''manifest.action_logo'',
     d_level = Error, d_message = '''', d_runtime = False, d_hint = None\<rparr>),
     (''manifest.demo'', \<lparr>d_code = ''manifest.demo'', d_level = Error, d_message = '''',
     d_runtime = False, d_hint = None\<rparr>)]"

definition shipped_theme :: "theme" where
  "shipped_theme =
     \<lparr>colour_roles = [''background'', ''foreground'', ''card'', ''card-foreground'',
     ''popover'', ''popover-foreground'', ''primary'', ''primary-foreground'', ''secondary'',
     ''secondary-foreground'', ''muted'', ''muted-foreground'', ''accent'', ''accent-foreground'',
     ''destructive'', ''border'', ''input'', ''ring'', ''brand'', ''brand-light'', ''brand-soft'',
     ''chart-1'', ''chart-2'', ''chart-3'', ''chart-4'', ''chart-5'', ''success'',
     ''success-foreground'', ''success-soft'', ''warning'', ''warning-foreground'',
     ''warning-soft'', ''info'', ''info-foreground'', ''info-soft'', ''spectrum-violet'',
     ''spectrum-violet-soft'', ''spectrum-blue'', ''spectrum-blue-soft'', ''spectrum-cyan'',
     ''spectrum-cyan-soft'', ''spectrum-green'', ''spectrum-green-soft'', ''spectrum-yellow'',
     ''spectrum-yellow-soft'', ''spectrum-orange'', ''spectrum-orange-soft'', ''spectrum-red'',
     ''spectrum-red-soft''], status_roles = [''success'', ''warning'', ''info''],
     spectral_roles = [''spectrum-violet'', ''spectrum-blue'', ''spectrum-cyan'',
     ''spectrum-green'', ''spectrum-yellow'', ''spectrum-orange'', ''spectrum-red''],
     colour_utilities = [''bg'', ''text'', ''border'', ''border-t'', ''border-r'', ''border-b'',
     ''border-l'', ''border-x'', ''border-y'', ''ring'', ''ring-offset'', ''outline'', ''fill'',
     ''stroke'', ''from'', ''via'', ''to'', ''divide'', ''placeholder'', ''caret'', ''accent'',
     ''decoration'', ''shadow''], palette_colours = [''slate'', ''gray'', ''zinc'', ''neutral'',
     ''stone'', ''red'', ''orange'', ''amber'', ''yellow'', ''lime'', ''green'', ''emerald'',
     ''teal'', ''cyan'', ''sky'', ''blue'', ''indigo'', ''violet'', ''purple'', ''fuchsia'',
     ''pink'', ''rose'', ''black'', ''white''], palette_role_hints = [(''red'', ''destructive''),
     (''rose'', ''destructive''), (''orange'', ''warning''), (''amber'', ''warning''), (''yellow'',
     ''warning''), (''lime'', ''success''), (''green'', ''success''), (''emerald'', ''success''),
     (''teal'', ''success''), (''cyan'', ''info''), (''sky'', ''info''), (''blue'', ''info''),
     (''indigo'', ''primary''), (''violet'', ''brand''), (''purple'', ''brand''), (''fuchsia'',
     ''brand''), (''pink'', ''brand''), (''slate'', ''muted''), (''gray'', ''muted''), (''zinc'',
     ''muted''), (''neutral'', ''muted''), (''stone'', ''muted''), (''black'', ''foreground''),
     (''white'', ''background'')], logo_pens = [''ink'', ''muted'', ''brand'', ''brand-strong'',
     ''brand-soft'', ''surface'', ''none'', ''success'', ''warning'', ''info'',
     ''spectrum-violet'', ''spectrum-blue'', ''spectrum-cyan'', ''spectrum-green'',
     ''spectrum-yellow'', ''spectrum-orange'', ''spectrum-red''], logo_paint_props = [''fill'',
     ''stroke'', ''stopColor''], scene_paint_props = [''color''], custom_variants = [''dark'',
     ''data-open'', ''data-closed'', ''data-checked'', ''data-unchecked'', ''data-selected'',
     ''data-active'', ''data-inactive'', ''data-disabled'', ''data-horizontal'', ''data-vertical'',
     ''data-busy'', ''data-stale''], data_attributes = [''busy'', ''stale'']\<rparr>"

definition shipped_limits :: "limits" where
  "shipped_limits =
     \<lparr>logo_max_nodes = 200, logo_max_depth = 12, logo_max_path_data = 16384,
     logo_max_foreach_items = 64, logo_path_data_props = [''d'', ''points'']\<rparr>"

definition load_vocabulary :: "vocabulary" where
  "load_vocabulary =
     \<lparr>vocab = 2, data_roots = [''self'', ''deps'', ''queries'', ''subscriptions'', ''args'',
     ''task'', ''event'', ''viewer'', ''then''], scoped_roots = [''event'', ''error''],
     function_namespaces = [''cmp'', ''logic'', ''math'', ''str'', ''list'', ''obj'', ''val'',
     ''fmt'', ''time'', ''ui'', ''query''], future_roots = [''mutations''], reserved = [''self'',
     ''deps'', ''queries'', ''subscriptions'', ''args'', ''task'', ''event'', ''viewer'', ''then'',
     ''error'', ''cmp'', ''logic'', ''math'', ''str'', ''list'', ''obj'', ''val'', ''fmt'',
     ''time'', ''ui'', ''query'', ''mutations''], tasks_segment = ''tasks'',
     assets_segment = ''assets'', reserved_state_names = [''tasks'', ''assets'', ''id'', ''name''],
     agent_fields = [''id'', ''name''], kinds = shipped_kinds, contexts = [(''HTML'',
     \<lparr>c_name = ''HTML'', c_text = True\<rparr>), (''SCENE'', \<lparr>c_name = ''SCENE'',
     c_text = False\<rparr>), (''OVERLAY'', \<lparr>c_name = ''OVERLAY'', c_text = False\<rparr>),
     (''LOGO'', \<lparr>c_name = ''LOGO'', c_text = False\<rparr>)], blok_roots = [(''Html'',
     ''HTML''), (''Scene'', ''SCENE''), (''Overlay'', ''OVERLAY''), (''AgentLogo'', ''LOGO''),
     (''ActionLogo'', ''ACTION_LOGO'')], records = shipped_records, idle_task = [(''id'', JNull),
     (''status'', JStr ''idle''), (''running'', JBool False), (''done'', JBool False), (''failed'',
     JBool False), (''progress'', JInt 0), (''message'', JNull), (''error'', JNull), (''args'',
     JObj []), (''ask'', JNull), (''answer'', JNull), (''returns'', JObj [])],
     function_table = shipped_functions, operators = [(''=='', ''cmp.eq''), (''!='', ''cmp.ne''),
     (''>'', ''cmp.gt''), (''>='', ''cmp.gte''), (''<'', ''cmp.lt''), (''<='', ''cmp.lte''),
     (''&&'', ''logic.all''), (''||'', ''logic.any''), (''!'', ''logic.negate''), (''?:'',
     ''logic.choose''), (''??'', ''logic.coalesce'')],
     explicit_id = ''^[A-Za-z_][A-Za-z0-9_.:-]*$'', the_theme = shipped_theme,
     the_limits = shipped_limits, base_version = 2, catalogs = [(''ui'', 1), (''scene'', 1),
     (''logo'', 1), (''structure'', 1), (''html'', 1)], bind_kinds = [(''STRING'', [''STRING'',
     ''ENUM'', ''DATE'']), (''FLOAT'', [''FLOAT'', ''INT'', ''QUANTITY'']), (''INT'', [''INT'']),
     (''BOOL'', [''BOOL'']), (''LIST'', [''LIST'']), (''DICT'', [''DICT'', ''MODEL''])],
     arg_kinds = [(''STRING'', [''STRING'']), (''INT'', [''INT'', ''FLOAT'']), (''FLOAT'',
     [''FLOAT'']), (''BOOL'', [''BOOL'']), (''ENUM'', [''ENUM'', ''STRING'']), (''DATE'',
     [''DATE'', ''STRING'']), (''QUANTITY'', [''QUANTITY'', ''FLOAT'']), (''LIST'', [''LIST'']),
     (''DICT'', [''DICT'']), (''MODEL'', [''MODEL'', ''DICT'']), (''STRUCTURE'', [''STRUCTURE''])],
     diagnostics = shipped_diagnostics\<rparr>"

lemmas vocabulary_json_defs =
  json_vocab_def json_roots_def json_reserved_def json_agent_segments_def json_kinds_def json_contexts_def json_blok_roots_def json_records_def json_functions_def json_operators_def json_stored_tree_def json_locals_def json_theme_def json_limits_def json_catalogs_def json_diagnostics_def vocabulary_json_def

lemmas shipped_defs =
  shipped_kinds_def shipped_records_def shipped_functions_def shipped_diagnostics_def
  shipped_theme_def shipped_limits_def load_vocabulary_def

lemma load_vocabulary_parses: "parse_vocabulary vocabulary_json = Inr load_vocabulary"
  by code_simp

theorem parse_vocabulary_coherent_witness: "coherent_vocabulary load_vocabulary"
  by (rule parse_vocabulary_coherent) (rule load_vocabulary_parses)

end
