(* ===== verification/Checker_Facts.thy ===== *)
theory Checker_Facts
  imports Checker Vocabulary_Data
begin

text \<open>
  What the checker finds: every rule that holds at a place of the tree is among the findings (the
  locale \<open>visitor_reaches\<close> on the checker's visitor), every code it uses is a row of the shipped
  table, and what a logo without findings is.
\<close>

section \<open>The records the code reads\<close>

text \<open>\<open>vocabulary.records[...]\<close> would raise a \<open>KeyError\<close> where the model answers no fields: the shipped vocabulary has each record that is read.\<close>

lemma shipped_vocabulary_records:
  "list_all (\<lambda>name. map_of (records load_vocabulary) name \<noteq> None) [''task'', ''viewer'', ''query'', ''subscription'', ''error'']"
  by code_simp

section \<open>Notes are kept, and made at every visit\<close>

lemma check_visitor_simps:
  "visit (check_visitor ck into) (At_path path w) scope s =
     add_notes (map Inr (snd (resolve ck into path (Some w) scope (where_text w)))) s"
  "visit (check_visitor ck into) (At_agent_call c w name) scope s = add_notes (agent_call_notes ck c w scope) s"
  "visit (check_visitor ck into) (At_util_call u w t) scope s = add_notes (util_call_notes ck u w t) s"
  "visit (check_visitor ck into) (At_component n ancestors) scope s = check_component ck into n ancestors s"
  by (simp_all add: check_visitor_def)

lemma so_far_add_notes [simp]: "so_far (add_notes ns s) = so_far s @ ns"
  by (simp add: add_notes_def)

lemma so_far_check_component:
  "set (so_far s) \<subseteq> set (so_far (check_component ck into n ancestors s))"
  by (auto simp: check_component_def Let_def)

lemma visit_keeps_notes: "set (so_far s) \<subseteq> set (so_far (visit (check_visitor ck into) e scope s))"
  by (cases e) (simp_all add: check_visitor_def so_far_check_component)

interpretation notes_kept: visitor_invariant "check_visitor ck into" "\<lambda>s :: check_state. ns \<subseteq> set (so_far s)"
  for ck into ns
proof
  fix s :: check_state and e and scope :: "string \<rightharpoonup> port_match"
  assume "ns \<subseteq> set (so_far s)"
  then show "ns \<subseteq> set (so_far (visit (check_visitor ck into) e scope s))"
    using visit_keeps_notes by blast
qed (auto simp: check_visitor_def Let_def split: prod.splits)

lemma resolve_unbound:
  "scope (hd (split_on (CHR ''.'') path)) = None \<Longrightarrow> resolve ck into path w scope owner = resolve ck into path w Map.empty owner"
  by (simp add: resolve_def Let_def)

text \<open>What a path whose root is no name in scope finds.\<close>

definition path_notes :: "checker \<Rightarrow> string list \<Rightarrow> string \<Rightarrow> where_at \<Rightarrow> string set \<Rightarrow> noted set" where
  "path_notes ck into path w names =
     (if hd (split_on (CHR ''.'') path) \<in> names then {}
      else set (map Inr (snd (resolve ck into path (Some w) Map.empty (where_text w)))))"

interpretation path_visits: visitor_reaches "check_visitor ck into" "\<lambda>s :: check_state. path_notes ck into path w names \<subseteq> set (so_far s)"
  "At_path path w" names
  for ck into path w names
proof
  fix scope :: "string \<rightharpoonup> port_match" and s
  assume "dom scope = names"
  then have "hd (split_on (CHR ''.'') path) \<notin> names \<longrightarrow>
      resolve ck into path w' scope owner = resolve ck into path w' Map.empty owner" for w' owner
    by (auto intro!: resolve_unbound)
  then show "path_notes ck into path w names \<subseteq> set (so_far (visit (check_visitor ck into) (At_path path w) scope s))"
    by (simp add: path_notes_def check_visitor_def)
qed

definition names_bound :: "string set \<Rightarrow> (string \<rightharpoonup> port_match)" where
  "names_bound names x = (if x \<in> names then Some (open_match x) else None)"

lemma agent_call_notes_dom:
  "dom scope = names \<Longrightarrow> agent_call_notes ck c w scope = agent_call_notes ck c w (names_bound names)"
proof -
  assume "dom scope = names"
  then have same: "(scope x = None) = (names_bound names x = None)" for x
    by (auto simp: names_bound_def)
  have "arg_kind_notes ck call ms w scope = arg_kind_notes ck call ms w (names_bound names)" for call ms
    by (rule ext) (simp only: arg_kind_notes_def same)
  then show ?thesis by (simp only: agent_call_notes_def)
qed

interpretation agent_visits: visitor_reaches "check_visitor ck into"
  "\<lambda>s :: check_state. set (agent_call_notes ck c w (names_bound names)) \<subseteq> set (so_far s)" "At_agent_call c w name" names
  for ck into c w names name
proof
  fix scope :: "string \<rightharpoonup> port_match" and s
  assume "dom scope = names"
  from agent_call_notes_dom [OF this]
  show "set (agent_call_notes ck c w (names_bound names)) \<subseteq>
      set (so_far (visit (check_visitor ck into) (At_agent_call c w name) scope s))"
    by (simp add: check_visitor_def)
qed

interpretation util_visits: visitor_reaches "check_visitor ck into"
  "\<lambda>s :: check_state. set (util_call_notes ck c w t) \<subseteq> set (so_far s)" "At_util_call c w t" names
  for ck into c w t names
  by unfold_locales (simp add: check_visitor_def)

section \<open>From a visit to a finding\<close>

text \<open>The state after the walk, which every other part of the notes is added to.\<close>

definition walked :: "checker \<Rightarrow> component_node \<Rightarrow> check_state" where
  "walked ck tree =
     walk_tree (ck_voc ck) (check_visitor ck (map fst (into_sites tree))) tree
       \<lparr>so_far = declaration_notes ck tree, bound_locals = [], shadowed = []\<rparr>"

lemma walked_notes: "set (so_far (walked ck tree)) \<subseteq> set (tree_notes ck tree)"
  by (simp add: tree_notes_def walked_def Let_def)

lemma tree_notes_declarations: "set (declaration_notes ck tree) \<subseteq> set (tree_notes ck tree)"
proof -
  have "set (declaration_notes ck tree) \<subseteq> set (so_far (walked ck tree))"
    unfolding walked_def by (rule notes_kept.walk_tree_keeps) simp
  then show ?thesis using walked_notes by (rule subset_trans)
qed

lemma tree_notes_path:
  "(At_path path w, names) \<in> set (tree_events (ck_voc ck) tree) \<Longrightarrow>
   path_notes ck (map fst (into_sites tree)) path w names \<subseteq> set (tree_notes ck tree)"
  by (rule subset_trans [OF _ walked_notes]) (unfold walked_def, rule path_visits.walk_tree_reaches)

lemma tree_notes_agent_call:
  "(At_agent_call c w name, names) \<in> set (tree_events (ck_voc ck) tree) \<Longrightarrow>
   set (agent_call_notes ck c w (names_bound names)) \<subseteq> set (tree_notes ck tree)"
  by (rule subset_trans [OF _ walked_notes]) (unfold walked_def, rule agent_visits.walk_tree_reaches)

lemma tree_notes_util_call:
  "(At_util_call c w t, names) \<in> set (tree_events (ck_voc ck) tree) \<Longrightarrow>
   set (util_call_notes ck c w t) \<subseteq> set (tree_notes ck tree)"
  by (rule subset_trans [OF _ walked_notes]) (unfold walked_def, rule util_visits.walk_tree_reaches)

lemma check_blok_tree_Inr:
  "check_blok_tree voc ext tree sc view = Inr fs \<longleftrightarrow>
   (\<exists>ck. make_checker voc ext tree sc view = Inr ck \<and> findings_of voc (tree_notes ck tree) = Inr fs)"
  by (auto simp: check_blok_tree_def and_then_Inr)

section \<open>Example trees\<close>

definition plain_externals :: externals where
  "plain_externals = \<lparr>ext_pint = (\<lambda>_. None), ext_graphql = (\<lambda>_. None), ext_iso_date = (\<lambda>_. False)\<rparr>"

definition plain_scope :: "string \<Rightarrow> string \<Rightarrow> blok_scope" where
  "plain_scope k cx =
     \<lparr>sc_kind = k, sc_context = cx, sc_dependencies = [], sc_locals = [], sc_queries = [], sc_subscriptions = [],
      sc_args = None, sc_catalogs = [], sc_demo = None, sc_query_values = [], sc_assets = None\<rparr>"

definition no_value :: "string \<Rightarrow> component_prop" where
  "no_value key =
     \<lparr>pr_key = key, static_value = JNull, dynamic_value = None, declares_value = None, pr_agent_call = None,
      pr_util_call = None\<rparr>"

definition reads :: "string \<Rightarrow> string \<Rightarrow> component_prop" where
  "reads key path = (no_value key)\<lparr>dynamic_value := Some \<lparr>dv_literal = None, dv_path = Some path\<rparr>\<rparr>"

definition calls :: "string \<Rightarrow> agent_call \<Rightarrow> string option \<Rightarrow> component_prop" where
  "calls key call name = (no_value key)\<lparr>declares_value := name, pr_agent_call := Some call\<rparr>"

definition panel :: "component_prop list \<Rightarrow> component_node" where
  "panel ps = Node ''panel'' ''Html'' (Some ps) None"

definition focus_call :: agent_call where
  "focus_call = AgentCall ''microscope'' ''focus'' None"

lemma unread_root_reported:
  assumes "check_blok_tree voc ext tree sc view = Inr fs" "vocabulary_kind voc (sc_kind sc) = Inr k"
    and "(At_path path w, names) \<in> set (tree_events voc tree)"
    and "rt = hd (split_on (CHR ''.'') path)"
    and "rt \<notin> names" "rt \<notin> set (map lo_key (sc_locals sc))" "rt \<noteq> ''event''" "rt \<noteq> ''error''"
    and "rt \<in> set (data_roots voc)" "rt \<notin> set (k_roots k)"
  shows "\<exists>f \<in> set fs. f_code f = ''roots.not_in_kind'' \<and> f_path f = Some (node_id (w_node w))"
proof -
  obtain ck where ck: "make_checker voc ext tree sc view = Inr ck"
    and found: "findings_of voc (tree_notes ck tree) = Inr fs"
    using assms(1) by (auto simp: check_blok_tree_Inr)
  note ck_fields = make_checker_fields [OF ck]
  have k: "ck_kind ck = k" using ck_fields(3) assms(2) by simp
  have "dict_of (ck_ports ck) rt = None"
    using assms(6) ck_fields(4) by (metis ck_locals_def dict_of_None list.set_map)
  then have "snd (resolve ck into path (Some w) Map.empty (where_text w)) =
      [not_in_kind ck path rt (Some (node_id (w_node w)))]" for into
    using assms(4,7-10) ck_fields(1) k by (simp add: resolve_def Let_def del: dict_of_None)
  moreover have "path_notes ck (map fst (into_sites tree)) path w names \<subseteq> set (tree_notes ck tree)"
    using assms(3) ck_fields(1) by (intro tree_notes_path) simp
  ultimately have "Inr (not_in_kind ck path rt (Some (node_id (w_node w)))) \<in> set (tree_notes ck tree)"
    using assms(4,5) by (simp add: path_notes_def)
  then show ?thesis
    using findings_of_mem [OF found] by (fastforce simp: not_in_kind_def)
qed

text \<open>
  C9. The root matrix: wherever a blok's tree reads a data root (\<open>self\<close>, \<open>task\<close>, \<open>queries\<close>, ...) that its
  kind does not read, in a prop, a nested argument or a call, and the root is no local and no name
  in scope there, the checker says so at that node.
\<close>

theorem unread_root_found:
  assumes "check_blok_tree voc ext tree sc view = Inr fs" "vocabulary_kind voc (sc_kind sc) = Inr k"
    and "(At_path path w, names) \<in> set (tree_events voc tree)"
    and "rt = hd (split_on (CHR ''.'') path)"
    and "rt \<notin> names" "rt \<notin> set (map lo_key (sc_locals sc))" "rt \<noteq> ''event''" "rt \<noteq> ''error''"
    and "rt \<in> set (data_roots voc)" "rt \<notin> set (k_roots k)"
  shows "\<exists>f \<in> set fs. f_code f = ''roots.not_in_kind'' \<and> f_path f = Some (node_id (w_node w))"
  using assms by (rule unread_root_reported)

lemma runs: "\<not> isl r \<Longrightarrow> \<exists>x. r = Inr x"
  by (cases r) simp_all

definition bad_path :: component_node where
  "bad_path = panel [reads ''label'' ''task.status'']"

lemma bad_path_runs: "\<not> isl (check_blok_tree load_vocabulary plain_externals bad_path (plain_scope ''agent'' ''HTML'') None)"
  by code_simp

lemma bad_path_read:
  "(At_path ''task.status'' \<lparr>w_node = bad_path, w_key = ''label'', w_callback = False, w_in_error = False\<rparr>, {})
   \<in> set (tree_events load_vocabulary bad_path)"
  by code_simp

theorem unread_root_found_witness:
  "\<exists>fs. check_blok_tree load_vocabulary plain_externals bad_path (plain_scope ''agent'' ''HTML'') None = Inr fs \<and>
        (\<exists>f \<in> set fs. f_code f = ''roots.not_in_kind'' \<and> f_path f = Some ''panel'')"
proof -
  obtain fs where fs: "check_blok_tree load_vocabulary plain_externals bad_path (plain_scope ''agent'' ''HTML'') None = Inr fs"
    using runs [OF bad_path_runs] ..
  obtain k where k: "vocabulary_kind load_vocabulary ''agent'' = Inr k" "''task'' \<notin> set (k_roots k)"
    by (simp add: vocabulary_kind_def load_vocabulary_def shipped_kinds_def)
  have roots: "''task'' \<in> set (data_roots load_vocabulary)" by (simp add: load_vocabulary_def)
  have "\<exists>f \<in> set fs. f_code f = ''roots.not_in_kind'' \<and> f_path f = Some (node_id (w_node
      \<lparr>w_node = bad_path, w_key = ''label'', w_callback = False, w_in_error = False\<rparr>))"
    using unread_root_found [OF fs _ bad_path_read, of k "''task''"] k roots
    by (simp add: plain_scope_def)
  then show ?thesis using fs by (simp add: bad_path_def panel_def)
qed

lemma unknown_dependency_reported:
  assumes "check_blok_tree voc ext tree sc view = Inr fs" "vocabulary_kind voc (sc_kind sc) = Inr k"
    and "(At_agent_call c w name, names) \<in> set (tree_events voc tree)"
    and "call_dependency c \<noteq> ''self''" "''deps'' \<in> set (k_roots k)"
    and "call_dependency c \<notin> dep_key ` set (sc_dependencies sc)"
  shows "\<exists>f \<in> set fs. f_code f = ''deps.unknown'' \<and> f_path f = Some (node_id (w_node w))"
proof -
  obtain ck where ck: "make_checker voc ext tree sc view = Inr ck"
    and found: "findings_of voc (tree_notes ck tree) = Inr fs"
    using assms(1) by (auto simp: check_blok_tree_Inr)
  note ck_fields = make_checker_fields [OF ck]
  have k: "ck_kind ck = k" using ck_fields(3) assms(2) by simp
  have "ck_dependency ck (call_dependency c) = None"
    using assms(6) ck_fields(6) by (auto simp: ck_dependency_def dependency_of_def)
  then obtain fl where "Inr (''deps.unknown'', Some (node_id (w_node w)), fl) \<in> set (agent_call_notes ck c w (names_bound names))"
    using assms(4,5) k by (simp add: agent_call_notes_def Let_def note_of_def)
  then have "Inr (''deps.unknown'', Some (node_id (w_node w)), fl) \<in> set (tree_notes ck tree)"
    using tree_notes_agent_call [of c w name names ck tree] assms(3) ck_fields(1) by auto
  then show ?thesis
    using findings_of_mem [OF found] by fastforce
qed

lemma call_outside_kind_reported:
  assumes "check_blok_tree voc ext tree sc view = Inr fs" "vocabulary_kind voc (sc_kind sc) = Inr k"
    and "(At_agent_call c w name, names) \<in> set (tree_events voc tree)"
    and "call_dependency c \<noteq> ''self''" "''deps'' \<notin> set (k_roots k)"
  shows "\<exists>f \<in> set fs. f_code f = ''roots.not_in_kind'' \<and> f_path f = Some (node_id (w_node w))"
proof -
  obtain ck where ck: "make_checker voc ext tree sc view = Inr ck"
    and found: "findings_of voc (tree_notes ck tree) = Inr fs"
    using assms(1) by (auto simp: check_blok_tree_Inr)
  note ck_fields = make_checker_fields [OF ck]
  have k: "ck_kind ck = k" using ck_fields(3) assms(2) by simp
  obtain fl where "Inr (''roots.not_in_kind'', Some (node_id (w_node w)), fl) \<in> set (agent_call_notes ck c w (names_bound names))"
    using assms(4,5) k by (simp add: agent_call_notes_def Let_def not_in_kind_def)
  then have "Inr (''roots.not_in_kind'', Some (node_id (w_node w)), fl) \<in> set (tree_notes ck tree)"
    using tree_notes_agent_call [of c w name names ck tree] assms(3) ck_fields(1) by auto
  then show ?thesis
    using findings_of_mem [OF found] by fastforce
qed

text \<open>
  C10. A task call to a dependency the blok does not declare is found, wherever in the tree it is made: as \<open>deps.unknown\<close> in
  every kind of blok that may call dependencies at all, and as \<open>roots.not_in_kind\<close> in any other.
\<close>

theorem unknown_dependency_found:
  assumes "check_blok_tree voc ext tree sc view = Inr fs" "vocabulary_kind voc (sc_kind sc) = Inr k"
    and "(At_agent_call c w name, names) \<in> set (tree_events voc tree)"
    and "call_dependency c \<noteq> ''self''" "call_dependency c \<notin> dep_key ` set (sc_dependencies sc)"
  shows "\<exists>f \<in> set fs. f_code f = (if ''deps'' \<in> set (k_roots k) then ''deps.unknown'' else ''roots.not_in_kind'') \<and>
    f_path f = Some (node_id (w_node w))"
  using unknown_dependency_reported [OF assms(1-4) _ assms(5)] call_outside_kind_reported [OF assms(1-4)] by simp

definition bad_call :: component_node where
  "bad_call = panel [calls ''onClick'' focus_call None]"

lemma bad_call_runs: "\<not> isl (check_blok_tree load_vocabulary plain_externals bad_call (plain_scope ''custom'' ''HTML'') None)"
  by code_simp

lemma bad_call_made:
  "(At_agent_call focus_call \<lparr>w_node = bad_call, w_key = ''onClick'', w_callback = True, w_in_error = False\<rparr> None, {})
   \<in> set (tree_events load_vocabulary bad_call)"
  by code_simp

theorem unknown_dependency_found_witness:
  "\<exists>fs. check_blok_tree load_vocabulary plain_externals bad_call (plain_scope ''custom'' ''HTML'') None = Inr fs \<and>
        (\<exists>f \<in> set fs. f_code f = ''deps.unknown'' \<and> f_path f = Some ''panel'')"
proof -
  obtain fs where fs: "check_blok_tree load_vocabulary plain_externals bad_call (plain_scope ''custom'' ''HTML'') None = Inr fs"
    using runs [OF bad_call_runs] ..
  obtain k where k: "vocabulary_kind load_vocabulary ''custom'' = Inr k" "''deps'' \<in> set (k_roots k)"
    by (simp add: vocabulary_kind_def load_vocabulary_def shipped_kinds_def)
  have "\<exists>f \<in> set fs. f_code f = ''deps.unknown'' \<and> f_path f = Some (node_id (w_node
      \<lparr>w_node = bad_call, w_key = ''onClick'', w_callback = True, w_in_error = False\<rparr>))"
    using unknown_dependency_found [OF fs _ bad_call_made, of k] k
    by (simp add: plain_scope_def focus_call_def)
  then show ?thesis using fs by (simp add: bad_call_def panel_def)
qed

text \<open>
  No two task calls of a tree share the name they write their record to: if two do, the checker
  finds \<open>into.twice\<close>, at the second.
\<close>

theorem shared_into_found:
  assumes "check_blok_tree voc ext tree sc view = Inr fs"
    and "filter (\<lambda>x. fst x = name) (into_list tree) = (name, first) # (name, second) # rest"
  shows "\<exists>f \<in> set fs. f_code f = ''into.twice'' \<and> f_path f = Some (snd second)"
proof -
  obtain ck where ck: "make_checker voc ext tree sc view = Inr ck"
    and found: "findings_of voc (tree_notes ck tree) = Inr fs"
    using assms(1) by (auto simp: check_blok_tree_Inr)
  have "map_of (into_sites tree) name = Some (first # second # map snd rest)"
    using assms(2) by (simp add: into_sites_lookup)
  then have site: "(name, first # second # map snd rest) \<in> set (into_sites tree)" by (rule map_of_SomeD)
  obtain fl where "Inr (''into.twice'', Some (snd second), fl) \<in> set (into_notes ck (name, first # second # map snd rest))"
    by (simp add: into_notes_def note_of_def)
  then have "Inr (''into.twice'', Some (snd second), fl) \<in> set (declaration_notes ck tree)"
    using site by (fastforce simp: declaration_notes_def Let_def)
  then show ?thesis
    using tree_notes_declarations [of ck tree] findings_of_mem [OF found] by fastforce
qed

definition twice_into :: component_node where
  "twice_into =
     panel [calls ''onClick'' focus_call (Some ''run''), calls ''onHover'' focus_call (Some ''run'')]"

lemma twice_into_runs: "\<not> isl (check_blok_tree load_vocabulary plain_externals twice_into (plain_scope ''custom'' ''HTML'') None)"
  by code_simp

theorem shared_into_found_witness:
  "\<exists>fs. check_blok_tree load_vocabulary plain_externals twice_into (plain_scope ''custom'' ''HTML'') None = Inr fs \<and>
        (\<exists>f \<in> set fs. f_code f = ''into.twice'' \<and> f_path f = Some ''onHover of <Html> (panel)'')"
proof -
  obtain fs where fs: "check_blok_tree load_vocabulary plain_externals twice_into (plain_scope ''custom'' ''HTML'') None = Inr fs"
    using runs [OF twice_into_runs] ..
  have "filter (\<lambda>x. fst x = ''run'') (into_list twice_into) =
      [(''run'', focus_call, ''onClick of <Html> (panel)''), (''run'', focus_call, ''onHover of <Html> (panel)'')]"
    by code_simp
  from shared_into_found [OF fs this] fs show ?thesis by simp
qed

section \<open>Logos\<close>

fun node_depth :: "component_node \<Rightarrow> int" where
  "node_depth (Node i c ps cs) = 1 + foldr max (map node_depth (or_nil cs)) 0"

definition small_loops :: "limits \<Rightarrow> blok_demo option \<Rightarrow> component_node \<Rightarrow> bool" where
  "small_loops lm demo n =
     list_all (\<lambda>p. component n = FOREACH_COMPONENT \<and> pr_key p = FOREACH_ITEMS_PROP \<longrightarrow>
                   int (demo_items p demo) \<le> logo_max_foreach_items lm) (or_nil (props n))"

lemma guarded_notes_nil: "concat (map (\<lambda>x. if c x then [f x] else []) xs) = [] \<longleftrightarrow> list_all (\<lambda>x. \<not> c x) xs"
  by (induction xs) simp_all

lemma loop_notes_nil: "loop_notes lm demo n = [] \<longleftrightarrow> small_loops lm demo n"
  unfolding loop_notes_def small_loops_def guarded_notes_nil by (auto simp: list_all_iff not_less)

lemma foldr_max_le: "foldr max xs (0 :: int) \<le> m \<longleftrightarrow> 0 \<le> m \<and> (\<forall>x \<in> set xs. x \<le> m)"
  by (induction xs) (simp_all, blast)

lemma logo_walk_nil:
  "logo_walk lm demo d n = [] \<longleftrightarrow>
   d - 1 + node_depth n \<le> logo_max_depth lm \<and> list_all (small_loops lm demo) (iter_nodes n)"
proof (induction lm demo d n rule: logo_walk.induct)
  case (1 lm demo d i c ps cs)
  have deep: "d + foldr max (map node_depth (or_nil cs)) 0 \<le> m \<longleftrightarrow>
      d \<le> m \<and> (\<forall>x \<in> set (or_nil cs). d + node_depth x \<le> m)" for m
    using foldr_max_le [of "map node_depth (or_nil cs)" "m - d"] by (simp add: le_diff_eq add.commute)
  show ?case
    using 1 by (auto simp: loop_notes_nil list_all_iff not_less deep)
qed

text \<open>
  A logo is within its limits exactly when its check finds nothing: no deeper than
  \<open>logo_max_depth\<close>, at most \<open>logo_max_nodes\<close> components, at most \<open>logo_max_path_data\<close> characters of
  path data, and no loop that the demo gives more than \<open>logo_max_foreach_items\<close> items.
\<close>

theorem check_logo_iff:
  "check_logo lm tree demo = [] \<longleftrightarrow>
   node_depth tree \<le> logo_max_depth lm \<and> int (length (iter_nodes tree)) \<le> logo_max_nodes lm \<and>
   int (path_data lm tree) \<le> logo_max_path_data lm \<and> list_all (small_loops lm demo) (iter_nodes tree)"
  by (auto simp: check_logo_def logo_walk_nil not_less)

end
