(* ===== verification/Checker_Total.thy ===== *)
theory Checker_Total
  imports Checker_Facts
begin

text \<open>
  The checker always finishes with findings: every code its rules use is a row of the shipped table,
  so no lookup of a diagnostic fails, and the only exceptions left are those \<open>literal_hint\<close> lets out.
\<close>

section \<open>The codes\<close>

definition codes :: "string set" where
  "codes = set (map fst (diagnostics load_vocabulary))"

definition drafted :: "draft list \<Rightarrow> bool" where
  "drafted ds = list_all (\<lambda>(code, place, fs). code \<in> codes) ds"

definition literal_error :: "py_error \<Rightarrow> bool" where
  "literal_error e = (e = OverflowError \<or> e = ValueError [Txt ''cannot convert float NaN to integer''])"

definition noted_ok :: "noted \<Rightarrow> bool" where
  "noted_ok n = (case n of Inl e \<Rightarrow> literal_error e | Inr (code, place, fs) \<Rightarrow> code \<in> codes)"

definition coded :: "noted list \<Rightarrow> bool" where
  "coded ns = list_all noted_ok ns"

named_theorems coded_rules

lemma used_codes:
  "list_all (\<lambda>c. c \<in> set (map fst (diagnostics load_vocabulary)))
    [''path.unknown'', ''roots.not_in_kind'', ''roots.unknown'', ''roots.whole'',
     ''roots.event_outside_callback'', ''roots.error_outside_boundary'', ''roots.reserved'',
     ''roots.shadow'', ''returns.unnamed'', ''callback.event_field'', ''callback.unbound'',
     ''callback.not_callback'', ''callback.nested'', ''deps.unknown'', ''deps.unknown_action'',
     ''deps.unknown_state'', ''deps.asset'', ''args.unknown'', ''query.unknown'',
     ''query.history'', ''query.fetch_more'', ''query.effect_target'', ''subscription.unknown'',
     ''local.default'', ''local.bind'', ''local.unknown'', ''local.bind_kind'', ''local.arg_kind'',
     ''local.unused_persist'', ''context.kind'', ''context.root'', ''into.twice'',
     ''catalog.children'', ''catalog.props'', ''catalog.placement'', ''catalog.undeclared'',
     ''catalog.unknown_component'', ''catalog.shadow'', ''catalog.asset'', ''palette.raw_colour'',
     ''palette.logo_paint'', ''palette.scene_colour'', ''props.literal_type'', ''toast.task'',
     ''expr.unknown_callee'', ''expr.unknown_function'', ''expr.arguments'',
     ''foreach.position_key'', ''logo.complexity'']"
  by code_simp

lemma code_rows [coded_rules]:
  "''path.unknown'' \<in> codes" "''roots.not_in_kind'' \<in> codes" "''roots.unknown'' \<in> codes"
  "''roots.whole'' \<in> codes" "''roots.event_outside_callback'' \<in> codes"
  "''roots.error_outside_boundary'' \<in> codes" "''roots.reserved'' \<in> codes" "''roots.shadow'' \<in> codes"
  "''returns.unnamed'' \<in> codes" "''callback.event_field'' \<in> codes" "''callback.unbound'' \<in> codes"
  "''callback.not_callback'' \<in> codes" "''callback.nested'' \<in> codes" "''deps.unknown'' \<in> codes"
  "''deps.unknown_action'' \<in> codes" "''deps.unknown_state'' \<in> codes" "''deps.asset'' \<in> codes"
  "''args.unknown'' \<in> codes" "''query.unknown'' \<in> codes" "''query.history'' \<in> codes"
  "''query.fetch_more'' \<in> codes" "''query.effect_target'' \<in> codes" "''subscription.unknown'' \<in> codes"
  "''local.default'' \<in> codes" "''local.bind'' \<in> codes" "''local.unknown'' \<in> codes"
  "''local.bind_kind'' \<in> codes" "''local.arg_kind'' \<in> codes" "''local.unused_persist'' \<in> codes"
  "''context.kind'' \<in> codes" "''context.root'' \<in> codes" "''into.twice'' \<in> codes"
  "''catalog.children'' \<in> codes" "''catalog.props'' \<in> codes" "''catalog.placement'' \<in> codes"
  "''catalog.undeclared'' \<in> codes" "''catalog.unknown_component'' \<in> codes" "''catalog.shadow'' \<in> codes"
  "''catalog.asset'' \<in> codes" "''palette.raw_colour'' \<in> codes" "''palette.logo_paint'' \<in> codes"
  "''palette.scene_colour'' \<in> codes" "''props.literal_type'' \<in> codes" "''toast.task'' \<in> codes"
  "''expr.unknown_callee'' \<in> codes" "''expr.unknown_function'' \<in> codes" "''expr.arguments'' \<in> codes"
  "''foreach.position_key'' \<in> codes" "''logo.complexity'' \<in> codes"
  using used_codes by (simp_all only: codes_def list.pred_inject)

lemma drafted_simps [simp, coded_rules]:
  "drafted []" "drafted ((code, place, fs) # ds) \<longleftrightarrow> code \<in> codes \<and> drafted ds"
  "drafted (ds @ es) \<longleftrightarrow> drafted ds \<and> drafted es"
  by (simp_all add: drafted_def)

lemma coded_simps [simp, coded_rules]:
  "coded []" "coded (n # ns) \<longleftrightarrow> noted_ok n \<and> coded ns" "coded (ns @ ms) \<longleftrightarrow> coded ns \<and> coded ms"
  "noted_ok (Inr (code, place, fs)) \<longleftrightarrow> code \<in> codes" "noted_ok (Inl e) \<longleftrightarrow> literal_error e"
  "noted_ok (note_of code p fs) \<longleftrightarrow> code \<in> codes"
  "coded (map Inr ds) \<longleftrightarrow> drafted ds"
  by (simp_all add: coded_def noted_ok_def note_of_def drafted_def list_all_iff ball_Un)

lemma coded_concat [simp, coded_rules]:
  "coded (concat (map f xs)) \<longleftrightarrow> (\<forall>x \<in> set xs. coded (f x))"
  by (auto simp: coded_def list_all_iff)

lemma not_in_kind_coded [simp, coded_rules]:
  "noted_ok (Inr (not_in_kind ck path rt place))" "drafted (not_in_kind ck path rt place # ds) \<longleftrightarrow> drafted ds"
  by (simp_all add: not_in_kind_def code_rows)

section \<open>Paths\<close>

lemma descend_drafted [simp]: "drafted (snd (descend m parts path place))"
  by (induction m parts path place rule: descend.induct) (auto simp: code_rows split: option.splits)

lemma check_returns_drafted [simp]: "drafted (check_returns path rest place)"
  by (auto simp: check_returns_def code_rows split: list.splits)

lemma event_field_drafted [simp]: "drafted (snd (event_field ck rest w))"
  by (simp add: event_field_def code_rows split: option.splits list.splits)

lemma agent_task_drafted [simp]: "drafted (snd (agent_task ck dep key tail path place))"
  by (cases tail) (simp_all add: agent_task_def code_rows case_prod_unfold Let_def)

lemma agent_asset_drafted [simp]: "drafted (snd (agent_asset ck key tail path place))"
  by (simp add: agent_asset_def code_rows split: list.splits)

lemma agent_state_drafted [simp]: "drafted (snd (agent_state dep key head tail path place))"
  by (simp add: agent_state_def code_rows split: option.splits)

lemma resolve_agent_drafted [simp]: "drafted (snd (resolve_agent ck dep key rest path place))"
  by (cases rest) (simp_all add: resolve_agent_def code_rows)

lemma resolve_data_drafted [simp]: "drafted (snd (resolve_data ck rt rest path place))"
  by (cases rest) (simp_all add: resolve_data_def whole_def code_rows case_prod_unfold Let_def
      del: descend.simps split: option.split)

lemma resolve_drafted [simp]: "drafted (snd (resolve ck into path w scope owner))"
  by (simp add: resolve_def Let_def code_rows case_prod_unfold split: option.split)

section \<open>The rules\<close>

lemma declaration_parts_coded [simp]:
  "coded (check_local_default l)" "coded (context_notes ck tree)" "coded (into_notes ck site)"
  "coded (let_notes ck into n)" "coded (variable_notes ck into owner as)" "coded (history_notes ck sub)"
  by (auto simp: check_local_default_def context_notes_def into_notes_def let_notes_def variable_notes_def
      history_notes_def code_rows Let_def case_prod_unfold split: option.split local_kind.split)

lemma declaration_notes_coded [simp]: "coded (declaration_notes ck tree)"
  by (simp add: declaration_notes_def local_notes_def Let_def code_rows)

lemma catalog_notes_coded [simp]: "coded (catalog_notes ck n spec ancestors)"
  by (simp add: catalog_notes_def Let_def code_rows)

lemma class_notes_coded [simp]: "coded (class_notes th cls place)"
  by (simp add: class_notes_def Let_def code_rows case_prod_unfold split: option.split)

lemma paint_prop_notes_coded [simp]: "coded (paint_prop_notes ck n p spec)"
  by (simp add: paint_prop_notes_def paint_notes_def scene_colour_notes_def Let_def code_rows
      split: option.split json.split)

lemma literal_hint_error: "literal_hint_raises k s = Some e \<Longrightarrow> literal_error e"
  by (auto simp: literal_hint_raises_def literal_error_def split: if_splits float_class.splits)

lemma literal_notes_coded [simp]: "coded (literal_notes n p spec)"
  by (auto simp: literal_notes_def code_rows literal_hint_error split: option.split json.split)

lemma prop_parts_coded [simp]:
  "coded (callback_notes n p ps holds)" "coded (asset_notes ck n p ps)" "coded (answer_notes ck n p)"
  "coded (toast_notes into n p)" "coded (bind_kind_notes ck n k path)"
  by (simp_all add: callback_notes_def asset_notes_def answer_notes_def toast_notes_def bind_kind_notes_def
      Let_def code_rows split: option.split)

lemma bind_notes_coded [simp]: "coded (fst (bind_notes ck n p spec))"
  by (simp add: bind_notes_def Let_def code_rows split: option.split)

lemma prop_notes_coded [simp]: "coded (fst (prop_notes ck into n spec p))"
  by (simp add: prop_notes_def Let_def case_prod_unfold)

lemma arg_kind_notes_coded [simp]: "coded (arg_kind_notes ck call ms w scope a)"
  by (simp add: arg_kind_notes_def Let_def code_rows split: option.split)

lemma agent_call_notes_coded [simp]: "coded (agent_call_notes ck c w scope)"
  by (simp add: agent_call_notes_def Let_def code_rows split: option.split)

lemma query_effect_notes_coded [simp]: "coded (query_effect_notes ck c w)"
  by (simp add: query_effect_notes_def Let_def code_rows split: option.split json.split)

lemma util_call_notes_coded [simp]: "coded (util_call_notes ck c w t)"
  by (simp add: util_call_notes_def Let_def code_rows split: option.split)

lemma let_binding_coded [simp]: "coded (snd (let_binding ck into name items w scope))"
  by (simp add: let_binding_def Let_def code_rows case_prod_unfold split: option.split list.split json.split)

lemma check_component_coded [simp]:
  "coded (so_far s) \<Longrightarrow> coded (so_far (check_component ck into n ancestors s))"
  by (simp add: check_component_def Let_def unknown_component_notes_def shadow_notes_def code_rows comp_def
      split: option.split)

interpretation codes_kept: visitor_invariant "check_visitor ck into" "\<lambda>s :: check_state. coded (so_far s)"
  for ck into
proof
  fix s :: check_state and e and scope :: "string \<rightharpoonup> port_match"
  assume "coded (so_far s)"
  then show "coded (so_far (visit (check_visitor ck into) e scope s))"
    by (cases e) (simp_all add: check_visitor_def)
qed (auto simp: check_visitor_def Let_def case_prod_unfold)

lemma logo_walk_coded [simp]: "coded (logo_walk lm demo d n)"
  by (induction lm demo d n rule: logo_walk.induct)
    (simp add: complexity_def loop_notes_def code_rows)

lemma persist_notes_coded [simp]: "coded (persist_notes ck bound)"
  by (auto simp: persist_notes_def coded_def list_all_iff noted_ok_def note_of_def code_rows set_map_filter_iff
      split: if_splits)

lemma tree_notes_coded: "coded (tree_notes ck tree)"
proof -
  have "coded (so_far (walked ck tree))"
    unfolding walked_def by (rule codes_kept.walk_tree_keeps) simp
  then show ?thesis
    by (simp add: tree_notes_def walked_def Let_def check_logo_def complexity_def code_rows)
qed

section \<open>Totality\<close>

lemma codes_have_rows: "code \<in> codes \<Longrightarrow> \<exists>f. finding_of load_vocabulary code place fs = Inr f"
proof -
  assume "code \<in> codes"
  then have "map_of (diagnostics load_vocabulary) code \<noteq> None"
    by (simp add: codes_def map_of_eq_None_iff)
  then show ?thesis by (auto simp: finding_of_def)
qed

lemma findings_of_coded: "coded ns \<Longrightarrow> findings_of load_vocabulary ns = Inl e \<Longrightarrow> literal_error e"
proof (induction ns)
  case (Cons n ns)
  show ?case
  proof (cases n)
    case (Inl e')
    then show ?thesis using Cons.prems by (auto simp: findings_of_def)
  next
    case (Inr d)
    then obtain code place fs where n: "n = Inr (code, place, fs)" by (cases d) auto
    obtain f where "finding_of load_vocabulary code place fs = Inr f"
      using Cons.prems(1) n codes_have_rows [of code place fs] by auto
    then show ?thesis
      using Cons n by (cases "findings_of load_vocabulary ns") (auto simp: findings_of_def)
  qed
qed (simp add: findings_of_def)

text \<open>
  C11. The checker is total: once a tree's scope is resolved and its kind and locals are readable,
  \<open>check_blok_tree\<close> returns findings. No code it reports is missing from the shipped table, and the
  only exceptions are \<open>int(float(value))\<close> of an infinity or a NaN.
\<close>

theorem check_blok_tree_total:
  assumes "make_checker load_vocabulary ext tree sc view = Inr ck"
    and "check_blok_tree load_vocabulary ext tree sc view = Inl e"
  shows "e = OverflowError \<or> e = ValueError [Txt ''cannot convert float NaN to integer'']"
  using assms findings_of_coded [OF tree_notes_coded] by (simp add: check_blok_tree_def literal_error_def)

section \<open>Literals that are no finite number\<close>

interpretation component_visits: visitor_reaches "check_visitor ck into"
  "\<lambda>s :: check_state. \<forall>p \<in> set (or_nil (props n)).
     set (fst (prop_notes ck into n (ck_component ck (component n)) p)) \<subseteq> set (so_far s)"
  "At_component n ancestors" names
  for ck into n ancestors names
proof
  fix s :: check_state and e and scope :: "string \<rightharpoonup> port_match"
  assume "\<forall>p \<in> set (or_nil (props n)).
     set (fst (prop_notes ck into n (ck_component ck (component n)) p)) \<subseteq> set (so_far s)"
  then show "\<forall>p \<in> set (or_nil (props n)).
     set (fst (prop_notes ck into n (ck_component ck (component n)) p)) \<subseteq> set (so_far (visit (check_visitor ck into) e scope s))"
    using visit_keeps_notes by (meson subset_trans)
next
  fix scope :: "string \<rightharpoonup> port_match" and s
  show "\<forall>p \<in> set (or_nil (props n)). set (fst (prop_notes ck into n (ck_component ck (component n)) p)) \<subseteq>
      set (so_far (visit (check_visitor ck into) (At_component n ancestors) scope s))"
    by (auto simp: check_visitor_def check_component_def Let_def)
qed (auto simp: check_visitor_def Let_def case_prod_unfold)

lemma tree_notes_component:
  assumes "(At_component n ancestors, names) \<in> set (tree_events (ck_voc ck) tree)" "p \<in> set (or_nil (props n))"
    and "note \<in> set (fst (prop_notes ck (map fst (into_sites tree)) n (ck_component ck (component n)) p))"
  shows "note \<in> set (tree_notes ck tree)"
proof -
  have "\<forall>p \<in> set (or_nil (props n)).
      set (fst (prop_notes ck (map fst (into_sites tree)) n (ck_component ck (component n)) p)) \<subseteq> set (so_far (walked ck tree))"
    unfolding walked_def by (rule component_visits.walk_tree_reaches) (rule assms(1))
  then show ?thesis using assms(2,3) walked_notes by blast
qed

lemma findings_of_raises: "Inl e \<in> set ns \<Longrightarrow> findings_of voc ns \<noteq> Inr fs"
  by (force simp: findings_of_def map_result_Inr list_all2_conv_all_nth in_set_conv_nth)

text \<open>
  C21. A literal that \<open>float\<close> reads as an infinity or a NaN, bound to an INT prop of a component the
  view knows, ends the check of the whole tree with an exception: no findings are returned, not even
  the \<open>props.literal_type\<close> the literal deserves.
\<close>

theorem infinite_literal_raises:
  assumes "(At_component n ancestors, names) \<in> set (tree_events voc tree)" "p \<in> set (or_nil (props n))"
    and "view_component view (component n) = Some spec"
    and "find (\<lambda>q. cp_key q = pr_key p) (cc_props spec) = Some q"
    and "cp_kind q = V_INT" "pr_key p \<noteq> BIND_PROP" "static_value p = JStr s"
    and "float_of s = Infinite \<or> float_of s = Not_a_number"
  shows "isl (check_blok_tree voc ext tree sc (Some view))"
proof (rule ccontr)
  assume "\<not> isl (check_blok_tree voc ext tree sc (Some view))"
  then obtain fs where "check_blok_tree voc ext tree sc (Some view) = Inr fs"
    by (cases "check_blok_tree voc ext tree sc (Some view)") simp_all
  then obtain ck where ck: "make_checker voc ext tree sc (Some view) = Inr ck"
    and found: "findings_of voc (tree_notes ck tree) = Inr fs"
    by (auto simp: check_blok_tree_Inr)
  note ck_fields = make_checker_fields [OF ck]
  obtain e where "literal_hint_raises V_INT s = Some e"
    using assms(8) by (auto simp: literal_hint_raises_def)
  then have "Inl e \<in> set (literal_notes n p (prop_spec (ck_component ck (component n)) (pr_key p)))"
    using assms(3-7) ck_fields(2) by (simp add: ck_component_def prop_spec_def literal_notes_def literal_value_kind_def)
  then have "Inl e \<in> set (tree_notes ck tree)"
    using assms(1,2) ck_fields(1)
    by (intro tree_notes_component [of n ancestors names ck tree p]) (auto simp: prop_notes_def Let_def case_prod_unfold)
  then show False using findings_of_raises found by blast
qed

definition counted_view :: blok_view where
  "counted_view =
     \<lparr>view_components = [''Counter'' \<mapsto> \<lparr>cc_name = ''Counter'', cc_description = None,
          cc_props = [\<lparr>cp_key = ''value'', cp_kind = V_INT, cp_required = False, cp_description = None, cp_event = None\<rparr>],
          cc_accepts_children = False, cc_context = HTML, cc_children_context = None, cc_inherits_context = False,
          cc_downstream_of = [], cc_not_downstream_of = [], cc_text_prop = None, cc_catalog = None\<rparr>],
      view_functions = Map.empty, view_label = ''counted'', view_complete = False, view_shadows = Map.empty\<rparr>"

definition counter :: "string \<Rightarrow> component_node" where
  "counter literal = Node ''count'' ''Counter'' (Some [\<lparr>pr_key = ''value'', static_value = JStr literal,
     dynamic_value = None, declares_value = None, pr_agent_call = None, pr_util_call = None\<rparr>]) None"

lemma counter_visited: "(At_component (counter literal) [], {}) \<in> set (tree_events load_vocabulary (counter literal))"
  by (simp add: counter_def tree_events_def Let_def into_names_def into_sites_def into_list_def map_filter_simps)

theorem infinite_literal_raises_witness:
  "isl (check_blok_tree load_vocabulary plain_externals (counter ''inf'') (plain_scope ''agent'' ''HTML'') (Some counted_view))"
  by (rule infinite_literal_raises [OF counter_visited,
        where p = "\<lparr>pr_key = ''value'', static_value = JStr ''inf'', dynamic_value = None, declares_value = None,
                    pr_agent_call = None, pr_util_call = None\<rparr>"])
    (simp add: counter_def, simp add: counter_def counted_view_def view_component_def, simp, simp, simp add: BIND_PROP_def, simp,
     code_simp)

lemma counter_raises:
  "check_blok_tree load_vocabulary plain_externals (counter ''inf'') (plain_scope ''agent'' ''HTML'') (Some counted_view) = Inl OverflowError"
  by code_simp

theorem check_blok_tree_total_witness:
  "\<exists>e. check_blok_tree load_vocabulary plain_externals (counter ''inf'') (plain_scope ''agent'' ''HTML'') (Some counted_view) = Inl e \<and>
       (e = OverflowError \<or> e = ValueError [Txt ''cannot convert float NaN to integer''])"
proof -
  have "\<not> isl (make_checker load_vocabulary plain_externals (counter ''inf'') (plain_scope ''agent'' ''HTML'') (Some counted_view))"
    by code_simp
  then obtain ck where "make_checker load_vocabulary plain_externals (counter ''inf'') (plain_scope ''agent'' ''HTML'') (Some counted_view) = Inr ck"
    by (auto simp: isl_def split: sum.splits) (metis sum.exhaust)
  from check_blok_tree_total [OF this counter_raises] show ?thesis using counter_raises by blast
qed

end
