(* ===== verification/Formulas.thy ===== *)
theory Formulas
  imports Port_Models Vocabulary
begin

text \<open>
  Runtime formulas (\<open>rekuest_core/inputs/models.py\<close>): the checks that hold an implementation's
  estimated runtime, and what it says it can handle, to what can be computed, with what passing
  them means for the formula.
\<close>

section \<open>The code\<close>

definition AGENT_HARDWARE :: "string list" where
  "AGENT_HARDWARE = [''cpu_count'', ''memory_mib'', ''gpu_count'', ''gpu_memory_mib'']"

definition FORMULA_ARITHMETIC :: "string list" where
  "FORMULA_ARITHMETIC =
     [''math.add'', ''math.sub'', ''math.mul'', ''math.div'', ''math.neg'', ''math.abs'', ''math.floor'', ''math.ceil'']"

definition FORMULA_COMPARISONS :: "string list" where
  "FORMULA_COMPARISONS = [''cmp.gt'', ''cmp.gte'', ''cmp.lt'', ''cmp.lte'']"

definition FORMULA_COMBINATIONS :: "string list" where
  "FORMULA_COMBINATIONS = [''logic.all'', ''logic.any'']"

text \<open>\<open>_check_formula_number\<close> on each operand; \<open>read\<close> is \<open>check_read\<close> with the variables it closes over.\<close>

fun check_formula_numbers :: "(string \<Rightarrow> 's \<Rightarrow> 's result) \<Rightarrow> message \<Rightarrow> argument list \<Rightarrow> 's \<Rightarrow> 's result" where
  "check_formula_numbers read owner [] s = Inr s"
| "check_formula_numbers read owner (Argument k lit p ac uc vl vd # as) s =
     and_then
       (case uc of
          Some c \<Rightarrow>
            if operation c \<notin> set FORMULA_ARITHMETIC
            then Inl (ValueError (owner @ [Txt '': '', Txt (operation c), Txt '' cannot be computed when matching actions'']))
            else check_formula_numbers read owner (or_nil (arguments c)) s
        | None \<Rightarrow>
            (case p of
               Some path \<Rightarrow> read path s
             | None \<Rightarrow>
                 if is_number lit then Inr s
                 else Inl (ValueError (owner @ [Txt '' uses '', Repr lit, Txt '': it only works on numbers'']))))
       (check_formula_numbers read owner as)"

definition check_agent_read :: "string list \<Rightarrow> string \<Rightarrow> message \<Rightarrow> check" where
  "check_agent_read segments path owner =
     raise_if (hd segments \<noteq> ''agent'' \<or> length segments \<noteq> 2 \<or> segments ! 1 \<notin> set AGENT_HARDWARE)
       (ValueError (owner @ [Txt '' reads '', repr_str path, Txt '': a formula reads descriptors and agent hardware'']))"

definition fits_read :: "message \<Rightarrow> string \<Rightarrow> unit \<Rightarrow> unit result" where
  "fits_read owner path s =
     (let segments = split_on (CHR ''/'') path
      in if hd segments = ''value''
         then raise_if (length segments \<noteq> 2 \<or> \<not> starts_with ''@'' (segments ! 1))
                (ValueError (owner @ [Txt '' reads '', repr_str path, Txt '': name a descriptor of this argument'']))
         else check_agent_read segments path owner)"

fun check_fits :: "message \<Rightarrow> util_call \<Rightarrow> check"
  and check_fits_arguments :: "message \<Rightarrow> argument list \<Rightarrow> check"
  and check_fits_items :: "message \<Rightarrow> argument list \<Rightarrow> check"
where
  "check_fits owner (UtilCall op args) =
     (if op \<in> set FORMULA_COMPARISONS then check_formula_numbers (fits_read owner) owner (or_nil args) ()
      else if op \<in> set FORMULA_COMBINATIONS then check_fits_arguments owner (or_nil args)
      else Inl (ValueError (owner @ [Txt '' must be a comparison, or several joined by and/or, not '', Txt op])))"
| "check_fits_arguments owner [] = Inr ()"
| "check_fits_arguments owner (Argument k lit p ac uc vl vd # as) =
     and_then (check_fits_items owner (or_nil vl)) (\<lambda>_. check_fits_arguments owner as)"
| "check_fits_items owner [] = Inr ()"
| "check_fits_items owner (Argument k lit p ac uc vl vd # items) =
     and_then (case uc of None \<Rightarrow> Inl (ValueError (owner @ [Txt '': and/or combine comparisons'']))
               | Some c \<Rightarrow> check_fits owner c) (\<lambda>_. check_fits_items owner items)"

text \<open>\<open>_check_estimated_runtime\<close>, which collects the arguments it has read in a set.\<close>

definition runtime_read :: "arg_port list \<Rightarrow> message \<Rightarrow> string \<Rightarrow> string list \<Rightarrow> string list result" where
  "runtime_read ports owner path seen =
     (let segments = split_on (CHR ''/'') path
      in if hd segments = ''args''
         then
           let port = (if 1 < length segments then dict_of (map (\<lambda>p. (a_key_of p, p)) ports) (segments ! 1) else None)
           in and_then (raise_if (length segments \<noteq> 3 \<or> \<not> starts_with ''@'' (segments ! 2) \<or>
                  (case port of None \<Rightarrow> True | Some p \<Rightarrow> pt_identifier (a_base p) \<in> {None, Some ''''}))
                (ValueError (owner @ [Txt '' reads '', repr_str path, Txt '': it can read the descriptors of a structure argument'']))) (\<lambda>_.
              let read = List.insert (segments ! 1) seen
              in and_then (raise_if (1 < length read)
                   (ValueError (owner @ [Txt '' reads '', repr_strs (sorted_set read), Txt '': the action query has one object, so it reads one argument'']))) (\<lambda>_.
                 Inr read))
         else and_then (check_agent_read segments path owner) (\<lambda>_. Inr seen))"

definition check_estimated_runtime :: "util_call \<Rightarrow> arg_port list \<Rightarrow> message \<Rightarrow> check" where
  "check_estimated_runtime call ports owner =
     and_then (raise_if (operation call \<notin> set FORMULA_ARITHMETIC)
       (ValueError (owner @ [Txt '': '', Txt (operation call), Txt '' cannot be computed when matching actions'']))) (\<lambda>_.
     and_then (check_formula_numbers (runtime_read ports owner) owner (or_nil (arguments call)) []) (\<lambda>_. Inr ()))"

text \<open>\<open>_check_estimated_runtime_ui\<close>: any pure function of the vocabulary, over the form and the hardware.\<close>

definition ui_read :: "arg_port list \<Rightarrow> message \<Rightarrow> string \<Rightarrow> check" where
  "ui_read ports owner path =
     (let segments = split_on (CHR ''/'') path
      in if hd segments = ''args'' \<and> tl segments \<noteq> []
         then raise_if (segments ! 1 \<notin> set (map a_key_of ports))
                (ValueError (owner @ [Txt '' reads args.'', Txt (segments ! 1), Txt '', but the action has no such argument'']))
         else check_agent_read segments path owner)"

fun ui_walk :: "arg_port list \<Rightarrow> message \<Rightarrow> argument list \<Rightarrow> check" where
  "ui_walk ports owner [] = Inr ()"
| "ui_walk ports owner (Argument k lit p ac uc vl vd # as) =
     run_checks
       [raise_if (given ac) (ValueError (owner @ [Txt '' must be pure: nested agent calls are not allowed''])),
        (case p of None \<Rightarrow> Inr () | Some path \<Rightarrow> ui_read ports owner path),
        (case uc of None \<Rightarrow> Inr () | Some c \<Rightarrow> ui_walk ports owner (or_nil (arguments c))),
        ui_walk ports owner (or_nil vl), ui_walk ports owner (or_nil vd), ui_walk ports owner as]"

definition pure_function :: "vocabulary \<Rightarrow> string \<Rightarrow> bool" where
  "pure_function voc name = (case vocabulary_function voc name of None \<Rightarrow> False | Some f \<Rightarrow> \<not> fn_effect f)"

definition check_estimated_runtime_ui :: "vocabulary \<Rightarrow> util_call \<Rightarrow> arg_port list \<Rightarrow> message \<Rightarrow> check" where
  "check_estimated_runtime_ui voc call ports owner =
     and_then (for_each (\<lambda>c. raise_if (\<not> pure_function voc (operation c))
         (ValueError (owner @ [Txt '': '', Txt (operation c), Txt '' is not a pure function of the blok language''])))
       (call # iter_util_calls (or_nil (arguments call)))) (\<lambda>_.
     ui_walk ports owner (or_nil (arguments call)))"

section \<open>What passing means\<close>

text \<open>The functions a number is computed with, the paths it reads and the literals it uses.\<close>

fun formula_calls :: "argument list \<Rightarrow> string list"
  where
  "formula_calls [] = []"
| "formula_calls (Argument k lit p ac uc vl vd # as) =
     (case uc of None \<Rightarrow> [] | Some c \<Rightarrow> operation c # formula_calls (or_nil (arguments c))) @ formula_calls as"

fun formula_reads :: "argument list \<Rightarrow> string list" where
  "formula_reads [] = []"
| "formula_reads (Argument k lit p ac uc vl vd # as) =
     (case uc of None \<Rightarrow> (case p of None \<Rightarrow> [] | Some path \<Rightarrow> [path])
      | Some c \<Rightarrow> formula_reads (or_nil (arguments c))) @ formula_reads as"

fun formula_literals :: "argument list \<Rightarrow> json list" where
  "formula_literals [] = []"
| "formula_literals (Argument k lit p ac uc vl vd # as) =
     (case uc of None \<Rightarrow> (case p of None \<Rightarrow> [lit] | Some path \<Rightarrow> [])
      | Some c \<Rightarrow> formula_literals (or_nil (arguments c))) @ formula_literals as"

text \<open>The reads of a loop, threaded through the state.\<close>

fun read_all :: "(string \<Rightarrow> 's \<Rightarrow> 's result) \<Rightarrow> string list \<Rightarrow> 's \<Rightarrow> 's result" where
  "read_all read [] s = Inr s"
| "read_all read (path # paths) s = and_then (read path s) (read_all read paths)"

lemma read_all_append: "read_all read (ps @ qs) s = and_then (read_all read ps s) (read_all read qs)"
proof (induction ps arbitrary: s)
  case (Cons p ps)
  then show ?case by (cases "read p s") auto
qed simp

lemma check_formula_numbers_iff:
  "check_formula_numbers read owner as s = Inr s' \<longleftrightarrow>
     set (formula_calls as) \<subseteq> set FORMULA_ARITHMETIC \<and> (\<forall>lit \<in> set (formula_literals as). is_number lit) \<and>
     read_all read (formula_reads as) s = Inr s'"
proof (induction as arbitrary: s s' rule: formula_calls.induct)
  case (2 k lit p ac uc vl vd as)
  show ?case
  proof (cases uc)
    case None
    then show ?thesis using 2(2) by (cases p) (auto simp: result_iff)
  next
    case (Some c)
    then show ?thesis using 2 by (auto simp: result_iff read_all_append)
  qed
qed simp

definition hardware_read :: "string \<Rightarrow> bool" where
  "hardware_read path = (\<exists>h \<in> set AGENT_HARDWARE. path = ''agent/'' @ h)"

lemma split_two: "split_on c path = [a, b] \<longleftrightarrow> path = a @ c # b \<and> c \<notin> set a \<and> c \<notin> set b"
proof
  assume s: "split_on c path = [a, b]"
  then have "path = join [c] [a, b]" by (metis join_split_on)
  with s show "path = a @ c # b \<and> c \<notin> set a \<and> c \<notin> set b"
    using split_on_free [of a c path] split_on_free [of b c path] by simp
next
  assume "path = a @ c # b \<and> c \<notin> set a \<and> c \<notin> set b"
  then show "split_on c path = [a, b]" by (simp add: split_on_append split_on_id)
qed

lemma split_three: "split_on c path = [a, b, d] \<longleftrightarrow>
  path = a @ c # b @ c # d \<and> c \<notin> set a \<and> c \<notin> set b \<and> c \<notin> set d"
proof
  assume s: "split_on c path = [a, b, d]"
  then have "path = join [c] [a, b, d]" by (metis join_split_on)
  with s show "path = a @ c # b @ c # d \<and> c \<notin> set a \<and> c \<notin> set b \<and> c \<notin> set d"
    using split_on_free [of a c path] split_on_free [of b c path] split_on_free [of d c path] by simp
next
  assume "path = a @ c # b @ c # d \<and> c \<notin> set a \<and> c \<notin> set b \<and> c \<notin> set d"
  then show "split_on c path = [a, b, d]" by (simp add: split_on_append split_on_id)
qed

lemma check_agent_read_iff:
  "check_agent_read (split_on (CHR ''/'') path) path owner = Inr () \<longleftrightarrow> hardware_read path"
proof
  assume "check_agent_read (split_on (CHR ''/'') path) path owner = Inr ()"
  then obtain h where "split_on (CHR ''/'') path = [''agent'', h]" "h \<in> set AGENT_HARDWARE"
    by (cases "split_on (CHR ''/'') path"; cases "tl (split_on (CHR ''/'') path)")
      (auto simp: check_agent_read_def raise_if_Inr)
  then show "hardware_read path" by (auto simp: split_two hardware_read_def)
next
  assume "hardware_read path"
  then obtain h where "h \<in> set AGENT_HARDWARE" "path = ''agent/'' @ h" by (auto simp: hardware_read_def)
  moreover have "CHR ''/'' \<notin> set h" using \<open>h \<in> _\<close> by (auto simp: AGENT_HARDWARE_def)
  ultimately have "split_on (CHR ''/'') path = [''agent'', h]" by (simp add: split_on_id)
  then show "check_agent_read (split_on (CHR ''/'') path) path owner = Inr ()"
    using \<open>h \<in> _\<close> by (simp add: check_agent_read_def raise_if_Inr)
qed

text \<open>What an estimate may read of the arguments: \<open>args/<port>/@<descriptor>\<close> of one port with an identifier.\<close>

definition argument_read :: "arg_port list \<Rightarrow> string \<Rightarrow> string \<Rightarrow> bool" where
  "argument_read ports key path \<longleftrightarrow>
     (\<exists>descriptor p i. split_on (CHR ''/'') path = [''args'', key, ''@'' @ descriptor] \<and>
        dict_of (map (\<lambda>p. (a_key_of p, p)) ports) key = Some p \<and> pt_identifier (a_base p) = Some i \<and> i \<noteq> '''')"

lemma starts_with_at: "starts_with ''@'' s \<longleftrightarrow> (\<exists>d. s = ''@'' @ d)"
  by (cases s) (auto simp: starts_with_def)

lemma hd_three: "hd xs = a \<and> length xs = 3 \<longleftrightarrow> (\<exists>b c. xs = [a, b, c])"
  by (auto simp: length_3)

lemma runtime_read_Inr:
  "runtime_read ports owner path seen = Inr seen' \<longleftrightarrow>
     (hardware_read path \<and> seen' = seen) \<or>
     (\<exists>key. argument_read ports key path \<and> seen' = List.insert key seen \<and> length (List.insert key seen) \<le> 1)"
proof (cases "hd (split_on (CHR ''/'') path) = ''args''")
  case True
  then have not_hw: "\<not> hardware_read path"
    using first_part_hd [of "CHR ''/''" path] by (auto simp: hardware_read_def first_part_def)
  let ?segs = "split_on (CHR ''/'') path"
  have "runtime_read ports owner path seen = Inr seen' \<longleftrightarrow>
      length ?segs = 3 \<and> starts_with ''@'' (?segs ! 2) \<and>
      (\<exists>p i. dict_of (map (\<lambda>p. (a_key_of p, p)) ports) (?segs ! 1) = Some p \<and> pt_identifier (a_base p) = Some i \<and> i \<noteq> '''') \<and>
      seen' = List.insert (?segs ! 1) seen \<and> length (List.insert (?segs ! 1) seen) \<le> 1"
    unfolding runtime_read_def Let_def using True
    by (auto simp: result_iff not_less simp del: dict_of_None split: option.splits if_splits)
  also have "\<dots> \<longleftrightarrow> (\<exists>key. argument_read ports key path \<and> seen' = List.insert key seen \<and> length (List.insert key seen) \<le> 1)"
  proof (cases "length ?segs = 3")
    case len: True
    with True obtain b c where "?segs = [''args'', b, c]" using hd_three [of ?segs "''args''"] by auto
    then show ?thesis by (auto simp: argument_read_def starts_with_at)
  qed (auto simp: argument_read_def)
  finally show ?thesis using not_hw by blast
next
  case False
  then have "\<not> argument_read ports key path" for key by (auto simp: argument_read_def)
  with False show ?thesis
    by (auto simp: runtime_read_def Let_def result_iff check_agent_read_iff)
qed

lemma read_all_runtime:
  "(\<exists>seen'. read_all (runtime_read ports owner) paths seen = Inr seen') \<and> length seen \<le> 1 \<longleftrightarrow>
     length seen \<le> 1 \<and> (\<exists>key. set seen \<subseteq> {key} \<and> (\<forall>path \<in> set paths. hardware_read path \<or> argument_read ports key path))"
proof (induction paths arbitrary: seen)
  case Nil
  show ?case by (cases seen) auto
next
  case (Cons path paths)
  have uniq: "argument_read ports a path \<Longrightarrow> argument_read ports b path \<Longrightarrow> a = b" for a b
    by (auto simp: argument_read_def)
  have split: "(\<exists>seen'. read_all (runtime_read ports owner) (path # paths) seen = Inr seen') \<longleftrightarrow>
      (\<exists>mid. runtime_read ports owner path seen = Inr mid \<and> (\<exists>seen'. read_all (runtime_read ports owner) paths mid = Inr seen'))"
    by (auto simp: result_iff)
  show ?case
  proof (cases "hardware_read path")
    case True
    then have "\<not> argument_read ports key path" for key
      by (auto simp: argument_read_def hardware_read_def)
    with True show ?thesis using Cons.IH [of seen] unfolding split runtime_read_Inr by auto
  next
    case False
    have "(\<exists>key. argument_read ports key path \<and> length (List.insert key seen) \<le> 1 \<and>
             (\<exists>seen'. read_all (runtime_read ports owner) paths (List.insert key seen) = Inr seen')) \<longleftrightarrow>
          (\<exists>key. argument_read ports key path \<and> length (List.insert key seen) \<le> 1 \<and>
             (\<exists>k. set (List.insert key seen) \<subseteq> {k} \<and> (\<forall>path \<in> set paths. hardware_read path \<or> argument_read ports k path)))"
      using Cons.IH by blast
    moreover have "length seen \<le> 1 \<Longrightarrow> length (List.insert key seen) \<le> 1 \<longleftrightarrow> set seen \<subseteq> {key}" for key
      by (cases seen) (auto simp: List.insert_def)
    ultimately show ?thesis
      using False unfolding split runtime_read_Inr
      by (auto 0 4 simp: dest: uniq)
  qed
qed

text \<open>
  An estimated runtime is accepted exactly when it is a number the server can compute: every
  function in it is arithmetic, every literal a number, and every path reads the agent's hardware
  or a descriptor of one and the same argument, a root port with an identifier.
\<close>

theorem check_estimated_runtime_iff:
  "check_estimated_runtime call ports owner = Inr () \<longleftrightarrow>
     insert (operation call) (set (formula_calls (or_nil (arguments call)))) \<subseteq> set FORMULA_ARITHMETIC \<and>
     (\<forall>lit \<in> set (formula_literals (or_nil (arguments call))). is_number lit) \<and>
     (\<exists>key. \<forall>path \<in> set (formula_reads (or_nil (arguments call))). hardware_read path \<or> argument_read ports key path)"
  using read_all_runtime [of ports owner "formula_reads (or_nil (arguments call))" "[]"]
  by (auto simp: check_estimated_runtime_def result_iff check_formula_numbers_iff)

end
