(* ===== verification/Examples.thy ===== *)
theory Examples
  imports Checker_Total Formulas
begin

text \<open>
  The properties of the calls, trees, ports, formulas, declarations, catalogs and locals at work: each
  one applied to a small input on which the code's definitions are evaluated.
\<close>

section \<open>Calls and trees\<close>

definition greater :: "json \<Rightarrow> util_call" where
  "greater lit =
     UtilCall ''cmp.gt'' (Some
       [Argument (Some ''left'') JNull (Some ''other/x'') None None None None,
        Argument (Some ''right'') lit None None None None None])"

theorem check_pure_call_idempotent_witness:
  "check_pure_call (greater (JInt 1)) (Some [''other'']) [] [] False = Inr (greater (JInt 1))"
  by (rule check_pure_call_idempotent [of "greater (JBool True)" "Some [''other'']" "[]" "[]" False]) code_simp

definition anchored :: component_node where
  "anchored = Node ''stage'' ''Scene'' None (Some
     [Node ''here'' ANCHOR_COMPONENT (Some [(no_value ''dep'')\<lparr>static_value := JStr ''microscope''\<rparr>]) None])"

theorem check_action_blok_anchors_iff_witness:
  "check_action_blok_anchors [anchored] [''microscope''] = Inr ()"
  by (subst check_action_blok_anchors_iff) code_simp

section \<open>Ports and formulas\<close>

definition counted :: arg_port where
  "counted = ArgPort (example_base ''count'' K_INT) None (JInt 3) None None None"

definition image_port :: arg_port where
  "image_port = ArgPort ((example_base ''img'' K_STRUCTURE)\<lparr>pt_identifier := Some ''@mikro/image''\<rparr>) None JNull None None None"

definition nested_ports :: "arg_port list" where
  "nested_ports = [example_port ''many'' K_LIST [example_port ''...'' K_INT []], counted, image_port]"

theorem build_ports_sound_witness:
  "list_all (sound_port plain_externals) (port_tree nested_ports)"
proof -
  have "build_ports plain_externals nested_ports = Inr nested_ports" by code_simp
  from build_ports_sound [OF this] show ?thesis by (simp add: list_all_iff)
qed

definition double_size :: util_call where
  "double_size =
     UtilCall ''math.mul'' (Some
       [Argument (Some ''left'') (JInt 2) None None None None None,
        Argument (Some ''right'') JNull (Some ''args/img/@size'') None None None None])"

lemma double_size_reads: "argument_read [image_port] ''img'' ''args/img/@size''"
proof -
  have "split_on (CHR ''/'') ''args/img/@size'' = [''args'', ''img'', ''@'' @ ''size'']" by code_simp
  moreover have "dict_of (map (\<lambda>p. (a_key_of p, p)) [image_port]) ''img'' = Some image_port" by code_simp
  moreover have "pt_identifier (a_base image_port) = Some ''@mikro/image''" by (simp add: image_port_def)
  ultimately show ?thesis unfolding argument_read_def by blast
qed

theorem check_estimated_runtime_iff_witness:
  "check_estimated_runtime double_size [image_port] [] = Inr ()"
proof (subst check_estimated_runtime_iff, intro conjI)
  show "\<exists>key. \<forall>path \<in> set (formula_reads (or_nil (arguments double_size))).
      hardware_read path \<or> argument_read [image_port] key path"
    using double_size_reads by (intro exI [of _ "''img''"]) (simp add: double_size_def)
qed code_simp+

section \<open>Declarations and catalogs\<close>

definition stage_query :: blok_query where
  "stage_query = \<lparr>q_key = ''stages'', q_document = ''query Stages { stages { id } }'', q_variables = [], q_more = None\<rparr>"

lemma stage_declarations:
  "operation_keyword (q_document stage_query) = ''query''" "is_catalog ''ui@1''" "is_name ''stages''"
  by code_simp+

theorem check_blok_declarations_iff_witness:
  "check_blok_declarations load_vocabulary ''agent'' [''ui@1''] [] [stage_query] [] [] None = Inr ()"
  by (subst check_blok_declarations_iff) (simp add: stage_declarations declared_ok_def, simp add: stage_query_def stage_declarations)

definition foreach_component :: "string \<Rightarrow> catalog_component" where
  "foreach_component catalog =
     \<lparr>cc_name = ''foreach'', cc_description = None, cc_props = [], cc_accepts_children = True, cc_context = HTML,
      cc_children_context = None, cc_inherits_context = True, cc_downstream_of = [], cc_not_downstream_of = [],
      cc_text_prop = None, cc_catalog = Some catalog\<rparr>"

definition base_file :: catalog_file where
  "base_file = \<lparr>cf_name = BASE_NAME, cf_version = Some 2, cf_components = [foreach_component ''base@2'']\<rparr>"

theorem base_never_shadowed_witness:
  "view_components (blok_view load_vocabulary [base_file] [(''app'', [foreach_component ''''], [])] True) ''foreach'' =
     Some (foreach_component ''base@2'')"
proof -
  have digit: "digit 2 = CHR ''2''" by code_simp
  have spec: "spec_view [base_file] = (''base@2'', [''foreach'' \<mapsto> foreach_component ''base@2''], Map.empty)"
    by (simp add: spec_view_def base_file_def add_catalog_def add_component_def catalog_label_def show_int_def show_nat.simps
        digit foreach_component_def BASE_NAME_def)
  show ?thesis
    by (rule base_never_shadowed [OF spec]) (simp_all add: of_base_def foreach_component_def)
qed

section \<open>Locals\<close>

definition count_local :: blok_local where
  "count_local =
     \<lparr>lo_key = ''count'', lo_kind = None, lo_identifier = None, lo_nullable = None, lo_effects = None, lo_choices = None,
      lo_reference_unit = None, lo_proposed_units = None, lo_dimension = None, lo_children = None, lo_validators = None,
      lo_default = JInt 3, lo_widget = None, lo_requires = None, lo_persist = None\<rparr>"

definition count_type :: typed where
  "count_type = the (default_type (JInt 3))"

definition resolved_count :: blok_local where
  "resolved_count = projr (build_local plain_externals (typed_fields count_local count_type))"

lemma count_candidate: "candidates count_local [] [] = [count_type]"
  by code_simp

lemma count_builds: "\<not> isl (build_local plain_externals (typed_fields count_local count_type))"
  by code_simp

theorem resolve_local_rules_witness: "resolve_local plain_externals count_local [] [] = Inr resolved_count"
proof (subst resolve_local_rules)
  have "build_local plain_externals (typed_fields count_local count_type) = Inr resolved_count"
    using count_builds by (cases "build_local plain_externals (typed_fields count_local count_type)")
      (simp_all add: resolved_count_def)
  moreover have "\<not> kind_given count_local"
    by (simp add: kind_given_def count_local_def)
  ultimately show "if kind_given count_local then resolved_count = count_local
      else (\<exists>us t vs. candidates count_local [] [] = us @ t # vs \<and>
              (\<forall>u \<in> set us. typed_local plain_externals count_local u = Inr None) \<and>
              build_local plain_externals (typed_fields count_local t) = Inr resolved_count) \<or>
           (\<forall>t \<in> set (candidates count_local [] []). typed_local plain_externals count_local t = Inr None) \<and>
           any_local plain_externals count_local = Inr resolved_count"
    by (simp add: count_candidate) (metis append_Nil empty_iff empty_set)
qed

definition counting_scope :: blok_scope where
  "counting_scope = (plain_scope ''agent'' ''HTML'')\<lparr>sc_locals := [count_local]\<rparr>"

definition counted_scope :: blok_scope where
  "counted_scope = projr (resolve_scope load_vocabulary plain_externals (panel []) counting_scope None)"

lemma counting_resolves: "\<not> isl (resolve_scope load_vocabulary plain_externals (panel []) counting_scope None)"
  by code_simp

theorem resolve_scope_idempotent_witness:
  "resolve_scope load_vocabulary plain_externals bad_path counted_scope (Some counted_view) = Inr counted_scope"
proof (rule resolve_scope_idempotent)
  show "resolve_scope load_vocabulary plain_externals (panel []) counting_scope None = Inr counted_scope"
    using counting_resolves by (cases "resolve_scope load_vocabulary plain_externals (panel []) counting_scope None")
      (simp_all add: counted_scope_def)
qed

end
