(* ===== verification/Manifests.thy ===== *)
theory Manifests
  imports Checker_Total
begin

text \<open>
  The bloks an agent registers (\<open>rekuest_core/inputs/models.py\<close>): an agent's own, an action's, the ones
  a task asks and informs through. Each is checked in the order of the code: sent one way, its
  declarations, its target and args, and its tree, which is refused on the checker's first error.
\<close>

section \<open>A tree against what its blok declares\<close>

text \<open>The ids of a tree, up to the first one seen before.\<close>

fun seen_before :: "string list \<Rightarrow> string list \<Rightarrow> string option" where
  "seen_before seen [] = None"
| "seen_before seen (i # is) = (if i \<in> set seen then Some i else seen_before (i # seen) is)"

definition is_error :: "finding \<Rightarrow> bool" where
  "is_error f = (f_level f = Error)"

definition blok_kind :: "component_context \<Rightarrow> string" where
  "blok_kind ctx = (if ctx = ACTION_LOGO then ''action_logo'' else ''agent'')"

record declared =
  dc_dependencies :: "agent_dependency list"
  dc_locals :: "blok_local list"
  dc_queries :: "blok_query list"
  dc_subscriptions :: "blok_subscription list"
  dc_args :: "string list option"
  dc_catalogs :: "string list"
  dc_demo :: "blok_demo option"

definition manifest_scope :: "string \<Rightarrow> component_context \<Rightarrow> declared \<Rightarrow> blok_scope" where
  "manifest_scope kind ctx d =
     \<lparr>sc_kind = kind, sc_context = context_name ctx, sc_dependencies = dc_dependencies d, sc_locals = dc_locals d,
      sc_queries = dc_queries d, sc_subscriptions = dc_subscriptions d, sc_args = dc_args d, sc_catalogs = dc_catalogs d,
      sc_demo = dc_demo d, sc_query_values = [], sc_assets = None\<rparr>"

definition check_blok_manifest ::
  "vocabulary \<Rightarrow> externals \<Rightarrow> component_node list option \<Rightarrow> string \<Rightarrow> component_context \<Rightarrow> declared \<Rightarrow> finding list result" where
  "check_blok_manifest voc ext components kind ctx d =
     (case components of
        None \<Rightarrow> Inr []
      | Some roots \<Rightarrow>
          if length roots \<noteq> 1 then Inl (ValueError [Txt ''Blok manifest: a blok has one root''])
          else (case seen_before [] (map node_id (iter_component_nodes roots)) of
                  Some i \<Rightarrow> Inl (blok_error voc ''bsx.duplicate_id'' [(''id'', [Txt i])])
                | None \<Rightarrow>
                    and_then (check_blok_tree voc ext (hd roots) (manifest_scope kind ctx d) None) (\<lambda>findings.
                    case find is_error findings of
                      Some f \<Rightarrow> Inl (blok_error_from_finding f)
                    | None \<Rightarrow> Inr findings)))"

section \<open>What a blok is for\<close>

definition check_blok_target :: "component_context \<Rightarrow> string option \<Rightarrow> string option \<Rightarrow> check" where
  "check_blok_target ctx for_model for_node =
     (if given for_node \<and> for_model = None then Inl (ValueError [Txt ''Blok manifest: for_node needs a for_model''])
      else (case for_model of
              None \<Rightarrow> Inr ()
            | Some ref \<Rightarrow>
                if \<not> is_sha_ref ref then Inl (ValueError [Txt ''Blok manifest: for_model must be a reference, not '', repr_str ref])
                else raise_if (ctx \<noteq> HTML) (ValueError [Txt ''Blok manifest: only an html blok can decorate a model''])))"

definition check_blok_args :: "component_context \<Rightarrow> arg_port list \<Rightarrow> check" where
  "check_blok_args ctx args =
     (if args = [] then Inr ()
      else if ctx \<noteq> HTML then Inl (ValueError [Txt ''Blok manifest: only an html blok takes args, not a '', Txt (context_name ctx)])
      else check_unique (map (\<lambda>p. JStr (a_key_of p)) args) ''key'' [Txt ''Blok manifest args''])"

section \<open>An agent's blok\<close>

record blok_implementation =
  bi_key :: string
  bi_dependencies :: "agent_dependency list"
  bi_components :: "component_node list option"
  bi_source :: "string option"
  bi_context :: component_context
  bi_for_model :: "string option"
  bi_for_node :: "string option"
  bi_args :: "arg_port list"
  bi_catalogs :: "string list"
  bi_locals :: "blok_local list"
  bi_demo :: "blok_demo option"
  bi_queries :: "blok_query list"
  bi_subscriptions :: "blok_subscription list"

definition blok_declared :: "blok_implementation \<Rightarrow> declared" where
  "blok_declared b =
     \<lparr>dc_dependencies = bi_dependencies b, dc_locals = bi_locals b, dc_queries = bi_queries b,
      dc_subscriptions = bi_subscriptions b,
      dc_args = (if bi_args b = [] then None else Some (map a_key_of (bi_args b))),
      dc_catalogs = bi_catalogs b, dc_demo = bi_demo b\<rparr>"

definition check_manifest :: "vocabulary \<Rightarrow> externals \<Rightarrow> blok_implementation \<Rightarrow> check" where
  "check_manifest voc ext b =
     and_then (check_blok_sent_once voc (bi_components b) (bi_source b) True) (\<lambda>_.
     and_then (raise_if (bi_context b = OVERLAY) (wrong_context voc ''agent'' (bi_context b))) (\<lambda>_.
     and_then (check_blok_declarations voc (blok_kind (bi_context b)) (bi_catalogs b) (bi_locals b) (bi_queries b)
       (bi_subscriptions b) (map dep_key (bi_dependencies b)) (bi_demo b)) (\<lambda>_.
     and_then (check_blok_target (bi_context b) (bi_for_model b) (bi_for_node b)) (\<lambda>_.
     and_then (check_blok_args (bi_context b) (bi_args b)) (\<lambda>_.
     and_then (check_blok_manifest voc ext (bi_components b) (blok_kind (bi_context b)) (bi_context b) (blok_declared b))
       (\<lambda>_. Inr ()))))))"

section \<open>An action's bloks\<close>

definition ACTION_BLOK_CONTEXTS :: "component_context list" where
  "ACTION_BLOK_CONTEXTS = [HTML, SCENE, OVERLAY]"

record action_blok =
  ab_context :: component_context
  ab_components :: "component_node list option"
  ab_source :: "string option"
  ab_catalogs :: "string list"
  ab_locals :: "blok_local list"
  ab_demo :: "blok_demo option"
  ab_queries :: "blok_query list"
  ab_subscriptions :: "blok_subscription list"

text \<open>The model's own validator: what an action's blok is before its action's dependencies are known.\<close>

definition check_action_blok_model :: "vocabulary \<Rightarrow> action_blok \<Rightarrow> check" where
  "check_action_blok_model voc b =
     and_then (check_blok_sent_once voc (ab_components b) (ab_source b) True) (\<lambda>_.
     raise_if (ab_context b \<notin> set ACTION_BLOK_CONTEXTS) (wrong_context voc ''action'' (ab_context b)))"

definition action_declared :: "action_blok \<Rightarrow> agent_dependency list \<Rightarrow> string list option \<Rightarrow> declared" where
  "action_declared b deps keys =
     \<lparr>dc_dependencies = deps, dc_locals = ab_locals b, dc_queries = ab_queries b, dc_subscriptions = ab_subscriptions b,
      dc_args = keys, dc_catalogs = ab_catalogs b, dc_demo = ab_demo b\<rparr>"

definition check_action_blok ::
  "vocabulary \<Rightarrow> externals \<Rightarrow> action_blok \<Rightarrow> agent_dependency list \<Rightarrow> string list option \<Rightarrow> finding list result" where
  "check_action_blok voc ext b deps keys =
     and_then (check_blok_declarations voc ''action'' (ab_catalogs b) (ab_locals b) (ab_queries b) (ab_subscriptions b)
       (map dep_key deps) (ab_demo b)) (\<lambda>_.
     case ab_components b of
       None \<Rightarrow> Inr []
     | Some roots \<Rightarrow>
         and_then (check_action_blok_anchors roots (map dep_key deps)) (\<lambda>_.
         check_blok_manifest voc ext (Some roots) ''action'' (ab_context b) (action_declared b deps keys)))"

section \<open>Asks and informs\<close>

record task_blok =
  tb_key :: string
  tb_components :: "component_node list option"
  tb_source :: "string option"
  tb_args :: "arg_port list"
  tb_dependencies :: "agent_dependency list"
  tb_catalogs :: "string list"
  tb_locals :: "blok_local list"
  tb_demo :: "blok_demo option"
  tb_queries :: "blok_query list"
  tb_subscriptions :: "blok_subscription list"

record ask_blok = task_blok +
  tb_returns :: "return_port list"

definition check_task_blok :: "vocabulary \<Rightarrow> 'a task_blok_scheme \<Rightarrow> check" where
  "check_task_blok voc b =
     and_then (check_blok_sent_once voc (tb_components b) (tb_source b) True) (\<lambda>_.
     check_blok_declarations voc ''task'' (tb_catalogs b) (tb_locals b) (tb_queries b) (tb_subscriptions b)
       (map dep_key (tb_dependencies b) @ [''self'']) (tb_demo b))"

definition check_port_keys :: "string \<Rightarrow> string \<Rightarrow> string \<Rightarrow> string list \<Rightarrow> check" where
  "check_port_keys who key what keys =
     (case first_repeated keys of
        None \<Rightarrow> Inr ()
      | Some k \<Rightarrow> Inl (ValueError [Txt who, repr_str key, Txt '': duplicate '', Txt what, Txt '' key '', repr_str k]))"

definition check_ask_blok :: "vocabulary \<Rightarrow> ask_blok \<Rightarrow> check" where
  "check_ask_blok voc b =
     and_then (check_task_blok voc b) (\<lambda>_.
     and_then (check_port_keys ''Ask '' (tb_key b) ''args'' (map a_key_of (tb_args b))) (\<lambda>_.
     check_port_keys ''Ask '' (tb_key b) ''returns'' (map r_key_of (tb_returns b))))"

definition check_inform_blok :: "vocabulary \<Rightarrow> task_blok \<Rightarrow> check" where
  "check_inform_blok voc b =
     and_then (check_task_blok voc b) (\<lambda>_. check_port_keys ''Inform '' (tb_key b) ''args'' (map a_key_of (tb_args b)))"

section \<open>What an accepted manifest is\<close>

lemma seen_before_None: "seen_before seen is = None \<longleftrightarrow> distinct is \<and> set is \<inter> set seen = {}"
  by (induction seen "is" rule: seen_before.induct) auto

lemma find_error_None: "find is_error fs = None \<longleftrightarrow> list_all (\<lambda>f. f_level f = Warning) fs"
proof -
  have "\<not> is_error f \<longleftrightarrow> f_level f = Warning" for f
    by (cases "f_level f") (simp_all add: is_error_def)
  then show ?thesis by (auto simp: find_None_iff list_all_iff)
qed

lemma length_1: "length xs = 1 \<longleftrightarrow> (\<exists>x. xs = [x])"
  by (cases xs) auto

lemma check_blok_manifest_Inr:
  "check_blok_manifest voc ext (Some roots) kind ctx d = Inr fs \<longleftrightarrow>
     (\<exists>tree. roots = [tree] \<and> distinct (map node_id (iter_nodes tree)) \<and>
        check_blok_tree voc ext tree (manifest_scope kind ctx d) None = Inr fs \<and>
        list_all (\<lambda>f. f_level f = Warning) fs)"
proof (cases "\<exists>tree. roots = [tree]")
  case True
  then obtain tree where roots: "roots = [tree]" ..
  have nodes: "iter_component_nodes [tree] = iter_nodes tree"
    by (simp add: iter_component_nodes_eq)
  show ?thesis
  proof (cases "distinct (map node_id (iter_nodes tree))")
    case True
    then have "seen_before [] (map node_id (iter_nodes tree)) = None" by (simp add: seen_before_None)
    then show ?thesis
      using True by (cases "check_blok_tree voc ext tree (manifest_scope kind ctx d) None")
        (auto simp: check_blok_manifest_def roots nodes find_error_None [symmetric] split: option.splits)
  next
    case False
    then obtain i where "seen_before [] (map node_id (iter_nodes tree)) = Some i"
      using seen_before_None [of "[]" "map node_id (iter_nodes tree)"] by auto
    then show ?thesis using False by (simp add: check_blok_manifest_def roots nodes)
  qed
next
  case False
  then show ?thesis by (auto simp: check_blok_manifest_def length_1 [unfolded One_nat_def])
qed

text \<open>
  A tree is accepted exactly when it has one root, no two of its nodes share an id, and the checker
  finds nothing worse than warnings, which are what comes back.
\<close>

theorem check_blok_manifest_iff:
  "check_blok_manifest voc ext (Some roots) kind ctx d = Inr fs \<longleftrightarrow>
     (\<exists>tree. roots = [tree] \<and> distinct (map node_id (iter_nodes tree)) \<and>
        check_blok_tree voc ext tree (manifest_scope kind ctx d) None = Inr fs \<and>
        list_all (\<lambda>f. f_level f = Warning) fs)"
  by (rule check_blok_manifest_Inr)

section \<open>What an accepted blok reads and calls\<close>

lemma findings_have_rows:
  assumes "check_blok_tree voc ext tree sc view = Inr fs" "f \<in> set fs"
  shows "map_option d_level (map_of (diagnostics voc) (f_code f)) = Some (f_level f)"
proof -
  obtain ns where "findings_of voc ns = Inr fs"
    using assms(1) by (auto simp: check_blok_tree_Inr)
  then have "list_all2 (\<lambda>n f. and_then n (\<lambda>(code, place, fs). finding_of voc code place fs) = Inr f) ns fs"
    by (simp add: findings_of_def map_result_Inr)
  moreover obtain i where "i < length fs" "fs ! i = f"
    using assms(2) by (auto simp: in_set_conv_nth)
  ultimately have "and_then (ns ! i) (\<lambda>(code, place, fs). finding_of voc code place fs) = Inr f"
    using list_all2_nthD2 by fastforce
  then show ?thesis by (auto simp: and_then_Inr finding_of_def split: option.splits)
qed

lemma error_rows:
  "list_all (\<lambda>c. map_option d_level (map_of (diagnostics load_vocabulary) c) = Some Error)
    [''roots.not_in_kind'', ''deps.unknown'']"
  by code_simp

lemma no_error_findings:
  assumes "check_blok_tree load_vocabulary ext tree sc view = Inr fs" "list_all (\<lambda>f. f_level f = Warning) fs"
    and "f \<in> set fs" "f_code f = ''roots.not_in_kind'' \<or> f_code f = ''deps.unknown''"
  shows False
  using findings_have_rows [OF assms(1,3)] error_rows assms(2-4) by (auto simp: list_all_iff)

lemma kind_roots:
  "map_option (\<lambda>k. k_roots k) (map_of (kinds load_vocabulary) ''agent'') =
     Some [''self'', ''args'', ''queries'', ''subscriptions'', ''viewer'', ''then'']"
  "map_option (\<lambda>k. k_roots k) (map_of (kinds load_vocabulary) ''action_logo'') = Some [''task'']"
  "map_option (\<lambda>k. ''deps'' \<in> set (k_roots k)) (map_of (kinds load_vocabulary) ''action'') = Some True"
  by code_simp+

lemma shipped_kind:
  "map_option f (map_of (kinds load_vocabulary) name) = Some v \<Longrightarrow>
   \<exists>k. vocabulary_kind load_vocabulary name = Inr k \<and> f k = v"
  by (auto simp: vocabulary_kind_def)

lemma check_manifest_tree:
  assumes "check_manifest voc ext b = Inr ()" "bi_components b = Some roots"
  obtains fs tree where "roots = [tree]"
    "check_blok_tree voc ext tree (manifest_scope (blok_kind (bi_context b)) (bi_context b) (blok_declared b)) None = Inr fs"
    "list_all (\<lambda>f. f_level f = Warning) fs"
proof -
  obtain fs where "check_blok_manifest voc ext (Some roots) (blok_kind (bi_context b)) (bi_context b) (blok_declared b) = Inr fs"
    using assms(1) unfolding check_manifest_def and_then_Inr assms(2) by blast
  then obtain tree where "roots = [tree]"
    "check_blok_tree voc ext tree (manifest_scope (blok_kind (bi_context b)) (bi_context b) (blok_declared b)) None = Inr fs"
    "list_all (\<lambda>f. f_level f = Warning) fs"
    unfolding check_blok_manifest_Inr by blast
  then show ?thesis by (rule that)
qed

text \<open>
  A blok an agent may register reads only what its kind reads: wherever its tree reads a data
  root that is no local and no name bound there, it is one of the agent's own roots, never \<open>task\<close> or
  \<open>deps\<close>; an action logo reads its \<open>task\<close> and nothing else.
\<close>

theorem accepted_blok_roots:
  assumes "check_manifest load_vocabulary ext b = Inr ()" "bi_components b = Some [tree]"
    and "(At_path path w, names) \<in> set (tree_events load_vocabulary tree)"
    and "rt = hd (split_on (CHR ''.'') path)" "rt \<in> set (data_roots load_vocabulary)" "rt \<noteq> ''event''"
    and "rt \<notin> names" "rt \<notin> lo_key ` set (bi_locals b)"
  shows "rt \<in> (if bi_context b = ACTION_LOGO then {''task''}
                else {''self'', ''args'', ''queries'', ''subscriptions'', ''viewer'', ''then''})"
proof (rule ccontr)
  let ?sc = "manifest_scope (blok_kind (bi_context b)) (bi_context b) (blok_declared b)"
  assume outside: "rt \<notin> (if bi_context b = ACTION_LOGO then {''task''}
                else {''self'', ''args'', ''queries'', ''subscriptions'', ''viewer'', ''then''})"
  obtain fs where fs: "check_blok_tree load_vocabulary ext tree ?sc None = Inr fs"
    "list_all (\<lambda>f. f_level f = Warning) fs"
    using check_manifest_tree [OF assms(1,2)] by auto
  obtain k where k: "vocabulary_kind load_vocabulary (sc_kind ?sc) = Inr k" "rt \<notin> set (k_roots k)"
    using shipped_kind [OF kind_roots(1)] shipped_kind [OF kind_roots(2)] outside
    by (cases "bi_context b = ACTION_LOGO") (auto simp: manifest_scope_def blok_kind_def)
  have locals: "rt \<notin> set (map lo_key (sc_locals ?sc))"
    using assms(8) by (simp add: manifest_scope_def blok_declared_def)
  have "''error'' \<notin> set (data_roots load_vocabulary)" by code_simp
  then have "rt \<noteq> ''error''" using assms(5) by auto
  then obtain f where "f \<in> set fs" "f_code f = ''roots.not_in_kind''"
    using unread_root_reported [OF fs(1) k(1) assms(3,4,7) locals assms(6)] assms(5) k(2) by auto
  then show False using no_error_findings [OF fs] by blast
qed

lemma action_calls_declared:
  assumes "check_action_blok load_vocabulary ext b deps keys = Inr fs" "ab_components b = Some [tree]"
    and "(At_agent_call c w name, names) \<in> set (tree_events load_vocabulary tree)"
  shows "call_dependency c \<in> insert ''self'' (dep_key ` set deps)"
proof (rule ccontr)
  let ?sc = "manifest_scope ''action'' (ab_context b) (action_declared b deps keys)"
  assume "call_dependency c \<notin> insert ''self'' (dep_key ` set deps)"
  then have outside: "call_dependency c \<noteq> ''self''" "call_dependency c \<notin> dep_key ` set (sc_dependencies ?sc)"
    by (auto simp: manifest_scope_def action_declared_def)
  have "check_blok_manifest load_vocabulary ext (Some [tree]) ''action'' (ab_context b) (action_declared b deps keys) = Inr fs"
    using assms(1,2) by (auto simp: check_action_blok_def and_then_Inr)
  then have fs: "check_blok_tree load_vocabulary ext tree ?sc None = Inr fs" "list_all (\<lambda>f. f_level f = Warning) fs"
    by (auto simp: check_blok_manifest_Inr)
  obtain k where "vocabulary_kind load_vocabulary (sc_kind ?sc) = Inr k" "''deps'' \<in> set (k_roots k)"
    using shipped_kind [OF kind_roots(3)] by (auto simp: manifest_scope_def)
  then obtain f where "f \<in> set fs" "f_code f = ''deps.unknown''"
    using unknown_dependency_reported [OF fs(1) _ assms(3) outside(1) _ outside(2)] by auto
  then show False using no_error_findings [OF fs] by blast
qed

text \<open>
  C12. An action's blok calls only what its implementation declares: every task call in it goes to the
  agent that runs the action (\<open>self\<close>) or to a declared dependency.
\<close>

theorem accepted_action_calls:
  assumes "check_action_blok load_vocabulary ext b deps keys = Inr fs" "ab_components b = Some [tree]"
    and "(At_agent_call c w name, names) \<in> set (tree_events load_vocabulary tree)"
  shows "call_dependency c \<in> insert ''self'' (dep_key ` set deps)"
  using assms by (rule action_calls_declared)

section \<open>Examples\<close>

definition focus_panel :: component_node where
  "focus_panel = panel [reads ''label'' ''self.id'', calls ''onClick'' focus_call None]"

definition microscope :: agent_dependency where
  "microscope = \<lparr>dep_key = ''microscope'', action_dependencies = None, state_dependencies = None\<rparr>"

definition status_blok :: blok_implementation where
  "status_blok =
     \<lparr>bi_key = ''status'', bi_dependencies = [], bi_components = Some [panel [reads ''label'' ''self.id'']], bi_source = None,
      bi_context = HTML, bi_for_model = None, bi_for_node = None, bi_args = [], bi_catalogs = [''ui@1''], bi_locals = [],
      bi_demo = None, bi_queries = [], bi_subscriptions = []\<rparr>"

lemma status_blok_accepted: "check_manifest load_vocabulary plain_externals status_blok = Inr ()"
  by code_simp

lemma status_blok_read:
  "(At_path ''self.id'' \<lparr>w_node = panel [reads ''label'' ''self.id''], w_key = ''label'', w_callback = False, w_in_error = False\<rparr>, {})
   \<in> set (tree_events load_vocabulary (panel [reads ''label'' ''self.id'']))"
  by code_simp

theorem accepted_blok_roots_witness:
  "''self'' \<in> (if bi_context status_blok = ACTION_LOGO then {''task''}
                else {''self'', ''args'', ''queries'', ''subscriptions'', ''viewer'', ''then''})"
  by (rule accepted_blok_roots [OF status_blok_accepted _ status_blok_read])
    (simp add: status_blok_def, simp, code_simp, simp, simp, simp add: status_blok_def)

definition focus_blok :: action_blok where
  "focus_blok =
     \<lparr>ab_context = HTML, ab_components = Some [focus_panel], ab_source = None, ab_catalogs = [], ab_locals = [], ab_demo = None,
      ab_queries = [], ab_subscriptions = []\<rparr>"

lemma focus_blok_accepted: "\<not> isl (check_action_blok load_vocabulary plain_externals focus_blok [microscope] None)"
  by code_simp

lemma focus_call_made:
  "(At_agent_call focus_call \<lparr>w_node = focus_panel, w_key = ''onClick'', w_callback = True, w_in_error = False\<rparr> None, {})
   \<in> set (tree_events load_vocabulary focus_panel)"
  by code_simp

theorem accepted_action_calls_witness:
  "call_dependency focus_call \<in> insert ''self'' (dep_key ` set [microscope])"
proof -
  obtain fs where "check_action_blok load_vocabulary plain_externals focus_blok [microscope] None = Inr fs"
    using runs [OF focus_blok_accepted] ..
  from accepted_action_calls [OF this _ focus_call_made] show ?thesis by (simp add: focus_blok_def)
qed

end
