(* ===== verification/Definitions.thy ===== *)
theory Definitions
  imports Manifests Formulas
begin

text \<open>
  What an agent registers (\<open>rekuest_core/inputs/models.py\<close>): the definition of an action, the
  implementation of one with its formulas, asks and informs, widgets and bloks, and the files it
  brings. The nested models are valid already (\<open>Port_Models\<close>, \<open>Bloks\<close>, \<open>Manifests\<close>); a model's own
  validators run in the order of the class.
\<close>

section \<open>The models\<close>

record test_target =
  tt_hash :: "string option"
  tt_app :: "string option"
  tt_key :: "string option"
  tt_version :: "string option"

definition check_target :: "test_target \<Rightarrow> check" where
  "check_target t =
     raise_if (tt_hash t \<in> {None, Some ''''} \<and> tt_key t \<in> {None, Some ''''})
       (ValueError [Txt ''A test target must provide either a hash or a key''])"

record port_group =
  pg_key :: string
  pg_effects :: "effect list option"
  pg_ports :: "string list"

record action_definition =
  df_key :: string
  df_port_groups :: "port_group list"
  df_args :: "arg_port list"
  df_returns :: "return_port list"
  df_protocols :: "string list"
  df_bloks :: "action_blok list"

section \<open>The validators of a definition\<close>

definition owner_of :: "action_definition \<Rightarrow> message" where
  "owner_of df = [Txt ''Definition '', Txt (df_key df)]"

definition check_bloks :: "action_definition \<Rightarrow> check" where
  "check_bloks df =
     (case first_repeated (map ab_context (df_bloks df)) of
        None \<Rightarrow> Inr ()
      | Some ctx \<Rightarrow> Inl (ValueError (owner_of df @ [Txt '': the '', Txt (lower (context_name ctx)), Txt '' blok is given twice''])))"

definition check_protocols :: "action_definition \<Rightarrow> check" where
  "check_protocols df =
     and_then (for_each (\<lambda>p. raise_if (p = '''' \<or> 1000 < length p \<or> list_ex is_space p)
       (ValueError (owner_of df @ [Txt '': a protocol hint is a name without whitespace, got '', repr_str p]))) (df_protocols df)) (\<lambda>_.
     case sorted_set (filter (\<lambda>p. 1 < count_list (df_protocols df) p) (df_protocols df)) of
       [] \<Rightarrow> Inr ()
     | p # _ \<Rightarrow> Inl (ValueError (owner_of df @ [Txt '': the protocol hint '', repr_str p, Txt '' is given twice''])))"

definition arg_key_list :: "action_definition \<Rightarrow> string list" where
  "arg_key_list df = map a_key_of (df_args df)"

definition return_key_list :: "action_definition \<Rightarrow> string list" where
  "return_key_list df = map r_key_of (df_returns df)"

definition check_keys :: "action_definition \<Rightarrow> check" where
  "check_keys df =
     and_then (check_unique (map JStr (arg_key_list df)) ''key'' (owner_of df @ [Txt '' args''])) (\<lambda>_.
     and_then (check_unique (map JStr (return_key_list df)) ''key'' (owner_of df @ [Txt '' returns''])) (\<lambda>_.
     let shared = sorted_set (filter (\<lambda>k. k \<in> set (return_key_list df)) (arg_key_list df))
     in raise_if (shared \<noteq> []) (ValueError (owner_of df @ [Txt '': args and returns share the keys '', repr_strs shared]))))"

text \<open>The loops of \<open>check_port_groups\<close>, over the (group, port) pairs in order; \<open>seen\<close> maps a port to its group.\<close>

fun check_members :: "message \<Rightarrow> string list \<Rightarrow> (string \<rightharpoonup> string) \<Rightarrow> (string \<times> string) list \<Rightarrow> check" where
  "check_members owner keys seen [] = Inr ()"
| "check_members owner keys seen ((gk, key) # rest) =
     (if key \<notin> set keys
      then Inl (ValueError (owner @ [Txt '': port group '', repr_str gk, Txt '' lists unknown arg '', repr_str key]))
      else case seen key of
             Some other \<Rightarrow> Inl (ValueError (owner @ [Txt '': arg '', repr_str key, Txt '' is in both port groups '',
                                                     repr_str other, Txt '' and '', repr_str gk]))
           | None \<Rightarrow> check_members owner keys (seen(key \<mapsto> gk)) rest)"

definition group_members :: "port_group list \<Rightarrow> (string \<times> string) list" where
  "group_members gs = concat (map (\<lambda>g. map (Pair (pg_key g)) (pg_ports g)) gs)"

definition check_port_groups :: "action_definition \<Rightarrow> check" where
  "check_port_groups df =
     and_then (check_unique (map (\<lambda>g. JStr (pg_key g)) (df_port_groups df)) ''key'' (owner_of df @ [Txt '' port_groups''])) (\<lambda>_.
     check_members (owner_of df) (arg_key_list df) Map.empty (group_members (df_port_groups df)))"

section \<open>Dependencies\<close>

text \<open>\<open>check\<close> and the loops of \<open>walk\<close> inside \<open>check_dependencies\<close>.\<close>

definition check_paths :: "key_tree list \<Rightarrow> string list option \<Rightarrow> message \<Rightarrow> check" where
  "check_paths roots deps owner =
     for_each (\<lambda>dep. raise_if (\<not> resolve_port_path dep roots) (ValueError (owner @ [Txt '' has invalid dependency: '', Txt dep])))
       (or_nil deps)"

definition effect_kind_value :: "effect_kind \<Rightarrow> string" where
  "effect_kind_value k =
     (case k of EFFECT_MESSAGE \<Rightarrow> ''MESSAGE'' | EFFECT_HIDE \<Rightarrow> ''HIDE'' | EFFECT_CUSTOM \<Rightarrow> ''CUSTOM'')"

definition check_effect_paths :: "key_tree list \<Rightarrow> message \<Rightarrow> effect list option \<Rightarrow> check" where
  "check_effect_paths roots place es =
     for_each (\<lambda>e. check_paths roots (ef_dependencies e)
       ([Txt ''Effect '', Txt (effect_kind_value (ef_kind e)), Txt (operation (ef_call e)), Txt '' in ''] @ place)) (or_nil es)"

definition check_validator_paths :: "key_tree list \<Rightarrow> message \<Rightarrow> port_validator list option \<Rightarrow> check" where
  "check_validator_paths roots place vs =
     for_each (\<lambda>v. check_paths roots (va_dependencies v)
       ([Txt ''Validator '',
         Txt (case va_label v of None \<Rightarrow> operation (va_call v) | Some l \<Rightarrow> if l = '''' then operation (va_call v) else l),
         Txt '' in ''] @ place)) (or_nil vs)"

definition widget_dependencies :: "assign_widget \<Rightarrow> string list option" where
  "widget_dependencies w =
     (case w of
        Search f q wd fs ds \<Rightarrow> ds
      | Custom f c ps cs ds fb \<Rightarrow> ds
      | State_choice f p c acc ds d \<Rightarrow> ds
      | _ \<Rightarrow> None)"

definition check_widget_paths :: "key_tree list \<Rightarrow> message \<Rightarrow> assign_widget option \<Rightarrow> check" where
  "check_widget_paths roots place w =
     for_each (\<lambda>x.
       let owner = [Txt ''Widget '', Txt (widget_kind x), Txt '' in ''] @ place
       in and_then (check_paths roots (widget_dependencies x) owner) (\<lambda>_.
          case follow_value x of None \<Rightarrow> Inr ()
          | Some path \<Rightarrow> raise_if (\<not> resolve_port_path path roots)
              (ValueError (owner @ [Txt '' follows an unknown port: '', Txt path])))) (iter_widget_chain w)"

definition port_place :: "string \<Rightarrow> message" where
  "port_place path = [Txt ''port '', Txt path]"

fun walk_args :: "key_tree list \<Rightarrow> string \<Rightarrow> arg_port list \<Rightarrow> check" where
  "walk_args roots prefix [] = Inr ()"
| "walk_args roots prefix (ArgPort b vs d w rq cs # ps) =
     (let path = prefix @ pt_key b
      in and_then (check_validator_paths roots (port_place path) vs) (\<lambda>_.
         and_then (check_effect_paths roots (port_place path) (pt_effects b)) (\<lambda>_.
         and_then (check_widget_paths roots (port_place path) w) (\<lambda>_.
         and_then (walk_args roots (path @ ''..'') (or_nil cs)) (\<lambda>_.
         walk_args roots prefix ps)))))"

text \<open>Return ports have no validators, and their widgets neither dependencies nor a port to follow.\<close>

fun walk_returns :: "key_tree list \<Rightarrow> string \<Rightarrow> return_port list \<Rightarrow> check" where
  "walk_returns roots prefix [] = Inr ()"
| "walk_returns roots prefix (ReturnPort b w pr cs # ps) =
     (let path = prefix @ pt_key b
      in and_then (check_effect_paths roots (port_place path) (pt_effects b)) (\<lambda>_.
         and_then (walk_returns roots (path @ ''..'') (or_nil cs)) (\<lambda>_.
         walk_returns roots prefix ps)))"

definition port_roots :: "action_definition \<Rightarrow> key_tree list" where
  "port_roots df = arg_keys (df_args df) @ return_keys (df_returns df)"

definition check_dependencies :: "action_definition \<Rightarrow> check" where
  "check_dependencies df =
     and_then (walk_args (port_roots df) '''' (df_args df)) (\<lambda>_.
     and_then (walk_returns (port_roots df) '''' (df_returns df)) (\<lambda>_.
     for_each (\<lambda>g. check_effect_paths (port_roots df) [Txt ''port group '', Txt (pg_key g)] (pg_effects g)) (df_port_groups df)))"

definition check_definition :: "action_definition \<Rightarrow> check" where
  "check_definition df =
     run_checks [check_bloks df, check_protocols df, check_keys df, check_port_groups df, check_dependencies df]"

section \<open>Implementations\<close>

datatype execution = PLAIN | WORKFLOW

record estimated_runtime =
  es_call :: util_call
  es_ui_call :: "util_call option"

record fit =
  ft_port :: string
  ft_call :: util_call

record implementation =
  im_definition :: action_definition
  im_dependencies :: "agent_dependency list"
  im_interface :: string
  im_execution :: execution
  im_asks :: "ask_blok list option"
  im_informs :: "task_blok list option"
  im_dynamic_calls :: "bool option"
  im_estimated_runtime :: "estimated_runtime option"
  im_fits :: "fit list option"

fun check_fits_from :: "message \<Rightarrow> arg_port list \<Rightarrow> string list \<Rightarrow> fit list \<Rightarrow> check" where
  "check_fits_from owner ports seen [] = Inr ()"
| "check_fits_from owner ports seen (f # fs) =
     (case find (\<lambda>p. a_key_of p = ft_port f) ports of
        None \<Rightarrow> Inl (ValueError (owner @ [Txt (ft_port f), Txt '': only a single structure argument can have one'']))
      | Some p \<Rightarrow>
          if a_kind p \<noteq> K_STRUCTURE
          then Inl (ValueError (owner @ [Txt (ft_port f), Txt '': only a single structure argument can have one'']))
          else if ft_port f \<in> set seen
          then Inl (ValueError (owner @ [Txt (ft_port f), Txt '': an argument has one Fits; join conditions with and/or'']))
          else and_then (check_fits (owner @ [Txt (ft_port f)]) (ft_call f)) (\<lambda>_.
            check_fits_from owner ports (ft_port f # seen) fs))"

definition check_formulas :: "vocabulary \<Rightarrow> implementation \<Rightarrow> check" where
  "check_formulas voc im =
     (let ports = df_args (im_definition im); of_interface = Txt (im_interface im)
      in and_then (case im_estimated_runtime im of
             None \<Rightarrow> Inr ()
           | Some e \<Rightarrow>
               and_then (check_estimated_runtime (es_call e) ports [Txt ''The estimated runtime of '', of_interface]) (\<lambda>_.
               case es_ui_call e of
                 None \<Rightarrow> Inr ()
               | Some c \<Rightarrow> check_estimated_runtime_ui voc c ports [Txt ''The form's estimated runtime of '', of_interface])) (\<lambda>_.
         check_fits_from [Txt ''The Fits of '', of_interface, Txt '' on ''] ports [] (or_nil (im_fits im))))"

definition interaction_keys :: "implementation \<Rightarrow> string list" where
  "interaction_keys im = map tb_key (or_nil (im_asks im)) @ map tb_key (or_nil (im_informs im))"

definition check_declared_interactions :: "implementation \<Rightarrow> check" where
  "check_declared_interactions im =
     (case first_repeated (interaction_keys im) of
        Some k \<Rightarrow> Inl (ValueError [Txt ''Implementation '', repr_str (im_interface im), Txt '' declares the ask or inform '', repr_str k, Txt '' twice''])
      | None \<Rightarrow> raise_if (im_dynamic_calls im = Some True \<and> im_execution im \<noteq> WORKFLOW)
          (ValueError [Txt ''Implementation '', repr_str (im_interface im), Txt '' declares dynamic_calls, which only a WORKFLOW may'']))"

text \<open>The body of the loop in \<open>check_widget_targets\<close>.\<close>

definition check_widget_target :: "agent_dependency list \<Rightarrow> message \<Rightarrow> assign_widget \<Rightarrow> check" where
  "check_widget_target deps place w =
     (case w of
        State_choice f p c acc ds (Some key) \<Rightarrow>
          raise_if (dependency_of deps key = None)
            (ValueError (Txt ''Widget STATE_CHOICE in '' # place @ [Txt '' names undeclared agent dependency '', repr_str key]))
      | Proxy f p action (Some key) \<Rightarrow>
          (case dependency_of deps key of
             None \<Rightarrow> Inl (ValueError (Txt ''Widget PROXY in '' # place @ [Txt '' names undeclared agent dependency '', repr_str key]))
           | Some d \<Rightarrow>
               let actions = map acd_key (or_nil (action_dependencies d))
               in raise_if (actions \<noteq> [] \<and> action \<notin> set actions)
                    (ValueError (Txt ''Widget PROXY in '' # place @ [Txt '' targets action '', repr_str action])))
      | _ \<Rightarrow> Inr ())"

fun walk_targets :: "agent_dependency list \<Rightarrow> string \<Rightarrow> arg_port list \<Rightarrow> check" where
  "walk_targets deps prefix [] = Inr ()"
| "walk_targets deps prefix (ArgPort b vs d w rq cs # ps) =
     (let path = prefix @ pt_key b
      in and_then (for_each (check_widget_target deps (port_place path)) (iter_widget_chain w)) (\<lambda>_.
         and_then (walk_targets deps (path @ ''..'') (or_nil cs)) (\<lambda>_.
         walk_targets deps prefix ps)))"

definition check_widget_targets :: "implementation \<Rightarrow> check" where
  "check_widget_targets im = walk_targets (im_dependencies im) '''' (df_args (im_definition im))"

definition check_action_bloks :: "vocabulary \<Rightarrow> externals \<Rightarrow> implementation \<Rightarrow> check" where
  "check_action_bloks voc ext im =
     for_each (\<lambda>b. and_then (check_action_blok voc ext b (im_dependencies im) (Some (arg_key_list (im_definition im)))) (\<lambda>_. Inr ()))
       (df_bloks (im_definition im))"

text \<open>The definition is validated as a field, then the implementation's own validators run.\<close>

definition check_implementation :: "vocabulary \<Rightarrow> externals \<Rightarrow> implementation \<Rightarrow> check" where
  "check_implementation voc ext im =
     run_checks [check_definition (im_definition im), check_formulas voc im, check_declared_interactions im,
       check_widget_targets im, check_action_bloks voc ext im]"

section \<open>Assets\<close>

datatype asset_kind = MODEL_3D | IMAGE

record asset =
  as_name :: string
  as_kind :: asset_kind
  as_ref :: string
  as_size :: "int option"
  as_source :: "string option"

definition ASSET_SOURCE_MAX_LENGTH :: nat where
  "ASSET_SOURCE_MAX_LENGTH = 2000"

definition isidentifier :: "string \<Rightarrow> bool" where
  "isidentifier s =
     (case s of
        [] \<Rightarrow> False
      | c # cs \<Rightarrow> (is_alpha c \<or> c = CHR ''_'') \<and> list_all (\<lambda>d. is_alpha d \<or> is_digit d \<or> d = CHR ''_'') cs)"

definition check_asset :: "asset \<Rightarrow> check" where
  "check_asset a =
     run_checks
       [raise_if (\<not> isidentifier (as_name a)) (ValueError [Txt ''Asset: the name '', repr_str (as_name a), Txt '' is not an identifier'']),
        raise_if (\<not> is_sha_ref (as_ref a)) (ValueError [Txt ''Asset '', repr_str (as_name a), Txt '': not a reference: '', repr_str (as_ref a)]),
        raise_if (case as_source a of None \<Rightarrow> False
                  | Some s \<Rightarrow> \<not> (starts_with ''https://'' s \<and> length ''https://'' < length s \<and> length s \<le> ASSET_SOURCE_MAX_LENGTH))
          (ValueError [Txt ''Asset '', repr_str (as_name a), Txt '': a source is an https URL'']),
        raise_if (as_size a = None \<and> as_source a = None) (ValueError [Txt ''Asset '', repr_str (as_name a), Txt '': an asset has a size'']),
        raise_if (case as_size a of None \<Rightarrow> False | Some n \<Rightarrow> n \<le> 0) (ValueError [Txt ''Asset '', repr_str (as_name a), Txt '': an asset has a size''])]"

section \<open>What an accepted definition is\<close>

text \<open>The port paths a definition depends on, wherever they are written.\<close>

definition effect_paths :: "effect list option \<Rightarrow> string list" where
  "effect_paths es = concat (map (\<lambda>e. or_nil (ef_dependencies e)) (or_nil es))"

definition validator_paths :: "port_validator list option \<Rightarrow> string list" where
  "validator_paths vs = concat (map (\<lambda>v. or_nil (va_dependencies v)) (or_nil vs))"

definition widget_paths :: "assign_widget option \<Rightarrow> string list" where
  "widget_paths w =
     concat (map (\<lambda>x. or_nil (widget_dependencies x) @ (case follow_value x of None \<Rightarrow> [] | Some p \<Rightarrow> [p])) (iter_widget_chain w))"

fun arg_paths :: "arg_port list \<Rightarrow> string list" where
  "arg_paths [] = []"
| "arg_paths (ArgPort b vs d w rq cs # ps) =
     validator_paths vs @ effect_paths (pt_effects b) @ widget_paths w @ arg_paths (or_nil cs) @ arg_paths ps"

fun return_paths :: "return_port list \<Rightarrow> string list" where
  "return_paths [] = []"
| "return_paths (ReturnPort b w pr cs # ps) = effect_paths (pt_effects b) @ return_paths (or_nil cs) @ return_paths ps"

definition dependency_paths :: "action_definition \<Rightarrow> string list" where
  "dependency_paths df =
     arg_paths (df_args df) @ return_paths (df_returns df) @ concat (map (\<lambda>g. effect_paths (pg_effects g)) (df_port_groups df))"

abbreviation all_resolve :: "key_tree list \<Rightarrow> string list \<Rightarrow> bool" where
  "all_resolve roots \<equiv> list_all (\<lambda>p. resolve_port_path p roots)"

lemma list_all_concat_map: "list_all P (concat (map f xs)) \<longleftrightarrow> (\<forall>x \<in> set xs. list_all P (f x))"
  by (induction xs) auto

lemma check_paths_iff: "check_paths roots deps owner = Inr () \<longleftrightarrow> all_resolve roots (or_nil deps)"
  by (simp add: check_paths_def result_iff list_all_iff)

lemma check_effect_paths_iff: "check_effect_paths roots place es = Inr () \<longleftrightarrow> all_resolve roots (effect_paths es)"
  by (simp add: check_effect_paths_def effect_paths_def result_iff check_paths_iff list_all_concat_map)

lemma check_validator_paths_iff: "check_validator_paths roots place vs = Inr () \<longleftrightarrow> all_resolve roots (validator_paths vs)"
  by (simp add: check_validator_paths_def validator_paths_def result_iff check_paths_iff list_all_concat_map)

lemma follow_value_iff:
  "(case v of None \<Rightarrow> Inr () | Some path \<Rightarrow> raise_if (\<not> resolve_port_path path roots) (e path)) = Inr () \<longleftrightarrow>
   all_resolve roots (case v of None \<Rightarrow> [] | Some p \<Rightarrow> [p])"
  by (cases v) (simp_all add: result_iff)

lemma check_widget_paths_iff: "check_widget_paths roots place w = Inr () \<longleftrightarrow> all_resolve roots (widget_paths w)"
  by (simp add: check_widget_paths_def widget_paths_def Let_def result_iff check_paths_iff follow_value_iff list_all_concat_map)

lemma walk_args_iff: "walk_args roots prefix ps = Inr () \<longleftrightarrow> all_resolve roots (arg_paths ps)"
  by (induction roots prefix ps rule: walk_args.induct)
    (auto simp: Let_def result_iff check_validator_paths_iff check_effect_paths_iff check_widget_paths_iff)

lemma walk_returns_iff: "walk_returns roots prefix ps = Inr () \<longleftrightarrow> all_resolve roots (return_paths ps)"
  by (induction roots prefix ps rule: walk_returns.induct) (auto simp: Let_def result_iff check_effect_paths_iff)

lemma check_dependencies_iff: "check_dependencies df = Inr () \<longleftrightarrow> all_resolve (port_roots df) (dependency_paths df)"
  by (simp add: check_dependencies_def dependency_paths_def result_iff walk_args_iff walk_returns_iff check_effect_paths_iff
      list_all_concat_map)

lemma check_members_iff:
  "check_members owner keys seen ms = Inr () \<longleftrightarrow>
   snd ` set ms \<subseteq> set keys \<and> distinct (map snd ms) \<and> dom seen \<inter> snd ` set ms = {}"
proof (induction owner keys seen ms rule: check_members.induct)
  case (2 owner keys seen gk key rest)
  show ?case
  proof (cases "key \<in> set keys \<and> seen key = None")
    case True
    then have "check_members owner keys seen ((gk, key) # rest) = Inr () \<longleftrightarrow>
        snd ` set rest \<subseteq> set keys \<and> distinct (map snd rest) \<and> insert key (dom seen) \<inter> snd ` set rest = {}"
      using "2.IH" by (simp del: fun_upd_apply)
    then show ?thesis using True by auto
  next
    case False
    then show ?thesis by (auto split: option.splits)
  qed
qed simp

definition is_word :: "string \<Rightarrow> bool" where
  "is_word p = (p \<noteq> '''' \<and> length p \<le> 1000 \<and> list_all (\<lambda>c. \<not> is_space c) p)"

lemma check_protocols_iff:
  "check_protocols df = Inr () \<longleftrightarrow> list_all is_word (df_protocols df) \<and> distinct (df_protocols df)"
proof -
  have twice: "sorted_set (filter (\<lambda>p. 1 < count_list (df_protocols df) p) (df_protocols df)) = [] \<longleftrightarrow> distinct (df_protocols df)"
    using count_list_gt_1 [of "df_protocols df"] by (simp add: filter_empty_conv) blast
  have word: "\<not> (p = '''' \<or> 1000 < length p \<or> list_ex is_space p) \<longleftrightarrow> is_word p" for p
    by (auto simp: is_word_def list_ex_iff list_all_iff not_less)
  show ?thesis
    unfolding check_protocols_def
    by (cases "sorted_set (filter (\<lambda>p. 1 < count_list (df_protocols df) p) (df_protocols df))")
      (use twice word in \<open>auto simp: result_iff list_all_iff sorted_set_def\<close>)
qed

lemma check_keys_iff:
  "check_keys df = Inr () \<longleftrightarrow>
   distinct (arg_key_list df) \<and> distinct (return_key_list df) \<and> set (arg_key_list df) \<inter> set (return_key_list df) = {}"
  by (auto simp: check_keys_def result_iff Let_def filter_empty_conv)

lemma check_bloks_iff: "check_bloks df = Inr () \<longleftrightarrow> distinct (map ab_context (df_bloks df))"
  using first_repeated_None [of "map ab_context (df_bloks df)"]
  by (cases "first_repeated (map ab_context (df_bloks df))") (simp_all add: check_bloks_def)

lemma check_port_groups_iff:
  "check_port_groups df = Inr () \<longleftrightarrow>
   distinct (map pg_key (df_port_groups df)) \<and> snd ` set (group_members (df_port_groups df)) \<subseteq> set (arg_key_list df) \<and>
   distinct (map snd (group_members (df_port_groups df)))"
proof -
  have "map (\<lambda>g. JStr (pg_key g)) (df_port_groups df) = map JStr (map pg_key (df_port_groups df))" by simp
  then show ?thesis
    unfolding check_port_groups_def by (simp add: result_iff check_members_iff del: map_map)
qed

text \<open>
  C16. A definition is accepted exactly when: it has at most one blok per context; its protocols are
  distinct single words; arg keys are distinct, return keys are distinct and no key is both; port groups have
  distinct keys, hold args only and share none; and every port path that a validator, an effect or a
  widget names, at any depth, resolves from the roots.
\<close>

theorem check_definition_iff:
  "check_definition df = Inr () \<longleftrightarrow>
     distinct (map ab_context (df_bloks df)) \<and>
     list_all is_word (df_protocols df) \<and> distinct (df_protocols df) \<and>
     distinct (arg_key_list df @ return_key_list df) \<and>
     distinct (map pg_key (df_port_groups df)) \<and>
     snd ` set (group_members (df_port_groups df)) \<subseteq> set (arg_key_list df) \<and>
     distinct (map snd (group_members (df_port_groups df))) \<and>
     all_resolve (port_roots df) (dependency_paths df)"
  by (auto simp: check_definition_def result_iff check_bloks_iff check_protocols_iff check_keys_iff check_port_groups_iff
      check_dependencies_iff)

section \<open>What a port path names\<close>

text \<open>The paths of a tree of ports: a key, or a key followed by a path below it.\<close>

inductive names_port :: "key_tree list \<Rightarrow> string list \<Rightarrow> bool" where
  here: "p \<in> set ports \<Longrightarrow> names_port ports [kt_key p]"
| below: "p \<in> set ports \<Longrightarrow> names_port (kt_children p) ks \<Longrightarrow> names_port ports (kt_key p # ks)"

inductive_cases names_port_ConsE: "names_port ports (k # ks)"
inductive_cases names_port_NilE: "names_port ports []"

fun siblings_distinct :: "key_tree list \<Rightarrow> bool" where
  "siblings_distinct [] = True"
| "siblings_distinct (KeyTree k cs # ps) = (k \<notin> kt_key ` set ps \<and> siblings_distinct cs \<and> siblings_distinct ps)"

lemma siblings_distinct_mem:
  "siblings_distinct ports \<Longrightarrow> p \<in> set ports \<Longrightarrow>
   find (\<lambda>q. kt_key q = kt_key p) ports = Some p \<and> siblings_distinct (kt_children p)"
  by (induction ports rule: siblings_distinct.induct) auto

lemma resolve_segments_names:
  "ks \<noteq> [] \<Longrightarrow> resolve_segments ks ports \<Longrightarrow> names_port ports ks"
proof (induction ks ports rule: resolve_segments.induct)
  case (2 s ss ports)
  then obtain p where p: "find (\<lambda>q. kt_key q = s) ports = Some p" "resolve_segments ss (kt_children p)"
    by (auto split: option.splits)
  then have mem: "p \<in> set ports" "kt_key p = s" by (auto simp: find_Some_iff)
  show ?case
  proof (cases "ss = []")
    case True
    then show ?thesis using here [OF mem(1)] mem(2) by simp
  next
    case False
    then show ?thesis using below [OF mem(1) "2.IH" [OF p(1) False p(2)]] mem(2) by simp
  qed
qed simp

lemma names_resolve_segments:
  "names_port ports ks \<Longrightarrow> siblings_distinct ports \<Longrightarrow> resolve_segments ks ports"
  by (induction rule: names_port.induct) (use siblings_distinct_mem in fastforce)+

text \<open>
  A port path resolves exactly when, cut at its \<open>..\<close>, it is a chain of keys from a root port to a
  port below it; siblings having distinct keys, the lookup of the first port of a key loses nothing.
\<close>

theorem resolve_port_path_iff:
  assumes "siblings_distinct ports"
  shows "resolve_port_path path ports \<longleftrightarrow> names_port ports (split_dotdot path)"
  using resolve_segments_names [OF split_dotdot_nonempty] names_resolve_segments [OF _ assms]
  by (auto simp: resolve_port_path_def)

section \<open>What an accepted implementation is\<close>

definition widget_declared :: "agent_dependency list \<Rightarrow> assign_widget \<Rightarrow> bool" where
  "widget_declared deps w =
     (case w of
        State_choice f p c acc ds (Some key) \<Rightarrow> key \<in> dep_key ` set deps
      | Proxy f p action (Some key) \<Rightarrow>
          (case dependency_of deps key of
             None \<Rightarrow> False
           | Some d \<Rightarrow> or_nil (action_dependencies d) = [] \<or> action \<in> acd_key ` set (or_nil (action_dependencies d)))
      | _ \<Rightarrow> True)"

lemma dependency_of_None: "dependency_of deps key = None \<longleftrightarrow> key \<notin> dep_key ` set deps"
  by (simp add: dependency_of_def image_image)

lemma dependency_of_Some: "dependency_of deps key = Some d \<Longrightarrow> key \<in> dep_key ` set deps"
  using dependency_of_None [of deps key] by auto

lemma check_widget_target_iff: "check_widget_target deps place w = Inr () \<longleftrightarrow> widget_declared deps w"
  by (auto simp: check_widget_target_def widget_declared_def result_iff dependency_of_None Let_def
      split: assign_widget.split option.split dest: dependency_of_Some)

lemma walk_targets_iff:
  "walk_targets deps prefix ps = Inr () \<longleftrightarrow>
   list_all (\<lambda>p. list_all (widget_declared deps) (iter_widget_chain (widget p))) (port_tree ps)"
  by (induction deps prefix ps rule: walk_targets.induct)
    (auto simp: Let_def result_iff check_widget_target_iff list_all_iff)

lemma check_implementation_parts:
  "check_implementation voc ext im = Inr () \<longleftrightarrow>
   check_definition (im_definition im) = Inr () \<and> check_formulas voc im = Inr () \<and>
   check_declared_interactions im = Inr () \<and> check_widget_targets im = Inr () \<and> check_action_bloks voc ext im = Inr ()"
  by (simp add: check_implementation_def result_iff)

text \<open>
  C17. In an accepted implementation every state-choice and proxy widget, at any depth and in any
  fallback, names an agent dependency the implementation declares, and an action of it where the
  dependency lists its actions; the asks and informs have distinct keys; only a workflow calls actions
  it found at run time.
\<close>

theorem accepted_implementation_targets:
  assumes "check_implementation voc ext im = Inr ()"
  shows "list_all (\<lambda>p. list_all (widget_declared (im_dependencies im)) (iter_widget_chain (widget p)))
           (port_tree (df_args (im_definition im))) \<and>
         distinct (interaction_keys im) \<and> (im_dynamic_calls im \<noteq> Some True \<or> im_execution im = WORKFLOW)"
  using assms first_repeated_None [of "interaction_keys im"]
  by (auto simp: check_implementation_parts check_widget_targets_def walk_targets_iff check_declared_interactions_def
      result_iff split: option.splits)

text \<open>
  The bloks of an accepted implementation call only the agent that runs the action or a dependency
  the implementation declares.
\<close>

theorem accepted_implementation_calls:
  assumes "check_implementation load_vocabulary ext im = Inr ()"
    and "b \<in> set (df_bloks (im_definition im))" "ab_components b = Some [tree]"
    and "(At_agent_call c w name, names) \<in> set (tree_events load_vocabulary tree)"
  shows "call_dependency c \<in> insert ''self'' (dep_key ` set (im_dependencies im))"
proof -
  obtain fs where "check_action_blok load_vocabulary ext b (im_dependencies im) (Some (arg_key_list (im_definition im))) = Inr fs"
    using assms(1,2) by (auto simp: check_implementation_parts check_action_bloks_def result_iff)
  then show ?thesis using assms(3,4) by (rule action_calls_declared)
qed

section \<open>Examples\<close>

theorem resolve_port_path_iff_witness:
  "resolve_port_path ''sample..stain'' [KeyTree ''sample'' [KeyTree ''stain'' []]] \<longleftrightarrow>
   names_port [KeyTree ''sample'' [KeyTree ''stain'' []]] (split_dotdot ''sample..stain'')"
  by (rule resolve_port_path_iff) simp

definition stage_port :: arg_port where
  "stage_port = ArgPort
     \<lparr>pt_key = ''stage'', pt_kind = K_STRING, pt_identifier = None, pt_nullable = False, pt_effects = None, pt_choices = None,
      pt_reference_unit = None, pt_proposed_units = None, pt_dimension = None\<rparr>
     None JNull (Some (Proxy None ''position'' ''move'' (Some ''microscope''))) None None"

definition focus_definition :: action_definition where
  "focus_definition =
     \<lparr>df_key = ''focus'', df_port_groups = [], df_args = [stage_port], df_returns = [], df_protocols = [''predicate''],
      df_bloks = [focus_blok]\<rparr>"

definition focus_implementation :: implementation where
  "focus_implementation =
     \<lparr>im_definition = focus_definition, im_dependencies = [microscope], im_interface = ''focus'', im_execution = PLAIN,
      im_asks = None, im_informs = None, im_dynamic_calls = None, im_estimated_runtime = None, im_fits = None\<rparr>"

lemma focus_accepted: "check_implementation load_vocabulary plain_externals focus_implementation = Inr ()"
  by code_simp

theorem accepted_implementation_targets_witness:
  "list_all (\<lambda>p. list_all (widget_declared [microscope]) (iter_widget_chain (widget p))) (port_tree [stage_port]) \<and>
   interaction_keys focus_implementation = []"
  using accepted_implementation_targets [OF focus_accepted]
  by (simp add: focus_implementation_def focus_definition_def interaction_keys_def)

theorem accepted_implementation_calls_witness:
  "call_dependency focus_call \<in> insert ''self'' (dep_key ` set (im_dependencies focus_implementation))"
  by (rule accepted_implementation_calls [OF focus_accepted, where b = focus_blok and tree = focus_panel])
    (simp add: focus_implementation_def focus_definition_def, simp add: focus_blok_def, rule focus_call_made)

end
