(* ===== verification/Catalogs.thy ===== *)
theory Catalogs
  imports Manifests View
begin

text \<open>
  The base catalog (\<open>rekuest_core/catalogs/__init__.py\<close>) and what calls, widgets and blok trees are
  held to against it and the modules of an organization (\<open>facade/catalog_validation.py\<close>,
  \<open>facade/mutations/catalog.py\<close>). The base manifest itself (\<open>base_v1.json\<close>) is an argument, as the spec's
  catalog files are (\<open>View\<close>).
\<close>

section \<open>The base catalog\<close>

definition BASE_CATALOG_VERSION :: int where "BASE_CATALOG_VERSION = 1"
definition BASE_CATALOG_ID :: string where "BASE_CATALOG_ID = ''base@1''"

text \<open>\<open>int(s)\<close> on decimal digits; the interpreter refuses more than 4300 of them.\<close>

definition digits_value :: "string \<Rightarrow> int" where
  "digits_value s = foldl (\<lambda>n c. 10 * n + (of_char c - of_char (CHR ''0''))) 0 s"

definition int_of_digits :: "string \<Rightarrow> int result" where
  "int_of_digits s =
     (if 4300 < length s then Inl (ValueError [Txt ''Exceeds the limit for integer string conversion''])
      else Inr (digits_value s))"

definition base_version_named :: "string \<Rightarrow> int option result" where
  "base_version_named name =
     (if name = BASE_NAME then Inr (Some BASE_CATALOG_VERSION)
      else if starts_with ''base@'' name \<and> isdigit (drop (length ''base@'') name)
      then and_then (int_of_digits (drop (length ''base@'') name)) (\<lambda>v. Inr (Some v))
      else Inr None)"

record base_catalog =
  bc_version :: int
  bc_operations :: "catalog_operation list"
  bc_components :: "catalog_component list"

definition check_base_catalog :: "base_catalog \<Rightarrow> check" where
  "check_base_catalog b =
     run_checks
       [for_each check_catalog_operation (bc_operations b),
        for_each check_catalog_component (bc_components b),
        check_unique (map (\<lambda>x. JStr (co_name x)) (bc_operations b)) ''name'' [Txt ''base catalog''],
        check_unique (map (\<lambda>x. JStr (cc_name x)) (bc_components b)) ''name'' [Txt ''base catalog'']]"

definition base_operations :: "base_catalog \<Rightarrow> string \<rightharpoonup> catalog_operation" where
  "base_operations b = dict_of (map (\<lambda>x. (co_name x, x)) (bc_operations b))"

definition base_components :: "base_catalog \<Rightarrow> string \<rightharpoonup> catalog_component" where
  "base_components b = dict_of (map (\<lambda>x. (cc_name x, x)) (bc_components b))"

section \<open>Diagnostics\<close>

datatype diagnostic_level = D_WARNING | D_ERROR

record diagnostic =
  dg_level :: diagnostic_level
  dg_code :: string
  dg_message :: message
  dg_path :: "message option"

definition warning :: "string \<Rightarrow> message \<Rightarrow> message option \<Rightarrow> diagnostic" where
  "warning code msg path = \<lparr>dg_level = D_WARNING, dg_code = code, dg_message = msg, dg_path = path\<rparr>"

section \<open>The definitions in force\<close>

text \<open>A \<open>Module\<close> row: its name and what it registered, parsed.\<close>

record ui_module =
  mo_name :: string
  mo_components :: "catalog_component list"
  mo_operations :: "catalog_operation list"

definition conflict :: "string \<Rightarrow> string \<Rightarrow> string option \<Rightarrow> string \<Rightarrow> message" where
  "conflict what name provider module_name =
     [Txt what, repr_str name, Txt '' is defined differently by catalogs '',
      repr_str (case provider of None \<Rightarrow> '''' | Some p \<Rightarrow> p), Txt '' and '', repr_str module_name]"

text \<open>
  The loops of \<open>resolve_operations\<close> and \<open>resolve_components\<close>. The state is the definitions, who provides
  each that is not of base, and the findings; \<open>strict\<close> is \<open>findings is None\<close>: a conflict is raised.
\<close>

type_synonym 'a merged = "(string \<rightharpoonup> 'a) \<times> (string \<rightharpoonup> string) \<times> diagnostic list"

definition merge_operation ::
  "base_catalog \<Rightarrow> bool \<Rightarrow> string \<Rightarrow> catalog_operation \<Rightarrow> catalog_operation merged \<Rightarrow> catalog_operation merged result" where
  "merge_operation base strict module_name op = (\<lambda>(ops, provider, findings).
     if base_operations base (co_name op) \<noteq> None then Inr (ops, provider, findings)
     else if (case ops (co_name op) of None \<Rightarrow> False
              | Some previous \<Rightarrow> provider (co_name op) \<noteq> None \<and> previous \<noteq> op)
     then (let msg = conflict ''operation '' (co_name op) (provider (co_name op)) module_name
           in if strict then Inl (ValueError msg)
              else Inr (ops, provider, findings @ [warning ''catalog_conflict'' msg None]))
     else Inr (ops(co_name op \<mapsto> op),
               (case provider (co_name op) of None \<Rightarrow> provider(co_name op \<mapsto> module_name) | Some _ \<Rightarrow> provider),
               findings))"

definition resolve_operations ::
  "base_catalog \<Rightarrow> ui_module list \<Rightarrow> bool \<Rightarrow> diagnostic list \<Rightarrow> catalog_operation merged result" where
  "resolve_operations base modules strict findings =
     fold_result (\<lambda>m. fold_result (merge_operation base strict (mo_name m)) (mo_operations m)) modules
       (base_operations base, Map.empty, findings)"

definition merge_component ::
  "bool \<Rightarrow> string \<Rightarrow> catalog_component \<Rightarrow> catalog_component merged \<Rightarrow> catalog_component merged result" where
  "merge_component strict module_name c = (\<lambda>(comps, provider, findings).
     if comps (cc_name c) \<noteq> None \<and> provider (cc_name c) = Some BASE_CATALOG_ID then Inr (comps, provider, findings)
     else if (case comps (cc_name c) of None \<Rightarrow> False | Some previous \<Rightarrow> previous \<noteq> c)
     then (let msg = conflict ''component '' (cc_name c) (provider (cc_name c)) module_name
           in if strict then Inl (ValueError msg)
              else Inr (comps, provider, findings @ [warning ''catalog_conflict'' msg None]))
     else Inr (comps(cc_name c \<mapsto> c),
               (case provider (cc_name c) of None \<Rightarrow> provider(cc_name c \<mapsto> module_name) | Some _ \<Rightarrow> provider),
               findings))"

text \<open>The components, \<open>None\<close> when no module registered any, with the findings.\<close>

definition resolve_components ::
  "base_catalog \<Rightarrow> ui_module list \<Rightarrow> bool \<Rightarrow> diagnostic list \<Rightarrow>
   ((string \<rightharpoonup> catalog_component) option \<times> diagnostic list) result" where
  "resolve_components base modules strict findings =
     and_then
       (fold_result (\<lambda>m. fold_result (merge_component strict (mo_name m)) (mo_components m)) modules
          (base_components base, (\<lambda>name. map_option (\<lambda>_. BASE_CATALOG_ID) (base_components base name)), findings))
       (\<lambda>(comps, _, findings').
          Inr (if list_ex (\<lambda>m. mo_components m \<noteq> []) modules then Some comps else None, findings'))"

definition check_extension_does_not_shadow_base ::
  "base_catalog \<Rightarrow> catalog_operation list \<Rightarrow> string \<Rightarrow> catalog_component list \<Rightarrow> check" where
  "check_extension_does_not_shadow_base base ops name comps =
     (let shadowed_ops = sorted_set (filter (\<lambda>n. base_operations base n \<noteq> None) (map co_name ops));
          shadowed_comps = sorted_set (filter (\<lambda>n. base_components base n \<noteq> None) (map cc_name comps))
      in run_checks
           [raise_if (shadowed_ops \<noteq> [])
              (ValueError [Txt ''catalog '', repr_str name, Txt '' cannot redefine base operations '', repr_strs shadowed_ops]),
            raise_if (shadowed_comps \<noteq> [])
              (ValueError [Txt ''catalog '', repr_str name, Txt '' cannot redefine base components '', repr_strs shadowed_comps])])"

section \<open>Calls against the definitions\<close>

definition module_label :: "ui_module list \<Rightarrow> string" where
  "module_label modules = join '' + '' (BASE_CATALOG_ID # map mo_name modules)"

text \<open>\<open>key\<close> of an argument may be \<open>None\<close>, which is neither accepted nor complained about.\<close>

definition passed_keys :: "util_call \<Rightarrow> string option list" where
  "passed_keys c = map a_key (or_nil (arguments c))"

definition check_call ::
  "util_call \<Rightarrow> (string \<rightharpoonup> catalog_operation) \<Rightarrow> string \<Rightarrow> message \<Rightarrow> diagnostic option" where
  "check_call c ops label owner =
     (case ops (operation c) of
        None \<Rightarrow>
          Some (warning ''unknown_operation''
            (owner @ [Txt '': operation '', repr_str (operation c), Txt '' is not provided by the catalog '', Txt label]) (Some owner))
      | Some spec \<Rightarrow>
          let keys = map ca_key (co_arguments spec);
              unknown = sorted_set (filter (\<lambda>k. k \<notin> set keys) (List.map_filter id (passed_keys c)));
              missing = sorted_set (map ca_key (filter (\<lambda>a. ca_required a \<and> Some (ca_key a) \<notin> set (passed_keys c)) (co_arguments spec)))
          in if unknown \<noteq> []
             then Some (warning ''operation_arguments''
               (owner @ [Txt '': operation '', repr_str (operation c), Txt '' does not accept arguments '', repr_strs unknown]) (Some owner))
             else if missing \<noteq> []
             then Some (warning ''operation_arguments''
               (owner @ [Txt '': operation '', repr_str (operation c), Txt '' requires arguments '', repr_strs missing]) (Some owner))
             else None)"

definition nested_calls :: "util_call \<Rightarrow> util_call list" where
  "nested_calls c = c # iter_util_calls (or_nil (arguments c))"

definition check_calls ::
  "util_call list \<Rightarrow> (string \<rightharpoonup> catalog_operation) \<Rightarrow> string \<Rightarrow> message \<Rightarrow> diagnostic list" where
  "check_calls cs ops label owner =
     List.map_filter (\<lambda>c. check_call c ops label owner) (concat (map nested_calls cs))"

definition validate_calls_against_catalogs ::
  "base_catalog \<Rightarrow> ui_module list \<Rightarrow> util_call list \<Rightarrow> message \<Rightarrow> diagnostic list result" where
  "validate_calls_against_catalogs base modules cs owner =
     and_then (resolve_operations base modules False []) (\<lambda>(ops, _, findings).
     Inr (findings @ check_calls cs ops (module_label modules) owner))"

definition validate_calls_against_catalog ::
  "base_catalog \<Rightarrow> ui_module option \<Rightarrow> util_call list \<Rightarrow> message \<Rightarrow> diagnostic list result" where
  "validate_calls_against_catalog base m cs owner =
     validate_calls_against_catalogs base (case m of None \<Rightarrow> [] | Some x \<Rightarrow> [x]) cs owner"

section \<open>Widgets\<close>

definition check_asset_prop :: "value_kind option \<Rightarrow> component_prop \<Rightarrow> message \<Rightarrow> check" where
  "check_asset_prop kind p prop_owner =
     raise_if (kind = Some V_ASSET \<and>
               (case prop_path p of None \<Rightarrow> True | Some path \<Rightarrow> blok_asset_path path = None))
       (ValueError (prop_owner @ [Txt '' is an ASSET prop and must name an asset the app registered'']))"

definition prop_calls :: "component_prop \<Rightarrow> util_call list" where
  "prop_calls p =
     (case pr_util_call p of None \<Rightarrow> [] | Some c \<Rightarrow> [c]) @
     (case pr_agent_call p of None \<Rightarrow> [] | Some c \<Rightarrow> iter_util_calls (or_nil (call_arguments c)))"

definition structure_diagnostics ::
  "component_node \<Rightarrow> catalog_component option \<Rightarrow> string \<Rightarrow> message \<Rightarrow> diagnostic list" where
  "structure_diagnostics n spec label owner =
     (let it = repr_str (component n); says = (\<lambda>code msg. warning code (owner @ msg) (Some owner))
      in case spec of
           None \<Rightarrow> [says ''unknown_component'' [Txt '': component '', it, Txt '' is not registered in catalog '', Txt label]]
         | Some c \<Rightarrow>
             let keys = map cp_key (cc_props c); present = map pr_key (or_nil (props n));
                 unknown = sorted_set (filter (\<lambda>k. k \<notin> set keys) present);
                 missing = sorted_set (map cp_key (filter (\<lambda>q. cp_required q \<and> cp_key q \<notin> set present) (cc_props c)))
             in (if or_nil (children n) \<noteq> [] \<and> \<not> cc_accepts_children c
                 then [says ''children_not_accepted'' [Txt '': component '', it, Txt '' does not accept children'']] else []) @
                (if unknown \<noteq> [] then [says ''unknown_prop'' [Txt '': component '', it, Txt '' has no props '', repr_strs unknown]] else []) @
                (if missing \<noteq> [] then [says ''missing_prop'' [Txt '': component '', it, Txt '' requires props '', repr_strs missing]] else []))"

text \<open>The body of the loop over the props: a raised ASSET prop ends the check.\<close>

definition check_prop ::
  "catalog_component option \<Rightarrow> (string \<rightharpoonup> catalog_operation) \<Rightarrow> string \<Rightarrow> message \<Rightarrow> component_prop \<Rightarrow> diagnostic list result" where
  "check_prop spec ops label owner p =
     (let prop_owner = [Txt ''prop '', repr_str (pr_key p), Txt '' of ''] @ owner;
          cs = check_calls (prop_calls p) ops label prop_owner
      in case spec of
           None \<Rightarrow> Inr cs
         | Some c \<Rightarrow>
             let kind = map_option cp_kind (find (\<lambda>q. cp_key q = pr_key p) (cc_props c))
             in and_then (check_asset_prop kind p prop_owner) (\<lambda>_.
                Inr ((if kind = Some V_CALLBACK \<and> pr_agent_call p = None \<and> pr_util_call p = None
                      then [warning ''unbound_callback''
                              (prop_owner @ [Txt '' is a CALLBACK prop and must be bound via agent_call or util_call'']) (Some prop_owner)]
                      else []) @ cs)))"

definition check_component ::
  "component_node \<Rightarrow> (string \<rightharpoonup> catalog_component) option \<Rightarrow> (string \<rightharpoonup> catalog_operation) \<Rightarrow> string \<Rightarrow> message \<Rightarrow>
   diagnostic list result" where
  "check_component n specs ops label owner =
     (let spec = (case specs of None \<Rightarrow> None | Some m \<Rightarrow> m (component n))
      in and_then (map_result (check_prop spec ops label owner) (or_nil (props n))) (\<lambda>ds.
         Inr ((if given specs then structure_diagnostics n spec label owner else []) @ concat ds)))"

text \<open>A widget of either side; an assign widget's own calls (\<open>iter_widget_calls\<close>).\<close>

datatype any_widget = Assign assign_widget | Return return_widget

definition iter_widget_calls :: "any_widget \<Rightarrow> util_call list" where
  "iter_widget_calls w =
     (case w of
        Assign (State_choice f p c acc ds d) \<Rightarrow>
          (case c of None \<Rightarrow> [] | Some x \<Rightarrow> [x]) @ List.map_filter sa_call (or_nil acc)
      | _ \<Rightarrow> [])"

text \<open>A CUSTOM widget is a tree rooted at its component.\<close>

definition custom_root :: "any_widget \<Rightarrow> component_node list" where
  "custom_root w =
     (case w of
        Assign (Custom f c ps cs ds fb) \<Rightarrow> [Node ''widget'' c ps cs]
      | Return (Custom_return c ps) \<Rightarrow> [Node ''widget'' c ps None]
      | _ \<Rightarrow> [])"

definition check_widget ::
  "(string \<rightharpoonup> catalog_component) option \<Rightarrow> (string \<rightharpoonup> catalog_operation) \<Rightarrow> string \<Rightarrow> message \<times> any_widget \<Rightarrow>
   diagnostic list result" where
  "check_widget specs ops label = (\<lambda>(owner, w).
     let of_widget = Txt ''widget of '' # owner
     in and_then (map_result (\<lambda>n. check_component n specs ops label of_widget) (iter_component_nodes (custom_root w))) (\<lambda>ds.
        Inr (concat ds @ check_calls (iter_widget_calls w) ops label of_widget)))"

definition validate_widgets_against_catalogs ::
  "base_catalog \<Rightarrow> ui_module list \<Rightarrow> (message \<times> any_widget) list \<Rightarrow> diagnostic list result" where
  "validate_widgets_against_catalogs base modules widgets =
     and_then (resolve_operations base modules False []) (\<lambda>(ops, _, fs).
     and_then (resolve_components base modules False fs) (\<lambda>(specs, fs').
     and_then (map_result (check_widget specs ops (module_label modules)) widgets) (\<lambda>ds.
     Inr (fs' @ concat ds))))"

section \<open>Registering a module\<close>

record module_input =
  mi_name :: string
  mi_components :: "catalog_component list"
  mi_operations :: "catalog_operation list"
  mi_catalogs :: "string list"
  mi_widget_defaults :: "widget_default list"

definition check_module_catalogs :: "vocabulary \<Rightarrow> module_input \<Rightarrow> check" where
  "check_module_catalogs voc m =
     and_then (for_each (\<lambda>c. raise_if (\<not> is_catalog c) (blok_error voc ''manifest.catalog'' [(''catalog'', [Txt c])])) (mi_catalogs m)) (\<lambda>_.
     case first_repeated (mi_catalogs m) of
       None \<Rightarrow> Inr ()
     | Some c \<Rightarrow> Inl (blok_error voc ''manifest.duplicate'' [(''what'', [Txt ''catalogs'']), (''key'', [Txt c])]))"

definition selector :: "widget_default \<Rightarrow> port_kind option \<times> string option" where
  "selector w = (wd_kind w, wd_identifier w)"

definition check_unique_selectors :: "module_input \<Rightarrow> check" where
  "check_unique_selectors m =
     raise_if (\<not> distinct (map selector (mi_widget_defaults m))) (ValueError [Txt ''widget_defaults: duplicate selector''])"

definition check_module_input :: "vocabulary \<Rightarrow> module_input \<Rightarrow> check" where
  "check_module_input voc m =
     run_checks
       [raise_if (mi_name m = '''') (ValueError [Txt ''name'']),
        for_each check_catalog_component (mi_components m), for_each check_catalog_operation (mi_operations m),
        for_each check_widget_default (mi_widget_defaults m),
        check_module_catalogs voc m, check_unique_selectors m]"

definition default_widgets :: "module_input \<Rightarrow> (message \<times> any_widget) list" where
  "default_widgets m =
     concat (map (\<lambda>(i, d).
       let owner = [Txt ''widget_defaults['', shown_int (int i), Txt ''] '',
                    Txt (case wd_kind d of None \<Rightarrow> ''*'' | Some k \<Rightarrow> port_kind_value k),
                    Txt (case wd_identifier d of None \<Rightarrow> ''*'' | Some s \<Rightarrow> if s = '''' then ''*'' else s)]
       in (case wd_widget d of None \<Rightarrow> [] | Some w \<Rightarrow> [(owner, Assign w)]) @
          (case wd_return_widget d of None \<Rightarrow> [] | Some w \<Rightarrow> [(owner, Return w)]))
       (zip [0..<length (mi_widget_defaults m)] (mi_widget_defaults m)))"

text \<open>\<open>register_module\<close> up to the row it writes: a diagnostic of a default widget is an error here.\<close>

definition register_module :: "vocabulary \<Rightarrow> base_catalog \<Rightarrow> module_input \<Rightarrow> ui_module result" where
  "register_module voc base m =
     (let row = \<lparr>mo_name = mi_name m, mo_components = mi_components m, mo_operations = mi_operations m\<rparr>
      in and_then (check_module_input voc m) (\<lambda>_.
         and_then (check_extension_does_not_shadow_base base (mi_operations m) (mi_name m) (mi_components m)) (\<lambda>_.
         and_then (validate_widgets_against_catalogs base [row] (default_widgets m)) (\<lambda>ds.
         case ds of
           d # _ \<Rightarrow> Inl (ValueError ([Txt ''module '', repr_str (mi_name m), Txt '': ''] @ dg_message d))
         | [] \<Rightarrow> Inr row))))"

section \<open>Blok trees\<close>

definition RUN_COMPONENTS :: "string list" where "RUN_COMPONENTS = [''Anchor'', ''Route'']"
definition ASK_COMPONENT :: string where "ASK_COMPONENT = ''ask''"

definition blok_view_for :: "vocabulary \<Rightarrow> catalog_file list \<Rightarrow> ui_module option \<Rightarrow> blok_view" where
  "blok_view_for voc specs m =
     (case m of
        None \<Rightarrow> blok_view voc specs [] True
      | Some x \<Rightarrow> blok_view voc specs [(mo_name x, mo_components x, mo_operations x)]
                    (mo_name x = ORKESTRATOR_MODULE \<or> mo_components x \<noteq> []))"

definition is_registered :: "ui_module \<Rightarrow> bool" where
  "is_registered m = (mo_components m \<noteq> [] \<or> mo_operations m \<noteq> [])"

text \<open>\<open>others\<close> are the modules of the organization.\<close>

definition module_findings :: "vocabulary \<Rightarrow> ui_module list \<Rightarrow> ui_module option \<Rightarrow> finding list result" where
  "module_findings voc others m =
     (case m of
        None \<Rightarrow> Inr []
      | Some x \<Rightarrow>
          if mo_name x = ORKESTRATOR_MODULE \<or> is_registered x then Inr []
          else and_then (finding_of voc ''module.unknown'' None
                 [(''module'', [Txt (mo_name x)]),
                  (''modules'', [Txt (join '', '' (sorted_set (ORKESTRATOR_MODULE # map mo_name (filter is_registered others))))])])
               (\<lambda>f. Inr [f]))"

definition resolved_scope ::
  "vocabulary \<Rightarrow> externals \<Rightarrow> catalog_file list \<Rightarrow> ui_module option \<Rightarrow> component_node list \<Rightarrow> blok_scope \<Rightarrow> blok_scope result" where
  "resolved_scope voc ext specs m roots sc =
     (case roots of
        [tree] \<Rightarrow> resolve_scope voc ext tree sc (Some (blok_view_for voc specs m))
      | _ \<Rightarrow> Inr sc)"

definition diagnostic_of :: "finding \<Rightarrow> diagnostic" where
  "diagnostic_of f =
     \<lparr>dg_level = (case f_level f of Error \<Rightarrow> D_ERROR | Warning \<Rightarrow> D_WARNING), dg_code = f_code f,
      dg_message = concat (map snd (f_fields f)), dg_path = map_option (\<lambda>p. [Txt p]) (f_path f)\<rparr>"

definition check_run_components :: "component_node list \<Rightarrow> string \<Rightarrow> check" where
  "check_run_components roots kind =
     for_each (\<lambda>n. run_checks
       [raise_if (component n \<in> set RUN_COMPONENTS \<and> kind \<noteq> ''action'')
          (ValueError [Txt ''component '', repr_str (node_id n), Txt '' reads the agents of a run'']),
        raise_if (component n = ASK_COMPONENT \<and> kind \<notin> {''action'', ''task''})
          (ValueError [Txt ''component '', repr_str (node_id n), Txt '' shows a task's open ask''])])
       (iter_component_nodes roots)"

definition blok_findings_against_module ::
  "vocabulary \<Rightarrow> externals \<Rightarrow> catalog_file list \<Rightarrow> ui_module list \<Rightarrow> ui_module option \<Rightarrow> component_node list \<Rightarrow> blok_scope \<Rightarrow>
   diagnostic list result" where
  "blok_findings_against_module voc ext specs others m roots sc =
     (case roots of
        [tree] \<Rightarrow>
          and_then (check_run_components roots (sc_kind sc)) (\<lambda>_.
          and_then (module_findings voc others m) (\<lambda>unknown.
          and_then (check_blok_tree voc ext tree sc (Some (blok_view_for voc specs m))) (\<lambda>findings.
          Inr (map diagnostic_of (unknown @ findings)))))
      | _ \<Rightarrow> Inl (ValueError [Txt ''a blok has exactly one root'']))"

definition validate_blok_against_module ::
  "vocabulary \<Rightarrow> externals \<Rightarrow> catalog_file list \<Rightarrow> ui_module list \<Rightarrow> ui_module option \<Rightarrow> component_node list \<Rightarrow> blok_scope \<Rightarrow>
   diagnostic list result" where
  "validate_blok_against_module voc ext specs others m roots sc =
     (case roots of
        [tree] \<Rightarrow>
          and_then (check_run_components roots (sc_kind sc)) (\<lambda>_.
          and_then (check_blok_tree voc ext tree sc (Some (blok_view_for voc specs m))) (\<lambda>findings.
          case find is_error findings of
            Some f \<Rightarrow> Inl (blok_error_from_finding f)
          | None \<Rightarrow> and_then (module_findings voc others m) (\<lambda>unknown. Inr (map diagnostic_of (unknown @ findings)))))
      | _ \<Rightarrow> Inl (ValueError [Txt ''a blok has exactly one root'']))"

section \<open>Which definition of an operation is in force\<close>

definition registered_ops :: "ui_module list \<Rightarrow> (string \<times> catalog_operation) list" where
  "registered_ops modules = concat (map (\<lambda>m. map (Pair (mo_name m)) (mo_operations m)) modules)"

definition named_op :: "string \<Rightarrow> catalog_operation list \<Rightarrow> catalog_operation option" where
  "named_op name ops = find (\<lambda>x. co_name x = name) ops"

text \<open>Base's definition, or the first one a module registered.\<close>

definition in_force :: "base_catalog \<Rightarrow> ui_module list \<Rightarrow> string \<rightharpoonup> catalog_operation" where
  "in_force base modules name =
     (case base_operations base name of
        Some x \<Rightarrow> Some x
      | None \<Rightarrow> named_op name (map snd (registered_ops modules)))"

definition operations_agree :: "base_catalog \<Rightarrow> ui_module list \<Rightarrow> bool" where
  "operations_agree base modules =
     list_all (\<lambda>x. base_operations base (co_name x) = None \<longrightarrow> in_force base modules (co_name x) = Some x)
       (map snd (registered_ops modules))"

lemma fold_result_concat:
  "fold_result (\<lambda>m. fold_result (g (h m)) (k m)) ms s =
   fold_result (\<lambda>(m, x). g m x) (concat (map (\<lambda>m. map (Pair (h m)) (k m)) ms)) s"
proof (induction ms arbitrary: s)
  case (Cons m ms)
  have one: "fold_result (g (h m)) xs s = fold_result (\<lambda>(m, x). g m x) (map (Pair (h m)) xs) s" for xs s
    by (induction xs arbitrary: s) (auto intro: and_then_cong)
  show ?case using Cons.IH by (auto simp: one fold_result_append intro!: and_then_cong)
qed simp

text \<open>What the loop keeps: a name of base has base's definition, any other one has a provider when it has a definition.\<close>

definition merge_inv :: "base_catalog \<Rightarrow> catalog_operation merged \<Rightarrow> bool" where
  "merge_inv base = (\<lambda>(ops, provider, _). \<forall>n.
     if base_operations base n = None then (ops n = None) = (provider n = None) else ops n = base_operations base n)"

definition after_merge :: "(string \<rightharpoonup> catalog_operation) \<Rightarrow> catalog_operation list \<Rightarrow> string \<rightharpoonup> catalog_operation" where
  "after_merge ops xs n = (case ops n of Some x \<Rightarrow> Some x | None \<Rightarrow> named_op n xs)"

lemma after_merge_one:
  "after_merge ops [x] = (if ops (co_name x) = None then ops(co_name x \<mapsto> x) else ops)"
  by (auto simp: after_merge_def named_op_def fun_eq_iff split: option.splits)

lemma merge_step:
  assumes "merge_inv base (ops, provider, fs)"
  shows "merge_operation base strict m x (ops, provider, fs) =
    (if base_operations base (co_name x) \<noteq> None \<or> ops (co_name x) \<in> {None, Some x}
     then Inr (after_merge ops [x], (if base_operations base (co_name x) \<noteq> None \<or> provider (co_name x) \<noteq> None then provider
                                     else provider(co_name x \<mapsto> m)), fs)
     else let msg = conflict ''operation '' (co_name x) (provider (co_name x)) m
          in if strict then Inl (ValueError msg) else Inr (after_merge ops [x], provider, fs @ [warning ''catalog_conflict'' msg None]))"
proof -
  have inv: "if base_operations base n = None then (ops n = None) = (provider n = None)
             else ops n = base_operations base n" for n
    using assms by (simp add: merge_inv_def)
  show ?thesis
  proof (cases "base_operations base (co_name x)")
    case None
    then show ?thesis using inv [of "co_name x"] unfolding after_merge_one
      by (cases "ops (co_name x)"; cases "provider (co_name x)")
        (auto simp: merge_operation_def Let_def fun_upd_idem)
  next
    case (Some b)
    then show ?thesis using inv [of "co_name x"] unfolding after_merge_one by (auto simp: merge_operation_def)
  qed
qed

lemma merge_keeps_inv:
  assumes "merge_inv base s" "merge_operation base strict m x s = Inr t"
  shows "merge_inv base t"
proof -
  obtain ops provider fs where s: "s = (ops, provider, fs)" by (cases s)
  obtain ops' provider' fs' where t: "t = (ops', provider', fs')" by (cases t)
  have inv: "if base_operations base n = None then (ops n = None) = (provider n = None)
             else ops n = base_operations base n" for n
    using assms(1) by (simp add: merge_inv_def s)
  have "if base_operations base n = None then (ops' n = None) = (provider' n = None)
        else ops' n = base_operations base n" for n
    using assms(2) inv [of n] inv [of "co_name x"]
    unfolding s t merge_step [OF assms(1) [unfolded s]] after_merge_one
    by (cases "n = co_name x") (auto simp: Let_def split: if_splits)
  then show ?thesis by (simp add: merge_inv_def t)
qed

lemma after_merge_append: "after_merge (after_merge ops xs) ys = after_merge ops (xs @ ys)"
proof -
  have "find P (as @ bs) = (case find P as of None \<Rightarrow> find P bs | Some y \<Rightarrow> Some y)" for P :: "catalog_operation \<Rightarrow> bool" and as bs
    by (induction as) auto
  then show ?thesis by (auto simp: after_merge_def named_op_def fun_eq_iff split: option.splits)
qed

text \<open>Whether a definition is the one kept; the loop raises or reports exactly those that are not.\<close>

definition kept_op :: "base_catalog \<Rightarrow> (string \<rightharpoonup> catalog_operation) \<Rightarrow> catalog_operation \<Rightarrow> bool" where
  "kept_op base ops x = (base_operations base (co_name x) = None \<longrightarrow> ops (co_name x) = Some x)"

lemma kept_op_head:
  "kept_op base (after_merge ops (x # xs)) x \<longleftrightarrow>
   base_operations base (co_name x) \<noteq> None \<or> ops (co_name x) \<in> {None, Some x}"
  by (auto simp: kept_op_def after_merge_def named_op_def split: option.splits)

lemma after_merge_Cons: "after_merge ops (x # xs) = after_merge (after_merge ops [x]) xs"
  by (simp add: after_merge_append)

lemma after_merge_Nil [simp]: "after_merge ops [] = ops"
  by (auto simp: after_merge_def named_op_def fun_eq_iff split: option.splits)

text \<open>Each definition that is not the one kept is a finding.\<close>

definition conflicts_of :: "base_catalog \<Rightarrow> (string \<rightharpoonup> catalog_operation) \<Rightarrow> catalog_operation list \<Rightarrow> catalog_operation list" where
  "conflicts_of base ops xs = filter (\<lambda>x. \<not> kept_op base ops x) xs"

lemma merge_lenient:
  assumes "merge_inv base (ops, provider, fs)"
  shows "\<exists>provider' fs'. fold_result (\<lambda>(m, x). merge_operation base False m x) xs (ops, provider, fs) =
           Inr (after_merge ops (map snd xs), provider', fs @ fs') \<and>
         map dg_code fs' = map (\<lambda>x. ''catalog_conflict'') (conflicts_of base (after_merge ops (map snd xs)) (map snd xs))"
  using assms
proof (induction xs arbitrary: ops provider fs)
  case Nil
  then show ?case by (simp add: conflicts_of_def)
next
  case (Cons y xs)
  obtain m x where y: "y = (m, x)" by (cases y)
  obtain provider1 fs1 where step:
    "merge_operation base False m x (ops, provider, fs) = Inr (after_merge ops [x], provider1, fs @ fs1)"
    "map dg_code fs1 = (if kept_op base (after_merge ops (x # map snd xs)) x then [] else [''catalog_conflict''])"
    unfolding merge_step [OF Cons.prems] kept_op_head by (force simp: Let_def warning_def split: if_splits)
  from Cons.IH [OF merge_keeps_inv [OF Cons.prems step(1)]] step show ?case
    by (fastforce simp: y after_merge_Cons [of ops x "map snd xs"] conflicts_of_def)
qed

lemma merge_strict:
  assumes "merge_inv base (ops, provider, fs)"
  shows "(\<exists>provider'. fold_result (\<lambda>(m, x). merge_operation base True m x) xs (ops, provider, fs) = Inr (ops', provider', fs')) \<longleftrightarrow>
         ops' = after_merge ops (map snd xs) \<and> fs' = fs \<and>
         list_all (kept_op base (after_merge ops (map snd xs))) (map snd xs)"
  using assms
proof (induction xs arbitrary: ops provider fs)
  case Nil
  then show ?case by auto
next
  case (Cons y xs)
  obtain m x where y: "y = (m, x)" by (cases y)
  show ?case
  proof (cases "kept_op base (after_merge ops (x # map snd xs)) x")
    case True
    then obtain provider1 where step:
      "merge_operation base True m x (ops, provider, fs) = Inr (after_merge ops [x], provider1, fs)"
      unfolding merge_step [OF Cons.prems] kept_op_head by (force simp: Let_def split: if_splits)
    note IH = Cons.IH [OF merge_keeps_inv [OF Cons.prems step]]
    show ?thesis
      using IH True by (simp add: y step after_merge_Cons [of ops x "map snd xs"])
  next
    case False
    then have "\<exists>e. merge_operation base True m x (ops, provider, fs) = Inl e"
      unfolding merge_step [OF Cons.prems] kept_op_head by (auto simp: Let_def)
    with False show ?thesis by (auto simp: y)
  qed
qed

lemma resolve_operations_fold:
  "resolve_operations base modules strict fs =
   fold_result (\<lambda>(m, x). merge_operation base strict m x) (registered_ops modules) (base_operations base, Map.empty, fs)"
  by (simp add: resolve_operations_def registered_ops_def fold_result_concat)

lemma base_merge_inv: "merge_inv base (base_operations base, Map.empty, fs)"
  by (simp add: merge_inv_def)

lemma in_force_after: "after_merge (base_operations base) (map snd (registered_ops modules)) = in_force base modules"
  by (simp add: in_force_def after_merge_def fun_eq_iff)

lemma operations_agree_kept:
  "operations_agree base modules = list_all (kept_op base (in_force base modules)) (map snd (registered_ops modules))"
  by (simp add: operations_agree_def kept_op_def [abs_def])

lemma conflicts_of_Nil: "conflicts_of base (in_force base modules) (map snd (registered_ops modules)) = [] \<longleftrightarrow> operations_agree base modules"
  by (auto simp: conflicts_of_def operations_agree_kept filter_empty_conv list_all_iff)

lemma resolve_operations_lenient:
  "\<exists>provider fs. resolve_operations base modules False findings = Inr (in_force base modules, provider, findings @ fs) \<and>
     map dg_code fs = map (\<lambda>x. ''catalog_conflict'') (conflicts_of base (in_force base modules) (map snd (registered_ops modules)))"
  using merge_lenient [OF base_merge_inv [of base findings], of "registered_ops modules"]
  by (auto simp: resolve_operations_fold in_force_after)


text \<open>Without a finding, as a module that registers has to be.\<close>

lemma resolve_operations_agreed:
  "\<exists>provider fs. resolve_operations base modules False [] = Inr (in_force base modules, provider, fs) \<and>
     (fs = []) = operations_agree base modules"
  using resolve_operations_lenient [of base modules "[]"] unfolding conflicts_of_Nil [symmetric]
  by (metis append_Nil map_is_Nil_conv)

section \<open>What an accepted call is\<close>

text \<open>The operation is in force, every argument is one of its, and none it requires is missing.\<close>

definition call_fits :: "(string \<rightharpoonup> catalog_operation) \<Rightarrow> util_call \<Rightarrow> bool" where
  "call_fits ops c =
     (case ops (operation c) of
        None \<Rightarrow> False
      | Some spec \<Rightarrow>
          set (List.map_filter id (passed_keys c)) \<subseteq> ca_key ` set (co_arguments spec) \<and>
          Some ` ca_key ` set (filter ca_required (co_arguments spec)) \<subseteq> set (passed_keys c))"

lemma check_call_None: "check_call c ops label owner = None \<longleftrightarrow> call_fits ops c"
  by (cases "ops (operation c)")
    (auto simp: check_call_def call_fits_def Let_def filter_empty_conv image_iff subset_iff)

text \<open>
  A list of calls passes against base and the modules without a finding exactly when the
  modules agree and every call, however nested, fits the operation in force of its name.
\<close>

theorem validate_calls_iff:
  "validate_calls_against_catalogs base modules cs owner = Inr [] \<longleftrightarrow>
   operations_agree base modules \<and> list_all (call_fits (in_force base modules)) (concat (map nested_calls cs))"
proof -
  have "List.map_filter f xs = [] \<longleftrightarrow> list_all (\<lambda>x. f x = None) xs" for f :: "util_call \<Rightarrow> diagnostic option" and xs
    by (induction xs) (auto simp: map_filter_simps split: option.splits)
  then show ?thesis
    using resolve_operations_agreed [of base modules]
    by (auto simp: validate_calls_against_catalogs_def check_calls_def check_call_None)
qed

section \<open>What a registered module is\<close>

lemma map_filter_Nil_iff: "List.map_filter f xs = [] \<longleftrightarrow> list_all (\<lambda>x. f x = None) xs"
  by (induction xs) (auto simp: map_filter_simps split: option.splits)

lemma check_calls_Nil: "check_calls cs ops label owner = [] \<longleftrightarrow> list_all (call_fits ops) (concat (map nested_calls cs))"
  by (simp add: check_calls_def map_filter_Nil_iff check_call_None)

text \<open>Findings given to \<open>resolve_components\<close> stay findings.\<close>

lemma merge_component_findings:
  "merge_component strict m c (comps, provider, fs) = Inr (comps', provider', fs') \<Longrightarrow> \<exists>more. fs' = fs @ more"
  by (auto simp: merge_component_def Let_def split: if_splits option.splits)

lemma resolve_components_findings:
  assumes "resolve_components base modules strict fs = Inr (specs, fs')"
  shows "\<exists>more. fs' = fs @ more"
proof -
  obtain s where s: "fold_result (\<lambda>m. fold_result (merge_component strict (mo_name m)) (mo_components m)) modules
      (base_components base, (\<lambda>name. map_option (\<lambda>_. BASE_CATALOG_ID) (base_components base name)), fs) = Inr s"
    "fs' = snd (snd s)"
    using assms by (auto simp: resolve_components_def and_then_Inr)
  have "\<exists>more. snd (snd s) = fs @ more"
  proof (rule fold_result_invariant [OF s(1), where P = "\<lambda>s. \<exists>more. snd (snd s) = fs @ more"])
    fix m s t
    assume "fold_result (merge_component strict (mo_name m)) (mo_components m) s = Inr t" "\<exists>more. snd (snd s) = fs @ more"
    then show "\<exists>more. snd (snd t) = fs @ more"
      by (rule fold_result_invariant [where P = "\<lambda>s. \<exists>more. snd (snd s) = fs @ more"])
        (metis merge_component_findings append.assoc prod.collapse)
  qed simp
  then show ?thesis by (simp add: s(2))
qed

lemma no_base_name_redefined:
  "check_extension_does_not_shadow_base base ops name comps = Inr () \<Longrightarrow> x \<in> set ops \<Longrightarrow> base_operations base (co_name x) = None"
  by (auto simp: check_extension_does_not_shadow_base_def Let_def result_iff filter_empty_conv)

text \<open>Every call a widget carries: its own, and those of the props of its CUSTOM tree.\<close>

definition widget_calls :: "any_widget \<Rightarrow> util_call list" where
  "widget_calls w =
     iter_widget_calls w @ concat (map prop_calls (concat (map (or_nil \<circ> props) (iter_component_nodes (custom_root w)))))"

lemma check_prop_Nil: "check_prop spec ops label owner p = Inr [] \<Longrightarrow> list_all (call_fits ops) (concat (map nested_calls (prop_calls p)))"
  unfolding check_calls_Nil [of _ _ label "[Txt ''prop '', repr_str (pr_key p), Txt '' of ''] @ owner", symmetric]
  by (auto simp: check_prop_def Let_def result_iff split: option.splits)

lemma check_component_Nil:
  assumes "check_component n specs ops label owner = Inr []" "p \<in> set (or_nil (props n))"
  shows "list_all (call_fits ops) (concat (map nested_calls (prop_calls p)))"
proof -
  let ?spec = "case specs of None \<Rightarrow> None | Some m \<Rightarrow> m (component n)"
  obtain ds where "list_all2 (\<lambda>p d. check_prop ?spec ops label owner p = Inr d) (or_nil (props n)) ds" "concat ds = []"
    using assms(1) by (auto simp: check_component_def Let_def result_iff)
  then have "check_prop ?spec ops label owner p = Inr []" using assms(2) by (induction rule: list_all2_induct) auto
  then show ?thesis by (rule check_prop_Nil)
qed

lemma check_widget_Nil:
  assumes "check_widget specs ops label w = Inr []"
  shows "list_all (call_fits ops) (concat (map nested_calls (widget_calls (snd w))))"
proof -
  obtain ds where nodes: "list_all2 (\<lambda>n d. check_component n specs ops label (Txt ''widget of '' # fst w) = Inr d)
      (iter_component_nodes (custom_root (snd w))) ds" "concat ds = []"
    and own: "list_all (call_fits ops) (concat (map nested_calls (iter_widget_calls (snd w))))"
    using assms by (auto simp: check_widget_def case_prod_unfold Let_def result_iff check_calls_Nil)
  have "check_component n specs ops label (Txt ''widget of '' # fst w) = Inr []" if "n \<in> set (iter_component_nodes (custom_root (snd w)))" for n
    using nodes that by (induction rule: list_all2_induct) auto
  from check_component_Nil [OF this] own show ?thesis by (auto simp: widget_calls_def list_all_iff)
qed

lemma widgets_without_diagnostics:
  assumes "validate_widgets_against_catalogs base modules widgets = Inr []"
  shows "operations_agree base modules"
    and "list_all (call_fits (in_force base modules)) (concat (map nested_calls (concat (map (widget_calls \<circ> snd) widgets))))"
proof -
  obtain provider fs where ops: "resolve_operations base modules False [] = Inr (in_force base modules, provider, fs)"
    and agree: "(fs = []) = operations_agree base modules"
    using resolve_operations_agreed by blast
  obtain specs fs' ds where specs: "resolve_components base modules False fs = Inr (specs, fs')"
    and ds: "list_all2 (\<lambda>w d. check_widget specs (in_force base modules) (module_label modules) w = Inr d) widgets ds"
    and none: "fs' = []" "concat ds = []"
    using assms by (auto simp: validate_widgets_against_catalogs_def ops result_iff)
  show "operations_agree base modules"
    using resolve_components_findings [OF specs] none(1) agree by simp
  have "list_all (call_fits (in_force base modules)) (concat (map nested_calls (widget_calls (snd w))))"
    if "w \<in> set widgets" for w
  proof -
    have "check_widget specs (in_force base modules) (module_label modules) w = Inr []"
      using ds none(2) that by (induction rule: list_all2_induct) auto
    then show ?thesis by (rule check_widget_Nil)
  qed
  then show "list_all (call_fits (in_force base modules)) (concat (map nested_calls (concat (map (widget_calls \<circ> snd) widgets))))"
    by (auto simp: list_all_iff)
qed


definition tiny_base :: base_catalog where
  "tiny_base = \<lparr>bc_version = 1,
     bc_operations = [\<lparr>co_name = ''eq'', co_description = None,
       co_arguments = [\<lparr>ca_key = ''a'', ca_kind = V_ANY, ca_required = True, ca_description = None\<rparr>], co_returns = V_BOOL\<rparr>],
     bc_components = []\<rparr>"

definition shout :: util_call where
  "shout = UtilCall ''fmt.shout'' (Some [Argument (Some ''text'') (JStr ''hi'') None None None None None])"

definition loud_prop :: component_prop where
  "loud_prop = (no_value ''label'')\<lparr>pr_util_call := Some shout\<rparr>"

definition shouting_module :: module_input where
  "shouting_module = \<lparr>mi_name = ''loud'', mi_components = [],
     mi_operations = [\<lparr>co_name = ''fmt.shout'', co_description = None,
       co_arguments = [\<lparr>ca_key = ''text'', ca_kind = V_STRING, ca_required = True, ca_description = None\<rparr>], co_returns = V_STRING\<rparr>],
     mi_catalogs = [''ui@1''],
     mi_widget_defaults = [\<lparr>wd_kind = Some K_STRING, wd_identifier = None,
       wd_widget = Some (State_choice None None
         (Some shout) None None None), wd_return_widget = None\<rparr>,
       \<lparr>wd_kind = Some K_INT, wd_identifier = None, wd_widget = None,
         wd_return_widget = Some (Custom_return ''Loud'' (Some [loud_prop]))\<rparr>]\<rparr>"


section \<open>Dry runs and writes\<close>

lemma error_diagnostics:
  "list_all (\<lambda>d. dg_level d = D_WARNING) (map diagnostic_of fs) \<longleftrightarrow> find is_error fs = None"
  by (induction fs) (auto simp: diagnostic_of_def is_error_def split: level.splits)

lemma module_unknown_row: "d_level (the (map_of (diagnostics load_vocabulary) ''module.unknown'')) = Warning"
  by code_simp

lemma module_findings_warn:
  assumes "module_findings load_vocabulary others m = Inr fs"
  shows "find is_error fs = None"
  using assms module_unknown_row
  by (auto simp: module_findings_def finding_of_def is_error_def result_iff split: option.splits if_splits)

text \<open>
  A blok is written against its module exactly when an editor's dry run of it lists no error, and
  what is stored is what the dry run showed.
\<close>

theorem dry_run_agrees:
  "validate_blok_against_module load_vocabulary ext specs others m roots sc = Inr ds \<longleftrightarrow>
   blok_findings_against_module load_vocabulary ext specs others m roots sc = Inr ds \<and>
   list_all (\<lambda>d. dg_level d = D_WARNING) ds"
proof -
  have app: "find is_error (as @ bs) = None \<longleftrightarrow> find is_error as = None \<and> find is_error bs = None" for as bs
    by (auto simp: find_None_iff)
  show ?thesis
    by (auto simp: validate_blok_against_module_def blok_findings_against_module_def result_iff error_diagnostics app
        dest: module_findings_warn split: list.splits option.splits)
qed

end
