(* ===== verification/Tables.thy ===== *)
theory Tables
  imports Prelude
begin

text \<open>
  Database tables as the code uses them through Django: rows with a primary key given in order of
  creation and a key the table is unique on, \<open>update_or_create\<close> and \<open>filter(...).delete()\<close>. A \<open>foreign
  key\<close> is the primary key it points at. The locale \<open>keyed_table\<close> states what the components rely on
  and proves, once, what bringing rows in line with a declaration leaves.
\<close>

section \<open>Tables\<close>

record ('k, 'v) table =
  tb_rows :: "(nat \<times> 'k \<times> 'v) list"
  tb_next :: nat

definition empty_table :: "('k, 'v) table" where
  "empty_table = \<lparr>tb_rows = [], tb_next = 1\<rparr>"

definition table_ok :: "('k, 'v) table \<Rightarrow> bool" where
  "table_ok t = (distinct (map (fst \<circ> snd) (tb_rows t)) \<and> distinct (map fst (tb_rows t)) \<and>
                 list_all (\<lambda>r. fst r < tb_next t) (tb_rows t))"

fun lookup_rows :: "'k \<Rightarrow> (nat \<times> 'k \<times> 'v) list \<Rightarrow> (nat \<times> 'v) option" where
  "lookup_rows k [] = None"
| "lookup_rows k ((pk, k', v) # rs) = (if k' = k then Some (pk, v) else lookup_rows k rs)"

definition find_row :: "'k \<Rightarrow> ('k, 'v) table \<Rightarrow> (nat \<times> 'v) option" where
  "find_row k t = lookup_rows k (tb_rows t)"

definition row_pk :: "'k \<Rightarrow> ('k, 'v) table \<Rightarrow> nat option" where
  "row_pk k t = map_option fst (find_row k t)"

definition row_value :: "('k, 'v) table \<Rightarrow> 'k \<Rightarrow> 'v option" where
  "row_value t k = map_option snd (find_row k t)"

text \<open>\<open>update_or_create(k, defaults)\<close>: the row of the key changed in place, or a new last one.\<close>

definition update_or_create :: "'k \<Rightarrow> ('v option \<Rightarrow> 'v) \<Rightarrow> ('k, 'v) table \<Rightarrow> ('k, 'v) table" where
  "update_or_create k f t =
     (if find_row k t = None
      then \<lparr>tb_rows = tb_rows t @ [(tb_next t, k, f None)], tb_next = Suc (tb_next t)\<rparr>
      else t\<lparr>tb_rows := map (\<lambda>(pk, k', v). (pk, k', if k' = k then f (Some v) else v)) (tb_rows t)\<rparr>)"

definition delete_where :: "('k \<Rightarrow> 'v \<Rightarrow> bool) \<Rightarrow> ('k, 'v) table \<Rightarrow> ('k, 'v) table" where
  "delete_where P t = t\<lparr>tb_rows := filter (\<lambda>(pk, k, v). \<not> P k v) (tb_rows t)\<rparr>"

section \<open>Rows by key\<close>

lemma find_row_empty [simp]: "find_row k empty_table = None"
  by (simp add: find_row_def empty_table_def)

lemma table_ok_empty [simp]: "table_ok empty_table"
  by (simp add: table_ok_def empty_table_def)

lemma lookup_rows_None: "lookup_rows k rs = None \<longleftrightarrow> k \<notin> (fst \<circ> snd) ` set rs"
  by (induction k rs rule: lookup_rows.induct) auto

lemma find_row_None: "find_row k t = None \<longleftrightarrow> k \<notin> (fst \<circ> snd) ` set (tb_rows t)"
  by (simp add: find_row_def lookup_rows_None)

lemma lookup_rows_Some:
  "distinct (map (fst \<circ> snd) rs) \<Longrightarrow> lookup_rows k rs = Some (pk, v) \<longleftrightarrow> (pk, k, v) \<in> set rs"
  by (induction k rs rule: lookup_rows.induct) force+

lemma find_row_Some: "table_ok t \<Longrightarrow> find_row k t = Some (pk, v) \<longleftrightarrow> (pk, k, v) \<in> set (tb_rows t)"
  by (simp add: find_row_def table_ok_def lookup_rows_Some)

lemma lookup_rows_append: "lookup_rows k (rs @ rs') = (case lookup_rows k rs of None \<Rightarrow> lookup_rows k rs' | Some r \<Rightarrow> Some r)"
  by (induction k rs rule: lookup_rows.induct) auto

lemma lookup_rows_change:
  "lookup_rows k' (map (\<lambda>(pk, k', v). (pk, k', if k' = k then f (Some v) else v)) rs) =
   map_option (\<lambda>(pk, v). (pk, if k' = k then f (Some v) else v)) (lookup_rows k' rs)"
  by (induction k' rs rule: lookup_rows.induct) auto

lemma find_row_put:
  "find_row k' (update_or_create k f t) =
   (if k' = k then Some (case find_row k t of None \<Rightarrow> (tb_next t, f None) | Some (pk, v) \<Rightarrow> (pk, f (Some v)))
    else find_row k' t)"
  by (auto simp: update_or_create_def find_row_def lookup_rows_change lookup_rows_append split: option.splits)

lemma lookup_rows_filter:
  "distinct (map (fst \<circ> snd) rs) \<Longrightarrow>
   lookup_rows k (filter (\<lambda>(pk, k, v). \<not> P k v) rs) =
   (case lookup_rows k rs of None \<Rightarrow> None | Some (pk, v) \<Rightarrow> if P k v then None else Some (pk, v))"
proof (induction rs)
  case (Cons r rs)
  obtain pk k' v where r: "r = (pk, k', v)" by (cases r)
  have "lookup_rows k' rs = None" using Cons.prems by (auto simp: r lookup_rows_None)
  with Cons show ?case by (auto simp: r split: option.splits)
qed simp

lemma find_row_delete:
  assumes "table_ok t"
  shows "find_row k (delete_where P t) =
    (case find_row k t of None \<Rightarrow> None | Some (pk, v) \<Rightarrow> if P k v then None else Some (pk, v))"
  using assms by (simp add: find_row_def delete_where_def table_ok_def lookup_rows_filter)

lemma table_ok_put: "table_ok t \<Longrightarrow> table_ok (update_or_create k f t)"
proof -
  assume ok: "table_ok t"
  have same: "map (fst \<circ> snd) (map (\<lambda>(pk, k', v). (pk, k', if k' = k then f (Some v) else v)) rs) = map (fst \<circ> snd) rs"
    "map fst (map (\<lambda>(pk, k', v). (pk, k', if k' = k then f (Some v) else v)) rs) = map fst rs" for rs
    by auto
  show ?thesis
  proof (cases "find_row k t")
    case None
    then show ?thesis using ok
      by (force simp: table_ok_def update_or_create_def find_row_None list_all_iff)
  next
    case (Some r)
    then show ?thesis using ok unfolding table_ok_def update_or_create_def
      by (auto simp: same list_all_iff simp del: map_map)
  qed
qed

lemma table_ok_delete: "table_ok t \<Longrightarrow> table_ok (delete_where P t)"
  by (auto simp: table_ok_def delete_where_def distinct_map_filter list_all_iff)

lemma row_value_put: "row_value (update_or_create k f t) k' = (if k' = k then Some (f (row_value t k)) else row_value t k')"
  by (auto simp: row_value_def find_row_put split: option.splits)

lemma row_value_delete:
  "table_ok t \<Longrightarrow> row_value (delete_where P t) k =
   (case row_value t k of None \<Rightarrow> None | Some v \<Rightarrow> if P k v then None else Some v)"
  by (auto simp: row_value_def find_row_delete split: option.splits)

text \<open>A row keeps its primary key as long as it is not deleted.\<close>

lemma row_pk_put: "row_pk k t = Some pk \<Longrightarrow> row_pk k (update_or_create k' f t) = Some pk"
  by (auto simp: row_pk_def find_row_put)

lemma row_pk_fold: "row_pk k t = Some pk \<Longrightarrow> row_pk k (fold (\<lambda>d. update_or_create (key d) (fill d)) ds t) = Some pk"
  by (induction ds arbitrary: t) (auto simp: row_pk_put)

lemma table_ok_fold: "table_ok t \<Longrightarrow> table_ok (fold (\<lambda>d. update_or_create (key d) (fill d)) ds t)"
  by (induction ds arbitrary: t) (auto simp: table_ok_put)

lemma row_pk_delete:
  "table_ok t \<Longrightarrow> row_pk k (delete_where P t) = Some pk \<longleftrightarrow> (\<exists>v. find_row k t = Some (pk, v) \<and> \<not> P k v)"
  by (auto simp: row_pk_def find_row_delete split: option.splits)

section \<open>The interface, and bringing rows in line\<close>

text \<open>
  What a component relies on of its rows: reading one after a write of any key, and after deleting
  those that satisfy a condition. \<open>sync\<close> writes every declared row and deletes the component's own
  rows that are not declared, in either order.
\<close>

locale keyed_table =
  fixes ok :: "'s \<Rightarrow> bool"
    and lookup :: "'s \<Rightarrow> 'k \<Rightarrow> 'v option"
    and put :: "'k \<Rightarrow> ('v option \<Rightarrow> 'v) \<Rightarrow> 's \<Rightarrow> 's"
    and drop_if :: "('k \<Rightarrow> 'v \<Rightarrow> bool) \<Rightarrow> 's \<Rightarrow> 's"
  assumes ok_put: "ok s \<Longrightarrow> ok (put k f s)"
    and ok_drop: "ok s \<Longrightarrow> ok (drop_if P s)"
    and lookup_put: "ok s \<Longrightarrow> lookup (put k f s) k' = (if k' = k then Some (f (lookup s k)) else lookup s k')"
    and lookup_drop: "ok s \<Longrightarrow> lookup (drop_if P s) k =
      (case lookup s k of None \<Rightarrow> None | Some v \<Rightarrow> if P k v then None else Some v)"
begin

lemma ok_puts: "ok s \<Longrightarrow> ok (fold (\<lambda>d. put (key d) (fill d)) ds s)"
  by (induction ds arbitrary: s) (auto simp: ok_put)

lemma lookup_puts_other:
  "ok s \<Longrightarrow> k \<notin> key ` set ds \<Longrightarrow> lookup (fold (\<lambda>d. put (key d) (fill d)) ds s) k = lookup s k"
  by (induction ds arbitrary: s) (auto simp: ok_put lookup_put)

text \<open>A declared key holds what its last declaration says, of what it held before.\<close>

lemma lookup_puts:
  "ok s \<Longrightarrow> lookup (fold (\<lambda>d. put (key d) (fill d)) ds s) k =
   fold (\<lambda>d r. Some (fill d r)) (filter (\<lambda>d. key d = k) ds) (lookup s k)"
  by (induction ds arbitrary: s) (auto simp: ok_put lookup_put)

lemma lookup_puts_distinct:
  assumes "ok s" "distinct (map key ds)" "d \<in> set ds"
  shows "lookup (fold (\<lambda>d. put (key d) (fill d)) ds s) (key d) = Some (fill d (lookup s (key d)))"
proof -
  have "filter (\<lambda>d'. key d' = key d) ds = [d]"
    using assms(2,3) by (induction ds) (auto simp: filter_empty_conv image_iff)
  then show ?thesis by (simp add: lookup_puts [OF assms(1)])
qed

text \<open>The rows after writing the declared ones and deleting the component's others.\<close>

lemma lookup_sync:
  assumes "ok s"
  shows "lookup (drop_if (\<lambda>k v. mine k v \<and> k \<notin> key ` set ds) (fold (\<lambda>d. put (key d) (fill d)) ds s)) k =
    (if k \<in> key ` set ds then lookup (fold (\<lambda>d. put (key d) (fill d)) ds s) k
     else case lookup s k of None \<Rightarrow> None | Some v \<Rightarrow> if mine k v then None else Some v)"
proof (cases "k \<in> key ` set ds")
  case True
  then show ?thesis by (auto simp: lookup_drop ok_puts assms split: option.splits)
next
  case False
  then show ?thesis by (simp add: lookup_drop ok_puts lookup_puts_other assms cong: option.case_cong)
qed

lemma lookup_sync_first:
  assumes "ok s"
  shows "lookup (fold (\<lambda>d. put (key d) (fill d)) ds (drop_if (\<lambda>k v. mine k v \<and> k \<notin> key ` set ds) s)) k =
    (if k \<in> key ` set ds then lookup (fold (\<lambda>d. put (key d) (fill d)) ds s) k
     else case lookup s k of None \<Rightarrow> None | Some v \<Rightarrow> if mine k v then None else Some v)"
proof (cases "k \<in> key ` set ds")
  case True
  then have "lookup (drop_if (\<lambda>k v. mine k v \<and> k \<notin> key ` set ds) s) k = lookup s k"
    by (auto simp: lookup_drop assms split: option.splits)
  with True show ?thesis by (simp add: lookup_puts ok_drop assms)
next
  case False
  then show ?thesis by (simp add: lookup_drop ok_drop lookup_puts_other assms cong: option.case_cong)
qed

end

interpretation tb: keyed_table table_ok row_value update_or_create delete_where
  by unfold_locales (simp_all add: table_ok_put table_ok_delete row_value_put row_value_delete)

section \<open>Keys, primary keys, and writes that change nothing\<close>

definition table_pks :: "('k, 'v) table \<Rightarrow> nat set" where
  "table_pks t = fst ` set (tb_rows t)"

lemma row_value_None_iff: "row_value t k = None \<longleftrightarrow> find_row k t = None"
  by (simp add: row_value_def)

lemma table_pks_put: "table_pks t \<subseteq> table_pks (update_or_create k f t)"
  by (force simp: table_pks_def update_or_create_def)

lemma table_pks_puts: "table_pks t \<subseteq> table_pks (fold (\<lambda>d. update_or_create (key d) (fill d)) ds t)"
  by (induction ds arbitrary: t) (auto intro: subsetD [OF table_pks_put])

lemma row_pk_in_pks: "table_ok t \<Longrightarrow> row_pk k t = Some p \<Longrightarrow> p \<in> table_pks t"
  by (force simp: row_pk_def table_pks_def find_row_Some)

lemma row_pk_written: "\<exists>p. row_pk k (update_or_create k f t) = Some p"
  by (simp add: row_pk_def find_row_put)

lemma row_pk_value: "row_pk k t = Some p \<Longrightarrow> \<exists>v. row_value t k = Some v"
  by (auto simp: row_pk_def row_value_def)

lemma row_pk_inject:
  assumes "table_ok t" "row_pk k t = Some p" "row_pk k' t = Some p"
  shows "k = k'"
proof -
  obtain v v' where rows: "(p, k, v) \<in> set (tb_rows t)" "(p, k', v') \<in> set (tb_rows t)"
    using assms by (auto simp: row_pk_def find_row_Some)
  moreover have "distinct (map fst (tb_rows t))" using assms(1) by (simp add: table_ok_def)
  ultimately show ?thesis by (metis eq_key_imp_eq_value prod.inject)
qed

lemma put_same:
  assumes "table_ok t" "row_value t k = Some v" "f (Some v) = v"
  shows "update_or_create k f t = t"
proof -
  obtain p where p: "find_row k t = Some (p, v)" using assms(2) by (auto simp: row_value_def)
  have same: "v' = v" if "(p', k, v') \<in> set (tb_rows t)" for p' v'
    using that p find_row_Some [OF assms(1), of k p' v'] by simp
  then have "map (\<lambda>(pk, k', v). (pk, k', if k' = k then f (Some v) else v)) (tb_rows t) = tb_rows t"
    using assms(3) by (intro map_idI) (auto dest: same)
  with p show ?thesis by (simp add: update_or_create_def)
qed

lemma puts_same:
  "table_ok t \<Longrightarrow> (\<And>d. d \<in> set ds \<Longrightarrow> \<exists>v. row_value t (key d) = Some v \<and> fill d (Some v) = v) \<Longrightarrow>
   fold (\<lambda>d. update_or_create (key d) (fill d)) ds t = t"
proof (induction ds)
  case (Cons d ds)
  then obtain v where "row_value t (key d) = Some v" "fill d (Some v) = v" by auto
  with Cons show ?case by (simp add: put_same)
qed simp

lemma delete_none:
  assumes "table_ok t" "\<And>k v. row_value t k = Some v \<Longrightarrow> \<not> P k v"
  shows "delete_where P t = t"
proof -
  have "\<not> P k v" if "(p, k, v) \<in> set (tb_rows t)" for p k v
    using that assms(2) [of k v] find_row_Some [OF assms(1), of k p v] by (auto simp: row_value_def)
  then have "filter (\<lambda>(pk, k, v). \<not> P k v) (tb_rows t) = tb_rows t"
    by (auto simp: filter_id_conv)
  then show ?thesis by (simp add: delete_where_def)
qed

lemma table_pks_delete:
  "p \<in> table_pks t \<Longrightarrow> p \<notin> set (map fst (filter (\<lambda>(p, k, v). P k v) (tb_rows t))) \<Longrightarrow> p \<in> table_pks (delete_where P t)"
  by (force simp: table_pks_def delete_where_def)

section \<open>Declared rows\<close>

lemma find_rev_last: "find P (rev xs) = (if filter P xs = [] then None else Some (last (filter P xs)))"
proof (induction xs)
  case (Cons x xs)
  have "find P (as @ [x]) = (case find P as of None \<Rightarrow> if P x then Some x else None | Some y \<Rightarrow> Some y)" for as
    by (induction as) auto
  with Cons show ?case by auto
qed simp

lemma fold_last: "fold (\<lambda>d r. Some (g d)) xs old = (if xs = [] then old else Some (g (last xs)))"
  by (induction xs arbitrary: old) auto

text \<open>A key that is written holds what its last declaration says, when that does not depend on what it held.\<close>

lemma row_value_puts:
  assumes "table_ok t" "\<And>d r. fill d r = g d"
  shows "row_value (fold (\<lambda>d. update_or_create (key d) (fill d)) ds t) k =
    (case find (\<lambda>d. key d = k) (rev ds) of None \<Rightarrow> row_value t k | Some d \<Rightarrow> Some (g d))"
  by (simp add: tb.lookup_puts [OF assms(1)] assms(2) fold_last find_rev_last)

lemma declared_key: "k \<in> key ` set ds \<longleftrightarrow> find (\<lambda>d. key d = k) (rev ds) \<noteq> None"
  by (auto simp: find_None_iff)

lemma row_value_sync:
  assumes "table_ok t" "\<And>d r. fill d r = g d"
  shows "row_value (delete_where (\<lambda>k v. mine k v \<and> k \<notin> key ` set ds) (fold (\<lambda>d. update_or_create (key d) (fill d)) ds t)) k =
    (case find (\<lambda>d. key d = k) (rev ds) of
       Some d \<Rightarrow> Some (g d)
     | None \<Rightarrow> (case row_value t k of None \<Rightarrow> None | Some v \<Rightarrow> if mine k v then None else Some v))"
  by (subst tb.lookup_sync [OF assms(1)], unfold row_value_puts [OF assms] declared_key) (simp split: option.split)

end
