(* ===== verification/Services.thy ===== *)
theory Services
  imports Tables Json
begin

text \<open>
  The hub's service catalog (\<open>facade/service_catalog.py\<close>): the rows of a service, of the structures it
  hosts, of their descriptors and of the signals it emits, brought in line with what it declares.
  Fetching a manifest over HTTP is an argument (\<open>fetch\<close>); the calls that write are Django's, modelled by
  \<open>Tables\<close>, each statement on its own as outside a transaction.
\<close>

section \<open>Declarations and rows\<close>

record descriptor_manifest =
  dm_key :: string
  dm_type :: "string option"
  dm_description :: "string option"

record structure_manifest =
  sm_identifier :: string
  sm_label :: "string option"
  sm_description :: "string option"
  sm_descriptors :: "descriptor_manifest list option"

record signal_manifest =
  gm_identifier :: string
  gm_kinds :: "string list option"
  gm_descriptors :: "string list option"
  gm_description :: "string option"

record service_manifest =
  mf_identifier :: "string option"
  mf_description :: "string option"
  mf_signals :: "signal_manifest list option"
  mf_structures :: "structure_manifest list option"

record service_hosts =
  sh_structures :: "structure_manifest list"
  sh_signals :: "signal_manifest list"

record service_entry =
  se_name :: string
  se_identifier :: "string option"
  se_hosts :: "service_hosts option"

record service_row =
  sv_identifier :: "string option"
  sv_description :: "string option"

text \<open>A structure has one row per identifier: whichever service hosts it.\<close>

record structure_row =
  st_service :: nat
  st_label :: "string option"
  st_description :: "string option"

record descriptor_row =
  dr_type :: string
  dr_description :: "string option"
  dr_position :: nat

record signal_row =
  sg_descriptor_keys :: "string list"
  sg_description :: "string option"

record hub =
  hc_services :: "(string, service_row) table"
  hc_structures :: "(string, structure_row) table"
  hc_descriptors :: "(nat \<times> string, descriptor_row) table"
  hc_signals :: "(nat \<times> string \<times> string, signal_row) table"

section \<open>The code\<close>

definition identifier_of :: "service_entry \<Rightarrow> string" where
  "identifier_of e = (case se_identifier e of None \<Rightarrow> se_name e | Some i \<Rightarrow> if i = '''' then se_name e else i)"

definition declared_inline :: "service_entry \<Rightarrow> service_manifest option" where
  "declared_inline e =
     map_option (\<lambda>h. \<lparr>mf_identifier = Some (identifier_of e), mf_description = None,
                      mf_signals = Some (sh_signals h), mf_structures = Some (sh_structures h)\<rparr>) (se_hosts e)"

text \<open>\<open>signal.kinds or ["CREATED"]\<close>, one row per kind.\<close>

definition signal_kinds :: "signal_manifest \<Rightarrow> string list" where
  "signal_kinds g = (if or_nil (gm_kinds g) = [] then [''CREATED''] else or_nil (gm_kinds g))"

definition signal_rows :: "signal_manifest list \<Rightarrow> (signal_manifest \<times> string) list" where
  "signal_rows gs = concat (map (\<lambda>g. map (Pair g) (signal_kinds g)) gs)"

definition signal_key :: "nat \<Rightarrow> signal_manifest \<times> string \<Rightarrow> nat \<times> string \<times> string" where
  "signal_key s d = (s, gm_identifier (fst d), snd d)"

definition signal_fill :: "signal_manifest \<times> string \<Rightarrow> signal_row option \<Rightarrow> signal_row" where
  "signal_fill d old = \<lparr>sg_descriptor_keys = or_nil (gm_descriptors (fst d)), sg_description = gm_description (fst d)\<rparr>"

definition sync_signals :: "nat \<Rightarrow> signal_manifest list \<Rightarrow> hub \<Rightarrow> hub" where
  "sync_signals s gs db =
     (let written = fold (\<lambda>d. update_or_create (signal_key s d) (signal_fill d)) (signal_rows gs) (hc_signals db)
      in db\<lparr>hc_signals :=
           delete_where (\<lambda>k _. fst k = s \<and> k \<notin> signal_key s ` set (signal_rows gs)) written\<rparr>)"

definition descriptor_key :: "nat \<Rightarrow> nat \<times> descriptor_manifest \<Rightarrow> nat \<times> string" where
  "descriptor_key p d = (p, dm_key (snd d))"

definition descriptor_fill :: "nat \<times> descriptor_manifest \<Rightarrow> descriptor_row option \<Rightarrow> descriptor_row" where
  "descriptor_fill d old =
     \<lparr>dr_type = (case dm_type (snd d) of None \<Rightarrow> ''ANY'' | Some t \<Rightarrow> if t = '''' then ''ANY'' else t),
      dr_description = dm_description (snd d), dr_position = fst d\<rparr>"

definition sync_descriptors :: "nat \<Rightarrow> descriptor_manifest list \<Rightarrow> hub \<Rightarrow> hub" where
  "sync_descriptors p ds db =
     (let numbered = zip [0..<length ds] ds;
          written = fold (\<lambda>d. update_or_create (descriptor_key p d) (descriptor_fill d)) numbered (hc_descriptors db)
      in db\<lparr>hc_descriptors :=
           delete_where (\<lambda>k _. fst k = p \<and> k \<notin> descriptor_key p ` set numbered) written\<rparr>)"

text \<open>The holder of an identifier, when it is another service than \<open>s\<close>.\<close>

definition held_elsewhere :: "nat \<Rightarrow> (string, structure_row) table \<Rightarrow> string \<Rightarrow> bool" where
  "held_elsewhere s t i = (case row_value t i of None \<Rightarrow> False | Some r \<Rightarrow> st_service r \<noteq> s)"

definition structure_fill :: "nat \<Rightarrow> structure_manifest \<Rightarrow> structure_row option \<Rightarrow> structure_row" where
  "structure_fill s m old = \<lparr>st_service = s, st_label = sm_label m, st_description = sm_description m\<rparr>"

text \<open>The loop of \<open>_sync_structures\<close>; \<open>declared\<close> collects what the service keeps.\<close>

fun host_structures :: "nat \<Rightarrow> structure_manifest list \<Rightarrow> string list \<Rightarrow> hub \<Rightarrow> string list \<times> hub" where
  "host_structures s [] declared db = (declared, db)"
| "host_structures s (m # ms) declared db =
     (if held_elsewhere s (hc_structures db) (sm_identifier m) then host_structures s ms declared db
      else
        let hosted = update_or_create (sm_identifier m) (structure_fill s m) (hc_structures db);
            p = the (row_pk (sm_identifier m) hosted)
        in host_structures s ms (sm_identifier m # declared)
             (sync_descriptors p (or_nil (sm_descriptors m)) (db\<lparr>hc_structures := hosted\<rparr>)))"

text \<open>Deleting structures deletes their descriptors (\<open>on_delete=CASCADE\<close>).\<close>

definition delete_structures :: "(string \<Rightarrow> structure_row \<Rightarrow> bool) \<Rightarrow> hub \<Rightarrow> hub" where
  "delete_structures P db =
     (let gone = map fst (filter (\<lambda>(p, i, r). P i r) (tb_rows (hc_structures db)))
      in db\<lparr>hc_structures := delete_where P (hc_structures db),
            hc_descriptors := delete_where (\<lambda>k _. fst k \<in> set gone) (hc_descriptors db)\<rparr>)"

definition sync_structures :: "nat \<Rightarrow> structure_manifest list option \<Rightarrow> hub \<Rightarrow> hub" where
  "sync_structures s ms db =
     (case ms of
        None \<Rightarrow> db
      | Some ms \<Rightarrow>
          let (declared, db') = host_structures s ms [] db
          in delete_structures (\<lambda>i r. st_service r = s \<and> i \<notin> set declared) db')"

text \<open>
  The rows of a manifest: the service's own (its description only from a fetched manifest, else kept),
  its structures, its signals.
\<close>

definition service_fill :: "bool \<Rightarrow> service_manifest \<Rightarrow> service_row option \<Rightarrow> service_row" where
  "service_fill describes m old =
     \<lparr>sv_identifier = mf_identifier m,
      sv_description = (if describes then mf_description m
                        else case old of None \<Rightarrow> None | Some r \<Rightarrow> sv_description r)\<rparr>"

definition catalogue_manifest :: "string \<Rightarrow> bool \<Rightarrow> service_manifest \<Rightarrow> hub \<Rightarrow> hub" where
  "catalogue_manifest name describes m db =
     (let services = update_or_create name (service_fill describes m) (hc_services db);
          s = the (row_pk name services)
      in sync_signals s (or_nil (mf_signals m)) (sync_structures s (mf_structures m) (db\<lparr>hc_services := services\<rparr>)))"

definition catalogue :: "(service_entry \<Rightarrow> service_manifest result) \<Rightarrow> service_entry \<Rightarrow> hub \<Rightarrow> hub result" where
  "catalogue fetch e db =
     (case declared_inline e of
        Some m \<Rightarrow> Inr (catalogue_manifest (se_name e) False m db)
      | None \<Rightarrow> and_then (fetch e) (\<lambda>m. Inr (catalogue_manifest (se_name e) True m db)))"

definition SELF :: string where "SELF = ''rekuest''"

text \<open>What rekuest hosts itself is in its own contract, an argument here.\<close>

definition catalogue_self :: "service_manifest \<Rightarrow> hub \<Rightarrow> hub" where
  "catalogue_self contract db = catalogue_manifest SELF True contract db"

text \<open>\<open>catalogue_all\<close>: a service that cannot be catalogued does not keep the others from it.\<close>

fun catalogue_entries ::
  "(service_entry \<Rightarrow> service_manifest result) \<Rightarrow> service_entry list \<Rightarrow> hub \<Rightarrow> string list \<times> hub" where
  "catalogue_entries fetch [] db = ([], db)"
| "catalogue_entries fetch (e # es) db =
     (case catalogue fetch e db of
        Inl _ \<Rightarrow> (let (failed, db') = catalogue_entries fetch es db in (se_name e # failed, db'))
      | Inr db1 \<Rightarrow> catalogue_entries fetch es db1)"

definition catalogue_all ::
  "service_manifest \<Rightarrow> (service_entry \<Rightarrow> service_manifest result) \<Rightarrow> service_entry list \<Rightarrow> hub \<Rightarrow> string list \<times> hub" where
  "catalogue_all contract fetch es db = catalogue_entries fetch es (catalogue_self contract db)"

section \<open>Structures\<close>

lemma sync_descriptors_fields [simp]:
  "hc_services (sync_descriptors p ds db) = hc_services db"
  "hc_structures (sync_descriptors p ds db) = hc_structures db"
  "hc_signals (sync_descriptors p ds db) = hc_signals db"
  by (simp_all add: sync_descriptors_def Let_def)

definition hosted_by :: "nat \<Rightarrow> (string, structure_row) table \<Rightarrow> structure_manifest list \<Rightarrow> structure_manifest list" where
  "hosted_by s t ms = filter (\<lambda>m. \<not> held_elsewhere s t (sm_identifier m)) ms"

lemma held_elsewhere_put:
  "\<not> held_elsewhere s t i \<Longrightarrow> held_elsewhere s (update_or_create i (structure_fill s m) t) = held_elsewhere s t"
  by (auto simp: held_elsewhere_def row_value_put structure_fill_def fun_eq_iff)

lemma host_structures_rows:
  "host_structures s ms declared db = (declared', db') \<Longrightarrow>
   hc_structures db' = fold (\<lambda>m. update_or_create (sm_identifier m) (structure_fill s m)) (hosted_by s (hc_structures db) ms) (hc_structures db) \<and>
   declared' = rev (map sm_identifier (hosted_by s (hc_structures db) ms)) @ declared \<and>
   hc_services db' = hc_services db \<and> hc_signals db' = hc_signals db"
proof (induction s ms declared db arbitrary: declared' db' rule: host_structures.induct)
  case (2 s m ms declared db)
  show ?case
  proof (cases "held_elsewhere s (hc_structures db) (sm_identifier m)")
    case True
    from "2.prems" True have "host_structures s ms declared db = (declared', db')" by simp
    from "2.IH"(1) [OF True this] True show ?thesis by (simp add: hosted_by_def)
  next
    case False
    let ?hosted = "update_or_create (sm_identifier m) (structure_fill s m) (hc_structures db)"
    note IH = "2.IH"(2) [OF False refl refl]
    from "2.prems" False have "host_structures s ms (sm_identifier m # declared)
        (sync_descriptors (the (row_pk (sm_identifier m) ?hosted)) (or_nil (sm_descriptors m)) (db\<lparr>hc_structures := ?hosted\<rparr>)) = (declared', db')"
      by (simp add: Let_def)
    from IH [OF this] False show ?thesis by (simp add: hosted_by_def held_elsewhere_put)
  qed
qed (simp add: hosted_by_def)

lemma sync_structures_fields [simp]:
  "hc_services (sync_structures s ms db) = hc_services db"
  "hc_signals (sync_structures s ms db) = hc_signals db"
  using host_structures_rows
  by (fastforce simp: sync_structures_def delete_structures_def Let_def split: option.split prod.split)+

lemma sync_structures_rows:
  assumes "table_ok (hc_structures db)"
  shows "row_value (hc_structures (sync_structures s (Some ms) db)) i =
    (if held_elsewhere s (hc_structures db) i then row_value (hc_structures db) i
     else map_option (\<lambda>m. structure_fill s m None) (find (\<lambda>m. sm_identifier m = i) (rev ms)))"
proof -
  let ?t = "hc_structures db"
  obtain declared db' where run: "host_structures s ms [] db = (declared, db')" by fastforce
  note rows = host_structures_rows [OF run]
  let ?put = "fold (\<lambda>m. update_or_create (sm_identifier m) (structure_fill s m)) (hosted_by s ?t ms) ?t"
  have set: "set declared = sm_identifier ` set (hosted_by s ?t ms)" using rows by simp
  have "row_value (hc_structures (sync_structures s (Some ms) db)) i =
      row_value (delete_where (\<lambda>i r. st_service r = s \<and> i \<notin> sm_identifier ` set (hosted_by s ?t ms)) ?put) i"
    using rows by (simp add: sync_structures_def run delete_structures_def Let_def set)
  also have "\<dots> = (case find (\<lambda>m. sm_identifier m = i) (rev (hosted_by s ?t ms)) of
      Some m \<Rightarrow> Some (structure_fill s m None)
    | None \<Rightarrow> (case row_value ?t i of None \<Rightarrow> None | Some r \<Rightarrow> if st_service r = s then None else Some r))"
    by (rule row_value_sync [OF assms]) (simp add: structure_fill_def)
  also have "find (\<lambda>m. sm_identifier m = i) (rev (hosted_by s ?t ms)) =
      (if held_elsewhere s ?t i then None else find (\<lambda>m. sm_identifier m = i) (rev ms))"
  proof (cases "held_elsewhere s ?t i")
    case True
    then show ?thesis by (auto simp: hosted_by_def find_None_iff)
  next
    case False
    then have "filter (\<lambda>m. sm_identifier m = i) (hosted_by s ?t ms) = filter (\<lambda>m. sm_identifier m = i) ms"
      by (auto simp: hosted_by_def intro: filter_cong)
    then show ?thesis using False by (simp add: find_rev_last)
  qed
  finally show ?thesis
    by (auto simp: held_elsewhere_def split: option.splits)
qed

section \<open>What cataloguing leaves\<close>

definition service_pk :: "string \<Rightarrow> hub \<Rightarrow> nat" where
  "service_pk name db = the (row_pk name (hc_services db))"

lemma catalogue_manifest_split:
  fixes name db m describes
  defines "services \<equiv> update_or_create name (service_fill describes m) (hc_services db)"
  shows "service_pk name (catalogue_manifest name describes m db) = the (row_pk name services)"
    and "hc_structures (catalogue_manifest name describes m db) =
         hc_structures (sync_structures (the (row_pk name services)) (mf_structures m) (db\<lparr>hc_services := services\<rparr>))"
  by (simp_all add: catalogue_manifest_def services_def service_pk_def Let_def sync_signals_def)


section \<open>Integrity\<close>

text \<open>The unique constraints, and every foreign key pointing at a row.\<close>

definition hub_ok :: "hub \<Rightarrow> bool" where
  "hub_ok db =
     (table_ok (hc_services db) \<and> table_ok (hc_structures db) \<and> table_ok (hc_descriptors db) \<and> table_ok (hc_signals db) \<and>
      (\<forall>i r. row_value (hc_structures db) i = Some r \<longrightarrow> st_service r \<in> table_pks (hc_services db)) \<and>
      (\<forall>k r. row_value (hc_descriptors db) k = Some r \<longrightarrow> fst k \<in> table_pks (hc_structures db)) \<and>
      (\<forall>k r. row_value (hc_signals db) k = Some r \<longrightarrow> fst k \<in> table_pks (hc_services db)))"

definition empty_hub :: hub where
  "empty_hub = \<lparr>hc_services = empty_table, hc_structures = empty_table, hc_descriptors = empty_table, hc_signals = empty_table\<rparr>"

lemma hub_ok_empty: "hub_ok empty_hub"
  by (simp add: hub_ok_def empty_hub_def row_value_def)

lemma sync_descriptors_rows:
  assumes "table_ok (hc_descriptors db)"
  shows "row_value (hc_descriptors (sync_descriptors p ds db)) (q, k) =
    (if q = p then map_option (\<lambda>d. descriptor_fill d None) (find (\<lambda>d. descriptor_key p d = (p, k)) (rev (zip [0..<length ds] ds)))
     else row_value (hc_descriptors db) (q, k))"
proof -
  have "find (\<lambda>d. descriptor_key p d = (q, k)) xs = None" if "q \<noteq> p" for xs
    using that by (auto simp: find_None_iff descriptor_key_def)
  then show ?thesis
    by (auto simp: sync_descriptors_def Let_def row_value_sync [OF assms, where g = "\<lambda>d. descriptor_fill d None"]
        descriptor_fill_def split: option.splits)
qed

lemma sync_descriptors_ok:
  "table_ok (hc_descriptors db) \<Longrightarrow> table_ok (hc_descriptors (sync_descriptors p ds db))"
  by (simp add: sync_descriptors_def Let_def table_ok_delete table_ok_fold)

lemma sync_signals_ok: "table_ok (hc_signals db) \<Longrightarrow> table_ok (hc_signals (sync_signals s gs db))"
  by (simp add: sync_signals_def Let_def table_ok_delete table_ok_fold)

lemma sync_signals_rows:
  assumes "table_ok (hc_signals db)"
  shows "row_value (hc_signals (sync_signals s gs db)) (s', i, k) =
    (if s' = s then map_option (\<lambda>d. signal_fill d None) (find (\<lambda>d. signal_key s d = (s, i, k)) (rev (signal_rows gs)))
     else row_value (hc_signals db) (s', i, k))"
proof -
  have "find (\<lambda>d. signal_key s d = (s', i, k)) xs = None" if "s' \<noteq> s" for xs
    using that by (auto simp: find_None_iff signal_key_def)
  then show ?thesis
    by (auto simp: sync_signals_def Let_def row_value_sync [OF assms, where g = "\<lambda>d. signal_fill d None"]
        signal_fill_def split: option.splits)
qed

definition descriptors_point :: "hub \<Rightarrow> bool" where
  "descriptors_point db = (table_ok (hc_structures db) \<and> table_ok (hc_descriptors db) \<and>
     (\<forall>k r. row_value (hc_descriptors db) k = Some r \<longrightarrow> fst k \<in> table_pks (hc_structures db)))"

lemma sync_descriptors_point:
  "descriptors_point db \<Longrightarrow> p \<in> table_pks (hc_structures db) \<Longrightarrow> descriptors_point (sync_descriptors p ds db)"
  by (auto simp: descriptors_point_def sync_descriptors_ok sync_descriptors_rows split: if_splits)

lemma host_structures_point:
  "descriptors_point db \<Longrightarrow> descriptors_point (snd (host_structures s ms declared db))"
proof (induction s ms declared db rule: host_structures.induct)
  case (2 s m ms declared db)
  show ?case
  proof (cases "held_elsewhere s (hc_structures db) (sm_identifier m)")
    case True
    with 2 show ?thesis by simp
  next
    case False
    let ?hosted = "update_or_create (sm_identifier m) (structure_fill s m) (hc_structures db)"
    have ok: "table_ok ?hosted" using "2.prems" by (simp add: descriptors_point_def table_ok_put)
    obtain p where p: "row_pk (sm_identifier m) ?hosted = Some p" by (rule exE [OF row_pk_written])
    have "descriptors_point (db\<lparr>hc_structures := ?hosted\<rparr>)"
      using "2.prems" ok subsetD [OF table_pks_put] by (fastforce simp: descriptors_point_def)
    moreover have "p \<in> table_pks ?hosted" using row_pk_in_pks [OF ok p] .
    ultimately have "descriptors_point (sync_descriptors (the (row_pk (sm_identifier m) ?hosted)) (or_nil (sm_descriptors m)) (db\<lparr>hc_structures := ?hosted\<rparr>))"
      by (simp add: p sync_descriptors_point)
    from "2.IH"(2) [OF False refl refl this] False show ?thesis by (simp add: Let_def)
  qed
qed simp

lemma delete_structures_point:
  assumes "descriptors_point db"
  shows "descriptors_point (delete_structures P db)"
  using assms table_pks_delete [of _ "hc_structures db" P]
  by (auto simp: descriptors_point_def delete_structures_def Let_def table_ok_delete row_value_delete split: option.splits if_splits)

lemma sync_structures_point: "descriptors_point db \<Longrightarrow> descriptors_point (sync_structures s ms db)"
proof (cases ms)
  case (Some ms')
  assume "descriptors_point db"
  then have "descriptors_point (snd (host_structures s ms' [] db))" by (rule host_structures_point)
  then show ?thesis by (simp add: Some sync_structures_def case_prod_unfold Let_def delete_structures_point)
qed (simp add: sync_structures_def)

lemma hub_ok_catalogue_manifest:
  assumes "hub_ok db"
  shows "hub_ok (catalogue_manifest name describes m db)"
proof -
  let ?services = "update_or_create name (service_fill describes m) (hc_services db)"
  let ?db = "db\<lparr>hc_services := ?services\<rparr>"
  let ?s = "the (row_pk name ?services)"
  let ?mid = "sync_structures ?s (mf_structures m) ?db"
  have ok: "table_ok ?services" using assms by (simp add: hub_ok_def table_ok_put)
  have s: "?s \<in> table_pks ?services" using row_pk_written row_pk_in_pks [OF ok] by fastforce
  have pks: "p \<in> table_pks (hc_services db) \<Longrightarrow> p \<in> table_pks ?services" for p by (rule subsetD [OF table_pks_put])
  have "descriptors_point ?db" using assms by (simp add: hub_ok_def descriptors_point_def)
  then have mid: "descriptors_point ?mid" by (rule sync_structures_point)
  have hosts: "row_value (hc_structures ?mid) i = Some r \<Longrightarrow> st_service r \<in> table_pks ?services" for i r
    using assms pks s sync_structures_rows [of ?db ?s _ i]
    by (cases "mf_structures m") (auto simp: sync_structures_def hub_ok_def structure_fill_def split: if_splits)
  have signals: "row_value (hc_signals (sync_signals ?s gs ?mid)) k = Some r \<Longrightarrow> fst k \<in> table_pks ?services" for gs k r
    using assms s by (cases k) (fastforce simp: hub_ok_def sync_signals_rows intro: pks split: if_splits)
  have "hc_services (sync_signals ?s gs ?mid) = ?services" "hc_structures (sync_signals ?s gs ?mid) = hc_structures ?mid"
    "hc_descriptors (sync_signals ?s gs ?mid) = hc_descriptors ?mid" for gs
    by (simp_all add: sync_signals_def Let_def)
  then show ?thesis
    using assms mid hosts signals ok
    by (simp add: catalogue_manifest_def Let_def hub_ok_def descriptors_point_def sync_signals_ok)
qed

lemma hub_ok_catalogue: "catalogue fetch e db = Inr db' \<Longrightarrow> hub_ok db \<Longrightarrow> hub_ok db'"
  by (auto simp: catalogue_def and_then_Inr hub_ok_catalogue_manifest split: option.splits)

lemma hub_ok_entries: "hub_ok db \<Longrightarrow> hub_ok (snd (catalogue_entries fetch es db))"
  by (induction fetch es db rule: catalogue_entries.induct)
    (auto simp: hub_ok_catalogue case_prod_unfold Let_def split: sum.split)

text \<open>The catalogs the passes lead to, whatever is configured and whatever the services answer each time.\<close>

inductive hub_reachable :: "hub \<Rightarrow> bool" where
  start: "hub_reachable empty_hub"
| pass: "hub_reachable db \<Longrightarrow> hub_reachable (snd (catalogue_all contract fetch es db))"

text \<open>
  Every catalog passes lead to keeps its constraints: one row per key, every structure and every
  signal under a service there is, every descriptor under a structure there is.
\<close>

theorem reachable_hub_ok:
  assumes "hub_reachable db"
  shows "hub_ok db"
  using assms
  by (induction rule: hub_reachable.induct)
    (auto simp: hub_ok_empty catalogue_all_def catalogue_self_def intro: hub_ok_entries hub_ok_catalogue_manifest)

section \<open>Descriptors\<close>

definition descriptors_exact :: "hub \<Rightarrow> nat \<Rightarrow> descriptor_manifest list \<Rightarrow> bool" where
  "descriptors_exact db p ds =
     (\<forall>k. row_value (hc_descriptors db) (p, k) =
        map_option (\<lambda>d. descriptor_fill d None) (find (\<lambda>d. descriptor_key p d = (p, k)) (rev (zip [0..<length ds] ds))))"

lemma sync_descriptors_exact: "table_ok (hc_descriptors db) \<Longrightarrow> descriptors_exact (sync_descriptors p ds db) p ds"
  by (simp add: descriptors_exact_def sync_descriptors_rows)

text \<open>One step of the loop, and that it leaves the descriptors of every other structure alone.\<close>

lemma host_step:
  fixes db s m
  assumes "descriptors_point db" "\<not> held_elsewhere s (hc_structures db) (sm_identifier m)"
  obtains p db1 where
    "\<And>ms declared. host_structures s (m # ms) declared db = host_structures s ms (sm_identifier m # declared) db1"
    "descriptors_point db1" "row_pk (sm_identifier m) (hc_structures db1) = Some p"
    "hc_structures db1 = update_or_create (sm_identifier m) (structure_fill s m) (hc_structures db)"
    "hc_descriptors db1 = hc_descriptors (sync_descriptors p (or_nil (sm_descriptors m)) db)"
proof -
  let ?hosted = "update_or_create (sm_identifier m) (structure_fill s m) (hc_structures db)"
  obtain p where p: "row_pk (sm_identifier m) ?hosted = Some p" by (rule exE [OF row_pk_written])
  let ?db1 = "sync_descriptors p (or_nil (sm_descriptors m)) (db\<lparr>hc_structures := ?hosted\<rparr>)"
  have "\<And>ms declared. host_structures s (m # ms) declared db = host_structures s ms (sm_identifier m # declared) ?db1"
    using assms(2) by (simp add: p Let_def)
  moreover have "descriptors_point ?db1"
    using host_structures_point [OF assms(1), of s "[m]" "[]"] assms(2) by (simp add: p Let_def)
  moreover have "hc_descriptors ?db1 = hc_descriptors (sync_descriptors p (or_nil (sm_descriptors m)) db)"
    by (simp add: sync_descriptors_def Let_def)
  ultimately show ?thesis using p by (intro that [of ?db1 p]) auto
qed

lemma host_structures_untouched:
  "descriptors_point db \<Longrightarrow> i \<notin> sm_identifier ` set ms \<Longrightarrow> row_pk i (hc_structures db) = Some p \<Longrightarrow>
   row_value (hc_descriptors (snd (host_structures s ms declared db))) (p, k) = row_value (hc_descriptors db) (p, k)"
proof (induction ms arbitrary: declared db)
  case (Cons m ms)
  show ?case
  proof (cases "held_elsewhere s (hc_structures db) (sm_identifier m)")
    case True
    with Cons show ?thesis by simp
  next
    case False
    obtain q db1 where step:
      "\<And>ms declared. host_structures s (m # ms) declared db = host_structures s ms (sm_identifier m # declared) db1"
      "descriptors_point db1" "row_pk (sm_identifier m) (hc_structures db1) = Some q"
      "hc_structures db1 = update_or_create (sm_identifier m) (structure_fill s m) (hc_structures db)"
      "hc_descriptors db1 = hc_descriptors (sync_descriptors q (or_nil (sm_descriptors m)) db)"
      by (rule host_step [OF Cons.prems(1) False]) (rule that)
    have p: "row_pk i (hc_structures db1) = Some p" using Cons.prems(3) by (simp add: step(4) row_pk_put)
    then have "p \<noteq> q" using row_pk_inject [of "hc_structures db1" i p "sm_identifier m"] step(2,3) Cons.prems(2)
      by (auto simp: descriptors_point_def)
    moreover have "table_ok (hc_descriptors db)" using Cons.prems(1) by (simp add: descriptors_point_def)
    ultimately have "row_value (hc_descriptors db1) (p, k) = row_value (hc_descriptors db) (p, k)"
      by (simp add: step(5) sync_descriptors_rows)
    then show ?thesis using Cons.IH [OF step(2) _ p] Cons.prems(2) by (simp add: step(1) del: host_structures.simps)
  qed
qed simp

lemma host_structures_descriptors:
  "descriptors_point db \<Longrightarrow> distinct (map sm_identifier ms) \<Longrightarrow> m \<in> set ms \<Longrightarrow>
   \<not> held_elsewhere s (hc_structures db) (sm_identifier m) \<Longrightarrow>
   row_pk (sm_identifier m) (hc_structures (snd (host_structures s ms declared db))) = Some p \<Longrightarrow>
   descriptors_exact (snd (host_structures s ms declared db)) p (or_nil (sm_descriptors m))"
proof (induction ms arbitrary: declared db)
  case (Cons x ms)
  show ?case
  proof (cases "held_elsewhere s (hc_structures db) (sm_identifier x)")
    case True
    with Cons show ?thesis by auto
  next
    case False
    obtain q db1 where step:
      "\<And>ms declared. host_structures s (x # ms) declared db = host_structures s ms (sm_identifier x # declared) db1"
      "descriptors_point db1" "row_pk (sm_identifier x) (hc_structures db1) = Some q"
      "hc_structures db1 = update_or_create (sm_identifier x) (structure_fill s x) (hc_structures db)"
      "hc_descriptors db1 = hc_descriptors (sync_descriptors q (or_nil (sm_descriptors x)) db)"
      by (rule host_step [OF Cons.prems(1) False]) (rule that)
    show ?thesis
    proof (cases "m = x")
      case True
      have rest: "hc_structures (snd (host_structures s ms (sm_identifier x # declared) db1)) =
          fold (\<lambda>m. update_or_create (sm_identifier m) (structure_fill s m)) (hosted_by s (hc_structures db1) ms) (hc_structures db1)"
        using host_structures_rows by (metis prod.collapse)
      have "row_pk (sm_identifier x) (hc_structures (snd (host_structures s ms (sm_identifier x # declared) db1))) = Some q"
        unfolding rest by (rule row_pk_fold [OF step(3)])
      then have "p = q" using Cons.prems(5) True by (simp add: step(1) del: host_structures.simps)
      moreover have "descriptors_exact db1 q (or_nil (sm_descriptors x))"
        using Cons.prems(1) by (simp add: descriptors_exact_def step(5) sync_descriptors_rows descriptors_point_def)
      moreover have "sm_identifier x \<notin> sm_identifier ` set ms" using Cons.prems(2) by simp
      ultimately show ?thesis
        using True host_structures_untouched [OF step(2) _ step(3)] by (simp add: step(1) descriptors_exact_def del: host_structures.simps)
    next
      case False
      with Cons.prems Cons.IH [OF step(2)] show ?thesis
        by (simp add: step(1,4) held_elsewhere_put \<open>\<not> held_elsewhere s (hc_structures db) (sm_identifier x)\<close>
            del: host_structures.simps)
    qed
  qed
qed simp

section \<open>A second pass\<close>

lemma find_rev_distinct: "distinct (map key ds) \<Longrightarrow> d \<in> set ds \<Longrightarrow> find (\<lambda>x. key x = key d) (rev ds) = Some d"
proof -
  assume "distinct (map key ds)" "d \<in> set ds"
  then have "filter (\<lambda>x. key x = key d) ds = [d]"
    by (induction ds) (auto simp: filter_empty_conv image_iff)
  then show ?thesis by (simp add: find_rev_last)
qed

lemma sync_same:
  assumes "table_ok t" "distinct (map key ds)" "\<And>d r. fill d r = g d"
    and "\<And>k v. row_value t k = Some v \<Longrightarrow> mine k v \<Longrightarrow> k \<in> key ` set ds"
    and "\<And>d. d \<in> set ds \<Longrightarrow> row_value t (key d) = map_option g (find (\<lambda>x. key x = key d) (rev ds))"
  shows "delete_where (\<lambda>k v. mine k v \<and> k \<notin> key ` set ds) (fold (\<lambda>d. update_or_create (key d) (fill d)) ds t) = t"
proof -
  have "fold (\<lambda>d. update_or_create (key d) (fill d)) ds t = t"
    by (rule puts_same [OF assms(1)]) (auto simp: assms(3,5) find_rev_distinct [OF assms(2)])
  moreover have "delete_where (\<lambda>k v. mine k v \<and> k \<notin> key ` set ds) t = t"
    by (rule delete_none [OF assms(1)]) (use assms(4) in blast)
  ultimately show ?thesis by simp
qed

lemma sync_descriptors_same:
  assumes "table_ok (hc_descriptors db)" "descriptors_exact db p ds" "distinct (map dm_key ds)"
  shows "sync_descriptors p ds db = db"
proof -
  let ?numbered = "zip [0..<length ds] ds"
  have "map (descriptor_key p) ?numbered = map (Pair p) (map dm_key ds)"
    by (rule nth_equalityI) (simp_all add: descriptor_key_def)
  then have distinct: "distinct (map (descriptor_key p) ?numbered)"
    using assms(3) by (simp add: distinct_map inj_on_def)
  have "delete_where (\<lambda>k _. fst k = p \<and> k \<notin> descriptor_key p ` set ?numbered)
      (fold (\<lambda>d. update_or_create (descriptor_key p d) (descriptor_fill d)) ?numbered (hc_descriptors db)) = hc_descriptors db"
  proof (rule sync_same [OF assms(1) distinct, where g = "\<lambda>d. descriptor_fill d None"])
    fix k v
    assume "row_value (hc_descriptors db) k = Some v" "fst k = p"
    then show "k \<in> descriptor_key p ` set ?numbered"
      using assms(2) unfolding declared_key descriptors_exact_def by (cases k) auto
  next
    fix d
    assume "d \<in> set ?numbered"
    show "row_value (hc_descriptors db) (descriptor_key p d) =
        map_option (\<lambda>d. descriptor_fill d None) (find (\<lambda>x. descriptor_key p x = descriptor_key p d) (rev ?numbered))"
      using assms(2) by (simp add: descriptors_exact_def descriptor_key_def)
  qed (simp add: descriptor_fill_def)
  then show ?thesis by (simp add: sync_descriptors_def)
qed

definition hosts_exactly :: "nat \<Rightarrow> structure_manifest list \<Rightarrow> hub \<Rightarrow> bool" where
  "hosts_exactly s ms db =
     (\<forall>m \<in> set (hosted_by s (hc_structures db) ms).
        row_value (hc_structures db) (sm_identifier m) = Some (structure_fill s m None) \<and>
        (\<forall>p. row_pk (sm_identifier m) (hc_structures db) = Some p \<longrightarrow> descriptors_exact db p (or_nil (sm_descriptors m))))"

lemma host_structures_same:
  "descriptors_point db \<Longrightarrow> hosts_exactly s ms db \<Longrightarrow> (\<And>m. m \<in> set ms \<Longrightarrow> distinct (map dm_key (or_nil (sm_descriptors m)))) \<Longrightarrow>
   host_structures s ms declared db = (rev (map sm_identifier (hosted_by s (hc_structures db) ms)) @ declared, db)"
proof (induction ms arbitrary: declared)
  case (Cons m ms)
  show ?case
  proof (cases "held_elsewhere s (hc_structures db) (sm_identifier m)")
    case True
    with Cons show ?thesis by (simp add: hosts_exactly_def hosted_by_def)
  next
    case False
    have ok: "table_ok (hc_structures db)" "table_ok (hc_descriptors db)"
      using Cons.prems(1) by (simp_all add: descriptors_point_def)
    have row: "row_value (hc_structures db) (sm_identifier m) = Some (structure_fill s m None)"
      using Cons.prems(2) False by (simp add: hosts_exactly_def hosted_by_def)
    have put: "update_or_create (sm_identifier m) (structure_fill s m) (hc_structures db) = hc_structures db"
      by (rule put_same [OF ok(1) row]) (simp add: structure_fill_def)
    obtain p where p: "row_pk (sm_identifier m) (hc_structures db) = Some p"
      using row by (auto simp: row_pk_def row_value_def)
    have "sync_descriptors p (or_nil (sm_descriptors m)) db = db"
      using Cons.prems(2,3) False p by (intro sync_descriptors_same [OF ok(2)]) (simp_all add: hosts_exactly_def hosted_by_def)
    moreover have "hosts_exactly s ms db" using Cons.prems(2) by (simp add: hosts_exactly_def hosted_by_def)
    ultimately show ?thesis
      using False Cons.IH [OF Cons.prems(1)] Cons.prems(3) by (simp add: put p hosted_by_def)
  qed
qed (simp add: hosted_by_def)

lemma delete_structures_none:
  assumes "descriptors_point db" "\<And>i r. row_value (hc_structures db) i = Some r \<Longrightarrow> \<not> P i r"
  shows "delete_structures P db = db"
proof -
  have ok: "table_ok (hc_structures db)" "table_ok (hc_descriptors db)" using assms(1) by (simp_all add: descriptors_point_def)
  have same: "delete_where P (hc_structures db) = hc_structures db" by (rule delete_none [OF ok(1) assms(2)])
  then have "filter (\<lambda>(p, i, r). \<not> P i r) (tb_rows (hc_structures db)) = tb_rows (hc_structures db)"
    by (metis delete_where_def table.surjective table.update_convs(1) table.select_convs(1))
  then have "filter (\<lambda>(p, i, r). P i r) (tb_rows (hc_structures db)) = []"
    by (auto simp: filter_id_conv filter_empty_conv)
  moreover have "delete_where (\<lambda>k _. fst k \<in> set []) (hc_descriptors db) = hc_descriptors db"
    by (rule delete_none [OF ok(2)]) simp
  ultimately show ?thesis using same by (simp add: delete_structures_def)
qed

lemma sync_structures_fixed:
  assumes "descriptors_point db" "hosts_exactly s ms db"
    and "\<And>m. m \<in> set ms \<Longrightarrow> distinct (map dm_key (or_nil (sm_descriptors m)))"
    and "\<And>i r. row_value (hc_structures db) i = Some r \<Longrightarrow> st_service r = s \<Longrightarrow> i \<in> sm_identifier ` set ms"
  shows "sync_structures s (Some ms) db = db"
proof -
  have "\<not> (st_service r = s \<and> i \<notin> set (rev (map sm_identifier (hosted_by s (hc_structures db) ms))))"
    if "row_value (hc_structures db) i = Some r" for i r
    using assms(4) [OF that] that by (force simp: hosted_by_def held_elsewhere_def)
  then show ?thesis
    using host_structures_same [OF assms(1-3), of "[]"] delete_structures_none [OF assms(1)]
    by (simp add: sync_structures_def)
qed

lemma sync_structures_reaches:
  fixes db s
  assumes "descriptors_point db" "distinct (map sm_identifier ms)"
  defines "db' \<equiv> sync_structures s (Some ms) db"
  shows "hosts_exactly s ms db'"
    and "row_value (hc_structures db') i = Some r \<Longrightarrow> st_service r = s \<Longrightarrow> i \<in> sm_identifier ` set ms"
proof -
  have ok: "table_ok (hc_structures db)" using assms(1) by (simp add: descriptors_point_def)
  note rows = sync_structures_rows [OF ok, of s ms, folded db'_def]
  have held: "held_elsewhere s (hc_structures db') = held_elsewhere s (hc_structures db)"
    by (auto simp: fun_eq_iff held_elsewhere_def rows structure_fill_def split: option.splits)
  show "i \<in> sm_identifier ` set ms" if "row_value (hc_structures db') i = Some r" "st_service r = s"
    using that unfolding declared_key [where key = sm_identifier] by (auto simp: rows held_elsewhere_def split: if_splits option.splits)
  obtain declared run where run: "host_structures s ms [] db = (declared, run)" by fastforce
  note run_rows = host_structures_rows [OF run]
  let ?P = "\<lambda>i r. st_service r = s \<and> i \<notin> set declared"
  have point: "descriptors_point run" using host_structures_point [OF assms(1), of s ms "[]"] by (simp add: run)
  have db': "db' = delete_structures ?P run" by (simp add: db'_def sync_structures_def run)
  show "hosts_exactly s ms db'"
    unfolding hosts_exactly_def
  proof (intro ballI conjI allI impI)
    fix m
    assume "m \<in> set (hosted_by s (hc_structures db') ms)"
    then have m: "m \<in> set ms" "\<not> held_elsewhere s (hc_structures db) (sm_identifier m)"
      by (simp_all add: hosted_by_def held)
    then show "row_value (hc_structures db') (sm_identifier m) = Some (structure_fill s m None)"
      using find_rev_distinct [OF assms(2) m(1)] by (simp add: rows)
    fix p
    assume "row_pk (sm_identifier m) (hc_structures db') = Some p"
    then have p: "row_pk (sm_identifier m) (hc_structures run) = Some p"
      using point by (auto simp: db' delete_structures_def Let_def descriptors_point_def row_pk_delete
          row_pk_def [of "sm_identifier m" "hc_structures run"])
    have declared: "sm_identifier m \<in> set declared" using run_rows m by (simp add: hosted_by_def)
    have "p \<notin> set (map fst (filter (\<lambda>(p, i, r). ?P i r) (tb_rows (hc_structures run))))"
    proof
      assume "p \<in> set (map fst (filter (\<lambda>(p, i, r). ?P i r) (tb_rows (hc_structures run))))"
      then obtain i r where "(p, i, r) \<in> set (tb_rows (hc_structures run))" "i \<notin> set declared" by auto
      moreover from this(1) have "row_pk i (hc_structures run) = Some p"
        using point by (auto simp: descriptors_point_def row_pk_def find_row_Some)
      ultimately show False
        using row_pk_inject [OF _ p] declared point by (auto simp: descriptors_point_def)
    qed
    then have kept: "row_value (hc_descriptors db') (p, k) = row_value (hc_descriptors run) (p, k)" for k
      using point by (auto simp: db' delete_structures_def Let_def descriptors_point_def row_value_delete split: option.splits)
    have "descriptors_exact run p (or_nil (sm_descriptors m))"
      using host_structures_descriptors [OF assms(1,2) m, of "[]" p] p by (simp add: run)
    then show "descriptors_exact db' p (or_nil (sm_descriptors m))"
      by (simp add: descriptors_exact_def kept)
  qed
qed

lemma sync_signals_same:
  assumes "table_ok (hc_signals db)" "distinct (map (signal_key s) (signal_rows gs))"
  shows "sync_signals s gs (sync_signals s gs db) = sync_signals s gs db"
proof -
  let ?db = "sync_signals s gs db" and ?ds = "signal_rows gs"
  have ok: "table_ok (hc_signals ?db)" by (rule sync_signals_ok [OF assms(1)])
  have "delete_where (\<lambda>k _. fst k = s \<and> k \<notin> signal_key s ` set ?ds)
      (fold (\<lambda>d. update_or_create (signal_key s d) (signal_fill d)) ?ds (hc_signals ?db)) = hc_signals ?db"
  proof (rule sync_same [OF ok assms(2), where g = "\<lambda>d. signal_fill d None"])
    fix k v
    assume "row_value (hc_signals ?db) k = Some v" "fst k = s"
    then show "k \<in> signal_key s ` set ?ds"
      unfolding declared_key by (cases k) (auto simp: sync_signals_rows [OF assms(1)])
  qed (simp_all add: signal_fill_def sync_signals_rows [OF assms(1)] signal_key_def)
  then show ?thesis by (simp add: sync_signals_def Let_def)
qed

lemma service_fill_twice: "service_fill describes m (Some (service_fill describes m old)) = service_fill describes m old"
  by (cases describes) (simp_all add: service_fill_def)

text \<open>What a manifest says once: each structure, each descriptor of a structure, each kind of signal.\<close>

definition says_once :: "service_manifest \<Rightarrow> bool" where
  "says_once m =
     (distinct (map sm_identifier (or_nil (mf_structures m))) \<and>
      list_all (\<lambda>x. distinct (map dm_key (or_nil (sm_descriptors x)))) (or_nil (mf_structures m)) \<and>
      distinct (map (\<lambda>d. (gm_identifier (fst d), snd d)) (signal_rows (or_nil (mf_signals m)))))"


section \<open>At work\<close>

definition image_manifest :: service_manifest where
  "image_manifest =
     \<lparr>mf_identifier = Some ''live.arkitekt.mikro'', mf_description = None,
      mf_signals = Some [\<lparr>gm_identifier = ''@mikro/image'', gm_kinds = None, gm_descriptors = Some [''@mikro/axes''],
                          gm_description = None\<rparr>],
      mf_structures = Some [\<lparr>sm_identifier = ''@mikro/image'', sm_label = Some ''Image'', sm_description = None,
        sm_descriptors = Some [\<lparr>dm_key = ''@mikro/axes'', dm_type = None, dm_description = None\<rparr>]\<rparr>]\<rparr>"

text \<open>mikro is catalogued first; then kabinet claims the same structure.\<close>

definition mikro_hub :: hub where
  "mikro_hub = catalogue_manifest ''mikro'' True image_manifest empty_hub"

lemma mikro_hub_ok: "hub_ok mikro_hub"
  by (simp add: mikro_hub_def hub_ok_catalogue_manifest hub_ok_empty)


theorem reachable_hub_ok_witness:
  "hub_ok (snd (catalogue_all image_manifest (\<lambda>e. Inl (ValueError [])) [\<lparr>se_name = ''mikro'', se_identifier = None, se_hosts = None\<rparr>] empty_hub))"
  by (intro reachable_hub_ok hub_reachable.intros)


end
