(* ===== verification/Descriptors.thy ===== *)
theory Descriptors
  imports Port_Models Units "HOL-Library.AList"
begin

text \<open>
  \<open>facade/descriptors.py\<close>: descriptor demands compiled to PostgreSQL JSONPath predicates. \<open>json.dumps\<close> is
  modelled on the values JSON has; the shortest text of a finite float is Python's and an argument
  (\<open>float_text\<close>). Characters stand for code points below 256.
\<close>

section \<open>json.dumps\<close>

definition hex_digit :: "nat \<Rightarrow> char" where
  "hex_digit n = ''0123456789abcdef'' ! n"

definition u_escape :: "char \<Rightarrow> string" where
  "u_escape c = [CHR 0x5C, CHR ''u'', CHR ''0'', CHR ''0'', hex_digit (of_char c div 16), hex_digit (of_char c mod 16)]"

text \<open>\<open>ESCAPE_ASCII\<close>: the quote, the backslash and everything outside space to tilde.\<close>

definition escape_char :: "char \<Rightarrow> string" where
  "escape_char c =
     (if c = CHR 0x22 \<or> c = CHR 0x5C then [CHR 0x5C, c]
      else if c = CHR 0x0A then [CHR 0x5C, CHR ''n'']
      else if c = CHR 0x0D then [CHR 0x5C, CHR ''r'']
      else if c = CHR 0x09 then [CHR 0x5C, CHR ''t'']
      else if c = CHR 0x0C then [CHR 0x5C, CHR ''f'']
      else if c = CHR 0x08 then [CHR 0x5C, CHR ''b'']
      else if c < CHR '' '' \<or> CHR 0x7E < c then u_escape c
      else [c])"

definition dumps_str :: "string \<Rightarrow> string" where
  "dumps_str s = CHR 0x22 # concat (map escape_char s) @ [CHR 0x22]"

definition dumps_int :: "int \<Rightarrow> string" where
  "dumps_int i = (if i < 0 then ''-'' @ show_nat (nat (- i)) else show_nat (nat i))"

fun dumps :: "(rat \<Rightarrow> string) \<Rightarrow> json \<Rightarrow> string" where
  "dumps float_text JNull = ''null''"
| "dumps float_text (JBool b) = (if b then ''true'' else ''false'')"
| "dumps float_text (JInt i) = dumps_int i"
| "dumps float_text (JFloat r) = float_text r"
| "dumps float_text (JStr s) = dumps_str s"
| "dumps float_text (JList vs) = ''['' @ join '', '' (map (dumps float_text) vs) @ '']''"
| "dumps float_text (JObj kvs) =
     ''{'' @ join '', '' (map (\<lambda>(k, v). dumps_str k @ '': '' @ dumps float_text v) kvs) @ ''}''"

section \<open>Dicts in order\<close>

text \<open>A Python dict by key: the last value of a key, at the place of its first.\<close>

definition dict_items :: "('k \<times> 'v) list \<Rightarrow> ('k \<times> 'v) list" where
  "dict_items kvs = fold (\<lambda>(k, v). AList.update k v) kvs []"

lemma dict_items_snoc: "dict_items (kvs @ [(k, v)]) = AList.update k v (dict_items kvs)"
  by (simp add: dict_items_def)

lemma map_of_dict_items: "map_of (dict_items kvs) = map_of (rev kvs)"
proof (induction kvs rule: rev_induct)
  case (snoc kv kvs)
  then show ?case by (cases kv) (simp add: dict_items_snoc update_conv' [of _ _ "dict_items kvs"])
qed (simp add: dict_items_def)

lemma dict_items_subset: "set (dict_items kvs) \<subseteq> set kvs"
proof (induction kvs rule: rev_induct)
  case (snoc kv kvs)
  have "set (AList.update k v al) \<subseteq> insert (k, v) (set al)" for k v and al :: "('a \<times> 'b) list"
    by (induction al) auto
  with snoc show ?case by (cases kv) (fastforce simp: dict_items_snoc)
qed (simp add: dict_items_def)

section \<open>The code\<close>

definition normalize_jsonpath_key :: "string \<Rightarrow> string result" where
  "normalize_jsonpath_key key =
     (let raw = (if starts_with ''$.'' key then drop 2 key else key)
      in if raw = '''' then Inl (ValueError [Txt ''Invalid descriptor key for JSONPath compilation: '', repr_str key])
         else Inr (''$.'' @ dumps_str raw))"

definition compile_descriptor_condition :: "(rat \<Rightarrow> string) \<Rightarrow> descriptor_demand \<Rightarrow> string result" where
  "compile_descriptor_condition float_text d =
     and_then (normalize_jsonpath_key (dd_key d)) (\<lambda>path.
     let formatted = dumps float_text (dd_value d) in
     case dd_operator d of
       EXISTS \<Rightarrow>
         (case dd_value d of
            JNull \<Rightarrow> Inr (''exists('' @ path @ '')'')
          | JBool b \<Rightarrow> Inr (if b then ''exists('' @ path @ '')'' else ''!(exists('' @ path @ ''))'')
          | v \<Rightarrow> Inl (ValueError [Txt ''Operator EXISTS requires a boolean value, got '', Repr v]))
     | MATCHES \<Rightarrow> Inr (path @ '' == '' @ formatted)
     | EQUALS \<Rightarrow> Inr (path @ '' == '' @ formatted)
     | NOT_EQUALS \<Rightarrow> Inr (path @ '' != '' @ formatted)
     | GTE \<Rightarrow> Inr (path @ '' >= '' @ formatted)
     | LTE \<Rightarrow> Inr (path @ '' <= '' @ formatted)
     | CONTAINS \<Rightarrow> Inr (path @ ''[*] == '' @ formatted)
     | IN_LIST \<Rightarrow>
         (case dd_value d of
            JList vs \<Rightarrow> Inr (if vs = [] then ''(false)''
                             else ''('' @ join '' || '' (map (\<lambda>v. path @ '' == '' @ dumps float_text v) vs) @ '')'')
          | v \<Rightarrow> Inl (ValueError [Txt ''Operator IN requires a list value, got '', Repr v]))
     | NOT_IN \<Rightarrow>
         (case dd_value d of
            JList vs \<Rightarrow> Inr (if vs = [] then ''(true)''
                             else ''('' @ join '' && '' (map (\<lambda>v. path @ '' != '' @ dumps float_text v) vs) @ '')'')
          | v \<Rightarrow> Inl (ValueError [Txt ''Operator NOT_IN requires a list value, got '', Repr v])))"

definition compile_descriptors_to_jsonpath :: "(rat \<Rightarrow> string) \<Rightarrow> descriptor_demand list \<Rightarrow> string option result" where
  "compile_descriptors_to_jsonpath float_text ds =
     (if ds = [] then Inr None
      else and_then (map_result (compile_descriptor_condition float_text) ds) (\<lambda>cs. Inr (Some (join '' && '' cs))))"

section \<open>A key cannot leave its accessor\<close>

text \<open>Reading a JSON string literal: its characters and what follows the closing quote.\<close>

definition hex_value :: "char \<Rightarrow> nat" where
  "hex_value c = (if is_digit c then of_char c - 48 else of_char c - 87)"

fun scan_chars :: "string \<Rightarrow> (string \<times> string) option" where
  "scan_chars [] = None"
| "scan_chars (c # cs) =
     (if c = CHR 0x22 then Some ([], cs)
      else if c = CHR 0x5C then
        (case cs of
           CHR ''u'' # a # b # d # e # cs' \<Rightarrow>
             map_option (\<lambda>(s, r). (char_of (hex_value d * 16 + hex_value e) # s, r)) (scan_chars cs')
         | x # cs' \<Rightarrow>
             map_option (\<lambda>(s, r).
               ((if x = CHR ''n'' then CHR 0x0A else if x = CHR ''r'' then CHR 0x0D else if x = CHR ''t'' then CHR 0x09
                 else if x = CHR ''f'' then CHR 0x0C else if x = CHR ''b'' then CHR 0x08 else x) # s, r)) (scan_chars cs')
         | [] \<Rightarrow> None)
      else map_option (\<lambda>(s, r). (c # s, r)) (scan_chars cs))"

definition scan_string :: "string \<Rightarrow> (string \<times> string) option" where
  "scan_string s = (case s of [] \<Rightarrow> None | c # cs \<Rightarrow> if c = CHR 0x22 then scan_chars cs else None)"

lemma hex_roundtrip: "char_of (hex_value (hex_digit (of_char c div 16)) * 16 + hex_value (hex_digit (of_char c mod 16))) = (c :: char)"
proof -
  have hex: "hex_value (hex_digit n) = n" if "n < 16" for n
  proof -
    have "list_all (\<lambda>n. hex_value (hex_digit n) = n) [0..<16]" by code_simp
    with that show ?thesis by (simp add: list_all_iff)
  qed
  have "(of_char c :: nat) < 256" by simp
  then have "of_char c div 16 < (16 :: nat)" "of_char c mod 16 < (16 :: nat)" by (simp_all add: less_mult_imp_div_less)
  then show ?thesis by (simp add: hex)
qed

lemma scan_escaped: "scan_chars (escape_char c @ cs) = map_option (\<lambda>(s, r). (c # s, r)) (scan_chars cs)"
  by (auto simp: escape_char_def u_escape_def hex_roundtrip)

lemma scan_dumps: "scan_string (dumps_str s @ rest) = Some (s, rest)"
proof -
  have "scan_chars (concat (map escape_char s) @ CHR 0x22 # rest) = Some (s, rest)"
    by (induction s) (simp_all add: scan_escaped)
  then show ?thesis by (simp add: scan_string_def dumps_str_def)
qed

text \<open>The key a predicate tests, read off its text: past a negation, a parenthesis and \<open>$.\<close>.\<close>

definition tested_key :: "string \<Rightarrow> string option" where
  "tested_key text =
     (let t = (if starts_with ''!'' text then drop 2 text else text);
          t = (if starts_with ''exists('' t then drop 7 t else if starts_with ''('' t then drop 1 t else t)
      in if starts_with ''$.'' t then map_option fst (scan_string (drop 2 t)) else None)"

definition raw_key :: "string \<Rightarrow> string" where
  "raw_key key = (if starts_with ''$.'' key then drop 2 key else key)"

lemma tested_key_path:
  "tested_key (''$.'' @ dumps_str k @ rest) = Some k"
  "tested_key (''exists($.'' @ dumps_str k @ rest) = Some k"
  "tested_key (''!(exists($.'' @ dumps_str k @ rest) = Some k"
  "tested_key (''($.'' @ dumps_str k @ rest) = Some k"
  by (simp_all add: tested_key_def starts_with_def scan_dumps)

lemma alternatives_text: "\<exists>rest. ''('' @ join sep (map (\<lambda>v. p @ f v) (v # vs)) @ '')'' = ''('' @ p @ rest"
  by (cases vs) auto

text \<open>
  C26. Whatever characters a descriptor's key holds, the predicate it compiles to tests that key and
  no other: the literal in the text reads back as the key, so it cannot leave the member accessor.
  (A list of no alternatives compiles to a constant.)
\<close>

theorem compiled_key:
  assumes "compile_descriptor_condition float_text d = Inr text" "dd_value d \<noteq> JList []"
  shows "tested_key text = Some (raw_key (dd_key d))"
proof -
  define lit where "lit = dumps_str (raw_key (dd_key d))"
  have path: "normalize_jsonpath_key (dd_key d) = Inr (''$.'' @ lit)"
    using assms(1)
    by (auto simp: compile_descriptor_condition_def normalize_jsonpath_key_def raw_key_def lit_def Let_def split: if_splits)
  have "\<exists>pre rest. pre \<in> {'''', ''exists('', ''!(exists('', ''(''} \<and> text = pre @ (''$.'' @ lit) @ rest"
  proof (cases "dd_operator d \<in> {IN_LIST, NOT_IN}")
    case True
    then obtain v vs where v: "dd_value d = JList (v # vs)"
      using assms path
      by (auto simp: compile_descriptor_condition_def neq_Nil_conv split: json.splits)
    consider "text = ''('' @ join '' || '' (map (\<lambda>v. (''$.'' @ lit) @ '' == '' @ dumps float_text v) (v # vs)) @ '')''"
      | "text = ''('' @ join '' && '' (map (\<lambda>v. (''$.'' @ lit) @ '' != '' @ dumps float_text v) (v # vs)) @ '')''"
      using True assms(1) by (auto simp: compile_descriptor_condition_def v path simp del: join.simps)
    then show ?thesis
    proof cases
      case 1
      then show ?thesis using alternatives_text [of "'' || ''" "''$.'' @ lit" "\<lambda>v. '' == '' @ dumps float_text v" v vs] by auto
    next
      case 2
      then show ?thesis using alternatives_text [of "'' && ''" "''$.'' @ lit" "\<lambda>v. '' != '' @ dumps float_text v" v vs] by auto
    qed
  next
    case False
    then show ?thesis
      using assms(1) path
      by (cases "dd_operator d") (force simp: compile_descriptor_condition_def split: json.splits if_splits)+
  qed
  then show ?thesis using tested_key_path by (auto simp: lit_def)
qed

text \<open>A key that tries to close its literal and add an alternative.\<close>

definition awkward_demand :: descriptor_demand where
  "awkward_demand =
     \<lparr>dd_key = [CHR ''a'', CHR 0x22, CHR '' '', CHR ''|'', CHR ''|'', CHR '' '', CHR 0x22], dd_operator = IN_LIST,
      dd_value = JList [JInt 1, JStr ''c'']\<rparr>"

theorem compiled_key_witness:
  "(case compile_descriptor_condition (\<lambda>_. ''0.5'') awkward_demand of
      Inl _ \<Rightarrow> False | Inr text \<Rightarrow> tested_key text = Some (dd_key awkward_demand))"
proof -
  obtain out where out: "compile_descriptor_condition (\<lambda>_. ''0.5'') awkward_demand = Inr out"
    by (simp add: awkward_demand_def compile_descriptor_condition_def normalize_jsonpath_key_def starts_with_def)
  moreover have "dd_value awkward_demand \<noteq> JList []" "raw_key (dd_key awkward_demand) = dd_key awkward_demand"
    by (simp_all add: awkward_demand_def raw_key_def starts_with_def)
  ultimately show ?thesis using compiled_key [of "\<lambda>_. ''0.5''" awkward_demand out] by simp
qed

end
