(* ===== verification/Revisions.thy ===== *)
theory Revisions
  imports Tables Catalogs Descriptors Definitions
begin

text \<open>
  \<open>facade/blok_revisions.py\<close>: the history of a custom blok. A write commits a revision and copies it
  onto the blok's row, its dependency rows and its arg-port rows; a write that started from another
  revision than the head is refused. The rows are read and written inside one transaction that holds
  the blok's lock, so a write is one step of the state (\<open>blok_db\<close>), which a raised error leaves as it
  was. SHA-256 of canonical JSON is an argument (\<open>bw_digest\<close>, of the parts that are hashed). A stored JSON
  column is the model it is the dump of.
\<close>

section \<open>Content and rows\<close>

text \<open>A dependency with the fields the checker does not read.\<close>

record blok_dependency = agent_dependency +
  fd_app :: "string option"
  fd_version :: "string option"
  fd_name :: "string option"
  fd_description :: "string option"
  fd_optional :: bool
  fd_auto_resolvable :: bool
  fd_mutually_exclusive_keys :: "string list option"
  fd_min_viable_instances :: "int option"
  fd_max_viable_instances :: "int option"
  fd_prefered_instances :: "int option"

text \<open>The columns a blok's row and its revisions share.\<close>

record columns =
  cl_components :: "component_node list"
  cl_context :: component_context
  cl_module :: nat
  cl_args :: "arg_port list"
  cl_catalogs :: "string list"
  cl_locals :: "blok_local list"
  cl_demo :: "blok_demo option"
  cl_queries :: "blok_query list"
  cl_subscriptions :: "blok_subscription list"

record blok_content = columns +
  bn_dependencies :: "blok_dependency list"
  bn_resolved_locals :: "blok_local list option"

record revision = columns +
  rv_pk :: nat
  rv_blok :: nat
  rv_number :: nat
  rv_parent :: "nat option"
  rv_dependencies :: "blok_dependency list"
  rv_resolved_locals :: "blok_local list"
  rv_content_hash :: string
  rv_task :: "nat option"
  rv_message :: "string option"

text \<open>A row of \<open>BlokArgPort\<close>; its parent by its place among the rows written.\<close>

record arg_port_row =
  ar_parent :: "nat option"
  ar_index :: nat
  ar_key :: string
  ar_path :: string
  ar_kind :: port_kind
  ar_identifier :: "string option"
  ar_jsonpath :: "string option"
  ar_nullable :: bool
  ar_dimension :: "string option"

record blok_row = columns +
  bk_name :: string
  bk_description :: "string option"
  bk_for_model :: "string option"
  bk_for_node :: "string option"
  bk_origin :: "string option"
  bk_origin_hash :: "string option"
  bk_app :: "nat option"
  bk_owner_task :: "nat option"
  bk_held_by_action :: bool
  bk_head :: "nat option"
  bk_resolved_locals :: "blok_local list"
  bk_diagnostics :: "diagnostic list"
  bk_arg_ports :: "arg_port_row list"

text \<open>A dependency's row: what \<open>sync_blok_dependencies\<close> stores of it. An \<open>agent_mapping\<close> is a \<open>BlokAgentMapping\<close>.\<close>

record dependency_row =
  dp_action_dependencies :: "action_dependency list"
  dp_state_dependencies :: "state_dependency list"
  dp_app :: "string option"
  dp_version :: "string option"
  dp_description :: "string option"
  dp_optional :: bool
  dp_auto_resolvable :: bool
  dp_min :: "int option"
  dp_max :: "int option"

record agent_mapping =
  mp_materialization :: nat
  mp_key :: string
  mp_agent :: nat
  mp_dependency :: "nat option"

record materialization =
  ml_blok :: nat
  ml_name :: string
  ml_description :: string
  ml_declared_by :: "nat option"
  ml_pinned :: "nat option"
  ml_scope :: string

text \<open>
  The rows of one organization: bloks, modules and materializations by primary key, revisions in the
  order they were written, placements as a dashboard and a materialization.
\<close>

record blok_db =
  db_bloks :: "nat \<rightharpoonup> blok_row"
  db_next_blok :: nat
  db_modules :: "nat \<rightharpoonup> ui_module"
  db_next_module :: nat
  db_revisions :: "revision list"
  db_next_revision :: nat
  db_dependencies :: "(nat \<times> string, dependency_row) table"
  db_materializations :: "nat \<rightharpoonup> materialization"
  db_next_materialization :: nat
  db_mappings :: "agent_mapping list"
  db_placements :: "(nat \<times> nat) list"

text \<open>The modules of the organization.\<close>

definition modules_of :: "blok_db \<Rightarrow> ui_module list" where
  "modules_of db = List.map_filter (db_modules db) [0..<db_next_module db]"

section \<open>Hashing\<close>

text \<open>\<open>stored_demo\<close>: a demo with nothing in it is dumped as the empty object, as no demo is.\<close>

definition stored_demo :: "blok_demo option \<Rightarrow> blok_demo option" where
  "stored_demo d =
     (case d of None \<Rightarrow> None
      | Some x \<Rightarrow> if x = \<lparr>demo_deps = JNull, demo_args = JNull, demo_task = JNull, demo_queries = JNull, demo_subscriptions = JNull\<rparr> then None else Some x)"

definition unless_empty :: "'a list \<Rightarrow> 'a list option" where
  "unless_empty xs = (if xs = [] then None else Some xs)"

record hashed_parts =
  hp_components :: "component_node list"
  hp_context :: string
  hp_catalogs :: "string list option"
  hp_locals :: "blok_local list option"
  hp_demo :: "blok_demo option"
  hp_queries :: "blok_query list option"
  hp_subscriptions :: "blok_subscription list option"
  hp_module :: nat
  hp_dependencies :: "blok_dependency list"
  hp_args :: "arg_port list option"

definition hash_parts :: "blok_content \<Rightarrow> hashed_parts" where
  "hash_parts c =
     \<lparr>hp_components = cl_components c, hp_context = context_name (cl_context c), hp_catalogs = unless_empty (cl_catalogs c),
      hp_locals = unless_empty (cl_locals c), hp_demo = stored_demo (cl_demo c), hp_queries = unless_empty (cl_queries c),
      hp_subscriptions = unless_empty (cl_subscriptions c), hp_module = cl_module c,
      hp_dependencies = bn_dependencies c, hp_args = unless_empty (cl_args c)\<rparr>"

text \<open>What a write needs besides the rows. \<open>bw_digest\<close> is the hash of the canonical JSON of the parts.\<close>

record blok_world =
  bw_vocabulary :: vocabulary
  bw_externals :: externals
  bw_specs :: "catalog_file list"
  bw_float_text :: "rat \<Rightarrow> string"
  bw_digest :: "hashed_parts \<Rightarrow> string"

section \<open>Content\<close>

definition content_of_revision :: "revision \<Rightarrow> blok_content" where
  "content_of_revision r =
     \<lparr>cl_components = cl_components r, cl_context = cl_context r, cl_module = cl_module r, cl_args = cl_args r,
      cl_catalogs = cl_catalogs r, cl_locals = cl_locals r, cl_demo = cl_demo r, cl_queries = cl_queries r,
      cl_subscriptions = cl_subscriptions r, bn_dependencies = rv_dependencies r, bn_resolved_locals = None\<rparr>"

definition declared_by :: "blok_dependency \<Rightarrow> agent_dependency" where
  "declared_by d = agent_dependency.truncate d"

text \<open>The scope a tree is checked in: \<open>locals\<close> are the resolved ones.\<close>

definition content_scope :: "string \<Rightarrow> blok_content \<Rightarrow> blok_local list \<Rightarrow> blok_scope" where
  "content_scope kind c locs =
     \<lparr>sc_kind = kind, sc_context = context_name (cl_context c), sc_dependencies = map declared_by (bn_dependencies c),
      sc_locals = locs, sc_queries = cl_queries c, sc_subscriptions = cl_subscriptions c,
      sc_args = (if cl_args c = [] then None else Some (map a_key_of (cl_args c))), sc_catalogs = cl_catalogs c,
      sc_demo = cl_demo c, sc_query_values = [], sc_assets = None\<rparr>"

definition written_scope :: "blok_content \<Rightarrow> blok_scope" where
  "written_scope c =
     \<lparr>sc_kind = ''agent'', sc_context = context_name (cl_context c), sc_dependencies = map declared_by (bn_dependencies c),
      sc_locals = cl_locals c, sc_queries = [], sc_subscriptions = [], sc_args = None, sc_catalogs = [],
      sc_demo = None, sc_query_values = [], sc_assets = None\<rparr>"

definition locals_resolved :: "blok_world \<Rightarrow> blok_db \<Rightarrow> blok_content \<Rightarrow> blok_local list result" where
  "locals_resolved w db c =
     (case bn_resolved_locals c of
        Some ls \<Rightarrow> Inr ls
      | None \<Rightarrow>
          if cl_components c = [] then map_result (\<lambda>l. resolve_local (bw_externals w) l [] []) (cl_locals c)
          else and_then (resolved_scope (bw_vocabulary w) (bw_externals w) (bw_specs w) (db_modules db (cl_module c))
                 (cl_components c) (written_scope c)) (\<lambda>sc. Inr (sc_locals sc)))"

definition resolved :: "blok_world \<Rightarrow> blok_db \<Rightarrow> blok_content \<Rightarrow> blok_content result" where
  "resolved w db c = and_then (locals_resolved w db c) (\<lambda>ls. Inr (c\<lparr>bn_resolved_locals := Some ls\<rparr>))"

definition check_declarations :: "blok_world \<Rightarrow> blok_db \<Rightarrow> blok_content \<Rightarrow> check" where
  "check_declarations w db c =
     and_then (locals_resolved w db c) (\<lambda>ls.
     and_then (check_blok_declarations (bw_vocabulary w) ''custom'' (cl_catalogs c) ls (cl_queries c) (cl_subscriptions c)
       (map dep_key (bn_dependencies c)) (cl_demo c)) (\<lambda>_.
     check_blok_args (cl_context c) (cl_args c)))"

definition content_declared :: "blok_content \<Rightarrow> blok_local list \<Rightarrow> declared" where
  "content_declared c ls =
     \<lparr>dc_dependencies = map declared_by (bn_dependencies c), dc_locals = ls, dc_queries = cl_queries c,
      dc_subscriptions = cl_subscriptions c, dc_args = (if cl_args c = [] then None else Some (map a_key_of (cl_args c))),
      dc_catalogs = cl_catalogs c, dc_demo = cl_demo c\<rparr>"

definition check_content :: "blok_world \<Rightarrow> blok_db \<Rightarrow> blok_content \<Rightarrow> check" where
  "check_content w db c =
     and_then (check_declarations w db c) (\<lambda>_.
     if cl_components c = [] then Inr ()
     else and_then (locals_resolved w db c) (\<lambda>ls.
          and_then (check_blok_manifest (bw_vocabulary w) (bw_externals w) (Some (cl_components c)) ''custom'' (cl_context c)
            (content_declared c ls)) (\<lambda>_. Inr ())))"

definition content_diagnostics :: "blok_world \<Rightarrow> blok_db \<Rightarrow> blok_content \<Rightarrow> diagnostic list result" where
  "content_diagnostics w db c =
     (if cl_components c = [] then Inr []
      else and_then (locals_resolved w db c) (\<lambda>ls.
           validate_blok_against_module (bw_vocabulary w) (bw_externals w) (bw_specs w) (modules_of db)
             (db_modules db (cl_module c)) (cl_components c) (content_scope ''custom'' c ls)))"

section \<open>Dependency rows\<close>

definition dependency_fill :: "blok_dependency \<Rightarrow> dependency_row" where
  "dependency_fill d =
     \<lparr>dp_action_dependencies = or_nil (action_dependencies d), dp_state_dependencies = or_nil (state_dependencies d),
      dp_app = fd_app d, dp_version = fd_version d, dp_description = fd_description d, dp_optional = fd_optional d,
      dp_auto_resolvable = fd_auto_resolvable d, dp_min = fd_min_viable_instances d, dp_max = fd_max_viable_instances d\<rparr>"

definition dependency_input_of :: "string \<Rightarrow> dependency_row \<Rightarrow> blok_dependency" where
  "dependency_input_of key r =
     \<lparr>dep_key = key, action_dependencies = Some (dp_action_dependencies r), state_dependencies = Some (dp_state_dependencies r),
      fd_app = dp_app r, fd_version = dp_version r, fd_name = None, fd_description = dp_description r,
      fd_optional = dp_optional r, fd_auto_resolvable = dp_auto_resolvable r, fd_mutually_exclusive_keys = None,
      fd_min_viable_instances = dp_min r, fd_max_viable_instances = dp_max r, fd_prefered_instances = None\<rparr>"

text \<open>A blok's dependency rows, ordered by key.\<close>

definition dependency_inputs :: "nat \<Rightarrow> blok_db \<Rightarrow> blok_dependency list" where
  "dependency_inputs b db =
     map (\<lambda>(p, k, r). dependency_input_of (snd k) r)
       (sort_key (\<lambda>(p, k, r). snd k) (filter (\<lambda>(p, k, r). fst k = b) (tb_rows (db_dependencies db))))"

definition content_of_blok :: "nat \<Rightarrow> blok_row \<Rightarrow> blok_db \<Rightarrow> blok_content" where
  "content_of_blok b r db =
     \<lparr>cl_components = cl_components r, cl_context = cl_context r, cl_module = cl_module r, cl_args = cl_args r,
      cl_catalogs = cl_catalogs r, cl_locals = cl_locals r, cl_demo = cl_demo r, cl_queries = cl_queries r,
      cl_subscriptions = cl_subscriptions r, bn_dependencies = dependency_inputs b db, bn_resolved_locals = None\<rparr>"

definition of_blok :: "blok_db \<Rightarrow> nat \<Rightarrow> agent_mapping \<Rightarrow> bool" where
  "of_blok db b m = (case db_materializations db (mp_materialization m) of None \<Rightarrow> False | Some ml \<Rightarrow> ml_blok ml = b)"

text \<open>
  One pass of the loop: the row of the key, and the mappings of that key without a dependency, which
  take it back.
\<close>

definition write_dependency :: "nat \<Rightarrow> blok_dependency \<Rightarrow> blok_db \<Rightarrow> blok_db" where
  "write_dependency b d db =
     (let rows = update_or_create (b, dep_key d) (\<lambda>_. dependency_fill d) (db_dependencies db)
      in db\<lparr>db_dependencies := rows,
            db_mappings := map (\<lambda>m. if of_blok db b m \<and> mp_key m = dep_key d \<and> mp_dependency m = None
                                     then m\<lparr>mp_dependency := row_pk (b, dep_key d) rows\<rparr> else m) (db_mappings db)\<rparr>)"

text \<open>Deleting dependency rows leaves the mappings that pointed at them without one (\<open>SET_NULL\<close>).\<close>

definition delete_dependencies :: "(nat \<times> string \<Rightarrow> bool) \<Rightarrow> blok_db \<Rightarrow> blok_db" where
  "delete_dependencies P db =
     (let gone = map fst (filter (\<lambda>(p, k, r). P k) (tb_rows (db_dependencies db)))
      in db\<lparr>db_dependencies := delete_where (\<lambda>k _. P k) (db_dependencies db),
            db_mappings := map (\<lambda>m. if list_ex (\<lambda>p. mp_dependency m = Some p) gone then m\<lparr>mp_dependency := None\<rparr> else m)
                             (db_mappings db)\<rparr>)"

definition sync_blok_dependencies :: "nat \<Rightarrow> blok_dependency list \<Rightarrow> blok_db \<Rightarrow> blok_db" where
  "sync_blok_dependencies b ds db =
     delete_dependencies (\<lambda>k. fst k = b \<and> k \<notin> (\<lambda>d. (b, dep_key d)) ` set ds) (fold (write_dependency b) ds db)"

section \<open>Arg-port rows\<close>

text \<open>A port still to be written: its parent's place, its index among its siblings, its parent's path.\<close>

type_synonym pending_port = "nat option \<times> nat \<times> string \<times> arg_port"

definition port_path :: "pending_port \<Rightarrow> string" where
  "port_path = (\<lambda>(_, _, upper, p). if upper = [] then a_key_of p else upper @ ''.'' @ a_key_of p)"

definition port_row :: "(rat \<Rightarrow> string) \<Rightarrow> pending_port \<Rightarrow> arg_port_row result" where
  "port_row float_text = (\<lambda>(parent, index, upper, p).
     and_then (compile_descriptors_to_jsonpath float_text (or_nil (requires p))) (\<lambda>path.
     Inr \<lparr>ar_parent = parent, ar_index = index, ar_key = a_key_of p, ar_path = port_path (parent, index, upper, p),
          ar_kind = a_kind p, ar_identifier = pt_identifier (a_base p), ar_jsonpath = path,
          ar_nullable = a_nullable p, ar_dimension = pt_dimension (a_base p)\<rparr>))"

definition children_pending :: "nat \<times> pending_port \<Rightarrow> pending_port list" where
  "children_pending = (\<lambda>(place, pending).
     map (\<lambda>(i, c). (Some place, i, port_path pending, c))
       (List.enumerate 0 (or_nil (arg_children (snd (snd (snd pending)))))))"

definition next_level :: "nat \<Rightarrow> pending_port list \<Rightarrow> pending_port list" where
  "next_level written level = concat (map children_pending (List.enumerate written level))"

definition pending_size :: "pending_port list \<Rightarrow> nat" where
  "pending_size level = sum_list (map (\<lambda>x. Suc (size (snd (snd (snd x))))) level)"

lemma enumerate_map_snd: "map (\<lambda>(i, c). f c) (List.enumerate n xs) = map f xs"
  by (induction xs arbitrary: n) auto

lemma children_size: "sum_list (map (\<lambda>c. Suc (size c)) (or_nil (arg_children p))) \<le> size p"
proof (cases p)
  case (ArgPort b vs d wd rq cs)
  have "size_list size xs = sum_list (map (\<lambda>c. Suc (size c)) xs)" for xs :: "arg_port list"
    by (induction xs) auto
  then show ?thesis by (cases cs) (auto simp: ArgPort)
qed

lemma children_pending_size: "pending_size (children_pending x) \<le> size (snd (snd (snd (snd x))))"
  using children_size [of "snd (snd (snd (snd x)))"]
  by (cases x) (simp add: pending_size_def children_pending_def comp_def case_prod_unfold
      enumerate_map_snd [where f = "\<lambda>c. Suc (size c)", unfolded case_prod_unfold])

lemma pending_size_append: "pending_size (xs @ ys) = pending_size xs + pending_size ys"
  by (simp add: pending_size_def)

lemma pending_size_Cons: "pending_size (x # xs) = Suc (size (snd (snd (snd x)))) + pending_size xs"
  by (simp add: pending_size_def)

lemma next_level_Cons: "next_level n (x # xs) = children_pending (n, x) @ next_level (Suc n) xs"
  by (simp add: next_level_def)

lemma next_level_size: "pending_size (next_level n xs) + length xs \<le> pending_size xs"
proof (induction xs arbitrary: n)
  case (Cons x xs)
  have "pending_size (next_level (Suc n) xs) + length xs \<le> pending_size xs" by (rule Cons.IH)
  with children_pending_size [of "(n, x)"] show ?case
    by (simp add: next_level_Cons pending_size_append pending_size_Cons)
qed (simp add: next_level_def pending_size_def)

lemma next_level_smaller: "xs \<noteq> [] \<Longrightarrow> pending_size (next_level n xs) < pending_size xs"
  using next_level_size [of n xs] by (cases xs) auto

function arg_port_rows :: "(rat \<Rightarrow> string) \<Rightarrow> nat \<Rightarrow> pending_port list \<Rightarrow> arg_port_row list result" where
  "arg_port_rows float_text written level =
     (if level = [] then Inr []
      else and_then (map_result (port_row float_text) level) (\<lambda>rows.
           and_then (arg_port_rows float_text (written + length level) (next_level written level)) (\<lambda>below.
           Inr (rows @ below))))"
  by pat_completeness auto
termination
  by (relation "measure (\<lambda>(_, _, level). pending_size level)") (auto simp: next_level_smaller)

declare arg_port_rows.simps [simp del]

definition blok_arg_ports :: "blok_world \<Rightarrow> arg_port list \<Rightarrow> arg_port_row list result" where
  "blok_arg_ports w args =
     arg_port_rows (bw_float_text w) 0 (map (\<lambda>(i, p). (None, i, [], p)) (List.enumerate 0 args))"

section \<open>Committing\<close>

definition revisions_of :: "nat \<Rightarrow> blok_db \<Rightarrow> revision list" where
  "revisions_of b db = filter (\<lambda>r. rv_blok r = b) (db_revisions db)"

definition find_revision :: "nat \<Rightarrow> blok_db \<Rightarrow> revision option" where
  "find_revision p db = find (\<lambda>r. rv_pk r = p) (db_revisions db)"

definition next_number :: "nat \<Rightarrow> blok_db \<Rightarrow> nat" where
  "next_number b db = Suc (fold max (map rv_number (revisions_of b db)) 0)"

definition head_of :: "blok_row \<Rightarrow> blok_db \<Rightarrow> revision option" where
  "head_of r db = Option.bind (bk_head r) (\<lambda>p. find_revision p db)"

text \<open>A row with a revision's columns, its diagnostics and its head.\<close>

definition projected :: "revision \<Rightarrow> diagnostic list \<Rightarrow> blok_row \<Rightarrow> blok_row" where
  "projected r ds row =
     row\<lparr>cl_components := cl_components r, cl_context := cl_context r, cl_module := cl_module r, cl_args := cl_args r,
         cl_catalogs := cl_catalogs r, cl_locals := cl_locals r, cl_demo := cl_demo r, cl_queries := cl_queries r,
         cl_subscriptions := cl_subscriptions r, bk_resolved_locals := rv_resolved_locals r, bk_diagnostics := ds,
         bk_head := Some (rv_pk r)\<rparr>"

text \<open>The revision \<open>commit_revision\<close> writes of a resolved content.\<close>

definition revision_for ::
  "nat \<Rightarrow> blok_content \<Rightarrow> blok_local list \<Rightarrow> string \<Rightarrow> nat option \<Rightarrow> nat option \<Rightarrow> string option \<Rightarrow> blok_db \<Rightarrow> revision" where
  "revision_for b c ls h parent task message db =
     \<lparr>cl_components = cl_components c, cl_context = cl_context c, cl_module = cl_module c, cl_args = cl_args c,
      cl_catalogs = cl_catalogs c, cl_locals = cl_locals c, cl_demo = stored_demo (cl_demo c), cl_queries = cl_queries c,
      cl_subscriptions = cl_subscriptions c, rv_pk = db_next_revision db, rv_blok = b, rv_number = next_number b db,
      rv_parent = parent, rv_dependencies = bn_dependencies c, rv_resolved_locals = ls, rv_content_hash = h,
      rv_task = task, rv_message = message\<rparr>"

text \<open>Its copy onto the blok; the arg-port rows are written again when the args change.\<close>

definition add_revision ::
  "blok_world \<Rightarrow> nat \<Rightarrow> blok_row \<Rightarrow> blok_dependency list \<Rightarrow> revision \<Rightarrow> diagnostic list \<Rightarrow> blok_db \<Rightarrow> (nat \<times> blok_db) result" where
  "add_revision w b row deps r ds db =
     and_then (if cl_args row = cl_args r then Inr (bk_arg_ports row) else blok_arg_ports w (cl_args r)) (\<lambda>ports.
     Inr (rv_pk r,
       sync_blok_dependencies b deps
         (db\<lparr>db_bloks := (db_bloks db)(b \<mapsto> (projected r ds row)\<lparr>bk_arg_ports := ports\<rparr>),
             db_revisions := db_revisions db @ [r], db_next_revision := Suc (db_next_revision db)\<rparr>)))"

text \<open>The revision's primary key and the rows after.\<close>

definition commit_revision ::
  "blok_world \<Rightarrow> nat \<Rightarrow> blok_content \<Rightarrow> nat option \<Rightarrow> bool \<Rightarrow> nat option \<Rightarrow> string option \<Rightarrow>
   blok_db \<Rightarrow> (nat \<times> blok_db) result" where
  "commit_revision w b content base guarded task message db =
     (case db_bloks db b of
        None \<Rightarrow> Inl (DoesNotExist ''Blok'')
      | Some row \<Rightarrow>
          if bk_app row \<noteq> None then Inl (ValueError [Txt ''Blok is provided by its agents and has no revisions''])
          else if guarded \<and> base \<noteq> bk_head row then Inl (StaleRevisionError base (bk_head row))
          else
            and_then (locals_resolved w db content) (\<lambda>ls.
            let c = content\<lparr>bn_resolved_locals := Some ls\<rparr>;
                h = bw_digest w (hash_parts c)
            in and_then (content_diagnostics w db c) (\<lambda>ds.
               case head_of row db of
                 Some head \<Rightarrow>
                   if rv_content_hash head = h
                   then Inr (rv_pk head,
                          db\<lparr>db_bloks := (db_bloks db)(b \<mapsto> row\<lparr>bk_diagnostics := ds, bk_resolved_locals := ls\<rparr>)\<rparr>)
                   else add_revision w b row (bn_dependencies c) (revision_for b c ls h (bk_head row) task message db) ds db
               | None \<Rightarrow> add_revision w b row (bn_dependencies c) (revision_for b c ls h None task message db) ds db)))"

end
