(* ===== verification/Blok_Mutations.thy ===== *)
theory Blok_Mutations
  imports Revisions "HOL-Library.AList"
begin

text \<open>
  \<open>facade/mutations/blok.py\<close> and \<open>facade/mutations/materialized_blok.py\<close>: what users do with custom
  bloks and materializations. A mutation runs in one transaction, so it is a function from the rows
  to its result and the rows after, or an error that leaves the rows as they were. Ids a client
  sends are primary keys; the rows of the caller's organization are the only ones there are, so
  \<open>scoped_get\<close> is a lookup. The BSX parser is takt's (\<open>bw_parse\<close>).
\<close>

section \<open>The world a mutation runs in\<close>

record agent_identity =
  ai_app :: string
  ai_version :: string

record mutation_world = blok_world +
  bw_parse :: "string \<Rightarrow> component_node list result"
  bw_agents :: "nat \<rightharpoonup> agent_identity"
  bw_tasks :: "nat list"
  bw_dashboards :: "nat list"

definition STANDARD_MODULE_NAME :: string where "STANDARD_MODULE_NAME = ''orkestrator''"

definition refuse_held_by_action :: "blok_row \<Rightarrow> check" where
  "refuse_held_by_action r = raise_if (bk_held_by_action r) (ValueError [Txt ''This blok is an action's own''])"

definition scoped_blok :: "nat \<Rightarrow> blok_db \<Rightarrow> blok_row result" where
  "scoped_blok b db = (case db_bloks db b of None \<Rightarrow> Inl (PermissionError [Txt ''No Blok'']) | Some r \<Rightarrow> Inr r)"

definition custom_blok :: "nat \<Rightarrow> blok_db \<Rightarrow> blok_row result" where
  "custom_blok b db =
     and_then (scoped_blok b db) (\<lambda>r.
     if bk_app r \<noteq> None then Inl (ValueError [Txt ''Blok is provided by its agents'']) else Inr r)"

text \<open>\<open>get_or_create\<close> by name.\<close>

definition module_for :: "string option \<Rightarrow> blok_db \<Rightarrow> nat \<times> blok_db" where
  "module_for name db =
     (let wanted = (case name of None \<Rightarrow> STANDARD_MODULE_NAME | Some n \<Rightarrow> if n = [] then STANDARD_MODULE_NAME else n)
      in case find (\<lambda>p. map_option mo_name (db_modules db p) = Some wanted) [0..<db_next_module db] of
           Some p \<Rightarrow> (p, db)
         | None \<Rightarrow> (db_next_module db,
             db\<lparr>db_modules := (db_modules db)(db_next_module db \<mapsto> \<lparr>mo_name = wanted, mo_components = [], mo_operations = []\<rparr>),
                db_next_module := Suc (db_next_module db)\<rparr>))"

definition task_of :: "mutation_world \<Rightarrow> nat option \<Rightarrow> check" where
  "task_of w t =
     (case t of None \<Rightarrow> Inr () | Some x \<Rightarrow> raise_if (x \<notin> set (bw_tasks w)) (PermissionError [Txt ''Task is not one of this client's agents runs'']))"

section \<open>Finding bloks\<close>

text \<open>The bloks that are no app's and satisfy a condition, in id order (a task's own bloks included).\<close>

definition unprovided :: "(blok_row \<Rightarrow> bool) \<Rightarrow> blok_db \<Rightarrow> nat list" where
  "unprovided P db =
     filter (\<lambda>b. case db_bloks db b of None \<Rightarrow> False | Some r \<Rightarrow> bk_app r = None \<and> P r) [0..<db_next_blok db]"

text \<open>\<open>update_or_create\<close> of a blok: the one row that matches is changed, none is created.\<close>

definition update_or_create_blok :: "(blok_row \<Rightarrow> bool) \<Rightarrow> (blok_row \<Rightarrow> blok_row) \<Rightarrow> blok_row \<Rightarrow> blok_db \<Rightarrow> (nat \<times> blok_db) result" where
  "update_or_create_blok P f new db =
     (case unprovided P db of
        [] \<Rightarrow> Inr (db_next_blok db, db\<lparr>db_bloks := (db_bloks db)(db_next_blok db \<mapsto> f new), db_next_blok := Suc (db_next_blok db)\<rparr>)
      | [b] \<Rightarrow> Inr (b, db\<lparr>db_bloks := (db_bloks db)(b \<mapsto> f (the (db_bloks db b)))\<rparr>)
      | _ \<Rightarrow> Inl (MultipleObjectsReturned ''Blok''))"

text \<open>A row as the model's defaults leave it.\<close>

definition new_blok :: "string \<Rightarrow> nat \<Rightarrow> blok_row" where
  "new_blok name m =
     \<lparr>cl_components = [], cl_context = HTML, cl_module = m, cl_args = [], cl_catalogs = [], cl_locals = [], cl_demo = None,
      cl_queries = [], cl_subscriptions = [], bk_name = name, bk_description = None, bk_for_model = None, bk_for_node = None,
      bk_origin = None, bk_origin_hash = None, bk_app = None, bk_owner_task = None, bk_held_by_action = False, bk_head = None,
      bk_resolved_locals = [], bk_diagnostics = [], bk_arg_ports = []\<rparr>"

section \<open>Creating and deleting\<close>

record create_input =
  ci_name :: string
  ci_dependencies :: "blok_dependency list"
  ci_description :: "string option"
  ci_module :: "string option"
  ci_components :: "component_node list option"
  ci_source :: "string option"
  ci_catalogs :: "string list"
  ci_locals :: "blok_local list"
  ci_demo :: "blok_demo option"
  ci_queries :: "blok_query list"
  ci_subscriptions :: "blok_subscription list"
  ci_context :: component_context
  ci_for_model :: "string option"
  ci_for_node :: "string option"
  ci_origin :: "string option"
  ci_origin_hash :: "string option"

definition check_create_input :: "vocabulary \<Rightarrow> create_input \<Rightarrow> check" where
  "check_create_input voc i =
     and_then (check_blok_sent_once voc (ci_components i) (ci_source i) False) (\<lambda>_.
     and_then (check_blok_declarations voc ''custom'' (ci_catalogs i) (ci_locals i) (ci_queries i) (ci_subscriptions i)
       (map dep_key (ci_dependencies i)) (ci_demo i)) (\<lambda>_.
     and_then (check_blok_target (ci_context i) (ci_for_model i) (ci_for_node i)) (\<lambda>_.
     raise_if (ci_context i = OVERLAY) (ValueError [Txt ''An overlay blok is an action's own'']))))"

definition parsed_tree :: "mutation_world \<Rightarrow> string option \<Rightarrow> component_node list option \<Rightarrow> component_node list option result" where
  "parsed_tree w source components =
     (case source of None \<Rightarrow> Inr components | Some s \<Rightarrow> and_then (bw_parse w s) (\<lambda>tree. Inr (Some tree)))"

definition created_content :: "create_input \<Rightarrow> component_node list \<Rightarrow> nat \<Rightarrow> arg_port list \<Rightarrow> blok_content" where
  "created_content i tree m args =
     \<lparr>cl_components = tree, cl_context = ci_context i, cl_module = m, cl_args = args, cl_catalogs = ci_catalogs i,
      cl_locals = ci_locals i, cl_demo = ci_demo i, cl_queries = ci_queries i, cl_subscriptions = ci_subscriptions i,
      bn_dependencies = ci_dependencies i, bn_resolved_locals = None\<rparr>"

text \<open>The row's columns besides its content, and how the row is found.\<close>

definition created_row :: "create_input \<Rightarrow> nat \<Rightarrow> blok_row \<Rightarrow> blok_row" where
  "created_row i m r =
     (if ci_origin i = None then r else r\<lparr>bk_name := ci_name i, bk_origin_hash := ci_origin_hash i\<rparr>)
       \<lparr>bk_description := ci_description i, cl_module := m, bk_for_model := ci_for_model i, bk_for_node := ci_for_node i\<rparr>"

definition created_is :: "create_input \<Rightarrow> blok_row \<Rightarrow> bool" where
  "created_is i r = (if ci_origin i = None then bk_name r = ci_name i else bk_origin r = ci_origin i)"

definition create_blok :: "mutation_world \<Rightarrow> create_input \<Rightarrow> blok_db \<Rightarrow> (nat \<times> blok_db) result" where
  "create_blok w i db =
     and_then (check_create_input (bw_vocabulary w) i) (\<lambda>_.
     and_then (parsed_tree w (ci_source i) (ci_components i)) (\<lambda>tree.
     let (m, db1) = module_for (ci_module i) db in
     and_then (raise_if (ci_origin i \<noteq> None \<and> unprovided (\<lambda>r. bk_name r = ci_name i \<and> bk_origin r \<noteq> ci_origin i) db1 \<noteq> [])
       (ValueError [Txt ''A custom blok of this name exists already''])) (\<lambda>_.
     and_then (update_or_create_blok (created_is i) (created_row i m) ((new_blok (ci_name i) m)\<lparr>bk_origin := ci_origin i\<rparr>) db1) (\<lambda>(b, db2).
     let row = the (db_bloks db2 b);
         written = created_content i (or_nil tree) m (cl_args row) in
     and_then (resolved (blok_world.truncate w) db2 written) (\<lambda>c.
     and_then (check_content (blok_world.truncate w) db2 c) (\<lambda>_.
     and_then (commit_revision (blok_world.truncate w) b c None False None
       (Some (if bk_head row = None then ''Created'' else ''Created again'')) db2) (\<lambda>(_, db3). Inr (b, db3))))))))"

text \<open>A blok takes its revisions, dependency rows, materializations and their mappings with it.\<close>

definition remove_blok :: "nat \<Rightarrow> blok_db \<Rightarrow> blok_db" where
  "remove_blok b db =
     (let db1 = delete_dependencies (\<lambda>k. fst k = b) db
      in db1\<lparr>db_bloks := (db_bloks db1)(b := None),
             db_revisions := filter (\<lambda>r. rv_blok r \<noteq> b) (db_revisions db1),
             db_mappings := filter (\<lambda>m. \<not> of_blok db b m) (db_mappings db1),
             db_placements := filter (\<lambda>x. map_option ml_blok (db_materializations db (snd x)) \<noteq> Some b) (db_placements db1),
             db_materializations := (\<lambda>p. case db_materializations db1 p of
               Some ml \<Rightarrow> if ml_blok ml = b then None else Some ml | None \<Rightarrow> None)\<rparr>)"

definition delete_blok :: "nat \<Rightarrow> blok_db \<Rightarrow> (bool \<times> blok_db) result" where
  "delete_blok b db =
     (case db_bloks db b of
        None \<Rightarrow> Inr (False, db)
      | Some r \<Rightarrow>
          if bk_app r \<noteq> None then Inl (ValueError [Txt ''A provided blok cannot be deleted by hand''])
          else Inr (True, remove_blok b db))"

section \<open>Forks\<close>

definition forked_row :: "string \<Rightarrow> blok_row \<Rightarrow> blok_row" where
  "forked_row name r =
     (new_blok name (cl_module r))\<lparr>bk_description := bk_description r, cl_context := cl_context r, bk_for_model := bk_for_model r,
       bk_for_node := bk_for_node r, cl_args := cl_args r, bk_arg_ports := bk_arg_ports r\<rparr>"

definition fork :: "mutation_world \<Rightarrow> nat \<Rightarrow> blok_row \<Rightarrow> string \<Rightarrow> blok_db \<Rightarrow> (nat \<times> blok_db) result" where
  "fork w p provided name db =
     and_then (raise_if (unprovided (\<lambda>r. bk_name r = name) db \<noteq> []) (ValueError [Txt ''A custom blok of this name exists already''])) (\<lambda>_.
     let b = db_next_blok db;
         db1 = db\<lparr>db_bloks := (db_bloks db)(b \<mapsto> forked_row name provided), db_next_blok := Suc b\<rparr>
     in and_then (commit_revision (blok_world.truncate w) b (content_of_blok p provided db1) None True None
          (Some (''Forked from the blok '' @ bk_name provided @ '' its agents provide'')) db1) (\<lambda>(_, db2). Inr (b, db2)))"

text \<open>\<open>name (n)\<close>, from \<open>n\<close> on, that is not taken.\<close>

definition numbered :: "string \<Rightarrow> nat \<Rightarrow> string" where
  "numbered name n = name @ '' ('' @ show_nat n @ '')''"

lemma show_nat_inject: "show_nat m = show_nat n \<longleftrightarrow> m = n"
  by (metis read_show_nat)

lemma numbered_inject: "numbered name m = numbered name n \<longleftrightarrow> m = n"
  by (simp add: numbered_def show_nat_inject)

function next_free :: "string \<Rightarrow> string list \<Rightarrow> nat \<Rightarrow> string" where
  "next_free name taken n = (if numbered name n \<in> set taken then next_free name taken (Suc n) else numbered name n)"
  by pat_completeness auto
termination
proof (relation "measure (\<lambda>(name, taken, n). card {m. n \<le> m \<and> numbered name m \<in> set taken})")
  fix name taken n
  let ?open = "\<lambda>n. {m. n \<le> m \<and> numbered name m \<in> set taken}"
  assume "numbered name n \<in> set taken"
  then have "n \<in> ?open n" by simp
  moreover have "finite (?open n)"
    by (rule finite_subset [OF _ finite_vimageI [OF finite_set [of taken], of "numbered name"]])
      (auto simp: inj_def numbered_inject)
  moreover have "?open (Suc n) = ?open n - {n}" by auto
  ultimately have "card (?open (Suc n)) < card (?open n)" by (metis card_Diff1_less)
  then show "((name, taken, Suc n), name, taken, n) \<in> measure (\<lambda>(name, taken, n). card {m. n \<le> m \<and> numbered name m \<in> set taken})"
    by simp
qed simp

declare next_free.simps [simp del]

definition free_name :: "string \<Rightarrow> blok_db \<Rightarrow> string" where
  "free_name name db =
     (let taken = map (\<lambda>b. bk_name (the (db_bloks db b))) (unprovided (\<lambda>r. starts_with name (bk_name r)) db)
      in if name \<notin> set taken then name else next_free name taken 2)"

definition fork_blok :: "mutation_world \<Rightarrow> nat \<Rightarrow> string option \<Rightarrow> blok_db \<Rightarrow> (nat \<times> blok_db) result" where
  "fork_blok w p name db =
     and_then (scoped_blok p db) (\<lambda>provided.
     and_then (refuse_held_by_action provided) (\<lambda>_.
     if bk_app provided = None then Inl (ValueError [Txt ''Blok is already custom''])
     else fork w p provided (case name of None \<Rightarrow> bk_name provided | Some n \<Rightarrow> if n = [] then bk_name provided else n) db))"

section \<open>Updates and edits\<close>

text \<open>The parts of a content a write may replace.\<close>

record blok_parts =
  ep_source :: "string option"
  ep_components :: "component_node list option"
  ep_module :: "string option"
  ep_dependencies :: "blok_dependency list option"
  ep_args :: "arg_port list option"
  ep_catalogs :: "string list option"
  ep_locals :: "blok_local list option"
  ep_demo :: "blok_demo option"
  ep_queries :: "blok_query list option"
  ep_subscriptions :: "blok_subscription list option"

definition kept :: "'a option \<Rightarrow> 'a \<Rightarrow> 'a" where
  "kept part current = (case part of None \<Rightarrow> current | Some x \<Rightarrow> x)"

definition but :: "blok_parts \<Rightarrow> component_node list option \<Rightarrow> nat option \<Rightarrow> blok_content \<Rightarrow> blok_content" where
  "but e tree m c =
     \<lparr>cl_components = kept tree (cl_components c), cl_context = cl_context c, cl_module = kept m (cl_module c),
      cl_args = kept (ep_args e) (cl_args c), cl_catalogs = kept (ep_catalogs e) (cl_catalogs c),
      cl_locals = kept (ep_locals e) (cl_locals c),
      cl_demo = (case ep_demo e of None \<Rightarrow> cl_demo c | Some d \<Rightarrow> Some d),
      cl_queries = kept (ep_queries e) (cl_queries c), cl_subscriptions = kept (ep_subscriptions e) (cl_subscriptions c),
      bn_dependencies = kept (ep_dependencies e) (bn_dependencies c), bn_resolved_locals = None\<rparr>"

definition current_content :: "nat \<Rightarrow> blok_row \<Rightarrow> blok_db \<Rightarrow> blok_content" where
  "current_content b r db = (case head_of r db of Some h \<Rightarrow> content_of_revision h | None \<Rightarrow> content_of_blok b r db)"

definition edited :: "mutation_world \<Rightarrow> nat \<Rightarrow> blok_row \<Rightarrow> blok_parts \<Rightarrow> blok_db \<Rightarrow> (blok_content \<times> blok_db) result" where
  "edited w b r e db =
     and_then (parsed_tree w (ep_source e) (ep_components e)) (\<lambda>tree.
     let (m, db1) = (case ep_module e of None \<Rightarrow> (None, db) | Some name \<Rightarrow> map_prod Some id (module_for (Some name) db))
     in Inr (but e tree m (current_content b r db), db1))"

text \<open>A name is one custom blok's that no task made (\<open>unique_blok_name_per_organization\<close>).\<close>

definition name_taken :: "nat \<Rightarrow> string \<Rightarrow> blok_db \<Rightarrow> bool" where
  "name_taken b name db = list_ex (\<lambda>x. x \<noteq> b) (unprovided (\<lambda>r. bk_name r = name \<and> bk_owner_task r = None) db)"

definition update_blok :: "mutation_world \<Rightarrow> nat \<Rightarrow> string option \<Rightarrow> string option \<Rightarrow> blok_parts \<Rightarrow> blok_db \<Rightarrow> (nat \<times> blok_db) result" where
  "update_blok w b name description e db =
     and_then (check_blok_sent_once (bw_vocabulary w) (ep_components e) (ep_source e) False) (\<lambda>_.
     and_then (custom_blok b db) (\<lambda>r.
     let r1 = r\<lparr>bk_name := kept name (bk_name r),
                bk_description := (case description of None \<Rightarrow> bk_description r | Some d \<Rightarrow> Some d)\<rparr>;
         db1 = db\<lparr>db_bloks := (db_bloks db)(b \<mapsto> r1)\<rparr>
     in and_then (raise_if (bk_owner_task r1 = None \<and> name_taken b (bk_name r1) db1) (IntegrityError ''Blok'')) (\<lambda>_.
        and_then (edited w b r1 (e\<lparr>ep_args := None, ep_catalogs := None, ep_locals := None, ep_demo := None,
          ep_queries := None, ep_subscriptions := None\<rparr>) db1) (\<lambda>(written, db2).
        and_then (resolved (blok_world.truncate w) db2 written) (\<lambda>c.
        and_then (check_content (blok_world.truncate w) db2 c) (\<lambda>_.
        and_then (commit_revision (blok_world.truncate w) b c None False None None db2) (\<lambda>(_, db3). Inr (b, db3))))))))"

end
