(* ===== verification/Blok_Edits.thy ===== *)
theory Blok_Edits
  imports Blok_Mutations
begin

text \<open>
  The rest of \<open>facade/mutations/blok.py\<close> (editing a blok on the revision an editor read, going back to
  an earlier one) and \<open>facade/mutations/materialized_blok.py\<close> (materializations and their bindings).
\<close>

section \<open>Bindings\<close>

definition given_text :: "string option \<Rightarrow> bool" where
  "given_text s = (s \<noteq> None \<and> s \<noteq> Some [])"

text \<open>The agent of one dependency, \<open>None\<close> for an optional one that is not mapped.\<close>

definition check_agent_mapping :: "mutation_world \<Rightarrow> (string \<times> nat) list \<Rightarrow> blok_dependency \<Rightarrow> nat option result" where
  "check_agent_mapping w wanted d =
     (case map_of wanted (dep_key d) of
        None \<Rightarrow>
          if fd_optional d then Inr None
          else Inl (ValueError [Txt ''Dependency '', repr_str (dep_key d), Txt '' is required but no agent was mapped''])
      | Some a \<Rightarrow>
          (case bw_agents w a of
             None \<Rightarrow> Inl (PermissionError [Txt ''No Agent in this organization''])
           | Some agent \<Rightarrow>
               and_then (raise_if (given_text (fd_app d) \<and> Some (ai_app agent) \<noteq> fd_app d) (ValueError [Txt ''Agent runs another app''])) (\<lambda>_.
               and_then (raise_if (given_text (fd_version d) \<and> fd_version d \<noteq> Some ''*'' \<and> Some (ai_version agent) \<noteq> fd_version d)
                 (ValueError [Txt ''Agent runs another version''])) (\<lambda>_.
               Inr (Some a)))))"

definition check_agent_mappings :: "mutation_world \<Rightarrow> blok_dependency list \<Rightarrow> (string \<times> nat) list \<Rightarrow> (string \<times> nat) list result" where
  "check_agent_mappings w declared wanted =
     (let by_key = dict_items (map (\<lambda>d. (dep_key d, d)) declared);
          unknown = sorted_set (filter (\<lambda>k. map_of by_key k = None) (map fst wanted))
      in and_then (raise_if (unknown \<noteq> []) (ValueError [Txt ''Blok declares no dependency named '', repr_strs unknown])) (\<lambda>_.
         and_then (map_result (\<lambda>(k, d). and_then (check_agent_mapping w wanted d) (\<lambda>a. Inr (map_option (Pair k) a))) by_key) (\<lambda>found.
         Inr (List.map_filter id found))))"

definition resolve_agent_mappings :: "mutation_world \<Rightarrow> nat \<Rightarrow> (string \<times> nat) list \<Rightarrow> blok_db \<Rightarrow> (string \<times> nat) list result" where
  "resolve_agent_mappings w b wanted db = check_agent_mappings w (dependency_inputs b db) wanted"

text \<open>The bindings of a materialization replaced; each points at its dependency row.\<close>

definition write_mappings :: "nat \<Rightarrow> nat \<Rightarrow> (string \<times> nat) list \<Rightarrow> blok_db \<Rightarrow> blok_db result" where
  "write_mappings p b bound db =
     (let others = filter (\<lambda>m. mp_materialization m \<noteq> p) (db_mappings db) in
      and_then (map_result (\<lambda>(k, a).
          case row_pk (b, k) (db_dependencies db) of
            None \<Rightarrow> Inl (KeyError [repr_str k])
          | Some d \<Rightarrow> Inr \<lparr>mp_materialization = p, mp_key = k, mp_agent = a, mp_dependency = Some d\<rparr>) bound) (\<lambda>new.
      Inr (db\<lparr>db_mappings := others @ new\<rparr>)))"

section \<open>Materializations\<close>

definition scoped_materialization :: "nat \<Rightarrow> blok_db \<Rightarrow> materialization result" where
  "scoped_materialization p db =
     (case db_materializations db p of None \<Rightarrow> Inl (PermissionError [Txt ''No MaterializedBlok'']) | Some m \<Rightarrow> Inr m)"

definition refuse_declared :: "materialization \<Rightarrow> check" where
  "refuse_declared m = raise_if (ml_declared_by m \<noteq> None) (ValueError [Txt ''Materialized blok is its agent's''])"

definition add_materialization :: "materialization \<Rightarrow> blok_db \<Rightarrow> nat \<times> blok_db" where
  "add_materialization m db =
     (db_next_materialization db,
      db\<lparr>db_materializations := (db_materializations db)(db_next_materialization db \<mapsto> m),
         db_next_materialization := Suc (db_next_materialization db)\<rparr>)"

record materialize_input =
  mz_blok :: nat
  mz_dashboard :: "nat option"
  mz_mappings :: "(string \<times> nat) list"
  mz_name :: "string option"
  mz_description :: "string option"
  mz_for_message :: bool

definition given_or :: "string option \<Rightarrow> string \<Rightarrow> string" where
  "given_or s other = (case s of None \<Rightarrow> other | Some x \<Rightarrow> if x = [] then other else x)"

definition materialize_blok :: "mutation_world \<Rightarrow> materialize_input \<Rightarrow> blok_db \<Rightarrow> (nat \<times> blok_db) result" where
  "materialize_blok w i db =
     and_then (scoped_blok (mz_blok i) db) (\<lambda>r.
     and_then (run_checks
       [raise_if (bk_held_by_action r) (ValueError [Txt ''This blok is an action's own'']),
        raise_if (bk_app r \<noteq> None \<and> \<not> mz_for_message i) (ValueError [Txt ''Blok is provided by its agents'']),
        raise_if (mz_for_message i \<and> mz_dashboard i \<noteq> None) (ValueError [Txt ''A materialization made for a message is shown in it'']),
        raise_if (case mz_dashboard i of None \<Rightarrow> False | Some d \<Rightarrow> d \<notin> set (bw_dashboards w)) (PermissionError [Txt ''No Dashboard''])]) (\<lambda>_.
     and_then (resolve_agent_mappings w (mz_blok i) (dict_items (mz_mappings i)) db) (\<lambda>bound.
     let (p, db1) = add_materialization
           \<lparr>ml_blok = mz_blok i, ml_name = given_or (mz_name i) (bk_name r),
            ml_description = given_or (mz_description i) (given_or (bk_description r) []), ml_declared_by = None, ml_pinned = None,
            ml_scope = (if mz_for_message i then ''MESSAGE'' else ''DASHBOARD'')\<rparr> db
     in and_then (write_mappings p (mz_blok i) bound db1) (\<lambda>db2.
     Inr (p, case mz_dashboard i of None \<Rightarrow> db2 | Some d \<Rightarrow> db2\<lparr>db_placements := db_placements db2 @ [(d, p)]\<rparr>)))))"

definition delete_materialized_blok :: "nat \<Rightarrow> blok_db \<Rightarrow> (bool \<times> blok_db) result" where
  "delete_materialized_blok p db =
     (case db_materializations db p of
        None \<Rightarrow> Inr (False, db)
      | Some m \<Rightarrow>
          and_then (refuse_declared m) (\<lambda>_.
          Inr (True, db\<lparr>db_materializations := (db_materializations db)(p := None),
                        db_mappings := filter (\<lambda>x. mp_materialization x \<noteq> p) (db_mappings db),
                        db_placements := filter (\<lambda>x. snd x \<noteq> p) (db_placements db)\<rparr>)))"

definition update_materialized_blok :: "mutation_world \<Rightarrow> nat \<Rightarrow> (string \<times> nat) list option \<Rightarrow> blok_db \<Rightarrow> blok_db result" where
  "update_materialized_blok w p mappings db =
     and_then (scoped_materialization p db) (\<lambda>m.
     and_then (refuse_declared m) (\<lambda>_.
     case mappings of
       None \<Rightarrow> Inr db
     | Some ms \<Rightarrow>
         and_then (resolve_agent_mappings w (ml_blok m) (dict_items ms) db) (\<lambda>bound. write_mappings p (ml_blok m) bound db)))"

definition set_pin :: "nat \<Rightarrow> nat option \<Rightarrow> blok_db \<Rightarrow> blok_db" where
  "set_pin p pin db =
     db\<lparr>db_materializations := (\<lambda>x. if x = p then map_option (\<lambda>m. m\<lparr>ml_pinned := pin\<rparr>) (db_materializations db x)
                                      else db_materializations db x)\<rparr>"

definition has_revision :: "nat \<Rightarrow> nat \<Rightarrow> blok_db \<Rightarrow> bool" where
  "has_revision b p db = list_ex (\<lambda>r. rv_pk r = p) (revisions_of b db)"

definition pin_materialized_blok :: "nat \<Rightarrow> nat option \<Rightarrow> blok_db \<Rightarrow> blok_db result" where
  "pin_materialized_blok p pin db =
     and_then (scoped_materialization p db) (\<lambda>m.
     and_then (refuse_declared m) (\<lambda>_.
     case pin of
       None \<Rightarrow> Inr (set_pin p None db)
     | Some r \<Rightarrow>
         if has_revision (ml_blok m) r db then Inr (set_pin p (Some r) db)
         else Inl (ValueError [Txt ''Blok has no revision''])))"

section \<open>Edits\<close>

record edit_input =
  ed_blok :: "nat option"
  ed_materialized :: "nat option"
  ed_base :: "nat option"
  ed_parts :: blok_parts
  ed_mappings :: "(string \<times> nat) list option"
  ed_message :: "string option"
  ed_task :: "nat option"
  ed_dry_run :: bool

definition check_edit_input :: "vocabulary \<Rightarrow> edit_input \<Rightarrow> check" where
  "check_edit_input voc i =
     and_then (check_blok_sent_once voc (ep_components (ed_parts i)) (ep_source (ed_parts i)) False) (\<lambda>_.
     and_then (raise_if ((ed_blok i = None) = (ed_materialized i = None)) (ValueError [Txt ''send `blok` or `materialized_blok`, one of the two''])) (\<lambda>_.
     raise_if (ed_blok i \<noteq> None \<and> ed_mappings i \<noteq> None) (ValueError [Txt ''A blok binds no agents, its materializations do''])))"

text \<open>What is edited: the materialization it is edited through, and the blok.\<close>

definition edit_target :: "edit_input \<Rightarrow> blok_db \<Rightarrow> ((nat \<times> materialization) option \<times> nat) result" where
  "edit_target i db =
     (case ed_materialized i of
        Some p \<Rightarrow> and_then (scoped_materialization p db) (\<lambda>m. Inr (Some (p, m), ml_blok m))
      | None \<Rightarrow>
          (case ed_blok i of
             Some b \<Rightarrow> Inr (None, b)
           | None \<Rightarrow> Inl (ValueError [Txt ''send `blok` or `materialized_blok`, one of the two''])))"

text \<open>The revision an edit of a custom blok starts from, which must be its head.\<close>

definition edit_base :: "nat \<Rightarrow> blok_row \<Rightarrow> nat option \<Rightarrow> blok_db \<Rightarrow> check" where
  "edit_base b r base db =
     and_then (raise_if (case base of None \<Rightarrow> False | Some p \<Rightarrow> \<not> has_revision b p db) (ValueError [Txt ''Blok has no revision''])) (\<lambda>_.
     raise_if (base \<noteq> bk_head r) (StaleRevisionError base (bk_head r)))"

text \<open>The bindings an edit through a materialization leaves: the kept ones, the given ones over them.\<close>

definition wanted_mappings :: "nat \<Rightarrow> blok_dependency list \<Rightarrow> (string \<times> nat) list option \<Rightarrow> blok_db \<Rightarrow> (string \<times> nat) list" where
  "wanted_mappings p declared given_mappings db =
     dict_items (map (\<lambda>m. (mp_key m, mp_agent m))
                (filter (\<lambda>m. mp_materialization m = p \<and> mp_key m \<in> dep_key ` set declared) (db_mappings db)) @
              or_nil given_mappings)"

definition edit_bindings :: "mutation_world \<Rightarrow> (nat \<times> materialization) option \<Rightarrow> blok_content \<Rightarrow> edit_input \<Rightarrow> blok_db \<Rightarrow>
    (string \<times> nat) list option result" where
  "edit_bindings w target c i db =
     (case target of
        None \<Rightarrow> Inr None
      | Some (p, _) \<Rightarrow>
          and_then (check_agent_mappings w (bn_dependencies c) (wanted_mappings p (bn_dependencies c) (ed_mappings i) db)) (\<lambda>bound. Inr (Some bound)))"

definition edit_diagnostics :: "mutation_world \<Rightarrow> bool \<Rightarrow> blok_content \<Rightarrow> blok_db \<Rightarrow> diagnostic list result" where
  "edit_diagnostics w dry c db =
     (if cl_components c = [] then Inr []
      else and_then (locals_resolved (blok_world.truncate w) db c) (\<lambda>ls.
           (if dry then blok_findings_against_module else validate_blok_against_module)
             (bw_vocabulary w) (bw_externals w) (bw_specs w) (modules_of db) (db_modules db (cl_module c)) (cl_components c)
             (content_scope ''custom'' c ls)))"

record edit_result =
  er_applied :: bool
  er_forked :: bool
  er_blok :: nat
  er_revision :: "nat option"
  er_materialized :: "nat option"
  er_diagnostics :: "diagnostic list"
  er_resolved_locals :: "blok_local list"

text \<open>
  The write of a checked edit. A provided blok is forked first; the edit lands on the fork's first
  revision, through a new materialization of the fork when it came through one.
\<close>

definition apply_edit ::
  "mutation_world \<Rightarrow> edit_input \<Rightarrow> (nat \<times> materialization) option \<Rightarrow> nat \<Rightarrow> blok_row \<Rightarrow> blok_content \<Rightarrow>
   (string \<times> nat) list option \<Rightarrow> blok_db \<Rightarrow> (nat \<times> nat option \<times> nat \<times> blok_db) result" where
  "apply_edit w i target b r c bound db =
     and_then
       (if bk_app r = None then Inr (b, ed_base i, map_option fst target, db)
        else and_then (fork w b r (free_name (bk_name r) db) db) (\<lambda>(f, db1).
             let base = Option.bind (db_bloks db1 f) bk_head
             in Inr (case target of
                       None \<Rightarrow> (f, base, None, db1)
                     | Some (_, m) \<Rightarrow>
                         let (p, db2) = add_materialization
                               \<lparr>ml_blok = f, ml_name = ml_name m, ml_description = ml_description m, ml_declared_by = None,
                                ml_pinned = None, ml_scope = ''DASHBOARD''\<rparr> db1
                         in (f, base, Some p, db2)))) (\<lambda>(f, base, p, db3).
     and_then (commit_revision (blok_world.truncate w) f c base True (ed_task i) (ed_message i) db3) (\<lambda>(v, db4).
     and_then (case (p, bound) of
                 (Some q, Some ms) \<Rightarrow> write_mappings q f ms (set_pin q None db4)
               | _ \<Rightarrow> Inr db4) (\<lambda>db5.
     Inr (f, p, v, db5))))"

text \<open>What is checked of an edit of the blok \<open>b\<close>: its content, bindings and diagnostics, and the rows with its module.\<close>

definition prepare_edit ::
  "mutation_world \<Rightarrow> edit_input \<Rightarrow> (nat \<times> materialization) option \<Rightarrow> nat \<Rightarrow> blok_row \<Rightarrow> blok_db \<Rightarrow>
   (blok_content \<times> (string \<times> nat) list option \<times> diagnostic list \<times> blok_db) result" where
  "prepare_edit w i target b r db =
     and_then (refuse_held_by_action r) (\<lambda>_.
     and_then (if bk_app r = None then edit_base b r (ed_base i) db else Inr ()) (\<lambda>_.
     and_then (edited w b r (ed_parts i) db) (\<lambda>(written, db1).
     and_then (resolved (blok_world.truncate w) db1 written) (\<lambda>c.
     and_then (if ed_dry_run i then check_declarations (blok_world.truncate w) db1 c else check_content (blok_world.truncate w) db1 c) (\<lambda>_.
     and_then (edit_bindings w target c i db1) (\<lambda>bound.
     and_then (edit_diagnostics w (ed_dry_run i) c db1) (\<lambda>ds. Inr (c, bound, ds, db1))))))))"

text \<open>A dry run keeps nothing, not even a module it names for the first time (\<open>db1\<close> has it).\<close>

definition finish_edit ::
  "mutation_world \<Rightarrow> edit_input \<Rightarrow> (nat \<times> materialization) option \<Rightarrow> nat \<Rightarrow> blok_row \<Rightarrow> blok_content \<Rightarrow>
   (string \<times> nat) list option \<Rightarrow> diagnostic list \<Rightarrow> blok_db \<Rightarrow> blok_db \<Rightarrow> (edit_result \<times> blok_db) result" where
  "finish_edit w i target b r c bound ds db db1 =
     (let result = \<lparr>er_applied = False, er_forked = bk_app r \<noteq> None, er_blok = b, er_revision = None,
                    er_materialized = map_option fst target, er_diagnostics = ds,
                    er_resolved_locals = or_nil (bn_resolved_locals c)\<rparr>
      in if ed_dry_run i then Inr (result, db)
         else and_then (apply_edit w i target b r c bound db1) (\<lambda>(f, p, v, db2).
              Inr (result\<lparr>er_applied := True, er_blok := f, er_revision := Some v, er_materialized := p\<rparr>, db2)))"

definition edit_blok :: "mutation_world \<Rightarrow> edit_input \<Rightarrow> blok_db \<Rightarrow> (edit_result \<times> blok_db) result" where
  "edit_blok w i db =
     and_then (check_edit_input (bw_vocabulary w) i) (\<lambda>_.
     and_then (task_of w (ed_task i)) (\<lambda>_.
     and_then (edit_target i db) (\<lambda>(target, b).
     and_then (scoped_blok b db) (\<lambda>r.
     and_then (prepare_edit w i target b r db) (\<lambda>(c, bound, ds, db1).
     finish_edit w i target b r c bound ds db db1)))))"

section \<open>Going back\<close>

definition revert_blok :: "mutation_world \<Rightarrow> nat \<Rightarrow> nat \<Rightarrow> nat \<Rightarrow> string option \<Rightarrow> nat option \<Rightarrow> blok_db \<Rightarrow> (nat \<times> blok_db) result" where
  "revert_blok w b to base message task db =
     and_then (custom_blok b db) (\<lambda>_.
     if \<not> has_revision b to db \<or> \<not> has_revision b base db then Inl (ValueError [Txt ''Blok has no revision''])
     else
       let earlier = the (find_revision to db) in
       and_then (task_of w task) (\<lambda>_.
       commit_revision (blok_world.truncate w) b (content_of_revision earlier) (Some base) True task
         (Some (given_or message (''Back to revision '' @ show_nat (rv_number earlier)))) db))"

end
