(* ===== verification/Blok_History.thy ===== *)
theory Blok_History
  imports Blok_Edits
begin

text \<open>
  What the histories of custom bloks keep, whatever users do: linear, the row and the dependency rows
  a copy of the last revision; no update is lost; going back brings the content and the bindings back.
\<close>

section \<open>Dependency rows after a write\<close>

lemma write_dependencies_rows:
  "db_dependencies (fold (write_dependency b) ds db) =
   fold (\<lambda>d. update_or_create (b, dep_key d) (\<lambda>_. dependency_fill d)) ds (db_dependencies db)"
  by (induction ds arbitrary: db) (auto simp: write_dependency_def Let_def)

lemma write_dependency_fields [simp]:
  "db_bloks (write_dependency b d db) = db_bloks db" "db_next_blok (write_dependency b d db) = db_next_blok db"
  "db_revisions (write_dependency b d db) = db_revisions db" "db_next_revision (write_dependency b d db) = db_next_revision db"
  "db_modules (write_dependency b d db) = db_modules db" "db_next_module (write_dependency b d db) = db_next_module db"
  "db_materializations (write_dependency b d db) = db_materializations db"
  by (simp_all add: write_dependency_def Let_def)

lemma delete_dependencies_fields [simp]:
  "db_bloks (delete_dependencies P db) = db_bloks db" "db_next_blok (delete_dependencies P db) = db_next_blok db"
  "db_revisions (delete_dependencies P db) = db_revisions db" "db_next_revision (delete_dependencies P db) = db_next_revision db"
  "db_modules (delete_dependencies P db) = db_modules db" "db_next_module (delete_dependencies P db) = db_next_module db"
  "db_materializations (delete_dependencies P db) = db_materializations db"
  "db_dependencies (delete_dependencies P db) = delete_where (\<lambda>k _. P k) (db_dependencies db)"
  by (simp_all add: delete_dependencies_def Let_def)

lemma write_dependencies_fields [simp]:
  "db_bloks (fold (write_dependency b) ds db) = db_bloks db" "db_next_blok (fold (write_dependency b) ds db) = db_next_blok db"
  "db_revisions (fold (write_dependency b) ds db) = db_revisions db"
  "db_next_revision (fold (write_dependency b) ds db) = db_next_revision db"
  "db_modules (fold (write_dependency b) ds db) = db_modules db"
  "db_next_module (fold (write_dependency b) ds db) = db_next_module db"
  "db_materializations (fold (write_dependency b) ds db) = db_materializations db"
  by (induction ds arbitrary: db) simp_all

lemma sync_dependencies_fields [simp]:
  "db_bloks (sync_blok_dependencies b ds db) = db_bloks db" "db_next_blok (sync_blok_dependencies b ds db) = db_next_blok db"
  "db_revisions (sync_blok_dependencies b ds db) = db_revisions db"
  "db_next_revision (sync_blok_dependencies b ds db) = db_next_revision db"
  "db_modules (sync_blok_dependencies b ds db) = db_modules db"
  "db_next_module (sync_blok_dependencies b ds db) = db_next_module db"
  "db_materializations (sync_blok_dependencies b ds db) = db_materializations db"
  by (simp_all add: sync_blok_dependencies_def)

lemma sync_dependencies_rows:
  assumes "table_ok (db_dependencies db)"
  shows "row_value (db_dependencies (sync_blok_dependencies b ds db)) (b', k) =
    (if b' = b then map_option dependency_fill (find (\<lambda>d. dep_key d = k) (rev ds))
     else row_value (db_dependencies db) (b', k))"
proof -
  have "find (\<lambda>d. (b, dep_key d) = (b', k)) xs = None" if "b' \<noteq> b" for xs :: "blok_dependency list"
    using that by (auto simp: find_None_iff)
  then show ?thesis
    by (auto simp: sync_blok_dependencies_def write_dependencies_rows
        row_value_sync [OF assms, where mine = "\<lambda>k _. fst k = b" and g = dependency_fill] split: option.splits)
qed

lemma sync_dependencies_table:
  "table_ok (db_dependencies db) \<Longrightarrow> table_ok (db_dependencies (sync_blok_dependencies b ds db))"
  by (simp add: sync_blok_dependencies_def write_dependencies_rows table_ok_delete table_ok_fold)

text \<open>A row that stays keeps its primary key.\<close>

lemma sync_dependencies_pk:
  assumes "table_ok (db_dependencies db)" "row_pk (b', k) (db_dependencies db) = Some p" "b' = b \<longrightarrow> k \<in> dep_key ` set ds"
  shows "row_pk (b', k) (db_dependencies (sync_blok_dependencies b ds db)) = Some p"
proof -
  let ?t = "db_dependencies (fold (write_dependency b) ds db)"
  have "row_pk (b', k) ?t = Some p"
    unfolding write_dependencies_rows by (rule row_pk_fold) (rule assms(2))
  moreover from this obtain v where "find_row (b', k) ?t = Some (p, v)" by (auto simp: row_pk_def)
  moreover have "table_ok ?t" by (simp add: write_dependencies_rows table_ok_fold assms(1))
  ultimately show ?thesis
    using assms(3) by (auto simp: sync_blok_dependencies_def row_pk_delete)
qed

section \<open>What holds of a blok\<close>

definition shows_revision :: "blok_row \<Rightarrow> revision \<Rightarrow> bool" where
  "shows_revision r v = (columns.truncate r = columns.truncate v)"

definition linear :: "revision list \<Rightarrow> bool" where
  "linear rs =
     (map rv_number rs = [1..<Suc (length rs)] \<and>
      map rv_parent rs = take (length rs) (None # map (Some \<circ> rv_pk) rs))"

definition dependencies_shown :: "blok_db \<Rightarrow> nat \<Rightarrow> revision \<Rightarrow> bool" where
  "dependencies_shown db b v =
     (\<forall>k. row_value (db_dependencies db) (b, k) =
          map_option dependency_fill (find (\<lambda>d. dep_key d = k) (rev (rv_dependencies v))))"

text \<open>
  \<open>m\<close> is the module the blok's row may already name while the revision that names it is being
  written (\<open>createBlok\<close>).
\<close>

definition history_ok :: "blok_db \<Rightarrow> nat option \<Rightarrow> nat \<Rightarrow> blok_row \<Rightarrow> bool" where
  "history_ok db m b r =
     (let rs = revisions_of b db in
      linear rs \<and>
      (if rs = [] then bk_head r = None
       else bk_head r = Some (rv_pk (last rs)) \<and> bk_app r = None \<and> dependencies_shown db b (last rs) \<and>
            shows_revision (r\<lparr>cl_module := cl_module (last rs)\<rparr>) (last rs) \<and>
            (cl_module r = cl_module (last rs) \<or> m = Some (cl_module r))))"

definition revision_ok :: "blok_world \<Rightarrow> blok_db \<Rightarrow> revision \<Rightarrow> bool" where
  "revision_ok w db v =
     (rv_pk v < db_next_revision db \<and> db_bloks db (rv_blok v) \<noteq> None \<and>
      stored_demo (cl_demo v) = cl_demo v \<and>
      rv_content_hash v = bw_digest w (hash_parts (content_of_revision v)))"

definition bloks_ok_but :: "blok_world \<Rightarrow> nat option \<Rightarrow> nat \<Rightarrow> blok_db \<Rightarrow> bool" where
  "bloks_ok_but w m b db =
     (table_ok (db_dependencies db) \<and> distinct (map rv_pk (db_revisions db)) \<and>
      list_all (revision_ok w db) (db_revisions db) \<and>
      (\<forall>x r. db_bloks db x = Some r \<longrightarrow> x < db_next_blok db \<and> history_ok db (if x = b then m else None) x r))"

definition bloks_ok :: "blok_world \<Rightarrow> blok_db \<Rightarrow> bool" where
  "bloks_ok w db = bloks_ok_but w None 0 db"

text \<open>The digest of the parts tells their modules apart.\<close>

definition modules_hashed :: "blok_world \<Rightarrow> bool" where
  "modules_hashed w = (\<forall>p q. bw_digest w p = bw_digest w q \<longrightarrow> hp_module p = hp_module q)"

lemma bloks_ok_None: "bloks_ok_but w None b db = bloks_ok w db"
  by (simp add: bloks_ok_def bloks_ok_but_def)

lemma history_ok_weaken: "history_ok db None b r \<Longrightarrow> history_ok db m b r"
  by (auto simp: history_ok_def Let_def split: if_splits)

lemma bloks_ok_weaken: "bloks_ok w db \<Longrightarrow> bloks_ok_but w m b db"
  by (auto simp: bloks_ok_def bloks_ok_but_def history_ok_weaken)

text \<open>Modules, materializations and mappings are not looked at.\<close>

lemma bloks_ok_cong:
  assumes "db_bloks db' = db_bloks db" "db_next_blok db' = db_next_blok db" "db_revisions db' = db_revisions db"
    "db_next_revision db' = db_next_revision db" "db_dependencies db' = db_dependencies db"
  shows "bloks_ok_but w m b db' = bloks_ok_but w m b db"
  using assms
  by (simp add: bloks_ok_but_def revision_ok_def [abs_def] history_ok_def revisions_of_def dependencies_shown_def Let_def)

section \<open>A commit\<close>

lemma stored_demo_twice [simp]: "stored_demo (stored_demo d) = stored_demo d"
  by (simp add: stored_demo_def split: option.split)

lemma hash_parts_resolved [simp]: "hash_parts (c\<lparr>bn_resolved_locals := x\<rparr>) = hash_parts c"
  by (simp add: hash_parts_def)

definition new_revision :: "blok_world \<Rightarrow> nat \<Rightarrow> blok_content \<Rightarrow> blok_local list \<Rightarrow> nat option \<Rightarrow> nat option \<Rightarrow> string option \<Rightarrow> blok_db \<Rightarrow> revision" where
  "new_revision w b c ls parent t msg db =
     revision_for b (c\<lparr>bn_resolved_locals := Some ls\<rparr>) ls (bw_digest w (hash_parts c)) parent t msg db"

lemma new_revision_simps [simp]:
  "rv_blok (new_revision w b c ls parent t msg db) = b"
  "rv_pk (new_revision w b c ls parent t msg db) = db_next_revision db"
  "rv_number (new_revision w b c ls parent t msg db) = next_number b db"
  "rv_parent (new_revision w b c ls parent t msg db) = parent"
  "rv_dependencies (new_revision w b c ls parent t msg db) = bn_dependencies c"
  "rv_content_hash (new_revision w b c ls parent t msg db) = bw_digest w (hash_parts c)"
  "hash_parts (content_of_revision (new_revision w b c ls parent t msg db)) = hash_parts c"
  "stored_demo (cl_demo (new_revision w b c ls parent t msg db)) = cl_demo (new_revision w b c ls parent t msg db)"
  by (simp_all add: new_revision_def revision_for_def hash_parts_def content_of_revision_def)

text \<open>The two ways a commit ends: at the head, whose content it is, or with a new revision.\<close>

definition stays :: "blok_world \<Rightarrow> nat \<Rightarrow> blok_content \<Rightarrow> blok_row \<Rightarrow> nat \<Rightarrow> blok_db \<Rightarrow> blok_db \<Rightarrow> bool" where
  "stays w b c row v db db' =
     (\<exists>head ls ds. head_of row db = Some head \<and> rv_content_hash head = bw_digest w (hash_parts c) \<and> v = rv_pk head \<and>
        db' = db\<lparr>db_bloks := (db_bloks db)(b \<mapsto> row\<lparr>bk_diagnostics := ds, bk_resolved_locals := ls\<rparr>)\<rparr>)"

definition with_revision :: "nat \<Rightarrow> blok_dependency list \<Rightarrow> blok_row \<Rightarrow> revision \<Rightarrow> blok_db \<Rightarrow> blok_db" where
  "with_revision b deps row r db =
     sync_blok_dependencies b deps
       (db\<lparr>db_bloks := (db_bloks db)(b \<mapsto> row), db_revisions := db_revisions db @ [r],
           db_next_revision := Suc (db_next_revision db)\<rparr>)"

definition grows :: "blok_world \<Rightarrow> nat \<Rightarrow> blok_content \<Rightarrow> blok_row \<Rightarrow> nat option \<Rightarrow> string option \<Rightarrow> nat \<Rightarrow> blok_db \<Rightarrow> blok_db \<Rightarrow> bool" where
  "grows w b c row t msg v db db' =
     (\<exists>ls ds ports. let r = new_revision w b c ls (if head_of row db = None then None else bk_head row) t msg db
        in (\<forall>head. head_of row db = Some head \<longrightarrow> rv_content_hash head \<noteq> bw_digest w (hash_parts c)) \<and> v = rv_pk r \<and>
           db' = with_revision b (bn_dependencies c) ((projected r ds row)\<lparr>bk_arg_ports := ports\<rparr>) r db)"

lemma commit_revision_cases:
  assumes "commit_revision w b c base guarded t msg db = Inr (v, db')"
  obtains row where "db_bloks db b = Some row" "bk_app row = None" "guarded \<longrightarrow> base = bk_head row"
    "stays w b c row v db db' \<or> grows w b c row t msg v db db'"
proof -
  obtain row where row: "db_bloks db b = Some row" "bk_app row = None" "guarded \<longrightarrow> base = bk_head row"
    using assms by (auto simp: commit_revision_def split: option.splits if_splits)
  then obtain ls ds where ls: "locals_resolved w db c = Inr ls"
    and ds: "content_diagnostics w db (c\<lparr>bn_resolved_locals := Some ls\<rparr>) = Inr ds"
    using assms by (auto simp: commit_revision_def Let_def and_then_Inr)
  show ?thesis
  proof (cases "\<exists>head. head_of row db = Some head \<and> rv_content_hash head = bw_digest w (hash_parts c)")
    case True
    then obtain head where head: "head_of row db = Some head" "rv_content_hash head = bw_digest w (hash_parts c)" by blast
    have ends: "v = rv_pk head" "db' = db\<lparr>db_bloks := (db_bloks db)(b \<mapsto> row\<lparr>bk_diagnostics := ds, bk_resolved_locals := ls\<rparr>)\<rparr>"
      using assms row ls ds head by (auto simp: commit_revision_def Let_def)
    have "stays w b c row v db db'"
      unfolding stays_def by (rule exI [of _ head], rule exI [of _ ls], rule exI [of _ ds]) (simp add: head ends)
    then show ?thesis by (intro that [OF row] disjI1)
  next
    case False
    then have "grows w b c row t msg v db db'"
      using assms row ls ds
      by (auto simp: commit_revision_def add_revision_def grows_def with_revision_def new_revision_def Let_def and_then_Inr
          split: option.splits if_splits)
    then show ?thesis by (intro that [OF row] disjI2)
  qed
qed

lemma find_distinct_key: "distinct (map f xs) \<Longrightarrow> v \<in> set xs \<Longrightarrow> find (\<lambda>x. f x = f v) xs = Some v"
  by (induction xs) (auto simp: image_iff)

lemma find_revision_pk:
  "distinct (map rv_pk (db_revisions db)) \<Longrightarrow> v \<in> set (db_revisions db) \<Longrightarrow> find_revision (rv_pk v) db = Some v"
  by (simp add: find_revision_def find_distinct_key)

lemma revisions_of_subset: "v \<in> set (revisions_of b db) \<Longrightarrow> v \<in> set (db_revisions db) \<and> rv_blok v = b"
  by (simp add: revisions_of_def)

lemma head_of_last:
  assumes "bloks_ok_but w m b db" "db_bloks db x = Some row"
  shows "head_of row db = (if revisions_of x db = [] then None else Some (last (revisions_of x db)))"
proof -
  have hist: "history_ok db (if x = b then m else None) x row" and dist: "distinct (map rv_pk (db_revisions db))"
    using assms by (auto simp: bloks_ok_but_def)
  show ?thesis
  proof (cases "revisions_of x db = []")
    case True
    then show ?thesis using hist by (simp add: history_ok_def head_of_def)
  next
    case False
    then have "find_revision (rv_pk (last (revisions_of x db))) db = Some (last (revisions_of x db))"
      using dist revisions_of_subset [of "last (revisions_of x db)" x db] by (intro find_revision_pk) auto
    then show ?thesis using hist False by (simp add: history_ok_def head_of_def Let_def)
  qed
qed

lemma linear_snoc:
  assumes "linear rs" "rv_number v = Suc (fold max (map rv_number rs) 0)"
    "rv_parent v = (if rs = [] then None else Some (rv_pk (last rs)))"
  shows "linear (rs @ [v])"
proof -
  have numbers: "map rv_number rs = [1..<Suc (length rs)]" and parents: "map rv_parent rs = take (length rs) (None # map (Some \<circ> rv_pk) rs)"
    using assms(1) by (auto simp: linear_def)
  have "fold max [1..<Suc n] 0 = n" for n :: nat
    by (induction n) auto
  then have "rv_number v = Suc (length rs)" using assms(2) numbers by simp
  moreover have "take (length rs) (None # map (Some \<circ> rv_pk) rs) @ [rv_parent v] = None # map (Some \<circ> rv_pk) rs"
  proof (cases rs rule: rev_cases)
    case (snoc ys y)
    then show ?thesis using assms(3) by (simp add: take_Cons')
  qed (use assms(3) in simp)
  ultimately show ?thesis
    using numbers parents by (simp add: linear_def)
qed

lemma linear_numbers: "linear rs \<Longrightarrow> distinct (map rv_number rs)"
  by (simp add: linear_def)

lemma linear_Nil [simp]: "linear []"
  by (simp add: linear_def)

text \<open>A row that is written but keeps its head and what the head shows.\<close>

lemma bloks_ok_row:
  assumes "bloks_ok_but w m b db" "history_ok db n b row'" "db_bloks db b = Some row"
  shows "bloks_ok_but w n b (db\<lparr>db_bloks := (db_bloks db)(b \<mapsto> row')\<rparr>)"
proof -
  have "history_ok (db\<lparr>db_bloks := f\<rparr>) k x r = history_ok db k x r" for f k x r
    by (simp add: history_ok_def revisions_of_def dependencies_shown_def)
  moreover have "revision_ok w (db\<lparr>db_bloks := (db_bloks db)(b \<mapsto> row')\<rparr>) = revision_ok w db"
    using assms(3) by (auto simp: revision_ok_def fun_eq_iff)
  ultimately show ?thesis
    using assms by (auto simp: bloks_ok_but_def split: if_splits)
qed

lemma history_ok_fields:
  assumes "history_ok db m b row" "bk_head row' = bk_head row" "bk_app row' = bk_app row" "columns.truncate row' = columns.truncate row"
  shows "history_ok db m b row'"
proof -
  have "columns.truncate (row'\<lparr>cl_module := k\<rparr>) = columns.truncate (row\<lparr>cl_module := k\<rparr>)" for k
    using assms(4) by (simp add: columns.truncate_def)
  moreover have "cl_module row' = cl_module row" using assms(4) by (simp add: columns.truncate_def)
  ultimately show ?thesis
    using assms by (auto simp: history_ok_def shows_revision_def Let_def)
qed

lemma stays_keeps:
  assumes "stays w b c row v db db'" "db_bloks db b = Some row"
    and ok: "bloks_ok_but w (Some (cl_module c)) b db" and "modules_hashed w"
  shows "bloks_ok w db'"
proof -
  obtain head ls ds where head: "head_of row db = Some head" "rv_content_hash head = bw_digest w (hash_parts c)"
    and db': "db' = db\<lparr>db_bloks := (db_bloks db)(b \<mapsto> row\<lparr>bk_diagnostics := ds, bk_resolved_locals := ls\<rparr>)\<rparr>"
    using assms(1) by (auto simp: stays_def)
  have last: "revisions_of b db \<noteq> []" "head = last (revisions_of b db)"
    using head(1) head_of_last [OF ok assms(2)] by (auto split: if_splits)
  then have "head \<in> set (db_revisions db)" using revisions_of_subset [of head b db] by simp
  then have "revision_ok w db head" using ok by (auto simp: bloks_ok_but_def list_all_iff)
  then have "bw_digest w (hash_parts (content_of_revision head)) = bw_digest w (hash_parts c)"
    using head(2) by (simp add: revision_ok_def)
  then have "hp_module (hash_parts (content_of_revision head)) = hp_module (hash_parts c)"
    using assms(4) unfolding modules_hashed_def by blast
  then have module: "cl_module head = cl_module c" by (simp add: hash_parts_def content_of_revision_def)
  have "history_ok db (Some (cl_module c)) b row" using ok assms(2) unfolding bloks_ok_but_def by (metis (full_types))
  then have "history_ok db None b row" using last module by (auto simp: history_ok_def Let_def)
  then have "history_ok db None b (row\<lparr>bk_diagnostics := ds, bk_resolved_locals := ls\<rparr>)"
    by (rule history_ok_fields) (simp_all add: columns.truncate_def)
  from bloks_ok_row [OF ok this assms(2)] show ?thesis by (simp add: db' bloks_ok_None)
qed

lemma with_revision_fields:
  "revisions_of x (with_revision b deps row r db) = revisions_of x db @ (if rv_blok r = x then [r] else [])"
  "db_bloks (with_revision b deps row r db) = (db_bloks db)(b \<mapsto> row)"
  "db_revisions (with_revision b deps row r db) = db_revisions db @ [r]"
  "db_next_revision (with_revision b deps row r db) = Suc (db_next_revision db)"
  "db_next_blok (with_revision b deps row r db) = db_next_blok db"
  "db_modules (with_revision b deps row r db) = db_modules db"
  "db_next_module (with_revision b deps row r db) = db_next_module db"
  "db_materializations (with_revision b deps row r db) = db_materializations db"
  by (simp_all add: with_revision_def revisions_of_def)

lemma with_revision_dependencies:
  assumes "table_ok (db_dependencies db)"
  shows "table_ok (db_dependencies (with_revision b deps row r db))"
    and "row_value (db_dependencies (with_revision b deps row r db)) (x, k) =
         (if x = b then map_option dependency_fill (find (\<lambda>d. dep_key d = k) (rev deps)) else row_value (db_dependencies db) (x, k))"
  using assms by (simp_all add: with_revision_def sync_dependencies_table sync_dependencies_rows)

lemma grown_history:
  assumes "history_ok db m b row" "bk_app row = None" "table_ok (db_dependencies db)"
    and "head_of row db = (if revisions_of b db = [] then None else Some (last (revisions_of b db)))"
    and r: "r = new_revision w b c ls (if head_of row db = None then None else bk_head row) t msg db"
  shows "history_ok (with_revision b (bn_dependencies c) ((projected r ds row)\<lparr>bk_arg_ports := ports\<rparr>) r db) None b
           ((projected r ds row)\<lparr>bk_arg_ports := ports\<rparr>)"
proof -
  have "linear (revisions_of b db @ [r])"
    by (rule linear_snoc) (use assms in \<open>auto simp: history_ok_def next_number_def Let_def\<close>)
  then show ?thesis
    using assms(2,3) by (simp add: history_ok_def with_revision_fields with_revision_dependencies r dependencies_shown_def
        shows_revision_def projected_def columns.truncate_def)
qed

lemma grows_keeps:
  assumes "grows w b c row t msg v db db'" "db_bloks db b = Some row" "bk_app row = None"
    and ok: "bloks_ok_but w m b db"
  shows "bloks_ok w db'"
proof -
  obtain ls ds ports r where r: "r = new_revision w b c ls (if head_of row db = None then None else bk_head row) t msg db"
    and db': "db' = with_revision b (bn_dependencies c) ((projected r ds row)\<lparr>bk_arg_ports := ports\<rparr>) r db"
    using assms(1) by (auto simp: grows_def Let_def)
  have dist: "distinct (map rv_pk (db_revisions db))" and table: "table_ok (db_dependencies db)"
    and revs: "list_all (revision_ok w db) (db_revisions db)"
    and rows: "\<And>x r. db_bloks db x = Some r \<Longrightarrow> x < db_next_blok db \<and> history_ok db (if x = b then m else None) x r"
    using ok by (auto simp: bloks_ok_but_def)
  have blok: "rv_blok r = b" "rv_pk r = db_next_revision db" "stored_demo (cl_demo r) = cl_demo r" "rv_content_hash r = bw_digest w (hash_parts (content_of_revision r))"
    by (simp_all add: r)
  have "history_ok db' None b ((projected r ds row)\<lparr>bk_arg_ports := ports\<rparr>)"
    unfolding db' using rows [OF assms(2)] assms(3) table head_of_last [OF ok assms(2)] r by (intro grown_history) auto
  moreover have "history_ok db' None x y" if "db_bloks db x = Some y" "x \<noteq> b" for x y
    using rows [OF that(1)] that(2) table blok
    by (auto simp: history_ok_def with_revision_fields with_revision_dependencies dependencies_shown_def db' Let_def)
  moreover have "list_all (revision_ok w db') (db_revisions db')"
    using revs blok by (auto simp: list_all_iff revision_ok_def with_revision_fields db')
  moreover have "rv_pk r \<notin> rv_pk ` set (db_revisions db)"
    using revs blok by (auto simp: list_all_iff revision_ok_def)
  moreover have "b < db_next_blok db" using rows [OF assms(2)] by simp
  ultimately show ?thesis
    using rows dist table
    by (auto simp: bloks_ok_def bloks_ok_but_def with_revision_fields with_revision_dependencies db')
qed

lemma commit_keeps:
  assumes "commit_revision w b c base guarded t msg db = Inr (v, db')"
    and "bloks_ok_but w (Some (cl_module c)) b db" "modules_hashed w"
  shows "bloks_ok w db'"
  using assms(1)
proof (rule commit_revision_cases)
  fix row
  assume "db_bloks db b = Some row" "bk_app row = None" "stays w b c row v db db' \<or> grows w b c row t msg v db db'"
  then show ?thesis using stays_keeps grows_keeps assms(2,3) by blast
qed

section \<open>The mutations\<close>

text \<open>What the histories are made of; modules, materializations and bindings are not.\<close>

definition same_rows :: "blok_db \<Rightarrow> blok_db \<Rightarrow> bool" where
  "same_rows db db' =
     (db_bloks db' = db_bloks db \<and> db_next_blok db' = db_next_blok db \<and> db_revisions db' = db_revisions db \<and>
      db_next_revision db' = db_next_revision db \<and> db_dependencies db' = db_dependencies db)"

lemma same_rows_ok: "same_rows db db' \<Longrightarrow> bloks_ok_but w m b db' = bloks_ok_but w m b db"
  by (intro bloks_ok_cong) (simp_all add: same_rows_def)

lemma same_rows_bloks_ok: "same_rows db db' \<Longrightarrow> bloks_ok w db' = bloks_ok w db"
  by (simp add: bloks_ok_def same_rows_ok)

lemma same_rows_trans: "same_rows a b \<Longrightarrow> same_rows b c \<Longrightarrow> same_rows a c"
  by (simp add: same_rows_def)

lemma same_rows_refl [simp]: "same_rows db db"
  by (simp add: same_rows_def)

lemma module_for_same: "module_for name db = (m, db') \<Longrightarrow> same_rows db db'"
  by (auto simp: module_for_def same_rows_def Let_def split: option.splits)

lemma edited_same: "edited w b r e db = Inr (c, db') \<Longrightarrow> same_rows db db'"
  using module_for_same
  by (cases "module_for (ep_module e) db") (auto simp: edited_def and_then_Inr Let_def split: option.splits)

lemma write_mappings_same: "write_mappings p b bound db = Inr db' \<Longrightarrow> same_rows db db'"
  by (auto simp: write_mappings_def and_then_Inr Let_def same_rows_def)

lemma set_pin_same: "same_rows db (set_pin p pin db)"
  by (simp add: set_pin_def same_rows_def)

lemma add_materialization_same: "add_materialization m db = (p, db') \<Longrightarrow> same_rows db db'"
  by (auto simp: add_materialization_def same_rows_def)

lemma no_revisions_yet:
  assumes "bloks_ok_but w m b db"
  shows "db_bloks db (db_next_blok db) = None" "revisions_of (db_next_blok db) db = []"
proof -
  show none: "db_bloks db (db_next_blok db) = None"
  proof (cases "db_bloks db (db_next_blok db)")
    case (Some r)
    then have "db_next_blok db < db_next_blok db" using assms unfolding bloks_ok_but_def by blast
    then show ?thesis by simp
  qed
  have "rv_blok v \<noteq> db_next_blok db" if "v \<in> set (db_revisions db)" for v
    using that assms none by (auto simp: bloks_ok_but_def list_all_iff revision_ok_def)
  then show "revisions_of (db_next_blok db) db = []" by (simp add: revisions_of_def filter_empty_conv)
qed

lemma new_row_ok:
  assumes "bloks_ok w db" "bk_head r = None"
  shows "bloks_ok w (db\<lparr>db_bloks := (db_bloks db)(db_next_blok db \<mapsto> r), db_next_blok := Suc (db_next_blok db)\<rparr>)"
proof -
  note fresh = no_revisions_yet [OF assms(1) [unfolded bloks_ok_def]]
  let ?db = "db\<lparr>db_bloks := (db_bloks db)(db_next_blok db \<mapsto> r), db_next_blok := Suc (db_next_blok db)\<rparr>"
  have "history_ok ?db None x y = history_ok db None x y" for x y
    by (simp add: history_ok_def revisions_of_def dependencies_shown_def)
  moreover have "history_ok db None (db_next_blok db) r" using fresh assms(2) by (simp add: history_ok_def)
  moreover have "list_all (revision_ok w ?db) (db_revisions db)"
    using assms(1) by (auto simp: bloks_ok_def bloks_ok_but_def list_all_iff revision_ok_def)
  ultimately show ?thesis
    using assms(1) by (auto simp: bloks_ok_def bloks_ok_but_def less_Suc_eq)
qed

text \<open>A row found or made by \<open>createBlok\<close>, and what its commit may rely on.\<close>

lemma created_row_history:
  assumes "history_ok db None b r"
  shows "history_ok db (Some m) b (created_row i m r)"
proof -
  have "columns.truncate ((created_row i m r)\<lparr>cl_module := k\<rparr>) = columns.truncate (r\<lparr>cl_module := k\<rparr>)" for k
    by (simp add: created_row_def columns.truncate_def)
  moreover have "bk_head (created_row i m r) = bk_head r" "bk_app (created_row i m r) = bk_app r" "cl_module (created_row i m r) = m"
    by (simp_all add: created_row_def)
  ultimately show ?thesis using assms by (auto simp: history_ok_def shows_revision_def Let_def)
qed

lemma created_row_ok:
  assumes "update_or_create_blok P (created_row i m) ((new_blok name m)\<lparr>bk_origin := o'\<rparr>) db = Inr (b, db')" "bloks_ok w db"
  shows "bloks_ok_but w (Some m) b db'"
proof (cases "unprovided P db")
  case Nil
  let ?new = "created_row i m ((new_blok name m)\<lparr>bk_origin := o'\<rparr>)"
  have "bk_head ?new = None" by (simp add: created_row_def new_blok_def)
  from new_row_ok [OF assms(2) this] show ?thesis
    using assms(1) Nil by (auto simp: update_or_create_blok_def intro: bloks_ok_weaken)
next
  case (Cons x xs)
  then have b: "xs = []" "b = x" and db': "db' = db\<lparr>db_bloks := (db_bloks db)(b \<mapsto> created_row i m (the (db_bloks db b)))\<rparr>"
    using assms(1) by (auto simp: update_or_create_blok_def split: list.splits)
  have "x \<in> set (unprovided P db)" by (simp add: Cons)
  then obtain r where r: "db_bloks db b = Some r"
    by (auto simp: unprovided_def b split: option.splits)
  then have "history_ok db None b r" using assms(2) by (auto simp: bloks_ok_def bloks_ok_but_def split: if_splits)
  from bloks_ok_row [OF bloks_ok_weaken [OF assms(2)] created_row_history [OF this] r] show ?thesis
    by (simp add: db' r)
qed

lemma resolved_module: "resolved w db c = Inr c' \<Longrightarrow> cl_module c' = cl_module c"
  by (auto simp: resolved_def and_then_Inr)

lemma create_blok_keeps:
  assumes "create_blok w i db = Inr (b, db')" "bloks_ok (blok_world.truncate w) db" "modules_hashed (blok_world.truncate w)"
  shows "bloks_ok (blok_world.truncate w) db'"
proof -
  obtain m db1 where module: "module_for (ci_module i) db = (m, db1)" by fastforce
  then obtain tree db2 c v where row: "update_or_create_blok (created_is i) (created_row i m) ((new_blok (ci_name i) m)\<lparr>bk_origin := ci_origin i\<rparr>) db1 = Inr (b, db2)"
    and c: "resolved (blok_world.truncate w) db2 (created_content i (or_nil tree) m (cl_args (the (db_bloks db2 b)))) = Inr c"
    and commit: "commit_revision (blok_world.truncate w) b c None False None
       (Some (if bk_head (the (db_bloks db2 b)) = None then ''Created'' else ''Created again'')) db2 = Inr (v, db')"
    using assms(1) by (auto simp: create_blok_def and_then_Inr Let_def split: prod.splits)
  have "bloks_ok (blok_world.truncate w) db1" using same_rows_bloks_ok [OF module_for_same [OF module]] assms(2) by simp
  from created_row_ok [OF row this] have "bloks_ok_but (blok_world.truncate w) (Some (cl_module c)) b db2"
    using resolved_module [OF c] by (simp add: created_content_def)
  from commit_keeps [OF commit this assms(3)] show ?thesis .
qed

lemma remove_blok_keeps:
  assumes "bloks_ok w db"
  shows "bloks_ok w (remove_blok b db)"
proof -
  let ?db = "remove_blok b db"
  have table: "table_ok (db_dependencies db)" using assms by (simp add: bloks_ok_def bloks_ok_but_def)
  have revs: "revisions_of x ?db = (if x = b then [] else revisions_of x db)" for x
    by (auto simp: remove_blok_def Let_def revisions_of_def filter_empty_conv intro: filter_cong)
  have deps: "row_value (db_dependencies ?db) (x, k) = row_value (db_dependencies db) (x, k)" if "x \<noteq> b" for x k
    using that table by (auto simp: remove_blok_def Let_def row_value_delete split: option.splits)
  have "history_ok ?db None x r = history_ok db None x r" if "x \<noteq> b" for x r
    using that by (simp add: history_ok_def revs dependencies_shown_def deps)
  moreover have "table_ok (db_dependencies ?db)" using table by (simp add: remove_blok_def Let_def table_ok_delete)
  ultimately show ?thesis
    using assms by (auto simp: bloks_ok_def bloks_ok_but_def remove_blok_def Let_def revision_ok_def list_all_iff distinct_map_filter)
qed

lemma fork_keeps:
  assumes "fork w p provided name db = Inr (b, db')" "bloks_ok (blok_world.truncate w) db" "modules_hashed (blok_world.truncate w)"
  shows "bloks_ok (blok_world.truncate w) db'"
proof -
  let ?db = "db\<lparr>db_bloks := (db_bloks db)(db_next_blok db \<mapsto> forked_row name provided), db_next_blok := Suc (db_next_blok db)\<rparr>"
  obtain v where commit: "commit_revision (blok_world.truncate w) b (content_of_blok p provided ?db) None True None
          (Some (''Forked from the blok '' @ bk_name provided @ '' its agents provide'')) ?db = Inr (v, db')"
    using assms(1) by (auto simp: fork_def and_then_Inr Let_def)
  have "bloks_ok (blok_world.truncate w) ?db" by (rule new_row_ok [OF assms(2)]) (simp add: forked_row_def new_blok_def)
  from commit_keeps [OF commit bloks_ok_weaken [OF this] assms(3)] show ?thesis .
qed

lemma update_blok_keeps:
  assumes "update_blok w b name description e db = Inr (x, db')" "bloks_ok (blok_world.truncate w) db"
    "modules_hashed (blok_world.truncate w)"
  shows "bloks_ok (blok_world.truncate w) db'"
proof -
  obtain r where r: "db_bloks db b = Some r"
    using assms(1) by (auto simp: update_blok_def custom_blok_def scoped_blok_def and_then_Inr split: option.splits)
  let ?r = "r\<lparr>bk_name := kept name (bk_name r),
                bk_description := (case description of None \<Rightarrow> bk_description r | Some d \<Rightarrow> Some d)\<rparr>"
  let ?db = "db\<lparr>db_bloks := (db_bloks db)(b \<mapsto> ?r)\<rparr>"
  obtain written db2 c v e' where edit: "edited w b ?r e' ?db = Inr (written, db2)"
    and commit: "commit_revision (blok_world.truncate w) b c None False None None db2 = Inr (v, db')"
    using assms(1) r by (auto simp: update_blok_def custom_blok_def scoped_blok_def and_then_Inr Let_def split: if_splits)
  have "history_ok db None b r" using assms(2) r by (auto simp: bloks_ok_def bloks_ok_but_def split: if_splits)
  then have "history_ok db None b ?r" by (rule history_ok_fields) (simp_all add: columns.truncate_def)
  moreover have "bloks_ok_but (blok_world.truncate w) None b db" using assms(2) by (simp add: bloks_ok_None)
  ultimately have "bloks_ok_but (blok_world.truncate w) None b ?db" using r by (intro bloks_ok_row)
  then have "bloks_ok (blok_world.truncate w) ?db" by (simp add: bloks_ok_None)
  then have "bloks_ok (blok_world.truncate w) db2" using same_rows_bloks_ok [OF edited_same [OF edit]] by simp
  from commit_keeps [OF commit bloks_ok_weaken [OF this] assms(3)] show ?thesis .
qed

lemma apply_edit_keeps:
  assumes "apply_edit w i target b r c bound db = Inr (f, p, v, db')" "bloks_ok (blok_world.truncate w) db"
    "modules_hashed (blok_world.truncate w)"
  shows "bloks_ok (blok_world.truncate w) db'"
proof -
  obtain f' base p' db3 db4 v' where
    place: "(if bk_app r = None then Inr (b, ed_base i, map_option fst target, db)
        else and_then (fork w b r (free_name (bk_name r) db) db) (\<lambda>(f, db1).
             let base = Option.bind (db_bloks db1 f) bk_head
             in Inr (case target of
                       None \<Rightarrow> (f, base, None, db1)
                     | Some (_, m) \<Rightarrow>
                         let (p, db2) = add_materialization
                               \<lparr>ml_blok = f, ml_name = ml_name m, ml_description = ml_description m, ml_declared_by = None,
                                ml_pinned = None, ml_scope = ''DASHBOARD''\<rparr> db1
                         in (f, base, Some p, db2)))) = Inr (f', base, p', db3)"
    and commit: "commit_revision (blok_world.truncate w) f' c base True (ed_task i) (ed_message i) db3 = Inr (v', db4)"
    and bind: "(case (p', bound) of
                 (Some q, Some ms) \<Rightarrow> write_mappings q f' ms (set_pin q None db4)
               | _ \<Rightarrow> Inr db4) = Inr db'"
    using assms(1) unfolding apply_edit_def by (auto simp: and_then_Inr split: prod.splits)
  have "bloks_ok (blok_world.truncate w) db3"
  proof (cases "bk_app r = None")
    case True
    then show ?thesis using place assms(2) by simp
  next
    case False
    then obtain f1 db1 where fork: "fork w b r (free_name (bk_name r) db) db = Inr (f1, db1)" and "same_rows db1 db3"
      using place by (auto simp: and_then_Inr Let_def add_materialization_def same_rows_def split: option.splits prod.splits)
    with fork_keeps [OF fork assms(2,3)] show ?thesis by (simp add: same_rows_bloks_ok)
  qed
  from commit_keeps [OF commit bloks_ok_weaken [OF this] assms(3)] have "bloks_ok (blok_world.truncate w) db4" .
  moreover have "same_rows db4 db'"
    using bind by (auto split: option.splits dest!: write_mappings_same intro: same_rows_trans [OF set_pin_same])
  ultimately show ?thesis by (simp add: same_rows_bloks_ok)
qed

lemma prepare_edit_parts:
  assumes "prepare_edit w i target b r db = Inr (c, bound, ds, db1)"
  shows "same_rows db db1" and "bk_app r = None \<Longrightarrow> edit_base b r (ed_base i) db = Inr ()"
  using assms by (auto simp: prepare_edit_def and_then_Inr dest: edited_same)

lemma finish_edit_parts:
  assumes "finish_edit w i target b r c bound ds db db1 = Inr (res, db')"
  shows "if ed_dry_run i then db' = db \<and> \<not> er_applied res
     else \<exists>f p v. apply_edit w i target b r c bound db1 = Inr (f, p, v, db') \<and> er_applied res \<and> er_blok res = f \<and> er_revision res = Some v"
  using assms by (auto simp: finish_edit_def Let_def and_then_Inr split: if_splits)

lemma edit_blok_parts:
  assumes "edit_blok w i db = Inr (res, db')"
  obtains target b r c bound ds db1 where
    "edit_target i db = Inr (target, b)" "db_bloks db b = Some r" "prepare_edit w i target b r db = Inr (c, bound, ds, db1)"
    "finish_edit w i target b r c bound ds db db1 = Inr (res, db')"
  using assms by (auto simp: edit_blok_def scoped_blok_def and_then_Inr split: option.splits)

lemma edit_blok_keeps:
  assumes "edit_blok w i db = Inr (res, db')" "bloks_ok (blok_world.truncate w) db" "modules_hashed (blok_world.truncate w)"
  shows "bloks_ok (blok_world.truncate w) db'"
  using assms(1)
proof (rule edit_blok_parts)
  fix target b r c bound ds db1
  assume "prepare_edit w i target b r db = Inr (c, bound, ds, db1)" "finish_edit w i target b r c bound ds db db1 = Inr (res, db')"
  then show ?thesis
    using assms(2,3) apply_edit_keeps same_rows_bloks_ok [OF prepare_edit_parts(1)] finish_edit_parts
    by (cases "ed_dry_run i") fastforce+
qed

lemma revert_blok_keeps:
  assumes "revert_blok w b to base msg t db = Inr (v, db')" "bloks_ok (blok_world.truncate w) db" "modules_hashed (blok_world.truncate w)"
  shows "bloks_ok (blok_world.truncate w) db'"
proof -
  obtain c msg' where "commit_revision (blok_world.truncate w) b c (Some base) True t msg' db = Inr (v, db')"
    using assms(1) by (auto simp: revert_blok_def and_then_Inr Let_def split: if_splits)
  from commit_keeps [OF this bloks_ok_weaken [OF assms(2)] assms(3)] show ?thesis .
qed

section \<open>Everything users do\<close>

datatype blok_request =
    Create create_input
  | Update nat "string option" "string option" blok_parts
  | Edit edit_input
  | Revert nat nat nat "string option" "nat option"
  | Delete nat
  | Fork nat "string option"
  | Materialize materialize_input
  | Unmaterialize nat
  | Rebind nat "(string \<times> nat) list option"
  | Pin nat "nat option"

fun perform :: "mutation_world \<Rightarrow> blok_request \<Rightarrow> blok_db \<Rightarrow> blok_db result" where
  "perform w (Create i) db = and_then (create_blok w i db) (\<lambda>(_, db'). Inr db')"
| "perform w (Update b name description e) db = and_then (update_blok w b name description e db) (\<lambda>(_, db'). Inr db')"
| "perform w (Edit i) db = and_then (edit_blok w i db) (\<lambda>(_, db'). Inr db')"
| "perform w (Revert b to base msg t) db = and_then (revert_blok w b to base msg t db) (\<lambda>(_, db'). Inr db')"
| "perform w (Delete b) db = and_then (delete_blok b db) (\<lambda>(_, db'). Inr db')"
| "perform w (Fork p name) db = and_then (fork_blok w p name db) (\<lambda>(_, db'). Inr db')"
| "perform w (Materialize i) db = and_then (materialize_blok w i db) (\<lambda>(_, db'). Inr db')"
| "perform w (Unmaterialize p) db = and_then (delete_materialized_blok p db) (\<lambda>(_, db'). Inr db')"
| "perform w (Rebind p ms) db = update_materialized_blok w p ms db"
| "perform w (Pin p v) db = pin_materialized_blok p v db"

definition empty_bloks :: blok_db where
  "empty_bloks = \<lparr>db_bloks = Map.empty, db_next_blok = 1, db_modules = Map.empty, db_next_module = 1, db_revisions = [],
     db_next_revision = 1, db_dependencies = empty_table, db_materializations = Map.empty, db_next_materialization = 1,
     db_mappings = [], db_placements = []\<rparr>"

text \<open>takt writes the bloks agents provide and tasks make, with their dependency rows.\<close>

definition takt_writes :: "blok_row \<Rightarrow> blok_dependency list \<Rightarrow> blok_db \<Rightarrow> blok_db" where
  "takt_writes r ds db =
     sync_blok_dependencies (db_next_blok db) ds
       (db\<lparr>db_bloks := (db_bloks db)(db_next_blok db \<mapsto> r), db_next_blok := Suc (db_next_blok db)\<rparr>)"

inductive blok_reachable :: "mutation_world \<Rightarrow> blok_db \<Rightarrow> bool" for w where
  start: "blok_reachable w empty_bloks"
| request: "blok_reachable w db \<Longrightarrow> perform w q db = Inr db' \<Longrightarrow> blok_reachable w db'"
| takt: "blok_reachable w db \<Longrightarrow> bk_head r = None \<Longrightarrow> blok_reachable w (takt_writes r ds db)"

lemma takt_writes_keeps:
  assumes "bloks_ok w db" "bk_head r = None"
  shows "bloks_ok w (takt_writes r ds db)"
proof -
  let ?new = "db\<lparr>db_bloks := (db_bloks db)(db_next_blok db \<mapsto> r), db_next_blok := Suc (db_next_blok db)\<rparr>"
  have ok: "bloks_ok w ?new" by (rule new_row_ok) fact+
  have table: "table_ok (db_dependencies db)" using assms(1) by (simp add: bloks_ok_def bloks_ok_but_def)
  have revs: "revisions_of x (takt_writes r ds db) = revisions_of x ?new" for x by (simp add: takt_writes_def revisions_of_def)
  have none: "revisions_of (db_next_blok db) ?new = []"
    using no_revisions_yet(2) [OF assms(1) [unfolded bloks_ok_def]] by (simp add: revisions_of_def)
  have "history_ok (takt_writes r ds db) None x y = history_ok ?new None x y" for x y
  proof (cases "x = db_next_blok db")
    case True
    then show ?thesis using none by (simp add: history_ok_def revs)
  next
    case False
    then have "dependencies_shown (takt_writes r ds db) x v = dependencies_shown ?new x v" for v
      by (simp add: dependencies_shown_def takt_writes_def sync_dependencies_rows table)
    then show ?thesis by (simp add: history_ok_def revs)
  qed
  then show ?thesis
    using ok by (auto simp: bloks_ok_def bloks_ok_but_def takt_writes_def sync_dependencies_table revision_ok_def [abs_def])
qed

lemma materialize_same: "materialize_blok w i db = Inr (p, db') \<Longrightarrow> same_rows db db'"
  by (auto simp: materialize_blok_def and_then_Inr add_materialization_def Let_def same_rows_def write_mappings_def
      split: option.splits)

lemma perform_keeps:
  assumes "perform w q db = Inr db'" "bloks_ok (blok_world.truncate w) db" "modules_hashed (blok_world.truncate w)"
  shows "bloks_ok (blok_world.truncate w) db'"
proof (cases q)
  case (Create i)
  then show ?thesis using assms create_blok_keeps by (auto simp: and_then_Inr)
next
  case (Update b n d e)
  then show ?thesis using assms update_blok_keeps by (auto simp: and_then_Inr)
next
  case (Edit i)
  then show ?thesis using assms edit_blok_keeps by (auto simp: and_then_Inr)
next
  case (Revert b to base m t)
  then show ?thesis using assms revert_blok_keeps by (auto simp: and_then_Inr)
next
  case (Delete b)
  then show ?thesis using assms remove_blok_keeps by (auto simp: and_then_Inr delete_blok_def split: option.splits if_splits)
next
  case (Fork p n)
  then show ?thesis using assms fork_keeps by (auto simp: and_then_Inr fork_blok_def split: if_splits)
next
  case (Materialize i)
  then have "same_rows db db'" using assms(1) materialize_same by (auto simp: and_then_Inr)
  then show ?thesis using assms(2) by (simp add: same_rows_bloks_ok)
next
  case (Unmaterialize p)
  then have "same_rows db db'"
    using assms(1) by (auto simp: and_then_Inr delete_materialized_blok_def same_rows_def split: option.splits)
  then show ?thesis using assms(2) by (simp add: same_rows_bloks_ok)
next
  case (Rebind p ms)
  then have "same_rows db db'"
    using assms(1) by (auto simp: and_then_Inr update_materialized_blok_def split: option.splits dest: write_mappings_same)
  then show ?thesis using assms(2) by (simp add: same_rows_bloks_ok)
next
  case (Pin p v)
  then have "same_rows db db'"
    using assms(1) by (auto simp: and_then_Inr pin_materialized_blok_def set_pin_same split: option.splits if_splits)
  then show ?thesis using assms(2) by (simp add: same_rows_bloks_ok)
qed

lemma bloks_ok_empty: "bloks_ok w empty_bloks"
  by (simp add: bloks_ok_def bloks_ok_but_def empty_bloks_def)

text \<open>
  C2. Whatever users request and takt writes, in any order: the revisions of every blok are numbered
  from 1 without gaps, each made from the one before it; a blok's head is its last revision, and its
  row and dependency rows show exactly that revision.
\<close>

theorem reachable_bloks_ok:
  assumes "blok_reachable w db" "modules_hashed (blok_world.truncate w)"
  shows "bloks_ok (blok_world.truncate w) db"
  using assms(1)
proof (induction rule: blok_reachable.induct)
  case start
  show ?case by (rule bloks_ok_empty)
next
  case (request db q db')
  then show ?case using perform_keeps assms(2) by blast
next
  case (takt db r ds)
  then show ?case using takt_writes_keeps by blast
qed

end
