(* ===== verification/Blok_Properties.thy ===== *)
theory Blok_Properties
  imports Blok_History
begin

text \<open>
  What a user may rely on when editing a custom blok: no update is lost, going back brings an earlier
  revision's content and bindings back, bindings satisfy their dependencies, a fork's name is free.
\<close>

section \<open>No update is lost\<close>

text \<open>After a commit the blok's head is the revision it returned.\<close>

lemma commit_head:
  assumes "commit_revision w b c base guarded t msg db = Inr (v, db')" "bloks_ok_but w m b db"
  shows "\<exists>row'. db_bloks db' b = Some row' \<and> bk_head row' = Some v \<and> bk_app row' = None"
  using assms(1)
proof (rule commit_revision_cases)
  fix row
  assume row: "db_bloks db b = Some row" "bk_app row = None" "stays w b c row v db db' \<or> grows w b c row t msg v db db'"
  have "history_ok db m b row" using assms(2) row(1) unfolding bloks_ok_but_def by (metis (full_types))
  then have "bk_head row = Some (rv_pk head)" if "head_of row db = Some head" for head
    using that head_of_last [OF assms(2) row(1)] by (auto simp: history_ok_def Let_def split: if_splits)
  then show ?thesis
    using row by (auto simp: stays_def grows_def Let_def with_revision_fields projected_def)
qed

text \<open>The blok's history after a commit: as it was, or with one revision more, made from the head.\<close>

lemma commit_history:
  assumes "commit_revision w b c base guarded t msg db = Inr (v, db')" "bloks_ok_but w m b db" "db_bloks db b = Some row"
  shows "(revisions_of b db' = revisions_of b db \<and> bk_head row = Some v) \<or>
         (\<exists>r. revisions_of b db' = revisions_of b db @ [r] \<and> rv_pk r = v \<and> rv_parent r = bk_head row \<and>
              rv_number r = Suc (length (revisions_of b db)) \<and> bk_head row \<noteq> Some v)"
  using assms(1)
proof (rule commit_revision_cases)
  fix row'
  assume row': "db_bloks db b = Some row'" "stays w b c row' v db db' \<or> grows w b c row' t msg v db db'"
  have row: "row' = row" using row'(1) assms(3) by simp
  have hist: "history_ok db m b row" using assms(2,3) unfolding bloks_ok_but_def by (metis (full_types))
  have head: "head_of row db = (if revisions_of b db = [] then None else Some (last (revisions_of b db)))"
    by (rule head_of_last [OF assms(2,3)])
  from row'(2) show ?thesis
  proof
    assume "stays w b c row' v db db'"
    then show ?thesis using head hist by (auto simp: stays_def row revisions_of_def history_ok_def Let_def split: if_splits)
  next
    assume "grows w b c row' t msg v db db'"
    moreover have "next_number b db = Suc (length (revisions_of b db))"
    proof -
      have "fold max [1..<Suc n] 0 = n" for n :: nat by (induction n) auto
      then show ?thesis using hist by (simp add: next_number_def history_ok_def linear_def Let_def)
    qed
    moreover have "bk_head row \<noteq> Some (db_next_revision db)"
    proof (cases "revisions_of b db = []")
      case False
      then have "revision_ok w db (last (revisions_of b db))"
        using assms(2) revisions_of_subset [of "last (revisions_of b db)" b db] by (auto simp: bloks_ok_but_def list_all_iff)
      then show ?thesis using hist False by (auto simp: history_ok_def Let_def revision_ok_def)
    qed (use hist in \<open>simp add: history_ok_def\<close>)
    ultimately show ?thesis
      using head hist by (auto simp: grows_def Let_def row with_revision_fields history_ok_def split: if_splits)
  qed
qed

lemma edit_base_Inr: "edit_base b r base db = Inr () \<Longrightarrow> base = bk_head r"
  by (simp add: edit_base_def result_iff)

lemma edit_of_blok:
  assumes "edit_blok w i db = Inr (res, db')" "ed_blok i = Some b" "db_bloks db b = Some r" "bk_app r = None"
  obtains c bound ds db1 where "prepare_edit w i None b r db = Inr (c, bound, ds, db1)"
    "finish_edit w i None b r c bound ds db db1 = Inr (res, db')" "ed_base i = bk_head r" "same_rows db db1"
proof -
  have "ed_materialized i = None"
    using assms(1,2) by (auto simp: edit_blok_def check_edit_input_def result_iff)
  then have target: "edit_target i db = Inr (None, b)" using assms(2) by (simp add: edit_target_def)
  from assms(1) show ?thesis
  proof (rule edit_blok_parts)
    fix target' b' r' c bound ds db1
    assume parts: "edit_target i db = Inr (target', b')" "db_bloks db b' = Some r'"
      "prepare_edit w i target' b' r' db = Inr (c, bound, ds, db1)"
      "finish_edit w i target' b' r' c bound ds db db1 = Inr (res, db')"
    have same: "target' = None" "b' = b" "r' = r" using parts(1,2) target assms(3) by auto
    show ?thesis
      by (rule that [OF parts(3,4) [unfolded same] edit_base_Inr [OF prepare_edit_parts(2) [OF parts(3) [unfolded same] assms(4)]]
            prepare_edit_parts(1) [OF parts(3)]])
  qed
qed

text \<open>An applied edit of a custom blok is a commit on its head.\<close>

lemma applied_edit_commits:
  assumes "edit_blok w i db = Inr (res, db')" "ed_blok i = Some b" "db_bloks db b = Some r" "bk_app r = None" "er_applied res"
  obtains c v db1 where "commit_revision (blok_world.truncate w) b c (ed_base i) True (ed_task i) (ed_message i) db1 = Inr (v, db')"
    "er_revision res = Some v" "ed_base i = bk_head r" "same_rows db db1"
  using assms(1-4)
proof (rule edit_of_blok)
  fix c bound ds db1
  assume finish: "finish_edit w i None b r c bound ds db db1 = Inr (res, db')" and base: "ed_base i = bk_head r" "same_rows db db1"
  have "\<not> ed_dry_run i" using finish_edit_parts [OF finish] assms(5) by (auto split: if_splits)
  then obtain f p v where edit: "apply_edit w i None b r c bound db1 = Inr (f, p, v, db')" and v: "er_revision res = Some v"
    using finish_edit_parts [OF finish] by auto
  from edit have "commit_revision (blok_world.truncate w) b c (ed_base i) True (ed_task i) (ed_message i) db1 = Inr (v, db')"
    using assms(4) by (auto simp: apply_edit_def and_then_Inr)
  then show ?thesis using v base by (rule that)
qed

text \<open>
  C1. An edit of a custom blok that is applied was made on the head: the blok's history is as it was
  (the head has that content already) or has exactly one revision more, made from the head and
  numbered next. When it has one more, any other edit that starts from the same revision is refused.
\<close>

theorem edit_not_lost:
  assumes "bloks_ok (blok_world.truncate w) db" "edit_blok w i db = Inr (res, db')" "ed_blok i = Some b"
    "db_bloks db b = Some r" "bk_app r = None" "er_applied res" "ed_blok j = Some b" "ed_base j = ed_base i"
  shows "ed_base i = bk_head r \<and>
    (revisions_of b db' = revisions_of b db \<and> er_revision res = ed_base i \<or>
     (\<exists>v. revisions_of b db' = revisions_of b db @ [v] \<and> rv_parent v = ed_base i \<and> er_revision res = Some (rv_pk v) \<and>
          rv_number v = Suc (length (revisions_of b db)) \<and> (\<exists>e. edit_blok w' j db' = Inl e)))"
  using assms(2-6)
proof (rule applied_edit_commits)
  fix c v db1
  assume commit: "commit_revision (blok_world.truncate w) b c (ed_base i) True (ed_task i) (ed_message i) db1 = Inr (v, db')"
    and res: "er_revision res = Some v" and base: "ed_base i = bk_head r" and same: "same_rows db db1"
  have ok: "bloks_ok_but (blok_world.truncate w) None b db1"
    using assms(1) same by (simp add: bloks_ok_None same_rows_bloks_ok)
  have row: "db_bloks db1 b = Some r" and revs: "revisions_of b db1 = revisions_of b db"
    using same assms(4) by (simp_all add: same_rows_def revisions_of_def)
  obtain r' where r': "db_bloks db' b = Some r'" "bk_head r' = Some v" "bk_app r' = None"
    using commit_head [OF commit ok] by blast
  have refused: "\<exists>e. edit_blok w' j db' = Inl e" if "bk_head r \<noteq> Some v"
  proof (cases "edit_blok w' j db'")
    case (Inr x)
    then obtain res' db2 where "edit_blok w' j db' = Inr (res', db2)" by (cases x) auto
    then have "ed_base j = bk_head r'" using assms(7) r'(1,3) by (rule edit_of_blok)
    then show ?thesis using that r'(2) assms(8) base by simp
  qed blast
  show ?thesis
    using commit_history [OF commit ok row] refused base res revs by auto
qed

section \<open>Going back\<close>

lemma find_revision_in: "find_revision p db = Some v \<Longrightarrow> v \<in> set (db_revisions db) \<and> rv_pk v = p"
  by (auto simp: find_revision_def find_Some_iff)

lemma content_dependencies [simp]: "bn_dependencies (content_of_revision r) = rv_dependencies r"
  by (simp add: content_of_revision_def)

lemma shows_content:
  assumes "stored_demo (cl_demo earlier) = cl_demo earlier"
  shows "shows_revision ((projected (new_revision w b (content_of_revision earlier) ls parent t msg db) ds row)\<lparr>bk_arg_ports := ports\<rparr>) earlier"
  using assms
  by (simp add: shows_revision_def projected_def columns.truncate_def new_revision_def revision_for_def content_of_revision_def)

text \<open>
  C3. Going back to an earlier revision from the head leaves the blok's row and its dependency rows
  showing that revision, as one new revision made from the head with the earlier one's hash; when
  the head has the earlier revision's hash already, nothing is added.
\<close>

theorem revert_restores:
  assumes "bloks_ok (blok_world.truncate w) db" "revert_blok w b to base msg t db = Inr (v, db')"
    "find_revision to db = Some earlier"
  shows "\<exists>row'. db_bloks db' b = Some row' \<and> bk_head row' = Some v \<and>
    (v = base \<and> revisions_of b db' = revisions_of b db \<and>
       map_option rv_content_hash (find_revision base db) = Some (rv_content_hash earlier) \<or>
     shows_revision row' earlier \<and> dependencies_shown db' b earlier \<and>
       (\<exists>r. revisions_of b db' = revisions_of b db @ [r] \<and> rv_pk r = v \<and> rv_parent r = Some base \<and>
            rv_content_hash r = rv_content_hash earlier))"
proof -
  let ?w = "blok_world.truncate w" and ?c = "content_of_revision earlier"
  obtain msg' where commit: "commit_revision ?w b ?c (Some base) True t msg' db = Inr (v, db')"
    using assms(2,3) by (auto simp: revert_blok_def and_then_Inr Let_def split: if_splits)
  have ok: "bloks_ok_but ?w None b db" using assms(1) by (simp add: bloks_ok_None)
  have earlier: "revision_ok ?w db earlier"
    using assms(1) find_revision_in [OF assms(3)] by (auto simp: bloks_ok_def bloks_ok_but_def list_all_iff)
  obtain row' where row': "db_bloks db' b = Some row'" "bk_head row' = Some v"
    using commit_head [OF commit ok] by blast
  from commit show ?thesis
  proof (rule commit_revision_cases)
    fix row
    assume row: "db_bloks db b = Some row" "True \<longrightarrow> Some base = bk_head row" "stays ?w b ?c row v db db' \<or> grows ?w b ?c row t msg' v db db'"
    have hash: "bw_digest ?w (hash_parts ?c) = rv_content_hash earlier" using earlier by (simp add: revision_ok_def)
    from row(3) show ?thesis
    proof
      assume "stays ?w b ?c row v db db'"
      then show ?thesis
        using row' row(2) hash find_revision_in
        by (auto simp: stays_def head_of_def revisions_of_def bind_eq_Some_conv)
    next
      assume grown: "grows ?w b ?c row t msg' v db db'"
      moreover have "table_ok (db_dependencies db)" using ok by (simp add: bloks_ok_but_def)
      moreover have "head_of row db \<noteq> None"
        using row(1,2) ok head_of_last [OF ok row(1)] unfolding bloks_ok_but_def
        by (auto simp: history_ok_def Let_def split: if_splits)
      ultimately show ?thesis
        using row' row(2) hash earlier
        by (auto simp: grows_def Let_def with_revision_fields with_revision_dependencies dependencies_shown_def
            shows_content revision_ok_def)
    qed
  qed
qed

section \<open>Bindings\<close>

text \<open>Every binding points at the row of its key, or at none.\<close>

definition bindings_ok :: "blok_db \<Rightarrow> bool" where
  "bindings_ok db =
     list_all (\<lambda>m. case mp_dependency m of
        None \<Rightarrow> True
      | Some p \<Rightarrow> (case db_materializations db (mp_materialization m) of
                   None \<Rightarrow> False | Some ml \<Rightarrow> row_pk (ml_blok ml, mp_key m) (db_dependencies db) = Some p)) (db_mappings db)"

definition rebound :: "nat \<Rightarrow> string set \<Rightarrow> (nat \<times> string, dependency_row) table \<Rightarrow> blok_db \<Rightarrow> agent_mapping \<Rightarrow> agent_mapping" where
  "rebound b keys rows db m =
     (if of_blok db b m \<and> mp_key m \<in> keys \<and> mp_dependency m = None
      then m\<lparr>mp_dependency := row_pk (b, mp_key m) rows\<rparr> else m)"

lemma of_blok_cong: "db_materializations db' = db_materializations db \<Longrightarrow> of_blok db' b m = of_blok db b m"
  by (simp add: of_blok_def)

lemma of_blok_update [simp]: "of_blok db b (m\<lparr>mp_dependency := x\<rparr>) = of_blok db b m"
  by (simp add: of_blok_def)

lemma write_dependencies_mappings:
  "db_mappings (fold (write_dependency b) ds db) =
   map (rebound b (dep_key ` set ds) (db_dependencies (fold (write_dependency b) ds db)) db) (db_mappings db)"
proof (induction ds arbitrary: db)
  case Nil
  show ?case by (simp add: rebound_def [abs_def])
next
  case (Cons d ds)
  let ?db = "write_dependency b d db"
  let ?written = "db_dependencies (fold (write_dependency b) ds ?db)"
  obtain p where p: "row_pk (b, dep_key d) (db_dependencies ?db) = Some p"
    using row_pk_written by (fastforce simp: write_dependency_def Let_def)
  have stay: "row_pk (b, dep_key d) ?written = Some p"
    unfolding write_dependencies_rows by (rule row_pk_fold) (rule p)
  have one: "db_mappings ?db = map (rebound b {dep_key d} (db_dependencies ?db) db) (db_mappings db)"
    by (simp add: write_dependency_def Let_def rebound_def)
  have two: "rebound b (dep_key ` set ds) ?written ?db (rebound b {dep_key d} (db_dependencies ?db) db m) =
        rebound b (dep_key ` set (d # ds)) ?written db m" for m
    using p stay by (auto simp: rebound_def of_blok_cong [of ?db db])
  show ?case by (simp add: Cons.IH one two)
qed

text \<open>
  C27. A write of a blok's dependencies leaves exactly the declared ones as rows, with the primary keys
  they had; a binding of a materialization of the blok points at the row of its key when the key is
  declared (again), and at none when it is not; every other binding is as it was.
\<close>

theorem bindings_follow:
  assumes "table_ok (db_dependencies db)" "bindings_ok db" "sync_blok_dependencies b ds db = db'"
  shows "db_mappings db' =
     map (\<lambda>m. if of_blok db b m
               then m\<lparr>mp_dependency := if mp_key m \<in> dep_key ` set ds then row_pk (b, mp_key m) (db_dependencies db') else None\<rparr>
               else m) (db_mappings db) \<and>
    row_value (db_dependencies db') (b, k) = map_option dependency_fill (find (\<lambda>d. dep_key d = k) (rev ds)) \<and>
    (find (\<lambda>d. dep_key d = k) ds = None \<or> row_pk (b, k) (db_dependencies db) \<in> {None, row_pk (b, k) (db_dependencies db')})"
proof -
  let ?mid = "fold (write_dependency b) ds db" and ?keys = "dep_key ` set ds"
  let ?rows = "db_dependencies ?mid"
  have table: "table_ok ?rows" by (simp add: write_dependencies_rows table_ok_fold assms(1))
  have same: "row_pk (x, k) (db_dependencies db') = row_pk (x, k) ?rows" if "x = b \<longrightarrow> k \<in> ?keys" for x k
    using that table assms(3)
    by (auto simp: sync_blok_dependencies_def row_pk_def find_row_delete image_iff split: option.splits)
  define gone where "gone = map fst (filter (\<lambda>(p, k, r). fst k = b \<and> k \<notin> (\<lambda>d. (b, dep_key d)) ` set ds) (tb_rows ?rows))"
  have gone: "p \<in> set gone \<longleftrightarrow> x = b \<and> k \<notin> ?keys" if found: "row_pk (x, k) ?rows = Some p" for p x k
  proof -
    obtain v where "find_row (x, k) ?rows = Some (p, v)" using found by (auto simp: row_pk_def)
    then have v: "(p, (x, k), v) \<in> set (tb_rows ?rows)" by (simp add: find_row_Some [OF table])
    have key: "kk = (x, k)" if "(p, kk, r) \<in> set (tb_rows ?rows)" for kk r
      using eq_key_imp_eq_value [OF _ that v] table by (simp add: table_ok_def)
    have "p \<in> set gone \<longleftrightarrow> (\<exists>kk r. (p, kk, r) \<in> set (tb_rows ?rows) \<and> fst kk = b \<and> kk \<notin> (\<lambda>d. (b, dep_key d)) ` set ds)"
      unfolding gone_def set_map set_filter by (auto simp: image_def)
    also have "\<dots> \<longleftrightarrow> x = b \<and> k \<notin> ?keys" (is "?L = ?R")
    proof
      assume ?L
      then obtain kk r where kk: "(p, kk, r) \<in> set (tb_rows ?rows)" "fst kk = b" "kk \<notin> (\<lambda>d. (b, dep_key d)) ` set ds" by blast
      with key [OF kk(1)] show ?R by auto
    next
      assume ?R
      then show ?L using v by (intro exI [of _ "(x, k)"] exI [of _ v]) auto
    qed
    finally show ?thesis .
  qed
  have declared: "\<exists>q. row_pk (b, x) ?rows = Some q" if "x \<in> ?keys" for x
  proof -
    have "row_value ?rows (b, x) \<noteq> None"
      using that by (auto simp: write_dependencies_rows tb.lookup_puts [OF assms(1)] fold_last filter_empty_conv)
    then show ?thesis by (auto simp: row_value_def row_pk_def)
  qed
  have final: "db_mappings db' =
      map (\<lambda>m. if list_ex (\<lambda>p. mp_dependency m = Some p) gone then m\<lparr>mp_dependency := None\<rparr> else m)
        (map (rebound b ?keys ?rows db) (db_mappings db))"
    using assms(3) by (auto simp: sync_blok_dependencies_def delete_dependencies_def Let_def gone_def write_dependencies_mappings)
  have each: "(if list_ex (\<lambda>p. mp_dependency (rebound b ?keys ?rows db m) = Some p) gone
       then (rebound b ?keys ?rows db m)\<lparr>mp_dependency := None\<rparr> else rebound b ?keys ?rows db m) =
      (if of_blok db b m
       then m\<lparr>mp_dependency := if mp_key m \<in> ?keys then row_pk (b, mp_key m) (db_dependencies db') else None\<rparr> else m)"
    if m: "m \<in> set (db_mappings db)" for m
  proof (cases "mp_dependency m")
    case None
    show ?thesis
    proof (cases "of_blok db b m \<and> mp_key m \<in> ?keys")
      case True
      then obtain q where "row_pk (b, mp_key m) ?rows = Some q" using declared by blast
      then show ?thesis using None True gone same [of b "mp_key m"] by (auto simp: rebound_def list_ex_iff)
    next
      case False
      have "m\<lparr>mp_dependency := None\<rparr> = m" using None by simp
      then show ?thesis using None False by (auto simp: rebound_def list_ex_iff)
    qed
  next
    case (Some p)
    then obtain ml where ml: "db_materializations db (mp_materialization m) = Some ml"
      and "row_pk (ml_blok ml, mp_key m) (db_dependencies db) = Some p"
      using m assms(2) by (auto simp: bindings_ok_def list_all_iff split: option.splits)
    then have pk: "row_pk (ml_blok ml, mp_key m) ?rows = Some p"
      unfolding write_dependencies_rows by (intro row_pk_fold)
    have "m\<lparr>mp_dependency := Some p\<rparr> = m" using Some by simp
    then show ?thesis
      using Some ml gone [OF pk] pk same [of b "mp_key m"] by (auto simp: rebound_def of_blok_def list_ex_iff)
  qed
  then have "db_mappings db' =
     map (\<lambda>m. if of_blok db b m
               then m\<lparr>mp_dependency := if mp_key m \<in> ?keys then row_pk (b, mp_key m) (db_dependencies db') else None\<rparr>
               else m) (db_mappings db)"
    unfolding final by (auto simp: comp_def)
  moreover have "row_pk (b, k) (db_dependencies db) \<in> {None, row_pk (b, k) (db_dependencies db')}" if "k \<in> ?keys"
    using sync_dependencies_pk [OF assms(1), of b k] that assms(3) by (cases "row_pk (b, k) (db_dependencies db)") auto
  ultimately show ?thesis
    using sync_dependencies_rows [OF assms(1), of b ds b k] assms(3) by (auto simp: find_None_iff)
qed

section \<open>Agents for dependencies\<close>

text \<open>What an agent, or none, must be for a dependency.\<close>

definition mapping_fits :: "mutation_world \<Rightarrow> blok_dependency \<Rightarrow> nat option \<Rightarrow> bool" where
  "mapping_fits w d a =
     (case a of
        None \<Rightarrow> fd_optional d
      | Some x \<Rightarrow>
          (case bw_agents w x of
             None \<Rightarrow> False
           | Some agent \<Rightarrow> fd_app d \<in> {None, Some [], Some (ai_app agent)} \<and>
                           fd_version d \<in> {None, Some [], Some ''*'', Some (ai_version agent)}))"

lemma check_agent_mapping_Inr:
  "check_agent_mapping w wanted d = Inr x \<longleftrightarrow> mapping_fits w d (map_of wanted (dep_key d)) \<and> x = map_of wanted (dep_key d)"
  by (auto simp: check_agent_mapping_def mapping_fits_def given_text_def result_iff split: option.splits)

lemma map_filter_map_id: "List.map_filter id (map f xs) = List.map_filter f xs"
  by (induction xs) (auto simp: map_filter_simps split: option.splits)

text \<open>
  The bindings of a materialization are accepted exactly when every key is a declared dependency and
  every declared one has an agent of the organization that runs the app and version it asks for, or
  none when it is optional; they are then the given ones, in the order of the declarations.
\<close>

theorem check_agent_mappings_iff:
  "check_agent_mappings w declared wanted = Inr bound \<longleftrightarrow>
     list_all (\<lambda>k. k \<in> dep_key ` set declared) (map fst wanted) \<and>
     list_all (\<lambda>(k, d). mapping_fits w d (map_of wanted k)) (dict_items (map (\<lambda>d. (dep_key d, d)) declared)) \<and>
     bound = List.map_filter (\<lambda>(k, d). map_option (Pair k) (map_of wanted k)) (dict_items (map (\<lambda>d. (dep_key d, d)) declared))"
proof -
  let ?by_key = "dict_items (map (\<lambda>d. (dep_key d, d)) declared)"
  have key: "dep_key d = k" if "(k, d) \<in> set ?by_key" for k d
    using subsetD [OF dict_items_subset that] by auto
  have unknown: "map_of ?by_key k = None \<longleftrightarrow> k \<notin> dep_key ` set declared" for k
    by (auto simp: map_of_dict_items map_of_eq_None_iff image_iff)
  have "map_result (\<lambda>(k, d). and_then (check_agent_mapping w wanted d) (\<lambda>a. Inr (map_option (Pair k) a))) xs = Inr found \<longleftrightarrow>
      list_all (\<lambda>(k, d). mapping_fits w d (map_of wanted k)) xs \<and> found = map (\<lambda>(k, d). map_option (Pair k) (map_of wanted k)) xs"
    if "\<And>k d. (k, d) \<in> set xs \<Longrightarrow> dep_key d = k" for xs found
    using that
  proof (induction xs arbitrary: found)
    case (Cons x xs)
    obtain k d where x: "x = (k, d)" by (cases x)
    have "dep_key d = k" using Cons.prems x by simp
    then show ?case using Cons.IH [OF Cons.prems] by (auto simp: x and_then_Inr check_agent_mapping_Inr)
  qed auto
  from this [of ?by_key, OF key] show ?thesis
    by (auto simp: check_agent_mappings_def Let_def and_then_Inr raise_if_Inr unknown list_all_iff filter_empty_conv
        map_filter_map_id)
qed

section \<open>Names\<close>

lemma next_free_free: "next_free name taken n \<notin> set taken"
proof (induction name taken n rule: next_free.induct)
  case (1 name taken n)
  then show ?case by (subst next_free.simps) simp
qed

lemma next_free_starts: "starts_with name (next_free name taken n)"
proof (induction name taken n rule: next_free.induct)
  case (1 name taken n)
  then show ?case by (subst next_free.simps) (simp add: starts_with_def numbered_def)
qed

text \<open>
  The name an edit of a provided blok gives its fork is no custom blok's, so the fork is never
  refused for its name.
\<close>

theorem free_name_free: "unprovided (\<lambda>r. bk_name r = free_name name db) db = []"
proof -
  let ?taken = "map (\<lambda>b. bk_name (the (db_bloks db b))) (unprovided (\<lambda>r. starts_with name (bk_name r)) db)"
  have "starts_with name (free_name name db)" "free_name name db \<notin> set ?taken"
    using next_free_free [of name ?taken 2] next_free_starts [of name ?taken 2]
    by (auto simp: free_name_def Let_def starts_with_def)
  then have "bk_name r \<noteq> free_name name db" if "db_bloks db b = Some r" "bk_app r = None" "b < db_next_blok db" for b r
    using that by (force simp: unprovided_def image_iff)
  then show ?thesis by (auto simp: unprovided_def filter_empty_conv split: option.splits)
qed

section \<open>A task's blok of the same name\<close>

lemma commit_owner:
  assumes "commit_revision w b c base guarded t msg db = Inr (v, db')" "db_bloks db b = Some row"
  shows "\<exists>row'. db_bloks db' b = Some row' \<and> bk_owner_task row' = bk_owner_task row \<and> db_next_blok db' = db_next_blok db"
  using assms(1)
proof (rule commit_revision_cases)
  fix row'
  assume "db_bloks db b = Some row'" "stays w b c row' v db db' \<or> grows w b c row' t msg v db db'"
  then show ?thesis using assms(2) by (auto simp: stays_def grows_def Let_def with_revision_fields projected_def)
qed

text \<open>
  C28. Creating a blok by a name that a blok made by a task has (its only bearer) makes no blok: it
  writes the new content onto the task's blok, which stays the task's and goes with it.
\<close>

theorem create_takes_task_blok:
  assumes "create_blok w i db = Inr (x, db')" "ci_origin i = None" "unprovided (\<lambda>r. bk_name r = ci_name i) db = [b]"
    "db_bloks db b = Some r" "bk_owner_task r = Some t"
  shows "x = b \<and> db_next_blok db' = db_next_blok db \<and> map_option bk_owner_task (db_bloks db' b) = Some (Some t)"
proof -
  obtain m db1 where module: "module_for (ci_module i) db = (m, db1)" by fastforce
  then obtain db2 c v msg where row: "update_or_create_blok (created_is i) (created_row i m) ((new_blok (ci_name i) m)\<lparr>bk_origin := ci_origin i\<rparr>) db1 = Inr (x, db2)"
    and commit: "commit_revision (blok_world.truncate w) x c None False None msg db2 = Inr (v, db')"
    using assms(1) by (auto simp: create_blok_def and_then_Inr Let_def split: prod.splits)
  have same: "db_bloks db1 = db_bloks db" "db_next_blok db1 = db_next_blok db"
    using module_for_same [OF module] by (simp_all add: same_rows_def)
  have "unprovided (created_is i) db1 = [b]"
    using assms(2,3) same by (simp add: unprovided_def created_is_def [abs_def])
  then have x: "x = b" and db2: "db_bloks db2 b = Some (created_row i m r)" "db_next_blok db2 = db_next_blok db"
    using row assms(4) same by (auto simp: update_or_create_blok_def)
  then show ?thesis
    using commit_owner [OF commit [unfolded x] db2(1)] assms(5) by (auto simp: created_row_def)
qed

end
