(* ===== verification/Blok_Examples.thy ===== *)
theory Blok_Examples
  imports Blok_Properties Checker_Facts
begin

text \<open>A small history: a blok is created, edited, and brought back to its first revision.\<close>

definition paper_digest :: "hashed_parts \<Rightarrow> string" where
  "paper_digest p = replicate (hp_module p) CHR ''m'' @ CHR '' '' # concat (or_nil (hp_catalogs p))"

text \<open>Nothing here has a tree, so a vocabulary without rows will do.\<close>

definition bare_vocabulary :: vocabulary where
  "bare_vocabulary =
     \<lparr>vocab = 2, data_roots = [], scoped_roots = [], function_namespaces = [], future_roots = [], reserved = [],
      tasks_segment = [], assets_segment = [], reserved_state_names = [], agent_fields = [], kinds = [], contexts = [],
      blok_roots = [], records = [], idle_task = [], function_table = [], operators = [], explicit_id = [],
      the_theme = \<lparr>colour_roles = [], status_roles = [], spectral_roles = [], colour_utilities = [], palette_colours = [],
        palette_role_hints = [], logo_pens = [], logo_paint_props = [], scene_paint_props = [],
        custom_variants = [], data_attributes = []\<rparr>,
      the_limits = \<lparr>logo_max_nodes = 0, logo_max_depth = 0, logo_max_path_data = 0, logo_max_foreach_items = 0,
        logo_path_data_props = []\<rparr>,
      base_version = 1, catalogs = [], bind_kinds = [], arg_kinds = [], diagnostics = []\<rparr>"

definition paper_world :: mutation_world where
  "paper_world =
     \<lparr>bw_vocabulary = bare_vocabulary, bw_externals = plain_externals, bw_specs = [], bw_float_text = (\<lambda>_. ''0.0''),
      bw_digest = paper_digest, bw_parse = (\<lambda>_. Inl (ValueError [])), bw_agents = Map.empty, bw_tasks = [], bw_dashboards = []\<rparr>"

lemma same_run: "a \<noteq> b \<Longrightarrow> replicate m a @ b # xs = replicate n a @ b # ys \<Longrightarrow> m = n"
proof (induction m arbitrary: n)
  case 0
  then show ?case by (cases n) auto
next
  case (Suc m)
  then show ?case by (cases n) auto
qed

lemma paper_modules: "modules_hashed (blok_world.truncate paper_world)"
  unfolding modules_hashed_def
proof (intro allI impI)
  fix p q
  assume "bw_digest (blok_world.truncate paper_world) p = bw_digest (blok_world.truncate paper_world) q"
  then show "hp_module p = hp_module q"
    by (intro same_run [of "CHR ''m''" "CHR '' ''"]) (simp_all add: blok_world.truncate_def paper_world_def paper_digest_def)
qed

definition panel_input :: create_input where
  "panel_input =
     \<lparr>ci_name = ''panel'', ci_dependencies = [], ci_description = None, ci_module = None, ci_components = None, ci_source = None,
      ci_catalogs = [], ci_locals = [], ci_demo = None, ci_queries = [], ci_subscriptions = [], ci_context = HTML,
      ci_for_model = None, ci_for_node = None, ci_origin = None, ci_origin_hash = None\<rparr>"

definition ui_edit :: edit_input where
  "ui_edit =
     \<lparr>ed_blok = Some 1, ed_materialized = None, ed_base = Some 1,
      ed_parts = \<lparr>ep_source = None, ep_components = None, ep_module = None, ep_dependencies = None, ep_args = None,
        ep_catalogs = Some [''ui@1''], ep_locals = None, ep_demo = None, ep_queries = None, ep_subscriptions = None\<rparr>,
      ed_mappings = None, ed_message = None, ed_task = None, ed_dry_run = False\<rparr>"

definition panel_db :: blok_db where
  "panel_db = snd (projr (create_blok paper_world panel_input empty_bloks))"

definition edited_db :: blok_db where
  "edited_db = snd (projr (edit_blok paper_world ui_edit panel_db))"

lemma panel_runs:
  "(case create_blok paper_world panel_input empty_bloks of Inl _ \<Rightarrow> False | Inr (b, db) \<Rightarrow> b = 1)"
  by code_simp

lemma panel_created: "create_blok paper_world panel_input empty_bloks = Inr (1, panel_db)"
  using panel_runs
  by (cases "create_blok paper_world panel_input empty_bloks") (auto simp: panel_db_def)

lemma edit_runs:
  "(case edit_blok paper_world ui_edit panel_db of Inl _ \<Rightarrow> False | Inr (res, db) \<Rightarrow> er_applied res \<and> er_revision res = Some 2)"
  by code_simp

lemma panel_edited:
  "\<exists>res. edit_blok paper_world ui_edit panel_db = Inr (res, edited_db) \<and> er_applied res \<and> er_revision res = Some 2"
  using edit_runs
  by (cases "edit_blok paper_world ui_edit panel_db") (auto simp: edited_db_def)

lemma panel_reachable: "blok_reachable paper_world panel_db"
  by (rule blok_reachable.request [OF blok_reachable.start, where q = "Create panel_input"]) (simp add: panel_created)

lemma edited_reachable: "blok_reachable paper_world edited_db"
proof -
  obtain res where "edit_blok paper_world ui_edit panel_db = Inr (res, edited_db)" using panel_edited by blast
  then show ?thesis by (intro blok_reachable.request [OF panel_reachable, where q = "Edit ui_edit"]) simp
qed

theorem reachable_bloks_ok_witness:
  "bloks_ok (blok_world.truncate paper_world) edited_db \<and> length (revisions_of 1 edited_db) = 2"
proof
  show "bloks_ok (blok_world.truncate paper_world) edited_db"
    by (rule reachable_bloks_ok [OF edited_reachable paper_modules])
  show "length (revisions_of 1 edited_db) = 2" by code_simp
qed

lemma panel_ok: "bloks_ok (blok_world.truncate paper_world) panel_db"
  by (rule create_blok_keeps [OF panel_created bloks_ok_empty paper_modules])

lemma edited_ok: "bloks_ok (blok_world.truncate paper_world) edited_db"
  using panel_edited edit_blok_keeps [OF _ panel_ok paper_modules] by blast

definition other_edit :: edit_input where
  "other_edit = ui_edit\<lparr>ed_parts := (ed_parts ui_edit)\<lparr>ep_catalogs := Some [''scene@1'']\<rparr>\<rparr>"

theorem edit_not_lost_witness:
  "length (revisions_of 1 edited_db) = Suc (length (revisions_of 1 panel_db)) \<and>
   (\<exists>e. edit_blok paper_world other_edit edited_db = Inl e)"
proof -
  obtain res where edit: "edit_blok paper_world ui_edit panel_db = Inr (res, edited_db)" "er_applied res" "er_revision res = Some 2"
    using panel_edited by blast
  have "case db_bloks panel_db 1 of None \<Rightarrow> False | Some r \<Rightarrow> bk_app r = None" by code_simp
  then obtain r where r: "db_bloks panel_db 1 = Some r" "bk_app r = None" by (auto split: option.splits)
  have input: "ed_blok ui_edit = Some 1" "ed_blok other_edit = Some 1" "ed_base other_edit = ed_base ui_edit" "ed_base ui_edit = Some 1"
    by (simp_all add: ui_edit_def other_edit_def)
  from edit_not_lost [OF panel_ok edit(1) input(1) r edit(2) input(2,3), of paper_world] edit(3) input(4)
  show ?thesis by auto
qed

definition reverted_db :: blok_db where
  "reverted_db = snd (projr (revert_blok paper_world 1 1 2 None None edited_db))"

lemma revert_runs:
  "(case revert_blok paper_world 1 1 2 None None edited_db of Inl _ \<Rightarrow> False | Inr (v, db) \<Rightarrow> v = 3)"
  by code_simp

lemma panel_reverted: "revert_blok paper_world 1 1 2 None None edited_db = Inr (3, reverted_db)"
  using revert_runs by (cases "revert_blok paper_world 1 1 2 None None edited_db") (auto simp: reverted_db_def)

theorem revert_restores_witness:
  "\<exists>row earlier. db_bloks reverted_db 1 = Some row \<and> find_revision 1 edited_db = Some earlier \<and> shows_revision row earlier \<and>
     bk_head row = Some 3"
proof -
  have "case find_revision 1 edited_db of None \<Rightarrow> False | Some x \<Rightarrow> True" by code_simp
  then obtain earlier where earlier: "find_revision 1 edited_db = Some earlier" by (auto split: option.splits)
  from revert_restores [OF edited_ok panel_reverted earlier] earlier show ?thesis by auto
qed

section \<open>Bindings\<close>

definition stage_dependency :: blok_dependency where
  "stage_dependency =
     \<lparr>dep_key = ''stage'', action_dependencies = None, state_dependencies = None, fd_app = None, fd_version = None, fd_name = None,
      fd_description = None, fd_optional = False, fd_auto_resolvable = False, fd_mutually_exclusive_keys = None,
      fd_min_viable_instances = None, fd_max_viable_instances = None, fd_prefered_instances = None\<rparr>"

text \<open>A binding that lost its dependency when its key was removed.\<close>

definition unbound_db :: blok_db where
  "unbound_db =
     empty_bloks\<lparr>db_materializations := [1 \<mapsto> \<lparr>ml_blok = 1, ml_name = ''panel'', ml_description = '''', ml_declared_by = None,
                   ml_pinned = None, ml_scope = ''DASHBOARD''\<rparr>],
                 db_mappings := [\<lparr>mp_materialization = 1, mp_key = ''stage'', mp_agent = 7, mp_dependency = None\<rparr>]\<rparr>"

theorem bindings_follow_witness:
  "db_mappings (sync_blok_dependencies 1 [stage_dependency] unbound_db) =
     [\<lparr>mp_materialization = 1, mp_key = ''stage'', mp_agent = 7, mp_dependency = Some 1\<rparr>]"
proof -
  have ok: "table_ok (db_dependencies unbound_db)" "bindings_ok unbound_db"
    by (simp_all add: unbound_db_def empty_bloks_def bindings_ok_def)
  have pk: "row_pk (1, ''stage'') (db_dependencies (sync_blok_dependencies 1 [stage_dependency] unbound_db)) = Some 1"
    by code_simp
  show ?thesis
    using bindings_follow [OF ok refl, of 1 "[stage_dependency]"] pk
    by (simp add: unbound_db_def of_blok_def stage_dependency_def)
qed

section \<open>A task's blok\<close>

definition asked_db :: blok_db where
  "asked_db = takt_writes ((new_blok ''panel'' 1)\<lparr>bk_owner_task := Some 5\<rparr>) [] empty_bloks"

definition taken_db :: blok_db where
  "taken_db = snd (projr (create_blok paper_world panel_input asked_db))"

lemma taken_runs: "(case create_blok paper_world panel_input asked_db of Inl _ \<Rightarrow> False | Inr (b, db) \<Rightarrow> b = 1)"
  by code_simp

theorem create_takes_task_blok_witness:
  "create_blok paper_world panel_input asked_db = Inr (1, taken_db) \<and> map_option bk_owner_task (db_bloks taken_db 1) = Some (Some 5)"
proof -
  have run: "create_blok paper_world panel_input asked_db = Inr (1, taken_db)"
    using taken_runs by (cases "create_blok paper_world panel_input asked_db") (auto simp: taken_db_def)
  have named: "unprovided (\<lambda>r. bk_name r = ci_name panel_input) asked_db = [1]" by code_simp
  have "case db_bloks asked_db 1 of None \<Rightarrow> False | Some r \<Rightarrow> bk_owner_task r = Some 5" by code_simp
  then obtain r where r: "db_bloks asked_db 1 = Some r" "bk_owner_task r = Some 5" by (auto split: option.splits)
  have "ci_origin panel_input = None" by (simp add: panel_input_def)
  from create_takes_task_blok [OF run this named r] run show ?thesis by simp
qed

end
