(* ===== verification/Images.thy ===== *)
theory Images
  imports Prelude "HOL-Library.Word"
begin

unbundle bit_operations_syntax

text \<open>
  \<open>src/facade/image_validation.py\<close>: the header of a PNG, JPEG or WebP file and the limits an image is held
  to. A file is a list of bytes (\<open>8 word\<close>); \<open>struct.unpack\<close> is modelled with its error, raised when the
  slice it is given has not the size of the format, so that the guards of the code are seen to
  suffice. SHA-256 is a parameter.
\<close>

datatype image_error = Struct_Error | Image_Refused string

type_synonym bytes = "8 word list"

section \<open>Reading bytes\<close>

definition byte_slice :: "nat \<Rightarrow> nat \<Rightarrow> 'a list \<Rightarrow> 'a list" where
  "byte_slice lo hi xs = take (hi - lo) (drop lo xs)"

text \<open>\<open>int.from_bytes\<close>, big- and little-endian.\<close>

definition from_big :: "bytes \<Rightarrow> nat" where
  "from_big bs = foldl (\<lambda>n b. n * 256 + unat b) 0 bs"

definition from_little :: "bytes \<Rightarrow> nat" where
  "from_little bs = from_big (rev bs)"

text \<open>\<open>struct.unpack\<close> of one number, and of two of the same width \<open>w\<close>.\<close>

definition unpack_one :: "(bytes \<Rightarrow> nat) \<Rightarrow> nat \<Rightarrow> bytes \<Rightarrow> image_error + nat" where
  "unpack_one order w bs = (if length bs = w then Inr (order bs) else Inl Struct_Error)"

definition unpack_two :: "(bytes \<Rightarrow> nat) \<Rightarrow> nat \<Rightarrow> bytes \<Rightarrow> image_error + nat \<times> nat" where
  "unpack_two order w bs =
     (if length bs = 2 * w then Inr (order (take w bs), order (drop w bs)) else Inl Struct_Error)"

section \<open>Headers\<close>

type_synonym header = "string \<times> nat \<times> nat"

definition frame_marker :: "8 word \<Rightarrow> bool" where
  "frame_marker m \<longleftrightarrow> 0xC0 \<le> m \<and> m \<le> 0xCF \<and> m \<notin> {0xC4, 0xC8, 0xCC}"

text \<open>The loop over the segments of a JPEG file, up to its first frame.\<close>

function jpeg_frame :: "bytes \<Rightarrow> nat \<Rightarrow> image_error + header option" where
  "jpeg_frame data offset =
     (if offset + 9 < length data then
        if data ! offset \<noteq> 0xFF then Inr None
        else and_then (unpack_one from_big 2 (byte_slice (offset + 2) (offset + 4) data)) (\<lambda>len.
          if frame_marker (data ! (offset + 1)) then
            and_then (unpack_two from_big 2 (byte_slice (offset + 5) (offset + 9) data)) (\<lambda>(height, width).
            Inr (Some (''jpeg'', width, height)))
          else jpeg_frame data (offset + (2 + len)))
      else Inr None)"
  by auto
termination by (relation "measure (\<lambda>(data, offset). length data - offset)") auto

declare jpeg_frame.simps [simp del]

definition ascii :: "string \<Rightarrow> bytes" where
  "ascii s = map (\<lambda>c. of_nat (of_char c)) s"

definition png_signature :: bytes where
  "png_signature = [0x89, 0x50, 0x4E, 0x47, 0x0D, 0x0A, 0x1A, 0x0A]"

definition image_header :: "bytes \<Rightarrow> image_error + header option" where
  "image_header data =
     (if 24 \<le> length data \<and> byte_slice 0 8 data = png_signature then
        and_then (unpack_two from_big 4 (byte_slice 16 24 data)) (\<lambda>(width, height). Inr (Some (''png'', width, height)))
      else if 4 \<le> length data \<and> byte_slice 0 2 data = [0xFF, 0xD8] then jpeg_frame data 2
      else if 30 \<le> length data \<and> byte_slice 0 4 data = ascii ''RIFF'' \<and> byte_slice 8 12 data = ascii ''WEBP'' then
        let chunk = byte_slice 12 16 data in
        if chunk = ascii ''VP8X'' then
          Inr (Some (''webp'', 1 + from_little (byte_slice 24 27 data), 1 + from_little (byte_slice 27 30 data)))
        else if chunk = ascii ''VP8 '' then
          and_then (unpack_two from_little 2 (byte_slice 26 30 data)) (\<lambda>(width, height).
          Inr (Some (''webp'', width AND 0x3FFF, height AND 0x3FFF)))
        else if chunk = ascii ''VP8L'' then
          and_then (unpack_one from_little 4 (byte_slice 21 25 data)) (\<lambda>bits.
          Inr (Some (''webp'', 1 + (bits AND 0x3FFF), 1 + (drop_bit 14 bits AND 0x3FFF))))
        else Inr None
      else Inr None)"

section \<open>The limits\<close>

record image_policy =
  ip_max_size :: nat
  ip_max_side :: nat

definition default_policy :: image_policy where
  "default_policy = \<lparr>ip_max_size = 10 * 1024 * 1024, ip_max_side = 8192\<rparr>"

record image_report =
  ir_ref :: string
  ir_size :: nat
  ir_format :: string
  ir_width :: nat
  ir_height :: nat

definition validate_image ::
  "(bytes \<Rightarrow> string) \<Rightarrow> bytes \<Rightarrow> string \<Rightarrow> image_policy option \<Rightarrow> image_error + image_report" where
  "validate_image sha256 data ref given_policy =
     (let policy = (case given_policy of None \<Rightarrow> default_policy | Some p \<Rightarrow> p) in
      if ip_max_size policy < length data then Inl (Image_Refused ''too_large'')
      else if ''sha256:'' @ sha256 data \<noteq> ref then Inl (Image_Refused ''hash_mismatch'')
      else and_then (image_header data) (\<lambda>header.
        case header of
          None \<Rightarrow> Inl (Image_Refused ''bad_header'')
        | Some (fmt, width, height) \<Rightarrow>
            if \<not> (0 < width \<and> width \<le> ip_max_side policy \<and> 0 < height \<and> height \<le> ip_max_side policy)
            then Inl (Image_Refused ''over_budget'')
            else Inr \<lparr>ir_ref = ref, ir_size = length data, ir_format = fmt, ir_width = width, ir_height = height\<rparr>))"

section \<open>What reading bytes gives\<close>

lemma length_byte_slice [simp]: "hi \<le> length xs \<Longrightarrow> length (byte_slice lo hi xs) = hi - lo"
  by (simp add: byte_slice_def)

lemma byte_slice_append [simp]: "hi \<le> length xs \<Longrightarrow> byte_slice lo hi (xs @ ys) = byte_slice lo hi xs"
  by (cases "lo \<le> hi") (simp_all add: byte_slice_def)

lemma from_big_snoc [simp]: "from_big (bs @ [b]) = from_big bs * 256 + unat b"
  by (simp add: from_big_def)

lemma from_big_Nil [simp]: "from_big [] = 0"
  by (simp add: from_big_def)

lemma from_big_bound: "from_big bs < 256 ^ length bs"
proof (induction bs rule: rev_induct)
  case (snoc b bs)
  have "unat b < 256" using unsigned_less [of b] by simp
  with snoc show ?case by simp
qed simp

lemma from_little_bound: "from_little bs < 256 ^ length bs"
  using from_big_bound [of "rev bs"] by (simp add: from_little_def)

lemma two_bytes: "b \<le> length data \<Longrightarrow> b = a + 2 \<Longrightarrow> from_big (byte_slice a b data) < 65536"
  using from_big_bound [of "byte_slice a b data"] by simp

lemmas unpack_simps = unpack_one_def unpack_two_def

text \<open>Inside its guard the loop reads within the file.\<close>

lemma jpeg_frame_stop: "\<not> offset + 9 < length data \<Longrightarrow> jpeg_frame data offset = Inr None"
  by (simp add: jpeg_frame.simps)

lemma jpeg_frame_step:
  assumes "offset + 9 < length data"
  shows "jpeg_frame data offset =
    (if data ! offset \<noteq> 0xFF then Inr None
     else if frame_marker (data ! (offset + 1)) then
       Inr (Some (''jpeg'', from_big (byte_slice (offset + 7) (offset + 9) data), from_big (byte_slice (offset + 5) (offset + 7) data)))
     else jpeg_frame data (offset + (2 + from_big (byte_slice (offset + 2) (offset + 4) data))))"
proof -
  have "take 2 (byte_slice (offset + 5) (offset + 9) data) = byte_slice (offset + 5) (offset + 7) data"
    "drop 2 (byte_slice (offset + 5) (offset + 9) data) = byte_slice (offset + 7) (offset + 9) data"
    by (simp_all add: byte_slice_def drop_take add.commute)
  with assms show ?thesis by (subst jpeg_frame.simps) (simp add: unpack_simps)
qed

lemma jpeg_frame_format: "jpeg_frame data offset = Inr (Some (fmt, w, h)) \<Longrightarrow> fmt = ''jpeg'' \<and> w < 2 ^ 16 \<and> h < 2 ^ 16"
proof (induction data offset rule: jpeg_frame.induct)
  case (1 data offset)
  show ?case
  proof (cases "offset + 9 < length data")
    case True
    with 1 show ?thesis
      by (auto simp: jpeg_frame_step two_bytes unpack_simps split: if_splits)
  next
    case False
    with 1(2) show ?thesis by (simp add: jpeg_frame_stop)
  qed
qed

lemma jpeg_frame_total: "\<exists>h. jpeg_frame data offset = Inr h"
proof (induction data offset rule: jpeg_frame.induct)
  case (1 data offset)
  then show ?case
    by (cases "offset + 9 < length data") (auto simp: jpeg_frame_step jpeg_frame_stop unpack_simps)
qed

lemma jpeg_frame_append: "jpeg_frame data offset = Inr (Some r) \<Longrightarrow> jpeg_frame (data @ rest) offset = Inr (Some r)"
proof (induction data offset rule: jpeg_frame.induct)
  case (1 data offset)
  then show ?case
    by (cases "offset + 9 < length data")
      (auto simp: jpeg_frame_step jpeg_frame_stop nth_append unpack_simps split: if_splits)
qed


text \<open>What the header of each format is.\<close>

lemma png_header:
  "24 \<le> length data \<Longrightarrow> byte_slice 0 8 data = png_signature \<Longrightarrow>
   image_header data = Inr (Some (''png'', from_big (byte_slice 16 20 data), from_big (byte_slice 20 24 data)))"
  by (simp add: image_header_def unpack_simps) (simp add: byte_slice_def drop_take)

lemma png_first: "byte_slice 0 8 data = png_signature \<Longrightarrow> take 2 data = [0x89, 0x50]"
  by (auto simp: byte_slice_def png_signature_def dest: arg_cong [where f = "take 2"])

lemma jpeg_header:
  assumes "byte_slice 0 2 data = [0xFF, 0xD8]" "4 \<le> length data"
  shows "image_header data = jpeg_frame data 2"
proof -
  have "byte_slice 0 8 data \<noteq> png_signature"
    using png_first [of data] assms(1) by (auto simp: byte_slice_def)
  with assms show ?thesis by (simp add: image_header_def)
qed

definition webp_header :: "bytes \<Rightarrow> header option" where
  "webp_header data =
     (let chunk = byte_slice 12 16 data in
      if chunk = ascii ''VP8X'' then
        Some (''webp'', 1 + from_little (byte_slice 24 27 data), 1 + from_little (byte_slice 27 30 data))
      else if chunk = ascii ''VP8 '' then
        Some (''webp'', from_little (byte_slice 26 28 data) AND 0x3FFF, from_little (byte_slice 28 30 data) AND 0x3FFF)
      else if chunk = ascii ''VP8L'' then
        Some (''webp'', 1 + (from_little (byte_slice 21 25 data) AND 0x3FFF),
              1 + (drop_bit 14 (from_little (byte_slice 21 25 data)) AND 0x3FFF))
      else None)"

lemma riff_header:
  assumes "30 \<le> length data" "byte_slice 0 4 data = ascii ''RIFF''" "byte_slice 8 12 data = ascii ''WEBP''"
  shows "image_header data = Inr (webp_header data)"
proof -
  have "take 2 (byte_slice 0 4 data) = take 2 data" by (simp add: byte_slice_def)
  then have "take 2 data = [0x52, 0x49]" using assms(2) by (simp add: ascii_def)
  then have "byte_slice 0 2 data \<noteq> [0xFF, 0xD8]" "byte_slice 0 8 data \<noteq> png_signature"
    using png_first [of data] by (auto simp: byte_slice_def)
  moreover have "take 2 (byte_slice 26 30 data) = byte_slice 26 28 data" "drop 2 (byte_slice 26 30 data) = byte_slice 28 30 data"
    by (simp_all add: byte_slice_def drop_take)
  ultimately show ?thesis
    using assms by (simp add: image_header_def unpack_simps webp_header_def Let_def)
qed

lemma no_header:
  assumes "24 \<le> length data \<longrightarrow> byte_slice 0 8 data \<noteq> png_signature"
    and "4 \<le> length data \<longrightarrow> byte_slice 0 2 data \<noteq> [0xFF, 0xD8]"
    and "30 \<le> length data \<longrightarrow> byte_slice 0 4 data \<noteq> ascii ''RIFF'' \<or> byte_slice 8 12 data \<noteq> ascii ''WEBP''"
  shows "image_header data = Inr None"
  using assms by (auto simp: image_header_def)

lemma header_cases:
  obtains (png) "24 \<le> length data" "byte_slice 0 8 data = png_signature"
  | (jpeg) "4 \<le> length data" "byte_slice 0 2 data = [0xFF, 0xD8]"
  | (webp) "30 \<le> length data" "byte_slice 0 4 data = ascii ''RIFF''" "byte_slice 8 12 data = ascii ''WEBP''"
  | (other) "image_header data = Inr None"
  using no_header by blast

lemma image_header_total: "\<exists>h. image_header data = Inr h"
  by (cases data rule: header_cases) (auto simp: png_header jpeg_header riff_header jpeg_frame_total)

text \<open>
  Only the header is read: a file that is recognised is recognised the same whatever follows it.
\<close>

lemma image_header_prefix:
  assumes "image_header data = Inr (Some h)"
  shows "image_header (data @ rest) = Inr (Some h)"
proof (cases data rule: header_cases)
  case png
  with assms show ?thesis by (simp add: png_header)
next
  case jpeg
  then show ?thesis using assms jpeg_frame_append [of data 2 h rest] by (simp add: jpeg_header)
next
  case webp
  then have "webp_header (data @ rest) = webp_header data"
    by (simp add: webp_header_def cong: if_cong)
  with webp show ?thesis using assms by (simp add: riff_header)
next
  case other
  with assms show ?thesis by simp
qed

lemma and_mask_nat: "(n :: nat) AND 0x3FFF = n mod 0x4000"
  using take_bit_eq_mask [of 14 n] by (simp add: mask_eq_exp_minus_1 take_bit_eq_mod)

lemma header_bounds:
  assumes "image_header data = Inr (Some (fmt, w, h))"
  shows "fmt = ''png'' \<and> w < 2 ^ 32 \<and> h < 2 ^ 32 \<or> fmt = ''jpeg'' \<and> w < 2 ^ 16 \<and> h < 2 ^ 16 \<or>
    fmt = ''webp'' \<and> w \<le> 2 ^ 24 \<and> h \<le> 2 ^ 24"
proof (cases data rule: header_cases)
  case png
  then show ?thesis using assms from_big_bound [of "byte_slice 16 20 data"] from_big_bound [of "byte_slice 20 24 data"]
    by (simp add: png_header)
next
  case jpeg
  then show ?thesis using assms jpeg_frame_format by (auto simp: jpeg_header)
next
  case webp
  have mask: "(n :: nat) AND 0x3FFF \<le> 2 ^ 24" "1 + ((n :: nat) AND 0x3FFF) \<le> 2 ^ 24" for n
    using mod_less_divisor [of 16384 n] by (simp_all add: and_mask_nat)
  have extent: "1 + from_little (byte_slice 24 27 data) \<le> 2 ^ 24" "1 + from_little (byte_slice 27 30 data) \<le> 2 ^ 24"
    using from_little_bound [of "byte_slice 24 27 data"] from_little_bound [of "byte_slice 27 30 data"] webp(1) by simp_all
  have "webp_header data = Some (fmt, w, h)" using webp assms by (simp add: riff_header)
  then have "fmt = ''webp'' \<and> w \<le> 2 ^ 24 \<and> h \<le> 2 ^ 24"
    unfolding webp_header_def Let_def using mask extent by (auto split: if_split_asm)
  then show ?thesis by simp
next
  case other
  with assms show ?thesis by simp
qed


section \<open>Files as their formats lay them out\<close>

text \<open>
  The files the formats prescribe, of given sides: what the reader is meant to read. Every byte that
  does not say the sides is free: the segments of a JPEG file before its first frame, the precision and
  the components of that frame, the flags of an extended WebP, the frame tag and the two scale bits
  above each side of a lossy one, the four bits above the sides of a lossless one (its alpha and version
  bits), what its chunk holds after the sides and the chunks that follow.

  Two things are left out, as the reader does not read them. The JPEG format lets a marker be preceded
  by fill bytes (\<open>0xFF\<close>) and has markers without a length; here every segment starts with its marker
  and has a length. A lossless WebP of fewer than 30 bytes is not read either.
\<close>

fun to_big :: "nat \<Rightarrow> nat \<Rightarrow> bytes" where
  "to_big 0 n = []"
| "to_big (Suc w) n = to_big w (n div 256) @ [of_nat n]"

definition to_little :: "nat \<Rightarrow> nat \<Rightarrow> bytes" where
  "to_little w n = rev (to_big w n)"

datatype image_file =
    Png nat nat
  | Jpeg "(8 word \<times> bytes) list" "8 word" "8 word" bytes nat nat
  | Vp8x bytes nat nat bytes
  | Vp8 bytes nat nat nat nat bytes bytes
  | Vp8l nat nat nat bytes bytes

definition jpeg_segment :: "8 word \<times> bytes \<Rightarrow> bytes" where
  "jpeg_segment = (\<lambda>(m, payload). [0xFF, m] @ to_big 2 (length payload + 2) @ payload)"

text \<open>The first frame: its sample precision, its sides and its components, of three bytes each.\<close>

definition jpeg_start :: "8 word \<Rightarrow> 8 word \<Rightarrow> bytes \<Rightarrow> nat \<Rightarrow> nat \<Rightarrow> bytes" where
  "jpeg_start m precision parts w h =
     [0xFF, m] @ to_big 2 (8 + length parts) @ [precision] @ to_big 2 h @ to_big 2 w @ [of_nat (length parts div 3)] @ parts"

definition riff :: "string \<Rightarrow> bytes \<Rightarrow> bytes \<Rightarrow> bytes" where
  "riff chunk body following = ascii ''RIFF'' @ to_little 4 (length body + length following + 12) @ ascii ''WEBP'' @
     ascii chunk @ to_little 4 (length body) @ body @ following"

fun encoded :: "image_file \<Rightarrow> bytes" where
  "encoded (Png w h) = png_signature @ to_big 4 13 @ ascii ''IHDR'' @ to_big 4 w @ to_big 4 h"
| "encoded (Jpeg segments m precision parts w h) =
     [0xFF, 0xD8] @ concat (map jpeg_segment segments) @ jpeg_start m precision parts w h"
| "encoded (Vp8x flags w h following) = riff ''VP8X'' (flags @ to_little 3 (w - 1) @ to_little 3 (h - 1)) following"
| "encoded (Vp8 tag wide high w h picture following) =
     riff ''VP8 '' (tag @ [0x9D, 0x01, 0x2A] @ to_little 2 (wide * 2 ^ 14 + w) @ to_little 2 (high * 2 ^ 14 + h) @ picture) following"
| "encoded (Vp8l upper w h picture following) =
     riff ''VP8L'' ([0x2F] @ to_little 4 (upper * 2 ^ 28 + (h - 1) * 2 ^ 14 + (w - 1)) @ picture) following"

fun image_ok :: "image_file \<Rightarrow> bool" where
  "image_ok (Png w h) \<longleftrightarrow> w < 2 ^ 32 \<and> h < 2 ^ 32"
| "image_ok (Jpeg segments m precision parts w h) \<longleftrightarrow> w < 2 ^ 16 \<and> h < 2 ^ 16 \<and> frame_marker m \<and>
     list_all (\<lambda>(m', payload). \<not> frame_marker m' \<and> length payload + 2 < 2 ^ 16) segments"
| "image_ok (Vp8x flags w h following) \<longleftrightarrow> length flags = 4 \<and> 0 < w \<and> w \<le> 2 ^ 24 \<and> 0 < h \<and> h \<le> 2 ^ 24"
| "image_ok (Vp8 tag wide high w h picture following) \<longleftrightarrow>
     length tag = 3 \<and> wide < 4 \<and> high < 4 \<and> w < 2 ^ 14 \<and> h < 2 ^ 14"
| "image_ok (Vp8l upper w h picture following) \<longleftrightarrow> upper < 2 ^ 4 \<and> 0 < w \<and> w \<le> 2 ^ 14 \<and> 0 < h \<and> h \<le> 2 ^ 14 \<and>
     5 \<le> length (picture @ following)"

fun sides_of :: "image_file \<Rightarrow> header" where
  "sides_of (Png w h) = (''png'', w, h)"
| "sides_of (Jpeg segments m precision parts w h) = (''jpeg'', w, h)"
| "sides_of (Vp8x flags w h following) = (''webp'', w, h)"
| "sides_of (Vp8 tag wide high w h picture following) = (''webp'', w, h)"
| "sides_of (Vp8l upper w h picture following) = (''webp'', w, h)"

lemma length_to_big [simp]: "length (to_big w n) = w" "length (to_little w n) = w"
  by (induction w arbitrary: n) (simp_all add: to_little_def)

lemma from_to_big: "n < 256 ^ w \<Longrightarrow> from_big (to_big w n) = n"
proof (induction w arbitrary: n)
  case (Suc w)
  then have "n div 256 < 256 ^ w" by (simp add: less_mult_imp_div_less mult.commute)
  with Suc.IH show ?case by (simp add: unat_of_nat take_bit_eq_mod)
qed simp

lemma from_to_little: "n < 256 ^ w \<Longrightarrow> from_little (to_little w n) = n"
  by (simp add: from_little_def to_little_def from_to_big)

lemma byte_slice_at: "data = xs @ ys @ zs \<Longrightarrow> lo = length xs \<Longrightarrow> hi = lo + length ys \<Longrightarrow> byte_slice lo hi data = ys"
  by (simp add: byte_slice_def)

lemma jpeg_frame_start:
  assumes "frame_marker m" "w < 2 ^ 16" "h < 2 ^ 16"
  shows "jpeg_frame (before @ jpeg_start m precision parts w h @ rest) (length before) = Inr (Some (''jpeg'', w, h))"
proof -
  let ?data = "before @ jpeg_start m precision parts w h @ rest" and ?size = "to_big 2 (8 + length parts)"
    and ?after = "[of_nat (length parts div 3)] @ parts @ rest"
  have "byte_slice (length before + 5) (length before + 7) ?data = to_big 2 h"
    by (rule byte_slice_at [of _ "before @ [0xFF, m] @ ?size @ [precision]" _ "to_big 2 w @ ?after"])
      (simp_all add: jpeg_start_def)
  moreover have "byte_slice (length before + 7) (length before + 9) ?data = to_big 2 w"
    by (rule byte_slice_at [of _ "before @ [0xFF, m] @ ?size @ [precision] @ to_big 2 h" _ ?after])
      (simp_all add: jpeg_start_def)
  moreover have "?data ! length before = 0xFF" "?data ! (length before + 1) = m"
    by (simp_all add: jpeg_start_def nth_append)
  moreover have "length before + 9 < length ?data" by (simp add: jpeg_start_def)
  ultimately show ?thesis using assms by (subst jpeg_frame_step) (simp_all add: from_to_big)
qed

lemma jpeg_frame_segment:
  assumes "\<not> frame_marker m" "length payload + 2 < 2 ^ 16" "10 \<le> length rest"
  shows "jpeg_frame (before @ jpeg_segment (m, payload) @ rest) (length before) =
    jpeg_frame ((before @ jpeg_segment (m, payload)) @ rest) (length (before @ jpeg_segment (m, payload)))"
proof -
  let ?data = "before @ jpeg_segment (m, payload) @ rest"
  have "byte_slice (length before + 2) (length before + 4) ?data = to_big 2 (length payload + 2)"
    by (rule byte_slice_at [of _ "before @ [0xFF, m]" _ "payload @ rest"]) (simp_all add: jpeg_segment_def)
  moreover have "?data ! length before = 0xFF" "?data ! (length before + 1) = m"
    by (simp_all add: jpeg_segment_def nth_append)
  moreover have "length before + 9 < length ?data" using assms by (simp add: jpeg_segment_def)
  ultimately show ?thesis using assms
    by (subst jpeg_frame_step) (simp_all add: from_to_big jpeg_segment_def add.assoc)
qed

lemma jpeg_frame_segments:
  assumes "list_all (\<lambda>(m', payload). \<not> frame_marker m' \<and> length payload + 2 < 2 ^ 16) segments"
    "frame_marker m" "w < 2 ^ 16" "h < 2 ^ 16"
  shows "jpeg_frame (before @ concat (map jpeg_segment segments) @ jpeg_start m precision parts w h @ rest) (length before) =
    Inr (Some (''jpeg'', w, h))"
  using assms(1)
proof (induction segments arbitrary: before)
  case Nil
  show ?case using jpeg_frame_start [OF assms(2-4)] by simp
next
  case (Cons s segments)
  obtain m' payload where s: "s = (m', payload)" by fastforce
  let ?rest = "concat (map jpeg_segment segments) @ jpeg_start m precision parts w h @ rest"
  have "10 \<le> length ?rest" by (simp add: jpeg_start_def)
  then have "jpeg_frame (before @ jpeg_segment s @ ?rest) (length before) =
      jpeg_frame ((before @ jpeg_segment s) @ ?rest) (length (before @ jpeg_segment s))"
    using Cons.prems jpeg_frame_segment [of m' payload ?rest before] by (simp add: s)
  with Cons.IH [of "before @ jpeg_segment s"] Cons.prems show ?case by simp
qed


lemma riff_parts:
  assumes "length (ascii chunk) = 4" "10 \<le> length (body @ following)"
  shows "30 \<le> length (riff chunk body following @ rest)" "byte_slice 0 4 (riff chunk body following @ rest) = ascii ''RIFF''"
    "byte_slice 8 12 (riff chunk body following @ rest) = ascii ''WEBP''"
    "byte_slice 12 16 (riff chunk body following @ rest) = ascii chunk"
    "20 \<le> lo \<Longrightarrow> byte_slice lo hi (riff chunk body following @ rest) = byte_slice (lo - 20) (hi - 20) (body @ following @ rest)"
proof -
  let ?data = "riff chunk body following @ rest" and ?size = "to_little 4 (length body + length following + 12)"
    and ?inner = "ascii chunk @ to_little 4 (length body) @ body @ following @ rest"
  have four: "length (ascii ''RIFF'') = 4" "length (ascii ''WEBP'') = 4" by (simp_all add: ascii_def)
  show "30 \<le> length ?data" using assms four by (simp add: riff_def)
  show "byte_slice 0 4 ?data = ascii ''RIFF''"
    by (rule byte_slice_at [of _ "[]" _ "?size @ ascii ''WEBP'' @ ?inner"]) (simp_all add: riff_def four)
  show "byte_slice 8 12 ?data = ascii ''WEBP''"
    by (rule byte_slice_at [of _ "ascii ''RIFF'' @ ?size" _ ?inner]) (simp_all add: riff_def four)
  show "byte_slice 12 16 ?data = ascii chunk"
    by (rule byte_slice_at [of _ "ascii ''RIFF'' @ ?size @ ascii ''WEBP''" _ "to_little 4 (length body) @ body @ following @ rest"])
      (simp_all add: riff_def four assms)
  show "byte_slice lo hi ?data = byte_slice (lo - 20) (hi - 20) (body @ following @ rest)" if "20 \<le> lo"
    using that four assms(1) by (simp add: byte_slice_def riff_def)
qed

lemma chunk_names: "ascii ''VP8 '' \<noteq> ascii ''VP8X''" "ascii ''VP8L'' \<noteq> ascii ''VP8X''" "ascii ''VP8L'' \<noteq> ascii ''VP8 ''"
  "length (ascii ''VP8X'') = 4" "length (ascii ''VP8 '') = 4" "length (ascii ''VP8L'') = 4"
  by (simp_all add: ascii_def)

text \<open>The sides, read back from where each format puts them.\<close>

lemma png_reads:
  assumes "image_ok (Png w h)"
  shows "image_header (encoded (Png w h) @ rest) = Inr (Some (''png'', w, h))"
proof -
  let ?data = "encoded (Png w h) @ rest" and ?head = "png_signature @ to_big 4 13 @ ascii ''IHDR''"
  have parts: "length png_signature = 8" "length (ascii ''IHDR'') = 4" by (simp_all add: png_signature_def ascii_def)
  have "byte_slice 16 20 ?data = to_big 4 w"
    by (rule byte_slice_at [of _ ?head _ "to_big 4 h @ rest"]) (simp_all add: parts)
  moreover have "byte_slice 20 24 ?data = to_big 4 h"
    by (rule byte_slice_at [of _ "?head @ to_big 4 w" _ rest]) (simp_all add: parts)
  moreover have "byte_slice 0 8 ?data = png_signature"
    by (rule byte_slice_at [of _ "[]" _ "to_big 4 13 @ ascii ''IHDR'' @ to_big 4 w @ to_big 4 h @ rest"])
      (simp_all add: parts)
  moreover have "24 \<le> length ?data" by (simp add: parts)
  ultimately show ?thesis using assms by (simp add: png_header from_to_big)
qed

lemma jpeg_reads:
  assumes "image_ok (Jpeg segments m precision parts w h)"
  shows "image_header (encoded (Jpeg segments m precision parts w h) @ rest) = Inr (Some (''jpeg'', w, h))"
proof -
  have "image_header (encoded (Jpeg segments m precision parts w h) @ rest) =
      jpeg_frame (encoded (Jpeg segments m precision parts w h) @ rest) 2"
    by (rule jpeg_header) (simp_all add: byte_slice_def jpeg_start_def)
  also have "\<dots> = Inr (Some (''jpeg'', w, h))"
    using jpeg_frame_segments [of segments m w h "[0xFF, 0xD8]" precision parts rest] assms by (simp add: numeral_2_eq_2)
  finally show ?thesis .
qed

lemma vp8x_reads:
  assumes "image_ok (Vp8x flags w h following)"
  shows "image_header (encoded (Vp8x flags w h following) @ rest) = Inr (Some (''webp'', w, h))"
proof -
  let ?body = "flags @ to_little 3 (w - 1) @ to_little 3 (h - 1)"
  have flags: "length flags = 4" using assms by simp
  note parts = riff_parts [where chunk = "''VP8X''" and body = ?body and following = following and rest = rest]
  have "byte_slice 4 7 (?body @ following @ rest) = to_little 3 (w - 1)"
    by (rule byte_slice_at [of _ flags _ "to_little 3 (h - 1) @ following @ rest"]) (simp_all add: flags)
  moreover have "byte_slice 7 10 (?body @ following @ rest) = to_little 3 (h - 1)"
    by (rule byte_slice_at [of _ "flags @ to_little 3 (w - 1)" _ "following @ rest"]) (simp_all add: flags)
  moreover have "w - 1 < 256 ^ 3" "h - 1 < 256 ^ 3" using assms by auto
  ultimately show ?thesis using assms parts
    by (simp add: flags riff_header webp_header_def chunk_names from_to_little Let_def)
qed

text \<open>The scale above a side of 14 bits is masked away.\<close>

lemma masked_side: "scale < 4 \<Longrightarrow> side < 2 ^ 14 \<Longrightarrow>
  from_little (to_little 2 (scale * 2 ^ 14 + side)) AND 0x3FFF = side"
  by (subst from_to_little) (simp_all add: and_mask_nat)

lemma vp8_reads:
  assumes "image_ok (Vp8 tag wide high w h picture following)"
  shows "image_header (encoded (Vp8 tag wide high w h picture following) @ rest) = Inr (Some (''webp'', w, h))"
proof -
  let ?w = "to_little 2 (wide * 2 ^ 14 + w)" and ?h = "to_little 2 (high * 2 ^ 14 + h)"
  let ?body = "tag @ [0x9D, 0x01, 0x2A] @ ?w @ ?h @ picture"
  have tag: "length tag = 3" using assms by simp
  note parts = riff_parts [where chunk = "''VP8 ''" and body = ?body and following = following and rest = rest]
  have "byte_slice 6 8 (?body @ following @ rest) = ?w"
    by (rule byte_slice_at [of _ "tag @ [0x9D, 0x01, 0x2A]" _ "?h @ picture @ following @ rest"]) (simp_all add: tag)
  moreover have "byte_slice 8 10 (?body @ following @ rest) = ?h"
    by (rule byte_slice_at [of _ "tag @ [0x9D, 0x01, 0x2A] @ ?w" _ "picture @ following @ rest"]) (simp_all add: tag)
  moreover have "from_little ?w AND 0x3FFF = w" "from_little ?h AND 0x3FFF = h"
    using assms masked_side [of wide w] masked_side [of high h] by simp_all
  ultimately show ?thesis using parts
    by (simp add: tag riff_header webp_header_def chunk_names Let_def)
qed

lemma vp8l_reads:
  assumes "image_ok (Vp8l upper w h picture following)"
  shows "image_header (encoded (Vp8l upper w h picture following) @ rest) = Inr (Some (''webp'', w, h))"
proof -
  obtain w' h' where sides: "w = Suc w'" "h = Suc h'" "w' < 2 ^ 14" "h' < 2 ^ 14"
    using assms by (cases w; cases h) (auto simp: Suc_le_eq)
  have upper: "upper < 16" and long: "5 \<le> length picture + length following" using assms by simp_all
  define bits where "bits = upper * 2 ^ 28 + h' * 2 ^ 14 + w'"
  let ?body = "[0x2F] @ to_little 4 bits @ picture"
  note parts = riff_parts [where chunk = "''VP8L''" and body = ?body and following = following and rest = rest]
  have "byte_slice 1 5 (?body @ following @ rest) = to_little 4 bits"
    by (rule byte_slice_at [of _ "[0x2F]" _ "picture @ following @ rest"]) simp_all
  moreover have "bits < 256 ^ 4" using sides(3,4) upper by (simp add: bits_def)
  moreover have "bits mod 2 ^ 14 = w'" "bits div 2 ^ 14 mod 2 ^ 14 = h'"
  proof -
    have "bits = w' + (h' + upper * 2 ^ 14) * 2 ^ 14" by (simp add: bits_def algebra_simps)
    then have "bits mod 2 ^ 14 = w'" "bits div 2 ^ 14 = h' + upper * 2 ^ 14"
      using sides(3) by (simp_all only: mod_mult_self1 div_mult_self1 mod_less div_less)
    with sides(4) show "bits mod 2 ^ 14 = w'" "bits div 2 ^ 14 mod 2 ^ 14 = h'" by simp_all
  qed
  ultimately have "image_header (riff ''VP8L'' ?body following @ rest) = Inr (Some (''webp'', w, h))"
    using parts long
    by (simp add: sides(1,2) riff_header webp_header_def chunk_names from_to_little Let_def and_mask_nat drop_bit_eq_div)
  moreover have "encoded (Vp8l upper w h picture following) = riff ''VP8L'' ?body following"
    by (simp add: sides(1,2) bits_def)
  ultimately show ?thesis by simp
qed

lemma encoded_header:
  assumes "image_ok img"
  shows "image_header (encoded img @ rest) = Inr (Some (sides_of img))"
  using assms png_reads jpeg_reads vp8x_reads vp8_reads vp8l_reads by (cases img) simp_all

text \<open>
  C31. A file laid out as its format prescribes is read as its format with its sides, whatever follows: a
  PNG; a lossy WebP with any frame tag and scale bits; a lossless one of at least 30 bytes with any alpha
  and version bits; an extended one with any flags; and a JPEG whose first frame has any precision and
  components and comes after any segments, each with its marker and its length and no fill bytes before it.
\<close>

theorem image_header_reads:
  assumes "image_ok img"
  shows "image_header (encoded img @ rest) = Inr (Some (sides_of img))"
  using assms by (rule encoded_header)

lemma image_header_reads_witness:
  "image_header (encoded (Jpeg [(0xE0, [1, 2, 3])] 0xC2 8 [1, 0x11, 0] 640 480)) = Inr (Some (''jpeg'', 640, 480)) \<and>
   image_header (encoded (Vp8 [0x10, 2, 0] 3 1 640 480 [7] [])) = Inr (Some (''webp'', 640, 480))"
  using image_header_reads [of "Jpeg [(0xE0, [1, 2, 3])] 0xC2 8 [1, 0x11, 0] 640 480" "[]"]
    image_header_reads [of "Vp8 [0x10, 2, 0] 3 1 640 480 [7] []" "[]"]
  by (simp add: frame_marker_def)

text \<open>
  One fill byte, which the JPEG format allows before any marker, is read as the marker itself and the
  marker after it as the high byte of a length: a file of at most 48 KiB is refused as no image at all.
\<close>

lemma fill_byte_refused:
  assumes "length data \<le> 49152" "data = [0xFF, 0xD8, 0xFF] @ jpeg_start 0xC0 precision parts w h @ rest"
  shows "image_header data = Inr None"
proof -
  have "image_header data = jpeg_frame data 2"
    using assms(2) by (intro jpeg_header) (simp_all add: byte_slice_def jpeg_start_def)
  also have "\<dots> = Inr None"
  proof -
    have inside: "2 + 9 < length data" using assms(2) by (simp add: jpeg_start_def)
    have bytes: "data ! 2 = 0xFF" "data ! (2 + 1) = 0xFF" "data ! 4 = 0xC0"
      using assms(2) by (simp_all add: jpeg_start_def)
    then have "byte_slice 4 6 data = [0xC0, data ! 5]"
      using inside by (simp add: byte_slice_def take_Suc_conv_app_nth numeral_2_eq_2 hd_drop_conv_nth Cons_nth_drop_Suc [symmetric])
    then have "49152 \<le> from_big (byte_slice 4 6 data)" by (simp add: from_big_def)
    then have "\<not> 2 + (2 + from_big (byte_slice 4 6 data)) + 9 < length data" using assms(1) by simp
    moreover have "\<not> frame_marker 0xFF" by (simp add: frame_marker_def)
    ultimately show ?thesis using inside bytes by (simp add: jpeg_frame_step jpeg_frame_stop)
  qed
  finally show ?thesis .
qed

lemma fill_byte_example:
  "image_header ([0xFF, 0xD8, 0xFF] @ jpeg_start 0xC0 8 [1, 0x11, 0] 640 480) = Inr None"
  "image_header ([0xFF, 0xD8] @ jpeg_start 0xC0 8 [1, 0x11, 0] 640 480) = Inr (Some (''jpeg'', 640, 480))"
  using encoded_header [of "Jpeg [] 0xC0 8 [1, 0x11, 0] 640 480" "[]"] 
  by (simp_all add: fill_byte_refused [of _ 8 "[1, 0x11, 0]" 640 480 "[]"] jpeg_start_def frame_marker_def)

section \<open>What is accepted\<close>

text \<open>The outcome of a check, by what the header reader finds.\<close>

lemma validate_image_outcome:
  assumes "image_header data = Inr h"
  shows "validate_image sha256 data ref given_policy =
    (let policy = (case given_policy of None \<Rightarrow> default_policy | Some p \<Rightarrow> p) in
     if ip_max_size policy < length data then Inl (Image_Refused ''too_large'')
     else if ''sha256:'' @ sha256 data \<noteq> ref then Inl (Image_Refused ''hash_mismatch'')
     else case h of None \<Rightarrow> Inl (Image_Refused ''bad_header'')
       | Some (fmt, width, height) \<Rightarrow>
           if width \<in> {1..ip_max_side policy} \<and> height \<in> {1..ip_max_side policy}
           then Inr \<lparr>ir_ref = ref, ir_size = length data, ir_format = fmt, ir_width = width, ir_height = height\<rparr>
           else Inl (Image_Refused ''over_budget''))"
  by (auto simp: validate_image_def assms Let_def Suc_le_eq split: option.split)

lemma validate_image_accepts:
  "validate_image sha256 data ref given_policy = Inr report \<longleftrightarrow>
     (let policy = (case given_policy of None \<Rightarrow> default_policy | Some p \<Rightarrow> p) in
      length data \<le> ip_max_size policy \<and> ref = ''sha256:'' @ sha256 data \<and>
      image_header data = Inr (Some (ir_format report, ir_width report, ir_height report)) \<and>
      ir_width report \<in> {1..ip_max_side policy} \<and> ir_height report \<in> {1..ip_max_side policy} \<and>
      ir_ref report = ref \<and> ir_size report = length data)"
proof -
  obtain h where h: "image_header data = Inr h" using image_header_total by blast
  show ?thesis
    by (cases report) (auto simp: validate_image_outcome [OF h] h Let_def split: option.splits if_splits)
qed

text \<open>
  C32. An image is accepted exactly when it is within the size limit, hashes to its reference and has a
  header whose sides are positive and within the limit; the report says what the header says. Every
  refusal has one of four codes, and reading the header never fails with anything else.
\<close>

theorem validate_image_iff:
  "(validate_image sha256 data ref given_policy = Inr report \<longleftrightarrow>
     (let policy = (case given_policy of None \<Rightarrow> default_policy | Some p \<Rightarrow> p) in
      length data \<le> ip_max_size policy \<and> ref = ''sha256:'' @ sha256 data \<and>
      image_header data = Inr (Some (ir_format report, ir_width report, ir_height report)) \<and>
      ir_width report \<in> {1..ip_max_side policy} \<and> ir_height report \<in> {1..ip_max_side policy} \<and>
      ir_ref report = ref \<and> ir_size report = length data)) \<and>
   validate_image sha256 data ref given_policy \<in>
     range Inr \<union> Inl ` Image_Refused ` {''too_large'', ''hash_mismatch'', ''bad_header'', ''over_budget''}"
proof -
  obtain h where h: "image_header data = Inr h" using image_header_total by blast
  have "validate_image sha256 data ref given_policy \<in>
     range Inr \<union> Inl ` Image_Refused ` {''too_large'', ''hash_mismatch'', ''bad_header'', ''over_budget''}"
    by (auto simp: validate_image_outcome [OF h] Let_def split: option.split)
  then show ?thesis unfolding validate_image_accepts by blast
qed

end
