(* ===== verification/Assets.thy ===== *)
theory Assets
  imports Images
begin

text \<open>
  \<open>src/facade/asset_store.py\<close> and \<open>src/facade/mutations/asset_store.py\<close>: the files agents declare, verified
  and kept once per organization. The model is of one organization. A store (a row of the datalayer
  with the object it stands for) holds the bytes that were uploaded to it, if any; deleting it deletes
  the object and, by \<open>on_delete=CASCADE\<close>, the assets whose file it is. The datalayer's check of a
  reference and its reader of 3D models are parameters, as is SHA-256.
\<close>

datatype asset_error = Asset_Refused string | Reader_Failed image_error | Permission_Error | Asset_Does_Not_Exist

datatype asset_kind = Model_3d | Image

datatype store_kind = Kulisse_Store | Media_Store | Other_Store

datatype 'm asset_meta = Model_Meta 'm | Image_Meta string nat nat

record asset_store_row =
  st_kind :: store_kind
  st_content :: "bytes option"

text \<open>A name an agent gives one of its files: the agent is its client and its user.\<close>

record agent_asset_row =
  aa_client :: "nat option"
  aa_user :: nat
  aa_name :: string
  aa_kind :: asset_kind
  aa_ref :: string
  aa_size :: "int option"
  aa_source :: "string option"

record 'm asset_row =
  as_ref :: string
  as_kind :: asset_kind
  as_file :: nat
  as_size :: nat
  as_meta :: "'m asset_meta"

record 'm asset_db =
  ad_stores :: "nat \<Rightarrow> asset_store_row option"
  ad_next_store :: nat
  ad_assets :: "'m asset_row list"
  ad_declared :: "agent_asset_row list"

text \<open>
  What is not in the repository: SHA-256, \<open>check_ref\<close>, and the reader of a kulisse store, which refuses
  a file with a code or answers its reference, its size and what it found. With the deployment's limits.
\<close>

record 'm asset_world =
  aw_sha256 :: "bytes \<Rightarrow> string"
  aw_is_ref :: "string \<Rightarrow> bool"
  aw_model :: "bytes \<Rightarrow> string + (string \<times> nat \<times> 'm)"
  aw_model_max_size :: nat
  aw_image :: image_policy

record asset_caller =
  ac_client :: "nat option"
  ac_user :: nat
  ac_admin :: bool

definition policy_max_size :: "'m asset_world \<Rightarrow> asset_kind \<Rightarrow> nat" where
  "policy_max_size w k = (if k = Model_3d then aw_model_max_size w else ip_max_size (aw_image w))"

section \<open>Which file a caller may upload\<close>

definition check_ref :: "'m asset_world \<Rightarrow> string \<Rightarrow> asset_error + unit" where
  "check_ref w ref = raise_if (\<not> aw_is_ref w ref) (Asset_Refused ''bad_reference'')"

definition declared_asset :: "'m asset_world \<Rightarrow> nat option \<Rightarrow> nat \<Rightarrow> string \<Rightarrow> 'm asset_db \<Rightarrow> asset_error + agent_asset_row" where
  "declared_asset w client user ref db =
     and_then (check_ref w ref) (\<lambda>_.
     case find (\<lambda>a. aa_client a = client \<and> aa_user a = user \<and> aa_ref a = ref) (ad_declared db) of
       None \<Rightarrow> Inl (Asset_Refused ''not_declared'')
     | Some a \<Rightarrow> Inr a)"

definition sourced_asset :: "'m asset_world \<Rightarrow> string \<Rightarrow> 'm asset_db \<Rightarrow> asset_error + agent_asset_row" where
  "sourced_asset w ref db =
     and_then (check_ref w ref) (\<lambda>_.
     case find (\<lambda>a. aa_ref a = ref \<and> aa_source a \<noteq> None) (ad_declared db) of
       None \<Rightarrow> Inl (Asset_Refused ''not_sourced'')
     | Some a \<Rightarrow> Inr a)"

definition declared_for :: "'m asset_world \<Rightarrow> asset_caller \<Rightarrow> string \<Rightarrow> 'm asset_db \<Rightarrow> asset_error + agent_asset_row" where
  "declared_for w c ref db =
     (case declared_asset w (ac_client c) (ac_user c) ref db of
        Inr a \<Rightarrow> Inr a
      | Inl refusal \<Rightarrow>
          if refusal \<noteq> Asset_Refused ''not_declared'' \<or> \<not> ac_admin c then Inl refusal else sourced_asset w ref db)"

definition upload_size :: "'m asset_world \<Rightarrow> agent_asset_row \<Rightarrow> int option \<Rightarrow> asset_error + int" where
  "upload_size w declared measured =
     (case (case aa_size declared of Some n \<Rightarrow> Some n | None \<Rightarrow> measured) of
        None \<Rightarrow> Inl (Asset_Refused ''bad_header'')
      | Some n \<Rightarrow>
          if n \<le> 0 then Inl (Asset_Refused ''bad_header'')
          else if n > int (policy_max_size w (aa_kind declared)) then Inl (Asset_Refused ''too_large'')
          else Inr n)"

text \<open>A grant is for a new store of the file's kind, with nothing in it yet.\<close>

definition request_asset_upload ::
  "'m asset_world \<Rightarrow> asset_caller \<Rightarrow> string \<Rightarrow> int option \<Rightarrow> 'm asset_db \<Rightarrow> asset_error + nat \<times> 'm asset_db" where
  "request_asset_upload w c ref measured db =
     and_then (declared_for w c ref db) (\<lambda>declared.
     and_then (upload_size w declared measured) (\<lambda>_.
     let kind = (if aa_kind declared = Model_3d then Kulisse_Store else Media_Store);
         s = ad_next_store db
     in Inr (s, db\<lparr>ad_stores := (ad_stores db)(s \<mapsto> \<lparr>st_kind = kind, st_content = None\<rparr>), ad_next_store := Suc s\<rparr>)))"

section \<open>Checking what was uploaded\<close>

definition read_object :: "asset_store_row \<Rightarrow> nat \<Rightarrow> asset_error + bytes" where
  "read_object st limit =
     (case st_content st of
        None \<Rightarrow> Inl (Asset_Refused ''not_uploaded'')
      | Some bs \<Rightarrow> if limit < length bs then Inl (Asset_Refused ''too_large'') else Inr bs)"

definition finish_model :: "'m asset_world \<Rightarrow> asset_store_row \<Rightarrow> string \<Rightarrow> asset_error + nat \<times> 'm asset_meta" where
  "finish_model w st ref =
     (if st_kind st \<noteq> Kulisse_Store then Inl (Asset_Refused ''wrong_store'')
      else case st_content st of
        None \<Rightarrow> Inl (Asset_Refused ''not_uploaded'')
      | Some bs \<Rightarrow>
          (case aw_model w bs of
             Inl code \<Rightarrow> Inl (Asset_Refused code)
           | Inr (actual, n, found) \<Rightarrow>
               if actual \<noteq> ref then Inl (Asset_Refused ''hash_mismatch'') else Inr (n, Model_Meta found)))"

definition finish_image :: "'m asset_world \<Rightarrow> asset_store_row \<Rightarrow> string \<Rightarrow> asset_error + nat \<times> 'm asset_meta" where
  "finish_image w st ref =
     (if st_kind st \<noteq> Media_Store then Inl (Asset_Refused ''wrong_store'')
      else and_then (read_object st (ip_max_size (aw_image w))) (\<lambda>bs.
        case validate_image (aw_sha256 w) bs ref (Some (aw_image w)) of
          Inl (Image_Refused code) \<Rightarrow> Inl (Asset_Refused code)
        | Inl e \<Rightarrow> Inl (Reader_Failed e)
        | Inr r \<Rightarrow> Inr (ir_size r, Image_Meta (ir_format r) (ir_width r) (ir_height r))))"

definition finish_asset :: "'m asset_world \<Rightarrow> agent_asset_row \<Rightarrow> asset_store_row \<Rightarrow> asset_error + nat \<times> 'm asset_meta" where
  "finish_asset w declared st =
     (if aa_kind declared = Model_3d then finish_model w st (aa_ref declared) else finish_image w st (aa_ref declared))"

section \<open>Recording it\<close>

definition delete_store :: "nat \<Rightarrow> 'm asset_db \<Rightarrow> 'm asset_db" where
  "delete_store s db =
     db\<lparr>ad_stores := (ad_stores db)(s := None), ad_assets := filter (\<lambda>a. as_file a \<noteq> s) (ad_assets db)\<rparr>"

definition asset_of :: "string \<Rightarrow> 'm asset_db \<Rightarrow> 'm asset_row option" where
  "asset_of ref db = find (\<lambda>a. as_ref a = ref) (ad_assets db)"

text \<open>
  \<open>create_asset\<close> in its two halves, between which other requests may run: looking for the reference and
  checking the upload, and recording it. The insert fails when the reference was taken meanwhile (or
  the store deleted).
\<close>

definition start_create ::
  "'m asset_world \<Rightarrow> agent_asset_row \<Rightarrow> nat \<Rightarrow> asset_store_row \<Rightarrow> 'm asset_db \<Rightarrow>
   (asset_error + 'm asset_row + nat \<times> 'm asset_meta) \<times> 'm asset_db" where
  "start_create w declared s st db =
     (case asset_of (aa_ref declared) db of
        Some existing \<Rightarrow> (Inr (Inl existing), if as_file existing \<noteq> s then delete_store s db else db)
      | None \<Rightarrow>
          (case finish_asset w declared st of
             Inl (Asset_Refused code) \<Rightarrow> (Inl (Asset_Refused code), delete_store s db)
           | Inl e \<Rightarrow> (Inl e, db)
           | Inr (n, meta) \<Rightarrow> (Inr (Inr (n, meta)), db)))"

definition record_asset ::
  "agent_asset_row \<Rightarrow> nat \<Rightarrow> nat \<Rightarrow> 'm asset_meta \<Rightarrow> 'm asset_db \<Rightarrow> (asset_error + 'm asset_row) \<times> 'm asset_db" where
  "record_asset declared s n meta db =
     (let new = \<lparr>as_ref = aa_ref declared, as_kind = aa_kind declared, as_file = s, as_size = n, as_meta = meta\<rparr> in
      if asset_of (aa_ref declared) db = None \<and> ad_stores db s \<noteq> None
      then (Inr new, db\<lparr>ad_assets := ad_assets db @ [new]\<rparr>)
      else
        (let db' = delete_store s db in
         (case asset_of (aa_ref declared) db' of None \<Rightarrow> Inl Asset_Does_Not_Exist | Some a \<Rightarrow> Inr a, db')))"

definition create_asset ::
  "'m asset_world \<Rightarrow> agent_asset_row \<Rightarrow> nat \<Rightarrow> asset_store_row \<Rightarrow> 'm asset_db \<Rightarrow> (asset_error + 'm asset_row) \<times> 'm asset_db" where
  "create_asset w declared s st db =
     (case start_create w declared s st db of
        (Inl e, db') \<Rightarrow> (Inl e, db')
      | (Inr (Inl existing), db') \<Rightarrow> (Inr existing, db')
      | (Inr (Inr (n, meta)), db') \<Rightarrow> record_asset declared s n meta db')"

text \<open>The request: the store must be one of the organization's.\<close>

definition create_asset_request ::
  "'m asset_world \<Rightarrow> asset_caller \<Rightarrow> string \<Rightarrow> nat \<Rightarrow> 'm asset_db \<Rightarrow> (asset_error + 'm asset_row) \<times> 'm asset_db" where
  "create_asset_request w c ref s db =
     (case ad_stores db s of
        None \<Rightarrow> (Inl Permission_Error, db)
      | Some st \<Rightarrow>
          (case declared_for w c ref db of
             Inl e \<Rightarrow> (Inl e, db)
           | Inr declared \<Rightarrow> create_asset w declared s st db))"


section \<open>What is verified\<close>

text \<open>That a stored file is what an asset record says of it.\<close>

definition verified :: "'m asset_world \<Rightarrow> asset_kind \<Rightarrow> string \<Rightarrow> asset_store_row \<Rightarrow> nat \<Rightarrow> 'm asset_meta \<Rightarrow> bool" where
  "verified w k ref st n meta \<longleftrightarrow>
     (case st_content st of None \<Rightarrow> False | Some bs \<Rightarrow>
        (case k of
           Model_3d \<Rightarrow> st_kind st = Kulisse_Store \<and> (\<exists>found. aw_model w bs = Inr (ref, n, found) \<and> meta = Model_Meta found)
         | Image \<Rightarrow> st_kind st = Media_Store \<and> length bs \<le> ip_max_size (aw_image w) \<and> ref = ''sha256:'' @ aw_sha256 w bs \<and>
             n = length bs \<and>
             (\<exists>fmt width height. image_header bs = Inr (Some (fmt, width, height)) \<and> meta = Image_Meta fmt width height \<and>
                width \<in> {1..ip_max_side (aw_image w)} \<and> height \<in> {1..ip_max_side (aw_image w)})))"

lemma validate_image_Struct_Error: "validate_image sha256 data ref p \<noteq> Inl Struct_Error"
proof -
  obtain h where "image_header data = Inr h" using image_header_total by blast
  then show ?thesis by (auto simp: validate_image_def Let_def split: option.split)
qed

lemma finish_image_Inr: "finish_image w st ref = Inr (n, meta) \<longleftrightarrow> verified w Image ref st n meta"
proof (cases "st_content st")
  case (Some bs)
  obtain h where h: "image_header bs = Inr h" using image_header_total by blast
  show ?thesis
    by (cases h) (auto simp: finish_image_def read_object_def verified_def Some and_then_Inr validate_image_outcome [OF h] h Let_def split: if_splits)
qed (simp add: finish_image_def read_object_def verified_def)

lemma finish_model_Inr: "finish_model w st ref = Inr (n, meta) \<longleftrightarrow> verified w Model_3d ref st n meta"
  by (auto simp: finish_model_def verified_def split: option.split sum.split)

lemma finish_asset_Inr: "finish_asset w d st = Inr (n, meta) \<longleftrightarrow> verified w (aa_kind d) (aa_ref d) st n meta"
  by (cases "aa_kind d") (simp_all add: finish_asset_def finish_image_Inr finish_model_Inr)

lemma finish_asset_refused:
  assumes "finish_asset w d st = Inl e"
  obtains code where "e = Asset_Refused code"
proof (cases "aa_kind d")
  case Model_3d
  with assms that show ?thesis
    by (auto simp: finish_asset_def finish_model_def split: if_splits option.splits sum.splits)
next
  case Image
  show ?thesis
  proof (cases "st_content st")
    case (Some bs)
    obtain h where h: "image_header bs = Inr h" using image_header_total by blast
    show ?thesis using assms that Image
      by (cases h)
        (auto simp: finish_asset_def finish_image_def read_object_def Some validate_image_outcome [OF h] Let_def split: if_splits)
  qed (use assms that Image in \<open>auto simp: finish_asset_def finish_image_def read_object_def split: if_splits\<close>)
qed

text \<open>A file is verified as one reference of one kind.\<close>

lemma verified_unique:
  assumes "verified w k ref st n meta" "verified w k' ref' st n' meta'"
  shows "k' = k \<and> ref' = ref"
  using assms by (cases k; cases k') (auto simp: verified_def split: option.splits)

section \<open>What requests and uploads reach\<close>

text \<open>
  A state is the tables and the uploads that are verified and not recorded yet. Registrations replace
  what agents declare; a grant makes a new store; an upload writes the object of a store, which the credentials of a grant allow as often
  as one likes until they expire; other services make stores of their own. \<open>ow\<close> are the stores whose object was written again after it was checked.
\<close>

type_synonym 'm asset_state = "'m asset_db \<times> (agent_asset_row \<times> nat \<times> nat \<times> 'm asset_meta) list"

definition checked_stores :: "'m asset_state \<Rightarrow> nat set" where
  "checked_stores state = (case state of (db, ps) \<Rightarrow> as_file ` set (ad_assets db) \<union> (\<lambda>(d, s, n, meta). s) ` set ps)"

inductive asset_reachable :: "'m asset_world \<Rightarrow> nat set \<Rightarrow> 'm asset_state \<Rightarrow> bool" for w where
  start: "asset_reachable w {} (\<lparr>ad_stores = Map.empty, ad_next_store = 0, ad_assets = [], ad_declared = []\<rparr>, [])"
| declared: "asset_reachable w ow (db, ps) \<Longrightarrow> asset_reachable w ow (db\<lparr>ad_declared := ds\<rparr>, ps)"
| grant: "asset_reachable w ow (db, ps) \<Longrightarrow> request_asset_upload w c ref measured db = Inr (s, db') \<Longrightarrow> asset_reachable w ow (db', ps)"
| other_store: "asset_reachable w ow (db, ps) \<Longrightarrow> s = ad_next_store db \<Longrightarrow>
    asset_reachable w ow (db\<lparr>ad_stores := (ad_stores db)(s \<mapsto> st), ad_next_store := Suc s\<rparr>, ps)"
| upload: "asset_reachable w ow (db, ps) \<Longrightarrow> ad_stores db s = Some st \<Longrightarrow>
    asset_reachable w (if s \<in> checked_stores (db, ps) then insert s ow else ow)
      (db\<lparr>ad_stores := (ad_stores db)(s \<mapsto> st\<lparr>st_content := Some bs\<rparr>)\<rparr>, ps)"
| begin_create: "asset_reachable w ow (db, ps) \<Longrightarrow> ad_stores db s = Some st \<Longrightarrow> declared_for w c ref db = Inr d \<Longrightarrow>
    start_create w d s st db = (Inr (Inr (n, meta)), db') \<Longrightarrow> asset_reachable w ow (db', (d, s, n, meta) # ps)"
| answered: "asset_reachable w ow (db, ps) \<Longrightarrow> ad_stores db s = Some st \<Longrightarrow> declared_for w c ref db = Inr d \<Longrightarrow>
    start_create w d s st db = (answer, db') \<Longrightarrow> answer = Inl e \<or> answer = Inr (Inl a) \<Longrightarrow> asset_reachable w ow (db', ps)"
| recorded: "asset_reachable w ow (db, ps @ (d, s, n, meta) # qs) \<Longrightarrow> record_asset d s n meta db = (r, db') \<Longrightarrow>
    asset_reachable w ow (db', ps @ qs)"

text \<open>What was checked was a file as the record says, and still is one where the object was not written again.\<close>

definition was_verified :: "'m asset_world \<Rightarrow> asset_kind \<Rightarrow> string \<Rightarrow> nat \<Rightarrow> 'm asset_meta \<Rightarrow> bool" where
  "was_verified w k ref n meta \<longleftrightarrow> (\<exists>st. verified w k ref st n meta)"

definition assets_ok :: "'m asset_world \<Rightarrow> nat set \<Rightarrow> 'm asset_state \<Rightarrow> bool" where
  "assets_ok w ow state \<longleftrightarrow>
     (case state of (db, ps) \<Rightarrow>
        distinct (map as_ref (ad_assets db)) \<and>
        (\<forall>a \<in> set (ad_assets db). was_verified w (as_kind a) (as_ref a) (as_size a) (as_meta a) \<and>
           (\<exists>st. ad_stores db (as_file a) = Some st \<and>
              (as_file a \<in> ow \<or> verified w (as_kind a) (as_ref a) st (as_size a) (as_meta a)))) \<and>
        (\<forall>(d, s, n, meta) \<in> set ps. was_verified w (aa_kind d) (aa_ref d) n meta \<and> s < ad_next_store db \<and>
           (\<forall>st. ad_stores db s = Some st \<longrightarrow> s \<in> ow \<or> verified w (aa_kind d) (aa_ref d) st n meta)) \<and>
        (\<forall>s \<ge> ad_next_store db. ad_stores db s = None))"

lemma assets_ok_delete_store: "assets_ok w ow (db, ps) \<Longrightarrow> assets_ok w ow (delete_store s db, ps)"
  by (auto simp: assets_ok_def delete_store_def distinct_map_filter split: prod.splits)

lemma assets_ok_store:
  assumes "assets_ok w ow (db, ps)" "s = ad_next_store db"
  shows "assets_ok w ow (db\<lparr>ad_stores := (ad_stores db)(s \<mapsto> st), ad_next_store := Suc s\<rparr>, ps)"
  using assms by (fastforce simp: assets_ok_def)

lemma assets_okI:
  assumes "distinct (map as_ref (ad_assets db))"
    and "\<And>a. a \<in> set (ad_assets db) \<Longrightarrow> was_verified w (as_kind a) (as_ref a) (as_size a) (as_meta a) \<and>
      (\<exists>st. stores (as_file a) = Some st \<and> (as_file a \<in> ow \<or> verified w (as_kind a) (as_ref a) st (as_size a) (as_meta a)))"
    and "\<And>d s n meta. (d, s, n, meta) \<in> set ps \<Longrightarrow> was_verified w (aa_kind d) (aa_ref d) n meta \<and> s < ad_next_store db \<and>
      (\<forall>st. stores s = Some st \<longrightarrow> s \<in> ow \<or> verified w (aa_kind d) (aa_ref d) st n meta)"
    and "\<And>s. s \<ge> ad_next_store db \<Longrightarrow> stores s = None"
  shows "assets_ok w ow (db\<lparr>ad_stores := stores\<rparr>, ps)"
  using assms by (simp add: assets_ok_def) blast

lemma assets_okD:
  assumes "assets_ok w ow (db, ps)"
  shows "distinct (map as_ref (ad_assets db))"
    and "a \<in> set (ad_assets db) \<Longrightarrow> was_verified w (as_kind a) (as_ref a) (as_size a) (as_meta a) \<and>
      (\<exists>st. ad_stores db (as_file a) = Some st \<and> (as_file a \<in> ow \<or> verified w (as_kind a) (as_ref a) st (as_size a) (as_meta a)))"
    and "(d, s, n, meta) \<in> set ps \<Longrightarrow> was_verified w (aa_kind d) (aa_ref d) n meta \<and> s < ad_next_store db \<and>
      (\<forall>st. ad_stores db s = Some st \<longrightarrow> s \<in> ow \<or> verified w (aa_kind d) (aa_ref d) st n meta)"
    and "s' \<ge> ad_next_store db \<Longrightarrow> ad_stores db s' = None"
  using assms by (auto simp: assets_ok_def)

lemma assets_ok_upload:
  assumes "assets_ok w ow (db, ps)" "ad_stores db s = Some st"
  shows "assets_ok w (if s \<in> checked_stores (db, ps) then insert s ow else ow)
    (db\<lparr>ad_stores := (ad_stores db)(s \<mapsto> st\<lparr>st_content := Some bs\<rparr>)\<rparr>, ps)"
proof -
  define ow' where "ow' = (if s \<in> checked_stores (db, ps) then insert s ow else ow)"
  define stores where "stores = (ad_stores db)(s \<mapsto> st\<lparr>st_content := Some bs\<rparr>)"
  have checked: "s \<in> checked_stores (db, ps) \<Longrightarrow> s \<in> ow'" "t \<in> ow \<Longrightarrow> t \<in> ow'" for t by (auto simp: ow'_def)
  have other: "t \<noteq> s \<Longrightarrow> stores t = ad_stores db t" for t by (simp add: stores_def)
  note ok = assets_okD [OF assms(1)]
  have "assets_ok w ow' (db\<lparr>ad_stores := stores\<rparr>, ps)"
  proof (rule assets_okI [OF ok(1)])
    fix a assume a: "a \<in> set (ad_assets db)"
    show "was_verified w (as_kind a) (as_ref a) (as_size a) (as_meta a) \<and>
      (\<exists>st. stores (as_file a) = Some st \<and> (as_file a \<in> ow' \<or> verified w (as_kind a) (as_ref a) st (as_size a) (as_meta a)))"
    proof (cases "as_file a = s")
      case True
      with a have "s \<in> ow'" by (intro checked) (auto simp: checked_stores_def)
      then show ?thesis using True ok(2) [OF a] by (simp add: stores_def)
    next
      case False
      then show ?thesis using ok(2) [OF a] checked(2) by (auto simp: other)
    qed
  next
    fix d t n meta assume p: "(d, t, n, meta) \<in> set ps"
    have "t = s \<Longrightarrow> s \<in> ow'" using p by (intro checked) (force simp: checked_stores_def)
    then show "was_verified w (aa_kind d) (aa_ref d) n meta \<and> t < ad_next_store db \<and>
      (\<forall>st. stores t = Some st \<longrightarrow> t \<in> ow' \<or> verified w (aa_kind d) (aa_ref d) st n meta)"
      using ok(3) [OF p] checked(2) [of t] other [of t] by (cases "t = s") auto
  next
    fix t assume t: "t \<ge> ad_next_store db"
    then have "t \<noteq> s" using ok(4) [of t] assms(2) by auto
    then show "stores t = None" using ok(4) [OF t] by (simp add: other)
  qed
  then show ?thesis by (simp only: ow'_def stores_def)
qed

lemma asset_of_None: "asset_of ref db = None \<longleftrightarrow> ref \<notin> as_ref ` set (ad_assets db)"
  by (auto simp: asset_of_def find_None_iff)

lemma asset_of_Some: "asset_of ref db = Some a \<Longrightarrow> a \<in> set (ad_assets db) \<and> as_ref a = ref"
  by (auto simp: asset_of_def find_Some_iff)

lemma assets_ok_start_create:
  assumes "assets_ok w ow (db, ps)" "start_create w d s st db = (answer, db')"
  shows "assets_ok w ow (db', ps)"
  using assms assets_ok_delete_store [OF assms(1), of s]
  by (auto simp: start_create_def split: option.splits sum.splits asset_error.splits if_splits)

lemma assets_ok_record:
  assumes "assets_ok w ow (db, ps @ (d, s, n, meta) # qs)" "record_asset d s n meta db = (r, db')"
  shows "assets_ok w ow (db', ps @ qs)"
proof (cases "asset_of (aa_ref d) db = None \<and> ad_stores db s \<noteq> None")
  case True
  with assms(2) have "db' = db\<lparr>ad_assets := ad_assets db @ [\<lparr>as_ref = aa_ref d, as_kind = aa_kind d, as_file = s, as_size = n, as_meta = meta\<rparr>]\<rparr>"
    by (auto simp: record_asset_def Let_def)
  with True assms(1) show ?thesis by (auto simp: assets_ok_def asset_of_None)
next
  case False
  with assms(2) have "db' = delete_store s db"
    by (auto simp: record_asset_def Let_def split: option.splits)
  moreover have "assets_ok w ow (db, ps @ qs)" using assms(1) by (auto simp: assets_ok_def)
  ultimately show ?thesis by (simp add: assets_ok_delete_store)
qed

lemma reachable_ok: "asset_reachable w ow state \<Longrightarrow> assets_ok w ow state"
proof (induction rule: asset_reachable.induct)
  case (grant ow db ps c ref measured s db')
  then show ?case
    by (auto simp: request_asset_upload_def and_then_Inr Let_def intro!: assets_ok_store)
next
  case (upload ow db ps s st bs)
  then show ?case using assets_ok_upload by blast
next
  case (begin_create ow db ps s st c ref d n meta db')
  then have "db' = db" "verified w (aa_kind d) (aa_ref d) st n meta"
    by (auto simp: start_create_def finish_asset_Inr split: option.splits sum.splits asset_error.splits if_splits)
  with begin_create show ?case by (force simp: assets_ok_def was_verified_def not_le)
next
  case (answered ow db ps s st c ref d answer db' e a)
  then show ?case using assets_ok_start_create by blast
next
  case (recorded ow db ps d s n meta qs r db')
  then show ?case using assets_ok_record by blast
next
  case (other_store ow db ps s st)
  then show ?case using assets_ok_store by blast
next
  case start
  show ?case by (simp add: assets_ok_def)
next
  case (declared ow db ps ds)
  then show ?case by (simp add: assets_ok_def)
qed


lemma create_asset_refused: "create_asset w d s st db = (Inl e, db') \<Longrightarrow> db' = delete_store s db"
proof -
  have "db' = delete_store s db" if "start_create w d s st db = (Inl e, db')"
    using that finish_asset_refused
    by (fastforce simp: start_create_def split: option.splits sum.splits asset_error.splits if_splits)
  moreover have "db'' = db" if "start_create w d s st db = (Inr (Inr p), db'')" for p db''
    using that by (auto simp: start_create_def split: option.splits sum.splits asset_error.splits if_splits)
  moreover have "db' = delete_store s db" if "record_asset d s n meta db = (Inl e, db')" for n meta
    using that by (auto simp: record_asset_def Let_def split: if_splits option.splits)
  moreover assume "create_asset w d s st db = (Inl e, db')"
  ultimately show "db' = delete_store s db"
    by (auto simp: create_asset_def split: prod.splits sum.splits)
qed

lemma create_request_reachable:
  assumes "asset_reachable w ow (db, ps)" "create_asset_request w c ref s db = (r, db')"
  shows "asset_reachable w ow (db', ps)"
proof (cases "ad_stores db s")
  case (Some st)
  show ?thesis
  proof (cases "declared_for w c ref db")
    case (Inr d)
    obtain answer db1 where start: "start_create w d s st db = (answer, db1)" by fastforce
    show ?thesis
    proof (cases "\<exists>n meta. answer = Inr (Inr (n, meta))")
      case True
      then obtain n meta where answer: "answer = Inr (Inr (n, meta))" by blast
      with start have "asset_reachable w ow (db1, (d, s, n, meta) # ps)"
        using assms(1) Some Inr asset_reachable.begin_create by blast
      then have "asset_reachable w ow (snd (record_asset d s n meta db1), [] @ ps)"
        using asset_reachable.recorded [where ps = "[]"] by (metis append_Nil prod.collapse)
      with assms(2) Some Inr start answer show ?thesis by (simp add: create_asset_request_def create_asset_def)
    next
      case False
      then have "(\<exists>e. answer = Inl e) \<or> (\<exists>a. answer = Inr (Inl a))" by (cases answer) (auto, metis sumE surj_pair)
      then have "asset_reachable w ow (db1, ps)" using assms(1) Some Inr start asset_reachable.answered by blast
      with assms(2) Some Inr start False show ?thesis
        by (auto simp: create_asset_request_def create_asset_def split: sum.splits)
    qed
  qed (use assms Some in \<open>simp add: create_asset_request_def\<close>)
qed (use assms in \<open>simp add: create_asset_request_def\<close>)

text \<open>
  C29. Whatever registrations, grants, uploads and requests happened, and however the requests were
  interleaved: an organization holds one asset of a reference, its file is a store there is, and what was recorded was checked: for an
  image, bytes that hash to the reference and are an image of that format, size and
  sides, within the limits; for a 3D model, bytes for which the model reader answers that reference. The store still holds such bytes unless it was
  written again after the check, which the credentials of its grant allow until they expire.
\<close>

theorem reachable_assets_verified:
  assumes "asset_reachable w ow (db, ps)"
  shows "distinct (map as_ref (ad_assets db)) \<and>
    list_all (\<lambda>a. was_verified w (as_kind a) (as_ref a) (as_size a) (as_meta a) \<and>
      (case ad_stores db (as_file a) of None \<Rightarrow> False
       | Some st \<Rightarrow> as_file a \<in> ow \<or> verified w (as_kind a) (as_ref a) st (as_size a) (as_meta a))) (ad_assets db)"
  using reachable_ok [OF assms] by (force simp: assets_ok_def list_all_iff)

text \<open>
  A refused createAsset leaves nothing behind: once the store is found and the caller may upload the
  reference, a refusal deletes the store and, with it, whatever asset was recorded with it; before
  that, nothing changes.
\<close>

theorem refused_upload_deleted:
  assumes "create_asset_request w c ref s db = (Inl e, db')"
  shows "db' = (if ad_stores db s \<noteq> None \<and> \<not> isl (declared_for w c ref db) then delete_store s db else db)"
  using assms create_asset_refused
  by (fastforce simp: create_asset_request_def split: option.splits sum.splits)

lemma declared_for_ref: "declared_for w c ref db = Inr d \<Longrightarrow> aa_ref d = ref"
  by (auto simp: declared_for_def declared_asset_def sourced_asset_def and_then_Inr find_Some_iff
      split: sum.splits option.splits if_splits)

text \<open>
  C30. A caller who may upload any file may delete every other asset of the organization: naming the
  store of an asset in a createAsset of another reference deletes that store, its file and the asset,
  whoever uploaded it (a store that was written again after its check may hold the other reference by then).
\<close>

theorem create_deletes_other_asset:
  assumes "asset_reachable w ow (db, ps)" "a \<in> set (ad_assets db)" "as_file a \<notin> ow" "declared_for w c ref db = Inr d" "ref \<noteq> as_ref a"
    "create_asset_request w c ref (as_file a) db = (r, db')"
  shows "ad_stores db' (as_file a) = None \<and> a \<notin> set (ad_assets db')"
proof -
  note ok = reachable_ok [OF assms(1)]
  obtain st where st: "ad_stores db (as_file a) = Some st" "verified w (as_kind a) (as_ref a) st (as_size a) (as_meta a)"
    using ok assms(2,3) by (auto simp: assets_ok_def)
  have ref: "aa_ref d = ref" by (rule declared_for_ref) (rule assms(4))
  have create: "create_asset w d (as_file a) st db = (r, db')"
    using assms(4,6) st(1) by (simp add: create_asset_request_def)
  have "db' = delete_store (as_file a) db"
  proof (cases "asset_of ref db")
    case None
    then have "finish_asset w d st \<noteq> Inr p" for p
      using verified_unique [OF st(2)] assms(5) ref by (cases p) (auto simp: finish_asset_Inr)
    then obtain code where "finish_asset w d st = Inl (Asset_Refused code)"
      using finish_asset_refused by (metis sumE)
    with None create ref show ?thesis by (simp add: create_asset_def start_create_def)
  next
    case (Some b)
    then have b: "b \<in> set (ad_assets db)" "as_ref b = ref" by (auto dest: asset_of_Some)
    then obtain st' where "ad_stores db (as_file b) = Some st'"
        "as_file b \<in> ow \<or> verified w (as_kind b) (as_ref b) st' (as_size b) (as_meta b)"
      using ok by (auto simp: assets_ok_def)
    then have "as_file b \<noteq> as_file a" using assms(3) st verified_unique assms(5) b(2) by fastforce
    with Some create ref show ?thesis by (simp add: create_asset_def start_create_def)
  qed
  then show ?thesis by (simp add: delete_store_def)
qed

text \<open>
  The size a grant is for is the declared one, else the measured one, positive and within the limit
  of its kind; any other is refused.
\<close>

theorem upload_size_bounds:
  "upload_size w d measured = Inr n \<longleftrightarrow>
     (case aa_size d of None \<Rightarrow> measured | Some m \<Rightarrow> Some m) = Some n \<and>
     n \<in> {1..int (policy_max_size w (aa_kind d))}"
  by (auto simp: upload_size_def split: option.splits)


section \<open>A small organization\<close>

text \<open>Two users: the first's agent declares an image, the second's another file.\<close>

definition sample_file :: bytes where
  "sample_file = encoded (Png 2 3)"

definition sample_world :: "unit asset_world" where
  "sample_world = \<lparr>aw_sha256 = \<lambda>bs. if bs = sample_file then ''aa'' else ''bb'', aw_is_ref = \<lambda>_. True,
     aw_model = \<lambda>_. Inl ''bad_header'', aw_model_max_size = 100, aw_image = default_policy\<rparr>"

definition sample_declared :: "nat \<Rightarrow> string \<Rightarrow> agent_asset_row" where
  "sample_declared user ref = \<lparr>aa_client = Some user, aa_user = user, aa_name = ''icon'', aa_kind = Image, aa_ref = ref,
     aa_size = Some 24, aa_source = None\<rparr>"

definition sample_caller :: "nat \<Rightarrow> asset_caller" where
  "sample_caller user = \<lparr>ac_client = Some user, ac_user = user, ac_admin = False\<rparr>"

definition sample_asset :: "unit asset_row" where
  "sample_asset = \<lparr>as_ref = ''sha256:aa'', as_kind = Image, as_file = 0, as_size = 24, as_meta = Image_Meta ''png'' 2 3\<rparr>"

definition sample_db :: "unit asset_db" where
  "sample_db = \<lparr>ad_stores = [0 \<mapsto> \<lparr>st_kind = Media_Store, st_content = Some sample_file\<rparr>], ad_next_store = 1,
     ad_assets = [sample_asset], ad_declared = [sample_declared 1 ''sha256:aa'', sample_declared 2 ''sha256:bb'']\<rparr>"

lemmas sample_defs = sample_world_def sample_declared_def sample_caller_def sample_asset_def sample_db_def

lemma sample_image:
  "length sample_file = 24" "image_header sample_file = Inr (Some (''png'', 2, 3))"
  using encoded_header [of "Png 2 3" "[]"] by (simp_all add: sample_file_def png_signature_def ascii_def)

lemma sample_reachable: "asset_reachable sample_world {} (sample_db, [])"
proof -
  let ?w = sample_world and ?media = "\<lparr>st_kind = Media_Store, st_content = None\<rparr>"
  let ?declared = "[sample_declared 1 ''sha256:aa'', sample_declared 2 ''sha256:bb'']"
  let ?db = "\<lambda>stores n. \<lparr>ad_stores = stores, ad_next_store = n, ad_assets = [], ad_declared = ?declared\<rparr>"
  have "asset_reachable ?w {} (?db Map.empty 0, [])"
    using asset_reachable.declared [OF asset_reachable.start, of ?w ?declared] by simp
  moreover have "request_asset_upload ?w (sample_caller 1) ''sha256:aa'' None (?db Map.empty 0) = Inr (0, ?db [0 \<mapsto> ?media] 1)"
    by (simp add: request_asset_upload_def declared_for_def declared_asset_def check_ref_def raise_if_def upload_size_def
        policy_max_size_def default_policy_def Let_def sample_defs)
  ultimately have "asset_reachable ?w {} (?db [0 \<mapsto> ?media] 1, [])" by (rule asset_reachable.grant)
  then have "asset_reachable ?w {} (?db [0 \<mapsto> \<lparr>st_kind = Media_Store, st_content = Some sample_file\<rparr>] 1, [])"
    using asset_reachable.upload [of ?w "{}" "?db [0 \<mapsto> ?media] 1" "[]" 0 ?media sample_file] by (simp add: checked_stores_def)
  moreover have "create_asset_request ?w (sample_caller 1) ''sha256:aa'' 0
      (?db [0 \<mapsto> \<lparr>st_kind = Media_Store, st_content = Some sample_file\<rparr>] 1) = (Inr sample_asset, sample_db)"
    by (simp add: create_asset_request_def declared_for_def declared_asset_def check_ref_def raise_if_def create_asset_def
        start_create_def asset_of_def finish_asset_def finish_image_def read_object_def validate_image_outcome [OF sample_image(2)]
        sample_image default_policy_def record_asset_def Let_def sample_defs)
  ultimately show ?thesis by (rule create_request_reachable)
qed

lemma reachable_assets_verified_witness:
  "distinct (map as_ref (ad_assets sample_db)) \<and> verified sample_world Image ''sha256:aa''
     \<lparr>st_kind = Media_Store, st_content = Some sample_file\<rparr> 24 (Image_Meta ''png'' 2 3)"
  using reachable_assets_verified [OF sample_reachable] by (simp add: sample_defs)

text \<open>The asset's file written again: the asset stays, and its file is no longer the image it was checked to be.\<close>

theorem overwritten_after_check:
  "\<exists>db. asset_reachable sample_world {0} (db, []) \<and> ad_assets db = [sample_asset] \<and>
     (\<exists>st. ad_stores db 0 = Some st \<and> \<not> verified sample_world Image ''sha256:aa'' st 24 (Image_Meta ''png'' 2 3))"
proof -
  let ?st = "\<lparr>st_kind = Media_Store, st_content = Some ([] :: bytes)\<rparr>"
  have "ad_stores sample_db 0 = Some \<lparr>st_kind = Media_Store, st_content = Some sample_file\<rparr>" by (simp add: sample_db_def)
  from asset_reachable.upload [OF sample_reachable this, of "[]"]
  have "asset_reachable sample_world {0} (sample_db\<lparr>ad_stores := (ad_stores sample_db)(0 \<mapsto> ?st)\<rparr>, [])"
    by (simp add: checked_stores_def sample_db_def sample_asset_def)
  moreover have "\<not> verified sample_world Image ''sha256:aa'' ?st 24 (Image_Meta ''png'' 2 3)" by (simp add: verified_def)
  ultimately show ?thesis by (intro exI [of _ "sample_db\<lparr>ad_stores := (ad_stores sample_db)(0 \<mapsto> ?st)\<rparr>"]) (simp add: sample_db_def)
qed

lemma refused_upload_deleted_witness:
  "snd (create_asset_request sample_world (sample_caller 2) ''sha256:bb'' 0 sample_db) = delete_store 0 sample_db"
proof -
  obtain db' where "create_asset_request sample_world (sample_caller 2) ''sha256:bb'' 0 sample_db =
      (Inl (Asset_Refused ''hash_mismatch''), db')"
    by (simp add: create_asset_request_def declared_for_def declared_asset_def check_ref_def raise_if_def create_asset_def
        start_create_def asset_of_def finish_asset_def finish_image_def read_object_def validate_image_outcome [OF sample_image(2)]
        sample_image default_policy_def Let_def sample_defs)
  from this refused_upload_deleted [OF this] show ?thesis
    by (simp add: declared_for_def declared_asset_def check_ref_def raise_if_def sample_defs)
qed

lemma create_deletes_other_asset_witness:
  "sample_asset \<notin> set (ad_assets (snd (create_asset_request sample_world (sample_caller 2) ''sha256:bb'' 0 sample_db)))"
proof -
  obtain r db' where run: "create_asset_request sample_world (sample_caller 2) ''sha256:bb'' 0 sample_db = (r, db')" by fastforce
  have "declared_for sample_world (sample_caller 2) ''sha256:bb'' sample_db = Inr (sample_declared 2 ''sha256:bb'')"
    by (simp add: declared_for_def declared_asset_def check_ref_def raise_if_def sample_defs)
  then have "sample_asset \<notin> set (ad_assets db')"
    using create_deletes_other_asset [OF sample_reachable _ _ _ _, of sample_asset] run by (simp add: sample_defs)
  with run show ?thesis by simp
qed

end
