(* ===== verification/Sql.thy ===== *)
theory Sql
  imports Descriptors
begin

text \<open>
  The SQL the matching engine writes (\<open>src/facade/managers.py\<close>), as data: expressions, conditions and
  what a \<open>SELECT\<close> reads from. The text of a statement is a list of tokens, each a piece of text or a named
  placeholder; the meaning is PostgreSQL's, with three truth values. \<open>jsonb_path_match\<close> is PostgreSQL's
  own and a parameter; it is called silently, so it may answer null. Also \<open>_to_positional\<close>, which turns
  named placeholders into positional ones.
\<close>

section \<open>Values, expressions, conditions\<close>

datatype sql_value = Null | S_Int int | S_Str string | S_Bool bool | S_Time int | S_Json json

datatype sql_expr = Col string string | Param string | Quoted string

text \<open>The variables a path may use: none, or an agent's hardware as \<open>$agent\<close>.\<close>

datatype path_vars = No_Vars | Agent_Vars string

datatype sql_cond =
    Eq sql_expr sql_expr
  | Greater sql_expr sql_expr
  | Is_Null sql_expr
  | Holds sql_expr
  | Is_False sql_expr
  | Always
  | Path_Match sql_expr sql_expr path_vars
  | Not_Exists "sql_from list" "sql_cond list"
  | Exists "sql_from list" "sql_cond list"
  | Any_Of "sql_cond list"
  | All_Of "sql_cond list"
  | Count_Is "sql_from list" "sql_cond list" sql_expr
  | In_Select sql_expr string "sql_from list" "sql_cond list"
and sql_from =
    From string string
  | Join string string "sql_cond list"
  | Left_Join string string "sql_cond list"

section \<open>Text\<close>

datatype token = Text string | Named string

definition token_text :: "token \<Rightarrow> string" where
  "token_text t = (case t of Text s \<Rightarrow> s | Named k \<Rightarrow> ''%('' @ k @ '')s'')"

definition sql_text :: "token list \<Rightarrow> string" where
  "sql_text ts = concat (map token_text ts)"

fun separated :: "string \<Rightarrow> token list list \<Rightarrow> token list" where
  "separated sep [] = []"
| "separated sep [ts] = ts"
| "separated sep (ts # us # rest) = ts @ [Text sep] @ separated sep (us # rest)"

definition column_text :: "string \<Rightarrow> string \<Rightarrow> string" where
  "column_text a c = (if a = '''' then c else a @ ''.'' @ c)"

fun expr_tokens :: "sql_expr \<Rightarrow> token list" where
  "expr_tokens (Col a c) = [Text (column_text a c)]"
| "expr_tokens (Param k) = [Named k]"
| "expr_tokens (Quoted s) = [Text (CHR 0x27 # s @ [CHR 0x27])]"

definition empty_object :: string where
  "empty_object = CHR 0x27 # ''{}'' @ CHR 0x27 # ''::jsonb''"

fun vars_text :: "path_vars \<Rightarrow> string" where
  "vars_text No_Vars = empty_object"
| "vars_text (Agent_Vars a) =
     ''jsonb_build_object('' @ CHR 0x27 # ''agent'' @ CHR 0x27 # '', COALESCE('' @ column_text a ''hardware'' @ '', '' @ empty_object @ ''))''"

definition named_as :: "string \<Rightarrow> string \<Rightarrow> string" where
  "named_as t a = (if a = '''' then t else t @ '' '' @ a)"

fun cond_tokens :: "sql_cond \<Rightarrow> token list"
  and conds_tokens :: "sql_cond list \<Rightarrow> token list list"
  and from_tokens :: "sql_from list \<Rightarrow> token list" where
  "cond_tokens (Eq x y) = expr_tokens x @ [Text '' = ''] @ expr_tokens y"
| "cond_tokens (Greater x y) = expr_tokens x @ [Text '' > ''] @ expr_tokens y"
| "cond_tokens (Is_Null x) = expr_tokens x @ [Text '' IS NULL'']"
| "cond_tokens (Holds x) = expr_tokens x"
| "cond_tokens (Is_False x) = expr_tokens x @ [Text '' = false'']"
| "cond_tokens Always = [Text ''TRUE'']"
| "cond_tokens (Path_Match obj path vars) =
     [Text ''jsonb_path_match('' ] @ expr_tokens obj @ [Text ''::jsonb, ''] @ expr_tokens path
     @ [Text (''::jsonpath, '' @ vars_text vars @ '', true)'')]"
| "cond_tokens (Not_Exists fs cs) =
     [Text ''NOT EXISTS (SELECT 1 FROM ''] @ from_tokens fs @ [Text '' WHERE ''] @ separated '' AND '' (conds_tokens cs) @ [Text '')'']"
| "cond_tokens (Exists fs cs) =
     [Text ''EXISTS (SELECT 1 FROM ''] @ from_tokens fs @ [Text '' WHERE ''] @ separated '' AND '' (conds_tokens cs) @ [Text '')'']"
| "cond_tokens (Any_Of cs) = [Text ''(''] @ separated '' OR '' (conds_tokens cs) @ [Text '')'']"
| "cond_tokens (All_Of cs) = [Text ''(''] @ separated '' AND '' (conds_tokens cs) @ [Text '')'']"
| "cond_tokens (Count_Is fs cs x) =
     [Text ''(SELECT COUNT(*) FROM ''] @ from_tokens fs @ [Text '' WHERE ''] @ separated '' AND '' (conds_tokens cs)
     @ [Text '') = ''] @ expr_tokens x"
| "cond_tokens (In_Select x c fs cs) =
     expr_tokens x @ [Text ('' IN (SELECT '' @ c @ '' FROM '')] @ from_tokens fs @ [Text '' WHERE '']
     @ separated '' AND '' (conds_tokens cs) @ [Text '')'']"
| "conds_tokens [] = []"
| "conds_tokens (c # cs) = cond_tokens c # conds_tokens cs"
| "from_tokens [] = []"
| "from_tokens (From t a # fs) = [Text (named_as t a)] @ from_tokens fs"
| "from_tokens (Join t a cs # fs) =
     [Text ('' JOIN '' @ named_as t a @ '' ON '')] @ separated '' AND '' (conds_tokens cs) @ from_tokens fs"
| "from_tokens (Left_Join t a cs # fs) =
     [Text ('' LEFT JOIN '' @ named_as t a @ '' ON '')] @ separated '' AND '' (conds_tokens cs) @ from_tokens fs"

section \<open>Meaning\<close>

type_synonym sql_row = "string \<Rightarrow> sql_value"
type_synonym sql_env = "string \<Rightarrow> sql_row"

record sql_db =
  sq_tables :: "string \<Rightarrow> sql_row list"
  sq_params :: "string \<Rightarrow> sql_value option"
  sq_path_match :: "string \<Rightarrow> string \<Rightarrow> json \<Rightarrow> bool option"

fun tri_and :: "bool option \<Rightarrow> bool option \<Rightarrow> bool option" where
  "tri_and (Some False) q = Some False"
| "tri_and (Some True) q = q"
| "tri_and None q = (if q = Some False then Some False else None)"

fun tri_or :: "bool option \<Rightarrow> bool option \<Rightarrow> bool option" where
  "tri_or (Some True) q = Some True"
| "tri_or (Some False) q = q"
| "tri_or None q = (if q = Some True then Some True else None)"

definition sql_equal :: "sql_value \<Rightarrow> sql_value \<Rightarrow> bool option" where
  "sql_equal v w = (if v = Null \<or> w = Null then None else Some (v = w))"

fun sql_greater :: "sql_value \<Rightarrow> sql_value \<Rightarrow> bool option" where
  "sql_greater (S_Time s) (S_Time t) = Some (s > t)"
| "sql_greater (S_Int i) (S_Int j) = Some (i > j)"
| "sql_greater v w = None"

fun expr_value :: "sql_db \<Rightarrow> sql_env \<Rightarrow> sql_expr \<Rightarrow> sql_value" where
  "expr_value db e (Col a c) = e a c"
| "expr_value db e (Param k) = (case sq_params db k of None \<Rightarrow> Null | Some v \<Rightarrow> v)"
| "expr_value db e (Quoted s) = S_Str s"

fun vars_value :: "sql_env \<Rightarrow> path_vars \<Rightarrow> json" where
  "vars_value e No_Vars = JObj []"
| "vars_value e (Agent_Vars a) =
     JObj [(''agent'', case e a ''hardware'' of S_Json j \<Rightarrow> j | _ \<Rightarrow> JObj [])]"

fun truth :: "sql_value \<Rightarrow> bool option" where
  "truth (S_Bool b) = Some b"
| "truth v = None"

fun path_match :: "sql_db \<Rightarrow> sql_value \<Rightarrow> sql_value \<Rightarrow> json \<Rightarrow> bool option" where
  "path_match db (S_Str obj) (S_Str path) vars = sq_path_match db obj path vars"
| "path_match db v w vars = None"

definition null_row :: sql_row where
  "null_row c = Null"

fun cond_value :: "sql_db \<Rightarrow> sql_env \<Rightarrow> sql_cond \<Rightarrow> bool option"
  and all_value :: "sql_db \<Rightarrow> sql_env \<Rightarrow> sql_cond list \<Rightarrow> bool option"
  and any_value :: "sql_db \<Rightarrow> sql_env \<Rightarrow> sql_cond list \<Rightarrow> bool option"
  and from_rows :: "sql_db \<Rightarrow> sql_env \<Rightarrow> sql_from list \<Rightarrow> sql_env list" where
  "cond_value db e (Eq x y) = sql_equal (expr_value db e x) (expr_value db e y)"
| "cond_value db e (Greater x y) = sql_greater (expr_value db e x) (expr_value db e y)"
| "cond_value db e (Is_Null x) = Some (expr_value db e x = Null)"
| "cond_value db e (Holds x) = truth (expr_value db e x)"
| "cond_value db e (Is_False x) = sql_equal (expr_value db e x) (S_Bool False)"
| "cond_value db e Always = Some True"
| "cond_value db e (Path_Match obj path vars) = path_match db (expr_value db e obj) (expr_value db e path) (vars_value e vars)"
| "cond_value db e (Not_Exists fs cs) = Some (\<not> list_ex (\<lambda>e'. all_value db e' cs = Some True) (from_rows db e fs))"
| "cond_value db e (Exists fs cs) = Some (list_ex (\<lambda>e'. all_value db e' cs = Some True) (from_rows db e fs))"
| "cond_value db e (Any_Of cs) = any_value db e cs"
| "cond_value db e (All_Of cs) = all_value db e cs"
| "cond_value db e (Count_Is fs cs x) =
     sql_equal (S_Int (int (length (filter (\<lambda>e'. all_value db e' cs = Some True) (from_rows db e fs))))) (expr_value db e x)"
| "cond_value db e (In_Select x c fs cs) =
     foldr tri_or (map (\<lambda>e'. sql_equal (expr_value db e x) (e' '''' c))
       (filter (\<lambda>e'. all_value db e' cs = Some True) (from_rows db e fs))) (Some False)"
| "all_value db e [] = Some True"
| "all_value db e (c # cs) = tri_and (cond_value db e c) (all_value db e cs)"
| "any_value db e [] = Some False"
| "any_value db e (c # cs) = tri_or (cond_value db e c) (any_value db e cs)"
| "from_rows db e [] = [e]"
| "from_rows db e (From t a # fs) = concat (map (\<lambda>r. from_rows db (e(a := r)) fs) (sq_tables db t))"
| "from_rows db e (Join t a cs # fs) =
     concat (map (\<lambda>r. from_rows db (e(a := r)) fs) (filter (\<lambda>r. all_value db (e(a := r)) cs = Some True) (sq_tables db t)))"
| "from_rows db e (Left_Join t a cs # fs) =
     (let found = filter (\<lambda>r. all_value db (e(a := r)) cs = Some True) (sq_tables db t) in
      concat (map (\<lambda>r. from_rows db (e(a := r)) fs) (if found = [] then [null_row] else found)))"

text \<open>A statement \<open>SELECT a.id FROM t a WHERE c AND \<dots>\<close>: its text, and the rows it selects.\<close>

record sql_select =
  se_table :: string
  se_alias :: string
  se_where :: "sql_cond list"

definition select_tokens :: "sql_select \<Rightarrow> token list" where
  "select_tokens s =
     [Text (''SELECT '' @ column_text (se_alias s) ''id'' @ '' FROM '' @ named_as (se_table s) (se_alias s) @ '' WHERE '')]
     @ separated '' AND '' (conds_tokens (se_where s))"

definition no_env :: sql_env where
  "no_env a = null_row"

definition selected :: "sql_db \<Rightarrow> sql_select \<Rightarrow> sql_row list" where
  "selected db s = filter (\<lambda>r. all_value db (no_env(se_alias s := r)) (se_where s) = Some True) (sq_tables db (se_table s))"


section \<open>Named and positional placeholders\<close>

definition is_word :: "char \<Rightarrow> bool" where
  "is_word c \<longleftrightarrow> is_alpha c \<or> is_digit c \<or> c = CHR ''_''"

lemma digit_is_digit: "n < 10 \<Longrightarrow> is_digit (digit n)"
proof -
  have "list_all (\<lambda>n. is_digit (digit n)) [0..<10]" by code_simp
  then show "n < 10 \<Longrightarrow> is_digit (digit n)" by (simp add: list_all_iff)
qed

lemma show_nat_digits: "list_all is_digit (show_nat n)"
proof (induction n rule: show_nat.induct)
  case (1 n)
  then show ?case by (subst show_nat.simps) (simp add: digit_is_digit)
qed

lemma show_nat_Nil [simp]: "show_nat n \<noteq> []"
  by (subst show_nat.simps) simp

text \<open>The pattern \<open>%\((\w+)\)s\<close> at the start of a text: the name, and what follows.\<close>

definition read_named :: "string \<Rightarrow> (string \<times> string) option" where
  "read_named s =
     (if starts_with ''%('' s then
        let name = takeWhile is_word (drop 2 s); rest = dropWhile is_word (drop 2 s)
        in if name \<noteq> [] \<and> starts_with '')s'' rest then Some (name, drop 2 rest) else None
      else None)"

lemma read_named_length: "read_named s = Some (k, rest) \<Longrightarrow> length rest < length s"
proof -
  assume "read_named s = Some (k, rest)"
  then have "rest = drop 2 (dropWhile is_word (drop 2 s))" "takeWhile is_word (drop 2 s) \<noteq> []"
    by (auto simp: read_named_def Let_def split: if_splits)
  moreover from this have "drop 2 s \<noteq> []" by auto
  moreover have "length (dropWhile is_word (drop 2 s)) \<le> length (drop 2 s)" by (rule length_dropWhile_le)
  ultimately show ?thesis by simp
qed

text \<open>\<open>findall\<close> and \<open>sub("%s", \<dots>)\<close> with that pattern: the text with every placeholder positional, and the names in order.\<close>

function sub_named :: "string \<Rightarrow> string \<times> string list" where
  "sub_named [] = ([], [])"
| "sub_named (c # s) =
     (case read_named (c # s) of
        Some (k, rest) \<Rightarrow> (case sub_named rest of (t, ks) \<Rightarrow> (''%s'' @ t, k # ks))
      | None \<Rightarrow> (case sub_named s of (t, ks) \<Rightarrow> (c # t, ks)))"
  by pat_completeness auto
termination by (relation "measure length") (auto dest: read_named_length)

type_synonym sql_params = "string \<Rightarrow> sql_value option"

definition to_positional :: "string \<Rightarrow> sql_params \<Rightarrow> (string \<times> sql_value list) result" where
  "to_positional sql params =
     (case sub_named sql of (t, ks) \<Rightarrow>
        and_then (map_result (\<lambda>k. case params k of None \<Rightarrow> Inl (KeyError [Txt k]) | Some v \<Rightarrow> Inr v) ks) (\<lambda>vs. Inr (t, vs)))"

text \<open>What a statement's tokens become.\<close>

definition positional_text :: "token list \<Rightarrow> string" where
  "positional_text ts = concat (map (\<lambda>t. case t of Text s \<Rightarrow> s | Named k \<Rightarrow> ''%s'') ts)"

fun token_names :: "token list \<Rightarrow> string list" where
  "token_names [] = []"
| "token_names (Text s # ts) = token_names ts"
| "token_names (Named k # ts) = k # token_names ts"

fun token_ok :: "token \<Rightarrow> bool" where
  "token_ok (Text s) \<longleftrightarrow> CHR ''%'' \<notin> set s"
| "token_ok (Named k) \<longleftrightarrow> k \<noteq> [] \<and> list_all is_word k"

lemma sub_named_text: "CHR ''%'' \<notin> set s \<Longrightarrow> sub_named (s @ r) = (case sub_named r of (t, ks) \<Rightarrow> (s @ t, ks))"
proof (induction s)
  case (Cons c s)
  then have "read_named (c # s @ r) = None" by (auto simp: read_named_def starts_with_def)
  with Cons show ?case by (simp split: prod.splits)
qed simp

lemma read_named_placeholder:
  assumes "k \<noteq> []" "list_all is_word k"
  shows "read_named (''%('' @ k @ '')s'' @ r) = Some (k, r)"
proof -
  have word: "\<not> is_word (CHR '')'')" by (simp add: is_word_def is_alpha_def is_lower_def is_upper_def is_digit_def)
  from assms(2) have "takeWhile is_word (k @ '')s'' @ r) = k" "dropWhile is_word (k @ '')s'' @ r) = '')s'' @ r"
    by (auto simp: takeWhile_append dropWhile_append list_all_iff word)
  with assms(1) show ?thesis by (simp add: read_named_def starts_with_def)
qed

lemma sub_named_tokens:
  "list_all token_ok ts \<Longrightarrow> sub_named (sql_text ts) = (positional_text ts, token_names ts)"
proof (induction ts)
  case Nil
  show ?case by (simp add: sql_text_def positional_text_def)
next
  case (Cons t ts)
  then have IH: "sub_named (sql_text ts) = (positional_text ts, token_names ts)" by simp
  show ?case
  proof (cases t)
    case (Text s)
    with Cons.prems IH show ?thesis
      by (simp add: sql_text_def positional_text_def token_text_def sub_named_text)
  next
    case (Named k)
    have "sql_text (t # ts) = CHR ''%'' # (''('' @ k @ '')s'' @ sql_text ts)"
      by (simp add: sql_text_def token_text_def Named)
    then show ?thesis using read_named_placeholder [of k "sql_text ts"] Cons.prems IH
      by (simp add: positional_text_def Named split: prod.splits)
  qed
qed

section \<open>When conditions hold\<close>

named_theorems sql_true \<open>when a condition is true\<close>

lemma tri_and_True [sql_true]: "tri_and p q = Some True \<longleftrightarrow> p = Some True \<and> q = Some True"
  by (cases "(p, q)" rule: tri_and.cases) auto

lemma tri_or_True [sql_true]: "tri_or p q = Some True \<longleftrightarrow> p = Some True \<or> q = Some True"
  by (cases "(p, q)" rule: tri_or.cases) auto

lemma all_value_True [sql_true]: "all_value db e cs = Some True \<longleftrightarrow> (\<forall>c \<in> set cs. cond_value db e c = Some True)"
  by (induction cs) (auto simp: tri_and_True)

lemma any_value_True [sql_true]: "any_value db e cs = Some True \<longleftrightarrow> (\<exists>c \<in> set cs. cond_value db e c = Some True)"
  by (induction cs) (auto simp: tri_or_True)

lemma sql_equal_True [sql_true]: "sql_equal v w = Some True \<longleftrightarrow> v = w \<and> v \<noteq> Null"
  by (auto simp: sql_equal_def)

end
