(* ===== verification/Matching.thy ===== *)
theory Matching
  imports Sql Bloks
begin

text \<open>
  \<open>src/facade/managers.py\<close>: the statements by which demands find the actions and bloks whose ports satisfy
  them. Ports are rows of their own (\<open>facade_argport\<close>, \<open>facade_returnport\<close>, \<open>facade_blokargport\<close>), so a match is
  an \<open>EXISTS\<close> over those rows, nested for the children. The parameters are a dict the builders write to;
  every key is named after the place of its match.
\<close>

section \<open>Demands\<close>

datatype port_side = Args | Returns

primrec side_name :: "port_side \<Rightarrow> string" where
  "side_name Args = ''args''"
| "side_name Returns = ''returns''"

record port_demand =
  de_kind :: port_side
  de_matches :: "port_match list option"
  de_force_length :: "int option"
  de_force_non_nullable_length :: "int option"
  de_force_structure_length :: "int option"

primrec port_table :: "port_side \<Rightarrow> string" where
  "port_table Args = ''facade_argport''"
| "port_table Returns = ''facade_returnport''"

primrec count_column :: "port_side \<Rightarrow> string" where
  "count_column Args = ''arg_count''"
| "count_column Returns = ''return_count''"

record port_owner =
  ow_table :: string
  ow_column :: string
  ow_port_tables :: "port_side \<Rightarrow> string option"
  ow_count_columns :: "(port_side \<Rightarrow> string) option"

definition ACTION_PORTS :: port_owner where
  "ACTION_PORTS = \<lparr>ow_table = ''facade_action'', ow_column = ''action_id'', ow_port_tables = (\<lambda>s. Some (port_table s)),
     ow_count_columns = Some count_column\<rparr>"

definition BLOK_PORTS :: port_owner where
  "BLOK_PORTS = \<lparr>ow_table = ''facade_blok'', ow_column = ''blok_id'', ow_port_tables = [Args \<mapsto> ''facade_blokargport''],
     ow_count_columns = None\<rparr>"

text \<open>What a builder reads beside the demand: the moment before which a heartbeat is stale, and how floats are written.\<close>

record match_world =
  mw_cutoff :: int
  mw_float_text :: "rat \<Rightarrow> string"

record match_context =
  mc_world :: match_world
  mc_table :: string
  mc_owner_alias :: string
  mc_owner_column :: string

section \<open>One match\<close>

definition live_agent :: "string \<Rightarrow> string \<Rightarrow> sql_cond" where
  "live_agent a cutoff =
     Any_Of [Eq (Col a ''kind'') (Quoted ''WEBHOOK''),
             All_Of [Holds (Col a ''connected''), Greater (Col a ''last_seen'') (Param cutoff)]]"

definition fits_condition :: "string \<Rightarrow> string \<Rightarrow> string \<Rightarrow> sql_cond" where
  "fits_condition p obj cutoff =
     (let implementations = From ''facade_implementation'' ''i'';
          agents = Join ''facade_agent'' ''g'' [Eq (Col ''g'' ''id'') (Col ''i'' ''agent_id'')];
          on_port = [Eq (Col ''f'' ''implementation_id'') (Col ''i'' ''id''), Eq (Col ''f'' ''port_key'') (Col p ''key'')];
          of_action = [Eq (Col ''i'' ''action_id'') (Col p ''action_id''), live_agent ''g'' cutoff]
      in Any_Of
        [Not_Exists [implementations, agents, Join ''facade_implementationfit'' ''f'' on_port] of_action,
         Exists [implementations, agents, Left_Join ''facade_implementationfit'' ''f'' on_port]
           (of_action @
            [Any_Of [Is_Null (Col ''f'' ''id''),
                     Path_Match (Param obj) (Col ''f'' ''compiled_jsonpath'') (Agent_Vars ''g'')]])])"

text \<open>The structural fields that are given: column, name of the parameter, value.\<close>

definition given_field :: "string \<Rightarrow> string \<Rightarrow> ('a \<Rightarrow> sql_value) \<Rightarrow> 'a option \<Rightarrow> (string \<times> string \<times> sql_value) list" where
  "given_field c k f x = (case x of None \<Rightarrow> [] | Some v \<Rightarrow> [(c, k, f v)])"

definition match_fields :: "string \<Rightarrow> port_match \<Rightarrow> (string \<times> string \<times> sql_value) list" where
  "match_fields path m =
     given_field ''index'' (''at_'' @ path) S_Int (pm_at m) @
     given_field ''key'' (''key_'' @ path) S_Str (pm_key m) @
     given_field ''kind'' (''kind_'' @ path) (S_Str \<circ> port_kind_value) (pm_kind m) @
     given_field ''identifier'' (''ident_'' @ path) S_Str (pm_identifier m) @
     given_field ''dimension'' (''dim_'' @ path) S_Str (pm_dimension m) @
     given_field ''nullable'' (''null_'' @ path) S_Bool (pm_nullable m)"

definition narrows :: "port_match \<Rightarrow> bool" where
  "narrows m \<longleftrightarrow> given (pm_at m) \<or> given (pm_key m) \<or> given (pm_kind m) \<or> given (pm_identifier m) \<or> given (pm_dimension m)"

definition put_params :: "(string \<times> sql_value) list \<Rightarrow> sql_params \<Rightarrow> sql_params" where
  "put_params kvs P = foldl (\<lambda>P (k, v). P(k \<mapsto> v)) P kvs"

definition correlation :: "match_context \<Rightarrow> string option \<Rightarrow> string \<Rightarrow> sql_cond list" where
  "correlation mc parent a =
     (case parent of
        None \<Rightarrow> [Eq (Col a (mc_owner_column mc)) (Col (mc_owner_alias mc) ''id''), Is_Null (Col a ''parent_id'')]
      | Some q \<Rightarrow> [Eq (Col a ''parent_id'') (Col q ''id'')])"

definition tests_fits :: "match_context \<Rightarrow> string option \<Rightarrow> bool" where
  "tests_fits mc parent \<longleftrightarrow> parent = None \<and> mc_owner_column mc = ''action_id'' \<and> mc_table mc = port_table Args"

definition accepts_object :: "string \<Rightarrow> string \<Rightarrow> sql_cond" where
  "accepts_object a obj =
     Any_Of [Is_Null (Col a ''compiled_jsonpath''), Path_Match (Param obj) (Col a ''compiled_jsonpath'') No_Vars]"

definition descriptor_conds :: "match_context \<Rightarrow> string option \<Rightarrow> string \<Rightarrow> string \<Rightarrow> sql_cond list" where
  "descriptor_conds mc parent a path =
     (if tests_fits mc parent then [fits_condition a (''obj_'' @ path) (''cutoff_'' @ path)] else [])
     @ [accepts_object a (''obj_'' @ path)]"

definition object_text :: "(rat \<Rightarrow> string) \<Rightarrow> (string \<times> json) list \<Rightarrow> string" where
  "object_text float_text ds = dumps float_text (JObj (dict_items ds))"

definition descriptor_params :: "match_context \<Rightarrow> string option \<Rightarrow> string \<Rightarrow> (string \<times> json) list \<Rightarrow> (string \<times> sql_value) list" where
  "descriptor_params mc parent path ds =
     (''obj_'' @ path, S_Str (object_text (mw_float_text (mc_world mc)) ds)) #
     (if tests_fits mc parent then [(''cutoff_'' @ path, S_Time (mw_cutoff (mc_world mc)))] else [])"

fun match_exists ::
    "match_context \<Rightarrow> string option \<Rightarrow> string \<Rightarrow> port_match \<Rightarrow> sql_params \<Rightarrow> (sql_cond \<times> sql_params) result"
  and children_exist ::
    "match_context \<Rightarrow> string \<Rightarrow> string \<Rightarrow> nat \<Rightarrow> port_match list \<Rightarrow> sql_params \<Rightarrow> (sql_cond list \<times> sql_params) result" where
  "match_exists mc parent path (PortMatch at' key kind ident nullable dim' descs cs) P =
     (let m = PortMatch at' key kind ident nullable dim' descs cs;
          a = ''p_'' @ path;
          given_fields = match_fields path m;
          ds = or_nil descs
      in if ds \<noteq> [] \<and> parent = None \<and> \<not> narrows m
         then Inl (ValueError [Txt ''A root port match with descriptors must also narrow structurally''])
         else and_then (children_exist mc a path 0 (or_nil cs)
                (put_params (map snd given_fields @ (if ds = [] then [] else descriptor_params mc parent path ds)) P))
              (\<lambda>(nested, P'). Inr
                (Exists [From (mc_table mc) a]
                   (correlation mc parent a
                    @ map (\<lambda>(c, k, _). Eq (Col a c) (Param k)) given_fields
                    @ (if ds = [] then [] else descriptor_conds mc parent a path)
                    @ nested), P')))"
| "children_exist mc q path i [] P = Inr ([], P)"
| "children_exist mc q path i (c # cs) P =
     and_then (match_exists mc (Some q) (path @ ''_'' @ show_nat i) c P) (\<lambda>(x, P').
     and_then (children_exist mc q path (Suc i) cs P') (\<lambda>(xs, P''). Inr (x # xs, P'')))"

section \<open>Port demands\<close>

definition root_count :: "string \<Rightarrow> string \<Rightarrow> string \<Rightarrow> sql_cond \<Rightarrow> string \<Rightarrow> sql_cond" where
  "root_count table column a extra k =
     Count_Is [From table ''pc''] [Eq (Col ''pc'' column) (Col a ''id''), Is_Null (Col ''pc'' ''parent_id''), extra] (Param k)"

definition matches_exist ::
  "match_context \<Rightarrow> string \<Rightarrow> port_match list \<Rightarrow> sql_params \<Rightarrow> (sql_cond list \<times> sql_params) result" where
  "matches_exist mc path ms P =
     fold_result (\<lambda>(i, m) (cs, P). and_then (match_exists mc None (path @ ''_'' @ show_nat i) m P) (\<lambda>(c, P'). Inr (cs @ [c], P')))
       (enumerate 0 ms) ([], P)"

text \<open>A clause that compares with one number, when it is given.\<close>

definition number_clause :: "int option \<Rightarrow> string \<Rightarrow> (string \<Rightarrow> sql_cond) \<Rightarrow> sql_cond list \<times> sql_params \<Rightarrow> sql_cond list \<times> sql_params" where
  "number_clause n k clause = (\<lambda>(cs, P). case n of None \<Rightarrow> (cs, P) | Some v \<Rightarrow> (cs @ [clause k], P(k \<mapsto> S_Int v)))"

definition demand_clauses ::
  "match_world \<Rightarrow> port_owner \<Rightarrow> nat \<Rightarrow> port_demand \<Rightarrow> sql_cond list \<times> sql_params \<Rightarrow> (sql_cond list \<times> sql_params) result" where
  "demand_clauses w owner d demand = (\<lambda>(cs, P).
     case ow_port_tables owner (de_kind demand) of
       None \<Rightarrow> Inl (ValueError [Txt (ow_table owner), Txt '' rows have no '', Txt (side_name (de_kind demand)), Txt '' ports to demand''])
     | Some table \<Rightarrow>
         let mc = \<lparr>mc_world = w, mc_table = table, mc_owner_alias = ''a'', mc_owner_column = ow_column owner\<rparr>;
             n = show_nat d
         in and_then (matches_exist mc n (or_nil (de_matches demand)) P) (\<lambda>(ms, P').
            Inr (number_clause (de_force_structure_length demand) (''force_structure_'' @ n)
                   (root_count table (ow_column owner) ''a'' (Eq (Col ''pc'' ''kind'') (Quoted ''STRUCTURE'')))
                 (number_clause (de_force_non_nullable_length demand) (''force_non_nullable_'' @ n)
                   (root_count table (ow_column owner) ''a'' (Is_False (Col ''pc'' ''nullable'')))
                 (number_clause (de_force_length demand) (''force_length_'' @ n)
                   (case ow_count_columns owner of
                      Some columns \<Rightarrow> \<lambda>k. Eq (Col ''a'' (columns (de_kind demand))) (Param k)
                    | None \<Rightarrow> root_count table (ow_column owner) ''a'' Always)
                 (cs @ ms, P'))))))"

definition port_demand_sql ::
  "match_world \<Rightarrow> port_demand list \<Rightarrow> int option \<Rightarrow> port_owner \<Rightarrow> (sql_select \<times> sql_params) result" where
  "port_demand_sql w demands org owner =
     (let start = (case org of None \<Rightarrow> ([], Map.empty)
                   | Some n \<Rightarrow> ([Eq (Col ''a'' ''organization_id'') (Param ''org'')], [''org'' \<mapsto> S_Int n]))
      in and_then (fold_result (\<lambda>(d, demand) s. demand_clauses w owner d demand s) (enumerate 0 demands) start) (\<lambda>(cs, P).
         if cs = [] then Inl (ValueError [Txt ''No search params provided''])
         else Inr (\<lparr>se_table = ow_table owner, se_alias = ''a'', se_where = cs\<rparr>, P)))"

end
