(* ===== verification/Matching_Facts.thy ===== *)
theory Matching_Facts
  imports Matching
begin

text \<open>
  What the statements of \<open>Matching\<close> select. The rows they read are records here, and what a demand asks of
  them is said on these records; the statements are shown to select exactly the rows that meet it.
\<close>

section \<open>Parameter names\<close>

text \<open>
  Every parameter of a match is a prefix and the path of the match. Two matches have different paths,
  and no path is another's continued by a digit, so no builder overwrites a parameter of another.
\<close>

definition match_prefixes :: "string list" where
  "match_prefixes = [''at_'', ''key_'', ''kind_'', ''ident_'', ''dim_'', ''null_'', ''obj_'', ''cutoff_'']"

definition path_below :: "string \<Rightarrow> string \<Rightarrow> bool" where
  "path_below p q \<longleftrightarrow> (\<exists>r. q = p @ r \<and> (r = [] \<or> hd r = CHR ''_''))"

definition keys_below :: "string \<Rightarrow> string set" where
  "keys_below p = {pre @ q |pre q. pre \<in> set match_prefixes \<and> path_below p q}"

lemma prefix_inject:
  assumes "pre \<in> set match_prefixes" "pre' \<in> set match_prefixes"
  shows "pre @ q = pre' @ q' \<longleftrightarrow> pre = pre' \<and> q = q'"
proof -
  have word: "takeWhile (\<lambda>c. c \<noteq> CHR ''_'') (pre @ q) @ [CHR ''_''] = pre" if "pre \<in> set match_prefixes" for pre q
    using that by (auto simp: match_prefixes_def)
  show ?thesis using word [OF assms(1), of q] word [OF assms(2), of q'] by (metis append_eq_append_conv same_append_eq)
qed

lemma path_below_refl [simp]: "path_below p p"
  by (simp add: path_below_def)

lemma path_below_trans: "path_below p q \<Longrightarrow> path_below q r \<Longrightarrow> path_below p r"
  by (auto simp: path_below_def hd_append)

lemma path_below_child [simp]: "path_below p (p @ CHR ''_'' # r)"
  by (simp add: path_below_def)

lemma keys_below_mono:
  assumes "path_below p q"
  shows "keys_below q \<subseteq> keys_below p"
proof
  fix k assume "k \<in> keys_below q"
  then obtain pre r where "k = pre @ r" "pre \<in> set match_prefixes" "path_below q r" unfolding keys_below_def by blast
  moreover from this(3) have "path_below p r" using path_below_trans [OF assms] by blast
  ultimately show "k \<in> keys_below p" unfolding keys_below_def by blast
qed

lemma show_nat_part: "r = [] \<or> hd r = CHR ''_'' \<Longrightarrow> takeWhile is_digit (show_nat n @ r) = show_nat n"
proof -
  assume "r = [] \<or> hd r = CHR ''_''"
  moreover have "\<not> is_digit (CHR ''_'')" by (simp add: is_digit_def)
  ultimately have "takeWhile is_digit r = []" by (cases r) auto
  then show ?thesis using show_nat_digits [of n] by (auto simp: takeWhile_append list_all_iff)
qed

lemma below_both:
  assumes "path_below (p @ CHR ''_'' # show_nat i) q" "path_below (p @ CHR ''_'' # show_nat j) q"
  shows "i = j"
proof -
  obtain r where r: "q = (p @ CHR ''_'' # show_nat i) @ r" "r = [] \<or> hd r = CHR ''_''"
    using assms(1) unfolding path_below_def by blast
  obtain r' where r': "q = (p @ CHR ''_'' # show_nat j) @ r'" "r' = [] \<or> hd r' = CHR ''_''"
    using assms(2) unfolding path_below_def by blast
  from r(1) r'(1) have "show_nat i @ r = show_nat j @ r'" by simp
  then have "show_nat i = show_nat j" using show_nat_part [OF r(2), of i] show_nat_part [OF r'(2), of j] by simp
  then show ?thesis by (metis read_show_nat)
qed

lemma siblings_disjoint: "i \<noteq> j \<Longrightarrow> keys_below (p @ CHR ''_'' # show_nat i) \<inter> keys_below (p @ CHR ''_'' # show_nat j) = {}"
  using below_both by (auto simp: keys_below_def prefix_inject)

lemma own_key_not_below: "pre \<in> set match_prefixes \<Longrightarrow> pre @ p \<notin> keys_below (p @ CHR ''_'' # r)"
  by (auto simp: keys_below_def prefix_inject path_below_def)

section \<open>Writing parameters\<close>

lemma put_params_Nil [simp]: "put_params [] P = P"
  by (simp add: put_params_def)

lemma put_params_other: "k \<notin> fst ` set kvs \<Longrightarrow> put_params kvs P k = P k"
proof (induction kvs arbitrary: P)
  case (Cons kv kvs)
  then show ?case by (cases kv) (simp add: put_params_def)
qed simp

lemma put_params_at: "distinct (map fst kvs) \<Longrightarrow> (k, v) \<in> set kvs \<Longrightarrow> put_params kvs P k = Some v"
proof (induction kvs arbitrary: P)
  case (Cons kv kvs)
  obtain k' v' where kv: "kv = (k', v')" by fastforce
  show ?case
  proof (cases "(k, v) \<in> set kvs")
    case True
    with Cons kv show ?thesis by (simp add: put_params_def)
  next
    case False
    with Cons.prems kv have "k = k'" "v = v'" "k \<notin> fst ` set kvs" by (auto simp: image_iff)
    then show ?thesis using put_params_other [of k kvs "P(k \<mapsto> v)"] by (simp add: put_params_def kv)
  qed
qed simp

definition match_params :: "match_context \<Rightarrow> string option \<Rightarrow> string \<Rightarrow> port_match \<Rightarrow> (string \<times> sql_value) list" where
  "match_params mc parent path m =
     map snd (match_fields path m) @
     (if or_nil (pm_descriptors m) = [] then [] else descriptor_params mc parent path (or_nil (pm_descriptors m)))"

definition field_keys :: "(string \<times> string \<times> sql_value) list \<Rightarrow> string list" where
  "field_keys fs = map (\<lambda>(c, k, v). k) fs"

lemma field_keys_append [simp]: "field_keys (xs @ ys) = field_keys xs @ field_keys ys"
  by (simp add: field_keys_def)

lemma field_keys_given [simp]: "field_keys (given_field c k f x) = (if given x then [k] else [])"
  by (cases x) (simp_all add: given_field_def field_keys_def)

lemma keys_of_fields: "map fst (map snd fs) = field_keys fs"
  by (simp add: field_keys_def case_prod_unfold)

lemma six_fields:
  "set (field_keys (given_field c1 k1 f1 x1 @ given_field c2 k2 f2 x2 @ given_field c3 k3 f3 x3 @ given_field c4 k4 f4 x4
     @ given_field c5 k5 f5 x5 @ given_field c6 k6 f6 x6)) \<subseteq> {k1, k2, k3, k4, k5, k6}"
  "distinct [k1, k2, k3, k4, k5, k6] \<Longrightarrow>
   distinct (field_keys (given_field c1 k1 f1 x1 @ given_field c2 k2 f2 x2 @ given_field c3 k3 f3 x3 @ given_field c4 k4 f4 x4
     @ given_field c5 k5 f5 x5 @ given_field c6 k6 f6 x6))"
  by (simp_all only: field_keys_append field_keys_given) auto

definition field_names :: "string \<Rightarrow> string list" where
  "field_names path = [''at_'' @ path, ''key_'' @ path, ''kind_'' @ path, ''ident_'' @ path, ''dim_'' @ path, ''null_'' @ path]"

lemma field_names_distinct: "distinct (field_names path @ [''obj_'' @ path, ''cutoff_'' @ path])"
  by (simp add: field_names_def)

lemma match_fields_keys: "set (field_keys (match_fields path m)) \<subseteq> set (field_names path)"
  unfolding match_fields_def field_names_def list.set using six_fields(1) by fast

lemma match_fields_distinct: "distinct (field_keys (match_fields path m))"
  unfolding match_fields_def by (rule six_fields(2)) simp

lemma match_params_map:
  "map fst (match_params mc parent path m) =
     field_keys (match_fields path m)
     @ (if or_nil (pm_descriptors m) = [] then [] else (''obj_'' @ path) # (if tests_fits mc parent then [''cutoff_'' @ path] else []))"
  by (simp add: match_params_def keys_of_fields descriptor_params_def del: map_map)

lemma match_params_subset: "fst ` set (match_params mc parent path m) \<subseteq> set (field_names path) \<union> {''obj_'' @ path, ''cutoff_'' @ path}"
  using match_fields_keys [of path m] unfolding set_map [symmetric] match_params_map by (auto split: if_splits)

lemma match_params_keys: "fst ` set (match_params mc parent path m) \<subseteq> {pre @ path |pre. pre \<in> set match_prefixes}"
proof -
  have "set (field_names path) \<union> {''obj_'' @ path, ''cutoff_'' @ path} \<subseteq> {pre @ path |pre. pre \<in> set match_prefixes}"
    unfolding setcompr_eq_image field_names_def match_prefixes_def list.set image_insert image_empty by simp
  with match_params_subset show ?thesis by blast
qed

lemma match_params_distinct: "distinct (map fst (match_params mc parent path m))"
proof -
  define o' c' where "o' = ''obj_'' @ path" and "c' = ''cutoff_'' @ path"
  have "o' \<notin> set (field_names path)" "c' \<notin> set (field_names path)" "o' \<noteq> c'"
    using field_names_distinct [of path] unfolding o'_def c'_def by (simp_all only: distinct_append) auto
  then show ?thesis
    using match_fields_keys [of path m] match_fields_distinct [of path m]
    unfolding match_params_map o'_def [symmetric] c'_def [symmetric] by auto
qed

lemma own_keys_below: "fst ` set (match_params mc parent path m) \<subseteq> keys_below path"
proof -
  have "{pre @ path |pre. pre \<in> set match_prefixes} \<subseteq> keys_below path"
    unfolding keys_below_def using path_below_refl [of path] by blast
  with match_params_keys show ?thesis by blast
qed

lemma match_exists_unfold:
  "match_exists mc parent path m P =
     (if or_nil (pm_descriptors m) \<noteq> [] \<and> parent = None \<and> \<not> narrows m
      then Inl (ValueError [Txt ''A root port match with descriptors must also narrow structurally''])
      else and_then (children_exist mc (''p_'' @ path) path 0 (or_nil (pm_children m)) (put_params (match_params mc parent path m) P))
        (\<lambda>(nested, P'). Inr
          (Exists [From (mc_table mc) (''p_'' @ path)]
             (correlation mc parent (''p_'' @ path)
              @ map (\<lambda>(c, k, _). Eq (Col (''p_'' @ path) c) (Param k)) (match_fields path m)
              @ (if or_nil (pm_descriptors m) = [] then [] else descriptor_conds mc parent (''p_'' @ path) path)
              @ nested), P')))"
  by (cases m) (simp add: Let_def match_params_def)

text \<open>A builder writes only below its path.\<close>

lemma builders_frame:
  "match_exists mc parent path m P = Inr (x, P') \<Longrightarrow> k \<notin> keys_below path \<Longrightarrow> P' k = P k"
  "children_exist mc q path i ms P = Inr (xs, P') \<Longrightarrow> (\<And>j. i \<le> j \<Longrightarrow> k \<notin> keys_below (path @ CHR ''_'' # show_nat j)) \<Longrightarrow> P' k = P k"
proof (induction mc parent path m P and mc q path i ms P arbitrary: x P' and xs P' rule: match_exists_children_exist.induct)
  case (1 mc parent path at' key kind ident nullable dim' descs cs P)
  let ?m = "PortMatch at' key kind ident nullable dim' descs cs"
  define Q where "Q = put_params (match_params mc parent path ?m) P"
  have Q: "put_params (map snd (match_fields path ?m) @ (if or_nil descs = [] then [] else descriptor_params mc parent path (or_nil descs))) P = Q"
    unfolding Q_def match_params_def port_match.sel by (rule refl)
  note IH = 1(1) [OF refl refl refl refl, unfolded Q]
  obtain nested where built: "children_exist mc (''p_'' @ path) path 0 (or_nil cs) Q = Inr (nested, P')"
    "\<not> (or_nil descs \<noteq> [] \<and> parent = None \<and> \<not> narrows ?m)"
    using 1(2) by (auto simp: match_exists_unfold Q_def and_then_Inr split: if_splits)
  have "k \<notin> keys_below (path @ CHR ''_'' # show_nat j)" for j
    using 1(3) keys_below_mono [of path "path @ CHR ''_'' # show_nat j"] by auto
  then have "P' k = Q k" using IH [OF built(2,1)] by blast
  also have "Q k = put_params (match_params mc parent path ?m) P k" by (simp add: Q_def)
  also have "\<dots> = P k"
    using 1(3) own_keys_below [of mc parent path ?m] by (intro put_params_other) auto
  finally show ?case .
next
  case (2 mc q path i P)
  then show ?case by simp
next
  case (3 mc q path i c cs P)
  then obtain x P1 xs where "match_exists mc (Some q) (path @ CHR ''_'' # show_nat i) c P = Inr (x, P1)"
    "children_exist mc q path (Suc i) cs P1 = Inr (xs, P')"
    by (auto simp: and_then_Inr)
  with 3 have "P1 k = P k" "P' k = P1 k" by (auto simp: Suc_le_eq)
  then show ?case by simp
qed

end
