(* ===== verification/Matching_Meaning.thy ===== *)
theory Matching_Meaning
  imports Matching_Facts
begin

text \<open>
  What a port demand promises, and that the statements of \<open>Matching\<close> implement it. The rows the
  statements read are records here (\<open>models/action.py\<close>, \<open>models/implementation.py\<close>, \<open>models/agent.py\<close>),
  a demand is met by an owner in terms of these records, without SQL, and \<open>port_demand_sql\<close> selects
  exactly the owners that meet every demand.
\<close>

section \<open>The rows\<close>

record matched_port =
  po_id :: int
  po_owner :: int
  po_parent :: "int option"
  po_index :: int
  po_key :: "string option"
  po_kind :: "string option"
  po_identifier :: "string option"
  po_dimension :: "string option"
  po_nullable :: bool
  po_jsonpath :: "string option"

record owner_row =
  own_id :: int
  own_organization :: int
  own_count :: "port_side \<Rightarrow> int"

record agent_row =
  ag_id :: int
  ag_kind :: string
  ag_connected :: bool
  ag_last_seen :: "int option"
  ag_hardware :: "json option"

record implementation_row =
  im_id :: int
  im_action :: int
  im_agent :: int

record fit_row =
  ft_id :: int
  ft_implementation :: int
  ft_port_key :: string
  ft_jsonpath :: string

record match_hub =
  mh_ports :: "string \<Rightarrow> matched_port list"
  mh_owners :: "string \<Rightarrow> owner_row list"
  mh_agents :: "agent_row list"
  mh_implementations :: "implementation_row list"
  mh_fits :: "fit_row list"
  mh_path_match :: "string \<Rightarrow> string \<Rightarrow> json \<Rightarrow> bool option"

definition nullable_value :: "('a \<Rightarrow> sql_value) \<Rightarrow> 'a option \<Rightarrow> sql_value" where
  "nullable_value f x = (case x of None \<Rightarrow> Null | Some v \<Rightarrow> f v)"

definition row_of :: "(string \<times> sql_value) list \<Rightarrow> sql_row" where
  "row_of cvs c = (case map_of cvs c of None \<Rightarrow> Null | Some v \<Rightarrow> v)"

definition port_columns :: "string \<Rightarrow> matched_port \<Rightarrow> sql_row" where
  "port_columns owner_column r = row_of
     [(''id'', S_Int (po_id r)), (owner_column, S_Int (po_owner r)), (''parent_id'', nullable_value S_Int (po_parent r)),
      (''index'', S_Int (po_index r)), (''key'', nullable_value S_Str (po_key r)), (''kind'', nullable_value S_Str (po_kind r)),
      (''identifier'', nullable_value S_Str (po_identifier r)), (''dimension'', nullable_value S_Str (po_dimension r)),
      (''nullable'', S_Bool (po_nullable r)), (''compiled_jsonpath'', nullable_value S_Str (po_jsonpath r))]"

definition owner_columns :: "owner_row \<Rightarrow> sql_row" where
  "owner_columns r = row_of
     [(''id'', S_Int (own_id r)), (''organization_id'', S_Int (own_organization r)),
      (''arg_count'', S_Int (own_count r Args)), (''return_count'', S_Int (own_count r Returns))]"

definition agent_columns :: "agent_row \<Rightarrow> sql_row" where
  "agent_columns r = row_of
     [(''id'', S_Int (ag_id r)), (''kind'', S_Str (ag_kind r)), (''connected'', S_Bool (ag_connected r)),
      (''last_seen'', nullable_value S_Time (ag_last_seen r)), (''hardware'', nullable_value S_Json (ag_hardware r))]"

definition implementation_columns :: "implementation_row \<Rightarrow> sql_row" where
  "implementation_columns r = row_of
     [(''id'', S_Int (im_id r)), (''action_id'', S_Int (im_action r)), (''agent_id'', S_Int (im_agent r))]"

definition fit_columns :: "fit_row \<Rightarrow> sql_row" where
  "fit_columns r = row_of
     [(''id'', S_Int (ft_id r)), (''implementation_id'', S_Int (ft_implementation r)),
      (''port_key'', S_Str (ft_port_key r)), (''compiled_jsonpath'', S_Str (ft_jsonpath r))]"

text \<open>The tables a statement over an owner reads.\<close>

definition hub_tables :: "match_hub \<Rightarrow> port_owner \<Rightarrow> string \<Rightarrow> sql_row list" where
  "hub_tables h owner t =
     (if t = ow_table owner then map owner_columns (mh_owners h t)
      else if t = ''facade_implementation'' then map implementation_columns (mh_implementations h)
      else if t = ''facade_agent'' then map agent_columns (mh_agents h)
      else if t = ''facade_implementationfit'' then map fit_columns (mh_fits h)
      else map (port_columns (ow_column owner)) (mh_ports h t))"

definition hub_sql :: "match_hub \<Rightarrow> port_owner \<Rightarrow> sql_params \<Rightarrow> sql_db" where
  "hub_sql h owner P = \<lparr>sq_tables = hub_tables h owner, sq_params = P, sq_path_match = mh_path_match h\<rparr>"

section \<open>What a demand asks for\<close>

definition agent_live :: "int \<Rightarrow> agent_row \<Rightarrow> bool" where
  "agent_live cutoff g \<longleftrightarrow>
     ag_kind g = ''WEBHOOK'' \<or> ag_connected g \<and> (case ag_last_seen g of None \<Rightarrow> False | Some t \<Rightarrow> t > cutoff)"

definition agent_object :: "agent_row \<Rightarrow> json" where
  "agent_object g = JObj [(''agent'', case ag_hardware g of None \<Rightarrow> JObj [] | Some j \<Rightarrow> j)]"

text \<open>A live implementation of an action, with its agent.\<close>

definition live_implementations :: "match_hub \<Rightarrow> int \<Rightarrow> int \<Rightarrow> (implementation_row \<times> agent_row) set" where
  "live_implementations h cutoff action =
     {(i, g). i \<in> set (mh_implementations h) \<and> g \<in> set (mh_agents h) \<and> ag_id g = im_agent i \<and> im_action i = action \<and>
        agent_live cutoff g}"

definition port_fits :: "match_hub \<Rightarrow> implementation_row \<Rightarrow> matched_port \<Rightarrow> fit_row set" where
  "port_fits h i r = {f \<in> set (mh_fits h). ft_implementation f = im_id i \<and> po_key r = Some (ft_port_key f)}"

text \<open>
  An action is hidden only when every live implementation refuses the object: one that states no limit on
  the port accepts it, and when none states a limit nothing is refused.
\<close>

definition can_handle :: "match_hub \<Rightarrow> int \<Rightarrow> string \<Rightarrow> matched_port \<Rightarrow> bool" where
  "can_handle h cutoff obj r \<longleftrightarrow>
     (\<forall>(i, g) \<in> live_implementations h cutoff (po_owner r). port_fits h i r = {}) \<or>
     (\<exists>(i, g) \<in> live_implementations h cutoff (po_owner r).
        port_fits h i r = {} \<or> (\<exists>f \<in> port_fits h i r. mh_path_match h obj (ft_jsonpath f) (agent_object g) = Some True))"

definition port_accepts :: "match_hub \<Rightarrow> string \<Rightarrow> matched_port \<Rightarrow> bool" where
  "port_accepts h obj r \<longleftrightarrow>
     (case po_jsonpath r of None \<Rightarrow> True | Some path \<Rightarrow> mh_path_match h obj path (JObj []) = Some True)"

definition asked :: "'a option \<Rightarrow> 'a option \<Rightarrow> bool" where
  "asked x v \<longleftrightarrow> (case x of None \<Rightarrow> True | Some y \<Rightarrow> v = Some y)"

definition fields_meet :: "port_match \<Rightarrow> matched_port \<Rightarrow> bool" where
  "fields_meet m r \<longleftrightarrow>
     asked (pm_at m) (Some (po_index r)) \<and> asked (pm_key m) (po_key r) \<and>
     asked (map_option port_kind_value (pm_kind m)) (po_kind r) \<and> asked (pm_identifier m) (po_identifier r) \<and>
     asked (pm_dimension m) (po_dimension r) \<and> asked (pm_nullable m) (Some (po_nullable r))"

definition object_accepted :: "match_hub \<Rightarrow> match_context \<Rightarrow> bool \<Rightarrow> port_match \<Rightarrow> matched_port \<Rightarrow> bool" where
  "object_accepted h mc is_child m r \<longleftrightarrow>
     (let obj = object_text (mw_float_text (mc_world mc)) (or_nil (pm_descriptors m)) in
      or_nil (pm_descriptors m) = [] \<or>
      port_accepts h obj r \<and>
      (\<not> is_child \<and> mc_owner_column mc = ''action_id'' \<and> mc_table mc = port_table Args \<longrightarrow>
       can_handle h (mw_cutoff (mc_world mc)) obj r))"

text \<open>A port row meets a match: its fields are as asked, it accepts the object, and each child is met by a child row.\<close>

function port_meets :: "match_hub \<Rightarrow> match_context \<Rightarrow> bool \<Rightarrow> port_match \<Rightarrow> matched_port \<Rightarrow> bool" where
  "port_meets h mc is_child m r \<longleftrightarrow>
     fields_meet m r \<and> object_accepted h mc is_child m r \<and>
     list_all (\<lambda>c. list_ex (\<lambda>r'. po_parent r' = Some (po_id r) \<and> port_meets h mc True c r') (mh_ports h (mc_table mc)))
       (or_nil (pm_children m))"
  by pat_completeness auto
termination
proof (relation "measure (\<lambda>(h, mc, b, m, r). size m)", simp, clarsimp)
  fix m c assume "c \<in> set (or_nil (pm_children m))"
  then show "size c < size m" by (cases m) (simp add: less_Suc_eq_le less_imp_le [OF size_mem_or_nil])
qed

definition root_meets :: "match_hub \<Rightarrow> match_context \<Rightarrow> int \<Rightarrow> port_match \<Rightarrow> bool" where
  "root_meets h mc n m \<longleftrightarrow>
     (\<exists>r \<in> set (mh_ports h (mc_table mc)). po_owner r = n \<and> po_parent r = None \<and> port_meets h mc False m r)"

definition roots_where :: "match_hub \<Rightarrow> string \<Rightarrow> int \<Rightarrow> (matched_port \<Rightarrow> bool) \<Rightarrow> int" where
  "roots_where h table n p = int (length (filter (\<lambda>r. po_owner r = n \<and> po_parent r = None \<and> p r) (mh_ports h table)))"

definition demand_met :: "match_hub \<Rightarrow> match_world \<Rightarrow> port_owner \<Rightarrow> port_demand \<Rightarrow> owner_row \<Rightarrow> bool" where
  "demand_met h w owner demand o' \<longleftrightarrow>
     (case ow_port_tables owner (de_kind demand) of
        None \<Rightarrow> False
      | Some table \<Rightarrow>
          list_all (root_meets h \<lparr>mc_world = w, mc_table = table, mc_owner_alias = ''a'', mc_owner_column = ow_column owner\<rparr>
            (own_id o')) (or_nil (de_matches demand)) \<and>
          asked (de_force_length demand)
            (Some (if ow_count_columns owner = None then roots_where h table (own_id o') (\<lambda>_. True) else own_count o' (de_kind demand))) \<and>
          asked (de_force_non_nullable_length demand) (Some (roots_where h table (own_id o') (\<lambda>r. \<not> po_nullable r))) \<and>
          asked (de_force_structure_length demand) (Some (roots_where h table (own_id o') (\<lambda>r. po_kind r = Some ''STRUCTURE''))))"

section \<open>Reading the rows\<close>

declare port_meets.simps [simp del]

lemma nullable_value_simps [simp]:
  "nullable_value f None = Null" "nullable_value f (Some v) = f v"
  by (simp_all add: nullable_value_def)

lemma nullable_value_Null [simp]:
  "nullable_value S_Int x = Null \<longleftrightarrow> x = None" "nullable_value S_Str y = Null \<longleftrightarrow> y = None"
  by (auto simp: nullable_value_def split: option.splits)

lemma nullable_value_eq [simp]:
  "nullable_value S_Int x = S_Int n \<longleftrightarrow> x = Some n" "nullable_value S_Str y = S_Str s \<longleftrightarrow> y = Some s"
  "S_Int n = nullable_value S_Int x \<longleftrightarrow> x = Some n" "S_Str s = nullable_value S_Str y \<longleftrightarrow> y = Some s"
  by (auto simp: nullable_value_def split: option.splits)

definition owner_column_ok :: "string \<Rightarrow> bool" where
  "owner_column_ok c \<longleftrightarrow> c \<in> {''action_id'', ''blok_id''}"

lemma port_columns_simps [simp]:
  "port_columns oc r ''id'' = S_Int (po_id r)"
  "owner_column_ok oc \<Longrightarrow> port_columns oc r oc = S_Int (po_owner r)"
  "owner_column_ok oc \<Longrightarrow> port_columns oc r ''parent_id'' = nullable_value S_Int (po_parent r)"
  "owner_column_ok oc \<Longrightarrow> port_columns oc r ''index'' = S_Int (po_index r)"
  "owner_column_ok oc \<Longrightarrow> port_columns oc r ''key'' = nullable_value S_Str (po_key r)"
  "owner_column_ok oc \<Longrightarrow> port_columns oc r ''kind'' = nullable_value S_Str (po_kind r)"
  "owner_column_ok oc \<Longrightarrow> port_columns oc r ''identifier'' = nullable_value S_Str (po_identifier r)"
  "owner_column_ok oc \<Longrightarrow> port_columns oc r ''dimension'' = nullable_value S_Str (po_dimension r)"
  "owner_column_ok oc \<Longrightarrow> port_columns oc r ''nullable'' = S_Bool (po_nullable r)"
  "owner_column_ok oc \<Longrightarrow> port_columns oc r ''compiled_jsonpath'' = nullable_value S_Str (po_jsonpath r)"
  by (simp add: port_columns_def row_of_def, (unfold owner_column_ok_def insert_iff empty_iff, elim disjE; simp add: port_columns_def row_of_def)+)

lemma action_column_ok [simp]: "owner_column_ok ''action_id''" "owner_column_ok ''blok_id''"
  by (simp_all add: owner_column_ok_def)

lemma row_columns_simps [simp]:
  "owner_columns w ''id'' = S_Int (own_id w)"
  "owner_columns w ''organization_id'' = S_Int (own_organization w)"
  "owner_columns w (count_column s) = S_Int (own_count w s)"
  "agent_columns g ''id'' = S_Int (ag_id g)"
  "agent_columns g ''kind'' = S_Str (ag_kind g)"
  "agent_columns g ''connected'' = S_Bool (ag_connected g)"
  "agent_columns g ''last_seen'' = nullable_value S_Time (ag_last_seen g)"
  "agent_columns g ''hardware'' = nullable_value S_Json (ag_hardware g)"
  "implementation_columns i ''id'' = S_Int (im_id i)"
  "implementation_columns i ''action_id'' = S_Int (im_action i)"
  "implementation_columns i ''agent_id'' = S_Int (im_agent i)"
  "fit_columns f ''id'' = S_Int (ft_id f)"
  "fit_columns f ''implementation_id'' = S_Int (ft_implementation f)"
  "fit_columns f ''port_key'' = S_Str (ft_port_key f)"
  "fit_columns f ''compiled_jsonpath'' = S_Str (ft_jsonpath f)"
  by (cases s; simp add: owner_columns_def agent_columns_def implementation_columns_def fit_columns_def row_of_def)+

lemma hub_sql_simps [simp]:
  "sq_tables (hub_sql h owner P) = hub_tables h owner" "sq_params (hub_sql h owner P) = P"
  "sq_path_match (hub_sql h owner P) = mh_path_match h"
  by (simp_all add: hub_sql_def)

lemma truth_True [sql_true]: "truth v = Some True \<longleftrightarrow> v = S_Bool True"
  by (cases v) auto

lemma last_seen_greater [sql_true]:
  "sql_greater (nullable_value S_Time x) (S_Time t) = Some True \<longleftrightarrow> (case x of None \<Rightarrow> False | Some s \<Rightarrow> s > t)"
  by (cases x) auto

lemma live_agent_true:
  assumes "e a = agent_columns g" "sq_params db cutoff = Some (S_Time t)"
  shows "cond_value db e (live_agent a cutoff) = Some True \<longleftrightarrow> agent_live t g"
  using assms by (simp add: live_agent_def agent_live_def sql_true)

lemma accepts_object_true:
  assumes "e a = port_columns oc r" "owner_column_ok oc" "P obj = Some (S_Str text)"
  shows "cond_value (hub_sql h owner P) e (accepts_object a obj) = Some True \<longleftrightarrow> port_accepts h text r"
  using assms by (cases "po_jsonpath r") (simp_all add: accepts_object_def port_accepts_def sql_true)

lemma agent_object_value:
  "e a = agent_columns g \<Longrightarrow> vars_value e (Agent_Vars a) = agent_object g"
  by (cases "ag_hardware g") (simp_all add: agent_object_def)


section \<open>Implementations that can handle an object\<close>

lemma hub_tables_simps [simp]:
  "hub_tables h ACTION_PORTS ''facade_implementation'' = map implementation_columns (mh_implementations h)"
  "hub_tables h ACTION_PORTS ''facade_agent'' = map agent_columns (mh_agents h)"
  "hub_tables h ACTION_PORTS ''facade_implementationfit'' = map fit_columns (mh_fits h)"
  by (simp_all add: hub_tables_def ACTION_PORTS_def)

lemma all_value_append: "all_value db e (cs @ ds) = Some True \<longleftrightarrow> all_value db e cs = Some True \<and> all_value db e ds = Some True"
  by (auto simp: all_value_True)

lemma list_ex_joined:
  "list_ex Q (from_rows db e (From t a # fs)) \<longleftrightarrow> (\<exists>r \<in> set (sq_tables db t). list_ex Q (from_rows db (e(a := r)) fs))"
  "list_ex Q (from_rows db e (Join t a cs # fs)) \<longleftrightarrow>
     (\<exists>r \<in> set (sq_tables db t). all_value db (e(a := r)) cs = Some True \<and> list_ex Q (from_rows db (e(a := r)) fs))"
  "list_ex Q (from_rows db e (Left_Join t a cs # fs)) \<longleftrightarrow>
     (\<forall>r \<in> set (sq_tables db t). all_value db (e(a := r)) cs \<noteq> Some True) \<and> list_ex Q (from_rows db (e(a := null_row)) fs) \<or>
     (\<exists>r \<in> set (sq_tables db t). all_value db (e(a := r)) cs = Some True \<and> list_ex Q (from_rows db (e(a := r)) fs))"
  by (auto simp: list_ex_iff filter_empty_conv Let_def)

lemma ball_live:
  "(\<forall>(i, g) \<in> live_implementations h t n. Q i g) \<longleftrightarrow>
     (\<forall>i \<in> set (mh_implementations h). \<forall>g \<in> set (mh_agents h).
        ag_id g = im_agent i \<longrightarrow> im_action i = n \<and> agent_live t g \<longrightarrow> Q i g)"
  "(\<exists>(i, g) \<in> live_implementations h t n. Q i g) \<longleftrightarrow>
     (\<exists>i \<in> set (mh_implementations h). \<exists>g \<in> set (mh_agents h).
        ag_id g = im_agent i \<and> im_action i = n \<and> agent_live t g \<and> Q i g)"
  by (auto simp: live_implementations_def)

lemma no_fits: "port_fits h i r = {} \<longleftrightarrow> (\<forall>f \<in> set (mh_fits h). \<not> (ft_implementation f = im_id i \<and> po_key r = Some (ft_port_key f)))"
  by (auto simp: port_fits_def)

lemma bex_fits: "(\<exists>f \<in> port_fits h i r. Q f) \<longleftrightarrow> (\<exists>f \<in> set (mh_fits h). ft_implementation f = im_id i \<and> po_key r = Some (ft_port_key f) \<and> Q f)"
  by (auto simp: port_fits_def)

lemma fits_condition_true:
  assumes row: "e p = port_columns ''action_id'' r" and apart: "p \<noteq> ''i''" "p \<noteq> ''g''" "p \<noteq> ''f''"
    and params: "P obj = Some (S_Str text)" "P cutoff = Some (S_Time t)"
  shows "cond_value (hub_sql h ACTION_PORTS P) e (fits_condition p obj cutoff) = Some True \<longleftrightarrow> can_handle h t text r"
proof -
  let ?db = "hub_sql h ACTION_PORTS P"
  let ?on = "[Eq (Col ''f'' ''implementation_id'') (Col ''i'' ''id''), Eq (Col ''f'' ''port_key'') (Col p ''key'')]"
  let ?of = "[Eq (Col ''i'' ''action_id'') (Col p ''action_id''), live_agent ''g'' cutoff]"
  have e_p: "e' p = port_columns ''action_id'' r" if "e' = e(''i'' := x, ''g'' := y)" for e' x y
    using that row apart by simp
  have agent_on: "all_value ?db (e(''i'' := implementation_columns i, ''g'' := agent_columns g)) [Eq (Col ''g'' ''id'') (Col ''i'' ''agent_id'')] = Some True
      \<longleftrightarrow> ag_id g = im_agent i" for i g
    by (auto simp: sql_true)
  have fit_on: "all_value ?db (e(''i'' := implementation_columns i, ''g'' := agent_columns g, ''f'' := fit_columns f)) ?on = Some True
      \<longleftrightarrow> ft_implementation f = im_id i \<and> po_key r = Some (ft_port_key f)" for i g f
    using row apart by (auto simp: sql_true)
  have on_action: "all_value ?db (e(''i'' := implementation_columns i, ''g'' := agent_columns g, ''f'' := x)) ?of = Some True
      \<longleftrightarrow> im_action i = po_owner r \<and> agent_live t g" for i g x
    using row apart live_agent_true [of "e(''i'' := implementation_columns i, ''g'' := agent_columns g, ''f'' := x)" "''g''" g ?db cutoff t] params
    by (auto simp: sql_true)
  have accepts: "all_value ?db (e(''i'' := implementation_columns i, ''g'' := agent_columns g, ''f'' := fit_columns f))
      [Any_Of [Is_Null (Col ''f'' ''id''), Path_Match (Param obj) (Col ''f'' ''compiled_jsonpath'') (Agent_Vars ''g'')]] = Some True
      \<longleftrightarrow> mh_path_match h text (ft_jsonpath f) (agent_object g) = Some True" for i g f
    using agent_object_value [of "e(''i'' := implementation_columns i, ''g'' := agent_columns g, ''f'' := fit_columns f)" "''g''" g] params
    by (simp add: sql_true)
  have unlimited: "all_value ?db (e(''i'' := implementation_columns i, ''g'' := agent_columns g, ''f'' := null_row))
      [Any_Of [Is_Null (Col ''f'' ''id''), Path_Match (Param obj) (Col ''f'' ''compiled_jsonpath'') (Agent_Vars ''g'')]] = Some True" for i g
    by (simp add: sql_true null_row_def)
  have none: "cond_value ?db e (Not_Exists [From ''facade_implementation'' ''i'', Join ''facade_agent'' ''g'' [Eq (Col ''g'' ''id'') (Col ''i'' ''agent_id'')],
        Join ''facade_implementationfit'' ''f'' ?on] ?of) = Some True
      \<longleftrightarrow> (\<forall>(i, g) \<in> live_implementations h t (po_owner r). port_fits h i r = {})"
    unfolding cond_value.simps list_ex_joined ball_live no_fits
    by (auto simp: agent_on fit_on on_action simp del: all_value.simps cond_value.simps)
  have some: "cond_value ?db e (Exists [From ''facade_implementation'' ''i'', Join ''facade_agent'' ''g'' [Eq (Col ''g'' ''id'') (Col ''i'' ''agent_id'')],
        Left_Join ''facade_implementationfit'' ''f'' ?on] (?of @ [Any_Of [Is_Null (Col ''f'' ''id''),
        Path_Match (Param obj) (Col ''f'' ''compiled_jsonpath'') (Agent_Vars ''g'')]])) = Some True
      \<longleftrightarrow> (\<exists>(i, g) \<in> live_implementations h t (po_owner r).
        port_fits h i r = {} \<or> (\<exists>f \<in> port_fits h i r. mh_path_match h text (ft_jsonpath f) (agent_object g) = Some True))"
    unfolding cond_value.simps list_ex_joined ball_live no_fits bex_fits all_value_append Let_def
    by (auto simp: agent_on fit_on on_action accepts unlimited simp del: all_value.simps cond_value.simps)
  show ?thesis
    unfolding fits_condition_def Let_def can_handle_def
    by (simp only: cond_value.simps any_value_True list.set) (use none some in \<open>simp add: sql_true\<close>)
qed


section \<open>What a built match means\<close>

definition context_ok :: "match_context \<Rightarrow> port_owner \<Rightarrow> bool" where
  "context_ok mc owner \<longleftrightarrow>
     owner \<in> {ACTION_PORTS, BLOK_PORTS} \<and> mc_owner_column mc = ow_column owner \<and>
     (\<exists>s. ow_port_tables owner s = Some (mc_table mc))"

lemma context_ok_rows:
  assumes "context_ok mc owner"
  shows "hub_tables h owner (mc_table mc) = map (port_columns (mc_owner_column mc)) (mh_ports h (mc_table mc))"
    and "owner_column_ok (mc_owner_column mc)"
    and "tests_fits mc parent \<Longrightarrow> owner = ACTION_PORTS"
proof -
  obtain s where s: "owner \<in> {ACTION_PORTS, BLOK_PORTS}" "mc_owner_column mc = ow_column owner" "ow_port_tables owner s = Some (mc_table mc)"
    using assms by (auto simp: context_ok_def)
  then have "mc_table mc \<in> {''facade_argport'', ''facade_returnport'', ''facade_blokargport''}"
    by (cases s) (auto simp: ACTION_PORTS_def BLOK_PORTS_def)
  with s show "hub_tables h owner (mc_table mc) = map (port_columns (mc_owner_column mc)) (mh_ports h (mc_table mc))"
    by (auto simp: hub_tables_def ACTION_PORTS_def BLOK_PORTS_def)
  from s show "owner_column_ok (mc_owner_column mc)" by (auto simp: ACTION_PORTS_def BLOK_PORTS_def)
  from s show "owner = ACTION_PORTS" if "tests_fits mc parent" using that by (auto simp: BLOK_PORTS_def tests_fits_def)
qed

definition anchor :: "match_context \<Rightarrow> string option \<Rightarrow> string" where
  "anchor mc parent = (case parent of None \<Rightarrow> mc_owner_alias mc | Some q \<Rightarrow> q)"

definition linked :: "string option \<Rightarrow> int \<Rightarrow> matched_port \<Rightarrow> bool" where
  "linked parent n r \<longleftrightarrow> (if parent = None then po_owner r = n \<and> po_parent r = None else po_parent r = Some n)"

lemma correlation_true:
  assumes "e a = port_columns (mc_owner_column mc) r" "owner_column_ok (mc_owner_column mc)" "e (anchor mc parent) ''id'' = S_Int n"
  shows "all_value db e (correlation mc parent a) = Some True \<longleftrightarrow> linked parent n r"
  using assms by (cases parent) (auto simp: correlation_def anchor_def linked_def sql_true)

lemma exists_one_table:
  "cond_value db e (Exists [From t a] cs) = Some True \<longleftrightarrow> (\<exists>r \<in> set (sq_tables db t). all_value db (e(a := r)) cs = Some True)"
  by (auto simp: list_ex_iff)

lemma given_field_true:
  assumes "\<forall>(c, k, v) \<in> set (given_field c k f x). P k = Some v" "\<And>v. f v \<noteq> Null"
  shows "all_value (hub_sql h owner P) e (map (\<lambda>(c, k, _). Eq (Col a c) (Param k)) (given_field c k f x)) = Some True
    \<longleftrightarrow> (case x of None \<Rightarrow> True | Some v \<Rightarrow> e a c = f v)"
  using assms(1) assms(2) [THEN not_sym] assms(2) by (cases x) (auto simp: given_field_def sql_true)

lemma match_fields_true:
  assumes "e a = port_columns oc r" "owner_column_ok oc" "\<forall>(c, k, v) \<in> set (match_fields path m). P k = Some v"
  shows "all_value (hub_sql h owner P) e (map (\<lambda>(c, k, _). Eq (Col a c) (Param k)) (match_fields path m)) = Some True
    \<longleftrightarrow> fields_meet m r"
proof -
  note given_row = given_field_true [of _ _ _ _ P h owner e a]
  from assms(3) show ?thesis
    unfolding match_fields_def map_append all_value_append set_append ball_Un
    by (elim conjE) (simp only: given_row sql_value.distinct comp_apply not_False_eq_True,
      use assms(1,2) in \<open>auto simp: fields_meet_def asked_def split: option.splits\<close>)
qed

lemma descriptor_conds_true:
  assumes "e (''p_'' @ path) = port_columns (mc_owner_column mc) r" "context_ok mc owner"
    and "\<forall>(k, v) \<in> set (match_params mc parent path m). P k = Some v"
  shows "all_value (hub_sql h owner P) e
      (if or_nil (pm_descriptors m) = [] then [] else descriptor_conds mc parent (''p_'' @ path) path) = Some True
    \<longleftrightarrow> object_accepted h mc (parent \<noteq> None) m r"
proof (cases "or_nil (pm_descriptors m) = []")
  case True
  then show ?thesis by (simp add: object_accepted_def sql_true)
next
  case False
  let ?obj = "object_text (mw_float_text (mc_world mc)) (or_nil (pm_descriptors m))"
  have obj: "P (''obj_'' @ path) = Some (S_Str ?obj)"
    using assms(3) False unfolding match_params_def descriptor_params_def by auto
  have accepts: "cond_value (hub_sql h owner P) e (accepts_object (''p_'' @ path) (''obj_'' @ path)) = Some True \<longleftrightarrow> port_accepts h ?obj r"
    by (rule accepts_object_true [where oc = "mc_owner_column mc"]) (use assms(1) context_ok_rows(2) [OF assms(2)] obj in simp_all)
  show ?thesis
  proof (cases "tests_fits mc parent")
    case True
    then have owner: "owner = ACTION_PORTS" and column: "mc_owner_column mc = ''action_id''"
      using context_ok_rows(3) [OF assms(2)] by (auto simp: tests_fits_def)
    have "P (''cutoff_'' @ path) = Some (S_Time (mw_cutoff (mc_world mc)))"
      using assms(3) False True unfolding match_params_def descriptor_params_def by auto
    with fits_condition_true [of e "''p_'' @ path" r P "''obj_'' @ path" ?obj "''cutoff_'' @ path" "mw_cutoff (mc_world mc)" h] assms(1) column obj
    have "cond_value (hub_sql h owner P) e (fits_condition (''p_'' @ path) (''obj_'' @ path) (''cutoff_'' @ path)) = Some True
      \<longleftrightarrow> can_handle h (mw_cutoff (mc_world mc)) ?obj r"
      unfolding owner by simp
    with accepts False True show ?thesis
      by (auto simp: descriptor_conds_def object_accepted_def Let_def sql_true tests_fits_def)
  next
    case no_test: False
    with accepts False show ?thesis
      by (auto simp: descriptor_conds_def object_accepted_def Let_def sql_true tests_fits_def)
  qed
qed

lemma field_in_params: "(c, k, v) \<in> set (match_fields path m) \<Longrightarrow> (k, v) \<in> set (match_params mc parent path m)"
  by (force simp: match_params_def)

lemma own_params_written:
  assumes "children_exist mc q path 0 ms (put_params (match_params mc parent path m) P) = Inr (xs, P')" "(k, v) \<in> set (match_params mc parent path m)"
  shows "P' k = Some v"
proof -
  obtain pre where "pre \<in> set match_prefixes" "k = pre @ path"
    using match_params_keys [of mc parent path m] imageI [OF assms(2), of fst] unfolding fst_conv by blast
  then have "k \<notin> keys_below (path @ CHR ''_'' # show_nat j)" for j using own_key_not_below by blast
  then have "P' k = put_params (match_params mc parent path m) P k" using builders_frame(2) [OF assms(1)] by blast
  then show ?thesis using put_params_at [OF match_params_distinct assms(2)] by simp
qed

lemma built_meaning:
  "match_exists mc parent path m P = Inr (x, P') \<Longrightarrow> (\<And>k. k \<in> keys_below path \<Longrightarrow> Pf k = P' k) \<Longrightarrow> context_ok mc owner \<Longrightarrow>
   e (anchor mc parent) ''id'' = S_Int n \<Longrightarrow> anchor mc parent \<noteq> ''p_'' @ path \<Longrightarrow>
   cond_value (hub_sql h owner Pf) e x = Some True \<longleftrightarrow>
     (\<exists>r \<in> set (mh_ports h (mc_table mc)). linked parent n r \<and> port_meets h mc (parent \<noteq> None) m r)"
  "children_exist mc q path i ms P = Inr (xs, P') \<Longrightarrow>
   (\<And>j k. i \<le> j \<Longrightarrow> k \<in> keys_below (path @ CHR ''_'' # show_nat j) \<Longrightarrow> Pf k = P' k) \<Longrightarrow> context_ok mc owner \<Longrightarrow>
   e q ''id'' = S_Int n \<Longrightarrow> q = ''p_'' @ path \<Longrightarrow>
   all_value (hub_sql h owner Pf) e xs = Some True \<longleftrightarrow>
     list_all (\<lambda>c. list_ex (\<lambda>r. po_parent r = Some n \<and> port_meets h mc True c r) (mh_ports h (mc_table mc))) ms"
proof (induction mc parent path m P and mc q path i ms P arbitrary: x P' e n and xs P' e n rule: match_exists_children_exist.induct)
  case (1 mc parent path at' key kind ident nullable dim' descs cs P)
  let ?m = "PortMatch at' key kind ident nullable dim' descs cs" and ?a = "''p_'' @ path"
  define Q where "Q = put_params (match_params mc parent path ?m) P"
  have Q: "put_params (map snd (match_fields path ?m) @ (if or_nil descs = [] then [] else descriptor_params mc parent path (or_nil descs))) P = Q"
    unfolding Q_def match_params_def port_match.sel by (rule refl)
  note IH = 1(1) [OF refl refl refl refl, unfolded Q]
  obtain nested where built: "children_exist mc ?a path 0 (or_nil cs) Q = Inr (nested, P')"
    and x: "x = Exists [From (mc_table mc) ?a] (correlation mc parent ?a
              @ map (\<lambda>(c, k, _). Eq (Col ?a c) (Param k)) (match_fields path ?m)
              @ (if or_nil (pm_descriptors ?m) = [] then [] else descriptor_conds mc parent ?a path) @ nested)"
    and narrow: "\<not> (or_nil descs \<noteq> [] \<and> parent = None \<and> \<not> narrows ?m)"
    using 1(2) by (auto simp: match_exists_unfold Q_def and_then_Inr split: if_splits)
  have written: "Pf k = Some v" if "(k, v) \<in> set (match_params mc parent path ?m)" for k v
  proof -
    have "k \<in> keys_below path" using own_keys_below that by force
    then show ?thesis using 1(3) own_params_written [OF built [unfolded Q_def] that] by simp
  qed
  have below: "Pf k = P' k" if "k \<in> keys_below (path @ CHR ''_'' # show_nat j)" for j k
    using that 1(3) keys_below_mono [OF path_below_child] by blast
  have row: "all_value (hub_sql h owner Pf) (e(?a := port_columns (mc_owner_column mc) r))
      (correlation mc parent ?a @ map (\<lambda>(c, k, _). Eq (Col ?a c) (Param k)) (match_fields path ?m)
       @ (if or_nil (pm_descriptors ?m) = [] then [] else descriptor_conds mc parent ?a path) @ nested) = Some True
      \<longleftrightarrow> linked parent n r \<and> port_meets h mc (parent \<noteq> None) ?m r" for r
  proof -
    let ?e = "e(?a := port_columns (mc_owner_column mc) r)"
    have here: "?e ?a = port_columns (mc_owner_column mc) r" by simp
    have link: "all_value (hub_sql h owner Pf) ?e (correlation mc parent ?a) = Some True \<longleftrightarrow> linked parent n r"
      by (rule correlation_true) (use 1(5,6) context_ok_rows(2) [OF 1(4)] in auto)
    have fields: "all_value (hub_sql h owner Pf) ?e (map (\<lambda>(c, k, _). Eq (Col ?a c) (Param k)) (match_fields path ?m)) = Some True
        \<longleftrightarrow> fields_meet ?m r"
      by (rule match_fields_true [where oc = "mc_owner_column mc"]) (use written field_in_params context_ok_rows(2) [OF 1(4)] in \<open>blast | simp\<close>)+
    have object: "all_value (hub_sql h owner Pf) ?e (if or_nil (pm_descriptors ?m) = [] then [] else descriptor_conds mc parent ?a path) = Some True
        \<longleftrightarrow> object_accepted h mc (parent \<noteq> None) ?m r"
      by (rule descriptor_conds_true) (use here 1(4) written in auto)
    have "all_value (hub_sql h owner Pf) ?e nested = Some True \<longleftrightarrow>
        list_all (\<lambda>c. list_ex (\<lambda>r'. po_parent r' = Some (po_id r) \<and> port_meets h mc True c r') (mh_ports h (mc_table mc))) (or_nil cs)"
      by (rule IH [OF narrow built]) (use below 1(4) in auto)
    then show ?thesis
      unfolding all_value_append link fields object port_meets.simps [of h mc "parent \<noteq> None" ?m r] by (simp only: port_match.sel)
  qed
  show ?case
    unfolding x exists_one_table hub_sql_simps context_ok_rows(1) [OF 1(4)] set_map bex_simps row
    by (rule refl)
next
  case (2 mc q path i P)
  then show ?case by (simp add: sql_true)
next
  case (3 mc q path i c cs P)
  then obtain y P1 ys where first: "match_exists mc (Some q) (path @ CHR ''_'' # show_nat i) c P = Inr (y, P1)"
    and rest: "children_exist mc q path (Suc i) cs P1 = Inr (ys, P')" and xs: "xs = y # ys"
    by (auto simp: and_then_Inr)
  have "Pf k = P1 k" if "k \<in> keys_below (path @ CHR ''_'' # show_nat i)" for k
  proof -
    have "k \<notin> keys_below (path @ CHR ''_'' # show_nat j)" if "Suc i \<le> j" for j
      using siblings_disjoint [of i j path] that \<open>k \<in> _\<close> by auto
    then have "P' k = P1 k" using builders_frame(2) [OF rest] by blast
    with 3(4) [of i k] that show ?thesis by simp
  qed
  then have "cond_value (hub_sql h owner Pf) e y = Some True \<longleftrightarrow>
      (\<exists>r \<in> set (mh_ports h (mc_table mc)). linked (Some q) n r \<and> port_meets h mc (Some q \<noteq> None) c r)"
    using 3(1) [unfolded append_Cons append_Nil, OF first, of e n] 3(5,6,7) by (simp add: anchor_def)
  moreover have "all_value (hub_sql h owner Pf) e ys = Some True \<longleftrightarrow>
      list_all (\<lambda>c. list_ex (\<lambda>r. po_parent r = Some n \<and> port_meets h mc True c r) (mh_ports h (mc_table mc))) cs"
  proof (rule 3(2) [unfolded append_Cons append_Nil, OF first refl rest])
    show "Pf k = P' k" if "Suc i \<le> j" "k \<in> keys_below (path @ CHR ''_'' # show_nat j)" for j k
      by (rule 3(4) [OF Suc_leD [OF that(1)] that(2)])
  qed (use 3(5,6,7) in auto)
  ultimately show ?case by (simp add: xs sql_true linked_def list_ex_iff)
qed

end
