(* ===== verification/Matching_Demands.thy ===== *)
theory Matching_Demands
  imports Matching_Meaning
begin

text \<open>
  Port demands as a whole: the statement of \<open>port_demand_sql\<close> selects exactly the owners that meet every
  demand, when it is refused, and that its placeholders are bound and survive \<open>_to_positional\<close>.
\<close>

section \<open>Clauses and what they wrote\<close>

text \<open>
  A step that appends clauses and writes the parameters of a set of keys: nothing else is written, and
  under any parameters that agree with it on these keys its clauses hold exactly when \<open>Q\<close> says.
\<close>

definition clauses_mean ::
  "string set \<Rightarrow> (match_hub \<Rightarrow> owner_row \<Rightarrow> bool) \<Rightarrow> port_owner \<Rightarrow> sql_cond list \<times> sql_params \<Rightarrow> sql_cond list \<times> sql_params \<Rightarrow> bool" where
  "clauses_mean K Q owner s t \<longleftrightarrow>
     (\<exists>new. fst t = fst s @ new \<and> (\<forall>k. k \<notin> K \<longrightarrow> snd t k = snd s k) \<and>
       (\<forall>h Pf w'. (\<forall>k \<in> K. Pf k = snd t k) \<longrightarrow>
         (all_value (hub_sql h owner Pf) (no_env(''a'' := owner_columns w')) new = Some True \<longleftrightarrow> Q h w')))"

lemma clauses_mean_refl: "clauses_mean {} (\<lambda>_ _. True) owner s s"
  by (simp add: clauses_mean_def sql_true)

lemma clauses_mean_trans:
  assumes "clauses_mean K Q owner s t" "clauses_mean L R owner t u" "K \<inter> L = {}"
  shows "clauses_mean (K \<union> L) (\<lambda>h w'. Q h w' \<and> R h w') owner s u"
proof -
  obtain xs where xs: "fst t = fst s @ xs" "\<And>k. k \<notin> K \<Longrightarrow> snd t k = snd s k"
    "\<And>h Pf w'. (\<And>k. k \<in> K \<Longrightarrow> Pf k = snd t k) \<Longrightarrow>
      all_value (hub_sql h owner Pf) (no_env(''a'' := owner_columns w')) xs = Some True \<longleftrightarrow> Q h w'"
    using assms(1) unfolding clauses_mean_def by blast
  obtain ys where ys: "fst u = fst t @ ys" "\<And>k. k \<notin> L \<Longrightarrow> snd u k = snd t k"
    "\<And>h Pf w'. (\<And>k. k \<in> L \<Longrightarrow> Pf k = snd u k) \<Longrightarrow>
      all_value (hub_sql h owner Pf) (no_env(''a'' := owner_columns w')) ys = Some True \<longleftrightarrow> R h w'"
    using assms(2) unfolding clauses_mean_def by blast
  have "all_value (hub_sql h owner Pf) (no_env(''a'' := owner_columns w')) (xs @ ys) = Some True \<longleftrightarrow> Q h w' \<and> R h w'"
    if "\<forall>k \<in> K \<union> L. Pf k = snd u k" for h Pf w'
  proof -
    have "Pf k = snd t k" if "k \<in> K" for k
      using that \<open>\<forall>k \<in> K \<union> L. Pf k = snd u k\<close> ys(2) [of k] assms(3) by auto
    then show ?thesis using xs(3) [of Pf h w'] ys(3) [of Pf h w'] that by (simp add: all_value_append)
  qed
  moreover have "fst u = fst s @ xs @ ys" "\<And>k. k \<notin> K \<union> L \<Longrightarrow> snd u k = snd s k" using xs(1,2) ys(1,2) by auto
  ultimately show ?thesis unfolding clauses_mean_def by blast
qed

lemma clauses_mean_weaken:
  "clauses_mean K Q owner s t \<Longrightarrow> K \<subseteq> L \<Longrightarrow> (\<And>h w'. Q h w' \<longleftrightarrow> R h w') \<Longrightarrow> clauses_mean L R owner s t"
  unfolding clauses_mean_def by (smt (verit) subset_iff)

section \<open>One demand\<close>

definition owner_ok :: "port_owner \<Rightarrow> bool" where
  "owner_ok owner \<longleftrightarrow> owner \<in> {ACTION_PORTS, BLOK_PORTS}"

definition demand_context :: "match_world \<Rightarrow> port_owner \<Rightarrow> string \<Rightarrow> match_context" where
  "demand_context w owner table = \<lparr>mc_world = w, mc_table = table, mc_owner_alias = ''a'', mc_owner_column = ow_column owner\<rparr>"

lemma demand_context_simps [simp]:
  "mc_table (demand_context w owner table) = table" "mc_owner_alias (demand_context w owner table) = ''a''"
  "mc_owner_column (demand_context w owner table) = ow_column owner"
  by (simp_all add: demand_context_def)

lemma demand_context_ok: "owner_ok owner \<Longrightarrow> ow_port_tables owner s = Some table \<Longrightarrow> context_ok (demand_context w owner table) owner"
  by (auto simp: owner_ok_def context_ok_def)

definition later_keys :: "string \<Rightarrow> nat \<Rightarrow> string set" where
  "later_keys path i = (\<Union>j \<in> {i..}. keys_below (path @ CHR ''_'' # show_nat j))"

lemma later_keys_Suc: "later_keys path i = keys_below (path @ CHR ''_'' # show_nat i) \<union> later_keys path (Suc i)"
proof -
  have "{i..} = insert i {Suc i..}" by auto
  then show ?thesis by (simp add: later_keys_def)
qed

lemma first_not_later: "keys_below (path @ CHR ''_'' # show_nat i) \<inter> later_keys path (Suc i) = {}"
proof -
  have False if "k \<in> keys_below (path @ CHR ''_'' # show_nat i)" "k \<in> later_keys path (Suc i)" for k
  proof -
    from that(2) obtain j where "Suc i \<le> j" "k \<in> keys_below (path @ CHR ''_'' # show_nat j)"
      unfolding later_keys_def by blast
    with that(1) show False using siblings_disjoint [of i j path] by auto
  qed
  then show ?thesis by blast
qed

lemma later_keys_below: "later_keys path i \<subseteq> keys_below path"
  using keys_below_mono [OF path_below_child] by (auto simp: later_keys_def)

lemma one_match_means:
  assumes "match_exists mc None path m P = Inr (c, P')" "context_ok mc owner" "mc_owner_alias mc = ''a''"
  shows "clauses_mean (keys_below path) (\<lambda>h w'. root_meets h mc (own_id w') m) owner (cs, P) (cs @ [c], P')"
proof -
  have "all_value (hub_sql h owner Pf) (no_env(''a'' := owner_columns w')) [c] = Some True \<longleftrightarrow> root_meets h mc (own_id w') m"
    if "\<And>k. k \<in> keys_below path \<Longrightarrow> Pf k = P' k" for h Pf w'
    using built_meaning(1) [OF assms(1) that assms(2), of "no_env(''a'' := owner_columns w')" "own_id w'" h] assms(3)
    by (simp add: anchor_def root_meets_def linked_def sql_true conj_assoc)
  then show ?thesis unfolding clauses_mean_def using builders_frame(1) [OF assms(1)] by (intro exI [of _ "[c]"]) auto
qed

lemma matches_mean:
  assumes "context_ok mc owner" "mc_owner_alias mc = ''a''"
  shows "fold_result (\<lambda>(i, m) (cs, P). and_then (match_exists mc None (path @ ''_'' @ show_nat i) m P) (\<lambda>(c, P'). Inr (cs @ [c], P')))
      (enumerate i ms) s = Inr t \<Longrightarrow>
    clauses_mean (later_keys path i) (\<lambda>h w'. list_all (root_meets h mc (own_id w')) ms) owner s t"
proof (induction ms arbitrary: i s)
  case Nil
  then show ?case by (auto intro: clauses_mean_weaken [OF clauses_mean_refl])
next
  case (Cons m ms)
  obtain cs P where s: "s = (cs, P)" by fastforce
  from Cons.prems obtain c P' where first: "match_exists mc None (path @ CHR ''_'' # show_nat i) m P = Inr (c, P')"
    and rest: "fold_result (\<lambda>(i, m) (cs, P). and_then (match_exists mc None (path @ ''_'' @ show_nat i) m P) (\<lambda>(c, P'). Inr (cs @ [c], P')))
      (enumerate (Suc i) ms) (cs @ [c], P') = Inr t"
    by (auto simp: s and_then_Inr)
  show ?case
    by (rule clauses_mean_weaken [OF clauses_mean_trans [OF one_match_means [OF first assms, of cs] Cons.IH [OF rest] first_not_later, folded s]])
      (simp_all add: later_keys_Suc [of path i])
qed

lemma number_clause_means:
  assumes "\<And>h Pf w' v. Pf k = Some (S_Int v) \<Longrightarrow>
    cond_value (hub_sql h owner Pf) (no_env(''a'' := owner_columns w')) (clause k) = Some True \<longleftrightarrow> f h w' = v"
  shows "clauses_mean {k} (\<lambda>h w'. asked n (Some (f h w'))) owner s (number_clause n k clause s)"
proof (cases n)
  case None
  then show ?thesis
    by (auto simp: number_clause_def asked_def split: prod.splits intro: clauses_mean_weaken [OF clauses_mean_refl])
next
  case (Some v)
  obtain cs P where s: "s = (cs, P)" by fastforce
  show ?thesis
    unfolding clauses_mean_def number_clause_def s prod.case Some option.case asked_def
    by (intro exI [of _ "[clause k]"]) (simp add: sql_true assms)
qed

lemma root_count_means:
  assumes rows: "hub_tables h owner table = map (port_columns oc) (mh_ports h table)" "owner_column_ok oc"
    and extra: "\<And>e r. e ''pc'' = port_columns oc r \<Longrightarrow> cond_value (hub_sql h owner Pf) e extra = Some True \<longleftrightarrow> p r"
    and k: "Pf k = Some (S_Int v)"
  shows "cond_value (hub_sql h owner Pf) (no_env(''a'' := owner_columns w')) (root_count table oc ''a'' extra k) = Some True
    \<longleftrightarrow> roots_where h table (own_id w') p = v"
proof -
  let ?e = "\<lambda>r. no_env(''a'' := owner_columns w', ''pc'' := port_columns oc r)"
  have "all_value (hub_sql h owner Pf) (?e r) [Eq (Col ''pc'' oc) (Col ''a'' ''id''), Is_Null (Col ''pc'' ''parent_id''), extra] = Some True
      \<longleftrightarrow> po_owner r = own_id w' \<and> po_parent r = None \<and> p r" for r
    using extra [of "?e r" r] rows(2) by (auto simp: sql_true)
  then show ?thesis
    unfolding root_count_def roots_where_def cond_value.simps
    by (simp add: rows(1) filter_map comp_def k sql_true del: all_value.simps)
qed

definition demand_keys :: "nat \<Rightarrow> string set" where
  "demand_keys d = keys_below (show_nat d) \<union>
     {''force_length_'' @ show_nat d, ''force_non_nullable_'' @ show_nat d, ''force_structure_'' @ show_nat d}"

lemma force_not_below: "''force_'' @ x \<notin> keys_below p"
proof
  assume "''force_'' @ x \<in> keys_below p"
  then obtain pre q where pre: "pre \<in> set match_prefixes" "''force_'' @ x = pre @ q" unfolding keys_below_def by blast
  have "takeWhile (\<lambda>c. c \<noteq> CHR ''_'') (pre @ q) @ [CHR ''_''] = pre"
    using pre(1) by (auto simp: match_prefixes_def)
  with pre(2) [symmetric] have "pre = ''force_''" by simp
  with pre(1) show False by (simp add: match_prefixes_def)
qed

lemma demand_means:
  assumes "demand_clauses w owner d demand s = Inr t" "owner_ok owner"
  shows "clauses_mean (demand_keys d) (\<lambda>h w'. demand_met h w owner demand w') owner s t"
proof -
  obtain cs P where s: "s = (cs, P)" by fastforce
  from assms(1) obtain table cs' P' where table: "ow_port_tables owner (de_kind demand) = Some table"
    and matches: "matches_exist (demand_context w owner table) (show_nat d) (or_nil (de_matches demand)) P = Inr (cs', P')"
    and t: "t = number_clause (de_force_structure_length demand) (''force_structure_'' @ show_nat d)
                   (root_count table (ow_column owner) ''a'' (Eq (Col ''pc'' ''kind'') (Quoted ''STRUCTURE'')))
                 (number_clause (de_force_non_nullable_length demand) (''force_non_nullable_'' @ show_nat d)
                   (root_count table (ow_column owner) ''a'' (Is_False (Col ''pc'' ''nullable'')))
                 (number_clause (de_force_length demand) (''force_length_'' @ show_nat d)
                   (case ow_count_columns owner of
                      Some columns \<Rightarrow> \<lambda>k. Eq (Col ''a'' (columns (de_kind demand))) (Param k)
                    | None \<Rightarrow> root_count table (ow_column owner) ''a'' Always)
                 (cs @ cs', P')))"
    unfolding s demand_clauses_def Let_def demand_context_def by (auto simp: and_then_Inr split: option.splits)
  have mc_ok: "context_ok (demand_context w owner table) owner" by (rule demand_context_ok [OF assms(2) table])
  note rows = context_ok_rows(1,2) [OF mc_ok, simplified]
  let ?own = "\<lambda>w' :: owner_row. own_id w'"
  let ?count = "\<lambda>h w'. if ow_count_columns owner = None then roots_where h table (own_id w') (\<lambda>_. True) else own_count w' (de_kind demand)"
  have "clauses_mean (later_keys (show_nat d) 0)
      (\<lambda>h w'. list_all (root_meets h (demand_context w owner table) (own_id w')) (or_nil (de_matches demand))) owner ([], P) (cs', P')"
    using matches_mean [OF mc_ok demand_context_simps(2)] matches unfolding matches_exist_def by blast
  then have "clauses_mean (keys_below (show_nat d))
      (\<lambda>h w'. list_all (root_meets h (demand_context w owner table) (own_id w')) (or_nil (de_matches demand))) owner ([], P) (cs', P')"
    by (rule clauses_mean_weaken [OF _ later_keys_below]) (rule refl)
  then have 1: "clauses_mean (keys_below (show_nat d))
      (\<lambda>h w'. list_all (root_meets h (demand_context w owner table) (own_id w')) (or_nil (de_matches demand))) owner s (cs @ cs', P')"
    by (simp add: clauses_mean_def s)
  have 2: "clauses_mean {''force_length_'' @ show_nat d} (\<lambda>h w'. asked (de_force_length demand) (Some (?count h w'))) owner u
      (number_clause (de_force_length demand) (''force_length_'' @ show_nat d)
        (case ow_count_columns owner of
           Some columns \<Rightarrow> \<lambda>k. Eq (Col ''a'' (columns (de_kind demand))) (Param k)
         | None \<Rightarrow> root_count table (ow_column owner) ''a'' Always) u)" for u
  proof (rule number_clause_means)
    fix h Pf w' v
    assume "Pf (''force_length_'' @ show_nat d) = Some (S_Int v)"
    then show "cond_value (hub_sql h owner Pf) (no_env(''a'' := owner_columns w'))
        ((case ow_count_columns owner of
           Some columns \<Rightarrow> \<lambda>k. Eq (Col ''a'' (columns (de_kind demand))) (Param k)
         | None \<Rightarrow> root_count table (ow_column owner) ''a'' Always) (''force_length_'' @ show_nat d)) = Some True
      \<longleftrightarrow> ?count h w' = v"
      using assms(2) root_count_means [OF rows, where Pf = Pf and extra = Always and p = "\<lambda>_. True" and k = "''force_length_'' @ show_nat d" and v = v and w' = w']
      by (auto simp: owner_ok_def ACTION_PORTS_def BLOK_PORTS_def sql_true)
  qed
  have 3: "clauses_mean {''force_non_nullable_'' @ show_nat d}
      (\<lambda>h w'. asked (de_force_non_nullable_length demand) (Some (roots_where h table (own_id w') (\<lambda>r. \<not> po_nullable r)))) owner u
      (number_clause (de_force_non_nullable_length demand) (''force_non_nullable_'' @ show_nat d)
        (root_count table (ow_column owner) ''a'' (Is_False (Col ''pc'' ''nullable''))) u)" for u
    by (rule number_clause_means, rule root_count_means [OF rows]) (use rows(2) in \<open>auto simp: sql_true\<close>)
  have 4: "clauses_mean {''force_structure_'' @ show_nat d}
      (\<lambda>h w'. asked (de_force_structure_length demand) (Some (roots_where h table (own_id w') (\<lambda>r. po_kind r = Some ''STRUCTURE'')))) owner u
      (number_clause (de_force_structure_length demand) (''force_structure_'' @ show_nat d)
        (root_count table (ow_column owner) ''a'' (Eq (Col ''pc'' ''kind'') (Quoted ''STRUCTURE''))) u)" for u
    by (rule number_clause_means, rule root_count_means [OF rows]) (use rows(2) in \<open>auto simp: sql_true\<close>)
  have apart: "keys_below (show_nat d) \<inter> {''force_length_'' @ show_nat d} = {}"
    "(keys_below (show_nat d) \<union> {''force_length_'' @ show_nat d}) \<inter> {''force_non_nullable_'' @ show_nat d} = {}"
    "(keys_below (show_nat d) \<union> {''force_length_'' @ show_nat d} \<union> {''force_non_nullable_'' @ show_nat d}) \<inter> {''force_structure_'' @ show_nat d} = {}"
    using force_not_below [of "''length_'' @ show_nat d" "show_nat d"] force_not_below [of "''non_nullable_'' @ show_nat d" "show_nat d"]
      force_not_below [of "''structure_'' @ show_nat d" "show_nat d"] by simp_all
  show ?thesis
    unfolding t
    by (rule clauses_mean_weaken [OF clauses_mean_trans [OF clauses_mean_trans [OF clauses_mean_trans [OF 1 2 apart(1)] 3 apart(2)] 4 apart(3)]])
      (auto simp: demand_keys_def demand_met_def table demand_context_def)
qed

section \<open>All demands\<close>

lemma org_not_below: "''org'' \<notin> keys_below p"
proof
  assume "''org'' \<in> keys_below p"
  then obtain pre q where pre: "pre \<in> set match_prefixes" "''org'' = pre @ q" unfolding keys_below_def by blast
  have "takeWhile (\<lambda>c. c \<noteq> CHR ''_'') (pre @ q) @ [CHR ''_''] = pre"
    using pre(1) by (auto simp: match_prefixes_def)
  with pre(2) [symmetric] have "pre = ''org_''" by simp
  with pre(1) show False by (simp add: match_prefixes_def)
qed

lemma show_nat_inj: "show_nat i = show_nat j \<longleftrightarrow> i = j"
  by (metis read_show_nat)

lemma roots_disjoint:
  assumes "i \<noteq> j" shows "keys_below (show_nat i) \<inter> keys_below (show_nat j) = {}"
proof -
  have False if below: "path_below (show_nat i) q" "path_below (show_nat j) q" for q
  proof -
    obtain r where r: "q = show_nat i @ r" "r = [] \<or> hd r = CHR ''_''" using below(1) unfolding path_below_def by blast
    obtain r' where r': "q = show_nat j @ r'" "r' = [] \<or> hd r' = CHR ''_''" using below(2) unfolding path_below_def by blast
    have "show_nat i = show_nat j" using show_nat_part [OF r(2), of i] show_nat_part [OF r'(2), of j] r(1) r'(1) by simp
    with assms show False by (simp add: show_nat_inj)
  qed
  then show ?thesis by (auto simp: keys_below_def prefix_inject)
qed

lemma demand_keys_disjoint:
  assumes "i \<noteq> j" shows "demand_keys i \<inter> demand_keys j = {}"
proof -
  have "''force_length_'' @ show_nat a \<notin> keys_below p" "''force_non_nullable_'' @ show_nat a \<notin> keys_below p"
    "''force_structure_'' @ show_nat a \<notin> keys_below p" for a p
    using force_not_below [of "''length_'' @ show_nat a" p] force_not_below [of "''non_nullable_'' @ show_nat a" p]
      force_not_below [of "''structure_'' @ show_nat a" p] by simp_all
  moreover have "{''force_length_'' @ show_nat i, ''force_non_nullable_'' @ show_nat i, ''force_structure_'' @ show_nat i}
      \<inter> {''force_length_'' @ show_nat j, ''force_non_nullable_'' @ show_nat j, ''force_structure_'' @ show_nat j} = {}"
    using assms by (simp add: show_nat_inj)
  ultimately show ?thesis using roots_disjoint [OF assms] unfolding demand_keys_def by blast
qed

lemma demands_mean:
  assumes "owner_ok owner"
  shows "fold_result (\<lambda>(d, demand) s. demand_clauses w owner d demand s) (enumerate i demands) s = Inr t \<Longrightarrow>
    clauses_mean (\<Union>j \<in> {i..}. demand_keys j) (\<lambda>h w'. list_all (\<lambda>d. demand_met h w owner d w') demands) owner s t"
proof (induction demands arbitrary: i s)
  case Nil
  then show ?case by (auto intro: clauses_mean_weaken [OF clauses_mean_refl])
next
  case (Cons demand demands)
  then obtain u where first: "demand_clauses w owner i demand s = Inr u"
    and rest: "fold_result (\<lambda>(d, demand) s. demand_clauses w owner d demand s) (enumerate (Suc i) demands) u = Inr t"
    by (auto simp: and_then_Inr)
  have "demand_keys i \<inter> (\<Union>j \<in> {Suc i..}. demand_keys j) = {}"
    unfolding Int_UN_distrib using demand_keys_disjoint [of i] by simp
  moreover have "{i..} = insert i {Suc i..}" by auto
  ultimately show ?case
    using clauses_mean_trans [OF demand_means [OF first assms] Cons.IH [OF rest]] by simp
qed

text \<open>
  C4. The statement selects exactly the owners of the organization whose ports meet every demand, whatever the
  demands and however deep their matches: no parameter of a match is overwritten by another, the nested
  EXISTS follow the port tree, and a NULL never lets a row through.
\<close>

theorem port_demand_sql_selects:
  assumes "port_demand_sql w demands org owner = Inr (s, P)" "owner_ok owner"
  shows "selected (hub_sql h owner P) s =
    map owner_columns (filter (\<lambda>o'. (org = None \<or> org = Some (own_organization o')) \<and>
      list_all (\<lambda>d. demand_met h w owner d o') demands) (mh_owners h (ow_table owner)))"
proof -
  define start where "start = (case org of None \<Rightarrow> ([], Map.empty)
    | Some n \<Rightarrow> ([Eq (Col ''a'' ''organization_id'') (Param ''org'')], [''org'' \<mapsto> S_Int n]))"
  obtain cs where folded: "fold_result (\<lambda>(d, demand) s. demand_clauses w owner d demand s) (enumerate 0 demands) start = Inr (cs, P)"
    and s: "s = \<lparr>se_table = ow_table owner, se_alias = ''a'', se_where = cs\<rparr>"
    using assms(1) by (auto simp: port_demand_sql_def start_def Let_def and_then_Inr split: if_splits)
  have org: "clauses_mean {''org''} (\<lambda>h w'. org = None \<or> org = Some (own_organization w')) owner ([], Map.empty) start"
    unfolding clauses_mean_def start_def by (cases org) (auto simp: sql_true)
  have "{''org''} \<inter> (\<Union>j \<in> {0..}. demand_keys j) = {}"
    using org_not_below by (auto simp: demand_keys_def)
  from clauses_mean_trans [OF org demands_mean [OF assms(2) folded] this]
  have "all_value (hub_sql h owner P) (no_env(''a'' := owner_columns w')) cs = Some True \<longleftrightarrow>
      (org = None \<or> org = Some (own_organization w')) \<and> list_all (\<lambda>d. demand_met h w owner d w') demands" for w'
    unfolding clauses_mean_def by auto
  then show ?thesis
    by (simp add: selected_def s hub_tables_def filter_map comp_def)
qed

end
