(* ===== verification/Matching_Text.thy ===== *)
theory Matching_Text
  imports Matching_Demands
begin

text \<open>
  When a port demand is refused, and the text of its statement: every placeholder is bound and
  \<open>_to_positional\<close> puts the values in the order of the placeholders.
\<close>

section \<open>Refusals\<close>

lemma and_then_Inl: "and_then x f = Inl e \<longleftrightarrow> x = Inl e \<or> (\<exists>y. x = Inr y \<and> f y = Inl e)"
  by (cases x) auto

lemma builders_refuse:
  "match_exists mc parent path m P = Inl e \<Longrightarrow> parent = None \<and> or_nil (pm_descriptors m) \<noteq> [] \<and> \<not> narrows m"
  "children_exist mc q path i ms P = Inl e' \<Longrightarrow> False"
proof (induction mc parent path m P and mc q path i ms P arbitrary: e and e' rule: match_exists_children_exist.induct)
  case (1 mc parent path at' key kind ident nullable dim' descs cs P)
  let ?m = "PortMatch at' key kind ident nullable dim' descs cs"
  show ?case
  proof (rule ccontr)
    assume no: "\<not> (parent = None \<and> or_nil (pm_descriptors ?m) \<noteq> [] \<and> \<not> narrows ?m)"
    with 1(2) have "children_exist mc (''p_'' @ path) path 0 (or_nil cs) (put_params (match_params mc parent path ?m) P) = Inl e"
      by (auto simp: match_exists_unfold and_then_Inl split: if_splits)
    then show False using 1(1) [OF refl refl refl refl] no unfolding match_params_def port_match.sel by blast
  qed
next
  case (2 mc q path i P)
  then show ?case by simp
next
  case (3 mc q path i c cs P)
  from 3(3) consider (first) "match_exists mc (Some q) (path @ CHR ''_'' # show_nat i) c P = Inl e'"
    | (rest) y P1 where "match_exists mc (Some q) (path @ CHR ''_'' # show_nat i) c P = Inr (y, P1)"
        "children_exist mc q path (Suc i) cs P1 = Inl e'"
    by (auto simp: and_then_Inl)
  then show ?case
  proof cases
    case first
    then show ?thesis using 3(1) [unfolded append_Cons append_Nil] by blast
  next
    case rest
    then show ?thesis using 3(2) [unfolded append_Cons append_Nil, OF rest(1) refl] by blast
  qed
qed

definition match_allowed :: "port_match \<Rightarrow> bool" where
  "match_allowed m \<longleftrightarrow> (or_nil (pm_descriptors m) \<noteq> [] \<longrightarrow> narrows m)"

lemma root_match_built: "(\<exists>r. match_exists mc None path m P = Inr r) \<longleftrightarrow> match_allowed m"
proof (cases "match_exists mc None path m P")
  case (Inl e)
  then show ?thesis using builders_refuse(1) [OF Inl] by (auto simp: match_allowed_def)
next
  case (Inr r)
  then show ?thesis by (auto simp: match_allowed_def match_exists_unfold split: if_splits)
qed

lemma matches_built:
  "(\<exists>t. fold_result (\<lambda>(i, m) (cs, P). and_then (match_exists mc None (path @ ''_'' @ show_nat i) m P) (\<lambda>(c, P'). Inr (cs @ [c], P')))
      (enumerate i ms) s = Inr t) \<longleftrightarrow> list_all match_allowed ms"
proof (induction ms arbitrary: i s)
  case (Cons m ms)
  obtain cs P where s: "s = (cs, P)" by fastforce
  show ?case
  proof (cases "match_exists mc None (path @ ''_'' @ show_nat i) m P")
    case (Inl e)
    then show ?thesis using root_match_built [of mc "path @ ''_'' @ show_nat i" m P] by (simp add: s)
  next
    case (Inr r)
    then show ?thesis using root_match_built [of mc "path @ ''_'' @ show_nat i" m P] Cons.IH [of "Suc i"]
      by (cases r) (simp add: s)
  qed
qed simp

definition demand_allowed :: "port_owner \<Rightarrow> port_demand \<Rightarrow> bool" where
  "demand_allowed owner demand \<longleftrightarrow>
     ow_port_tables owner (de_kind demand) \<noteq> None \<and> list_all match_allowed (or_nil (de_matches demand))"

definition asks_something :: "port_demand \<Rightarrow> bool" where
  "asks_something demand \<longleftrightarrow>
     or_nil (de_matches demand) \<noteq> [] \<or> given (de_force_length demand) \<or> given (de_force_non_nullable_length demand) \<or>
     given (de_force_structure_length demand)"

lemma demand_built: "(\<exists>t. demand_clauses w owner d demand s = Inr t) \<longleftrightarrow> demand_allowed owner demand"
proof (cases "ow_port_tables owner (de_kind demand)")
  case (Some table)
  obtain cs P where s: "s = (cs, P)" by fastforce
  show ?thesis
    using matches_built [of "demand_context w owner table" "show_nat d" 0 "or_nil (de_matches demand)" "([], P)"]
    unfolding demand_clauses_def demand_allowed_def s prod.case Some option.case Let_def matches_exist_def demand_context_def
    by (auto simp: and_then_Inr)
qed (auto simp: demand_clauses_def demand_allowed_def split: prod.splits)

lemma matches_length:
  "fold_result (\<lambda>(i, m) (cs, P). and_then (match_exists mc None (path @ ''_'' @ show_nat i) m P) (\<lambda>(c, P'). Inr (cs @ [c], P')))
      (enumerate i ms) s = Inr t \<Longrightarrow> length (fst t) = length (fst s) + length ms"
  by (induction ms arbitrary: i s) (auto simp: and_then_Inr split: prod.splits)

lemma matches_exist_length: "matches_exist mc path ms P = Inr (cs, P') \<Longrightarrow> length cs = length ms"
  using matches_length [of mc path 0 ms "([], P)" "(cs, P')"] by (simp add: matches_exist_def)

lemma number_clause_length: "length (fst (number_clause n k c s)) = length (fst s) + (if given n then 1 else 0)"
  by (cases n) (auto simp: number_clause_def split: prod.splits)

lemma demand_length:
  assumes "demand_clauses w owner d demand s = Inr t"
  shows "length (fst s) \<le> length (fst t)" "length (fst s) < length (fst t) \<longleftrightarrow> asks_something demand"
proof -
  obtain cs P where s: "s = (cs, P)" by fastforce
  have "length (fst t) = length (fst s) + length (or_nil (de_matches demand)) + (if given (de_force_length demand) then 1 else 0)
      + (if given (de_force_non_nullable_length demand) then 1 else 0) + (if given (de_force_structure_length demand) then 1 else 0)"
    using assms unfolding demand_clauses_def s Let_def
    by (auto simp: and_then_Inr number_clause_length split: option.splits dest!: matches_exist_length)
  then show "length (fst s) \<le> length (fst t)" "length (fst s) < length (fst t) \<longleftrightarrow> asks_something demand"
    by (auto simp: asks_something_def)
qed

lemma demands_built:
  "(\<exists>t. fold_result (\<lambda>(d, demand) s. demand_clauses w owner d demand s) (enumerate i demands) s = Inr t)
    \<longleftrightarrow> list_all (demand_allowed owner) demands"
proof (induction demands arbitrary: i s)
  case (Cons demand demands)
  show ?case
  proof (cases "demand_clauses w owner i demand s")
    case (Inl e)
    then show ?thesis using demand_built [of w owner i demand s] by simp
  next
    case (Inr t)
    then show ?thesis using demand_built [of w owner i demand s] Cons.IH [of "Suc i" t] by simp
  qed
qed simp

lemma demands_length:
  "fold_result (\<lambda>(d, demand) s. demand_clauses w owner d demand s) (enumerate i demands) s = Inr t \<Longrightarrow>
   length (fst s) \<le> length (fst t) \<and> (length (fst s) < length (fst t) \<longleftrightarrow> list_ex asks_something demands)"
proof (induction demands arbitrary: i s)
  case (Cons demand demands)
  then obtain u where first: "demand_clauses w owner i demand s = Inr u"
    and rest: "fold_result (\<lambda>(d, demand) s. demand_clauses w owner d demand s) (enumerate (Suc i) demands) u = Inr t"
    by (auto simp: and_then_Inr)
  then show ?case using demand_length [OF first] Cons.IH [OF rest] by auto
qed simp

text \<open>
  C33. A port demand gets a statement exactly when every demand is about a side the owner has ports on, every
  root match with descriptors also narrows structurally, and there is something to ask: an organization,
  a match or a number.
\<close>

theorem port_demand_sql_accepts:
  "(\<exists>r. port_demand_sql w demands org owner = Inr r) \<longleftrightarrow>
     list_all (demand_allowed owner) demands \<and> (case org of None \<Rightarrow> list_ex asks_something demands | Some n \<Rightarrow> True)"
proof -
  define start :: "sql_cond list \<times> sql_params" where "start = (case org of None \<Rightarrow> ([], Map.empty)
    | Some n \<Rightarrow> ([Eq (Col ''a'' ''organization_id'') (Param ''org'')], [''org'' \<mapsto> S_Int n]))"
  let ?fold = "fold_result (\<lambda>(d, demand) s. demand_clauses w owner d demand s) (enumerate 0 demands) start"
  have "(\<exists>r. port_demand_sql w demands org owner = Inr r) \<longleftrightarrow> (\<exists>t. ?fold = Inr t \<and> fst t \<noteq> [])"
    by (auto simp: port_demand_sql_def start_def Let_def and_then_Inr split: if_splits)
  also have "\<dots> \<longleftrightarrow> (\<exists>t. ?fold = Inr t) \<and> (case org of None \<Rightarrow> list_ex asks_something demands | Some n \<Rightarrow> True)"
    using demands_length [of w owner 0 demands start] by (auto simp: start_def split: option.splits)
  finally show ?thesis by (simp only: demands_built)
qed

section \<open>Placeholders\<close>

text \<open>A token is bound when it is a placeholder with a value, or text without a percent sign.\<close>

definition token_bound :: "sql_params \<Rightarrow> token \<Rightarrow> bool" where
  "token_bound P t \<longleftrightarrow> token_ok t \<and> (case t of Text s \<Rightarrow> True | Named k \<Rightarrow> P k \<noteq> None)"

definition grows_to :: "sql_params \<Rightarrow> sql_params \<Rightarrow> bool" where
  "grows_to P P' \<longleftrightarrow> (\<forall>k. P k \<noteq> None \<longrightarrow> P' k \<noteq> None)"

lemma grows_to_refl [simp]: "grows_to P P"
  by (simp add: grows_to_def)

lemma grows_to_trans: "grows_to P Q \<Longrightarrow> grows_to Q R \<Longrightarrow> grows_to P R"
  by (simp add: grows_to_def)

lemma grows_to_bound: "grows_to P P' \<Longrightarrow> list_all (token_bound P) ts \<Longrightarrow> list_all (token_bound P') ts"
  by (auto simp: grows_to_def token_bound_def list_all_iff split: token.splits)

definition plain :: "string \<Rightarrow> bool" where
  "plain s \<longleftrightarrow> CHR ''%'' \<notin> set s"

lemma plain_simps [simp]:
  "plain []" "plain (c # s) \<longleftrightarrow> c \<noteq> CHR ''%'' \<and> plain s" "plain (s @ t) \<longleftrightarrow> plain s \<and> plain t"
  by (auto simp: plain_def)

lemma token_bound_simps [simp]:
  "token_bound P (Text s) \<longleftrightarrow> plain s"
  "token_bound P (Named k) \<longleftrightarrow> k \<noteq> [] \<and> list_all is_word k \<and> P k \<noteq> None"
  by (auto simp: token_bound_def plain_def)

lemma is_word_chars [simp]:
  "is_word CHR ''_''" "\<not> is_word CHR ''%''"
  by (simp_all add: is_word_def is_alpha_def is_lower_def is_upper_def is_digit_def)

lemma letter_words [simp]:
  "is_word CHR ''a''" "is_word CHR ''b''" "is_word CHR ''c''" "is_word CHR ''d''" "is_word CHR ''e''" "is_word CHR ''f''" "is_word CHR ''g''" "is_word CHR ''h''"
  "is_word CHR ''i''" "is_word CHR ''j''" "is_word CHR ''k''" "is_word CHR ''l''" "is_word CHR ''m''" "is_word CHR ''n''" "is_word CHR ''o''" "is_word CHR ''p''"
  "is_word CHR ''q''" "is_word CHR ''r''" "is_word CHR ''s''" "is_word CHR ''t''" "is_word CHR ''u''" "is_word CHR ''v''" "is_word CHR ''w''" "is_word CHR ''x''"
  "is_word CHR ''y''" "is_word CHR ''z''"
  by (simp_all add: is_word_def is_alpha_def is_lower_def is_upper_def is_digit_def)

lemma word_plain: "list_all is_word s \<Longrightarrow> plain s"
  by (auto simp: plain_def list_all_iff)

lemma show_nat_word [simp]: "list_all is_word (show_nat n)"
  using show_nat_digits [of n] by (auto simp: list_all_iff is_word_def)

lemma key_words [simp]:
  "list_all is_word (''at_'' @ q) \<longleftrightarrow> list_all is_word q" "list_all is_word (''key_'' @ q) \<longleftrightarrow> list_all is_word q"
  "list_all is_word (''kind_'' @ q) \<longleftrightarrow> list_all is_word q" "list_all is_word (''ident_'' @ q) \<longleftrightarrow> list_all is_word q"
  "list_all is_word (''dim_'' @ q) \<longleftrightarrow> list_all is_word q" "list_all is_word (''null_'' @ q) \<longleftrightarrow> list_all is_word q"
  "list_all is_word (''obj_'' @ q) \<longleftrightarrow> list_all is_word q" "list_all is_word (''cutoff_'' @ q) \<longleftrightarrow> list_all is_word q"
  "list_all is_word (''force_length_'' @ q) \<longleftrightarrow> list_all is_word q" "list_all is_word (''force_structure_'' @ q) \<longleftrightarrow> list_all is_word q"
  "list_all is_word (''force_non_nullable_'' @ q) \<longleftrightarrow> list_all is_word q" "list_all is_word ''org''"
  by (simp_all add: is_word_def is_alpha_def is_lower_def is_upper_def is_digit_def)

lemma separated_bound: "plain sep \<Longrightarrow> list_all (list_all (token_bound P)) tss \<Longrightarrow> list_all (token_bound P) (separated sep tss)"
  by (induction sep tss rule: separated.induct) auto

definition conds_bound :: "sql_params \<Rightarrow> sql_cond list \<Rightarrow> bool" where
  "conds_bound P cs \<longleftrightarrow> list_all (list_all (token_bound P)) (conds_tokens cs)"

lemma conds_tokens_map: "conds_tokens cs = map cond_tokens cs"
  by (induction cs) auto

lemma conds_bound_simps [simp]:
  "conds_bound P []" "conds_bound P (c # cs) \<longleftrightarrow> list_all (token_bound P) (cond_tokens c) \<and> conds_bound P cs"
  "conds_bound P (cs @ ds) \<longleftrightarrow> conds_bound P cs \<and> conds_bound P ds"
  by (simp_all add: conds_bound_def conds_tokens_map)

lemma conds_bound_separated [simp]: "conds_bound P cs \<Longrightarrow> list_all (token_bound P) (separated '' AND '' (conds_tokens cs))"
  "conds_bound P cs \<Longrightarrow> list_all (token_bound P) (separated '' OR '' (conds_tokens cs))"
  by (simp_all add: conds_bound_def separated_bound)

lemma conds_bound_grows: "grows_to P P' \<Longrightarrow> conds_bound P cs \<Longrightarrow> conds_bound P' cs"
  by (induction cs) (auto intro: grows_to_bound)

lemma put_params_grows: "grows_to P (put_params kvs P)"
proof (induction kvs arbitrary: P)
  case (Cons kv kvs)
  have "grows_to P (P(fst kv \<mapsto> snd kv))" by (simp add: grows_to_def)
  with Cons show ?case by (cases kv) (auto simp: put_params_def intro: grows_to_trans)
qed simp

lemma builders_grow:
  "match_exists mc parent path m P = Inr (x, P') \<Longrightarrow> grows_to P P'"
  "children_exist mc q path i ms P = Inr (xs, P') \<Longrightarrow> grows_to P P'"
proof (induction mc parent path m P and mc q path i ms P arbitrary: x P' and xs P' rule: match_exists_children_exist.induct)
  case (1 mc parent path at' key kind ident nullable dim' descs cs P)
  let ?m = "PortMatch at' key kind ident nullable dim' descs cs"
  obtain nested where built: "children_exist mc (''p_'' @ path) path 0 (or_nil cs) (put_params (match_params mc parent path ?m) P) = Inr (nested, P')"
    "\<not> (or_nil descs \<noteq> [] \<and> parent = None \<and> \<not> narrows ?m)"
    using 1(2) by (auto simp: match_exists_unfold and_then_Inr split: if_splits)
  have "grows_to (put_params (match_params mc parent path ?m) P) P'"
    using 1(1) [OF refl refl refl refl built(2)] built(1) unfolding match_params_def port_match.sel by blast
  then show ?case by (rule grows_to_trans [OF put_params_grows])
next
  case (2 mc q path i P)
  then show ?case by simp
next
  case (3 mc q path i c cs P)
  then show ?case by (auto simp: and_then_Inr intro: grows_to_trans)
qed

lemma live_agent_bound:
  "plain a \<Longrightarrow> list_all is_word k \<Longrightarrow> k \<noteq> [] \<Longrightarrow> P k \<noteq> None \<Longrightarrow> list_all (token_bound P) (cond_tokens (live_agent a k))"
  by (simp add: live_agent_def column_text_def)

lemma accepts_object_bound:
  "plain a \<Longrightarrow> list_all is_word k \<Longrightarrow> k \<noteq> [] \<Longrightarrow> P k \<noteq> None \<Longrightarrow> list_all (token_bound P) (cond_tokens (accepts_object a k))"
  by (simp add: accepts_object_def column_text_def empty_object_def)

lemma fits_condition_bound:
  "plain p \<Longrightarrow> list_all is_word k \<Longrightarrow> k \<noteq> [] \<Longrightarrow> P k \<noteq> None \<Longrightarrow> list_all is_word l \<Longrightarrow> l \<noteq> [] \<Longrightarrow> P l \<noteq> None \<Longrightarrow>
   list_all (token_bound P) (cond_tokens (fits_condition p k l))"
  using live_agent_bound [of "''g''" l P]
  by (simp add: fits_condition_def Let_def column_text_def empty_object_def named_as_def)

lemma given_field_bound:
  assumes "plain a" "plain c" "list_all is_word k" "k \<noteq> []" "\<forall>(c, k, v) \<in> set (given_field c k f x). P k \<noteq> None"
  shows "conds_bound P (map (\<lambda>(c, k, _). Eq (Col a c) (Param k)) (given_field c k f x))"
  using assms by (cases x) (auto simp: given_field_def column_text_def)

lemma match_fields_bound:
  assumes "plain a" "list_all is_word path" "\<forall>(c, k, v) \<in> set (match_fields path m). P k \<noteq> None"
  shows "conds_bound P (map (\<lambda>(c, k, _). Eq (Col a c) (Param k)) (match_fields path m))"
  using assms(3) unfolding match_fields_def map_append conds_bound_simps set_append ball_Un
  by (intro conjI given_field_bound [OF assms(1)]) (use assms(2) in auto)

definition plain_context :: "match_context \<Rightarrow> bool" where
  "plain_context mc \<longleftrightarrow> plain (mc_table mc) \<and> plain (mc_owner_alias mc) \<and> plain (mc_owner_column mc)"

lemma built_bound:
  "match_exists mc parent path m P = Inr (x, P') \<Longrightarrow> list_all is_word path \<Longrightarrow> plain_context mc \<Longrightarrow> plain (anchor mc parent) \<Longrightarrow>
   list_all (token_bound P') (cond_tokens x)"
  "children_exist mc q path i ms P = Inr (xs, P') \<Longrightarrow> list_all is_word path \<Longrightarrow> plain_context mc \<Longrightarrow> plain q \<Longrightarrow> conds_bound P' xs"
proof (induction mc parent path m P and mc q path i ms P arbitrary: x P' and xs P' rule: match_exists_children_exist.induct)
  case (1 mc parent path at' key kind ident nullable dim' descs cs P)
  let ?m = "PortMatch at' key kind ident nullable dim' descs cs" and ?a = "''p_'' @ path"
  obtain nested where built: "children_exist mc ?a path 0 (or_nil cs) (put_params (match_params mc parent path ?m) P) = Inr (nested, P')"
    and x: "x = Exists [From (mc_table mc) ?a] (correlation mc parent ?a
              @ map (\<lambda>(c, k, _). Eq (Col ?a c) (Param k)) (match_fields path ?m)
              @ (if or_nil (pm_descriptors ?m) = [] then [] else descriptor_conds mc parent ?a path) @ nested)"
    and narrow: "\<not> (or_nil descs \<noteq> [] \<and> parent = None \<and> \<not> narrows ?m)"
    using 1(2) by (auto simp: match_exists_unfold and_then_Inr split: if_splits)
  have a: "plain ?a" using word_plain [OF 1(3)] by simp
  have nested: "conds_bound P' nested"
    using 1(1) [OF refl refl refl refl narrow] built 1(3,4) a unfolding match_params_def port_match.sel by blast
  have written: "P' k \<noteq> None" if "(k, v) \<in> set (match_params mc parent path ?m)" for k v
    using own_params_written [OF built that] by simp
  have fields: "conds_bound P' (map (\<lambda>(c, k, _). Eq (Col ?a c) (Param k)) (match_fields path ?m))"
    by (rule match_fields_bound [OF a 1(3)]) (use written field_in_params in blast)
  have link: "conds_bound P' (correlation mc parent ?a)"
    using 1(4,5) a by (cases parent) (auto simp: correlation_def anchor_def plain_context_def column_text_def)
  have "conds_bound P' (descriptor_conds mc parent ?a path)" if descs: "or_nil (pm_descriptors ?m) \<noteq> []"
  proof -
    have obj: "P' (''obj_'' @ path) \<noteq> None"
      by (rule written [where v = "S_Str (object_text (mw_float_text (mc_world mc)) (or_nil (pm_descriptors ?m)))"])
        (use descs in \<open>simp add: match_params_def descriptor_params_def\<close>)
    have "P' (''cutoff_'' @ path) \<noteq> None" if "tests_fits mc parent"
      by (rule written [where v = "S_Time (mw_cutoff (mc_world mc))"]) (use descs that in \<open>simp add: match_params_def descriptor_params_def\<close>)
    then show ?thesis
      using fits_condition_bound [OF a, of "''obj_'' @ path" P' "''cutoff_'' @ path"] accepts_object_bound [OF a, of "''obj_'' @ path" P'] obj 1(3)
      unfolding descriptor_conds_def conds_bound_simps by (simp only: key_words) auto
  qed
  then have "conds_bound P' (correlation mc parent ?a
              @ map (\<lambda>(c, k, _). Eq (Col ?a c) (Param k)) (match_fields path ?m)
              @ (if or_nil (pm_descriptors ?m) = [] then [] else descriptor_conds mc parent ?a path) @ nested)"
    using link fields nested by (simp only: conds_bound_simps) simp
  then show ?case
    unfolding x cond_tokens.simps list_all_append
    using a 1(4) by (simp only: conds_bound_separated) (simp add: named_as_def plain_context_def)
next
  case (2 mc q path i P)
  then show ?case by simp
next
  case (3 mc q path i c cs P)
  then obtain y P1 ys where first: "match_exists mc (Some q) (path @ CHR ''_'' # show_nat i) c P = Inr (y, P1)"
    and rest: "children_exist mc q path (Suc i) cs P1 = Inr (ys, P')" and xs: "xs = y # ys"
    by (auto simp: and_then_Inr)
  have "list_all is_word (path @ CHR ''_'' # show_nat i)" using 3(4) by simp
  then have "list_all (token_bound P1) (cond_tokens y)"
    using 3(1) [unfolded append_Cons append_Nil, OF first] 3(5,6) by (simp add: anchor_def)
  then have "list_all (token_bound P') (cond_tokens y)" by (rule grows_to_bound [OF builders_grow(2) [OF rest]])
  moreover have "conds_bound P' ys"
    using 3(2) [unfolded append_Cons append_Nil, OF first refl rest] 3(4,5,6) by blast
  ultimately show ?case by (simp add: xs)
qed

section \<open>The statement's text\<close>

definition state_bound :: "sql_cond list \<times> sql_params \<Rightarrow> bool" where
  "state_bound s \<longleftrightarrow> conds_bound (snd s) (fst s)"

lemma state_bound_more:
  "state_bound (cs, P) \<Longrightarrow> grows_to P P' \<Longrightarrow> list_all (token_bound P') (cond_tokens c) \<Longrightarrow> state_bound (cs @ [c], P')"
  by (simp add: state_bound_def conds_bound_grows)

lemma number_clause_bound:
  assumes "state_bound s" "\<And>P. P k \<noteq> None \<Longrightarrow> list_all (token_bound P) (cond_tokens (clause k))"
  shows "state_bound (number_clause n k clause s)"
proof (cases n)
  case (Some v)
  obtain cs P where s: "s = (cs, P)" by fastforce
  have "grows_to P (P(k \<mapsto> S_Int v))" by (simp add: grows_to_def)
  then show ?thesis using assms state_bound_more [of cs P "P(k \<mapsto> S_Int v)" "clause k"]
    by (simp add: number_clause_def s Some)
qed (use assms in \<open>auto simp: number_clause_def split: prod.splits\<close>)

lemma matches_bound:
  assumes "plain_context mc" "list_all is_word path"
    and "fold_result (\<lambda>(i, m) (cs, P). and_then (match_exists mc None (path @ ''_'' @ show_nat i) m P) (\<lambda>(c, P'). Inr (cs @ [c], P'))) ims s = Inr t"
    and "state_bound s"
  shows "state_bound t"
  using assms(3,4)
proof (rule fold_result_invariant)
  fix im u v
  assume step: "(\<lambda>(i, m) (cs, P). and_then (match_exists mc None (path @ ''_'' @ show_nat i) m P) (\<lambda>(c, P'). Inr (cs @ [c], P'))) im u = Inr v"
    and u: "state_bound u"
  obtain i m cs P where im: "im = (i, m)" "u = (cs, P)" by (metis surj_pair)
  with step obtain c P' where built: "match_exists mc None (path @ CHR ''_'' # show_nat i) m P = Inr (c, P')" and v: "v = (cs @ [c], P')"
    by (auto simp: and_then_Inr)
  have "list_all is_word (path @ CHR ''_'' # show_nat i)" using assms(2) by simp
  then have "list_all (token_bound P') (cond_tokens c)"
    using built_bound(1) [OF built] assms(1) by (simp add: anchor_def plain_context_def)
  then show "state_bound v" using state_bound_more u builders_grow(1) [OF built] unfolding v im by blast
qed

lemma root_count_bound:
  assumes "plain table" "plain column" "list_all is_word k" "k \<noteq> []" "P k \<noteq> None" "list_all (token_bound P) (cond_tokens extra)"
  shows "list_all (token_bound P) (cond_tokens (root_count table column ''a'' extra k))"
  using assms by (simp add: root_count_def named_as_def column_text_def)

lemma demand_bound:
  assumes "demand_clauses w owner d demand s = Inr t" "owner_ok owner" "state_bound s"
  shows "state_bound t"
proof -
  obtain cs P where s: "s = (cs, P)" by fastforce
  from assms(1) obtain table cs' P' where table: "ow_port_tables owner (de_kind demand) = Some table"
    and matches: "matches_exist (demand_context w owner table) (show_nat d) (or_nil (de_matches demand)) P = Inr (cs', P')"
    and t: "t = number_clause (de_force_structure_length demand) (''force_structure_'' @ show_nat d)
                   (root_count table (ow_column owner) ''a'' (Eq (Col ''pc'' ''kind'') (Quoted ''STRUCTURE'')))
                 (number_clause (de_force_non_nullable_length demand) (''force_non_nullable_'' @ show_nat d)
                   (root_count table (ow_column owner) ''a'' (Is_False (Col ''pc'' ''nullable'')))
                 (number_clause (de_force_length demand) (''force_length_'' @ show_nat d)
                   (case ow_count_columns owner of
                      Some columns \<Rightarrow> \<lambda>k. Eq (Col ''a'' (columns (de_kind demand))) (Param k)
                    | None \<Rightarrow> root_count table (ow_column owner) ''a'' Always)
                 (cs @ cs', P')))"
    unfolding s demand_clauses_def Let_def demand_context_def by (auto simp: and_then_Inr split: option.splits)
  have plain: "plain table" "plain (ow_column owner)"
    using assms(2) table by (cases "de_kind demand"; auto simp: owner_ok_def ACTION_PORTS_def BLOK_PORTS_def)+
  have word: "list_all is_word (''force_structure_'' @ show_nat d)" "list_all is_word (''force_non_nullable_'' @ show_nat d)"
    "list_all is_word (''force_length_'' @ show_nat d)" by (simp_all only: key_words show_nat_word)
  have grown: "grows_to P P'"
  proof -
    have "grows_to P (snd (cs', P'))"
      using matches unfolding matches_exist_def
      by (rule fold_result_invariant [where P = "\<lambda>u. grows_to P (snd u)"])
        (auto simp: and_then_Inr dest!: builders_grow(1) intro: grows_to_trans)
    then show ?thesis by simp
  qed
  have "state_bound (cs', P')"
    using matches unfolding matches_exist_def
    by (rule matches_bound [rotated 2])
      (use plain in \<open>simp_all add: plain_context_def state_bound_def\<close>)
  then have start: "state_bound (cs @ cs', P')"
    using assms(3) grown by (simp add: s state_bound_def conds_bound_grows)
  have count: "list_all (token_bound Q) (cond_tokens ((case ow_count_columns owner of
        Some columns \<Rightarrow> \<lambda>k. Eq (Col ''a'' (columns (de_kind demand))) (Param k)
      | None \<Rightarrow> root_count table (ow_column owner) ''a'' Always) (''force_length_'' @ show_nat d)))"
    if "Q (''force_length_'' @ show_nat d) \<noteq> None" for Q
    using assms(2) root_count_bound [OF plain word(3), of Q Always] that word(3)
    by (cases "de_kind demand"; auto simp: owner_ok_def ACTION_PORTS_def BLOK_PORTS_def column_text_def)
  show ?thesis
    unfolding t
    by (intro number_clause_bound start count root_count_bound plain word) (auto simp: column_text_def)
qed

text \<open>
  C34. The placeholders of a port demand's statement are all bound, and the positional form is the same text
  with the values in the order of the placeholders: nothing in it raises KeyError and no name is left.
\<close>

theorem port_demand_sql_positional:
  assumes "port_demand_sql w demands org owner = Inr (s, P)" "owner_ok owner"
  shows "to_positional (sql_text (select_tokens s)) P =
    Inr (positional_text (select_tokens s), map (\<lambda>k. the (P k)) (token_names (select_tokens s)))"
proof -
  define start where "start = (case org of None \<Rightarrow> ([], Map.empty)
    | Some n \<Rightarrow> ([Eq (Col ''a'' ''organization_id'') (Param ''org'')], [''org'' \<mapsto> S_Int n]))"
  obtain cs where folded: "fold_result (\<lambda>(d, demand) s. demand_clauses w owner d demand s) (enumerate 0 demands) start = Inr (cs, P)"
    and s: "s = \<lparr>se_table = ow_table owner, se_alias = ''a'', se_where = cs\<rparr>"
    using assms(1) by (auto simp: port_demand_sql_def start_def Let_def and_then_Inr split: if_splits)
  have "state_bound start"
    by (cases org) (auto simp: start_def state_bound_def column_text_def)
  with folded have "state_bound (cs, P)"
    by (rule fold_result_invariant) (use demand_bound assms(2) in auto)
  moreover have "plain (ow_table owner)" using assms(2) by (auto simp: owner_ok_def ACTION_PORTS_def BLOK_PORTS_def)
  ultimately have bound: "list_all (token_bound P) (select_tokens s)"
    by (simp add: select_tokens_def s state_bound_def column_text_def named_as_def)
  then have ok: "list_all token_ok (select_tokens s)" by (auto simp: list_all_iff token_bound_def)
  have "map_result (\<lambda>k. case P k of None \<Rightarrow> Inl (KeyError [Txt k]) | Some v \<Rightarrow> Inr v) (token_names ts) = Inr (map (\<lambda>k. the (P k)) (token_names ts))"
    if "list_all (token_bound P) ts" for ts
    using that by (induction ts rule: token_names.induct) auto
  from this [OF bound] show ?thesis by (simp add: to_positional_def sub_named_tokens [OF ok])
qed

section \<open>An example\<close>

text \<open>
  Two actions take an image with at least two channels. The live implementation of the second states that it
  does not handle the object, so the demand finds the first alone.
\<close>

definition image_port :: "int \<Rightarrow> int \<Rightarrow> matched_port" where
  "image_port n action = \<lparr>po_id = n, po_owner = action, po_parent = None, po_index = 0, po_key = Some ''image'',
     po_kind = Some ''STRUCTURE'', po_identifier = Some ''@mikro/image'', po_dimension = None, po_nullable = False,
     po_jsonpath = Some ''channels''\<rparr>"

definition action_row :: "int \<Rightarrow> owner_row" where
  "action_row n = \<lparr>own_id = n, own_organization = 7, own_count = (\<lambda>s. if s = Args then 1 else 0)\<rparr>"

definition image_hub :: match_hub where
  "image_hub = \<lparr>mh_ports = (\<lambda>t. if t = ''facade_argport'' then [image_port 1 1, image_port 2 2] else []),
     mh_owners = (\<lambda>t. if t = ''facade_action'' then [action_row 1, action_row 2] else []),
     mh_agents = [\<lparr>ag_id = 1, ag_kind = ''WEBHOOK'', ag_connected = False, ag_last_seen = None, ag_hardware = None\<rparr>],
     mh_implementations = [\<lparr>im_id = 1, im_action = 1, im_agent = 1\<rparr>, \<lparr>im_id = 2, im_action = 2, im_agent = 1\<rparr>],
     mh_fits = [\<lparr>ft_id = 1, ft_implementation = 2, ft_port_key = ''image'', ft_jsonpath = ''small''\<rparr>],
     mh_path_match = (\<lambda>obj path vars. Some (path = ''channels''))\<rparr>"

definition image_demand :: port_demand where
  "image_demand = \<lparr>de_kind = Args,
     de_matches = Some [PortMatch (Some 0) None None (Some ''@mikro/image'') None None (Some [(''channels'', JInt 3)]) None],
     de_force_length = Some 1, de_force_non_nullable_length = Some 1, de_force_structure_length = None\<rparr>"

definition image_world :: match_world where
  "image_world = \<lparr>mw_cutoff = 100, mw_float_text = (\<lambda>_. [])\<rparr>"

lemma image_demand_built: "\<exists>s P. port_demand_sql image_world [image_demand] (Some 7) ACTION_PORTS = Inr (s, P)"
proof -
  have "demand_allowed ACTION_PORTS image_demand"
    by (simp add: demand_allowed_def image_demand_def ACTION_PORTS_def match_allowed_def narrows_def)
  then obtain t where "demand_clauses image_world ACTION_PORTS 0 image_demand ([Eq (Col ''a'' ''organization_id'') (Param ''org'')], [''org'' \<mapsto> S_Int 7]) = Inr t"
    using demand_built by blast
  moreover from demand_length(1) [OF this] have "fst t \<noteq> []" by auto
  ultimately show ?thesis by (cases t) (simp add: port_demand_sql_def)
qed

lemma image_demand_met: "demand_met image_hub image_world ACTION_PORTS image_demand (action_row n) \<longleftrightarrow> n = 1"
  if "n \<in> {1, 2}"
proof -
  define mc where "mc = demand_context image_world ACTION_PORTS ''facade_argport''"
  define m where "m = PortMatch (Some 0) None None (Some ''@mikro/image'') None None (Some [(''channels'', JInt 3)]) None"
  have live: "agent_live t \<lparr>ag_id = 1, ag_kind = ''WEBHOOK'', ag_connected = False, ag_last_seen = None, ag_hardware = None\<rparr>" for t
    by (simp add: agent_live_def)
  have "can_handle image_hub t obj (image_port n n) \<longleftrightarrow> n = 1" for t obj
    unfolding can_handle_def ball_live no_fits bex_fits using that live
    by (auto simp: image_hub_def image_port_def)
  then have "port_meets image_hub mc False m (image_port n n) \<longleftrightarrow> n = 1"
    unfolding port_meets.simps [of image_hub mc False m]
    by (simp add: fields_meet_def object_accepted_def port_accepts_def asked_def m_def image_port_def
      image_hub_def mc_def ACTION_PORTS_def Let_def)
  then have "root_meets image_hub mc n m \<longleftrightarrow> n = 1"
    using that by (auto simp: root_meets_def mc_def image_hub_def image_port_def)
  then show ?thesis
    using that by (auto simp: demand_met_def image_demand_def ACTION_PORTS_def asked_def action_row_def mc_def m_def demand_context_def
      roots_where_def image_hub_def image_port_def)
qed

theorem port_demand_sql_selects_witness:
  "\<exists>s P. port_demand_sql image_world [image_demand] (Some 7) ACTION_PORTS = Inr (s, P) \<and>
     selected (hub_sql image_hub ACTION_PORTS P) s = [owner_columns (action_row 1)]"
proof -
  obtain s P where built: "port_demand_sql image_world [image_demand] (Some 7) ACTION_PORTS = Inr (s, P)"
    using image_demand_built by blast
  have "mh_owners image_hub (ow_table ACTION_PORTS) = [action_row 1, action_row 2]"
    by (simp add: image_hub_def ACTION_PORTS_def)
  then have "selected (hub_sql image_hub ACTION_PORTS P) s = [owner_columns (action_row 1)]"
    using port_demand_sql_selects [OF built, of image_hub] image_demand_met [of 1] image_demand_met [of 2]
    by (simp add: owner_ok_def action_row_def)
  with built show ?thesis by blast
qed

theorem port_demand_sql_positional_witness:
  "\<exists>s P. port_demand_sql image_world [image_demand] (Some 7) ACTION_PORTS = Inr (s, P) \<and>
     to_positional (sql_text (select_tokens s)) P =
       Inr (positional_text (select_tokens s), map (\<lambda>k. the (P k)) (token_names (select_tokens s)))"
proof -
  obtain s P where built: "port_demand_sql image_world [image_demand] (Some 7) ACTION_PORTS = Inr (s, P)"
    using image_demand_built by blast
  with port_demand_sql_positional [OF built] show ?thesis by (simp add: owner_ok_def)
qed

end
