(* ===== verification/State_Log.thy ===== *)
theory State_Log
  imports Json
begin

text \<open>
  The log of agents' states (\<open>src/facade/models/state.py\<close>) and how a state is read back from it:
  \<open>get_latest_state\<close> of \<open>src/facade/logic.py\<close> and the queries of \<open>src/facade/queries/state.py\<close>. A
  session numbers the patches of an agent's process; a snapshot is the whole value at a revision.
  Applying one JSON patch operation is the library \<open>jsonpatch\<close>, a parameter: it answers the patched
  document, one of the exceptions the code expects, or another one.
\<close>

section \<open>Rows\<close>

record patch_doc =
  pd_op :: string
  pd_path :: string
  pd_value :: "json option"

datatype patch_error = Does_Not_Apply | Other_Error

type_synonym patch_library = "patch_doc \<Rightarrow> json \<Rightarrow> patch_error + json"

record log_session =
  ls_id :: nat
  ls_agent :: nat
  ls_session_id :: string
  ls_created :: int

record log_state =
  lt_id :: nat
  lt_agent :: nat
  lt_interface :: string

record log_patch =
  lp_id :: nat
  lp_state :: nat
  lp_agent :: "nat option"
  lp_session :: "nat option"
  lp_op :: string
  lp_path :: string
  lp_value :: json
  lp_time :: int
  lp_rev :: int
  lp_task :: "string option"

record log_snapshot =
  lo_id :: nat
  lo_state :: nat
  lo_agent :: "nat option"
  lo_session :: "nat option"
  lo_value :: json
  lo_time :: int
  lo_rev :: int

record state_log =
  sl_organization :: "nat \<Rightarrow> nat option"
  sl_sessions :: "log_session list"
  sl_states :: "log_state list"
  sl_patches :: "log_patch list"
  sl_snapshots :: "log_snapshot list"

datatype log_error = No_Session | No_Snapshot | No_State | No_Patch | Patch_Failed patch_error | Negative_Count

section \<open>Ordering and limits\<close>

text \<open>\<open>order_by("global_rev", "id")\<close>, and the last of it (\<open>order_by("-global_rev", "-id").first()\<close>).
  Where the code orders by the revision or a time alone (\<open>order_by("-global_rev").first()\<close>), rows that tie come as
  the database has them: in the order of the table.\<close>

definition in_order :: "('a \<Rightarrow> int) \<Rightarrow> ('a \<Rightarrow> nat) \<Rightarrow> 'a list \<Rightarrow> 'a list" where
  "in_order rev' pk xs = sort_key rev' (sort_key pk xs)"

definition newest :: "('a \<Rightarrow> int) \<Rightarrow> ('a \<Rightarrow> nat) \<Rightarrow> 'a list \<Rightarrow> 'a option" where
  "newest rev' pk xs = (case in_order rev' pk xs of [] \<Rightarrow> None | y # ys \<Rightarrow> Some (last (y # ys)))"

definition descending :: "('a \<Rightarrow> int) \<Rightarrow> 'a list \<Rightarrow> 'a list" where
  "descending key xs = sort_key (\<lambda>x. - key x) xs"

definition newest_by :: "('a \<Rightarrow> int) \<Rightarrow> 'a list \<Rightarrow> 'a option" where
  "newest_by key xs = (case descending key xs of [] \<Rightarrow> None | x # _ \<Rightarrow> Some x)"

text \<open>A slice \<open>[:count]\<close> of a queryset refuses a negative count.\<close>

definition first_n :: "int \<Rightarrow> 'a list \<Rightarrow> log_error + 'a list" where
  "first_n n xs = (if n < 0 then Inl Negative_Count else Inr (take (nat n) xs))"

definition in_range :: "int \<Rightarrow> int option \<Rightarrow> int \<Rightarrow> bool" where
  "in_range lo hi r \<longleftrightarrow> lo < r \<and> (case hi of None \<Rightarrow> True | Some h \<Rightarrow> r \<le> h)"

section \<open>Replaying patches\<close>

text \<open>A \<open>remove\<close> has no value.\<close>

definition doc_of :: "log_patch \<Rightarrow> patch_doc" where
  "doc_of p = \<lparr>pd_op = lp_op p, pd_path = lp_path p, pd_value = (if lp_op p = ''remove'' then None else Some (lp_value p))\<rparr>"

text \<open>The value, its revision and the latest time seen, in \<open>get_latest_state\<close>: a patch that does not apply is skipped.\<close>

fun replay_skipping :: "patch_library \<Rightarrow> log_patch list \<Rightarrow> json \<times> int \<times> int \<Rightarrow> log_error + json \<times> int \<times> int" where
  "replay_skipping jp [] s = Inr s"
| "replay_skipping jp (p # ps) (v, r, t) =
     (case jp (doc_of p) v of
        Inr v' \<Rightarrow> replay_skipping jp ps (v', lp_rev p, max t (lp_time p))
      | Inl Does_Not_Apply \<Rightarrow> replay_skipping jp ps (v, r, t)
      | Inl Other_Error \<Rightarrow> Inl (Patch_Failed Other_Error))"

text \<open>\<open>jsonpatch.apply_patch\<close>: the operations in order, the first that fails raises.\<close>

fun apply_patch :: "patch_library \<Rightarrow> patch_doc list \<Rightarrow> json \<Rightarrow> patch_error + json" where
  "apply_patch jp [] v = Inr v"
| "apply_patch jp (d # ds) v = and_then (jp d v) (apply_patch jp ds)"

section \<open>The latest state\<close>

record agent_payload =
  ap_states :: "(string \<times> json) list"
  ap_revision :: int
  ap_forward :: "log_patch list"
  ap_backward :: "log_patch list"
  ap_session :: "string option"
  ap_time :: "int option"

definition no_payload :: agent_payload where
  "no_payload = \<lparr>ap_states = [], ap_revision = 0, ap_forward = [], ap_backward = [], ap_session = None, ap_time = None\<rparr>"

text \<open>A session identifier that is empty counts as none.\<close>

definition chosen :: "string option \<Rightarrow> string option" where
  "chosen s = (if s = Some [] then None else s)"

definition session_for :: "state_log \<Rightarrow> nat \<Rightarrow> string option \<Rightarrow> log_error + log_session option" where
  "session_for db agent session_id =
     (case chosen session_id of
        None \<Rightarrow> Inr (newest_by ls_created (filter (\<lambda>s. ls_agent s = agent) (sl_sessions db)))
      | Some i \<Rightarrow>
          (case find (\<lambda>s. ls_agent s = agent \<and> ls_session_id s = i) (sl_sessions db) of
             None \<Rightarrow> Inl No_Session
           | Some s \<Rightarrow> Inr (Some s)))"

definition anchor_of :: "state_log \<Rightarrow> nat \<Rightarrow> nat \<Rightarrow> nat \<Rightarrow> int option \<Rightarrow> log_snapshot option" where
  "anchor_of db state agent session rev' =
     newest lo_rev lo_id (filter (\<lambda>s. lo_state s = state \<and> lo_agent s = Some agent \<and> lo_session s = Some session \<and>
       (case rev' of None \<Rightarrow> True | Some r \<Rightarrow> lo_rev s \<le> r)) (sl_snapshots db))"

definition patches_between :: "state_log \<Rightarrow> nat \<Rightarrow> nat \<Rightarrow> int \<Rightarrow> int option \<Rightarrow> log_patch list" where
  "patches_between db state session lo hi =
     in_order lp_rev lp_id (filter (\<lambda>p. lp_state p = state \<and> lp_session p = Some session \<and> in_range lo hi (lp_rev p)) (sl_patches db))"

text \<open>One state of the loop: its value, revision and the latest time.\<close>

definition materialize_state ::
  "patch_library \<Rightarrow> state_log \<Rightarrow> nat \<Rightarrow> nat \<Rightarrow> int option \<Rightarrow> log_state \<Rightarrow> int \<Rightarrow> log_error + json \<times> int \<times> int" where
  "materialize_state jp db agent session rev' st t =
     (case anchor_of db (lt_id st) agent session rev' of
        None \<Rightarrow> Inl No_Snapshot
      | Some s \<Rightarrow> replay_skipping jp (patches_between db (lt_id st) session (lo_rev s) rev') (lo_value s, lo_rev s, max t (lo_time s)))"

definition get_latest_state ::
  "patch_library \<Rightarrow> state_log \<Rightarrow> nat \<Rightarrow> nat option \<Rightarrow> string option \<Rightarrow> int option \<Rightarrow> int \<Rightarrow> int \<Rightarrow> log_error + agent_payload" where
  "get_latest_state jp db agent state session_id rev' forward backward =
     and_then (session_for db agent session_id) (\<lambda>found.
     case found of
       None \<Rightarrow> Inr no_payload
     | Some t \<Rightarrow>
         and_then (fold_result
           (\<lambda>st (states, top, time).
              and_then (materialize_state jp db agent (ls_id t) rev' st time) (\<lambda>(v, r, time').
              Inr (states @ [(lt_interface st, v)], if r > top then r else top, time')))
           (filter (\<lambda>st. lt_agent st = agent \<and> (case state of None \<Rightarrow> True | Some i \<Rightarrow> lt_id st = i)) (sl_states db))
           ([], 0, ls_created t))
         (\<lambda>(states, top, time).
           let reference = (case rev' of None \<Rightarrow> top | Some r \<Rightarrow> r);
               of_session = filter (\<lambda>p. lp_agent p = Some agent \<and> lp_session p = Some (ls_id t)) (sl_patches db)
           in Inr \<lparr>ap_states = states, ap_revision = top,
                ap_forward = (if forward > 0 then take (nat forward) (sort_key lp_rev (filter (\<lambda>p. lp_rev p > reference) of_session)) else []),
                ap_backward = (if backward > 0 then rev (take (nat backward) (descending lp_rev (filter (\<lambda>p. lp_rev p \<le> reference) of_session))) else []),
                ap_session = Some (ls_session_id t), ap_time = Some time\<rparr>))"

section \<open>The queries\<close>

definition session_named :: "state_log \<Rightarrow> string option \<Rightarrow> nat option \<Rightarrow> bool" where
  "session_named db wanted k \<longleftrightarrow>
     (case chosen wanted of
        None \<Rightarrow> True
      | Some i \<Rightarrow> list_ex (\<lambda>s. Some (ls_id s) = k \<and> ls_session_id s = i) (sl_sessions db))"

definition of_organization :: "state_log \<Rightarrow> nat \<Rightarrow> nat option \<Rightarrow> bool" where
  "of_organization db org agent \<longleftrightarrow> (case agent of None \<Rightarrow> False | Some a \<Rightarrow> sl_organization db a = Some org)"

record boundaries =
  bo_start :: int
  bo_end :: int
  bo_from :: int
  bo_to :: int

definition boundary_aggregates :: "log_patch list \<Rightarrow> boundaries option" where
  "boundary_aggregates ps =
     (if ps = [] then None
      else Some \<lparr>bo_start = Min (set (map lp_rev ps)) - 1, bo_end = Max (set (map lp_rev ps)),
                 bo_from = Min (set (map lp_time ps)), bo_to = Max (set (map lp_time ps))\<rparr>)"

definition is_state :: "nat option \<Rightarrow> nat \<Rightarrow> bool" where
  "is_state wanted i \<longleftrightarrow> (case wanted of None \<Rightarrow> True | Some s \<Rightarrow> s = i)"

definition task_boundaries :: "state_log \<Rightarrow> nat \<Rightarrow> string \<Rightarrow> nat option \<Rightarrow> boundaries option" where
  "task_boundaries db org reference state =
     boundary_aggregates (filter (\<lambda>p. lp_task p = Some reference \<and> of_organization db org (lp_agent p) \<and> is_state state (lp_state p)) (sl_patches db))"

definition session_boundaries :: "state_log \<Rightarrow> nat \<Rightarrow> string \<Rightarrow> nat option \<Rightarrow> boundaries option" where
  "session_boundaries db org session_id state =
     boundary_aggregates (filter (\<lambda>p. list_ex (\<lambda>s. Some (ls_id s) = lp_session p \<and> ls_session_id s = session_id) (sl_sessions db)
       \<and> of_organization db org (lp_agent p) \<and> is_state state (lp_state p)) (sl_patches db))"

definition get_state_ids :: "state_log \<Rightarrow> string option \<Rightarrow> nat \<Rightarrow> nat list" where
  "get_state_ids db session_id org =
     sorted_list_of_set
       (set (map lo_state (filter (\<lambda>s. of_organization db org (lo_agent s) \<and> session_named db session_id (lo_session s)) (sl_snapshots db))) \<union>
        set (map lp_state (filter (\<lambda>p. of_organization db org (lp_agent p) \<and> session_named db session_id (lp_session p)) (sl_patches db))))"

definition get_state_at_revision ::
  "patch_library \<Rightarrow> state_log \<Rightarrow> int \<Rightarrow> nat \<Rightarrow> string option \<Rightarrow> patch_error + log_snapshot option" where
  "get_state_at_revision jp db target state session_id =
     (case newest_by lo_rev (filter (\<lambda>s. lo_state s = state \<and> session_named db session_id (lo_session s) \<and> lo_rev s \<le> target) (sl_snapshots db)) of
        None \<Rightarrow> Inr None
      | Some anchor \<Rightarrow>
          (let ps = sort_key lp_rev (filter (\<lambda>p. lp_state p = state \<and> session_named db session_id (lp_session p)
                      \<and> in_range (lo_rev anchor) (Some target) (lp_rev p)) (sl_patches db))
           in if ps = [] then Inr (Some anchor)
              else and_then (apply_patch jp (map doc_of ps) (lo_value anchor)) (\<lambda>v.
                Inr (Some (anchor\<lparr>lo_value := v, lo_time := lp_time (last ps), lo_rev := lp_rev (last ps),
                  lo_session := lp_session (last ps), lo_state := lp_state (last ps), lo_agent := lp_agent (last ps)\<rparr>)))))"

definition state_at_global_rev ::
  "patch_library \<Rightarrow> state_log \<Rightarrow> nat \<Rightarrow> int \<Rightarrow> nat option \<Rightarrow> string option \<Rightarrow> patch_error + log_snapshot list" where
  "state_at_global_rev jp db org target state session_id =
     (let ids = (case state of Some i \<Rightarrow> [i] | None \<Rightarrow> get_state_ids db session_id org)
      in and_then (map_result (\<lambda>i. get_state_at_revision jp db target i session_id) ids) (\<lambda>found. Inr (List.map_filter id found)))"

definition forward_events_after_rev ::
  "state_log \<Rightarrow> nat \<Rightarrow> int \<Rightarrow> nat option \<Rightarrow> string option \<Rightarrow> int \<Rightarrow> log_error + log_patch list" where
  "forward_events_after_rev db org r state session_id n =
     first_n n (in_order lp_rev lp_state (filter (\<lambda>p. of_organization db org (lp_agent p) \<and> lp_rev p > r \<and> is_state state (lp_state p)
       \<and> session_named db session_id (lp_session p)) (sl_patches db)))"

definition patch_events_between ::
  "state_log \<Rightarrow> nat \<Rightarrow> int \<Rightarrow> int \<Rightarrow> nat list option \<Rightarrow> string option \<Rightarrow> log_patch list" where
  "patch_events_between db org lo hi states session_id =
     (if hi < lo then []
      else in_order lp_rev lp_state (filter (\<lambda>p. of_organization db org (lp_agent p) \<and> in_range lo (Some hi) (lp_rev p)
        \<and> (or_nil states = [] \<or> lp_state p \<in> set (or_nil states)) \<and> session_named db session_id (lp_session p)) (sl_patches db)))"

definition snapshots_around_rev ::
  "state_log \<Rightarrow> nat \<Rightarrow> int \<Rightarrow> nat option \<Rightarrow> string option \<Rightarrow> int \<Rightarrow> int \<Rightarrow> log_error + log_snapshot list" where
  "snapshots_around_rev db org r state session_id before after =
     and_then (map_result
       (\<lambda>i. let mine = filter (\<lambda>s. lo_state s = i \<and> session_named db session_id (lo_session s)) (sl_snapshots db) in
            and_then (first_n before (descending lo_rev (filter (\<lambda>s. lo_rev s \<le> r) mine))) (\<lambda>earlier.
            and_then (first_n after (sort_key lo_rev (filter (\<lambda>s. lo_rev s > r) mine))) (\<lambda>later.
            Inr (rev earlier @ later))))
       (case state of Some i \<Rightarrow> [i] | None \<Rightarrow> get_state_ids db session_id org))
     (\<lambda>parts. Inr (concat parts))"

text \<open>\<open>checkout\<close>: of one state, at a revision of a session or at a moment.\<close>

record state_value =
  sv_value :: json
  sv_revision :: int
  sv_forward :: "log_patch list"
  sv_backward :: "log_patch list"

definition moment_target ::
  "state_log \<Rightarrow> (log_patch \<Rightarrow> bool) \<Rightarrow> int \<Rightarrow> log_error + int \<times> string option" where
  "moment_target db mine t =
     (case newest_by lp_time (filter (\<lambda>p. mine p \<and> lp_time p \<le> t) (sl_patches db)) of
        None \<Rightarrow> Inl No_Patch
      | Some p \<Rightarrow> Inr (lp_rev p, case lp_session p of None \<Rightarrow> None
                     | Some k \<Rightarrow> map_option ls_session_id (find (\<lambda>s. ls_id s = k) (sl_sessions db))))"

definition checkout ::
  "patch_library \<Rightarrow> state_log \<Rightarrow> nat \<Rightarrow> string option \<Rightarrow> int option \<Rightarrow> int option \<Rightarrow> int \<Rightarrow> int \<Rightarrow> log_error + state_value" where
  "checkout jp db state session_id global_revision timestamp forward backward =
     (case find (\<lambda>s. lt_id s = state) (sl_states db) of
        None \<Rightarrow> Inl No_State
      | Some st \<Rightarrow>
          and_then (case timestamp of
              Some t \<Rightarrow> and_then (moment_target db (\<lambda>p. lp_state p = state \<and> lp_agent p = Some (lt_agent st)) t) (\<lambda>(r, s). Inr (Some r, s))
            | None \<Rightarrow> Inr (global_revision, session_id)) (\<lambda>(r, s).
          and_then (get_latest_state jp db (lt_agent st) (Some state) s r forward backward) (\<lambda>p.
          case map_of (ap_states p) (lt_interface st) of
            None \<Rightarrow> Inl No_State
          | Some v \<Rightarrow> Inr \<lparr>sv_value = v, sv_revision = ap_revision p, sv_forward = ap_forward p, sv_backward = ap_backward p\<rparr>)))"

definition checkout_agent ::
  "patch_library \<Rightarrow> state_log \<Rightarrow> nat \<Rightarrow> string option \<Rightarrow> int option \<Rightarrow> int option \<Rightarrow> int \<Rightarrow> int \<Rightarrow> log_error + agent_payload" where
  "checkout_agent jp db agent session_id global_revision timestamp forward backward =
     and_then (case timestamp of
         Some t \<Rightarrow> and_then (moment_target db (\<lambda>p. lp_agent p = Some agent) t) (\<lambda>(r, s). Inr (Some r, s))
       | None \<Rightarrow> Inr (global_revision, session_id)) (\<lambda>(r, s).
     get_latest_state jp db agent None s r forward backward)"

end
