(* ===== verification/State_Replay.thy ===== *)
theory State_Replay
  imports State_Log
begin

text \<open>
  What reading a state back promises: a log that records the history of a state from some revision on gives its
  value at any later one, the two ways of reading it agree, and where they do not.
\<close>

section \<open>Ordered rows\<close>

lemma set_in_order [simp]: "set (in_order f g xs) = set xs"
  by (simp add: in_order_def)

lemma in_order_filter: "filter P (in_order f g xs) = in_order f g (filter P xs)"
  by (simp add: in_order_def filter_sort)

lemma sorted_in_order: "sorted (map f (in_order f g xs))"
  by (simp add: in_order_def)

lemma newest_None [simp]: "newest f g xs = None \<longleftrightarrow> xs = []"
proof -
  have "in_order f g xs = [] \<longleftrightarrow> xs = []" by (metis set_empty set_in_order)
  then show ?thesis by (auto simp: newest_def split: list.splits)
qed

lemma sorted_last: "sorted (map f xs) \<Longrightarrow> y \<in> set xs \<Longrightarrow> f y \<le> f (last xs)"
  by (induction xs) auto

lemma newest_Some:
  assumes "newest f g xs = Some x"
  shows "x \<in> set xs" "y \<in> set xs \<Longrightarrow> f y \<le> f x"
proof -
  from assms obtain y' ys where ys: "in_order f g xs = y' # ys" and x: "x = last (y' # ys)"
    by (auto simp: newest_def split: list.splits)
  then have "x \<in> set (in_order f g xs)" by simp
  then show "x \<in> set xs" by simp
  show "f y \<le> f x" if "y \<in> set xs"
    using that sorted_last [OF sorted_in_order [of f g xs]] ys x set_in_order [of f g xs] by metis
qed

lemma sorted_range_split:
  assumes "sorted (map f xs)" "\<And>h. hi = Some h \<Longrightarrow> m \<le> h" "lo \<le> m"
  shows "filter (\<lambda>x. in_range lo hi (f x)) xs = filter (\<lambda>x. in_range lo (Some m) (f x)) xs @ filter (\<lambda>x. in_range m hi (f x)) xs"
  using assms(1)
proof (induction xs)
  case (Cons x xs)
  show ?case
  proof (cases "f x \<le> m")
    case True
    then show ?thesis using Cons assms(2,3) by (auto simp: in_range_def split: option.splits)
  next
    case False
    with Cons.prems have "filter (\<lambda>x. in_range lo (Some m) (f x)) xs = []" by (force simp: filter_empty_conv in_range_def)
    then show ?thesis using Cons False assms(2,3) by (auto simp: in_range_def split: option.splits)
  qed
qed simp

lemma patches_between_split:
  assumes "\<And>h. hi = Some h \<Longrightarrow> m \<le> h" "lo \<le> m"
  shows "patches_between db state session lo hi = patches_between db state session lo (Some m) @ patches_between db state session m hi"
proof -
  let ?all = "in_order lp_rev lp_id (filter (\<lambda>p. lp_state p = state \<and> lp_session p = Some session) (sl_patches db))"
  have "patches_between db state session a b = filter (\<lambda>p. in_range a b (lp_rev p)) ?all" for a b
    unfolding patches_between_def in_order_filter filter_filter
    by (intro arg_cong [where f = "in_order lp_rev lp_id"] filter_cong) auto
  then show ?thesis using sorted_range_split [OF sorted_in_order, of hi m lo lp_rev lp_id] assms by simp
qed

section \<open>Replaying\<close>

lemma apply_patch_append: "apply_patch jp (ds @ es) v = and_then (apply_patch jp ds v) (apply_patch jp es)"
proof (induction ds arbitrary: v)
  case (Cons d ds)
  then show ?case by (cases "jp d v") simp_all
qed simp

lemma replay_when_all_apply:
  "apply_patch jp (map doc_of ps) v = Inr v' \<Longrightarrow>
   \<exists>t'. replay_skipping jp ps (v, r, t) = Inr (v', if ps = [] then r else lp_rev (last ps), t')"
proof (induction ps arbitrary: v r t)
  case (Cons p ps)
  then obtain u where u: "jp (doc_of p) v = Inr u" "apply_patch jp (map doc_of ps) u = Inr v'" by (auto simp: and_then_Inr)
  from Cons.IH [OF u(2), of "lp_rev p" "max t (lp_time p)"] show ?case by (auto simp: u(1))
qed simp

text \<open>A patch that does not apply never stops a state from being read.\<close>

lemma replay_total:
  assumes "\<And>p v. p \<in> set ps \<Longrightarrow> jp (doc_of p) v \<noteq> Inl Other_Error"
  shows "\<exists>s'. replay_skipping jp ps s = Inr s'"
  using assms
proof (induction ps arbitrary: s)
  case (Cons p ps)
  obtain v r t where s: "s = (v, r, t)" by (cases s) auto
  show ?case
  proof (cases "jp (doc_of p) v")
    case (Inl e)
    with Cons s show ?thesis by (cases e) auto
  next
    case (Inr v')
    with Cons s show ?thesis by auto
  qed
next
  case Nil
  then show ?case by (cases s) simp
qed

section \<open>The value of a state at a revision\<close>

text \<open>
  A log as the server writes it: a session belongs to an agent, whose session identifiers are unique, and the
  patches and snapshots of a state are its agent's, in one of its sessions. A revision of a state has one
  patch in a session (the constraint \<open>patch_unique_rev_per_session_state\<close>).
\<close>

definition row_in_log :: "state_log \<Rightarrow> nat \<Rightarrow> nat option \<Rightarrow> nat option \<Rightarrow> bool" where
  "row_in_log db state agent session \<longleftrightarrow>
     list_ex (\<lambda>st. lt_id st = state \<and> agent = Some (lt_agent st) \<and>
       list_ex (\<lambda>s. session = Some (ls_id s) \<and> ls_agent s = lt_agent st) (sl_sessions db)) (sl_states db)"

definition log_ok :: "state_log \<Rightarrow> bool" where
  "log_ok db \<longleftrightarrow>
     distinct (map lt_id (sl_states db)) \<and> distinct (map ls_id (sl_sessions db)) \<and>
     distinct (map (\<lambda>s. (ls_agent s, ls_session_id s)) (sl_sessions db)) \<and>
     distinct (map (\<lambda>p. (lp_session p, lp_rev p, lp_state p)) (sl_patches db)) \<and>
     list_all (\<lambda>p. row_in_log db (lp_state p) (lp_agent p) (lp_session p)) (sl_patches db) \<and>
     list_all (\<lambda>s. row_in_log db (lo_state s) (lo_agent s) (lo_session s)) (sl_snapshots db)"

definition snapshot_of :: "nat \<Rightarrow> nat \<Rightarrow> nat \<Rightarrow> log_snapshot \<Rightarrow> bool" where
  "snapshot_of state agent session s \<longleftrightarrow> lo_state s = state \<and> lo_agent s = Some agent \<and> lo_session s = Some session"

definition patch_of :: "nat \<Rightarrow> nat \<Rightarrow> log_patch \<Rightarrow> bool" where
  "patch_of state session p \<longleftrightarrow> lp_state p = state \<and> lp_session p = Some session"

text \<open>
  What a state was, revision by revision, as its session's log records it between two revisions: a snapshot
  holds the value of its revision, the value changes only at the revision of a patch, and there it is
  what the patch makes of it, or the same again where the patch does not apply. Nothing is asked of the rows before
  the first revision: what was lost or wrong there does not count.
\<close>

definition patched :: "patch_library \<Rightarrow> log_patch \<Rightarrow> json \<Rightarrow> json option" where
  "patched jp p v = (case jp (doc_of p) v of Inr v' \<Rightarrow> Some v' | Inl Does_Not_Apply \<Rightarrow> Some v | Inl Other_Error \<Rightarrow> None)"

definition state_history ::
  "patch_library \<Rightarrow> state_log \<Rightarrow> nat \<Rightarrow> nat \<Rightarrow> nat \<Rightarrow> int \<Rightarrow> int \<Rightarrow> (int \<Rightarrow> json) \<Rightarrow> bool" where
  "state_history jp db state agent session lo hi was \<longleftrightarrow>
     list_all (\<lambda>s. snapshot_of state agent session s \<and> lo \<le> lo_rev s \<and> lo_rev s \<le> hi \<longrightarrow> lo_value s = was (lo_rev s)) (sl_snapshots db) \<and>
     list_all (\<lambda>r. case find (\<lambda>p. patch_of state session p \<and> lp_rev p = r) (sl_patches db) of
         None \<Rightarrow> was r = was (r - 1)
       | Some p \<Rightarrow> patched jp p (was (r - 1)) = Some (was r)) [lo + 1..hi]"

text \<open>The revision that is read: the one asked for, or any that no row of the state and session is beyond.\<close>

definition reads_at :: "state_log \<Rightarrow> nat \<Rightarrow> nat \<Rightarrow> nat \<Rightarrow> int option \<Rightarrow> int \<Rightarrow> bool" where
  "reads_at db state agent session asked r \<longleftrightarrow>
     (case asked of
        Some r' \<Rightarrow> r = r'
      | None \<Rightarrow> list_all (\<lambda>p. patch_of state session p \<longrightarrow> lp_rev p \<le> r) (sl_patches db) \<and>
                list_all (\<lambda>s. snapshot_of state agent session s \<longrightarrow> lo_rev s \<le> r) (sl_snapshots db))"

lemma anchor_of_Some:
  assumes "anchor_of db state agent session hi = Some s"
  shows "s \<in> set (sl_snapshots db)" "snapshot_of state agent session s" "\<And>h. hi = Some h \<Longrightarrow> lo_rev s \<le> h"
    "a \<in> set (sl_snapshots db) \<Longrightarrow> snapshot_of state agent session a \<Longrightarrow> (\<And>h. hi = Some h \<Longrightarrow> lo_rev a \<le> h) \<Longrightarrow> lo_rev a \<le> lo_rev s"
  using newest_Some [OF assms [unfolded anchor_of_def]] by (auto simp: snapshot_of_def split: option.splits)

lemma anchor_of_None:
  "anchor_of db state agent session hi = None \<longleftrightarrow>
     \<not> (\<exists>a \<in> set (sl_snapshots db). snapshot_of state agent session a \<and> (\<forall>h. hi = Some h \<longrightarrow> lo_rev a \<le> h))"
  by (auto simp: anchor_of_def snapshot_of_def filter_empty_conv split: option.splits)

lemma replay_append: "replay_skipping jp (ps @ qs) s = and_then (replay_skipping jp ps s) (replay_skipping jp qs)"
  by (induction jp ps s rule: replay_skipping.induct) (simp_all split: sum.splits patch_error.splits)

lemma filter_one: "distinct (map f (filter P xs)) \<Longrightarrow>
  filter (\<lambda>x. P x \<and> f x = k) xs = (case find (\<lambda>x. P x \<and> f x = k) xs of None \<Rightarrow> [] | Some x \<Rightarrow> [x])"
proof (induction xs)
  case (Cons x xs)
  show ?case
  proof (cases "P x \<and> f x = k")
    case True
    with Cons.prems have "filter (\<lambda>x. P x \<and> f x = k) xs = []" by (auto simp: filter_empty_conv image_iff)
    with True show ?thesis by simp
  next
    case False
    with Cons show ?thesis by (auto split: if_splits)
  qed
qed simp

lemma patch_revisions_distinct:
  assumes "log_ok db"
  shows "distinct (map lp_rev (filter (patch_of state session) (sl_patches db)))"
proof -
  have "distinct (map (\<lambda>p. (lp_session p, lp_rev p, lp_state p)) (filter (patch_of state session) (sl_patches db)))"
    using assms by (auto simp: log_ok_def distinct_map intro: inj_on_subset)
  then show ?thesis by (auto simp: distinct_map inj_on_def patch_of_def)
qed

lemma in_order_singleton [simp]: "in_order f g [] = []" "in_order f g [x] = [x]"
  by (simp_all add: in_order_def)

lemma next_patch:
  assumes "log_ok db"
  shows "patches_between db state session (r - 1) (Some r) =
    (case find (\<lambda>p. patch_of state session p \<and> lp_rev p = r) (sl_patches db) of None \<Rightarrow> [] | Some p \<Rightarrow> [p])"
proof -
  have "filter (\<lambda>p. lp_state p = state \<and> lp_session p = Some session \<and> in_range (r - 1) (Some r) (lp_rev p)) (sl_patches db) =
      filter (\<lambda>p. patch_of state session p \<and> lp_rev p = r) (sl_patches db)"
    by (rule filter_cong) (auto simp: patch_of_def in_range_def)
  then show ?thesis
    using filter_one [OF patch_revisions_distinct [OF assms]] by (simp add: patches_between_def split: option.splits)
qed

lemma replay_patched:
  "patched jp p v = Some v' \<Longrightarrow> \<exists>r' t'. replay_skipping jp [p] (v, r, t) = Inr (v', r', t')"
  by (auto simp: patched_def split: sum.splits patch_error.splits)

text \<open>From the value of any revision of the history, the patches after it lead to the value of any later one.\<close>

lemma replay_history:
  assumes "log_ok db" "state_history jp db state agent session lo hi was"
  shows "lo \<le> m \<Longrightarrow> m \<le> n \<Longrightarrow> n \<le> hi \<Longrightarrow>
    \<exists>r' t'. replay_skipping jp (patches_between db state session m (Some n)) (was m, r, t) = Inr (was n, r', t')"
proof (induction "nat (n - m)" arbitrary: n)
  case 0
  then have "m = n" by simp
  then have "patches_between db state session m (Some n) = []"
    by (auto simp: patches_between_def in_range_def filter_empty_conv intro!: arg_cong [where f = "in_order _ _" and y = "[]", simplified])
  with \<open>m = n\<close> show ?case by simp
next
  case (Suc k)
  then have "k = nat (n - 1 - m)" "m \<le> n - 1" "n - 1 \<le> hi" by linarith+
  from Suc.hyps(1) [OF this(1) Suc.prems(1) this(2,3)] obtain r' t' where
    before: "replay_skipping jp (patches_between db state session m (Some (n - 1))) (was m, r, t) = Inr (was (n - 1), r', t')" by blast
  have split: "patches_between db state session m (Some n) =
      patches_between db state session m (Some (n - 1)) @ patches_between db state session (n - 1) (Some n)"
    using \<open>m \<le> n - 1\<close> by (intro patches_between_split) auto
  have "n \<in> set [lo + 1..hi]" using Suc.prems \<open>m \<le> n - 1\<close> by simp
  then have "case find (\<lambda>p. patch_of state session p \<and> lp_rev p = n) (sl_patches db) of
      None \<Rightarrow> was n = was (n - 1) | Some p \<Rightarrow> patched jp p (was (n - 1)) = Some (was n)"
    using assms(2) unfolding state_history_def list_all_iff by blast
  then show ?case
    unfolding split replay_append before next_patch [OF assms(1)]
    using replay_patched [of jp _ "was (n - 1)" "was n" r' t'] by (auto split: option.splits)
qed

lemma patches_up_to:
  assumes "reads_at db state agent session asked r"
  shows "patches_between db state session lo asked = patches_between db state session lo (Some r)"
proof -
  have "filter (\<lambda>p. lp_state p = state \<and> lp_session p = Some session \<and> in_range lo asked (lp_rev p)) (sl_patches db) =
      filter (\<lambda>p. lp_state p = state \<and> lp_session p = Some session \<and> in_range lo (Some r) (lp_rev p)) (sl_patches db)"
    using assms by (intro filter_cong) (auto simp: reads_at_def patch_of_def in_range_def list_all_iff split: option.splits)
  then show ?thesis by (simp add: patches_between_def)
qed

lemma materialize_state_history:
  assumes "log_ok db" "state_history jp db (lt_id st) agent session lo r was" "reads_at db (lt_id st) agent session asked r"
    and "a \<in> set (sl_snapshots db)" "snapshot_of (lt_id st) agent session a" "lo \<le> lo_rev a" "lo_rev a \<le> r"
  shows "\<exists>r' t'. materialize_state jp db agent session asked st t = Inr (was r, r', t')"
proof -
  have within: "\<And>h. asked = Some h \<Longrightarrow> h = r" using assms(3) by (simp add: reads_at_def)
  obtain s where s: "anchor_of db (lt_id st) agent session asked = Some s"
    using anchor_of_None [of db "lt_id st" agent session asked] assms(4,5,7) within by fastforce
  note anchor = anchor_of_Some [OF s]
  have "lo_rev a \<le> lo_rev s" by (rule anchor(4) [OF assms(4,5)]) (use within assms(7) in auto)
  moreover have "lo_rev s \<le> r"
    using assms(3) anchor(1-3) by (auto simp: reads_at_def list_all_iff split: option.splits)
  moreover have "lo_value s = was (lo_rev s)"
    using assms(2,6) anchor(1,2) calculation by (auto simp: state_history_def list_all_iff)
  ultimately show ?thesis
    using replay_history [OF assms(1,2), of "lo_rev s" r "lo_rev s" "max t (lo_time s)"] assms(6)
    by (simp add: materialize_state_def s patches_up_to [OF assms(3)])
qed

lemma one_state:
  assumes "distinct (map lt_id ss)" "st \<in> set ss"
  shows "filter (\<lambda>s. lt_agent s = lt_agent st \<and> lt_id s = lt_id st) ss = [st]"
  using assms
proof (induction ss)
  case (Cons s ss)
  show ?case
  proof (cases "s = st")
    case True
    with Cons.prems have "filter (\<lambda>s. lt_agent s = lt_agent st \<and> lt_id s = lt_id st) ss = []"
      by (auto simp: filter_empty_conv image_iff)
    with True show ?thesis by simp
  next
    case False
    with Cons show ?thesis by (auto simp: image_iff)
  qed
qed simp

lemma find_state: "distinct (map lt_id ss) \<Longrightarrow> st \<in> set ss \<Longrightarrow> find (\<lambda>s. lt_id s = lt_id st) ss = Some st"
  by (induction ss) (auto simp: image_iff)

lemma latest_of_one_state:
  assumes "distinct (map lt_id (sl_states db))" "st \<in> set (sl_states db)" "session_for db (lt_agent st) sid = Inr (Some t)"
    and "materialize_state jp db (lt_agent st) (ls_id t) hi st (ls_created t) = Inr (v, r, t')"
  shows "\<exists>p. get_latest_state jp db (lt_agent st) (Some (lt_id st)) sid hi f b = Inr p \<and> ap_states p = [(lt_interface st, v)]
    \<and> ap_revision p = max 0 r"
  using assms(3,4) one_state [OF assms(1,2)] by (simp add: get_latest_state_def Let_def max_def)

text \<open>
  C5. The value read of a state at a revision is what the state was at it. The session's log has to
  record the state's history (\<open>state_history\<close>) from some revision on: a snapshot holds its revision's value, and a
  patch makes the next one, or none where it does not apply. Then, if there is a snapshot from that revision on and at or before the
  one read, the value is the history's: whichever snapshots were kept, and whatever was recorded before. Asked for no revision,
  the last is read.
\<close>

theorem latest_state_is_history:
  assumes "log_ok db" "st \<in> set (sl_states db)" "session_for db (lt_agent st) sid = Inr (Some t)"
    and "state_history jp db (lt_id st) (lt_agent st) (ls_id t) lo r was"
    and "reads_at db (lt_id st) (lt_agent st) (ls_id t) asked r"
    and "list_ex (\<lambda>a. snapshot_of (lt_id st) (lt_agent st) (ls_id t) a \<and> lo \<le> lo_rev a \<and> lo_rev a \<le> r) (sl_snapshots db)"
  shows "\<exists>p. get_latest_state jp db (lt_agent st) (Some (lt_id st)) sid asked forward backward = Inr p \<and>
    ap_states p = [(lt_interface st, was r)]"
proof -
  have "distinct (map lt_id (sl_states db))" using assms(1) by (simp add: log_ok_def)
  moreover obtain a where "a \<in> set (sl_snapshots db)" "snapshot_of (lt_id st) (lt_agent st) (ls_id t) a" "lo \<le> lo_rev a" "lo_rev a \<le> r"
    using assms(6) by (auto simp: list_ex_iff)
  note materialize_state_history [OF assms(1,4,5) this, of "ls_created t"]
  ultimately show ?thesis using latest_of_one_state [OF _ assms(2,3)] by blast
qed

section \<open>The two readers\<close>

lemma session_named_iff:
  assumes "log_ok db" "st \<in> set (sl_states db)" "row_in_log db (lt_id st) agent k" "session_for db (lt_agent st) (Some i) = Inr (Some t)" "i \<noteq> []"
  shows "session_named db (Some i) k \<longleftrightarrow> k = Some (ls_id t)" "agent = Some (lt_agent st)"
proof -
  have states: "distinct (map lt_id (sl_states db))" and ids: "distinct (map ls_id (sl_sessions db))"
    and names: "distinct (map (\<lambda>s. (ls_agent s, ls_session_id s)) (sl_sessions db))"
    using assms(1) by (auto simp: log_ok_def)
  obtain st' s where row: "st' \<in> set (sl_states db)" "lt_id st' = lt_id st" "agent = Some (lt_agent st')"
    "s \<in> set (sl_sessions db)" "k = Some (ls_id s)" "ls_agent s = lt_agent st'"
    using assms(3) by (auto simp: row_in_log_def list_ex_iff)
  have "st' = st" using states row(1,2) assms(2) by (metis inj_on_def distinct_map)
  then show "agent = Some (lt_agent st)" using row(3) by simp
  have t: "t \<in> set (sl_sessions db)" "ls_agent t = lt_agent st" "ls_session_id t = i"
    using assms(4,5) by (auto simp: session_for_def chosen_def find_Some_iff in_set_conv_nth split: option.splits)
  have same: "s' = s" if "s' \<in> set (sl_sessions db)" "ls_id s' = ls_id s" for s'
    using ids that row(4) by (metis inj_on_def distinct_map)
  have named: "s = t" if "ls_session_id s = i"
    using names that t row(4,6) \<open>st' = st\<close> unfolding distinct_map inj_on_def by (metis prod.inject)
  show "session_named db (Some i) k \<longleftrightarrow> k = Some (ls_id t)"
  proof
    assume "session_named db (Some i) k"
    then obtain s' where "s' \<in> set (sl_sessions db)" "Some (ls_id s') = k" "ls_session_id s' = i"
      using assms(5) by (auto simp: session_named_def chosen_def list_ex_iff)
    with same row(5) have "ls_session_id s = i" by auto
    with named row(5) show "k = Some (ls_id t)" by simp
  next
    assume "k = Some (ls_id t)"
    with t assms(5) show "session_named db (Some i) k" by (auto simp: session_named_def chosen_def list_ex_iff)
  qed
qed

lemma same_rows:
  assumes "log_ok db" "st \<in> set (sl_states db)" "session_for db (lt_agent st) (Some i) = Inr (Some t)" "i \<noteq> []"
  shows "filter (\<lambda>s. lo_state s = lt_id st \<and> session_named db (Some i) (lo_session s) \<and> lo_rev s \<le> r) (sl_snapshots db) =
      filter (\<lambda>s. lo_state s = lt_id st \<and> lo_agent s = Some (lt_agent st) \<and> lo_session s = Some (ls_id t) \<and> lo_rev s \<le> r) (sl_snapshots db)"
    and "filter (\<lambda>p. lp_state p = lt_id st \<and> session_named db (Some i) (lp_session p) \<and> in_range lo (Some r) (lp_rev p)) (sl_patches db) =
      filter (\<lambda>p. lp_state p = lt_id st \<and> lp_session p = Some (ls_id t) \<and> in_range lo (Some r) (lp_rev p)) (sl_patches db)"
proof -
  have "row_in_log db (lo_state s) (lo_agent s) (lo_session s)" if "s \<in> set (sl_snapshots db)" for s
    using that assms(1) by (auto simp: log_ok_def list_all_iff)
  then show "filter (\<lambda>s. lo_state s = lt_id st \<and> session_named db (Some i) (lo_session s) \<and> lo_rev s \<le> r) (sl_snapshots db) =
      filter (\<lambda>s. lo_state s = lt_id st \<and> lo_agent s = Some (lt_agent st) \<and> lo_session s = Some (ls_id t) \<and> lo_rev s \<le> r) (sl_snapshots db)"
    using session_named_iff [OF assms(1,2) _ assms(3,4)] by (intro filter_cong refl) metis
  have "row_in_log db (lp_state p) (lp_agent p) (lp_session p)" if "p \<in> set (sl_patches db)" for p
    using that assms(1) by (auto simp: log_ok_def list_all_iff)
  then show "filter (\<lambda>p. lp_state p = lt_id st \<and> session_named db (Some i) (lp_session p) \<and> in_range lo (Some r) (lp_rev p)) (sl_patches db) =
      filter (\<lambda>p. lp_state p = lt_id st \<and> lp_session p = Some (ls_id t) \<and> in_range lo (Some r) (lp_rev p)) (sl_patches db)"
    using session_named_iff [OF assms(1,2) _ assms(3,4)] by (intro filter_cong refl) metis
qed

text \<open>
  \<open>state_at_global_rev\<close> orders snapshots by the revision alone, and the table lets several have the same one. The
  two readers may then start at different snapshots; they agree when such snapshots have the same value.
\<close>

definition snapshots_agree :: "state_log \<Rightarrow> bool" where
  "snapshots_agree db \<longleftrightarrow>
     list_all (\<lambda>a. list_all (\<lambda>b. (lo_state a, lo_session a, lo_rev a) = (lo_state b, lo_session b, lo_rev b) \<longrightarrow> lo_value a = lo_value b)
       (sl_snapshots db)) (sl_snapshots db)"

lemma snapshots_agreeD:
  "snapshots_agree db \<Longrightarrow> a \<in> set (sl_snapshots db) \<Longrightarrow> b \<in> set (sl_snapshots db) \<Longrightarrow> lo_state a = lo_state b \<Longrightarrow>
   lo_session a = lo_session b \<Longrightarrow> lo_rev a = lo_rev b \<Longrightarrow> lo_value a = lo_value b"
  unfolding snapshots_agree_def list_all_iff by (metis prod.inject)

lemma newest_by_None [simp]: "newest_by f xs = None \<longleftrightarrow> xs = []"
  by (auto simp: newest_by_def descending_def split: list.splits) (metis set_empty set_sort)

lemma newest_by_Some:
  assumes "newest_by f xs = Some x"
  shows "x \<in> set xs" "y \<in> set xs \<Longrightarrow> f y \<le> f x"
proof -
  from assms obtain ys where ys: "sort_key (\<lambda>x. - f x) xs = x # ys"
    by (auto simp: newest_by_def descending_def split: list.splits)
  then have all: "set xs = insert x (set ys)" by (metis set_sort list.simps(15))
  then show "x \<in> set xs" by simp
  have "sorted (map (\<lambda>x. - f x) (x # ys))" unfolding ys [symmetric] by (rule sorted_sort_key)
  then show "f y \<le> f x" if "y \<in> set xs" using that all by auto
qed

lemma same_anchor:
  assumes "snapshots_agree db" "newest_by lo_rev xs = Some a" "newest lo_rev lo_id xs = Some b"
    and "set xs \<subseteq> set (sl_snapshots db)" "\<And>x. x \<in> set xs \<Longrightarrow> lo_state x = state \<and> lo_session x = session"
  shows "lo_rev a = lo_rev b" "lo_value a = lo_value b"
proof -
  have a: "a \<in> set xs" and b: "b \<in> set xs" using newest_by_Some(1) [OF assms(2)] newest_Some(1) [OF assms(3)] by auto
  then show same: "lo_rev a = lo_rev b"
    using newest_by_Some(2) [OF assms(2) b] newest_Some(2) [OF assms(3) a] by linarith
  show "lo_value a = lo_value b"
    using snapshots_agreeD [OF assms(1), of a b] subsetD [OF assms(4) a] subsetD [OF assms(4) b] same assms(5) [OF a] assms(5) [OF b]
    by simp
qed

lemma order_without_ties: "distinct (map f xs) \<Longrightarrow> sort_key f xs = in_order f g xs"
proof (rule map_sorted_distinct_set_unique [of f])
  assume distinct: "distinct (map f xs)"
  then show "inj_on f (set (sort_key f xs) \<union> set (in_order f g xs))" by (simp add: distinct_map)
  show "distinct (map f (in_order f g xs))" "distinct (map f (sort_key f xs))"
    using distinct by (simp_all add: distinct_map in_order_def)
qed (simp_all add: in_order_def)

lemma patches_by_revision:
  assumes "log_ok db"
  shows "sort_key lp_rev (filter (\<lambda>p. lp_state p = state \<and> lp_session p = Some session \<and> in_range lo hi (lp_rev p)) (sl_patches db)) =
    patches_between db state session lo hi"
proof -
  have sub: "filter (\<lambda>p. lp_state p = state \<and> lp_session p = Some session \<and> in_range lo hi (lp_rev p)) (sl_patches db) =
      filter (\<lambda>p. in_range lo hi (lp_rev p)) (filter (patch_of state session) (sl_patches db))"
    unfolding filter_filter by (rule filter_cong) (auto simp: patch_of_def)
  show ?thesis
    unfolding patches_between_def
    by (rule order_without_ties) (unfold sub, rule distinct_map_filter, rule patch_revisions_distinct [OF assms])
qed

lemma at_revision_answers:
  assumes "log_ok db" "snapshots_agree db" "st \<in> set (sl_states db)" "session_for db (lt_agent st) (Some i) = Inr (Some t)" "i \<noteq> []"
  shows "case anchor_of db (lt_id st) (lt_agent st) (ls_id t) (Some r) of
      None \<Rightarrow> get_state_at_revision jp db r (lt_id st) (Some i) = Inr None
    | Some a \<Rightarrow>
        (let ps = patches_between db (lt_id st) (ls_id t) (lo_rev a) (Some r)
         in case apply_patch jp (map doc_of ps) (lo_value a) of
              Inl e \<Rightarrow> get_state_at_revision jp db r (lt_id st) (Some i) = Inl e
            | Inr v \<Rightarrow> (\<exists>s. get_state_at_revision jp db r (lt_id st) (Some i) = Inr (Some s) \<and> lo_value s = v \<and>
                lo_rev s = (if ps = [] then lo_rev a else lp_rev (last ps))))"
proof -
  let ?rows = "filter (\<lambda>s. lo_state s = lt_id st \<and> lo_agent s = Some (lt_agent st) \<and> lo_session s = Some (ls_id t) \<and> lo_rev s \<le> r) (sl_snapshots db)"
  have anchored: "anchor_of db (lt_id st) (lt_agent st) (ls_id t) (Some r) = newest lo_rev lo_id ?rows" by (simp add: anchor_of_def)
  note unfold = get_state_at_revision_def same_rows [OF assms(1,3,4,5)] patches_by_revision [OF assms(1)]
  show ?thesis
  proof (cases "newest lo_rev lo_id ?rows")
    case None
    then have none: "newest_by lo_rev ?rows = None" by simp
    show ?thesis unfolding anchored unfold None none option.case by simp
  next
    case (Some a)
    then have "?rows \<noteq> []" by (metis newest_None option.distinct(1))
    then have "newest_by lo_rev ?rows \<noteq> None" by simp
    then obtain a' where a': "newest_by lo_rev ?rows = Some a'" by blast
    note same = same_anchor [OF assms(2) a' Some, of "lt_id st" "Some (ls_id t)"]
    have eq: "lo_rev a' = lo_rev a" "lo_value a' = lo_value a" by (rule same, auto)+
    define ps where "ps = patches_between db (lt_id st) (ls_id t) (lo_rev a) (Some r)"
    have reads: "get_state_at_revision jp db r (lt_id st) (Some i) =
        (if ps = [] then Inr (Some a') else and_then (apply_patch jp (map doc_of ps) (lo_value a)) (\<lambda>v.
           Inr (Some (a'\<lparr>lo_value := v, lo_time := lp_time (last ps), lo_rev := lp_rev (last ps),
             lo_session := lp_session (last ps), lo_state := lp_state (last ps), lo_agent := lp_agent (last ps)\<rparr>))))"
      unfolding unfold a' option.case Let_def eq ps_def by (rule refl)
    show ?thesis
      unfolding anchored Some option.case Let_def ps_def [symmetric]
    proof (cases "apply_patch jp (map doc_of ps) (lo_value a)")
      case (Inl e)
      then have "ps \<noteq> []" by auto
      with Inl reads show "case apply_patch jp (map doc_of ps) (lo_value a) of
          Inl e \<Rightarrow> get_state_at_revision jp db r (lt_id st) (Some i) = Inl e
        | Inr v \<Rightarrow> (\<exists>s. get_state_at_revision jp db r (lt_id st) (Some i) = Inr (Some s) \<and> lo_value s = v \<and>
            lo_rev s = (if ps = [] then lo_rev a else lp_rev (last ps)))" by simp
    next
      case (Inr v)
      with reads eq show "case apply_patch jp (map doc_of ps) (lo_value a) of
          Inl e \<Rightarrow> get_state_at_revision jp db r (lt_id st) (Some i) = Inl e
        | Inr v \<Rightarrow> (\<exists>s. get_state_at_revision jp db r (lt_id st) (Some i) = Inr (Some s) \<and> lo_value s = v \<and>
            lo_rev s = (if ps = [] then lo_rev a else lp_rev (last ps)))" by (cases "ps = []") simp_all
    qed
  qed
qed



section \<open>Boundaries and windows\<close>

text \<open>
  C36. The boundaries of a task are those of its patches: the patches between its two revisions include every
  patch of the task in the organization, and no narrower range does.
\<close>

theorem task_boundaries_cover:
  assumes "task_boundaries db org reference state = Some b"
  defines "mine \<equiv> {p \<in> set (sl_patches db). lp_task p = Some reference \<and> of_organization db org (lp_agent p) \<and> is_state state (lp_state p)}"
  shows "mine \<subseteq> set (patch_events_between db org (bo_start b) (bo_end b) (map_option (\<lambda>i. [i]) state) None) \<and>
    (\<forall>lo hi. mine \<subseteq> set (patch_events_between db org lo hi (map_option (\<lambda>i. [i]) state) None) \<longrightarrow> lo \<le> bo_start b \<and> bo_end b \<le> hi)"
proof (intro conjI allI impI)
  define revs where "revs = lp_rev ` mine"
  have b: "bo_start b = Min revs - 1" "bo_end b = Max revs" and nonempty: "mine \<noteq> {}"
    using assms(1) by (auto simp: task_boundaries_def boundary_aggregates_def revs_def mine_def filter_empty_conv split: if_splits)
  have "finite mine" by (simp add: mine_def)
  then have revs: "finite revs" "revs \<noteq> {}" using nonempty by (auto simp: revs_def)
  have between: "p \<in> set (patch_events_between db org lo hi (map_option (\<lambda>i. [i]) state) None) \<longleftrightarrow>
      p \<in> set (sl_patches db) \<and> of_organization db org (lp_agent p) \<and> lo < lp_rev p \<and> lp_rev p \<le> hi \<and> is_state state (lp_state p)" for p lo hi
    by (cases state) (auto simp: patch_events_between_def in_range_def is_state_def session_named_def chosen_def)
  show "mine \<subseteq> set (patch_events_between db org (bo_start b) (bo_end b) (map_option (\<lambda>i. [i]) state) None)"
  proof
    fix p assume p: "p \<in> mine"
    then have "Min revs \<le> lp_rev p" "lp_rev p \<le> Max revs" using revs(1) by (auto simp: revs_def)
    with p show "p \<in> set (patch_events_between db org (bo_start b) (bo_end b) (map_option (\<lambda>i. [i]) state) None)"
      unfolding between b by (auto simp: mine_def)
  qed
  show "lo \<le> bo_start b" "bo_end b \<le> hi"
    if sub: "mine \<subseteq> set (patch_events_between db org lo hi (map_option (\<lambda>i. [i]) state) None)" for lo hi
  proof -
    have "\<forall>r \<in> revs. lo < r \<and> r \<le> hi" using sub unfolding between revs_def by (auto simp: between)
    then show "lo \<le> bo_start b" "bo_end b \<le> hi" using Min_in [OF revs] Max_in [OF revs] by (auto simp: b)
  qed
qed

section \<open>Two runs of a counter\<close>

text \<open>
  An agent of organization 7 whose state is a list. Its first process appended 1 and 2; it was restarted, and
  the second process, which numbers from the start again, appended 9, and then sent a patch of a member the list does
  not have. The library is the append of JSON patch.
\<close>

definition append_library :: patch_library where
  "append_library d v =
     (case (v, pd_value d) of
        (JList xs, Some x) \<Rightarrow> if pd_op d = ''add'' \<and> pd_path d = ''/-'' then Inr (JList (xs @ [x])) else Inl Does_Not_Apply
      | _ \<Rightarrow> Inl Does_Not_Apply)"

definition append_patch :: "nat \<Rightarrow> nat \<Rightarrow> int \<Rightarrow> int \<Rightarrow> log_patch" where
  "append_patch pk session r n = \<lparr>lp_id = pk, lp_state = 1, lp_agent = Some 5, lp_session = Some session, lp_op = ''add'',
     lp_path = ''/-'', lp_value = JInt n, lp_time = r, lp_rev = r, lp_task = Some ''t''\<rparr>"

definition lost_patch :: "nat \<Rightarrow> nat \<Rightarrow> int \<Rightarrow> log_patch" where
  "lost_patch pk session r = (append_patch pk session r 0)\<lparr>lp_path := ''/member''\<rparr>"

definition list_snapshot :: "nat \<Rightarrow> nat \<Rightarrow> int \<Rightarrow> int list \<Rightarrow> log_snapshot" where
  "list_snapshot pk session r ns = \<lparr>lo_id = pk, lo_state = 1, lo_agent = Some 5, lo_session = Some session,
     lo_value = JList (map JInt ns), lo_time = 0, lo_rev = r\<rparr>"

definition restarted_log :: state_log where
  "restarted_log = \<lparr>sl_organization = [5 \<mapsto> 7],
     sl_sessions = [\<lparr>ls_id = 1, ls_agent = 5, ls_session_id = ''first'', ls_created = 0\<rparr>,
                    \<lparr>ls_id = 2, ls_agent = 5, ls_session_id = ''second'', ls_created = 10\<rparr>],
     sl_states = [\<lparr>lt_id = 1, lt_agent = 5, lt_interface = ''log''\<rparr>],
     sl_patches = [append_patch 1 1 1 1, append_patch 2 1 2 2, append_patch 3 2 1 9, lost_patch 4 2 2],
     sl_snapshots = [list_snapshot 1 1 0 [], list_snapshot 2 1 2 [1, 2], list_snapshot 3 2 0 []]\<rparr>"

lemmas restarted_defs = restarted_log_def append_patch_def lost_patch_def list_snapshot_def append_library_def

lemma list_agent [simp]: "lt_agent \<lparr>lt_id = 1, lt_agent = 5, lt_interface = ''log''\<rparr> = 5"
  by simp

lemma restarted_ok: "log_ok restarted_log"
  by code_simp

lemma restarted_snapshots_agree: "snapshots_agree restarted_log"
  by code_simp

definition second_run :: "int \<Rightarrow> json" where
  "second_run r = JList (if r < 1 then [] else [JInt 9])"

theorem latest_state_is_history_witness:
  "\<exists>p. get_latest_state append_library restarted_log 5 (Some 1) None None 0 0 = Inr p \<and>
     ap_states p = [(''log'', JList [JInt 9])]"
proof -
  let ?st = "\<lparr>lt_id = 1, lt_agent = 5, lt_interface = ''log''\<rparr>" and ?t = "\<lparr>ls_id = 2, ls_agent = 5, ls_session_id = ''second'', ls_created = 10\<rparr>"
  have "session_for restarted_log 5 None = Inr (Some ?t)" by (simp add: session_for_def chosen_def restarted_log_def newest_by_def descending_def)
  moreover have "?st \<in> set (sl_states restarted_log)" by (simp add: restarted_log_def)
  moreover have "state_history append_library restarted_log 1 5 2 0 2 second_run" by code_simp
  moreover have "reads_at restarted_log 1 5 2 None 2" by code_simp
  moreover have "list_ex (\<lambda>a. snapshot_of 1 5 2 a \<and> 0 \<le> lo_rev a \<and> lo_rev a \<le> 2) (sl_snapshots restarted_log)" by code_simp
  ultimately show ?thesis
    using latest_state_is_history [OF restarted_ok, of ?st None ?t append_library 0 2 second_run None 0 0] by (simp add: second_run_def)
qed


theorem task_boundaries_cover_witness:
  "\<exists>b. task_boundaries restarted_log 7 ''t'' None = Some b \<and>
     append_patch 3 2 1 9 \<in> set (patch_events_between restarted_log 7 (bo_start b) (bo_end b) None None)"
proof -
  obtain b where b: "task_boundaries restarted_log 7 ''t'' None = Some b"
    by (simp add: task_boundaries_def boundary_aggregates_def of_organization_def is_state_def restarted_log_def append_patch_def)
  have "append_patch 3 2 1 9 \<in> {p \<in> set (sl_patches restarted_log). lp_task p = Some ''t'' \<and> of_organization restarted_log 7 (lp_agent p) \<and> is_state None (lp_state p)}"
    by (simp add: of_organization_def is_state_def restarted_log_def append_patch_def)
  with task_boundaries_cover [OF b] b show ?thesis by auto
qed

text \<open>
  Without a session the state at a revision mixes the processes of an agent. At revision 1 the list was [1]
  in the first session and [9] in the second; \<open>state_at_global_rev\<close> answers [1, 9], which it never was.
\<close>

theorem sessions_mixed:
  "map_sum id (map lo_value) (state_at_global_rev append_library restarted_log 7 1 None None) = Inr [JList [JInt 1, JInt 9]] \<and>
   map_sum id (map lo_value) (state_at_global_rev append_library restarted_log 7 1 None (Some ''first'')) = Inr [JList [JInt 1]] \<and>
   map_sum id (map lo_value) (state_at_global_rev append_library restarted_log 7 1 None (Some ''second'')) = Inr [JList [JInt 9]]"
  by code_simp

text \<open>
  Naming a state reads it for whoever asks. Organization 8 has no row in the log, and asked for everything
  it is answered nothing; asked for the state by id it is given organization 7's value.
\<close>

theorem foreign_state_read:
  "state_at_global_rev append_library restarted_log 8 1 None (Some ''first'') = Inr [] \<and>
   map_sum id (map lo_value) (state_at_global_rev append_library restarted_log 8 1 (Some 1) (Some ''first'')) = Inr [JList [JInt 1]]"
  by code_simp

text \<open>
  Two snapshots of one revision, which the table allows, and nothing orders for \<open>state_at_global_rev\<close>: here it reads the
  first row, and the checkout, which goes by the id as well, the last.
\<close>

theorem equal_revisions_disagree:
  "let db = restarted_log\<lparr>sl_snapshots := [list_snapshot 1 1 2 [1], list_snapshot 2 1 2 [1, 2]]\<rparr> in
   map_sum id (map lo_value) (state_at_global_rev append_library db 7 2 (Some 1) (Some ''first'')) = Inr [JList [JInt 1]] \<and>
   map_sum id sv_value (checkout append_library db 1 (Some ''first'') (Some 2) None 0 0) = Inr (JList [JInt 1, JInt 2])"
  by code_simp

end
