(* ===== verification/Automation.thy ===== *)
theory Automation
  imports Descriptors Values
begin

text \<open>
  What runs by itself: schedules and triggers, and the wiregrams that own some of them
  (\<open>src/facade/rules.py\<close>, \<open>schedules.py\<close>, \<open>triggers.py\<close>, \<open>wiregrams.py\<close> and their mutations), in one
  organization. Runs are takt's: this server writes the rules and says so with a notice, which takt
  hears when the transaction commits. Judging a timing is takt's too, a parameter.
\<close>

section \<open>Rules\<close>

text \<open>A rule's bookkeeping (the run counts and errors takt writes) and the times its row was made and last written are left out.\<close>

record 'f rule =
  ru_pk :: nat
  ru_caller :: nat
  ru_enabled :: bool
  ru_wiregram :: "nat option"
  ru_wire_key :: "string option"
  ru_fields :: 'f

record schedule_fields =
  sf_name :: string
  sf_description :: "string option"
  sf_action :: nat
  sf_agent :: "nat option"
  sf_interface :: "string option"
  sf_args :: "(string \<times> json) list"
  sf_interval :: "int option"
  sf_cron :: "string option"
  sf_timezone :: string
  sf_ephemeral :: bool
  sf_overlap :: string
  sf_catch_up :: bool
  sf_policy :: string
  sf_ends_at :: "int option"
  sf_max_runs :: "int option"

record trigger_fields =
  tf_name :: string
  tf_description :: "string option"
  tf_action :: nat
  tf_agent :: "nat option"
  tf_interface :: "string option"
  tf_args :: "(string \<times> json) list"
  tf_kind :: string
  tf_identifier :: string
  tf_port :: string
  tf_conditions :: "descriptor_demand list"
  tf_jsonpath :: "string option"
  tf_debounce :: "int option"
  tf_policy :: string
  tf_ends_at :: "int option"
  tf_max_runs :: "int option"

type_synonym schedule = "schedule_fields rule"
type_synonym trigger = "trigger_fields rule"

section \<open>Documents\<close>

record wire_schedule =
  ws_key :: string
  ws_name :: string
  ws_description :: "string option"
  ws_agent :: string
  ws_interface :: string
  ws_args :: "(string \<times> json) list option"
  ws_enabled :: bool
  ws_ends_at :: "int option"
  ws_max_runs :: "int option"
  ws_policy :: string
  ws_interval :: "int option"
  ws_cron :: "string option"
  ws_timezone :: string
  ws_ephemeral :: bool
  ws_overlap :: string
  ws_catch_up :: bool

record wire_trigger =
  wt_key :: string
  wt_name :: string
  wt_description :: "string option"
  wt_agent :: string
  wt_interface :: string
  wt_args :: "(string \<times> json) list option"
  wt_enabled :: bool
  wt_ends_at :: "int option"
  wt_max_runs :: "int option"
  wt_policy :: string
  wt_kind :: string
  wt_identifier :: string
  wt_port :: string
  wt_conditions :: "descriptor_demand list"
  wt_debounce :: "int option"

record wiregram_doc =
  wd_key :: string
  wd_name :: string
  wd_description :: "string option"
  wd_schedules :: "wire_schedule list"
  wd_triggers :: "wire_trigger list"

text \<open>A document as its models hold it (\<open>args_are_a_dict\<close>): args left out are empty.\<close>

definition settled :: "wiregram_doc \<Rightarrow> wiregram_doc" where
  "settled d = d\<lparr>wd_schedules := map (\<lambda>s. s\<lparr>ws_args := Some (or_nil (ws_args s))\<rparr>) (wd_schedules d),
     wd_triggers := map (\<lambda>t. t\<lparr>wt_args := Some (or_nil (wt_args t))\<rparr>) (wd_triggers d)\<rparr>"

section \<open>The organization\<close>

text \<open>As of rules, the times a wiregram was first and last imported are left out.\<close>

record rule_implementation =
  ri_agent :: nat
  ri_interface :: string
  ri_action :: nat
  ri_needs_token :: bool

record declared_signal =
  dc_kind :: string
  dc_identifier :: string
  dc_keys :: "string list"

record wiregram_row =
  wg_pk :: nat
  wg_key :: string
  wg_caller :: nat
  wg_name :: string
  wg_description :: "string option"
  wg_document :: wiregram_doc

datatype notice = Plan nat bool | Drop_Run nat

record automation =
  au_actions :: "nat list"
  au_agents :: "(nat \<times> string) list"
  au_implementations :: "rule_implementation list"
  au_args :: "nat \<Rightarrow> arg_port list"
  au_signals :: "declared_signal list"
  au_schedules :: "schedule list"
  au_triggers :: "trigger list"
  au_wiregrams :: "wiregram_row list"
  au_next :: nat
  au_waiting :: "nat \<Rightarrow> nat option"
  au_notices :: "notice list"

text \<open>What is read beside the tables: takt's judgement of a timing, the settings, the text of floats and of dates.\<close>

record rule_world =
  rw_timing :: "int option \<Rightarrow> string option \<Rightarrow> string \<Rightarrow> bool"
  rw_strict :: bool
  rw_retention :: int
  rw_float_text :: "rat \<Rightarrow> string"
  rw_iso_date :: "string \<Rightarrow> bool"

section \<open>What every rule must satisfy\<close>

definition implements :: "automation \<Rightarrow> nat \<Rightarrow> string \<Rightarrow> nat \<Rightarrow> bool" where
  "implements db agent interface action \<longleftrightarrow>
     list_ex (\<lambda>i. ri_agent i = agent \<and> ri_interface i = interface \<and> ri_action i = action) (au_implementations db)"

definition check_pin :: "automation \<Rightarrow> nat \<Rightarrow> nat option \<Rightarrow> string option \<Rightarrow> check" where
  "check_pin db action agent interface =
     and_then (raise_if ((agent = None) \<noteq> (interface = None))
       (ValueError [Txt ''Pin an agent with both agent and interface, or give neither''])) (\<lambda>_.
     case agent of
       None \<Rightarrow> Inr ()
     | Some a \<Rightarrow> raise_if (\<not> list_ex (\<lambda>i. ri_agent i = a \<and> Some (ri_interface i) = interface \<and> ri_action i = action) (au_implementations db))
         (ValueError [Txt ''Agent has no such implementation of this action'']))"

definition check_provenance :: "rule_world \<Rightarrow> automation \<Rightarrow> nat \<Rightarrow> nat option \<Rightarrow> string option \<Rightarrow> string \<Rightarrow> check" where
  "check_provenance w db action agent interface why =
     (if \<not> rw_strict w then Inr ()
      else raise_if (list_ex (\<lambda>i. ri_action i = action \<and> ri_needs_token i \<and>
          (case agent of None \<Rightarrow> True | Some a \<Rightarrow> ri_agent i = a \<and> Some (ri_interface i) = interface)) (au_implementations db))
        (ValueError [Txt why]))"

definition check_policies :: "rule_world \<Rightarrow> int option \<Rightarrow> int option \<Rightarrow> check" where
  "check_policies w max_runs debounce =
     run_checks
       [raise_if (case max_runs of None \<Rightarrow> False | Some n \<Rightarrow> n < 1) (ValueError [Txt ''maxRuns must be at least 1'']),
        raise_if (case debounce of None \<Rightarrow> False | Some n \<Rightarrow> n < 1) (ValueError [Txt ''debounceSeconds must be at least 1'']),
        raise_if (case debounce of None \<Rightarrow> False | Some n \<Rightarrow> rw_retention w \<noteq> 0 \<and> n > rw_retention w)
          (ValueError [Txt ''debounceSeconds cannot exceed the signal retention''])]"

definition validate_timing :: "rule_world \<Rightarrow> int option \<Rightarrow> string option \<Rightarrow> string \<Rightarrow> check" where
  "validate_timing w interval cron tz = raise_if (\<not> rw_timing w interval cron tz) (ValueError [Txt ''timing''])"

definition check_rule_args :: "rule_world \<Rightarrow> automation \<Rightarrow> nat \<Rightarrow> (string \<times> json) list \<Rightarrow> check" where
  "check_rule_args w db action args =
     (if au_args db action = [] then Inr () else validate_assignment_args (rw_iso_date w) (au_args db action) args)"

definition validate_schedule :: "rule_world \<Rightarrow> automation \<Rightarrow> schedule_fields \<Rightarrow> check" where
  "validate_schedule w db s =
     run_checks
       [check_pin db (sf_action s) (sf_agent s) (sf_interface s),
        check_provenance w db (sf_action s) (sf_agent s) (sf_interface s) ''This action needs a provenance token'',
        check_rule_args w db (sf_action s) (sf_args s),
        validate_timing w (sf_interval s) (sf_cron s) (sf_timezone s)]"

text \<open>The root port a signal's object goes to; the rows of ports are the action's args.\<close>

definition check_target_port :: "automation \<Rightarrow> nat \<Rightarrow> string \<Rightarrow> string \<Rightarrow> check" where
  "check_target_port db action port identifier =
     (case find (\<lambda>p. a_key_of p = port) (au_args db action) of
        None \<Rightarrow> Inl (ValueError [Txt ''The action has no argument '', repr_str port])
      | Some p \<Rightarrow> raise_if (a_kind p \<noteq> K_STRUCTURE \<or> pt_identifier (a_base p) \<noteq> Some identifier)
          (ValueError [Txt ''Argument '', repr_str port, Txt '' takes another kind'']))"

text \<open>A dict with one key set: \<open>{**args, port: value}\<close>.\<close>

definition with_port :: "string \<Rightarrow> json \<Rightarrow> (string \<times> json) list \<Rightarrow> (string \<times> json) list" where
  "with_port k v kvs = (if k \<in> fst ` set kvs then map (\<lambda>(k', x). (k', if k' = k then v else x)) kvs else kvs @ [(k, v)])"

definition stand_in :: "string \<Rightarrow> json" where
  "stand_in identifier = JObj [(''__identifier'', JStr identifier), (''object'', JStr ''0'')]"

definition check_declared :: "automation \<Rightarrow> string \<Rightarrow> string \<Rightarrow> descriptor_demand list \<Rightarrow> check" where
  "check_declared db kind identifier conditions =
     (let declarations = filter (\<lambda>d. dc_identifier d = identifier) (au_signals db);
          matching = filter (\<lambda>d. dc_kind d = kind) declarations;
          keys = concat (map dc_keys matching)
      in if matching = []
         then Inl (ValueError [Txt (if declarations \<noteq> [] then ''No service emits the kind'' else ''No service declares signals''), repr_str identifier])
         else raise_if (\<not> list_all (\<lambda>c. dd_key c \<in> set keys) conditions) (ValueError [Txt ''No service sends the descriptors'']))"

definition validate_trigger :: "rule_world \<Rightarrow> automation \<Rightarrow> trigger_fields \<Rightarrow> string option result" where
  "validate_trigger w db t =
     and_then (check_pin db (tf_action t) (tf_agent t) (tf_interface t)) (\<lambda>_.
     and_then (check_target_port db (tf_action t) (tf_port t) (tf_identifier t)) (\<lambda>_.
     and_then (check_rule_args w db (tf_action t) (with_port (tf_port t) (stand_in (tf_identifier t)) (tf_args t))) (\<lambda>_.
     and_then (compile_descriptors_to_jsonpath (rw_float_text w) (tf_conditions t)) (\<lambda>compiled.
     and_then (check_declared db (tf_kind t) (tf_identifier t) (tf_conditions t)) (\<lambda>_.
     and_then (check_provenance w db (tf_action t) (tf_agent t) (tf_interface t) ''This action needs a provenance token; under strict provenance'') (\<lambda>_.
     Inr compiled))))))"

section \<open>Row checks of the database\<close>

text \<open>The check constraint \<open>schedule_interval_xor_cron\<close>.\<close>

definition one_timing :: "schedule_fields \<Rightarrow> bool" where
  "one_timing f \<longleftrightarrow> (sf_interval f = None) \<noteq> (sf_cron f = None)"

definition scoped_action :: "automation \<Rightarrow> nat \<Rightarrow> check" where
  "scoped_action db a = raise_if (a \<notin> set (au_actions db)) (PermissionError [Txt ''No Action in this organization''])"

definition scoped_agent :: "automation \<Rightarrow> nat \<Rightarrow> check" where
  "scoped_agent db a = raise_if (a \<notin> fst ` set (au_agents db)) (PermissionError [Txt ''No Agent in this organization''])"

definition scoped_rule :: "string \<Rightarrow> 'f rule list \<Rightarrow> nat \<Rightarrow> 'f rule result" where
  "scoped_rule what rs pk =
     (case find (\<lambda>r. ru_pk r = pk) rs of None \<Rightarrow> Inl (PermissionError [Txt what]) | Some r \<Rightarrow> Inr r)"

section \<open>Notices\<close>

definition notify :: "notice \<Rightarrow> automation \<Rightarrow> automation" where
  "notify n db = db\<lparr>au_notices := au_notices db @ [n]\<rparr>"

definition drop_waiting_run :: "nat \<Rightarrow> automation \<Rightarrow> automation" where
  "drop_waiting_run s db = (case au_waiting db s of None \<Rightarrow> db | Some run \<Rightarrow> notify (Drop_Run run) db)"

end
