(* ===== verification/Wiregrams.thy ===== *)
theory Wiregrams
  imports Automation
begin

text \<open>
  What wiregram documents must be (\<open>src/facade/inputs/wiregram.py\<close>) and their import, deletion and export
  (\<open>src/facade/wiregrams.py\<close>). A request takes the tables and answers a result and the tables after it;
  one that raises leaves them as they were.
\<close>

section \<open>What a document must be\<close>

definition key_length :: "string \<Rightarrow> check" where
  "key_length s = raise_if (s = [] \<or> length s > 200) (ValueError [Txt ''length''])"

definition at_least_one :: "int option \<Rightarrow> check" where
  "at_least_one n = raise_if (case n of None \<Rightarrow> False | Some i \<Rightarrow> i < 1) (ValueError [Txt ''greater_than_equal''])"

definition check_wire_schedule :: "wire_schedule \<Rightarrow> check" where
  "check_wire_schedule s =
     run_checks [key_length (ws_key s), key_length (ws_name s), raise_if (ws_agent s = []) (ValueError [Txt ''agent'']),
       raise_if (ws_interface s = []) (ValueError [Txt ''interface'']), at_least_one (ws_max_runs s), at_least_one (ws_interval s),
       raise_if ((ws_interval s = None) = (ws_cron s = None)) (ValueError [Txt ''needs exactly one of interval_seconds or cron''])]"

definition check_wire_trigger :: "wire_trigger \<Rightarrow> check" where
  "check_wire_trigger t =
     run_checks [key_length (wt_key t), key_length (wt_name t), raise_if (wt_agent t = []) (ValueError [Txt ''agent'']),
       raise_if (wt_interface t = []) (ValueError [Txt ''interface'']), at_least_one (wt_max_runs t),
       raise_if (wt_identifier t = []) (ValueError [Txt ''identifier'']), raise_if (wt_port t = []) (ValueError [Txt ''port'']),
       at_least_one (wt_debounce t)]"

definition unique_keys :: "string list \<Rightarrow> check" where
  "unique_keys ks = raise_if (\<not> distinct ks) (ValueError [Txt ''key(s) more than once''])"

definition check_document :: "wiregram_doc \<Rightarrow> check" where
  "check_document d =
     and_then (key_length (wd_key d)) (\<lambda>_.
     and_then (key_length (wd_name d)) (\<lambda>_.
     and_then (for_each check_wire_schedule (wd_schedules d)) (\<lambda>_.
     and_then (for_each check_wire_trigger (wd_triggers d)) (\<lambda>_.
     run_checks [unique_keys (map ws_key (wd_schedules d)), unique_keys (map wt_key (wd_triggers d))]))))"

section \<open>What a document asks for\<close>

text \<open>The one implementation an agent's name and an interface stand for: its agent and action.\<close>

definition schedule_label :: "wire_schedule \<Rightarrow> message" where
  "schedule_label s = [Txt ''Schedule '', repr_str (ws_key s)]"

definition trigger_label :: "wire_trigger \<Rightarrow> message" where
  "trigger_label t = [Txt ''Trigger '', repr_str (wt_key t)]"

definition rule_target :: "automation \<Rightarrow> message \<Rightarrow> string \<Rightarrow> string \<Rightarrow> (nat \<times> nat) result" where
  "rule_target db label agent interface =
     (case filter (\<lambda>i. (ri_agent i, agent) \<in> set (au_agents db) \<and> ri_interface i = interface) (au_implementations db) of
        [i] \<Rightarrow> Inr (ri_agent i, ri_action i)
      | _ # _ # _ \<Rightarrow> Inl (ValueError (label @ [Txt '': several agents named '', repr_str agent, Txt '' offer '', repr_str interface]))
      | [] \<Rightarrow>
          if \<not> list_ex (\<lambda>(pk, name). name = agent) (au_agents db)
          then Inl (ValueError (label @ [Txt '': this organization has no agent named '', repr_str agent]))
          else Inl (ValueError (label @ [Txt '': the agent '', repr_str agent, Txt '' has no interface '', repr_str interface])))"

definition schedule_wanted :: "rule_world \<Rightarrow> automation \<Rightarrow> wire_schedule \<Rightarrow> schedule_fields result" where
  "schedule_wanted w db s =
     and_then (rule_target db (schedule_label s) (ws_agent s) (ws_interface s)) (\<lambda>(agent, action).
     let f = \<lparr>sf_name = ws_name s, sf_description = ws_description s, sf_action = action, sf_agent = Some agent,
              sf_interface = Some (ws_interface s), sf_args = or_nil (ws_args s), sf_interval = ws_interval s, sf_cron = ws_cron s,
              sf_timezone = ws_timezone s, sf_ephemeral = ws_ephemeral s, sf_overlap = ws_overlap s, sf_catch_up = ws_catch_up s,
              sf_policy = ws_policy s, sf_ends_at = ws_ends_at s, sf_max_runs = ws_max_runs s\<rparr>
     in and_then (validate_schedule w db f) (\<lambda>_.
        and_then (check_policies w (sf_max_runs f) None) (\<lambda>_. Inr f)))"

definition trigger_wanted :: "rule_world \<Rightarrow> automation \<Rightarrow> wire_trigger \<Rightarrow> trigger_fields result" where
  "trigger_wanted w db t =
     and_then (rule_target db (trigger_label t) (wt_agent t) (wt_interface t)) (\<lambda>(agent, action).
     let f = \<lparr>tf_name = wt_name t, tf_description = wt_description t, tf_action = action, tf_agent = Some agent,
              tf_interface = Some (wt_interface t), tf_args = or_nil (wt_args t), tf_kind = wt_kind t,
              tf_identifier = wt_identifier t, tf_port = wt_port t, tf_conditions = wt_conditions t, tf_jsonpath = None,
              tf_debounce = wt_debounce t, tf_policy = wt_policy t, tf_ends_at = wt_ends_at t, tf_max_runs = wt_max_runs t\<rparr>
     in and_then (validate_trigger w db f) (\<lambda>compiled.
        and_then (check_policies w (tf_max_runs f) (tf_debounce f)) (\<lambda>_. Inr (f\<lparr>tf_jsonpath := compiled\<rparr>))))"

text \<open>
  \<open>_checked\<close>: every rule that cannot be is a problem, told with its label in front unless the message starts with it
  already, and all problems are named at once. An exception that is not a ValueError is not caught. None of the checks of a rule
  raises a ValueError but a plain one; the message of one of a subclass is not rendered.
\<close>

definition told :: "message \<Rightarrow> py_error \<Rightarrow> message" where
  "told label e =
     (let m = (case e of ValueError m \<Rightarrow> m | _ \<Rightarrow> [])
      in if take (length label) m = label then m else label @ Txt '': '' # m)"

definition collect ::
  "('r \<Rightarrow> string) \<Rightarrow> ('r \<Rightarrow> message) \<Rightarrow> ('r \<Rightarrow> 'f result) \<Rightarrow> 'r list \<Rightarrow> (string \<times> 'f) list \<times> message list \<Rightarrow>
   ((string \<times> 'f) list \<times> message list) result" where
  "collect key label wanted = fold_result (\<lambda>r (fs, problems).
     case wanted r of
       Inr f \<Rightarrow> Inr (fs @ [(key r, f)], problems)
     | Inl e \<Rightarrow> if is_value_error e then Inr (fs, problems @ [told (label r) e]) else Inl e)"

text \<open>\<open>" | ".join(problems)\<close>.\<close>

fun join_problems :: "message list \<Rightarrow> message" where
  "join_problems [] = []"
| "join_problems [m] = m"
| "join_problems (m # ms) = m @ Txt '' | '' # join_problems ms"

definition wanted_rules ::
  "rule_world \<Rightarrow> automation \<Rightarrow> wiregram_doc \<Rightarrow> ((string \<times> schedule_fields) list \<times> (string \<times> trigger_fields) list) result" where
  "wanted_rules w db d =
     and_then (collect ws_key schedule_label (schedule_wanted w db) (wd_schedules d) ([], [])) (\<lambda>(ss, problems).
     and_then (collect wt_key trigger_label (trigger_wanted w db) (wd_triggers d) ([], problems)) (\<lambda>(ts, problems').
     if problems' \<noteq> [] then Inl (ValueError (Txt ''The wiregram cannot be imported. '' # join_problems problems')) else Inr (ss, ts)))"

section \<open>Bringing the rules in line\<close>

text \<open>Whether new fields change what the schedule's waiting run was planned for.\<close>

definition retimes :: "schedule_fields \<Rightarrow> schedule_fields \<Rightarrow> bool" where
  "retimes old new \<longleftrightarrow>
     \<not> (sf_action old = sf_action new \<and> sf_agent old = sf_agent new \<and> sf_interface old = sf_interface new \<and>
        py_eq (JObj (sf_args old)) (JObj (sf_args new)) \<and> sf_interval old = sf_interval new \<and> sf_cron old = sf_cron new \<and>
        sf_timezone old = sf_timezone new \<and> sf_ephemeral old = sf_ephemeral new \<and> sf_policy old = sf_policy new \<and>
        sf_ends_at old = sf_ends_at new \<and> sf_max_runs old = sf_max_runs new)"

definition owned_by :: "nat \<Rightarrow> 'f rule \<Rightarrow> bool" where
  "owned_by wg r \<longleftrightarrow> ru_wiregram r = Some wg"

definition named_rule :: "nat \<Rightarrow> string \<Rightarrow> 'f rule \<Rightarrow> bool" where
  "named_rule wg k r \<longleftrightarrow> ru_wiregram r = Some wg \<and> ru_wire_key r = Some k"

text \<open>One rule of the document: updated in place, or created by the caller with the document's switch.\<close>

definition put_rule :: "nat \<Rightarrow> nat \<Rightarrow> (string \<Rightarrow> bool) \<Rightarrow> string \<times> 'f \<Rightarrow> 'f rule list \<times> nat \<Rightarrow> 'f rule list \<times> nat" where
  "put_rule wg caller enabled = (\<lambda>(k, f) (rs, next).
     if list_ex (named_rule wg k) rs
     then (map (\<lambda>r. if named_rule wg k r then r\<lparr>ru_fields := f\<rparr> else r) rs, next)
     else (rs @ [\<lparr>ru_pk = next, ru_caller = caller, ru_enabled = enabled k, ru_wiregram = Some wg, ru_wire_key = Some k, ru_fields = f\<rparr>], Suc next))"

definition bring_in_line ::
  "nat \<Rightarrow> nat \<Rightarrow> (string \<Rightarrow> bool) \<Rightarrow> (string \<times> 'f) list \<Rightarrow> 'f rule list \<times> nat \<Rightarrow> 'f rule list \<times> nat" where
  "bring_in_line wg caller enabled wanted = (\<lambda>(rs, next).
     fold (put_rule wg caller enabled) wanted
       (filter (\<lambda>r. \<not> (owned_by wg r \<and> (case ru_wire_key r of None \<Rightarrow> True | Some k \<Rightarrow> k \<notin> fst ` set wanted))) rs, next))"

definition put_wiregram :: "nat \<Rightarrow> wiregram_doc \<Rightarrow> automation \<Rightarrow> nat \<times> automation" where
  "put_wiregram caller d db =
     (case find (\<lambda>g. wg_key g = wd_key d) (au_wiregrams db) of
        Some g \<Rightarrow>
          (wg_pk g, db\<lparr>au_wiregrams := map (\<lambda>h. if wg_key h = wd_key d
             then h\<lparr>wg_caller := caller, wg_name := wd_name d, wg_description := wd_description d, wg_document := settled d\<rparr> else h) (au_wiregrams db)\<rparr>)
      | None \<Rightarrow>
          (au_next db, db\<lparr>au_wiregrams := au_wiregrams db @
             [\<lparr>wg_pk = au_next db, wg_key = wd_key d, wg_caller = caller, wg_name = wd_name d, wg_description = wd_description d, wg_document = settled d\<rparr>],
             au_next := Suc (au_next db)\<rparr>))"

definition enabled_in :: "(string \<times> bool) list \<Rightarrow> string \<Rightarrow> bool" where
  "enabled_in kes k = (case map_of kes k of None \<Rightarrow> True | Some b \<Rightarrow> b)"

definition owned_schedules :: "wiregram_doc \<Rightarrow> automation \<Rightarrow> schedule list" where
  "owned_schedules d db =
     (case find (\<lambda>g. wg_key g = wd_key d) (au_wiregrams db) of
        None \<Rightarrow> []
      | Some g \<Rightarrow> filter (owned_by (wg_pk g)) (au_schedules db))"

text \<open>The schedules that go, the keys planned on other terms, and what takt hears of each schedule at the end.\<close>

definition goes :: "(string \<times> schedule_fields) list \<Rightarrow> schedule \<Rightarrow> bool" where
  "goes ss r \<longleftrightarrow> (case ru_wire_key r of None \<Rightarrow> True | Some k \<Rightarrow> k \<notin> fst ` set ss)"

definition replanned_keys :: "(string \<times> schedule_fields) list \<Rightarrow> schedule list \<Rightarrow> string \<Rightarrow> bool" where
  "replanned_keys ss owned k \<longleftrightarrow>
     list_ex (\<lambda>r. ru_wire_key r = Some k \<and> (case map_of ss k of None \<Rightarrow> False | Some f \<Rightarrow> retimes (ru_fields r) f)) owned"

definition plan_notice :: "(string \<Rightarrow> bool) \<Rightarrow> schedule \<Rightarrow> notice" where
  "plan_notice replanned r = Plan (ru_pk r) (case ru_wire_key r of None \<Rightarrow> False | Some k \<Rightarrow> replanned k)"

definition import_wiregram :: "rule_world \<Rightarrow> nat \<Rightarrow> wiregram_doc \<Rightarrow> automation \<Rightarrow> nat result \<times> automation" where
  "import_wiregram w caller d db =
     (case and_then (check_document d) (\<lambda>_. wanted_rules w db d) of
        Inl e \<Rightarrow> (Inl e, db)
      | Inr (ss, ts) \<Rightarrow>
          let owned = owned_schedules d db;
              db1 = fold (\<lambda>r. if goes ss r then drop_waiting_run (ru_pk r) else id) owned db
          in case put_wiregram caller d db1 of (wg, db2) \<Rightarrow>
             let (scheds, n1) = bring_in_line wg caller (enabled_in (map (\<lambda>s. (ws_key s, ws_enabled s)) (wd_schedules d))) ss
                   (au_schedules db2, au_next db2);
                 (trigs, n2) = bring_in_line wg caller (enabled_in (map (\<lambda>t. (wt_key t, wt_enabled t)) (wd_triggers d))) ts
                   (au_triggers db2, n1)
             in (Inr wg, fold (\<lambda>r. notify (plan_notice (replanned_keys ss owned) r)) (filter (owned_by wg) scheds)
                   (db2\<lparr>au_schedules := scheds, au_triggers := trigs, au_next := n2\<rparr>)))"

definition delete_wiregram :: "nat \<Rightarrow> automation \<Rightarrow> automation" where
  "delete_wiregram wg db =
     (let db1 = fold (\<lambda>r. drop_waiting_run (ru_pk r)) (filter (owned_by wg) (au_schedules db)) db
      in db1\<lparr>au_wiregrams := filter (\<lambda>g. wg_pk g \<noteq> wg) (au_wiregrams db1),
           au_schedules := filter (\<lambda>r. \<not> owned_by wg r) (au_schedules db1),
           au_triggers := filter (\<lambda>r. \<not> owned_by wg r) (au_triggers db1)\<rparr>)"

text \<open>The mutation, which finds the row first.\<close>

definition delete_wiregram_request :: "nat \<Rightarrow> automation \<Rightarrow> nat result \<times> automation" where
  "delete_wiregram_request wg db =
     (if wg \<in> wg_pk ` set (au_wiregrams db) then (Inr wg, delete_wiregram wg db)
      else (Inl (PermissionError [Txt ''No Wiregram in this organization'']), db))"

section \<open>Export\<close>

definition agent_name :: "automation \<Rightarrow> nat option \<Rightarrow> string result" where
  "agent_name db agent =
     (case agent of
        None \<Rightarrow> Inl (ValueError [Txt ''is not pinned to an agent''])
      | Some a \<Rightarrow> (case map_of (au_agents db) a of None \<Rightarrow> Inl (DoesNotExist ''Agent'') | Some n \<Rightarrow> Inr n))"

definition export_schedule :: "automation \<Rightarrow> schedule \<Rightarrow> wire_schedule result" where
  "export_schedule db r =
     (let f = ru_fields r in
      and_then (agent_name db (sf_agent f)) (\<lambda>name.
      case sf_interface f of
        None \<Rightarrow> Inl (ValueError [Txt ''interface''])
      | Some i \<Rightarrow> Inr
         \<lparr>ws_key = (case ru_wire_key r of Some (c # k) \<Rightarrow> c # k | _ \<Rightarrow> ''schedule-'' @ show_nat (ru_pk r)),
          ws_name = sf_name f, ws_description = sf_description f, ws_agent = name, ws_interface = i, ws_args = Some (sf_args f),
          ws_enabled = ru_enabled r, ws_ends_at = sf_ends_at f, ws_max_runs = sf_max_runs f, ws_policy = sf_policy f,
          ws_interval = sf_interval f, ws_cron = sf_cron f, ws_timezone = sf_timezone f, ws_ephemeral = sf_ephemeral f,
          ws_overlap = sf_overlap f, ws_catch_up = sf_catch_up f\<rparr>))"

definition export_trigger :: "automation \<Rightarrow> trigger \<Rightarrow> wire_trigger result" where
  "export_trigger db r =
     (let f = ru_fields r in
      and_then (agent_name db (tf_agent f)) (\<lambda>name.
      case tf_interface f of
        None \<Rightarrow> Inl (ValueError [Txt ''interface''])
      | Some i \<Rightarrow> Inr
         \<lparr>wt_key = (case ru_wire_key r of Some (c # k) \<Rightarrow> c # k | _ \<Rightarrow> ''trigger-'' @ show_nat (ru_pk r)),
          wt_name = tf_name f, wt_description = tf_description f, wt_agent = name, wt_interface = i, wt_args = Some (tf_args f),
          wt_enabled = ru_enabled r, wt_ends_at = tf_ends_at f, wt_max_runs = tf_max_runs f, wt_policy = tf_policy f,
          wt_kind = tf_kind f, wt_identifier = tf_identifier f, wt_port = tf_port f, wt_conditions = tf_conditions f,
          wt_debounce = tf_debounce f\<rparr>))"

definition export_wiregram ::
  "automation \<Rightarrow> string \<Rightarrow> string \<Rightarrow> string option \<Rightarrow> schedule list \<Rightarrow> trigger list \<Rightarrow> wiregram_doc result" where
  "export_wiregram db key name description ss ts =
     and_then (map_result (export_schedule db) ss) (\<lambda>wss.
     and_then (map_result (export_trigger db) ts) (\<lambda>wts.
     let d = \<lparr>wd_key = key, wd_name = name, wd_description = description, wd_schedules = wss, wd_triggers = wts\<rparr>
     in and_then (check_document d) (\<lambda>_. Inr d)))"

definition export_request :: "automation \<Rightarrow> string \<Rightarrow> string \<Rightarrow> string option \<Rightarrow> nat list \<Rightarrow> nat list \<Rightarrow> wiregram_doc result" where
  "export_request db key name description ss ts =
     and_then (map_result (scoped_rule ''No Schedule in this organization'' (au_schedules db)) ss) (\<lambda>rs.
     and_then (map_result (scoped_rule ''No Trigger in this organization'' (au_triggers db)) ts) (\<lambda>qs.
     export_wiregram db key name description rs qs))"

end
