(* ===== verification/Rule_Mutations.thy ===== *)
theory Rule_Mutations
  imports Automation
begin

text \<open>
  The mutations of single rules (\<open>src/facade/mutations/schedule.py\<close>, \<open>mutations/trigger.py\<close>): create, change
  and delete. A change writes only the fields that differ, checks the target and the timing only when
  one of those changed, and says to takt whether the waiting run was planned on other terms. In a
  patch, \<open>None\<close> is a field left out; a field that may be set to null is an option of an option.
\<close>

section \<open>Patches\<close>

record schedule_patch =
  sp_name :: "string option"
  sp_action :: "nat option"
  sp_agent :: "nat option option"
  sp_interface :: "string option option"
  sp_ephemeral :: "bool option"
  sp_args :: "(string \<times> json) list option"
  sp_interval :: "int option"
  sp_cron :: "string option"
  sp_timezone :: "string option"
  sp_enabled :: "bool option"
  sp_description :: "string option option"
  sp_ends_at :: "int option option"
  sp_max_runs :: "int option option"
  sp_overlap :: "string option"
  sp_catch_up :: "bool option"
  sp_policy :: "string option"

record trigger_patch =
  tp_name :: "string option"
  tp_kind :: "string option"
  tp_identifier :: "string option"
  tp_action :: "nat option"
  tp_agent :: "nat option option"
  tp_interface :: "string option option"
  tp_port :: "string option"
  tp_args :: "(string \<times> json) list option"
  tp_enabled :: "bool option"
  tp_description :: "string option option"
  tp_ends_at :: "int option option"
  tp_max_runs :: "int option option"
  tp_debounce :: "int option option"
  tp_policy :: "string option"
  tp_conditions :: "descriptor_demand list option"

text \<open>\<open>if input.x is not None and row.x != input.x: row.x = input.x; changed.append("x")\<close>.\<close>

definition change_by ::
  "('v \<Rightarrow> 'v \<Rightarrow> bool) \<Rightarrow> string \<Rightarrow> 'v option \<Rightarrow> ('r \<Rightarrow> 'v) \<Rightarrow> ('v \<Rightarrow> 'r \<Rightarrow> 'r) \<Rightarrow> 'r \<times> string list \<Rightarrow> 'r \<times> string list" where
  "change_by same name x read write = (\<lambda>(r, changed).
     case x of
       None \<Rightarrow> (r, changed)
     | Some v \<Rightarrow> if same (read r) v then (r, changed) else (write v r, changed @ [name]))"

abbreviation change :: "string \<Rightarrow> 'v option \<Rightarrow> ('r \<Rightarrow> 'v) \<Rightarrow> ('v \<Rightarrow> 'r \<Rightarrow> 'r) \<Rightarrow> 'r \<times> string list \<Rightarrow> 'r \<times> string list" where
  "change \<equiv> change_by (=)"

definition same_args :: "(string \<times> json) list \<Rightarrow> (string \<times> json) list \<Rightarrow> bool" where
  "same_args a b = py_eq (JObj a) (JObj b)"

section \<open>Schedules\<close>

definition create_schedule :: "rule_world \<Rightarrow> nat \<Rightarrow> bool \<Rightarrow> schedule_fields \<Rightarrow> automation \<Rightarrow> nat result \<times> automation" where
  "create_schedule w caller enabled f db =
     (let pk = au_next db in
      case run_checks
        [scoped_action db (sf_action f),
         (case sf_agent f of None \<Rightarrow> Inr () | Some a \<Rightarrow> scoped_agent db a),
         validate_schedule w db f,
         check_policies w (sf_max_runs f) None,
         raise_if (\<not> one_timing f) (IntegrityError ''Schedule'')] of
        Inl e \<Rightarrow> (Inl e, db)
      | Inr _ \<Rightarrow> (Inr pk, notify (Plan pk False)
          (db\<lparr>au_schedules := au_schedules db @
                [\<lparr>ru_pk = pk, ru_caller = caller, ru_enabled = enabled, ru_wiregram = None, ru_wire_key = None, ru_fields = f\<rparr>],
              au_next := Suc pk\<rparr>)))"

text \<open>The fields in the order the code compares them; one timing replaces the other.\<close>

definition timed_patch :: "schedule_patch \<Rightarrow> bool" where
  "timed_patch p \<longleftrightarrow> sp_interval p \<noteq> None \<or> sp_cron p \<noteq> None"

definition schedule_changes :: "schedule_patch \<Rightarrow> (schedule \<times> string list \<Rightarrow> schedule \<times> string list) list" where
  "schedule_changes p =
     (let on = (\<lambda>g r. r\<lparr>ru_fields := g (ru_fields r)\<rparr>)
      in [change ''name'' (sp_name p) (\<lambda>r. sf_name (ru_fields r)) (\<lambda>v. on (\<lambda>f. f\<lparr>sf_name := v\<rparr>)),
          change ''action'' (sp_action p) (\<lambda>r. sf_action (ru_fields r)) (\<lambda>v. on (\<lambda>f. f\<lparr>sf_action := v\<rparr>)),
          change ''agent'' (sp_agent p) (\<lambda>r. sf_agent (ru_fields r)) (\<lambda>v. on (\<lambda>f. f\<lparr>sf_agent := v\<rparr>)),
          change ''interface'' (sp_interface p) (\<lambda>r. sf_interface (ru_fields r)) (\<lambda>v. on (\<lambda>f. f\<lparr>sf_interface := v\<rparr>)),
          change ''ephemeral_runs'' (sp_ephemeral p) (\<lambda>r. sf_ephemeral (ru_fields r)) (\<lambda>v. on (\<lambda>f. f\<lparr>sf_ephemeral := v\<rparr>)),
          change_by same_args ''args'' (sp_args p) (\<lambda>r. sf_args (ru_fields r)) (\<lambda>v. on (\<lambda>f. f\<lparr>sf_args := v\<rparr>)),
          change ''interval_seconds'' (if timed_patch p then Some (sp_interval p) else None) (\<lambda>r. sf_interval (ru_fields r)) (\<lambda>v. on (\<lambda>f. f\<lparr>sf_interval := v\<rparr>)),
          change ''cron'' (if timed_patch p then Some (sp_cron p) else None) (\<lambda>r. sf_cron (ru_fields r)) (\<lambda>v. on (\<lambda>f. f\<lparr>sf_cron := v\<rparr>)),
          change ''timezone'' (sp_timezone p) (\<lambda>r. sf_timezone (ru_fields r)) (\<lambda>v. on (\<lambda>f. f\<lparr>sf_timezone := v\<rparr>)),
          change ''enabled'' (sp_enabled p) ru_enabled (\<lambda>v r. r\<lparr>ru_enabled := v\<rparr>),
          change ''description'' (sp_description p) (\<lambda>r. sf_description (ru_fields r)) (\<lambda>v. on (\<lambda>f. f\<lparr>sf_description := v\<rparr>)),
          change ''ends_at'' (sp_ends_at p) (\<lambda>r. sf_ends_at (ru_fields r)) (\<lambda>v. on (\<lambda>f. f\<lparr>sf_ends_at := v\<rparr>)),
          change ''max_runs'' (sp_max_runs p) (\<lambda>r. sf_max_runs (ru_fields r)) (\<lambda>v. on (\<lambda>f. f\<lparr>sf_max_runs := v\<rparr>)),
          change ''overlap'' (sp_overlap p) (\<lambda>r. sf_overlap (ru_fields r)) (\<lambda>v. on (\<lambda>f. f\<lparr>sf_overlap := v\<rparr>)),
          change ''catch_up'' (sp_catch_up p) (\<lambda>r. sf_catch_up (ru_fields r)) (\<lambda>v. on (\<lambda>f. f\<lparr>sf_catch_up := v\<rparr>)),
          change ''policy'' (sp_policy p) (\<lambda>r. sf_policy (ru_fields r)) (\<lambda>v. on (\<lambda>f. f\<lparr>sf_policy := v\<rparr>))])"

definition patch_schedule :: "automation \<Rightarrow> schedule_patch \<Rightarrow> schedule \<Rightarrow> (schedule \<times> string list) result" where
  "patch_schedule db p r =
     and_then (case sp_action p of None \<Rightarrow> Inr () | Some a \<Rightarrow> scoped_action db a) (\<lambda>_.
     and_then (case sp_agent p of Some (Some a) \<Rightarrow> scoped_agent db a | _ \<Rightarrow> Inr ()) (\<lambda>_.
     and_then (raise_if (sp_interval p \<noteq> None \<and> sp_cron p \<noteq> None) (ValueError [Txt ''Give intervalSeconds or cron, not both''])) (\<lambda>_.
     Inr (fold id (schedule_changes p) (r, [])))))"

definition update_schedule :: "rule_world \<Rightarrow> nat \<Rightarrow> schedule_patch \<Rightarrow> automation \<Rightarrow> nat result \<times> automation" where
  "update_schedule w pk p db =
     (case and_then (scoped_rule ''No Schedule in this organization'' (au_schedules db) pk) (\<lambda>r.
           and_then (patch_schedule db p r) (\<lambda>(r', changed).
           and_then (check_policies w (sf_max_runs (ru_fields r')) None) (\<lambda>_.
           and_then (if list_ex (\<lambda>c. c \<in> set [''action'', ''agent'', ''interface'', ''args'', ''interval_seconds'', ''cron'', ''timezone'']) changed
                     then validate_schedule w db (ru_fields r') else Inr ()) (\<lambda>_.
           and_then (raise_if (\<not> one_timing (ru_fields r')) (IntegrityError ''Schedule'')) (\<lambda>_.
           Inr (r', changed)))))) of
        Inl e \<Rightarrow> (Inl e, db)
      | Inr (r', changed) \<Rightarrow>
          (Inr pk, notify (Plan pk (list_ex (\<lambda>c. c \<notin> set [''name'', ''description'', ''overlap'', ''catch_up'']) changed))
             (db\<lparr>au_schedules := map (\<lambda>s. if ru_pk s = pk then r' else s) (au_schedules db)\<rparr>)))"

definition delete_schedule :: "nat \<Rightarrow> automation \<Rightarrow> nat result \<times> automation" where
  "delete_schedule pk db =
     (case scoped_rule ''No Schedule in this organization'' (au_schedules db) pk of
        Inl e \<Rightarrow> (Inl e, db)
      | Inr r \<Rightarrow> (Inr pk, (drop_waiting_run pk db)\<lparr>au_schedules := filter (\<lambda>s. ru_pk s \<noteq> pk) (au_schedules db)\<rparr>))"

section \<open>Triggers\<close>

definition create_trigger :: "rule_world \<Rightarrow> nat \<Rightarrow> bool \<Rightarrow> trigger_fields \<Rightarrow> automation \<Rightarrow> nat result \<times> automation" where
  "create_trigger w caller enabled f db =
     (let pk = au_next db in
      case and_then (scoped_action db (tf_action f)) (\<lambda>_.
           and_then (case tf_agent f of None \<Rightarrow> Inr () | Some a \<Rightarrow> scoped_agent db a) (\<lambda>_.
           and_then (validate_trigger w db f) (\<lambda>compiled.
           and_then (check_policies w (tf_max_runs f) (tf_debounce f)) (\<lambda>_. Inr compiled)))) of
        Inl e \<Rightarrow> (Inl e, db)
      | Inr compiled \<Rightarrow> (Inr pk,
          db\<lparr>au_triggers := au_triggers db @
               [\<lparr>ru_pk = pk, ru_caller = caller, ru_enabled = enabled, ru_wiregram = None, ru_wire_key = None,
                 ru_fields = f\<lparr>tf_jsonpath := compiled\<rparr>\<rparr>],
             au_next := Suc pk\<rparr>))"

text \<open>The fields in the order the code compares them.\<close>

definition trigger_changes :: "trigger_patch \<Rightarrow> (trigger \<times> string list \<Rightarrow> trigger \<times> string list) list" where
  "trigger_changes p =
     (let on = (\<lambda>g r. r\<lparr>ru_fields := g (ru_fields r)\<rparr>)
      in [change ''name'' (tp_name p) (\<lambda>r. tf_name (ru_fields r)) (\<lambda>v. on (\<lambda>f. f\<lparr>tf_name := v\<rparr>)),
          change ''kind'' (tp_kind p) (\<lambda>r. tf_kind (ru_fields r)) (\<lambda>v. on (\<lambda>f. f\<lparr>tf_kind := v\<rparr>)),
          change ''identifier'' (tp_identifier p) (\<lambda>r. tf_identifier (ru_fields r)) (\<lambda>v. on (\<lambda>f. f\<lparr>tf_identifier := v\<rparr>)),
          change ''action'' (tp_action p) (\<lambda>r. tf_action (ru_fields r)) (\<lambda>v. on (\<lambda>f. f\<lparr>tf_action := v\<rparr>)),
          change ''agent'' (tp_agent p) (\<lambda>r. tf_agent (ru_fields r)) (\<lambda>v. on (\<lambda>f. f\<lparr>tf_agent := v\<rparr>)),
          change ''interface'' (tp_interface p) (\<lambda>r. tf_interface (ru_fields r)) (\<lambda>v. on (\<lambda>f. f\<lparr>tf_interface := v\<rparr>)),
          change ''port'' (tp_port p) (\<lambda>r. tf_port (ru_fields r)) (\<lambda>v. on (\<lambda>f. f\<lparr>tf_port := v\<rparr>)),
          change_by same_args ''args'' (tp_args p) (\<lambda>r. tf_args (ru_fields r)) (\<lambda>v. on (\<lambda>f. f\<lparr>tf_args := v\<rparr>)),
          change ''enabled'' (tp_enabled p) ru_enabled (\<lambda>v r. r\<lparr>ru_enabled := v\<rparr>),
          change ''description'' (tp_description p) (\<lambda>r. tf_description (ru_fields r)) (\<lambda>v. on (\<lambda>f. f\<lparr>tf_description := v\<rparr>)),
          change ''ends_at'' (tp_ends_at p) (\<lambda>r. tf_ends_at (ru_fields r)) (\<lambda>v. on (\<lambda>f. f\<lparr>tf_ends_at := v\<rparr>)),
          change ''max_runs'' (tp_max_runs p) (\<lambda>r. tf_max_runs (ru_fields r)) (\<lambda>v. on (\<lambda>f. f\<lparr>tf_max_runs := v\<rparr>)),
          change ''debounce_seconds'' (tp_debounce p) (\<lambda>r. tf_debounce (ru_fields r)) (\<lambda>v. on (\<lambda>f. f\<lparr>tf_debounce := v\<rparr>)),
          change ''policy'' (tp_policy p) (\<lambda>r. tf_policy (ru_fields r)) (\<lambda>v. on (\<lambda>f. f\<lparr>tf_policy := v\<rparr>))])"

definition patch_trigger :: "automation \<Rightarrow> trigger_patch \<Rightarrow> trigger \<Rightarrow> (trigger \<times> string list) result" where
  "patch_trigger db p r =
     and_then (case tp_action p of None \<Rightarrow> Inr () | Some a \<Rightarrow> scoped_action db a) (\<lambda>_.
     and_then (case tp_agent p of Some (Some a) \<Rightarrow> scoped_agent db a | _ \<Rightarrow> Inr ()) (\<lambda>_.
     Inr (fold id (trigger_changes p) (r, []))))"

text \<open>\<open>(conditions, compiled) != (trigger.conditions, trigger.compiled_jsonpath)\<close>, by Python's equality.\<close>

definition same_conditions :: "descriptor_demand list \<Rightarrow> descriptor_demand list \<Rightarrow> bool" where
  "same_conditions cs ds \<longleftrightarrow>
     length cs = length ds \<and>
     list_all (\<lambda>(c, d). dd_key c = dd_key d \<and> dd_operator c = dd_operator d \<and> py_eq (dd_value c) (dd_value d)) (zip cs ds)"

text \<open>What it runs and listens for, checked as a whole when any of it changed or conditions are given.\<close>

definition recheck_trigger :: "rule_world \<Rightarrow> automation \<Rightarrow> trigger_patch \<Rightarrow> trigger \<times> string list \<Rightarrow> trigger result" where
  "recheck_trigger w db p = (\<lambda>(r, changed).
     if tp_conditions p \<noteq> None \<or>
        list_ex (\<lambda>c. c \<in> set [''kind'', ''identifier'', ''action'', ''agent'', ''interface'', ''port'', ''args'']) changed
     then let cs = (case tp_conditions p of Some cs \<Rightarrow> cs | None \<Rightarrow> tf_conditions (ru_fields r));
              f = (ru_fields r)\<lparr>tf_conditions := cs\<rparr>
          in and_then (validate_trigger w db f) (\<lambda>compiled.
             Inr (if same_conditions cs (tf_conditions (ru_fields r)) \<and> compiled = tf_jsonpath (ru_fields r) then r
                  else r\<lparr>ru_fields := f\<lparr>tf_jsonpath := compiled\<rparr>\<rparr>))
     else Inr r)"

definition update_trigger :: "rule_world \<Rightarrow> nat \<Rightarrow> trigger_patch \<Rightarrow> automation \<Rightarrow> nat result \<times> automation" where
  "update_trigger w pk p db =
     (case and_then (scoped_rule ''No Trigger in this organization'' (au_triggers db) pk) (\<lambda>r.
           and_then (patch_trigger db p r) (\<lambda>(r', changed).
           and_then (check_policies w (tf_max_runs (ru_fields r')) (tf_debounce (ru_fields r'))) (\<lambda>_.
           recheck_trigger w db p (r', changed)))) of
        Inl e \<Rightarrow> (Inl e, db)
      | Inr r' \<Rightarrow> (Inr pk, db\<lparr>au_triggers := map (\<lambda>s. if ru_pk s = pk then r' else s) (au_triggers db)\<rparr>))"

definition delete_trigger :: "nat \<Rightarrow> automation \<Rightarrow> nat result \<times> automation" where
  "delete_trigger pk db =
     (case scoped_rule ''No Trigger in this organization'' (au_triggers db) pk of
        Inl e \<Rightarrow> (Inl e, db)
      | Inr r \<Rightarrow> (Inr pk, db\<lparr>au_triggers := filter (\<lambda>s. ru_pk s \<noteq> pk) (au_triggers db)\<rparr>))"

end
