(* ===== verification/Rule_Facts.thy ===== *)
theory Rule_Facts
  imports Wiregrams Rule_Mutations
begin

text \<open>
  What bringing rules in line does, first for one rule, then for a document's: a rule is found under its
  wiregram and key, and the tables keep their keys unique, their owners present and their rows sound.
\<close>

section \<open>Rules under their key\<close>

definition rule_at :: "nat \<Rightarrow> 'f rule list \<Rightarrow> string \<Rightarrow> 'f rule option" where
  "rule_at wg rs k = find (named_rule wg k) rs"

lemma find_through_map: "find P (map g xs) = map_option g (find (\<lambda>x. P (g x)) xs)"
  by (induction xs) auto

lemma find_through_filter: "find P (filter Q xs) = find (\<lambda>x. P x \<and> Q x) xs"
  by (induction xs) auto

lemma find_in_append: "find P (xs @ ys) = (case find P xs of None \<Rightarrow> find P ys | Some x \<Rightarrow> Some x)"
  by (induction xs) auto

lemma named_rule_update [simp]: "named_rule wg k (r\<lparr>ru_fields := f\<rparr>) = named_rule wg k r"
  by (simp add: named_rule_def)

lemma owned_by_update [simp]: "owned_by wg (r\<lparr>ru_fields := f\<rparr>) = owned_by wg r"
  by (simp add: owned_by_def)

lemma named_rule_if [simp]:
  "named_rule wg k (if named_rule wg k' r then r\<lparr>ru_fields := f\<rparr> else r) = named_rule wg k r"
  by simp

lemma rule_at_named: "rule_at wg rs k = Some r \<Longrightarrow> named_rule wg k r \<and> r \<in> set rs"
  unfolding rule_at_def by (auto simp: find_Some_iff)

lemma rule_at_None: "rule_at wg rs k = None \<longleftrightarrow> \<not> list_ex (named_rule wg k) rs"
  by (auto simp: rule_at_def find_None_iff list_ex_iff)

lemma rule_at_put:
  "rule_at wg (fst (put_rule wg c e (k, f) (rs, n))) k' =
     (if k' = k
      then Some (case rule_at wg rs k of
                   Some r \<Rightarrow> r\<lparr>ru_fields := f\<rparr>
                 | None \<Rightarrow> \<lparr>ru_pk = n, ru_caller = c, ru_enabled = e k, ru_wiregram = Some wg, ru_wire_key = Some k, ru_fields = f\<rparr>)
      else rule_at wg rs k')"
proof (cases "list_ex (named_rule wg k) rs")
  case True
  then obtain r where r: "rule_at wg rs k = Some r" using rule_at_None [of wg rs k] by auto
  have other: "find (named_rule wg k') rs = Some x \<Longrightarrow> k' \<noteq> k \<Longrightarrow> \<not> named_rule wg k x" for x
    by (auto simp: find_Some_iff named_rule_def)
  have "rule_at wg (fst (put_rule wg c e (k, f) (rs, n))) k' =
        map_option (\<lambda>r. if named_rule wg k r then r\<lparr>ru_fields := f\<rparr> else r) (rule_at wg rs k')"
    using True by (simp add: put_rule_def rule_at_def find_through_map)
  also have "\<dots> = (if k' = k then Some (r\<lparr>ru_fields := f\<rparr>) else rule_at wg rs k')"
    using r rule_at_named [OF r] other by (cases "rule_at wg rs k'") (auto simp: rule_at_def)
  finally show ?thesis using r by simp
next
  case False
  then have "rule_at wg rs k = None" by (simp add: rule_at_None)
  moreover have "rule_at wg (fst (put_rule wg c e (k, f) (rs, n))) k' =
      (case rule_at wg rs k' of None \<Rightarrow> if k' = k then Some \<lparr>ru_pk = n, ru_caller = c, ru_enabled = e k, ru_wiregram = Some wg,
         ru_wire_key = Some k, ru_fields = f\<rparr> else None | Some r \<Rightarrow> Some r)"
    using False by (auto simp: put_rule_def rule_at_def find_in_append named_rule_def split: option.splits)
  ultimately show ?thesis by (auto split: option.splits)
qed

text \<open>What a rule of the document becomes: the rule that had its key with new fields, or a new one.\<close>

definition placed :: "nat \<Rightarrow> nat \<Rightarrow> bool \<Rightarrow> string \<Rightarrow> 'f \<Rightarrow> 'f rule list \<Rightarrow> 'f rule list \<Rightarrow> bool" where
  "placed wg caller enabled k f rs rs' \<longleftrightarrow>
     (case rule_at wg rs k of
        Some r \<Rightarrow> rule_at wg rs' k = Some (r\<lparr>ru_fields := f\<rparr>)
      | None \<Rightarrow> (\<exists>pk. rule_at wg rs' k =
          Some \<lparr>ru_pk = pk, ru_caller = caller, ru_enabled = enabled, ru_wiregram = Some wg, ru_wire_key = Some k, ru_fields = f\<rparr>))"

lemma put_rules_other:
  "k \<notin> fst ` set kfs \<Longrightarrow> rule_at wg (fst (fold (put_rule wg c e) kfs (rs, n))) k = rule_at wg rs k"
proof (induction kfs arbitrary: rs n)
  case (Cons kf kfs)
  obtain k' f where kf: "kf = (k', f)" by (cases kf)
  obtain rs' n' where rs': "put_rule wg c e (k', f) (rs, n) = (rs', n')" by (cases "put_rule wg c e (k', f) (rs, n)")
  from Cons.prems kf have "rule_at wg rs' k = rule_at wg rs k"
    using rule_at_put [of wg c e k' f rs n k] by (simp add: rs')
  with Cons kf rs' show ?case by simp
qed simp

lemma put_rules_placed:
  "distinct (map fst kfs) \<Longrightarrow> (k, f) \<in> set kfs \<Longrightarrow>
     placed wg c (e k) k f rs (fst (fold (put_rule wg c e) kfs (rs, n)))"
proof (induction kfs arbitrary: rs n)
  case (Cons kf kfs)
  obtain k' f' where kf: "kf = (k', f')" by (cases kf)
  obtain rs' n' where rs': "put_rule wg c e (k', f') (rs, n) = (rs', n')" by (cases "put_rule wg c e (k', f') (rs, n)")
  note at = rule_at_put [of wg c e k' f' rs n, unfolded rs' fst_conv]
  show ?case
  proof (cases "k = k'")
    case True
    with Cons.prems kf have "f = f'" by (auto simp: rev_image_eqI)
    moreover have "rule_at wg (fst (fold (put_rule wg c e) kfs (rs', n'))) k = rule_at wg rs' k"
      using Cons.prems kf True by (intro put_rules_other) auto
    ultimately show ?thesis using at [of k] True kf rs' by (auto simp: placed_def split: option.splits)
  next
    case False
    with Cons.prems kf have "placed wg c (e k) k f rs' (fst (fold (put_rule wg c e) kfs (rs', n')))"
      by (intro Cons.IH) auto
    then show ?thesis using at [of k] False kf rs' by (simp add: placed_def)
  qed
qed simp

text \<open>The rules kept before the document's are put.\<close>

definition listed :: "nat \<Rightarrow> string set \<Rightarrow> 'f rule list \<Rightarrow> 'f rule list" where
  "listed wg ks rs = filter (\<lambda>r. \<not> (owned_by wg r \<and> (case ru_wire_key r of None \<Rightarrow> True | Some k \<Rightarrow> k \<notin> ks))) rs"

lemma bring_in_line_listed:
  "bring_in_line wg c e kfs (rs, n) = fold (put_rule wg c e) kfs (listed wg (fst ` set kfs) rs, n)"
  by (simp add: bring_in_line_def listed_def)

lemma rule_at_listed: "k \<in> ks \<Longrightarrow> rule_at wg (listed wg ks rs) k = rule_at wg rs k"
  by (auto simp: rule_at_def listed_def find_through_filter named_rule_def owned_by_def intro!: arg_cong [where f = "\<lambda>P. find P rs"])

lemma bring_in_line_placed:
  assumes "distinct (map fst kfs)" and "(k, f) \<in> set kfs"
  shows "placed wg c (e k) k f rs (fst (bring_in_line wg c e kfs (rs, n)))"
proof -
  from assms(2) have "k \<in> fst ` set kfs" by force
  then show ?thesis
    using put_rules_placed [OF assms, of wg c e "listed wg (fst ` set kfs) rs" n]
    by (simp add: bring_in_line_listed placed_def rule_at_listed)
qed

text \<open>
  The same, leaving open whose the rule is: the wiregram's document says nothing of a rule's caller.
\<close>

definition in_line :: "nat \<Rightarrow> nat \<Rightarrow> bool \<Rightarrow> string \<Rightarrow> 'f \<Rightarrow> 'f rule list \<Rightarrow> 'f rule list \<Rightarrow> bool" where
  "in_line wg caller enabled k f rs rs' \<longleftrightarrow>
     (case rule_at wg rs k of
        Some r \<Rightarrow> (\<exists>c. rule_at wg rs' k = Some (r\<lparr>ru_caller := c, ru_fields := f\<rparr>))
      | None \<Rightarrow> (\<exists>pk. rule_at wg rs' k =
          Some \<lparr>ru_pk = pk, ru_caller = caller, ru_enabled = enabled, ru_wiregram = Some wg, ru_wire_key = Some k, ru_fields = f\<rparr>))"

lemma placed_in_line: "placed wg caller enabled k f rs rs' \<Longrightarrow> in_line wg caller enabled k f rs rs'"
proof (cases "rule_at wg rs k")
  case (Some r)
  moreover have "r\<lparr>ru_caller := ru_caller r, ru_fields := f\<rparr> = r\<lparr>ru_fields := f\<rparr>" by (cases r) simp
  moreover assume "placed wg caller enabled k f rs rs'"
  ultimately show ?thesis unfolding in_line_def placed_def by (metis option.case(2))
qed (simp add: in_line_def placed_def)

section \<open>The rows that stay\<close>

lemma put_rules_rows:
  assumes "list_all P rs"
    and "\<And>r k f. P r \<Longrightarrow> (k, f) \<in> set kfs \<Longrightarrow> named_rule wg k r \<Longrightarrow> P (r\<lparr>ru_fields := f\<rparr>)"
    and "\<And>m k f. (k, f) \<in> set kfs \<Longrightarrow> P \<lparr>ru_pk = m, ru_caller = c, ru_enabled = e k, ru_wiregram = Some wg, ru_wire_key = Some k, ru_fields = f\<rparr>"
  shows "list_all P (fst (fold (put_rule wg c e) kfs (rs, n)))"
  using assms
proof (induction kfs arbitrary: rs n)
  case (Cons kf kfs)
  obtain k f where kf: "kf = (k, f)" by (cases kf)
  obtain rs' n' where rs': "put_rule wg c e (k, f) (rs, n) = (rs', n')" by (cases "put_rule wg c e (k, f) (rs, n)")
  have "list_all P (map (\<lambda>r. if named_rule wg k r then r\<lparr>ru_fields := f\<rparr> else r) rs)"
    using Cons.prems(1) Cons.prems(2) [of _ k f] kf by (auto simp: list_all_iff)
  moreover have "P \<lparr>ru_pk = n, ru_caller = c, ru_enabled = e k, ru_wiregram = Some wg, ru_wire_key = Some k, ru_fields = f\<rparr>"
    using Cons.prems(3) kf by simp
  ultimately have "list_all P rs'" using rs' Cons.prems(1) by (auto simp: put_rule_def split: if_splits)
  then have "list_all P (fst (fold (put_rule wg c e) kfs (rs', n')))"
    by (rule Cons.IH) (auto intro: Cons.prems(2,3))
  then show ?case by (simp add: kf rs')
qed simp

lemma put_rules_others:
  "filter (\<lambda>r. \<not> owned_by wg r) (fst (fold (put_rule wg c e) kfs (rs, n))) = filter (\<lambda>r. \<not> owned_by wg r) rs"
proof (induction kfs arbitrary: rs n)
  case (Cons kf kfs)
  obtain k f where kf: "kf = (k, f)" by (cases kf)
  obtain rs' n' where rs': "put_rule wg c e (k, f) (rs, n) = (rs', n')" by (cases "put_rule wg c e (k, f) (rs, n)")
  have "filter (\<lambda>r. \<not> owned_by wg r) (map (\<lambda>r. if named_rule wg k r then r\<lparr>ru_fields := f\<rparr> else r) xs) =
        filter (\<lambda>r. \<not> owned_by wg r) xs" for xs
    by (induction xs) (auto simp: named_rule_def owned_by_def)
  then have "filter (\<lambda>r. \<not> owned_by wg r) rs' = filter (\<lambda>r. \<not> owned_by wg r) rs"
    using rs' by (auto simp: put_rule_def owned_by_def split: if_splits)
  with Cons kf rs' show ?case by simp
qed simp

lemma bring_in_line_others:
  "filter (\<lambda>r. \<not> owned_by wg r) (fst (bring_in_line wg c e kfs (rs, n))) = filter (\<lambda>r. \<not> owned_by wg r) rs"
  by (simp add: bring_in_line_listed put_rules_others listed_def filter_filter) (metis (mono_tags, lifting))

lemma bring_in_line_keys:
  "list_all (\<lambda>r. owned_by wg r \<longrightarrow> ru_wire_key r \<in> Some ` fst ` set kfs) (fst (bring_in_line wg c e kfs (rs, n)))"
  unfolding bring_in_line_listed
  by (rule put_rules_rows) (force simp: listed_def list_all_iff split: option.splits)+

section \<open>Tables that are kept\<close>

text \<open>
  Primary keys are unique and below the next one, a wiregram's keys are unique, an owned rule has a key
  and its wiregram exists, and every row's fields are sound.
\<close>

definition rows_kept :: "nat list \<Rightarrow> nat \<Rightarrow> ('f \<Rightarrow> bool) \<Rightarrow> 'f rule list \<Rightarrow> bool" where
  "rows_kept wgs n sound rs \<longleftrightarrow>
     distinct (map ru_pk rs) \<and>
     distinct (map (\<lambda>r. (ru_wiregram r, ru_wire_key r)) (filter (\<lambda>r. ru_wiregram r \<noteq> None) rs)) \<and>
     list_all (\<lambda>r. ru_pk r < n \<and> sound (ru_fields r) \<and>
       (case ru_wiregram r of None \<Rightarrow> True | Some wg \<Rightarrow> wg \<in> set wgs \<and> ru_wire_key r \<noteq> None)) rs"

lemma rows_kept_filter: "rows_kept wgs n sound rs \<Longrightarrow> rows_kept wgs n sound (filter Q rs)"
  unfolding rows_kept_def
  using distinct_map_filter [of "\<lambda>r. (ru_wiregram r, ru_wire_key r)" "filter (\<lambda>r. ru_wiregram r \<noteq> None) rs" Q]
  by (simp add: list_all_iff distinct_map_filter filter_filter conj_commute)

lemma rows_kept_mono:
  "rows_kept wgs n sound rs \<Longrightarrow> set wgs \<subseteq> set wgs' \<Longrightarrow> n \<le> n' \<Longrightarrow> rows_kept wgs' n' sound rs"
  unfolding rows_kept_def by (fastforce simp: list_all_iff split: option.splits)

lemma rows_kept_update:
  assumes "rows_kept wgs n sound rs"
    and "\<And>r. r \<in> set rs \<Longrightarrow> ru_pk (g r) = ru_pk r \<and> ru_wiregram (g r) = ru_wiregram r \<and> ru_wire_key (g r) = ru_wire_key r \<and>
      (sound (ru_fields r) \<longrightarrow> sound (ru_fields (g r)))"
  shows "rows_kept wgs n sound (map g rs)"
proof -
  have pks: "map (\<lambda>r. ru_pk (g r)) rs = map ru_pk rs" using assms(2) by simp
  have owned: "filter (\<lambda>r. \<exists>y. ru_wiregram (g r) = Some y) rs = filter (\<lambda>r. \<exists>y. ru_wiregram r = Some y) rs"
    using assms(2) by (intro filter_cong) simp_all
  have keys: "map (\<lambda>r. (ru_wiregram (g r), ru_wire_key (g r))) (filter Q rs) = map (\<lambda>r. (ru_wiregram r, ru_wire_key r)) (filter Q rs)" for Q
    using assms(2) by simp
  show ?thesis
    using assms unfolding rows_kept_def
    by (simp add: list_all_iff filter_map o_def pks owned keys split: option.splits)
qed

lemma rows_kept_add:
  assumes "rows_kept wgs n sound rs" and "sound f" and "wo = None \<or> (\<exists>wg k. wo = Some wg \<and> ko = Some k \<and> wg \<in> set wgs \<and> \<not> list_ex (named_rule wg k) rs)"
  shows "rows_kept wgs (Suc n) sound (rs @ [\<lparr>ru_pk = n, ru_caller = c, ru_enabled = e, ru_wiregram = wo, ru_wire_key = ko, ru_fields = f\<rparr>])"
proof -
  have "n \<notin> ru_pk ` set rs" using assms(1) by (auto simp: rows_kept_def list_all_iff)
  then show ?thesis
    using assms unfolding rows_kept_def
    by (auto simp: list_all_iff list_ex_iff named_rule_def less_Suc_eq split: option.splits)
qed

lemma put_rules_kept:
  assumes "rows_kept wgs n sound rs" and "wg \<in> set wgs" and "list_all (\<lambda>(k, f). sound f) kfs"
    and "fold (put_rule wg c e) kfs (rs, n) = (rs', n')"
  shows "rows_kept wgs n' sound rs' \<and> n \<le> n'"
  using assms
proof (induction kfs arbitrary: rs n)
  case (Cons kf kfs)
  obtain k f where kf: "kf = (k, f)" by (cases kf)
  obtain qs m where qs: "put_rule wg c e (k, f) (rs, n) = (qs, m)" by (cases "put_rule wg c e (k, f) (rs, n)")
  have "rows_kept wgs m sound qs \<and> n \<le> m"
  proof (cases "list_ex (named_rule wg k) rs")
    case True
    with qs Cons.prems kf show ?thesis
      by (auto simp: put_rule_def intro!: rows_kept_update)
  next
    case False
    with qs Cons.prems kf show ?thesis
      by (auto simp: put_rule_def intro!: rows_kept_add)
  qed
  with Cons.IH [of m qs] Cons.prems kf qs show ?case by auto
qed auto

lemma bring_in_line_kept:
  assumes "rows_kept wgs n sound rs" and "wg \<in> set wgs" and "list_all (\<lambda>(k, f). sound f) kfs"
    and "bring_in_line wg c e kfs (rs, n) = (rs', n')"
  shows "rows_kept wgs n' sound rs'" and "n \<le> n'"
  using put_rules_kept [OF rows_kept_filter [OF assms(1)] assms(2,3)] assms(4)
  by (auto simp: bring_in_line_def)

section \<open>What a document asks for\<close>

text \<open>Every rule of the document is answered by its fields, in the document's order, when none has a problem.\<close>

lemma collect_Inr:
  "collect key label wanted rs (fs, problems) = Inr (fs', []) \<longleftrightarrow>
     problems = [] \<and> (\<exists>gs. list_all2 (\<lambda>r (k, f). k = key r \<and> wanted r = Inr f) rs gs \<and> fs' = fs @ gs)"
proof (induction rs arbitrary: fs fs' problems)
  case Nil
  then show ?case by (auto simp: collect_def)
next
  case (Cons r rs)
  have grows: "collect key label wanted rs (gs, p # ps) \<noteq> Inr (gs', [])" for gs gs' p ps
    using Cons.IH [of gs "p # ps" gs'] by simp
  show ?case
  proof (cases "wanted r")
    case (Inl e)
    then have "collect key label wanted (r # rs) (fs, problems) \<noteq> Inr (fs', [])"
      using Cons by (auto simp: collect_def)
    with Inl show ?thesis by (auto simp: list_all2_Cons1)
  next
    case (Inr f)
    then have "collect key label wanted (r # rs) (fs, problems) = collect key label wanted rs (fs @ [(key r, f)], problems)"
      by (simp add: collect_def)
    with Inr Cons show ?thesis by (auto simp: list_all2_Cons1)
  qed
qed

definition answers :: "('r \<Rightarrow> string) \<Rightarrow> ('r \<Rightarrow> 'f result) \<Rightarrow> 'r list \<Rightarrow> (string \<times> 'f) list \<Rightarrow> bool" where
  "answers key wanted = list_all2 (\<lambda>r (k, f). k = key r \<and> wanted r = Inr f)"

lemma answers_keys: "answers key wanted rs gs \<Longrightarrow> map fst gs = map key rs"
  unfolding answers_def by (induction rule: list_all2_induct) auto

lemma answers_given: "answers key wanted rs gs \<Longrightarrow> r \<in> set rs \<Longrightarrow> \<exists>f. wanted r = Inr f \<and> (key r, f) \<in> set gs"
  unfolding answers_def by (induction rule: list_all2_induct) auto

lemma answers_fields: "answers key wanted rs gs \<Longrightarrow> (k, f) \<in> set gs \<Longrightarrow> \<exists>r \<in> set rs. key r = k \<and> wanted r = Inr f"
  unfolding answers_def by (induction rule: list_all2_induct) auto

lemma wanted_rules_Inr:
  "wanted_rules w db d = Inr (ss, ts) \<longleftrightarrow>
     answers ws_key (schedule_wanted w db) (wd_schedules d) ss \<and> answers wt_key (trigger_wanted w db) (wd_triggers d) ts"
proof -
  have "wanted_rules w db d = Inr (ss, ts) \<longleftrightarrow>
        (\<exists>problems. collect ws_key schedule_label (schedule_wanted w db) (wd_schedules d) ([], []) = Inr (ss, problems) \<and>
           collect wt_key trigger_label (trigger_wanted w db) (wd_triggers d) ([], problems) = Inr (ts, []))"
    by (auto simp: wanted_rules_def and_then_Inr split: if_splits)
  then show ?thesis by (auto simp: collect_Inr answers_def)
qed

lemma check_document_keys:
  "check_document d = Inr u \<Longrightarrow> distinct (map ws_key (wd_schedules d)) \<and> distinct (map wt_key (wd_triggers d))"
  by (auto simp: check_document_def unique_keys_def result_iff)

lemma enabled_in_key:
  "distinct (map key rs) \<Longrightarrow> r \<in> set rs \<Longrightarrow> enabled_in (map (\<lambda>r. (key r, e r)) rs) (key r) = e r"
  unfolding enabled_in_def by (induction rs) (auto simp: rev_image_eqI)

end
