(* ===== verification/Wiregram_Facts.thy ===== *)
theory Wiregram_Facts
  imports Rule_Facts
begin

text \<open>
  An import in one equation: the wiregram's row, the two tables brought in line, and the notices, in the
  order they are sent. From it follow what a document's rules become and that the tables stay kept.
\<close>

section \<open>The notices of a loop\<close>

definition drop_notices :: "automation \<Rightarrow> 'f rule list \<Rightarrow> notice list" where
  "drop_notices db rs = concat (map (\<lambda>r. case au_waiting db (ru_pk r) of None \<Rightarrow> [] | Some run \<Rightarrow> [Drop_Run run]) rs)"

lemma drop_waiting_run_notices:
  "drop_waiting_run (ru_pk r) db = db\<lparr>au_notices := au_notices db @ drop_notices db [r]\<rparr>"
  by (cases "au_waiting db (ru_pk r)") (simp_all add: drop_waiting_run_def notify_def drop_notices_def)

lemma fold_drop_waiting_runs:
  "fold (\<lambda>r. if Q r then drop_waiting_run (ru_pk r) else id) rs db =
     db\<lparr>au_notices := au_notices db @ drop_notices db (filter Q rs)\<rparr>"
proof (induction rs arbitrary: db)
  case (Cons r rs)
  have "drop_notices (db\<lparr>au_notices := ns\<rparr>) qs = drop_notices db qs" for ns and qs :: "'a rule list"
    by (simp add: drop_notices_def)
  with Cons show ?case by (simp add: drop_waiting_run_notices) (simp add: drop_notices_def)
qed (simp add: drop_notices_def)

lemma fold_notify: "fold (\<lambda>r. notify (g r)) rs db = db\<lparr>au_notices := au_notices db @ map g rs\<rparr>"
  by (induction rs arbitrary: db) (simp_all add: notify_def)

section \<open>The wiregram's row\<close>

lemma put_wiregram_shape:
  assumes "put_wiregram c d db = (wg, db2)"
  shows "\<exists>gs n. db2 = db\<lparr>au_wiregrams := gs, au_next := n\<rparr> \<and> au_next db \<le> n \<and> wg \<in> wg_pk ` set gs \<and>
       map wg_pk gs = map wg_pk (au_wiregrams db) @ (if n = au_next db then [] else [au_next db]) \<and> (n = au_next db \<or> n = Suc (au_next db)) \<and>
       map wg_key gs = map wg_key (au_wiregrams db) @ (if n = au_next db then [] else [wd_key d]) \<and>
       (n \<noteq> au_next db \<longrightarrow> wd_key d \<notin> wg_key ` set (au_wiregrams db))"
proof (cases "find (\<lambda>g. wg_key g = wd_key d) (au_wiregrams db)")
  case None
  let ?gs = "au_wiregrams db @ [\<lparr>wg_pk = au_next db, wg_key = wd_key d, wg_caller = c, wg_name = wd_name d, wg_description = wd_description d, wg_document = settled d\<rparr>]"
  from None assms have "wg = au_next db" "db2 = db\<lparr>au_wiregrams := ?gs, au_next := Suc (au_next db)\<rparr>"
    unfolding put_wiregram_def by auto
  moreover from None have "wd_key d \<notin> wg_key ` set (au_wiregrams db)" by (auto simp: find_None_iff)
  ultimately show ?thesis
    by (intro exI [of _ ?gs] exI [of _ "Suc (au_next db)"]) simp
next
  case (Some g)
  let ?gs = "map (\<lambda>h. if wg_key h = wd_key d then h\<lparr>wg_caller := c, wg_name := wd_name d, wg_description := wd_description d, wg_document := settled d\<rparr> else h) (au_wiregrams db)"
  from Some assms have rows: "wg = wg_pk g" "db2 = db\<lparr>au_wiregrams := ?gs\<rparr>"
    unfolding put_wiregram_def by auto
  have next_kept: "db\<lparr>au_wiregrams := ?gs\<rparr> = db\<lparr>au_wiregrams := ?gs, au_next := au_next db\<rparr>"
    by (cases db) simp
  from Some have "g \<in> set (au_wiregrams db)" by (auto simp: find_Some_iff)
  then have "wg_pk g \<in> set (map wg_pk (au_wiregrams db))" by simp
  moreover have pks: "map wg_pk ?gs = map wg_pk (au_wiregrams db)" by simp
  ultimately have "wg_pk g \<in> set (map wg_pk ?gs)" by (simp only: pks)
  then have "wg_pk g \<in> wg_pk ` set ?gs" by (simp only: set_map)
  moreover have "map wg_key ?gs = map wg_key (au_wiregrams db)" by simp_all
  ultimately show ?thesis
    using rows next_kept pks by (intro exI [of _ ?gs] exI [of _ "au_next db"]) (simp del: map_map)
qed

lemma put_wiregram_rows:
  assumes "put_wiregram c d db = (wg, db\<lparr>au_wiregrams := gs, au_next := n\<rparr>)"
  shows "au_next db \<le> n" and "wg \<in> set (map wg_pk gs)"
    and "map wg_pk gs = map wg_pk (au_wiregrams db) @ (if n = au_next db then [] else [au_next db])"
    and "map wg_key gs = map wg_key (au_wiregrams db) @ (if n = au_next db then [] else [wd_key d])"
    and "n \<noteq> au_next db \<Longrightarrow> wd_key d \<notin> wg_key ` set (au_wiregrams db)"
proof -
  obtain gs' n' where eq: "db\<lparr>au_wiregrams := gs, au_next := n\<rparr> = db\<lparr>au_wiregrams := gs', au_next := n'\<rparr>"
      and shape: "au_next db \<le> n'" and mem: "wg \<in> wg_pk ` set gs'" and rest:
        "map wg_pk gs' = map wg_pk (au_wiregrams db) @ (if n' = au_next db then [] else [au_next db])"
        "map wg_key gs' = map wg_key (au_wiregrams db) @ (if n' = au_next db then [] else [wd_key d])"
        "n' \<noteq> au_next db \<longrightarrow> wd_key d \<notin> wg_key ` set (au_wiregrams db)"
    using put_wiregram_shape [OF assms] by blast
  have "gs' = gs" "n' = n" using arg_cong [OF eq, of au_wiregrams] arg_cong [OF eq, of au_next] by simp_all
  with mem show "wg \<in> set (map wg_pk gs)" by (simp only: set_map)
  from \<open>gs' = gs\<close> \<open>n' = n\<close> shape rest show "au_next db \<le> n"
    "map wg_pk gs = map wg_pk (au_wiregrams db) @ (if n = au_next db then [] else [au_next db])"
    "map wg_key gs = map wg_key (au_wiregrams db) @ (if n = au_next db then [] else [wd_key d])"
    "n \<noteq> au_next db \<Longrightarrow> wd_key d \<notin> wg_key ` set (au_wiregrams db)" by simp_all
qed

lemma put_wiregram_notices:
  "put_wiregram c d (db\<lparr>au_notices := ns\<rparr>) = (case put_wiregram c d db of (wg, db2) \<Rightarrow> (wg, db2\<lparr>au_notices := ns\<rparr>))"
  by (auto simp: put_wiregram_def split: option.splits)

lemma put_wiregram_caller:
  assumes "put_wiregram c d db = (wg, db\<lparr>au_wiregrams := gs, au_next := n\<rparr>)"
  shows "\<exists>g \<in> set gs. wg_pk g = wg \<and> wg_caller g = c"
proof -
  have rows: "gs = au_wiregrams (snd (put_wiregram c d db))" using assms by simp
  show ?thesis
  proof (cases "find (\<lambda>g. wg_key g = wd_key d) (au_wiregrams db)")
    case None
    with assms rows show ?thesis by (auto simp: put_wiregram_def)
  next
    case (Some g)
    then have "g \<in> set (au_wiregrams db)" "wg_key g = wd_key d" by (auto simp: find_Some_iff)
    moreover have "wg = wg_pk g" using assms Some by (simp add: put_wiregram_def)
    moreover have "gs = map (\<lambda>h. if wg_key h = wd_key d
        then h\<lparr>wg_caller := c, wg_name := wd_name d, wg_description := wd_description d, wg_document := settled d\<rparr> else h) (au_wiregrams db)"
      using rows Some by (simp add: put_wiregram_def)
    ultimately have "g\<lparr>wg_caller := c, wg_name := wd_name d, wg_description := wd_description d, wg_document := settled d\<rparr> \<in> set gs"
      by (simp add: rev_image_eqI)
    then show ?thesis by (rule bexI [rotated]) (simp add: \<open>wg = wg_pk g\<close>)
  qed
qed

section \<open>The world a document is checked in\<close>

text \<open>What a rule's fields are depends on the agents, their implementations, the actions' ports and the declared signals.\<close>

definition same_offers :: "automation \<Rightarrow> automation \<Rightarrow> bool" where
  "same_offers db db' \<longleftrightarrow>
     au_agents db' = au_agents db \<and> au_implementations db' = au_implementations db \<and> au_args db' = au_args db \<and> au_signals db' = au_signals db"

section \<open>An import\<close>

lemma import_eq:
  assumes "check_document d = Inr ()"
    and "answers ws_key (schedule_wanted w db) (wd_schedules d) ss"
    and "answers wt_key (trigger_wanted w db) (wd_triggers d) ts"
    and "put_wiregram c d db = (wg, db\<lparr>au_wiregrams := gs, au_next := n\<rparr>)"
    and "bring_in_line wg c (enabled_in (map (\<lambda>s. (ws_key s, ws_enabled s)) (wd_schedules d))) ss (au_schedules db, n) = (scheds, n1)"
    and "bring_in_line wg c (enabled_in (map (\<lambda>t. (wt_key t, wt_enabled t)) (wd_triggers d))) ts (au_triggers db, n1) = (trigs, n2)"
  shows "import_wiregram w c d db = (Inr wg, db\<lparr>au_wiregrams := gs, au_schedules := scheds, au_triggers := trigs, au_next := n2,
      au_notices := au_notices db @ drop_notices db (filter (goes ss) (owned_schedules d db)) @
        map (plan_notice (replanned_keys ss (owned_schedules d db))) (filter (owned_by wg) scheds)\<rparr>)"
proof -
  have "wanted_rules w db d = Inr (ss, ts)" using assms by (simp add: wanted_rules_Inr)
  with assms show ?thesis
    by (simp add: import_wiregram_def Let_def fold_drop_waiting_runs put_wiregram_notices fold_notify)
qed

lemma import_Inr:
  assumes "import_wiregram w c d db = (Inr wg, db')"
  shows "\<exists>ss ts gs n scheds n1 trigs n2.
    check_document d = Inr () \<and>
    answers ws_key (schedule_wanted w db) (wd_schedules d) ss \<and>
    answers wt_key (trigger_wanted w db) (wd_triggers d) ts \<and>
    put_wiregram c d db = (wg, db\<lparr>au_wiregrams := gs, au_next := n\<rparr>) \<and>
    bring_in_line wg c (enabled_in (map (\<lambda>s. (ws_key s, ws_enabled s)) (wd_schedules d))) ss (au_schedules db, n) = (scheds, n1) \<and>
    bring_in_line wg c (enabled_in (map (\<lambda>t. (wt_key t, wt_enabled t)) (wd_triggers d))) ts (au_triggers db, n1) = (trigs, n2) \<and>
    db' = db\<lparr>au_wiregrams := gs, au_schedules := scheds, au_triggers := trigs, au_next := n2,
      au_notices := au_notices db @ drop_notices db (filter (goes ss) (owned_schedules d db)) @
        map (plan_notice (replanned_keys ss (owned_schedules d db))) (filter (owned_by wg) scheds)\<rparr>"
proof -
  from assms obtain ss ts where ok: "check_document d = Inr ()" "wanted_rules w db d = Inr (ss, ts)"
    by (auto simp: import_wiregram_def and_then_Inr split: sum.splits prod.splits)
  obtain db2 wg' where "put_wiregram c d db = (wg', db2)" by (cases "put_wiregram c d db")
  then obtain gs n where gs: "put_wiregram c d db = (wg', db\<lparr>au_wiregrams := gs, au_next := n\<rparr>)"
    using put_wiregram_shape by blast
  obtain scheds n1 where sc: "bring_in_line wg' c (enabled_in (map (\<lambda>s. (ws_key s, ws_enabled s)) (wd_schedules d))) ss (au_schedules db, n) = (scheds, n1)"
    by fastforce
  obtain trigs n2 where tr: "bring_in_line wg' c (enabled_in (map (\<lambda>t. (wt_key t, wt_enabled t)) (wd_triggers d))) ts (au_triggers db, n1) = (trigs, n2)"
    by fastforce
  from ok(2) have an: "answers ws_key (schedule_wanted w db) (wd_schedules d) ss" "answers wt_key (trigger_wanted w db) (wd_triggers d) ts"
    by (simp_all add: wanted_rules_Inr)
  note import_eq [OF ok(1) an gs sc tr]
  with assms have eq: "wg' = wg"
    "db' = db\<lparr>au_wiregrams := gs, au_schedules := scheds, au_triggers := trigs, au_next := n2,
      au_notices := au_notices db @ drop_notices db (filter (goes ss) (owned_schedules d db)) @
        map (plan_notice (replanned_keys ss (owned_schedules d db))) (filter (owned_by wg') scheds)\<rparr>"
    by auto
  show ?thesis
  proof (intro exI conjI)
    show "check_document d = Inr ()" by (rule ok)
    show "answers ws_key (schedule_wanted w db) (wd_schedules d) ss" "answers wt_key (trigger_wanted w db) (wd_triggers d) ts"
      by (rule an)+
  qed (use gs sc tr eq in simp_all)
qed

lemma import_rows:
  assumes "import_wiregram w c d db = (Inr wg, db')"
  shows "\<exists>ss ts gs n scheds n1 trigs n2.
    check_document d = Inr () \<and>
    answers ws_key (schedule_wanted w db) (wd_schedules d) ss \<and>
    answers wt_key (trigger_wanted w db) (wd_triggers d) ts \<and>
    put_wiregram c d db = (wg, db\<lparr>au_wiregrams := gs, au_next := n\<rparr>) \<and>
    bring_in_line wg c (enabled_in (map (\<lambda>s. (ws_key s, ws_enabled s)) (wd_schedules d))) ss (au_schedules db, n) = (scheds, n1) \<and>
    bring_in_line wg c (enabled_in (map (\<lambda>t. (wt_key t, wt_enabled t)) (wd_triggers d))) ts (au_triggers db, n1) = (trigs, n2) \<and>
    au_wiregrams db' = gs \<and> au_schedules db' = scheds \<and> au_triggers db' = trigs \<and> au_next db' = n2 \<and>
    au_notices db' = au_notices db @ drop_notices db (filter (goes ss) (owned_schedules d db)) @
        map (plan_notice (replanned_keys ss (owned_schedules d db))) (filter (owned_by wg) scheds) \<and>
    same_offers db db'"
proof -
  obtain ss ts gs n scheds n1 trigs n2 where ok: "check_document d = Inr ()"
      and an: "answers ws_key (schedule_wanted w db) (wd_schedules d) ss" "answers wt_key (trigger_wanted w db) (wd_triggers d) ts"
      and put: "put_wiregram c d db = (wg, db\<lparr>au_wiregrams := gs, au_next := n\<rparr>)"
      and sc: "bring_in_line wg c (enabled_in (map (\<lambda>s. (ws_key s, ws_enabled s)) (wd_schedules d))) ss (au_schedules db, n) = (scheds, n1)"
      and tr: "bring_in_line wg c (enabled_in (map (\<lambda>t. (wt_key t, wt_enabled t)) (wd_triggers d))) ts (au_triggers db, n1) = (trigs, n2)"
      and eq: "db' = db\<lparr>au_wiregrams := gs, au_schedules := scheds, au_triggers := trigs, au_next := n2,
        au_notices := au_notices db @ drop_notices db (filter (goes ss) (owned_schedules d db)) @
          map (plan_notice (replanned_keys ss (owned_schedules d db))) (filter (owned_by wg) scheds)\<rparr>"
    using import_Inr [OF assms] by (elim exE conjE) (rule that)
  have sel: "au_wiregrams db' = gs" "au_schedules db' = scheds" "au_triggers db' = trigs" "au_next db' = n2"
    "au_notices db' = au_notices db @ drop_notices db (filter (goes ss) (owned_schedules d db)) @
        map (plan_notice (replanned_keys ss (owned_schedules d db))) (filter (owned_by wg) scheds)"
    "same_offers db db'"
    by (simp_all add: eq same_offers_def)
  show ?thesis
    by (rule exI [of _ ss], rule exI [of _ ts], rule exI [of _ gs], rule exI [of _ n], rule exI [of _ scheds], rule exI [of _ n1],
      rule exI [of _ trigs], rule exI [of _ n2]) (intro conjI ok an put sc tr sel)
qed

lemma same_offers_wanted:
  assumes "same_offers db db'"
  shows "schedule_wanted w db' = schedule_wanted w db" and "trigger_wanted w db' = trigger_wanted w db"
proof -
  from assms have eqs: "au_agents db' = au_agents db" "au_implementations db' = au_implementations db"
      "au_args db' = au_args db" "au_signals db' = au_signals db"
    by (simp_all add: same_offers_def)
  show "schedule_wanted w db' = schedule_wanted w db"
    by (rule ext) (simp only: schedule_wanted_def rule_target_def validate_schedule_def check_pin_def check_provenance_def check_rule_args_def eqs)
  show "trigger_wanted w db' = trigger_wanted w db"
    by (rule ext) (simp only: trigger_wanted_def rule_target_def validate_trigger_def check_pin_def check_provenance_def check_rule_args_def
      check_target_port_def check_declared_def eqs)
qed

definition recalled :: "nat \<Rightarrow> string \<Rightarrow> wiregram_row \<Rightarrow> wiregram_row" where
  "recalled c k g = (if wg_key g = k then g\<lparr>wg_caller := c\<rparr> else g)"

lemma put_wiregram_again:
  assumes "put_wiregram c d db = (wg, db2)" and "au_wiregrams db' = au_wiregrams db2"
  shows "put_wiregram c' d db' = (wg, db'\<lparr>au_wiregrams := map (recalled c' (wd_key d)) (au_wiregrams db')\<rparr>)"
    and "owned_schedules d db' = filter (owned_by wg) (au_schedules db')"
proof -
  let ?set = "\<lambda>c h. if wg_key h = wd_key d then h\<lparr>wg_caller := c, wg_name := wd_name d, wg_description := wd_description d, wg_document := settled d\<rparr> else h"
  have "\<exists>g. find (\<lambda>g. wg_key g = wd_key d) (au_wiregrams db') = Some g \<and> wg_pk g = wg \<and>
      map (?set c') (au_wiregrams db') = map (recalled c' (wd_key d)) (au_wiregrams db')"
  proof (cases "find (\<lambda>g. wg_key g = wd_key d) (au_wiregrams db)")
    case None
    then have rows: "au_wiregrams db' = au_wiregrams db @
        [\<lparr>wg_pk = au_next db, wg_key = wd_key d, wg_caller = c, wg_name = wd_name d, wg_description = wd_description d, wg_document = settled d\<rparr>]"
        "wg = au_next db"
      using assms unfolding put_wiregram_def by auto
    from None have "wg_key g \<noteq> wd_key d" if "g \<in> set (au_wiregrams db)" for g using that by (auto simp: find_None_iff)
    then have "map (?set c') (au_wiregrams db) = map (recalled c' (wd_key d)) (au_wiregrams db)" by (simp add: recalled_def)
    with None rows show ?thesis by (simp add: find_in_append recalled_def)
  next
    case (Some g)
    then have rows: "au_wiregrams db' = map (?set c) (au_wiregrams db)" "wg = wg_pk g"
      using assms unfolding put_wiregram_def by auto
    have key: "wg_key (?set c h) = wg_key h" for h by simp
    from Some have "wg_key g = wd_key d" by (auto simp: find_Some_iff)
    moreover have "?set c' (?set c h) = recalled c' (wd_key d) (?set c h)" for h by (simp add: recalled_def)
    ultimately show ?thesis using Some
      by (intro exI [of _ "?set c g"]) (simp add: rows find_through_map key recalled_def)
  qed
  then obtain g where g: "find (\<lambda>g. wg_key g = wd_key d) (au_wiregrams db') = Some g" "wg_pk g = wg"
      "map (?set c') (au_wiregrams db') = map (recalled c' (wd_key d)) (au_wiregrams db')"
    by blast
  then show "put_wiregram c' d db' = (wg, db'\<lparr>au_wiregrams := map (recalled c' (wd_key d)) (au_wiregrams db')\<rparr>)" by (simp add: put_wiregram_def)
  from g show "owned_schedules d db' = filter (owned_by wg) (au_schedules db')"
    by (simp add: owned_schedules_def)
qed

section \<open>Bringing in line twice\<close>

lemma put_rules_fixed:
  "list_all (\<lambda>(k, f). list_ex (named_rule wg k) rs \<and> list_all (\<lambda>r. named_rule wg k r \<longrightarrow> ru_fields r = f) rs) kfs \<Longrightarrow>
     fold (put_rule wg c e) kfs (rs, n) = (rs, n)"
proof (induction kfs)
  case (Cons kf kfs)
  obtain k f where kf: "kf = (k, f)" by (cases kf)
  have "(if named_rule wg k r then r\<lparr>ru_fields := f\<rparr> else r) = r" if "r \<in> set rs" for r
    using Cons.prems kf that by (cases r) (auto simp: list_all_iff)
  then have "map (\<lambda>r. if named_rule wg k r then r\<lparr>ru_fields := f\<rparr> else r) rs = rs" by (rule map_idI)
  then have "put_rule wg c e kf (rs, n) = (rs, n)" using Cons.prems kf by (simp add: put_rule_def)
  with Cons show ?case by simp
qed simp

lemma rows_kept_unique:
  assumes "rows_kept wgs n sound rs" and "r \<in> set rs" "r' \<in> set rs" "named_rule wg k r" "named_rule wg k r'"
  shows "r = r'"
proof -
  have "inj_on (\<lambda>r. (ru_wiregram r, ru_wire_key r)) (set (filter (\<lambda>r. ru_wiregram r \<noteq> None) rs))"
    using assms(1) by (simp add: rows_kept_def distinct_map)
  moreover have "(ru_wiregram r, ru_wire_key r) = (ru_wiregram r', ru_wire_key r')" using assms(4,5) by (simp add: named_rule_def)
  ultimately show ?thesis by (rule inj_onD) (use assms in \<open>auto simp: named_rule_def\<close>)
qed

lemma rule_at_unique:
  "rows_kept wgs n sound rs \<Longrightarrow> r \<in> set rs \<Longrightarrow> named_rule wg k r \<Longrightarrow> rule_at wg rs k = Some r"
proof (cases "rule_at wg rs k")
  case (Some r')
  moreover assume "rows_kept wgs n sound rs" "r \<in> set rs" "named_rule wg k r"
  ultimately show ?thesis using rule_at_named [OF Some] rows_kept_unique [of wgs n sound rs r r' wg k] by simp
qed (auto simp: rule_at_None list_ex_iff)

lemma bring_in_line_again:
  assumes "bring_in_line wg c e kfs (rs, n) = (rs', n')" and "distinct (map fst kfs)" and "rows_kept wgs m sound rs'"
  shows "bring_in_line wg c' e' kfs (rs', n'') = (rs', n'')"
    and "list_all (\<lambda>r. owned_by wg r \<longrightarrow> (\<exists>k. ru_wire_key r = Some k \<and> map_of kfs k = Some (ru_fields r))) rs'"
proof -
  have keys: "list_all (\<lambda>r. owned_by wg r \<longrightarrow> ru_wire_key r \<in> Some ` fst ` set kfs) rs'"
    using bring_in_line_keys [of wg kfs c e rs n] assms(1) by simp
  have at: "\<exists>r. rule_at wg rs' k = Some r \<and> ru_fields r = f" if "(k, f) \<in> set kfs" for k f
    using bring_in_line_placed [OF assms(2) that, of wg c e rs n] assms(1)
    by (auto simp: placed_def split: option.splits)
  have fields: "ru_fields r = f" if "(k, f) \<in> set kfs" "r \<in> set rs'" "named_rule wg k r" for k f r
    using at [OF that(1)] rule_at_unique [OF assms(3) that(2,3)] by auto
  have "listed wg (fst ` set kfs) rs' = rs'"
    using keys unfolding listed_def by (intro filter_True) (force simp: list_all_iff split: option.splits)
  moreover have "list_all (\<lambda>(k, f). list_ex (named_rule wg k) rs' \<and> list_all (\<lambda>r. named_rule wg k r \<longrightarrow> ru_fields r = f) rs') kfs"
  proof (unfold list_all_iff [of _ kfs], clarify)
    fix k f assume kf: "(k, f) \<in> set kfs"
    obtain r where "rule_at wg rs' k = Some r" using at [OF kf] by blast
    then have "list_ex (named_rule wg k) rs'" using rule_at_None [of wg rs' k] by simp
    moreover have "list_all (\<lambda>r. named_rule wg k r \<longrightarrow> ru_fields r = f) rs'" using fields [OF kf] by (simp add: list_all_iff)
    ultimately show "list_ex (named_rule wg k) rs' \<and> list_all (\<lambda>r. named_rule wg k r \<longrightarrow> ru_fields r = f) rs'" ..
  qed
  ultimately show "bring_in_line wg c' e' kfs (rs', n'') = (rs', n'')"
    by (simp add: bring_in_line_listed put_rules_fixed)
  show "list_all (\<lambda>r. owned_by wg r \<longrightarrow> (\<exists>k. ru_wire_key r = Some k \<and> map_of kfs k = Some (ru_fields r))) rs'"
  proof (unfold list_all_iff, intro ballI impI)
    fix r assume r: "r \<in> set rs'" "owned_by wg r"
    then obtain k f where kf: "ru_wire_key r = Some k" "(k, f) \<in> set kfs" using keys by (fastforce simp: list_all_iff)
    with r have "ru_fields r = f" by (intro fields) (auto simp: named_rule_def owned_by_def)
    with kf assms(2) show "\<exists>k. ru_wire_key r = Some k \<and> map_of kfs k = Some (ru_fields r)" by auto
  qed
qed

end
