(* ===== verification/Change_Facts.thy ===== *)
theory Change_Facts
  imports Rule_Mutations
begin

text \<open>
  What a chain of field changes does to one field and to the list of changed names: a field has the value
  the patch gives when that differs, and its name is listed exactly then.
\<close>

definition keeps :: "('r \<Rightarrow> 'v) \<Rightarrow> string \<Rightarrow> ('r \<times> string list \<Rightarrow> 'r \<times> string list) \<Rightarrow> bool" where
  "keeps read nm g \<longleftrightarrow> (\<forall>s. read (fst (g s)) = read (fst s) \<and> (nm \<in> set (snd (g s))) = (nm \<in> set (snd s)))"

lemma change_by_keeps:
  "name \<noteq> nm \<Longrightarrow> (\<And>v r. read (store v r) = read r) \<Longrightarrow> keeps read nm (change_by same name x read' store)"
  by (auto simp: keeps_def change_by_def split: option.splits prod.splits)

lemma keeps_fold:
  "list_all (keeps read nm) gs \<Longrightarrow>
     read (fst (fold id gs s)) = read (fst s) \<and> (nm \<in> set (snd (fold id gs s))) = (nm \<in> set (snd s))"
  by (induction gs arbitrary: s) (auto simp: keeps_def)

definition patched :: "('v \<Rightarrow> 'v \<Rightarrow> bool) \<Rightarrow> 'v option \<Rightarrow> 'v \<Rightarrow> 'v" where
  "patched same x old = (case x of None \<Rightarrow> old | Some v \<Rightarrow> if same old v then old else v)"

definition differs :: "('v \<Rightarrow> 'v \<Rightarrow> bool) \<Rightarrow> 'v option \<Rightarrow> 'v \<Rightarrow> bool" where
  "differs same x old \<longleftrightarrow> (case x of None \<Rightarrow> False | Some v \<Rightarrow> \<not> same old v)"

lemma change_exact:
  assumes "fold id gs (r, []) = (r', changed)" and "i < length gs" and "gs ! i = change_by same nm x read store"
    and "list_all (keeps read nm) (take i gs)" and "list_all (keeps read nm) (drop (Suc i) gs)"
    and "\<And>v r. read (store v r) = v"
  shows "read r' = patched same x (read r)" and "nm \<in> set changed \<longleftrightarrow> differs same x (read r)"
proof -
  let ?s = "fold id (take i gs) (r, [])"
  have "gs = take i gs @ gs ! i # drop (Suc i) gs" using assms(2) by (simp add: id_take_nth_drop)
  then have "fold id gs (r, []) = fold id (drop (Suc i) gs) (change_by same nm x read store ?s)"
    using assms(3) by (metis comp_apply fold.simps(2) fold_append id_apply)
  then have last: "(r', changed) = fold id (drop (Suc i) gs) (change_by same nm x read store ?s)" using assms(1) by simp
  have "read r' = read (fst (change_by same nm x read store ?s))" "(nm \<in> set changed) = (nm \<in> set (snd (change_by same nm x read store ?s)))"
    using keeps_fold [OF assms(5), of "change_by same nm x read store ?s"] unfolding last [symmetric] by simp_all
  moreover have "read (fst ?s) = read r" "nm \<notin> set (snd ?s)"
    using keeps_fold [OF assms(4), of "(r, [])"] by simp_all
  ultimately show "read r' = patched same x (read r)" "nm \<in> set changed \<longleftrightarrow> differs same x (read r)"
    using assms(6) by (auto simp: change_by_def patched_def differs_def split: option.splits prod.splits)
qed

lemma keeps_step_fst: "list_all (keeps read nm) gs \<Longrightarrow> fold id gs (r, []) = (r', changed) \<Longrightarrow> read r' = read r"
  using keeps_fold [of read nm gs "(r, [])"] by simp

section \<open>Schedules\<close>

lemma schedule_patch_rest:
  assumes "fold id (schedule_changes p) (r, []) = (r', changed)"
  shows "ru_pk r' = ru_pk r" "ru_caller r' = ru_caller r" "ru_wiregram r' = ru_wiregram r" "ru_wire_key r' = ru_wire_key r"
proof -
  have k: "list_all (keeps ru_pk ''-'') (schedule_changes p)" "list_all (keeps ru_caller ''-'') (schedule_changes p)"
    "list_all (keeps ru_wiregram ''-'') (schedule_changes p)" "list_all (keeps ru_wire_key ''-'') (schedule_changes p)"
    by (simp add: schedule_changes_def split del: if_split; intro conjI change_by_keeps; simp)+
  show "ru_pk r' = ru_pk r" by (rule keeps_step_fst [OF k(1) assms])
  show "ru_caller r' = ru_caller r" by (rule keeps_step_fst [OF k(2) assms])
  show "ru_wiregram r' = ru_wiregram r" by (rule keeps_step_fst [OF k(3) assms])
  show "ru_wire_key r' = ru_wire_key r" by (rule keeps_step_fst [OF k(4) assms])
qed

lemma schedule_patch_terms:
  assumes "fold id (schedule_changes p) (r, []) = (r', changed)"
  shows "sf_action (ru_fields r') = patched (=) (sp_action p) (sf_action (ru_fields r)) \<and> (''action'' \<in> set changed) = differs (=) (sp_action p) (sf_action (ru_fields r))"
    and "sf_agent (ru_fields r') = patched (=) (sp_agent p) (sf_agent (ru_fields r)) \<and> (''agent'' \<in> set changed) = differs (=) (sp_agent p) (sf_agent (ru_fields r))"
    and "sf_interface (ru_fields r') = patched (=) (sp_interface p) (sf_interface (ru_fields r)) \<and> (''interface'' \<in> set changed) = differs (=) (sp_interface p) (sf_interface (ru_fields r))"
    and "sf_ephemeral (ru_fields r') = patched (=) (sp_ephemeral p) (sf_ephemeral (ru_fields r)) \<and> (''ephemeral_runs'' \<in> set changed) = differs (=) (sp_ephemeral p) (sf_ephemeral (ru_fields r))"
    and "sf_args (ru_fields r') = patched same_args (sp_args p) (sf_args (ru_fields r)) \<and> (''args'' \<in> set changed) = differs same_args (sp_args p) (sf_args (ru_fields r))"
    and "sf_interval (ru_fields r') = patched (=) (if timed_patch p then Some (sp_interval p) else None) (sf_interval (ru_fields r)) \<and> (''interval_seconds'' \<in> set changed) = differs (=) (if timed_patch p then Some (sp_interval p) else None) (sf_interval (ru_fields r))"
    and "sf_cron (ru_fields r') = patched (=) (if timed_patch p then Some (sp_cron p) else None) (sf_cron (ru_fields r)) \<and> (''cron'' \<in> set changed) = differs (=) (if timed_patch p then Some (sp_cron p) else None) (sf_cron (ru_fields r))"
    and "sf_timezone (ru_fields r') = patched (=) (sp_timezone p) (sf_timezone (ru_fields r)) \<and> (''timezone'' \<in> set changed) = differs (=) (sp_timezone p) (sf_timezone (ru_fields r))"
    and "ru_enabled r' = patched (=) (sp_enabled p) (ru_enabled r) \<and> (''enabled'' \<in> set changed) = differs (=) (sp_enabled p) (ru_enabled r)"
    and "sf_ends_at (ru_fields r') = patched (=) (sp_ends_at p) (sf_ends_at (ru_fields r)) \<and> (''ends_at'' \<in> set changed) = differs (=) (sp_ends_at p) (sf_ends_at (ru_fields r))"
    and "sf_max_runs (ru_fields r') = patched (=) (sp_max_runs p) (sf_max_runs (ru_fields r)) \<and> (''max_runs'' \<in> set changed) = differs (=) (sp_max_runs p) (sf_max_runs (ru_fields r))"
    and "sf_policy (ru_fields r') = patched (=) (sp_policy p) (sf_policy (ru_fields r)) \<and> (''policy'' \<in> set changed) = differs (=) (sp_policy p) (sf_policy (ru_fields r))"
proof -
  show "sf_action (ru_fields r') = patched (=) (sp_action p) (sf_action (ru_fields r)) \<and> (''action'' \<in> set changed) = differs (=) (sp_action p) (sf_action (ru_fields r))"
    by (intro conjI; rule change_exact [OF assms, where i = "1" and read = "\<lambda>r. sf_action (ru_fields r)" and store = "\<lambda>v r. r\<lparr>ru_fields := ru_fields r\<lparr>sf_action := v\<rparr>\<rparr>"]; simp add: schedule_changes_def split del: if_split; intro conjI change_by_keeps; simp)
  show "sf_agent (ru_fields r') = patched (=) (sp_agent p) (sf_agent (ru_fields r)) \<and> (''agent'' \<in> set changed) = differs (=) (sp_agent p) (sf_agent (ru_fields r))"
    by (intro conjI; rule change_exact [OF assms, where i = "2" and read = "\<lambda>r. sf_agent (ru_fields r)" and store = "\<lambda>v r. r\<lparr>ru_fields := ru_fields r\<lparr>sf_agent := v\<rparr>\<rparr>"]; simp add: schedule_changes_def split del: if_split; intro conjI change_by_keeps; simp)
  show "sf_interface (ru_fields r') = patched (=) (sp_interface p) (sf_interface (ru_fields r)) \<and> (''interface'' \<in> set changed) = differs (=) (sp_interface p) (sf_interface (ru_fields r))"
    by (intro conjI; rule change_exact [OF assms, where i = "3" and read = "\<lambda>r. sf_interface (ru_fields r)" and store = "\<lambda>v r. r\<lparr>ru_fields := ru_fields r\<lparr>sf_interface := v\<rparr>\<rparr>"]; simp add: schedule_changes_def split del: if_split; intro conjI change_by_keeps; simp)
  show "sf_ephemeral (ru_fields r') = patched (=) (sp_ephemeral p) (sf_ephemeral (ru_fields r)) \<and> (''ephemeral_runs'' \<in> set changed) = differs (=) (sp_ephemeral p) (sf_ephemeral (ru_fields r))"
    by (intro conjI; rule change_exact [OF assms, where i = "4" and read = "\<lambda>r. sf_ephemeral (ru_fields r)" and store = "\<lambda>v r. r\<lparr>ru_fields := ru_fields r\<lparr>sf_ephemeral := v\<rparr>\<rparr>"]; simp add: schedule_changes_def split del: if_split; intro conjI change_by_keeps; simp)
  show "sf_args (ru_fields r') = patched same_args (sp_args p) (sf_args (ru_fields r)) \<and> (''args'' \<in> set changed) = differs same_args (sp_args p) (sf_args (ru_fields r))"
    by (intro conjI; rule change_exact [OF assms, where i = "5" and read = "\<lambda>r. sf_args (ru_fields r)" and store = "\<lambda>v r. r\<lparr>ru_fields := ru_fields r\<lparr>sf_args := v\<rparr>\<rparr>"]; simp add: schedule_changes_def split del: if_split; intro conjI change_by_keeps; simp)
  show "sf_interval (ru_fields r') = patched (=) (if timed_patch p then Some (sp_interval p) else None) (sf_interval (ru_fields r)) \<and> (''interval_seconds'' \<in> set changed) = differs (=) (if timed_patch p then Some (sp_interval p) else None) (sf_interval (ru_fields r))"
    by (intro conjI; rule change_exact [OF assms, where i = "6" and read = "\<lambda>r. sf_interval (ru_fields r)" and store = "\<lambda>v r. r\<lparr>ru_fields := ru_fields r\<lparr>sf_interval := v\<rparr>\<rparr>"]; simp add: schedule_changes_def split del: if_split; intro conjI change_by_keeps; simp)
  show "sf_cron (ru_fields r') = patched (=) (if timed_patch p then Some (sp_cron p) else None) (sf_cron (ru_fields r)) \<and> (''cron'' \<in> set changed) = differs (=) (if timed_patch p then Some (sp_cron p) else None) (sf_cron (ru_fields r))"
    by (intro conjI; rule change_exact [OF assms, where i = "7" and read = "\<lambda>r. sf_cron (ru_fields r)" and store = "\<lambda>v r. r\<lparr>ru_fields := ru_fields r\<lparr>sf_cron := v\<rparr>\<rparr>"]; simp add: schedule_changes_def split del: if_split; intro conjI change_by_keeps; simp)
  show "sf_timezone (ru_fields r') = patched (=) (sp_timezone p) (sf_timezone (ru_fields r)) \<and> (''timezone'' \<in> set changed) = differs (=) (sp_timezone p) (sf_timezone (ru_fields r))"
    by (intro conjI; rule change_exact [OF assms, where i = "8" and read = "\<lambda>r. sf_timezone (ru_fields r)" and store = "\<lambda>v r. r\<lparr>ru_fields := ru_fields r\<lparr>sf_timezone := v\<rparr>\<rparr>"]; simp add: schedule_changes_def split del: if_split; intro conjI change_by_keeps; simp)
  show "ru_enabled r' = patched (=) (sp_enabled p) (ru_enabled r) \<and> (''enabled'' \<in> set changed) = differs (=) (sp_enabled p) (ru_enabled r)"
    by (intro conjI; rule change_exact [OF assms, where i = "9" and read = ru_enabled and store = "\<lambda>v r. r\<lparr>ru_enabled := v\<rparr>"]; simp add: schedule_changes_def split del: if_split; intro conjI change_by_keeps; simp)
  show "sf_ends_at (ru_fields r') = patched (=) (sp_ends_at p) (sf_ends_at (ru_fields r)) \<and> (''ends_at'' \<in> set changed) = differs (=) (sp_ends_at p) (sf_ends_at (ru_fields r))"
    by (intro conjI; rule change_exact [OF assms, where i = "11" and read = "\<lambda>r. sf_ends_at (ru_fields r)" and store = "\<lambda>v r. r\<lparr>ru_fields := ru_fields r\<lparr>sf_ends_at := v\<rparr>\<rparr>"]; simp add: schedule_changes_def split del: if_split; intro conjI change_by_keeps; simp)
  show "sf_max_runs (ru_fields r') = patched (=) (sp_max_runs p) (sf_max_runs (ru_fields r)) \<and> (''max_runs'' \<in> set changed) = differs (=) (sp_max_runs p) (sf_max_runs (ru_fields r))"
    by (intro conjI; rule change_exact [OF assms, where i = "12" and read = "\<lambda>r. sf_max_runs (ru_fields r)" and store = "\<lambda>v r. r\<lparr>ru_fields := ru_fields r\<lparr>sf_max_runs := v\<rparr>\<rparr>"]; simp add: schedule_changes_def split del: if_split; intro conjI change_by_keeps; simp)
  show "sf_policy (ru_fields r') = patched (=) (sp_policy p) (sf_policy (ru_fields r)) \<and> (''policy'' \<in> set changed) = differs (=) (sp_policy p) (sf_policy (ru_fields r))"
    by (intro conjI; rule change_exact [OF assms, where i = "15" and read = "\<lambda>r. sf_policy (ru_fields r)" and store = "\<lambda>v r. r\<lparr>ru_fields := ru_fields r\<lparr>sf_policy := v\<rparr>\<rparr>"]; simp add: schedule_changes_def split del: if_split; intro conjI change_by_keeps; simp)
qed

section \<open>Triggers\<close>

lemma trigger_patch_rest:
  assumes "fold id (trigger_changes p) (r, []) = (r', changed)"
  shows "ru_pk r' = ru_pk r" "ru_caller r' = ru_caller r" "ru_wiregram r' = ru_wiregram r" "ru_wire_key r' = ru_wire_key r"
proof -
  have k: "list_all (keeps ru_pk ''-'') (trigger_changes p)" "list_all (keeps ru_caller ''-'') (trigger_changes p)"
    "list_all (keeps ru_wiregram ''-'') (trigger_changes p)" "list_all (keeps ru_wire_key ''-'') (trigger_changes p)"
    by (simp add: trigger_changes_def split del: if_split; intro conjI change_by_keeps; simp)+
  show "ru_pk r' = ru_pk r" by (rule keeps_step_fst [OF k(1) assms])
  show "ru_caller r' = ru_caller r" by (rule keeps_step_fst [OF k(2) assms])
  show "ru_wiregram r' = ru_wiregram r" by (rule keeps_step_fst [OF k(3) assms])
  show "ru_wire_key r' = ru_wire_key r" by (rule keeps_step_fst [OF k(4) assms])
qed

lemma trigger_patch_pin:
  assumes "fold id (trigger_changes p) (r, []) = (r', changed)"
  shows "tf_agent (ru_fields r') = patched (=) (tp_agent p) (tf_agent (ru_fields r)) \<and> (''agent'' \<in> set changed) = differs (=) (tp_agent p) (tf_agent (ru_fields r))"
    and "tf_interface (ru_fields r') = patched (=) (tp_interface p) (tf_interface (ru_fields r)) \<and> (''interface'' \<in> set changed) = differs (=) (tp_interface p) (tf_interface (ru_fields r))"
proof -
  show "tf_agent (ru_fields r') = patched (=) (tp_agent p) (tf_agent (ru_fields r)) \<and> (''agent'' \<in> set changed) = differs (=) (tp_agent p) (tf_agent (ru_fields r))"
    by (intro conjI; rule change_exact [OF assms, where i = "4" and read = "\<lambda>r. tf_agent (ru_fields r)" and store = "\<lambda>v r. r\<lparr>ru_fields := ru_fields r\<lparr>tf_agent := v\<rparr>\<rparr>"]; simp add: trigger_changes_def split del: if_split; intro conjI change_by_keeps; simp)
  show "tf_interface (ru_fields r') = patched (=) (tp_interface p) (tf_interface (ru_fields r)) \<and> (''interface'' \<in> set changed) = differs (=) (tp_interface p) (tf_interface (ru_fields r))"
    by (intro conjI; rule change_exact [OF assms, where i = "5" and read = "\<lambda>r. tf_interface (ru_fields r)" and store = "\<lambda>v r. r\<lparr>ru_fields := ru_fields r\<lparr>tf_interface := v\<rparr>\<rparr>"]; simp add: trigger_changes_def split del: if_split; intro conjI change_by_keeps; simp)
qed

lemma differs_patched: "\<not> differs (=) x old \<Longrightarrow> patched (=) x old = old"
  by (auto simp: differs_def patched_def split: option.splits)

lemma differs_iff: "differs (=) x old \<longleftrightarrow> patched (=) x old \<noteq> old"
  by (auto simp: differs_def patched_def split: option.splits)

section \<open>Which changes are told\<close>

definition lists_at_most :: "string set \<Rightarrow> ('r \<times> string list \<Rightarrow> 'r \<times> string list) \<Rightarrow> bool" where
  "lists_at_most N g \<longleftrightarrow> (\<forall>s. set (snd (g s)) \<subseteq> set (snd s) \<union> N)"

lemma change_by_lists: "name \<in> N \<Longrightarrow> lists_at_most N (change_by same name x read store)"
  by (auto simp: lists_at_most_def change_by_def split: option.splits prod.splits if_splits)

lemma lists_fold: "list_all (lists_at_most N) gs \<Longrightarrow> set (snd (fold id gs s)) \<subseteq> set (snd s) \<union> N"
proof (induction gs arbitrary: s)
  case (Cons g gs)
  then have "set (snd (fold id gs (g s))) \<subseteq> set (snd (g s)) \<union> N" by (intro Cons.IH) simp
  moreover have "set (snd (g s)) \<subseteq> set (snd s) \<union> N" using Cons.prems by (cases s) (simp add: lists_at_most_def)
  ultimately have "set (snd (fold id gs (g s))) \<subseteq> set (snd s) \<union> N" by blast
  then show ?case by (simp add: id_def)
qed simp

definition schedule_terms :: "string list" where
  "schedule_terms = [''action'', ''agent'', ''interface'', ''ephemeral_runs'', ''args'', ''interval_seconds'', ''cron'', ''timezone'',
     ''enabled'', ''ends_at'', ''max_runs'', ''policy'']"

lemma schedule_patch_told:
  assumes "fold id (schedule_changes p) (r, []) = (r', changed)"
  shows "list_ex (\<lambda>c. c \<notin> set [''name'', ''description'', ''overlap'', ''catch_up'']) changed \<longleftrightarrow> list_ex (\<lambda>c. c \<in> set changed) schedule_terms"
proof -
  have "list_all (lists_at_most (set ([''name'', ''description'', ''overlap'', ''catch_up''] @ schedule_terms))) (schedule_changes p)"
    by (simp add: schedule_changes_def split del: if_split; intro conjI change_by_lists; simp add: schedule_terms_def)
  from lists_fold [OF this, of "(r, [])"] have "set changed \<subseteq> set ([''name'', ''description'', ''overlap'', ''catch_up''] @ schedule_terms)"
    using assms by simp
  moreover have "c \<in> set schedule_terms \<Longrightarrow> c \<notin> set [''name'', ''description'', ''overlap'', ''catch_up'']" for c
    by (auto simp: schedule_terms_def)
  ultimately show ?thesis by (auto simp: list_ex_iff)
qed

lemma differs_args: "wf_json (JObj old) \<Longrightarrow> differs same_args x old \<longleftrightarrow> \<not> py_eq (JObj old) (JObj (patched same_args x old))"
  by (cases x) (simp_all add: differs_def patched_def same_args_def del: py_eq.simps wf_json.simps)

end
