(* ===== verification/Automation_Facts.thy ===== *)
theory Automation_Facts
  imports Wiregram_Facts Change_Facts
begin

text \<open>
  The invariant of the automation tables and that every mutation keeps it; what a change reports of the
  fields it changed.
\<close>

section \<open>Sound rows\<close>

definition at_least :: "int option \<Rightarrow> bool" where
  "at_least n \<longleftrightarrow> (case n of None \<Rightarrow> True | Some i \<Rightarrow> 1 \<le> i)"

text \<open>Exactly one timing, a whole pin or none, and a positive run limit.\<close>

definition schedule_sound :: "schedule_fields \<Rightarrow> bool" where
  "schedule_sound f \<longleftrightarrow> one_timing f \<and> (sf_agent f = None) = (sf_interface f = None) \<and> at_least (sf_max_runs f)"

definition trigger_sound :: "trigger_fields \<Rightarrow> bool" where
  "trigger_sound f \<longleftrightarrow> (tf_agent f = None) = (tf_interface f = None) \<and> at_least (tf_max_runs f) \<and> at_least (tf_debounce f)"

definition rules_kept :: "automation \<Rightarrow> bool" where
  "rules_kept db \<longleftrightarrow>
     rows_kept (map wg_pk (au_wiregrams db)) (au_next db) schedule_sound (au_schedules db) \<and>
     rows_kept (map wg_pk (au_wiregrams db)) (au_next db) trigger_sound (au_triggers db) \<and>
     distinct (map wg_key (au_wiregrams db)) \<and> distinct (map wg_pk (au_wiregrams db)) \<and>
     list_all (\<lambda>g. wg_pk g < au_next db) (au_wiregrams db)"

lemma rules_kept_notify [simp]:
  "rules_kept (notify n db) = rules_kept db" "rules_kept (db\<lparr>au_notices := ns\<rparr>) = rules_kept db"
  by (simp_all add: rules_kept_def notify_def)

lemma drop_waiting_run_sel [simp]:
  "au_schedules (drop_waiting_run s db) = au_schedules db" "au_triggers (drop_waiting_run s db) = au_triggers db"
  "au_wiregrams (drop_waiting_run s db) = au_wiregrams db" "au_next (drop_waiting_run s db) = au_next db"
  "rules_kept (drop_waiting_run s db) = rules_kept db"
  by (cases "au_waiting db s"; simp add: drop_waiting_run_def notify_def rules_kept_def)+

lemma check_pin_Inr: "check_pin db a g i = Inr u \<Longrightarrow> (g = None) = (i = None)"
  by (auto simp: check_pin_def result_iff)

lemma check_policies_Inr: "check_policies w m b = Inr u \<Longrightarrow> at_least m \<and> at_least b"
  by (auto simp: check_policies_def result_iff at_least_def split: option.splits)

lemma validate_schedule_Inr: "validate_schedule w db f = Inr u \<Longrightarrow> (sf_agent f = None) = (sf_interface f = None)"
  by (auto simp: validate_schedule_def run_checks_Inr dest: check_pin_Inr)

lemma validate_trigger_Inr: "validate_trigger w db f = Inr u \<Longrightarrow> (tf_agent f = None) = (tf_interface f = None)"
  by (auto simp: validate_trigger_def and_then_Inr dest: check_pin_Inr)

lemma schedule_wanted_fields:
  assumes "schedule_wanted w db s = Inr f"
  shows "\<exists>agent action. rule_target db (schedule_label s) (ws_agent s) (ws_interface s) = Inr (agent, action) \<and>
     f = \<lparr>sf_name = ws_name s, sf_description = ws_description s, sf_action = action, sf_agent = Some agent,
          sf_interface = Some (ws_interface s), sf_args = or_nil (ws_args s), sf_interval = ws_interval s, sf_cron = ws_cron s,
          sf_timezone = ws_timezone s, sf_ephemeral = ws_ephemeral s, sf_overlap = ws_overlap s, sf_catch_up = ws_catch_up s,
          sf_policy = ws_policy s, sf_ends_at = ws_ends_at s, sf_max_runs = ws_max_runs s\<rparr> \<and>
     check_policies w (ws_max_runs s) None = Inr ()"
  using assms by (auto simp: schedule_wanted_def and_then_Inr Let_def)

lemma trigger_wanted_fields:
  assumes "trigger_wanted w db t = Inr f"
  shows "\<exists>agent action compiled. rule_target db (trigger_label t) (wt_agent t) (wt_interface t) = Inr (agent, action) \<and>
     f = \<lparr>tf_name = wt_name t, tf_description = wt_description t, tf_action = action, tf_agent = Some agent,
          tf_interface = Some (wt_interface t), tf_args = or_nil (wt_args t), tf_kind = wt_kind t,
          tf_identifier = wt_identifier t, tf_port = wt_port t, tf_conditions = wt_conditions t, tf_jsonpath = compiled,
          tf_debounce = wt_debounce t, tf_policy = wt_policy t, tf_ends_at = wt_ends_at t, tf_max_runs = wt_max_runs t\<rparr> \<and>
     check_policies w (wt_max_runs t) (wt_debounce t) = Inr ()"
  using assms by (auto simp: trigger_wanted_def and_then_Inr Let_def)

lemma schedule_wanted_sound:
  "schedule_wanted w db s = Inr f \<Longrightarrow> check_wire_schedule s = Inr () \<Longrightarrow> schedule_sound f"
  by (auto dest!: schedule_wanted_fields check_policies_Inr
      simp: check_wire_schedule_def result_iff schedule_sound_def one_timing_def)

lemma trigger_wanted_sound: "trigger_wanted w db t = Inr f \<Longrightarrow> trigger_sound f"
  by (auto dest!: trigger_wanted_fields check_policies_Inr simp: trigger_sound_def)

section \<open>Imports and deletions keep the tables\<close>

lemma import_kept:
  assumes kept: "rules_kept db" and "import_wiregram w c d db = (Inr wg, db')"
  shows "rules_kept db'" and "wg \<in> set (map wg_pk (au_wiregrams db'))"
proof -
  obtain ss ts gs n scheds n1 trigs n2 where ok: "check_document d = Inr ()"
      and an: "answers ws_key (schedule_wanted w db) (wd_schedules d) ss" "answers wt_key (trigger_wanted w db) (wd_triggers d) ts"
      and put: "put_wiregram c d db = (wg, db\<lparr>au_wiregrams := gs, au_next := n\<rparr>)"
      and sc: "bring_in_line wg c (enabled_in (map (\<lambda>s. (ws_key s, ws_enabled s)) (wd_schedules d))) ss (au_schedules db, n) = (scheds, n1)"
      and tr: "bring_in_line wg c (enabled_in (map (\<lambda>t. (wt_key t, wt_enabled t)) (wd_triggers d))) ts (au_triggers db, n1) = (trigs, n2)"
      and db': "au_wiregrams db' = gs" "au_schedules db' = scheds" "au_triggers db' = trigs" "au_next db' = n2"
    using import_rows [OF assms(2)] by (elim exE conjE) (rule that, assumption+)
  note gs = put_wiregram_rows [OF put]
  show wg: "wg \<in> set (map wg_pk (au_wiregrams db'))" using gs(2) db' by simp
  have sub: "set (map wg_pk (au_wiregrams db)) \<subseteq> set (map wg_pk gs)" by (simp only: gs(3)) simp
  have docs: "\<forall>s \<in> set (wd_schedules d). check_wire_schedule s = Inr ()"
    using ok by (simp add: check_document_def result_iff)
  note rows = rows_kept_mono [OF _ sub]
  have "list_all (\<lambda>(k, f). schedule_sound f) ss"
    using answers_fields [OF an(1)] schedule_wanted_sound docs by (fastforce simp: list_all_iff)
  moreover have "rows_kept (map wg_pk gs) n schedule_sound (au_schedules db)"
    using rows [OF _ gs(1)] kept unfolding rules_kept_def by blast
  ultimately have S: "rows_kept (map wg_pk gs) n1 schedule_sound scheds" "n \<le> n1"
    using bring_in_line_kept [OF _ _ _ sc] gs(2) by blast+
  have "list_all (\<lambda>(k, f). trigger_sound f) ts"
    using answers_fields [OF an(2)] trigger_wanted_sound by (fastforce simp: list_all_iff)
  moreover have "rows_kept (map wg_pk gs) n1 trigger_sound (au_triggers db)"
    using rows [OF _ le_trans [OF gs(1) S(2)]] kept unfolding rules_kept_def by blast
  ultimately have T: "rows_kept (map wg_pk gs) n2 trigger_sound trigs" "n1 \<le> n2"
    using bring_in_line_kept [OF _ _ _ tr] gs(2) by blast+
  have below: "list_all (\<lambda>pk. pk < au_next db) (map wg_pk (au_wiregrams db))" and dist: "distinct (map wg_pk (au_wiregrams db))" "distinct (map wg_key (au_wiregrams db))"
    using kept by (simp_all add: rules_kept_def list_all_iff)
  have "distinct (map wg_pk gs)" "distinct (map wg_key gs)"
    using dist below gs(5) unfolding gs(3,4) by (auto simp: list_all_iff)
  moreover have "list_all (\<lambda>pk. pk < n2) (map wg_pk gs)"
    using below gs(1) S(2) T(2) unfolding gs(3) by (auto simp: list_all_iff)
  ultimately show "rules_kept db'"
    using rows_kept_mono [OF S(1) order_refl T(2)] T(1) db' by (simp add: rules_kept_def list_all_iff)
qed

lemma fold_drop_all:
  "fold (\<lambda>r. drop_waiting_run (ru_pk r)) rs db = db\<lparr>au_notices := au_notices db @ drop_notices db rs\<rparr>"
  using fold_drop_waiting_runs [of "\<lambda>_. True" rs db] by simp

lemma rows_kept_owners:
  assumes "rows_kept wgs n sound rs" and "\<And>r wg. r \<in> set rs \<Longrightarrow> ru_wiregram r = Some wg \<Longrightarrow> wg \<in> set wgs'"
  shows "rows_kept wgs' n sound rs"
  unfolding rows_kept_def
proof (intro conjI)
  show "distinct (map ru_pk rs)" "distinct (map (\<lambda>r. (ru_wiregram r, ru_wire_key r)) (filter (\<lambda>r. ru_wiregram r \<noteq> None) rs))"
    using assms(1) by (simp_all add: rows_kept_def)
  show "list_all (\<lambda>r. ru_pk r < n \<and> sound (ru_fields r) \<and>
      (case ru_wiregram r of None \<Rightarrow> True | Some wg \<Rightarrow> wg \<in> set wgs' \<and> ru_wire_key r \<noteq> None)) rs"
    unfolding list_all_iff
  proof
    fix r assume r: "r \<in> set rs"
    with assms show "ru_pk r < n \<and> sound (ru_fields r) \<and>
        (case ru_wiregram r of None \<Rightarrow> True | Some wg \<Rightarrow> wg \<in> set wgs' \<and> ru_wire_key r \<noteq> None)"
      by (cases "ru_wiregram r") (auto simp: rows_kept_def list_all_iff)
  qed
qed

lemma rows_kept_owner: "rows_kept wgs n sound rs \<Longrightarrow> r \<in> set rs \<Longrightarrow> ru_wiregram r = Some wg \<Longrightarrow> wg \<in> set wgs"
  by (auto simp: rows_kept_def list_all_iff split: option.splits)

lemma rows_kept_disown:
  assumes "rows_kept (map wg_pk gs) n sound rs"
  shows "rows_kept (map wg_pk (filter (\<lambda>g. wg_pk g \<noteq> wg) gs)) n sound (filter (\<lambda>r. \<not> owned_by wg r) rs)"
proof (rule rows_kept_owners [OF rows_kept_filter [OF assms]])
  fix r x assume r: "r \<in> set (filter (\<lambda>r. \<not> owned_by wg r) rs)" "ru_wiregram r = Some x"
  then have "x \<noteq> wg" by (auto simp: owned_by_def)
  moreover have "x \<in> set (map wg_pk gs)" by (rule rows_kept_owner [OF assms _ r(2)]) (use r in simp)
  ultimately show "x \<in> set (map wg_pk (filter (\<lambda>g. wg_pk g \<noteq> wg) gs))" by auto
qed

lemma delete_wiregram_kept:
  assumes "rules_kept db"
  shows "rules_kept (delete_wiregram wg db)"
  using assms
  by (simp add: delete_wiregram_def Let_def fold_drop_all rules_kept_def rows_kept_disown distinct_map_filter list_all_iff)

section \<open>Changes of one rule keep the tables\<close>

lemma scoped_rule_Inr: "scoped_rule what rs pk = Inr r \<Longrightarrow> r \<in> set rs \<and> ru_pk r = pk"
  by (auto simp: scoped_rule_def find_Some_iff split: option.splits)

lemma rules_kept_add:
  assumes "rules_kept db"
  shows "schedule_sound f \<Longrightarrow> rules_kept (db\<lparr>au_schedules := au_schedules db @
      [\<lparr>ru_pk = au_next db, ru_caller = c, ru_enabled = e, ru_wiregram = None, ru_wire_key = None, ru_fields = f\<rparr>], au_next := Suc (au_next db)\<rparr>)"
    and "trigger_sound g \<Longrightarrow> rules_kept (db\<lparr>au_triggers := au_triggers db @
      [\<lparr>ru_pk = au_next db, ru_caller = c, ru_enabled = e, ru_wiregram = None, ru_wire_key = None, ru_fields = g\<rparr>], au_next := Suc (au_next db)\<rparr>)"
  using assms
  by (simp_all add: rules_kept_def rows_kept_add rows_kept_mono [OF _ order_refl le_SucI [OF order_refl]] list_all_iff less_SucI)

lemma create_schedule_kept:
  assumes "rules_kept db"
  shows "rules_kept (snd (create_schedule w c e f db))"
proof (cases "run_checks
        [scoped_action db (sf_action f),
         (case sf_agent f of None \<Rightarrow> Inr () | Some a \<Rightarrow> scoped_agent db a),
         validate_schedule w db f,
         check_policies w (sf_max_runs f) None,
         raise_if (\<not> one_timing f) (IntegrityError ''Schedule'')]")
  case (Inr u)
  then have "schedule_sound f"
    by (auto simp: run_checks_Inr raise_if_Inr schedule_sound_def dest: validate_schedule_Inr check_policies_Inr)
  with Inr assms show ?thesis by (simp add: create_schedule_def Let_def rules_kept_add)
qed (simp add: create_schedule_def Let_def assms)

lemma create_trigger_kept:
  assumes "rules_kept db"
  shows "rules_kept (snd (create_trigger w c e f db))"
proof (cases "and_then (scoped_action db (tf_action f)) (\<lambda>_.
           and_then (case tf_agent f of None \<Rightarrow> Inr () | Some a \<Rightarrow> scoped_agent db a) (\<lambda>_.
           and_then (validate_trigger w db f) (\<lambda>compiled.
           and_then (check_policies w (tf_max_runs f) (tf_debounce f)) (\<lambda>_. Inr compiled))))")
  case (Inr compiled)
  then have "trigger_sound (f\<lparr>tf_jsonpath := compiled\<rparr>)"
    by (auto simp: and_then_Inr trigger_sound_def dest: validate_trigger_Inr check_policies_Inr)
  with Inr assms show ?thesis by (simp add: create_trigger_def Let_def rules_kept_add)
qed (simp add: create_trigger_def Let_def assms)

lemma rules_kept_delete:
  "rules_kept db \<Longrightarrow> rules_kept (db\<lparr>au_schedules := filter P (au_schedules db), au_triggers := filter Q (au_triggers db)\<rparr>)"
  by (simp add: rules_kept_def rows_kept_filter)

lemma delete_schedule_kept: "rules_kept db \<Longrightarrow> rules_kept (snd (delete_schedule pk db))"
  using drop_waiting_run_sel(5) [of pk db]
  by (cases "scoped_rule ''No Schedule in this organization'' (au_schedules db) pk")
    (simp_all add: delete_schedule_def rules_kept_def rows_kept_filter)

lemma delete_trigger_kept: "rules_kept db \<Longrightarrow> rules_kept (snd (delete_trigger pk db))"
  by (cases "scoped_rule ''No Trigger in this organization'' (au_triggers db) pk")
    (simp_all add: delete_trigger_def rules_kept_def rows_kept_filter)

abbreviation checked_when :: "string list" where
  "checked_when \<equiv> [''action'', ''agent'', ''interface'', ''args'', ''interval_seconds'', ''cron'', ''timezone'']"

abbreviation untold :: "string list" where
  "untold \<equiv> [''name'', ''description'', ''overlap'', ''catch_up'']"

lemma update_schedule_Inr:
  assumes "update_schedule w pk p db = (Inr x, db')"
  shows "\<exists>r r' changed. r \<in> set (au_schedules db) \<and> ru_pk r = pk \<and> fold id (schedule_changes p) (r, []) = (r', changed) \<and>
     check_policies w (sf_max_runs (ru_fields r')) None = Inr () \<and>
     (list_ex (\<lambda>c. c \<in> set checked_when) changed \<longrightarrow> validate_schedule w db (ru_fields r') = Inr ()) \<and> one_timing (ru_fields r') \<and>
     db' = notify (Plan pk (list_ex (\<lambda>c. c \<notin> set untold) changed))
       (db\<lparr>au_schedules := map (\<lambda>s. if ru_pk s = pk then r' else s) (au_schedules db)\<rparr>)"
proof -
  obtain r' changed where ok: "and_then (scoped_rule ''No Schedule in this organization'' (au_schedules db) pk) (\<lambda>r.
           and_then (patch_schedule db p r) (\<lambda>(r', changed).
           and_then (check_policies w (sf_max_runs (ru_fields r')) None) (\<lambda>_.
           and_then (if list_ex (\<lambda>c. c \<in> set checked_when) changed
                     then validate_schedule w db (ru_fields r') else Inr ()) (\<lambda>_.
           and_then (raise_if (\<not> one_timing (ru_fields r')) (IntegrityError ''Schedule'')) (\<lambda>_.
           Inr (r', changed)))))) = Inr (r', changed)"
      and db': "db' = notify (Plan pk (list_ex (\<lambda>c. c \<notin> set untold) changed))
       (db\<lparr>au_schedules := map (\<lambda>s. if ru_pk s = pk then r' else s) (au_schedules db)\<rparr>)"
    using assms unfolding update_schedule_def by (auto split: sum.splits)
  from ok obtain r where r: "scoped_rule ''No Schedule in this organization'' (au_schedules db) pk = Inr r"
      and patch: "patch_schedule db p r = Inr (r', changed)"
      and rest: "check_policies w (sf_max_runs (ru_fields r')) None = Inr ()" "one_timing (ru_fields r')"
        "list_ex (\<lambda>c. c \<in> set checked_when) changed \<longrightarrow> validate_schedule w db (ru_fields r') = Inr ()"
    by (auto simp: and_then_Inr raise_if_Inr split: if_splits)
  from patch have "fold id (schedule_changes p) (r, []) = (r', changed)"
    by (auto simp: patch_schedule_def and_then_Inr)
  with rest db' scoped_rule_Inr [OF r] show ?thesis by blast
qed

lemma rows_kept_replace:
  assumes "rows_kept wgs n sound rs" and "r \<in> set rs" and "ru_pk r = pk" and "ru_pk r' = pk"
    and "ru_wiregram r' = ru_wiregram r" and "ru_wire_key r' = ru_wire_key r" and "sound (ru_fields r) \<Longrightarrow> sound (ru_fields r')"
  shows "rows_kept wgs n sound (map (\<lambda>s. if ru_pk s = pk then r' else s) rs)"
proof (rule rows_kept_update [OF assms(1)])
  fix s assume s: "s \<in> set rs"
  have "inj_on ru_pk (set rs)" using assms(1) by (simp add: rows_kept_def distinct_map)
  then have "ru_pk s = pk \<Longrightarrow> s = r" using assms(2,3) s by (auto dest: inj_onD)
  then show "ru_pk (if ru_pk s = pk then r' else s) = ru_pk s \<and> ru_wiregram (if ru_pk s = pk then r' else s) = ru_wiregram s \<and>
      ru_wire_key (if ru_pk s = pk then r' else s) = ru_wire_key s \<and>
      (sound (ru_fields s) \<longrightarrow> sound (ru_fields (if ru_pk s = pk then r' else s)))"
    using assms by auto
qed

lemma update_schedule_kept:
  assumes "rules_kept db"
  shows "rules_kept (snd (update_schedule w pk p db))"
proof (cases "update_schedule w pk p db")
  case (Pair res db')
  show ?thesis
  proof (cases res)
    case (Inl e)
    with Pair have "db' = db" unfolding update_schedule_def by (auto split: sum.splits)
    with Pair assms show ?thesis by simp
  next
    case (Inr x)
    then obtain r r' changed where r: "r \<in> set (au_schedules db)" "ru_pk r = pk"
        and ch: "fold id (schedule_changes p) (r, []) = (r', changed)"
        and ok: "check_policies w (sf_max_runs (ru_fields r')) None = Inr ()" "one_timing (ru_fields r')"
          "list_ex (\<lambda>c. c \<in> set checked_when) changed \<longrightarrow> validate_schedule w db (ru_fields r') = Inr ()"
        and db': "db' = notify (Plan pk (list_ex (\<lambda>c. c \<notin> set untold) changed))
          (db\<lparr>au_schedules := map (\<lambda>s. if ru_pk s = pk then r' else s) (au_schedules db)\<rparr>)"
      using update_schedule_Inr [of w pk p db x db'] Pair by blast
    note terms = schedule_patch_terms [OF ch]
    have "schedule_sound (ru_fields r')" if "schedule_sound (ru_fields r)"
    proof (cases "''agent'' \<in> set changed \<or> ''interface'' \<in> set changed")
      case True
      then have "list_ex (\<lambda>c. c \<in> set checked_when) changed" by (auto simp: list_ex_iff)
      with ok show ?thesis by (auto simp: schedule_sound_def dest: validate_schedule_Inr check_policies_Inr)
    next
      case False
      then have "sf_agent (ru_fields r') = sf_agent (ru_fields r)" "sf_interface (ru_fields r') = sf_interface (ru_fields r)"
        using terms(2,3) by (simp_all add: differs_patched)
      with that ok show ?thesis by (auto simp: schedule_sound_def dest: check_policies_Inr)
    qed
    then have "rows_kept (map wg_pk (au_wiregrams db)) (au_next db) schedule_sound (map (\<lambda>s. if ru_pk s = pk then r' else s) (au_schedules db))"
      using assms r schedule_patch_rest [OF ch] by (intro rows_kept_replace [of _ _ _ _ r]) (simp_all add: rules_kept_def)
    with assms Pair db' show ?thesis by (simp add: rules_kept_def notify_def)
  qed
qed

abbreviation trigger_checked_when :: "string list" where
  "trigger_checked_when \<equiv> [''kind'', ''identifier'', ''action'', ''agent'', ''interface'', ''port'', ''args'']"

lemma trigger_conditions_set:
  assumes "recheck_trigger w db p (r1, changed) = Inr r'"
  shows "\<exists>f. r' = r1\<lparr>ru_fields := f\<rparr> \<and> tf_agent f = tf_agent (ru_fields r1) \<and> tf_interface f = tf_interface (ru_fields r1) \<and>
        tf_max_runs f = tf_max_runs (ru_fields r1) \<and> tf_debounce f = tf_debounce (ru_fields r1) \<and>
        (''agent'' \<in> set changed \<or> ''interface'' \<in> set changed \<longrightarrow> (tf_agent f = None) = (tf_interface f = None))"
proof (cases "tp_conditions p \<noteq> None \<or> list_ex (\<lambda>c. c \<in> set trigger_checked_when) changed")
  case True
  define cs where "cs = (case tp_conditions p of Some cs \<Rightarrow> cs | None \<Rightarrow> tf_conditions (ru_fields r1))"
  define f where "f = (ru_fields r1)\<lparr>tf_conditions := cs\<rparr>"
  from True assms [unfolded recheck_trigger_def] obtain compiled where v: "validate_trigger w db f = Inr compiled"
      and r': "r' = (if same_conditions cs (tf_conditions (ru_fields r1)) \<and> compiled = tf_jsonpath (ru_fields r1) then r1
        else r1\<lparr>ru_fields := f\<lparr>tf_jsonpath := compiled\<rparr>\<rparr>)"
    by (auto simp only: prod.case if_True Let_def cs_def [symmetric] f_def [symmetric] and_then_Inr sum.inject)
  have pin: "(tf_agent (ru_fields r1) = None) = (tf_interface (ru_fields r1) = None)"
    using validate_trigger_Inr [OF v] by (simp add: f_def)
  show ?thesis
  proof (cases "same_conditions cs (tf_conditions (ru_fields r1)) \<and> compiled = tf_jsonpath (ru_fields r1)")
    case True
    with r' pin show ?thesis by (intro exI [of _ "ru_fields r1"]) simp
  next
    case False
    then have "r' = r1\<lparr>ru_fields := f\<lparr>tf_jsonpath := compiled\<rparr>\<rparr>" using r' by (simp only: if_False)
    with pin show ?thesis by (intro exI [of _ "f\<lparr>tf_jsonpath := compiled\<rparr>"]) (simp add: f_def)
  qed
next
  case False
  with assms have "r' = r1" by (simp only: recheck_trigger_def prod.case if_False sum.inject)
  moreover from False have "''agent'' \<notin> set changed" "''interface'' \<notin> set changed" by (auto simp: list_ex_iff)
  ultimately show ?thesis by (intro exI [of _ "ru_fields r1"]) simp
qed

lemma update_trigger_Inr:
  assumes "update_trigger w pk p db = (Inr x, db')"
  shows "\<exists>r r1 f changed. r \<in> set (au_triggers db) \<and> ru_pk r = pk \<and> fold id (trigger_changes p) (r, []) = (r1, changed) \<and>
     check_policies w (tf_max_runs (ru_fields r1)) (tf_debounce (ru_fields r1)) = Inr () \<and>
     tf_agent f = tf_agent (ru_fields r1) \<and> tf_interface f = tf_interface (ru_fields r1) \<and>
     tf_max_runs f = tf_max_runs (ru_fields r1) \<and> tf_debounce f = tf_debounce (ru_fields r1) \<and>
     (''agent'' \<in> set changed \<or> ''interface'' \<in> set changed \<longrightarrow> (tf_agent f = None) = (tf_interface f = None)) \<and>
     db' = db\<lparr>au_triggers := map (\<lambda>s. if ru_pk s = pk then r1\<lparr>ru_fields := f\<rparr> else s) (au_triggers db)\<rparr>"
proof -
  from assms obtain r r1 r' changed where r: "scoped_rule ''No Trigger in this organization'' (au_triggers db) pk = Inr r"
      and patch: "patch_trigger db p r = Inr (r1, changed)"
      and ok: "check_policies w (tf_max_runs (ru_fields r1)) (tf_debounce (ru_fields r1)) = Inr ()"
      and c: "recheck_trigger w db p (r1, changed) = Inr r'"
      and db': "db' = db\<lparr>au_triggers := map (\<lambda>s. if ru_pk s = pk then r' else s) (au_triggers db)\<rparr>"
    unfolding update_trigger_def by (auto simp: and_then_Inr split: sum.splits)
  from patch have ch: "fold id (trigger_changes p) (r, []) = (r1, changed)"
    by (auto simp: patch_trigger_def and_then_Inr)
  from trigger_conditions_set [OF c] obtain f where "r' = r1\<lparr>ru_fields := f\<rparr> \<and> tf_agent f = tf_agent (ru_fields r1) \<and> tf_interface f = tf_interface (ru_fields r1) \<and>
        tf_max_runs f = tf_max_runs (ru_fields r1) \<and> tf_debounce f = tf_debounce (ru_fields r1) \<and>
        (''agent'' \<in> set changed \<or> ''interface'' \<in> set changed \<longrightarrow> (tf_agent f = None) = (tf_interface f = None))"
    by (elim exE) (rule that)
  note f = this [THEN conjunct1] this [THEN conjunct2]
  from scoped_rule_Inr [OF r] have at: "r \<in> set (au_triggers db)" "ru_pk r = pk" by simp_all
  show ?thesis
    by (rule exI [of _ r], rule exI [of _ r1], rule exI [of _ f], rule exI [of _ changed])
      (intro conjI at ch ok db' [unfolded f(1)]; insert f(2); elim conjE; assumption)
qed

lemma update_trigger_kept:
  assumes "rules_kept db"
  shows "rules_kept (snd (update_trigger w pk p db))"
proof (cases "update_trigger w pk p db")
  case (Pair res db')
  show ?thesis
  proof (cases res)
    case (Inl e)
    with Pair have "db' = db" unfolding update_trigger_def by (auto split: sum.splits)
    with Pair assms show ?thesis by simp
  next
    case (Inr x)
    then obtain r r1 f changed where r: "r \<in> set (au_triggers db)" "ru_pk r = pk"
        and ch: "fold id (trigger_changes p) (r, []) = (r1, changed)"
        and ok: "check_policies w (tf_max_runs (ru_fields r1)) (tf_debounce (ru_fields r1)) = Inr ()"
        and f: "tf_agent f = tf_agent (ru_fields r1)" "tf_interface f = tf_interface (ru_fields r1)"
          "tf_max_runs f = tf_max_runs (ru_fields r1)" "tf_debounce f = tf_debounce (ru_fields r1)"
        and pin: "''agent'' \<in> set changed \<or> ''interface'' \<in> set changed \<longrightarrow> (tf_agent f = None) = (tf_interface f = None)"
        and db': "db' = db\<lparr>au_triggers := map (\<lambda>s. if ru_pk s = pk then r1\<lparr>ru_fields := f\<rparr> else s) (au_triggers db)\<rparr>"
      using update_trigger_Inr [OF Pair [unfolded Inr]] by (elim exE conjE) (rule that)
    note terms = trigger_patch_pin [OF ch]
    have "trigger_sound f" if "trigger_sound (ru_fields r)"
    proof (cases "''agent'' \<in> set changed \<or> ''interface'' \<in> set changed")
      case True
      with ok pin f show ?thesis by (auto simp: trigger_sound_def dest: check_policies_Inr)
    next
      case False
      then have "tf_agent (ru_fields r1) = tf_agent (ru_fields r)" "tf_interface (ru_fields r1) = tf_interface (ru_fields r)"
        using terms by (simp_all add: differs_patched)
      with that ok f show ?thesis by (auto simp: trigger_sound_def dest: check_policies_Inr)
    qed
    then have "rows_kept (map wg_pk (au_wiregrams db)) (au_next db) trigger_sound (map (\<lambda>s. if ru_pk s = pk then r1\<lparr>ru_fields := f\<rparr> else s) (au_triggers db))"
      using assms r trigger_patch_rest [OF ch] by (intro rows_kept_replace [of _ _ _ _ r]) (simp_all add: rules_kept_def)
    with assms Pair db' show ?thesis by (simp add: rules_kept_def)
  qed
qed

end
