(* ===== verification/Automation_Runs.thy ===== *)
theory Automation_Runs
  imports Automation_Facts
begin

text \<open>
  The mutations as one handler, the steps of an organization's automation (a request, the registrations
  of agents and actions with their cascades, takt hearing its notices), and what holds after any of them.
\<close>

section \<open>Requests and steps\<close>

datatype request =
    Create_Schedule nat bool schedule_fields
  | Update_Schedule nat schedule_patch
  | Delete_Schedule nat
  | Create_Trigger nat bool trigger_fields
  | Update_Trigger nat trigger_patch
  | Delete_Trigger nat
  | Import_Wiregram nat wiregram_doc
  | Delete_Wiregram nat

fun handle :: "rule_world \<Rightarrow> request \<Rightarrow> automation \<Rightarrow> nat result \<times> automation" where
  "handle w (Create_Schedule c e f) db = create_schedule w c e f db"
| "handle w (Update_Schedule pk p) db = update_schedule w pk p db"
| "handle w (Delete_Schedule pk) db = delete_schedule pk db"
| "handle w (Create_Trigger c e f) db = create_trigger w c e f db"
| "handle w (Update_Trigger pk p) db = update_trigger w pk p db"
| "handle w (Delete_Trigger pk) db = delete_trigger pk db"
| "handle w (Import_Wiregram c d) db = import_wiregram w c d db"
| "handle w (Delete_Wiregram wg) db = delete_wiregram_request wg db"

inductive automation_step :: "rule_world \<Rightarrow> automation \<Rightarrow> automation \<Rightarrow> bool" for w where
  Handled: "handle w q db = (res, db') \<Longrightarrow> automation_step w db db'"
| Registered: "automation_step w db (db\<lparr>au_actions := a, au_agents := g, au_implementations := i, au_args := p, au_signals := s,
    au_schedules := filter P (au_schedules db), au_triggers := filter Q (au_triggers db)\<rparr>)"
| Heard: "automation_step w db (db\<lparr>au_waiting := f, au_notices := []\<rparr>)"

section \<open>The invariant\<close>

lemma delete_wiregram_request_kept: "rules_kept db \<Longrightarrow> rules_kept (snd (delete_wiregram_request wg db))"
  by (simp add: delete_wiregram_request_def delete_wiregram_kept)

lemma import_wiregram_kept: "rules_kept db \<Longrightarrow> rules_kept (snd (import_wiregram w c d db))"
proof (cases "import_wiregram w c d db")
  case (Pair res db')
  assume kept: "rules_kept db"
  show ?thesis
  proof (cases res)
    case (Inl e)
    with Pair have "db' = db" by (auto simp: import_wiregram_def Let_def split: sum.splits prod.splits)
    with kept Pair show ?thesis by simp
  next
    case (Inr wg)
    with Pair import_kept [OF kept] show ?thesis by simp
  qed
qed

lemma handle_kept: "rules_kept db \<Longrightarrow> rules_kept (snd (handle w q db))"
  by (cases q)
    (simp_all add: create_schedule_kept update_schedule_kept delete_schedule_kept create_trigger_kept update_trigger_kept
      delete_trigger_kept import_wiregram_kept delete_wiregram_request_kept)

lemma automation_step_kept: "automation_step w db db' \<Longrightarrow> rules_kept db \<Longrightarrow> rules_kept db'"
proof (induction rule: automation_step.induct)
  case (Handled q db res db')
  then show ?case using handle_kept [of db w q] by simp
next
  case (Registered db a g i p s P Q)
  then show ?case by (simp add: rules_kept_def rows_kept_filter)
next
  case (Heard db f)
  then show ?case by (simp add: rules_kept_def)
qed

section \<open>An import's rules\<close>

lemma owned_schedules_put:
  assumes "rules_kept db" and "put_wiregram c d db = (wg, db2)"
  shows "owned_schedules d db = filter (owned_by wg) (au_schedules db)"
proof (cases "find (\<lambda>g. wg_key g = wd_key d) (au_wiregrams db)")
  case None
  then have wg: "wg = au_next db" using assms(2) unfolding put_wiregram_def by auto
  have "\<not> owned_by wg r" if "r \<in> set (au_schedules db)" for r
  proof
    assume "owned_by wg r"
    then have "wg \<in> set (map wg_pk (au_wiregrams db))"
      using assms(1) that by (intro rows_kept_owner [of _ "au_next db" schedule_sound "au_schedules db" r]) (simp_all add: rules_kept_def owned_by_def)
    then show False using assms(1) wg by (auto simp: rules_kept_def list_all_iff)
  qed
  with None show ?thesis by (simp add: owned_schedules_def)
next
  case (Some g)
  then have "wg = wg_pk g" using assms(2) unfolding put_wiregram_def by auto
  with Some show ?thesis by (simp add: owned_schedules_def)
qed

lemma import_leaves:
  assumes "import_wiregram w c d db = (Inr wg, db')" and "rules_kept db"
    and "r \<in> set (au_schedules db)" and "ru_pk r \<notin> ru_pk ` set (au_schedules db')" and "au_waiting db (ru_pk r) = Some run"
  shows "Drop_Run run \<in> set (au_notices db')"
proof -
  obtain ss ts gs n scheds n1 trigs n2 where ok: "check_document d = Inr ()"
      and an: "answers ws_key (schedule_wanted w db) (wd_schedules d) ss"
      and put: "put_wiregram c d db = (wg, db\<lparr>au_wiregrams := gs, au_next := n\<rparr>)"
      and sc: "bring_in_line wg c (enabled_in (map (\<lambda>s. (ws_key s, ws_enabled s)) (wd_schedules d))) ss (au_schedules db, n) = (scheds, n1)"
      and db': "au_schedules db' = scheds"
        "au_notices db' = au_notices db @ drop_notices db (filter (goes ss) (owned_schedules d db)) @
          map (plan_notice (replanned_keys ss (owned_schedules d db))) (filter (owned_by wg) scheds)"
    using import_rows [OF assms(1)] by (elim exE conjE) (rule that, assumption+)
  have "owned_by wg r"
  proof (rule ccontr)
    assume "\<not> owned_by wg r"
    with assms(3) have "r \<in> set (filter (\<lambda>r. \<not> owned_by wg r) (au_schedules db))" by simp
    then have "r \<in> set (filter (\<lambda>r. \<not> owned_by wg r) scheds)"
      using bring_in_line_others [of wg c "enabled_in (map (\<lambda>s. (ws_key s, ws_enabled s)) (wd_schedules d))" ss "au_schedules db" n] sc by simp
    then have "r \<in> set scheds" by simp
    with assms(4) db' show False by simp
  qed
  moreover have "goes ss r"
  proof (rule ccontr)
    assume "\<not> goes ss r"
    then obtain k where k: "ru_wire_key r = Some k" "k \<in> fst ` set ss" by (auto simp: goes_def split: option.splits)
    then obtain f where f: "(k, f) \<in> set ss" by auto
    have "distinct (map fst ss)" using check_document_keys [OF ok] answers_keys [OF an] by simp
    from bring_in_line_placed [OF this f, of wg c "enabled_in (map (\<lambda>s. (ws_key s, ws_enabled s)) (wd_schedules d))" "au_schedules db" n]
    have "placed wg c (enabled_in (map (\<lambda>s. (ws_key s, ws_enabled s)) (wd_schedules d)) k) k f (au_schedules db) scheds"
      using sc by simp
    moreover have "rule_at wg (au_schedules db) k = Some r"
      using assms(2,3) k \<open>owned_by wg r\<close>
      by (intro rule_at_unique [of "map wg_pk (au_wiregrams db)" "au_next db" schedule_sound]) (simp_all add: rules_kept_def named_rule_def owned_by_def)
    ultimately have "rule_at wg scheds k = Some (r\<lparr>ru_fields := f\<rparr>)" by (simp add: placed_def)
    then have "r\<lparr>ru_fields := f\<rparr> \<in> set scheds" using rule_at_named [of wg scheds k] by blast
    then have "ru_pk r \<in> ru_pk ` set scheds" by (intro rev_image_eqI [of "r\<lparr>ru_fields := f\<rparr>"]) simp_all
    with assms(4) db' show False by simp
  qed
  ultimately have "r \<in> set (filter (goes ss) (owned_schedules d db))"
    using assms(3) owned_schedules_put [OF assms(2) put] by simp
  then show ?thesis using db' assms(5) by (force simp: drop_notices_def)
qed

section \<open>Rules that go\<close>

lemma delete_wiregram_leaves:
  assumes "r \<in> set (au_schedules db)" and "ru_pk r \<notin> ru_pk ` set (au_schedules (delete_wiregram wg db))"
    and "au_waiting db (ru_pk r) = Some run"
  shows "Drop_Run run \<in> set (au_notices (delete_wiregram wg db))"
proof -
  have "owned_by wg r" using assms(1,2) by (auto simp: delete_wiregram_def Let_def fold_drop_all)
  with assms(1,3) show ?thesis
    by (force simp: delete_wiregram_def Let_def fold_drop_all drop_notices_def)
qed

lemma delete_schedule_leaves:
  assumes "r \<in> set (au_schedules db)" and "ru_pk r \<notin> ru_pk ` set (au_schedules (snd (delete_schedule pk db)))"
    and "au_waiting db (ru_pk r) = Some run"
  shows "Drop_Run run \<in> set (au_notices (snd (delete_schedule pk db)))"
proof (cases "scoped_rule ''No Schedule in this organization'' (au_schedules db) pk")
  case (Inl e)
  with assms(1,2) show ?thesis by (simp add: delete_schedule_def)
next
  case (Inr r')
  with assms(1,2) have "ru_pk r = pk" by (auto simp: delete_schedule_def)
  with Inr assms(3) show ?thesis by (simp add: delete_schedule_def drop_waiting_run_def notify_def)
qed

lemma update_schedule_pks: "map ru_pk (au_schedules (snd (update_schedule w pk p db))) = map ru_pk (au_schedules db)"
proof (cases "update_schedule w pk p db")
  case (Pair res db')
  show ?thesis
  proof (cases res)
    case (Inl e)
    with Pair have "db' = db" unfolding update_schedule_def by (auto split: sum.splits)
    with Pair show ?thesis by simp
  next
    case (Inr x)
    then obtain r r' changed where r: "ru_pk r = pk" and ch: "fold id (schedule_changes p) (r, []) = (r', changed)"
        and db': "db' = notify (Plan pk (list_ex (\<lambda>c. c \<notin> set untold) changed))
          (db\<lparr>au_schedules := map (\<lambda>s. if ru_pk s = pk then r' else s) (au_schedules db)\<rparr>)"
      using update_schedule_Inr [OF Pair [unfolded Inr]] by (elim exE conjE) (rule that)
    have "ru_pk r' = pk" using schedule_patch_rest(1) [OF ch] r by simp
    then have "ru_pk (if ru_pk s = pk then r' else s) = ru_pk s" for s by simp
    then show ?thesis using Pair db' by (simp add: notify_def o_def)
  qed
qed

lemma create_schedule_pks: "set (map ru_pk (au_schedules db)) \<subseteq> set (map ru_pk (au_schedules (snd (create_schedule w c e f db))))"
  by (auto simp: create_schedule_def Let_def notify_def split: sum.splits)

lemma trigger_requests_schedules [simp]:
  "au_schedules (snd (create_trigger w c e f db)) = au_schedules db" "au_schedules (snd (update_trigger w pk p db)) = au_schedules db"
  "au_schedules (snd (delete_trigger pk db)) = au_schedules db"
  by (simp_all add: create_trigger_def Let_def update_trigger_def delete_trigger_def split: sum.splits)

lemma import_wiregram_leaves:
  assumes "rules_kept db" and "r \<in> set (au_schedules db)" and "ru_pk r \<notin> ru_pk ` set (au_schedules (snd (import_wiregram w c d db)))"
    and "au_waiting db (ru_pk r) = Some run"
  shows "Drop_Run run \<in> set (au_notices (snd (import_wiregram w c d db)))"
proof (cases "import_wiregram w c d db")
  case (Pair res db')
  show ?thesis
  proof (cases res)
    case (Inl e)
    with Pair have "db' = db" by (auto simp: import_wiregram_def Let_def split: sum.splits prod.splits)
    with Pair assms(2,3) show ?thesis by simp
  next
    case (Inr wg)
    with Pair assms show ?thesis using import_leaves [of w c d db wg db' r run] by simp
  qed
qed

end
