(* ===== verification/Automation_Export.thy ===== *)
theory Automation_Export
  imports Automation_Facts
begin

text \<open>A first import appends the document's rules in its order, and what is exported from them is the document.\<close>

section \<open>A first import\<close>

fun new_rules :: "nat \<Rightarrow> nat \<Rightarrow> (string \<Rightarrow> bool) \<Rightarrow> nat \<Rightarrow> (string \<times> 'f) list \<Rightarrow> 'f rule list" where
  "new_rules wg c e n [] = []"
| "new_rules wg c e n ((k, f) # kfs) =
     \<lparr>ru_pk = n, ru_caller = c, ru_enabled = e k, ru_wiregram = Some wg, ru_wire_key = Some k, ru_fields = f\<rparr> # new_rules wg c e (Suc n) kfs"

lemma put_rules_fresh:
  "distinct (map fst kfs) \<Longrightarrow> list_all (\<lambda>(k, f). \<not> list_ex (named_rule wg k) rs) kfs \<Longrightarrow>
     fold (put_rule wg c e) kfs (rs, n) = (rs @ new_rules wg c e n kfs, n + length kfs)"
proof (induction kfs arbitrary: rs n)
  case (Cons kf kfs)
  obtain k f where kf: "kf = (k, f)" by (cases kf)
  let ?r = "\<lparr>ru_pk = n, ru_caller = c, ru_enabled = e k, ru_wiregram = Some wg, ru_wire_key = Some k, ru_fields = f\<rparr>"
  have put: "put_rule wg c e kf (rs, n) = (rs @ [?r], Suc n)" using Cons.prems(2) kf by (simp add: put_rule_def)
  have "list_all (\<lambda>(k', f). \<not> list_ex (named_rule wg k') (rs @ [?r])) kfs"
    using Cons.prems kf by (auto simp: list_all_iff list_ex_iff named_rule_def rev_image_eqI)
  with Cons.IH [of "rs @ [?r]" "Suc n"] Cons.prems(1) kf put show ?case by simp
qed simp

lemma new_rules_owned: "filter (owned_by wg) (new_rules wg c e n kfs) = new_rules wg c e n kfs"
  by (induction wg c e n kfs rule: new_rules.induct) (simp_all add: owned_by_def)

lemma bring_in_line_fresh:
  assumes "distinct (map fst kfs)" and "list_all (\<lambda>r. \<not> owned_by wg r) rs"
  shows "bring_in_line wg c e kfs (rs, n) = (rs @ new_rules wg c e n kfs, n + length kfs)"
    and "filter (owned_by wg) (rs @ new_rules wg c e n kfs) = new_rules wg c e n kfs"
proof -
  have "listed wg (fst ` set kfs) rs = rs"
    using assms(2) unfolding listed_def by (intro filter_True) (auto simp: list_all_iff)
  moreover have "list_all (\<lambda>(k, f). \<not> list_ex (named_rule wg k) rs) kfs"
    using assms(2) by (auto simp: list_all_iff list_ex_iff named_rule_def owned_by_def)
  ultimately show "bring_in_line wg c e kfs (rs, n) = (rs @ new_rules wg c e n kfs, n + length kfs)"
    using put_rules_fresh [OF assms(1)] by (simp add: bring_in_line_listed)
  show "filter (owned_by wg) (rs @ new_rules wg c e n kfs) = new_rules wg c e n kfs"
    using assms(2) by (simp add: new_rules_owned filter_False list_all_iff)
qed

section \<open>What is exported\<close>

lemma rule_target_agent: "rule_target db label agent interface = Inr (pk, action) \<Longrightarrow> (pk, agent) \<in> set (au_agents db)"
proof -
  let ?found = "filter (\<lambda>i. (ri_agent i, agent) \<in> set (au_agents db) \<and> ri_interface i = interface) (au_implementations db)"
  assume "rule_target db label agent interface = Inr (pk, action)"
  then obtain i where "?found = [i]" "ri_agent i = pk"
    by (auto simp: rule_target_def split: list.splits if_splits)
  then have "i \<in> set ?found" by simp
  with \<open>ri_agent i = pk\<close> show ?thesis by auto
qed

lemma key_length_given: "key_length k = Inr u \<Longrightarrow> k \<noteq> []"
  by (auto simp: key_length_def raise_if_Inr)

lemma check_settled: "check_document d = Inr () \<Longrightarrow> check_document (settled d) = Inr ()"
  by (auto simp: check_document_def settled_def result_iff check_wire_schedule_def check_wire_trigger_def o_def)

lemma export_new_schedules:
  assumes "answers ws_key (schedule_wanted w db) ss kfs" and "distinct (map fst (au_agents db))" and "au_agents db' = au_agents db"
    and "list_all (\<lambda>s. ws_key s \<noteq> [] \<and> e (ws_key s) = ws_enabled s) ss"
  shows "map_result (export_schedule db') (new_rules wg c e n kfs) = Inr (map (\<lambda>s. s\<lparr>ws_args := Some (or_nil (ws_args s))\<rparr>) ss)"
  using assms(1,4) unfolding answers_def
proof (induction arbitrary: n rule: list_all2_induct)
  case (Cons s ss kf kfs)
  obtain f where kf: "kf = (ws_key s, f)" "schedule_wanted w db s = Inr f" using Cons.hyps by (cases kf) simp
  from schedule_wanted_fields [OF kf(2)] obtain agent action where target: "rule_target db (schedule_label s) (ws_agent s) (ws_interface s) = Inr (agent, action)"
      and f: "f = \<lparr>sf_name = ws_name s, sf_description = ws_description s, sf_action = action, sf_agent = Some agent,
          sf_interface = Some (ws_interface s), sf_args = or_nil (ws_args s), sf_interval = ws_interval s, sf_cron = ws_cron s,
          sf_timezone = ws_timezone s, sf_ephemeral = ws_ephemeral s, sf_overlap = ws_overlap s, sf_catch_up = ws_catch_up s,
          sf_policy = ws_policy s, sf_ends_at = ws_ends_at s, sf_max_runs = ws_max_runs s\<rparr>"
    by blast
  have "map_of (au_agents db') agent = Some (ws_agent s)"
    using rule_target_agent [OF target] assms(2,3) by simp
  moreover obtain x k where "ws_key s = x # k" using Cons.prems by (cases "ws_key s") auto
  ultimately have "export_schedule db' \<lparr>ru_pk = n, ru_caller = c, ru_enabled = e (ws_key s), ru_wiregram = Some wg, ru_wire_key = Some (ws_key s), ru_fields = f\<rparr> =
      Inr (s\<lparr>ws_args := Some (or_nil (ws_args s))\<rparr>)"
    using Cons.prems by (simp add: export_schedule_def agent_name_def f)
  with Cons kf show ?case by simp
qed simp

lemma export_new_triggers:
  assumes "answers wt_key (trigger_wanted w db) ts kfs" and "distinct (map fst (au_agents db))" and "au_agents db' = au_agents db"
    and "list_all (\<lambda>t. wt_key t \<noteq> [] \<and> e (wt_key t) = wt_enabled t) ts"
  shows "map_result (export_trigger db') (new_rules wg c e n kfs) = Inr (map (\<lambda>t. t\<lparr>wt_args := Some (or_nil (wt_args t))\<rparr>) ts)"
  using assms(1,4) unfolding answers_def
proof (induction arbitrary: n rule: list_all2_induct)
  case (Cons t ts kf kfs)
  obtain f where kf: "kf = (wt_key t, f)" "trigger_wanted w db t = Inr f" using Cons.hyps by (cases kf) simp
  from trigger_wanted_fields [OF kf(2)] obtain agent action compiled where target: "rule_target db (trigger_label t) (wt_agent t) (wt_interface t) = Inr (agent, action)"
      and f: "f = \<lparr>tf_name = wt_name t, tf_description = wt_description t, tf_action = action, tf_agent = Some agent,
          tf_interface = Some (wt_interface t), tf_args = or_nil (wt_args t), tf_kind = wt_kind t,
          tf_identifier = wt_identifier t, tf_port = wt_port t, tf_conditions = wt_conditions t, tf_jsonpath = compiled,
          tf_debounce = wt_debounce t, tf_policy = wt_policy t, tf_ends_at = wt_ends_at t, tf_max_runs = wt_max_runs t\<rparr>"
    by blast
  have "map_of (au_agents db') agent = Some (wt_agent t)"
    using rule_target_agent [OF target] assms(2,3) by simp
  moreover obtain x k where "wt_key t = x # k" using Cons.prems by (cases "wt_key t") auto
  ultimately have "export_trigger db' \<lparr>ru_pk = n, ru_caller = c, ru_enabled = e (wt_key t), ru_wiregram = Some wg, ru_wire_key = Some (wt_key t), ru_fields = f\<rparr> =
      Inr (t\<lparr>wt_args := Some (or_nil (wt_args t))\<rparr>)"
    using Cons.prems by (simp add: export_trigger_def agent_name_def f)
  with Cons kf show ?case by simp
qed simp

lemma export_first_import:
  assumes kept: "rules_kept db" and "import_wiregram w c d db = (Inr wg, db')"
    and fresh: "wd_key d \<notin> wg_key ` set (au_wiregrams db)" and agents: "distinct (map fst (au_agents db))"
  shows "export_wiregram db' (wd_key d) (wd_name d) (wd_description d)
     (filter (owned_by wg) (au_schedules db')) (filter (owned_by wg) (au_triggers db')) = Inr (settled d)"
proof -
  let ?es = "enabled_in (map (\<lambda>s. (ws_key s, ws_enabled s)) (wd_schedules d))"
  let ?et = "enabled_in (map (\<lambda>t. (wt_key t, wt_enabled t)) (wd_triggers d))"
  obtain ss ts gs n scheds n1 trigs n2 where ok: "check_document d = Inr ()"
      and an: "answers ws_key (schedule_wanted w db) (wd_schedules d) ss" "answers wt_key (trigger_wanted w db) (wd_triggers d) ts"
      and put: "put_wiregram c d db = (wg, db\<lparr>au_wiregrams := gs, au_next := n\<rparr>)"
      and sc: "bring_in_line wg c ?es ss (au_schedules db, n) = (scheds, n1)"
      and tr: "bring_in_line wg c ?et ts (au_triggers db, n1) = (trigs, n2)"
      and db': "au_schedules db' = scheds" "au_triggers db' = trigs" and offers: "same_offers db db'"
    using import_rows [OF assms(2)] by (elim exE conjE) (rule that, assumption+)
  have agents': "au_agents db' = au_agents db" using offers by (simp add: same_offers_def)
  have "find (\<lambda>g. wg_key g = wd_key d) (au_wiregrams db) = None" using fresh by (force simp: find_None_iff)
  then have wg: "wg = au_next db" using put unfolding put_wiregram_def by auto
  have none: "list_all (\<lambda>r. \<not> owned_by wg r) rs"
    if "rows_kept (map wg_pk (au_wiregrams db)) (au_next db) sound rs" for sound and rs :: "schedule list"
    using rows_kept_owner [OF that] kept wg by (fastforce simp: list_all_iff owned_by_def rules_kept_def)
  have none': "list_all (\<lambda>r. \<not> owned_by wg r) rs"
    if "rows_kept (map wg_pk (au_wiregrams db)) (au_next db) sound rs" for sound and rs :: "trigger list"
    using rows_kept_owner [OF that] kept wg by (fastforce simp: list_all_iff owned_by_def rules_kept_def)
  have ds: "distinct (map ws_key (wd_schedules d))" "distinct (map wt_key (wd_triggers d))"
    using check_document_keys [OF ok] by simp_all
  then have dist: "distinct (map fst ss)" "distinct (map fst ts)" using answers_keys [OF an(1)] answers_keys [OF an(2)] by simp_all
  note S = bring_in_line_fresh [OF dist(1) none [of schedule_sound "au_schedules db"], where c = c and e = ?es and n = n]
  note T = bring_in_line_fresh [OF dist(2) none' [of trigger_sound "au_triggers db"], where c = c and e = ?et and n = n1]
  have rows: "filter (owned_by wg) scheds = new_rules wg c ?es n ss" "filter (owned_by wg) trigs = new_rules wg c ?et n1 ts"
    using S T sc tr kept by (auto simp: rules_kept_def)
  have keys: "list_all (\<lambda>s. ws_key s \<noteq> [] \<and> ?es (ws_key s) = ws_enabled s) (wd_schedules d)"
    "list_all (\<lambda>t. wt_key t \<noteq> [] \<and> ?et (wt_key t) = wt_enabled t) (wd_triggers d)"
    using ok enabled_in_key [OF ds(1)] enabled_in_key [OF ds(2)]
    by (auto simp: list_all_iff check_document_def result_iff check_wire_schedule_def check_wire_trigger_def dest: key_length_given)
  have form: "\<lparr>wd_key = wd_key d, wd_name = wd_name d, wd_description = wd_description d,
      wd_schedules = map (\<lambda>s. s\<lparr>ws_args := Some (or_nil (ws_args s))\<rparr>) (wd_schedules d),
      wd_triggers = map (\<lambda>t. t\<lparr>wt_args := Some (or_nil (wt_args t))\<rparr>) (wd_triggers d)\<rparr> = settled d"
    by (cases d) (simp add: settled_def)
  show ?thesis
    using export_new_schedules [OF an(1) agents agents' keys(1)] export_new_triggers [OF an(2) agents agents' keys(2)] check_settled [OF ok]
    by (simp add: export_wiregram_def db' rows form Let_def)
qed

end
