(* ===== verification/Automation_Properties.thy ===== *)
theory Automation_Properties
  imports Automation_Runs Automation_Export
begin

text \<open>What holds of an organization's automation, with a concrete organization, document and history.\<close>

section \<open>Imports\<close>

text \<open>
  C6. After an import every rule of the document is in place under its key with the fields the document asks for: the rule that
  had the key, with its id and switch, or a new one of the importing caller with the document's switch. The wiregram owns no other rule,
  and the rules it does not own are as they were.
\<close>

theorem import_brings_in_line:
  assumes "rules_kept db" and "import_wiregram w caller d db = (Inr wg, db')"
  shows "list_all (\<lambda>s. \<exists>f. schedule_wanted w db s = Inr f \<and>
             in_line wg caller (ws_enabled s) (ws_key s) f (au_schedules db) (au_schedules db')) (wd_schedules d) \<and>
         list_all (\<lambda>t. \<exists>f. trigger_wanted w db t = Inr f \<and>
             in_line wg caller (wt_enabled t) (wt_key t) f (au_triggers db) (au_triggers db')) (wd_triggers d) \<and>
         (\<forall>r. r \<in> set (au_schedules db') \<and> owned_by wg r \<longrightarrow> ru_wire_key r \<in> Some ` ws_key ` set (wd_schedules d)) \<and>
         (\<forall>r. r \<in> set (au_triggers db') \<and> owned_by wg r \<longrightarrow> ru_wire_key r \<in> Some ` wt_key ` set (wd_triggers d)) \<and>
         filter (\<lambda>r. \<not> owned_by wg r) (au_schedules db') = filter (\<lambda>r. \<not> owned_by wg r) (au_schedules db) \<and>
         filter (\<lambda>r. \<not> owned_by wg r) (au_triggers db') = filter (\<lambda>r. \<not> owned_by wg r) (au_triggers db)"
proof -
  let ?es = "enabled_in (map (\<lambda>s. (ws_key s, ws_enabled s)) (wd_schedules d))"
  let ?et = "enabled_in (map (\<lambda>t. (wt_key t, wt_enabled t)) (wd_triggers d))"
  obtain ss ts gs n scheds n1 trigs n2 where ok: "check_document d = Inr ()"
      and an: "answers ws_key (schedule_wanted w db) (wd_schedules d) ss" "answers wt_key (trigger_wanted w db) (wd_triggers d) ts"
      and sc: "bring_in_line wg caller ?es ss (au_schedules db, n) = (scheds, n1)"
      and tr: "bring_in_line wg caller ?et ts (au_triggers db, n1) = (trigs, n2)"
      and db': "au_schedules db' = scheds" "au_triggers db' = trigs"
    using import_rows [OF assms(2)] by (elim exE conjE) (rule that, assumption+)
  note dist = check_document_keys [OF ok]
  note ks = answers_keys [OF an(1)] note kt = answers_keys [OF an(2)]
  have S: "\<exists>f. schedule_wanted w db s = Inr f \<and> in_line wg caller (ws_enabled s) (ws_key s) f (au_schedules db) scheds" if s: "s \<in> set (wd_schedules d)" for s
  proof -
    obtain f where f: "schedule_wanted w db s = Inr f" "(ws_key s, f) \<in> set ss" using answers_given [OF an(1) s] by blast
    have "placed wg caller (?es (ws_key s)) (ws_key s) f (au_schedules db) scheds"
      using bring_in_line_placed [OF _ f(2), of wg caller ?es "au_schedules db" n] dist ks sc by simp
    then have "placed wg caller (ws_enabled s) (ws_key s) f (au_schedules db) scheds"
      using enabled_in_key [OF conjunct1 [OF dist] s] by simp
    with f(1) show ?thesis by (blast intro: placed_in_line)
  qed
  have T: "\<exists>f. trigger_wanted w db t = Inr f \<and> in_line wg caller (wt_enabled t) (wt_key t) f (au_triggers db) trigs" if t: "t \<in> set (wd_triggers d)" for t
  proof -
    obtain f where f: "trigger_wanted w db t = Inr f" "(wt_key t, f) \<in> set ts" using answers_given [OF an(2) t] by blast
    have "placed wg caller (?et (wt_key t)) (wt_key t) f (au_triggers db) trigs"
      using bring_in_line_placed [OF _ f(2), of wg caller ?et "au_triggers db" n1] dist kt tr by simp
    then have "placed wg caller (wt_enabled t) (wt_key t) f (au_triggers db) trigs"
      using enabled_in_key [OF conjunct2 [OF dist] t] by simp
    with f(1) show ?thesis by (blast intro: placed_in_line)
  qed
  have K: "fst ` set ss = ws_key ` set (wd_schedules d)" "fst ` set ts = wt_key ` set (wd_triggers d)"
    using ks kt by (metis set_map)+
  show ?thesis
    using S T bring_in_line_keys [of wg ss caller ?es "au_schedules db" n] bring_in_line_keys [of wg ts caller ?et "au_triggers db" n1]
      bring_in_line_others [of wg caller ?es ss "au_schedules db" n] bring_in_line_others [of wg caller ?et ts "au_triggers db" n1]
    by (simp add: list_all_iff db' sc tr K)
qed

text \<open>
  An import leaves the rules it updates with the caller who first imported them, and makes the wiregram the new caller's. A
  rule's runs are assigned as the rule's caller, while the documentation of the wiregram's caller says that the runs of its rules
  are assigned as who imported it last.
\<close>

theorem reimport_keeps_caller:
  assumes "rules_kept db" and "import_wiregram w caller d db = (Inr wg, db')"
    and "r \<in> set (au_schedules db)" and "named_rule wg k r" and "k \<in> ws_key ` set (wd_schedules d)"
  shows "(\<exists>r' \<in> set (au_schedules db'). ru_pk r' = ru_pk r \<and> ru_caller r' = ru_caller r) \<and>
     (\<exists>g \<in> set (au_wiregrams db'). wg_pk g = wg \<and> wg_caller g = caller)"
proof -
  obtain ss ts gs n scheds n1 trigs n2 where ok: "check_document d = Inr ()"
      and an: "answers ws_key (schedule_wanted w db) (wd_schedules d) ss"
      and put: "put_wiregram caller d db = (wg, db\<lparr>au_wiregrams := gs, au_next := n\<rparr>)"
      and sc: "bring_in_line wg caller (enabled_in (map (\<lambda>s. (ws_key s, ws_enabled s)) (wd_schedules d))) ss (au_schedules db, n) = (scheds, n1)"
      and db': "au_wiregrams db' = gs" "au_schedules db' = scheds"
    using import_rows [OF assms(2)] by (elim exE conjE) (rule that, assumption+)
  obtain s where "s \<in> set (wd_schedules d)" "ws_key s = k" using assms(5) by auto
  then obtain f where f: "(k, f) \<in> set ss" using answers_given [OF an] by blast
  have "distinct (map fst ss)" using check_document_keys [OF ok] answers_keys [OF an] by simp
  from bring_in_line_placed [OF this f, of wg caller "enabled_in (map (\<lambda>s. (ws_key s, ws_enabled s)) (wd_schedules d))" "au_schedules db" n]
  have "placed wg caller (enabled_in (map (\<lambda>s. (ws_key s, ws_enabled s)) (wd_schedules d)) k) k f (au_schedules db) scheds"
    using sc by simp
  moreover have "rule_at wg (au_schedules db) k = Some r"
    using assms(1,3,4) by (intro rule_at_unique [of "map wg_pk (au_wiregrams db)" "au_next db" schedule_sound]) (simp_all add: rules_kept_def)
  ultimately have "rule_at wg scheds k = Some (r\<lparr>ru_fields := f\<rparr>)" by (simp add: placed_def)
  then have "r\<lparr>ru_fields := f\<rparr> \<in> set (au_schedules db')" using rule_at_named [of wg scheds k] db'(2) by blast
  moreover have "ru_pk (r\<lparr>ru_fields := f\<rparr>) = ru_pk r" "ru_caller (r\<lparr>ru_fields := f\<rparr>) = ru_caller r" by simp_all
  moreover have "\<exists>g \<in> set (au_wiregrams db'). wg_pk g = wg \<and> wg_caller g = caller"
    using put_wiregram_caller [OF put] db'(1) by simp
  ultimately show ?thesis by blast
qed


text \<open>C37. The rules of a first import, exported, are the document.\<close>

theorem import_export_roundtrip:
  assumes "rules_kept db" and "import_wiregram w caller d db = (Inr wg, db')"
    and "wd_key d \<notin> wg_key ` set (au_wiregrams db)" and "distinct (map fst (au_agents db))"
  shows "export_wiregram db' (wd_key d) (wd_name d) (wd_description d)
     (filter (owned_by wg) (au_schedules db')) (filter (owned_by wg) (au_triggers db')) = Inr (settled d)"
  by (rule export_first_import [OF assms])

section \<open>Histories\<close>

text \<open>C8. The tables are kept by every history.\<close>

theorem automation_keeps_rules:
  assumes "(automation_step w)\<^sup>*\<^sup>* db db'" and "rules_kept db"
  shows "rules_kept db'"
  using assms by (induction rule: rtranclp_induct) (auto intro: automation_step_kept)

text \<open>C7. A schedule that goes takes its waiting run with it.\<close>

theorem removed_runs_are_dropped:
  assumes "rules_kept db" and "handle w q db = (res, db')"
    and "r \<in> set (au_schedules db)" and "ru_pk r \<notin> ru_pk ` set (au_schedules db')" and "au_waiting db (ru_pk r) = Some run"
  shows "Drop_Run run \<in> set (au_notices db')"
proof -
  have db': "db' = snd (handle w q db)" using assms(2) by simp
  have there: "ru_pk r \<in> set (map ru_pk (au_schedules db))" using assms(3) by simp
  show ?thesis
  proof (cases q)
    case (Create_Schedule c e f)
    with there assms(4) db' show ?thesis using create_schedule_pks [of db w c e f] by auto
  next
    case (Update_Schedule pk p)
    have "set (map ru_pk (au_schedules db')) = set (map ru_pk (au_schedules db))"
      using update_schedule_pks [of w pk p db] db' Update_Schedule by (simp only: handle.simps)
    with there assms(4) show ?thesis by simp
  next
    case (Delete_Schedule pk)
    with assms db' show ?thesis using delete_schedule_leaves [of r db pk run] by simp
  next
    case (Import_Wiregram c d)
    with assms db' show ?thesis using import_wiregram_leaves [of db r w c d run] by simp
  next
    case (Delete_Wiregram wg)
    with assms db' show ?thesis
      using delete_wiregram_leaves [of r db wg run] by (auto simp: delete_wiregram_request_def split: if_splits)
  qed (use assms(3,4) db' in auto)
qed

section \<open>Changes\<close>

lemma scoped_rule_find:
  "rows_kept wgs n sound rs \<Longrightarrow> r \<in> set rs \<Longrightarrow> scoped_rule what rs (ru_pk r) = Inr r"
proof (cases "find (\<lambda>s. ru_pk s = ru_pk r) rs")
  case None
  moreover assume "r \<in> set rs"
  ultimately show ?thesis by (auto simp: find_None_iff)
next
  case (Some r')
  assume "rows_kept wgs n sound rs" "r \<in> set rs"
  moreover have "r' \<in> set rs" "ru_pk r' = ru_pk r" using Some by (auto simp: find_Some_iff)
  ultimately have "r' = r" by (auto simp: rows_kept_def distinct_map dest: inj_onD)
  with Some show ?thesis by (simp add: scoped_rule_def)
qed

text \<open>C39. A change is told as an import tells it.\<close>

theorem update_schedule_tells:
  assumes "rules_kept db" and "update_schedule w pk p db = (Inr x, db')"
    and "list_all (\<lambda>r. wf_json (JObj (sf_args (ru_fields r)))) (au_schedules db)"
  shows "\<exists>r r'. scoped_rule what (au_schedules db) pk = Inr r \<and> scoped_rule what (au_schedules db') pk = Inr r' \<and>
     au_notices db' = au_notices db @ [Plan pk (retimes (ru_fields r) (ru_fields r') \<or> ru_enabled r \<noteq> ru_enabled r')]"
proof -
  obtain r r' changed where r: "r \<in> set (au_schedules db)" "ru_pk r = pk"
      and ch: "fold id (schedule_changes p) (r, []) = (r', changed)"
      and db': "db' = notify (Plan pk (list_ex (\<lambda>c. c \<notin> set untold) changed))
        (db\<lparr>au_schedules := map (\<lambda>s. if ru_pk s = pk then r' else s) (au_schedules db)\<rparr>)"
    using update_schedule_Inr [OF assms(2)] by (elim exE conjE) (rule that)
  have kept: "rules_kept db'" using update_schedule_kept [OF assms(1), of w pk p] assms(2) by simp
  have r': "r' \<in> set (au_schedules db')" "ru_pk r' = pk"
    using r schedule_patch_rest(1) [OF ch] db' by (auto simp: notify_def)
  have found: "scoped_rule what (au_schedules db) pk = Inr r" "scoped_rule what (au_schedules db') pk = Inr r'"
    using scoped_rule_find [of _ _ schedule_sound, OF _ r(1)] scoped_rule_find [of _ _ schedule_sound, OF _ r'(1)] assms(1) kept r(2) r'(2)
    by (auto simp: rules_kept_def)
  have "wf_json (JObj (sf_args (ru_fields r)))" using assms(3) r(1) by (simp only: list_all_iff)
  note args = differs_args [OF this, of "sp_args p"]
  note terms = schedule_patch_terms [OF ch]
  have "list_ex (\<lambda>c. c \<notin> set untold) changed \<longleftrightarrow> retimes (ru_fields r) (ru_fields r') \<or> ru_enabled r \<noteq> ru_enabled r'"
    unfolding schedule_patch_told [OF ch] schedule_terms_def retimes_def
    by (simp add: terms differs_iff args del: py_eq.simps wf_json.simps) argo
  with found db' show ?thesis by (simp add: notify_def)
qed

section \<open>Problems\<close>

text \<open>The exceptions of the rules that cannot be, each with its rule's label, in the document's order.\<close>

definition failures :: "('r \<Rightarrow> message) \<Rightarrow> ('r \<Rightarrow> 'f result) \<Rightarrow> 'r list \<Rightarrow> (message \<times> py_error) list" where
  "failures label wanted rs = concat (map (\<lambda>r. case wanted r of Inl e \<Rightarrow> [(label r, e)] | Inr f \<Rightarrow> []) rs)"

definition document_failures :: "rule_world \<Rightarrow> automation \<Rightarrow> wiregram_doc \<Rightarrow> (message \<times> py_error) list" where
  "document_failures w db d =
     failures schedule_label (schedule_wanted w db) (wd_schedules d) @ failures trigger_label (trigger_wanted w db) (wd_triggers d)"

definition uncaught :: "(message \<times> py_error) list \<Rightarrow> (message \<times> py_error) option" where
  "uncaught = find (\<lambda>(label, e). \<not> is_value_error e)"

lemma collect_failures:
  "case uncaught (failures label wanted rs) of
     Some (l, e) \<Rightarrow> collect key label wanted rs (fs, ps) = Inl e
   | None \<Rightarrow> (\<exists>gs. collect key label wanted rs (fs, ps) = Inr (gs, ps @ map (\<lambda>(l, e). told l e) (failures label wanted rs)))"
proof (induction rs arbitrary: fs ps)
  case (Cons r rs)
  show ?case
  proof (cases "wanted r")
    case (Inl e)
    then have step: "failures label wanted (r # rs) = (label r, e) # failures label wanted rs"
      "collect key label wanted (r # rs) (fs, ps) =
        (if is_value_error e then collect key label wanted rs (fs, ps @ [told (label r) e]) else Inl e)"
      by (simp_all add: collect_def failures_def)
    show ?thesis
      using Cons.IH [of fs "ps @ [told (label r) e]"] unfolding step by (auto simp: uncaught_def split: option.splits)
  next
    case (Inr f)
    then have step: "failures label wanted (r # rs) = failures label wanted rs"
      "collect key label wanted (r # rs) (fs, ps) = collect key label wanted rs (fs @ [(key r, f)], ps)"
      by (simp_all add: collect_def failures_def)
    show ?thesis unfolding step by (rule Cons.IH)
  qed
qed (simp add: collect_def failures_def uncaught_def)

text \<open>
  C40. A document with a rule that cannot be is refused and nothing is written: with one error that tells what is wrong with each such
  rule, in order and after the rule's label, unless one fails with an exception that is not a ValueError (args that do not hash), the first of
  which is raised as it is.
\<close>

theorem import_names_every_problem:
  assumes "check_document d = Inr ()" and "document_failures w db d \<noteq> []"
  shows "import_wiregram w caller d db =
    (Inl (case uncaught (document_failures w db d) of
       Some (label, e) \<Rightarrow> e
     | None \<Rightarrow> ValueError (Txt ''The wiregram cannot be imported. '' # join_problems (map (\<lambda>(label, e). told label e) (document_failures w db d)))), db)"
proof -
  let ?fs = "failures schedule_label (schedule_wanted w db) (wd_schedules d)"
  let ?ft = "failures trigger_label (trigger_wanted w db) (wd_triggers d)"
  have split: "uncaught (?fs @ ?ft) = (case uncaught ?fs of None \<Rightarrow> uncaught ?ft | Some x \<Rightarrow> Some x)"
    unfolding uncaught_def by (rule find_in_append)
  note scheds = collect_failures [where label = schedule_label and wanted = "schedule_wanted w db" and rs = "wd_schedules d" and key = ws_key and fs = "[]" and ps = "[]"]
  have "wanted_rules w db d = Inl (case uncaught (?fs @ ?ft) of Some (label, e) \<Rightarrow> e
     | None \<Rightarrow> ValueError (Txt ''The wiregram cannot be imported. '' # join_problems (map (\<lambda>(label, e). told label e) (?fs @ ?ft))))"
  proof (cases "uncaught ?fs")
    case (Some le)
    with scheds show ?thesis by (cases le) (simp add: wanted_rules_def split)
  next
    case None
    then obtain ss where ss: "collect ws_key schedule_label (schedule_wanted w db) (wd_schedules d) ([], []) = Inr (ss, map (\<lambda>(l, e). told l e) ?fs)"
      using scheds by auto
    note trigs = collect_failures [where label = trigger_label and wanted = "trigger_wanted w db" and rs = "wd_triggers d" and key = wt_key
      and fs = "[]" and ps = "map (\<lambda>(l, e). told l e) ?fs"]
    show ?thesis
    proof (cases "uncaught ?ft")
      case (Some le)
      with trigs show ?thesis by (cases le) (simp add: wanted_rules_def split None ss)
    next
      case none: None
      then obtain ts where "collect wt_key trigger_label (trigger_wanted w db) (wd_triggers d) ([], map (\<lambda>(l, e). told l e) ?fs) =
          Inr (ts, map (\<lambda>(l, e). told l e) ?fs @ map (\<lambda>(l, e). told l e) ?ft)" using trigs by auto
      then show ?thesis using assms(2) by (auto simp: wanted_rules_def split None none ss document_failures_def)
    qed
  qed
  then have "and_then (check_document d) (\<lambda>_. wanted_rules w db d) = Inl (case uncaught (document_failures w db d) of Some (label, e) \<Rightarrow> e
     | None \<Rightarrow> ValueError (Txt ''The wiregram cannot be imported. '' # join_problems (map (\<lambda>(label, e). told label e) (document_failures w db d))))"
    unfolding document_failures_def using assms(1) by (simp only: and_then.simps)
  then show ?thesis by (simp only: import_wiregram_def sum.case)
qed

end
