(* ===== verification/Automation_Examples.thy ===== *)
theory Automation_Examples
  imports Automation_Properties
begin

text \<open>A laboratory with two agents, the document it imports, and the properties at work on it.\<close>

definition lab_world :: rule_world where
  "lab_world = \<lparr>rw_timing = \<lambda>i c tz. (i = None) \<noteq> (c = None), rw_strict = True, rw_retention = 3600,
     rw_float_text = \<lambda>r. ''0.5'', rw_iso_date = \<lambda>s. False\<rparr>"

definition scan_port :: arg_port where
  "scan_port = ArgPort ((example_base ''scan'' K_STRUCTURE)\<lparr>pt_identifier := Some ''@mikro/image''\<rparr>) None JNull None None None"

definition lab :: automation where
  "lab = \<lparr>au_actions = [5, 6], au_agents = [(1, ''kuvert''), (2, ''segment'')],
     au_implementations = [\<lparr>ri_agent = 1, ri_interface = ''sync'', ri_action = 5, ri_needs_token = False\<rparr>,
       \<lparr>ri_agent = 2, ri_interface = ''run'', ri_action = 6, ri_needs_token = False\<rparr>],
     au_args = (\<lambda>a. if a = 6 then [scan_port] else []),
     au_signals = [\<lparr>dc_kind = ''CREATED'', dc_identifier = ''@mikro/image'', dc_keys = [''size'']\<rparr>],
     au_schedules = [], au_triggers = [], au_wiregrams = [], au_next = 1, au_waiting = (\<lambda>s. None), au_notices = []\<rparr>"

definition nightly :: "string \<Rightarrow> int \<Rightarrow> wire_schedule" where
  "nightly key seconds = \<lparr>ws_key = key, ws_name = ''Nightly sync'', ws_description = None, ws_agent = ''kuvert'', ws_interface = ''sync'',
     ws_args = None, ws_enabled = True, ws_ends_at = None, ws_max_runs = None, ws_policy = ''AUTO'', ws_interval = Some seconds,
     ws_cron = None, ws_timezone = ''UTC'', ws_ephemeral = False, ws_overlap = ''SKIP'', ws_catch_up = False\<rparr>"

definition on_scan :: wire_trigger where
  "on_scan = \<lparr>wt_key = ''scan'', wt_name = ''Segment'', wt_description = None, wt_agent = ''segment'', wt_interface = ''run'',
     wt_args = None, wt_enabled = False, wt_ends_at = None, wt_max_runs = Some 3, wt_policy = ''ASK'', wt_kind = ''CREATED'',
     wt_identifier = ''@mikro/image'', wt_port = ''scan'', wt_conditions = [\<lparr>dd_key = ''size'', dd_operator = GTE, dd_value = JInt 3\<rparr>],
     wt_debounce = Some 60\<rparr>"

definition lab_document :: "wire_schedule list \<Rightarrow> wiregram_doc" where
  "lab_document ss = \<lparr>wd_key = ''lab'', wd_name = ''Lab'', wd_description = None, wd_schedules = ss, wd_triggers = [on_scan]\<rparr>"

definition lab_one :: automation where
  "lab_one = (snd (import_wiregram lab_world 7 (lab_document [nightly ''a'' 60, nightly ''b'' 60]) lab))
     \<lparr>au_waiting := (\<lambda>s. if s = 3 then Some 40 else None)\<rparr>"

lemma lab_kept: "rules_kept lab"
  by (simp add: lab_def rules_kept_def rows_kept_def)

lemma lab_imports:
  "fst (import_wiregram lab_world 7 (lab_document [nightly ''a'' 60, nightly ''b'' 60]) lab) = Inr 1"
  by code_simp

definition lab_first :: wiregram_doc where
  "lab_first = lab_document [nightly ''a'' 60, nightly ''b'' 60]"

definition lab_second :: wiregram_doc where
  "lab_second = lab_document [nightly ''a'' 30]"

lemma lab_import: "import_wiregram lab_world 7 lab_first lab = (Inr 1, snd (import_wiregram lab_world 7 lab_first lab))"
  using lab_imports by (simp add: prod_eq_iff lab_first_def)

lemma lab_one_kept: "rules_kept lab_one"
  using import_kept(1) [OF lab_kept lab_import] by (simp add: lab_one_def lab_first_def rules_kept_def)

lemma lab_changed: "import_wiregram lab_world 8 lab_second lab_one = (Inr 1, snd (import_wiregram lab_world 8 lab_second lab_one))"
proof -
  have "fst (import_wiregram lab_world 8 lab_second lab_one) = Inr 1" by code_simp
  then show ?thesis by (simp add: prod_eq_iff)
qed

theorem import_brings_in_line_witness:
  "\<exists>f. schedule_wanted lab_world lab_one (nightly ''a'' 30) = Inr f \<and>
     in_line 1 8 True ''a'' f (au_schedules lab_one) (au_schedules (snd (import_wiregram lab_world 8 lab_second lab_one)))"
  using import_brings_in_line [OF lab_one_kept lab_changed]
  by (simp add: lab_second_def lab_document_def nightly_def)

theorem reimport_keeps_caller_witness:
  "(\<exists>r' \<in> set (au_schedules (snd (import_wiregram lab_world 8 lab_second lab_one))). ru_pk r' = 2 \<and> ru_caller r' = 7) \<and>
   (\<exists>g \<in> set (au_wiregrams (snd (import_wiregram lab_world 8 lab_second lab_one))). wg_pk g = 1 \<and> wg_caller g = 8)"
proof -
  have r: "length (au_schedules lab_one) = 2" "ru_pk (au_schedules lab_one ! 0) = 2" "ru_caller (au_schedules lab_one ! 0) = 7"
    "named_rule 1 ''a'' (au_schedules lab_one ! 0)" by code_simp+
  moreover have "''a'' \<in> ws_key ` set (wd_schedules lab_second)" by (simp add: lab_second_def lab_document_def nightly_def)
  ultimately show ?thesis
    using reimport_keeps_caller [OF lab_one_kept lab_changed, of "au_schedules lab_one ! 0" "''a''"] by simp
qed


theorem import_export_roundtrip_witness:
  "export_wiregram (snd (import_wiregram lab_world 7 lab_first lab)) ''lab'' ''Lab'' None
     (filter (owned_by 1) (au_schedules (snd (import_wiregram lab_world 7 lab_first lab))))
     (filter (owned_by 1) (au_triggers (snd (import_wiregram lab_world 7 lab_first lab)))) = Inr (settled lab_first)"
proof -
  have "wd_key lab_first \<notin> wg_key ` set (au_wiregrams lab)" "distinct (map fst (au_agents lab))" by (simp_all add: lab_def)
  from import_export_roundtrip [OF lab_kept lab_import this] show ?thesis by (simp add: lab_first_def lab_document_def)
qed

theorem automation_keeps_rules_witness:
  "rules_kept ((snd (import_wiregram lab_world 7 lab_first lab))\<lparr>au_waiting := (\<lambda>s. Some 40), au_notices := []\<rparr>)"
proof -
  let ?db = "snd (import_wiregram lab_world 7 lab_first lab)"
  have "automation_step lab_world lab ?db"
    using lab_import by (intro Handled [of lab_world "Import_Wiregram 7 lab_first" _ "Inr 1"]) simp
  moreover have "automation_step lab_world ?db (?db\<lparr>au_waiting := (\<lambda>s. Some 40), au_notices := []\<rparr>)" by (rule Heard)
  ultimately have "(automation_step lab_world)\<^sup>*\<^sup>* lab (?db\<lparr>au_waiting := (\<lambda>s. Some 40), au_notices := []\<rparr>)" by auto
  from automation_keeps_rules [OF this lab_kept] show ?thesis .
qed

theorem removed_runs_are_dropped_witness:
  "Drop_Run 40 \<in> set (au_notices (snd (import_wiregram lab_world 8 lab_second lab_one)))"
proof -
  have "length (au_schedules lab_one) = 2" "ru_pk (au_schedules lab_one ! 1) = 3" "au_waiting lab_one 3 = Some 40"
    "3 \<notin> set (map ru_pk (au_schedules (snd (import_wiregram lab_world 8 lab_second lab_one))))"
    by code_simp+
  then show ?thesis
    using lab_changed
    by (intro removed_runs_are_dropped [OF lab_one_kept, of lab_world "Import_Wiregram 8 lab_second" "Inr 1" _ "au_schedules lab_one ! 1"])
      (simp_all del: length_greater_0_conv)
qed

definition slower :: schedule_patch where
  "slower = \<lparr>sp_name = Some ''Renamed'', sp_action = None, sp_agent = None, sp_interface = None, sp_ephemeral = None, sp_args = None,
     sp_interval = Some 90, sp_cron = None, sp_timezone = None, sp_enabled = None, sp_description = None, sp_ends_at = None,
     sp_max_runs = None, sp_overlap = None, sp_catch_up = None, sp_policy = None\<rparr>"

theorem update_schedule_tells_witness:
  "\<exists>r r'. scoped_rule ''schedule'' (au_schedules lab_one) 2 = Inr r \<and>
     scoped_rule ''schedule'' (au_schedules (snd (update_schedule lab_world 2 slower lab_one))) 2 = Inr r' \<and>
     au_notices (snd (update_schedule lab_world 2 slower lab_one)) =
       au_notices lab_one @ [Plan 2 (retimes (ru_fields r) (ru_fields r') \<or> ru_enabled r \<noteq> ru_enabled r')]"
proof -
  have "fst (update_schedule lab_world 2 slower lab_one) = Inr 2" by code_simp
  then have up: "update_schedule lab_world 2 slower lab_one = (Inr 2, snd (update_schedule lab_world 2 slower lab_one))"
    by (simp add: prod_eq_iff)
  have "map (\<lambda>r. sf_args (ru_fields r)) (au_schedules lab_one) = [[], []]" by code_simp
  then have "list_all (\<lambda>r. wf_json (JObj (sf_args (ru_fields r)))) (au_schedules lab_one)"
    by (auto simp: map_eq_Cons_conv)
  from update_schedule_tells [OF lab_one_kept up this] show ?thesis .
qed

theorem import_names_every_problem_witness:
  "import_wiregram lab_world 7 (lab_document [nightly ''a'' 60, (nightly ''b'' 60)\<lparr>ws_agent := ''none''\<rparr>, (nightly ''c'' 60)\<lparr>ws_max_runs := Some 2, ws_interface := ''x''\<rparr>]) lab =
     (Inl (ValueError [Txt ''The wiregram cannot be imported. '',
        Txt ''Schedule '', repr_str ''b'', Txt '': this organization has no agent named '', repr_str ''none'', Txt '' | '',
        Txt ''Schedule '', repr_str ''c'', Txt '': the agent '', repr_str ''kuvert'', Txt '' has no interface '', repr_str ''x'']), lab)"
proof -
  let ?d = "lab_document [nightly ''a'' 60, (nightly ''b'' 60)\<lparr>ws_agent := ''none''\<rparr>, (nightly ''c'' 60)\<lparr>ws_max_runs := Some 2, ws_interface := ''x''\<rparr>]"
  have ok: "check_document ?d = Inr ()" by code_simp
  have "length (document_failures lab_world lab ?d) = 2" by code_simp
  then have some: "document_failures lab_world lab ?d \<noteq> []" by auto
  have told: "uncaught (document_failures lab_world lab ?d) = None"
    "map (\<lambda>(label, e). told label e) (document_failures lab_world lab ?d) =
       [[Txt ''Schedule '', repr_str ''b'', Txt '': this organization has no agent named '', repr_str ''none''],
        [Txt ''Schedule '', repr_str ''c'', Txt '': the agent '', repr_str ''kuvert'', Txt '' has no interface '', repr_str ''x'']]"
    by code_simp+
  show ?thesis using import_names_every_problem [OF ok some, of 7] unfolding told by simp
qed

end
