(* ===== verification/Resolve.thy ===== *)
theory Resolve
  imports Json
begin

text \<open>
  Resolving the dependencies of an implementation by itself (\<open>auto_resolve\<close> of \<open>src/facade/logic.py\<close>): for every
  dependency the first agent that meets its demands, and of that agent the implementations of the demanded
  actions, each resolved in turn with its own dependencies. What a demand matches is asked of the matching
  engine: a need carries its answer, the ids it found or the error it raised. The agents are those of the
  requester's organization, as the query lists them, the implementations all there are. Of the rows written,
  names, users and generated keys are left out.
\<close>

section \<open>What is there\<close>

text \<open>An action demand with the ids of the actions that match it, or what the matching engine raised for it.\<close>

record action_need =
  nd_key :: string
  nd_actions :: "py_error + nat list"

definition matched :: "action_need \<Rightarrow> nat list" where
  "matched n = (case nd_actions n of Inl e \<Rightarrow> [] | Inr ids \<Rightarrow> ids)"

text \<open>
  A state demand: none given, one the matching engine refuses, one no definition matches, or the agents that
  have such a state.
\<close>

datatype state_need = No_Demand | Demand_Refused py_error | No_Definitions | Held_By "nat list"

record needed =
  dr_pk :: nat
  dr_key :: string
  dr_actions :: "action_need list"
  dr_states :: "state_need list"
  dr_prefered :: "int option"

record viable =
  vi_pk :: nat
  vi_agent :: nat
  vi_action :: nat

record resolve_world =
  vw_agents :: "nat list"
  vw_implementations :: "viable list"
  vw_dependencies :: "nat \<Rightarrow> needed list"

text \<open>What is written: resolutions with the implementation they are of, and the choices made in them.\<close>

record dependency_choice =
  ch_resolution :: nat
  ch_dependency :: nat
  ch_key :: string
  ch_implementation :: nat
  ch_down :: "nat option"

record resolving =
  rv_visited :: "nat list"
  rv_resolutions :: "(nat \<times> nat) list"
  rv_choices :: "dependency_choice list"
  rv_fresh :: nat

section \<open>Running\<close>

text \<open>
  A run: what it returns or raises and what it has written by then (nothing is undone, there is no
  transaction); \<open>None\<close> is a run that has used up its fuel.
\<close>

type_synonym run = "(check \<times> resolving) option"

definition then_run :: "run \<Rightarrow> (resolving \<Rightarrow> run) \<Rightarrow> run" where
  "then_run m f = (case m of None \<Rightarrow> None | Some (Inl e, s) \<Rightarrow> Some (Inl e, s) | Some (Inr u, s) \<Rightarrow> f s)"

definition checked_run :: "check \<Rightarrow> resolving \<Rightarrow> run" where
  "checked_run c s = Some (c, s)"

definition new_resolution :: "nat \<Rightarrow> resolving \<Rightarrow> resolving" where
  "new_resolution impl s = s\<lparr>rv_resolutions := rv_resolutions s @ [(rv_fresh s, impl)], rv_fresh := Suc (rv_fresh s)\<rparr>"

definition take_choice :: "nat \<Rightarrow> needed \<Rightarrow> string \<Rightarrow> nat \<Rightarrow> nat option \<Rightarrow> resolving \<Rightarrow> resolving" where
  "take_choice res d key impl down s =
     s\<lparr>rv_choices := rv_choices s @ [\<lparr>ch_resolution = res, ch_dependency = dr_pk d, ch_key = key, ch_implementation = impl, ch_down = down\<rparr>]\<rparr>"

definition mark_visited :: "nat \<Rightarrow> resolving \<Rightarrow> resolving" where
  "mark_visited impl s = s\<lparr>rv_visited := impl # rv_visited s\<rparr>"

text \<open>One implementation that was not visited: with dependencies of its own it gets a resolution, resolved first.\<close>

definition resolve_one ::
  "(nat \<Rightarrow> nat \<Rightarrow> resolving \<Rightarrow> run) \<Rightarrow> resolve_world \<Rightarrow> nat \<Rightarrow> needed \<Rightarrow> string \<Rightarrow> nat \<Rightarrow> resolving \<Rightarrow> run" where
  "resolve_one sub w res d key impl s =
     (if vw_dependencies w impl \<noteq> []
      then let down = rv_fresh s
           in then_run (sub impl down (new_resolution impl (mark_visited impl s))) (\<lambda>s'.
              Some (Inr (), take_choice res d key impl (Some down) s'))
      else Some (Inr (), mark_visited impl (take_choice res d key impl None s)))"

fun resolve_viable ::
  "(nat \<Rightarrow> nat \<Rightarrow> resolving \<Rightarrow> run) \<Rightarrow> resolve_world \<Rightarrow> nat \<Rightarrow> needed \<Rightarrow> string \<Rightarrow> nat \<Rightarrow> nat list \<Rightarrow> resolving \<Rightarrow> run" where
  "resolve_viable sub w res d key count [] s = Some (Inr (), s)"
| "resolve_viable sub w res d key count (impl # impls) s =
     (if impl \<in> set (rv_visited s) then resolve_viable sub w res d key count impls s
      else then_run (resolve_one sub w res d key impl s) (\<lambda>s'.
        if (case dr_prefered d of None \<Rightarrow> False | Some p \<Rightarrow> p \<le> int (Suc count)) then Some (Inr (), s')
        else resolve_viable sub w res d key (Suc count) impls s'))"

definition viable_of :: "resolve_world \<Rightarrow> nat \<Rightarrow> nat list \<Rightarrow> nat list" where
  "viable_of w agent actions =
     map vi_pk (filter (\<lambda>i. vi_action i \<in> set actions \<and> vi_agent i = agent) (vw_implementations w))"

fun resolve_keys ::
  "(nat \<Rightarrow> nat \<Rightarrow> resolving \<Rightarrow> run) \<Rightarrow> resolve_world \<Rightarrow> nat \<Rightarrow> needed \<Rightarrow> nat \<Rightarrow> (string \<times> nat list) list \<Rightarrow> resolving \<Rightarrow> run" where
  "resolve_keys sub w res d agent [] s = Some (Inr (), s)"
| "resolve_keys sub w res d agent ((key, actions) # rest) s =
     then_run (resolve_viable sub w res d key 0 (viable_of w agent actions) s) (resolve_keys sub w res d agent rest)"

text \<open>\<open>matched_ids\<close>: a dict, so of a key given twice the later ids stand, at the first place.\<close>

fun matched_ids :: "(string \<times> nat list) list \<Rightarrow> action_need list \<Rightarrow> (string \<times> nat list) list" where
  "matched_ids ms [] = ms"
| "matched_ids ms (n # ns) =
     (let ids = matched n
      in matched_ids (if nd_key n \<in> fst ` set ms then map (\<lambda>(k, v). (k, if k = nd_key n then ids else v)) ms else ms @ [(nd_key n, ids)]) ns)"

definition offers_action :: "resolve_world \<Rightarrow> nat list \<Rightarrow> nat \<Rightarrow> bool" where
  "offers_action w ids a \<longleftrightarrow> list_ex (\<lambda>i. vi_agent i = a \<and> vi_action i \<in> set ids) (vw_implementations w)"

text \<open>The agents that meet every demand, in the order of the query; the first is selected.\<close>

definition fitting_agents :: "resolve_world \<Rightarrow> needed \<Rightarrow> nat list" where
  "fitting_agents w d =
     filter (\<lambda>a. list_all (\<lambda>n. offers_action w (matched n) a) (dr_actions d) \<and>
         list_all (\<lambda>n. case n of Held_By as \<Rightarrow> a \<in> set as | _ \<Rightarrow> True) (dr_states d)) (vw_agents w)"

text \<open>
  What is raised before an agent is looked for: the errors of the one query for all action demands, an
  action demand nothing matches, then the state demands in their order.
\<close>

definition check_needs :: "needed \<Rightarrow> check" where
  "check_needs d =
     run_checks
       (map (\<lambda>n. and_then (nd_actions n) (\<lambda>ids. Inr ())) (dr_actions d) @
        map (\<lambda>n. raise_if (matched n = []) (ValueError [Txt ''No actions found that match the given action demands ''])) (dr_actions d) @
        map (\<lambda>n. case n of
            Demand_Refused e \<Rightarrow> Inl e
          | No_Definitions \<Rightarrow> Inl (ValueError [Txt ''No state definitions found that match the given state demand ''])
          | _ \<Rightarrow> Inr ()) (dr_states d))"

definition resolve_dependency ::
  "(nat \<Rightarrow> nat \<Rightarrow> resolving \<Rightarrow> run) \<Rightarrow> resolve_world \<Rightarrow> nat \<Rightarrow> needed \<Rightarrow> resolving \<Rightarrow> run" where
  "resolve_dependency sub w res d s =
     then_run (checked_run (check_needs d) s) (\<lambda>s.
     case fitting_agents w d of
       [] \<Rightarrow> checked_run (Inl (ValueError [Txt ''No agent found that can satisfy dependency '', Txt (dr_key d)])) s
     | a # _ \<Rightarrow> resolve_keys sub w res d a (matched_ids [] (dr_actions d)) s)"

fun resolve_dependencies ::
  "(nat \<Rightarrow> nat \<Rightarrow> resolving \<Rightarrow> run) \<Rightarrow> resolve_world \<Rightarrow> nat \<Rightarrow> needed list \<Rightarrow> resolving \<Rightarrow> run" where
  "resolve_dependencies sub w res [] s = Some (Inr (), s)"
| "resolve_dependencies sub w res (d # ds) s =
     then_run (resolve_dependency sub w res d s) (resolve_dependencies sub w res ds)"

fun auto_resolve :: "nat \<Rightarrow> resolve_world \<Rightarrow> nat \<Rightarrow> nat \<Rightarrow> resolving \<Rightarrow> run" where
  "auto_resolve 0 w impl res s = None"
| "auto_resolve (Suc fuel) w impl res s =
     resolve_dependencies (auto_resolve fuel w) w res (vw_dependencies w impl) s"

text \<open>The mutation: a resolution of the implementation, resolved with nothing visited.\<close>

definition auto_resolve_request :: "resolve_world \<Rightarrow> nat \<Rightarrow> resolving \<Rightarrow> run" where
  "auto_resolve_request w impl s =
     (if impl \<notin> vi_pk ` set (vw_implementations w) then Some (Inl (DoesNotExist ''Implementation''), s)
      else auto_resolve (Suc (length (vw_implementations w))) w impl (rv_fresh s) (new_resolution impl (s\<lparr>rv_visited := []\<rparr>)))"

end
