(* ===== verification/Resolve_Facts.thy ===== *)
theory Resolve_Facts
  imports Resolve
begin

text \<open>
  Resolving returns or raises, since every call visits an implementation that was not; and what it has
  written by then is sound: no implementation is chosen twice, each is one the selected agent offers for a
  demand of the resolution's own implementation, and hangs on a resolution of its own when it needs one.
\<close>

section \<open>Runs return\<close>

definition unvisited :: "resolve_world \<Rightarrow> resolving \<Rightarrow> nat set" where
  "unvisited w s = vi_pk ` set (vw_implementations w) - set (rv_visited s)"

definition returns :: "run \<Rightarrow> resolving \<Rightarrow> bool" where
  "returns m s \<longleftrightarrow> (\<exists>c t. m = Some (c, t) \<and> set (rv_visited s) \<subseteq> set (rv_visited t))"

lemma returns_then:
  assumes "returns m s" and "\<And>t. set (rv_visited s) \<subseteq> set (rv_visited t) \<Longrightarrow> returns (f t) t"
  shows "returns (then_run m f) s"
proof -
  from assms(1) obtain c t where m: "m = Some (c, t)" "set (rv_visited s) \<subseteq> set (rv_visited t)" by (auto simp: returns_def)
  show ?thesis
  proof (cases c)
    case (Inl e)
    with m show ?thesis by (simp add: then_run_def returns_def)
  next
    case (Inr u)
    with m assms(2) [OF m(2)] show ?thesis by (auto simp: then_run_def returns_def)
  qed
qed

lemma returns_done [simp]: "returns (Some (c, s)) s"
  by (simp add: returns_def)

lemma returns_checked [simp]: "returns (checked_run c s) s"
  by (simp add: checked_run_def)

lemma unvisited_card: "set (rv_visited s) \<subseteq> set (rv_visited t) \<Longrightarrow> card (unvisited w t) \<le> card (unvisited w s)"
  by (rule card_mono) (auto simp: unvisited_def)

lemma unvisited_visit:
  assumes "impl \<in> vi_pk ` set (vw_implementations w)" and "impl \<notin> set (rv_visited s)"
  shows "card (unvisited w (new_resolution i (mark_visited impl s))) < card (unvisited w s)"
proof (rule psubset_card_mono)
  show "finite (unvisited w s)" by (simp add: unvisited_def)
  show "unvisited w (new_resolution i (mark_visited impl s)) \<subset> unvisited w s"
    using assms by (auto simp: unvisited_def new_resolution_def mark_visited_def)
qed

lemma viable_of_known: "set (viable_of w a ids) \<subseteq> vi_pk ` set (vw_implementations w)"
  by (auto simp: viable_of_def)

locale settling =
  fixes w :: resolve_world and sub :: "nat \<Rightarrow> nat \<Rightarrow> resolving \<Rightarrow> run" and n :: nat
  assumes settles: "card (unvisited w s) < n \<Longrightarrow> returns (sub impl res s) s"
begin

lemma one_returns:
  assumes "impl \<in> vi_pk ` set (vw_implementations w)" and "impl \<notin> set (rv_visited s)" and "card (unvisited w s) < Suc n"
  shows "returns (resolve_one sub w res d key impl s) s"
proof (cases "vw_dependencies w impl = []")
  case True
  then show ?thesis by (auto simp: resolve_one_def returns_def mark_visited_def take_choice_def)
next
  case False
  let ?s = "new_resolution impl (mark_visited impl s)"
  have "card (unvisited w ?s) < n" using unvisited_visit [OF assms(1,2), of impl] assms(3) by simp
  then obtain c t where "sub impl (rv_fresh s) ?s = Some (c, t)" "set (rv_visited ?s) \<subseteq> set (rv_visited t)"
    using settles [of ?s impl "rv_fresh s"] by (auto simp: returns_def)
  with False show ?thesis
    by (cases c) (auto simp: resolve_one_def Let_def then_run_def returns_def take_choice_def new_resolution_def mark_visited_def)
qed

lemma viable_returns:
  "set impls \<subseteq> vi_pk ` set (vw_implementations w) \<Longrightarrow> card (unvisited w s) < Suc n \<Longrightarrow>
     returns (resolve_viable sub w res d key count impls s) s"
proof (induction impls arbitrary: count s)
  case (Cons impl impls)
  have "returns (resolve_viable sub w res d key (Suc count) impls t) t" if "set (rv_visited s) \<subseteq> set (rv_visited t)" for t :: resolving
    using Cons.IH [of t "Suc count"] Cons.prems unvisited_card [OF that, of w] by simp
  moreover have "returns (resolve_one sub w res d key impl s) s" if "impl \<notin> set (rv_visited s)"
    using one_returns [OF _ that Cons.prems(2)] Cons.prems(1) by simp
  ultimately show ?case using Cons by (auto intro!: returns_then)
qed simp

lemma keys_return:
  "card (unvisited w s) < Suc n \<Longrightarrow> returns (resolve_keys sub w res d a ms s) s"
proof (induction ms arbitrary: s)
  case (Cons m ms)
  obtain key actions where m: "m = (key, actions)" by (cases m)
  have "returns (resolve_keys sub w res d a ms t) t" if "set (rv_visited s) \<subseteq> set (rv_visited t)" for t :: resolving
    using Cons.IH [of t] Cons.prems unvisited_card [OF that, of w] by simp
  then show ?case using viable_returns [OF viable_of_known Cons.prems] by (auto simp: m intro!: returns_then)
qed simp

lemma dependency_returns:
  assumes "card (unvisited w s) < Suc n"
  shows "returns (resolve_dependency sub w res d s) s"
  unfolding resolve_dependency_def
proof (rule returns_then [OF returns_checked])
  fix t :: resolving assume "set (rv_visited s) \<subseteq> set (rv_visited t)"
  then have "card (unvisited w t) < Suc n" using assms unvisited_card [of s t w] by simp
  then show "returns (case fitting_agents w d of [] \<Rightarrow> checked_run (Inl (ValueError [Txt ''No agent found that can satisfy dependency '', Txt (dr_key d)])) t
      | a # _ \<Rightarrow> resolve_keys sub w res d a (matched_ids [] (dr_actions d)) t) t"
    by (auto intro: keys_return split: list.splits)
qed

lemma dependencies_return:
  "card (unvisited w s) < Suc n \<Longrightarrow> returns (resolve_dependencies sub w res ds s) s"
proof (induction ds arbitrary: s)
  case (Cons d ds)
  have "returns (resolve_dependencies sub w res ds t) t" if "set (rv_visited s) \<subseteq> set (rv_visited t)" for t :: resolving
    using Cons.IH [of t] Cons.prems unvisited_card [OF that, of w] by simp
  then show ?case using dependency_returns [OF Cons.prems] by (auto intro!: returns_then)
qed simp

end

lemma auto_resolve_settles: "card (unvisited w s) < n \<Longrightarrow> returns (auto_resolve n w impl res s) s"
proof (induction n arbitrary: impl res s)
  case (Suc n)
  have "settling w (auto_resolve n w) n" by (rule settling.intro) (rule Suc.IH)
  from settling.dependencies_return [OF this Suc.prems] show ?case by simp
qed simp

interpretation resolver: settling w "auto_resolve n w" n for w n
  by unfold_locales (rule auto_resolve_settles)

section \<open>What is written\<close>

text \<open>
  A choice is made in a resolution of an implementation, for a dependency that implementation declares,
  names one of its demands and takes an implementation, of a matching action, of the agent selected; and it
  has a resolution below it, of the implementation taken, exactly when that one has dependencies.
\<close>

definition fits_need :: "resolve_world \<Rightarrow> needed \<Rightarrow> string \<Rightarrow> nat \<Rightarrow> bool" where
  "fits_need w d key impl \<longleftrightarrow>
     (\<exists>n i. n \<in> set (dr_actions d) \<and> nd_key n = key \<and> i \<in> set (vw_implementations w) \<and> vi_pk i = impl \<and>
        vi_action i \<in> set (matched n) \<and> fitting_agents w d \<noteq> [] \<and> vi_agent i = hd (fitting_agents w d))"

definition sound_choice :: "resolve_world \<Rightarrow> (nat \<times> nat) list \<Rightarrow> dependency_choice \<Rightarrow> bool" where
  "sound_choice w rs c \<longleftrightarrow>
     (\<exists>owner d. (ch_resolution c, owner) \<in> set rs \<and> d \<in> set (vw_dependencies w owner) \<and> dr_pk d = ch_dependency c \<and>
        fits_need w d (ch_key c) (ch_implementation c)) \<and>
     (case ch_down c of
        None \<Rightarrow> vw_dependencies w (ch_implementation c) = []
      | Some r \<Rightarrow> vw_dependencies w (ch_implementation c) \<noteq> [] \<and> (r, ch_implementation c) \<in> set rs)"

definition extends :: "resolving \<Rightarrow> resolving \<Rightarrow> bool" where
  "extends s t \<longleftrightarrow> set (rv_visited s) \<subseteq> set (rv_visited t) \<and> set (rv_resolutions s) \<subseteq> set (rv_resolutions t)"

definition grown :: "resolve_world \<Rightarrow> resolving \<Rightarrow> resolving \<Rightarrow> bool" where
  "grown w s t \<longleftrightarrow> extends s t \<and>
     (\<exists>new. rv_choices t = rv_choices s @ new \<and> distinct (map ch_implementation new) \<and>
        list_all (sound_choice w (rv_resolutions t)) new \<and>
        ch_implementation ` set new \<subseteq> set (rv_visited t) - set (rv_visited s))"

definition grows_run :: "resolve_world \<Rightarrow> run \<Rightarrow> resolving \<Rightarrow> bool" where
  "grows_run w m s \<longleftrightarrow> (\<forall>c t. m = Some (c, t) \<longrightarrow> grown w s t)"

lemma sound_choice_mono: "sound_choice w rs c \<Longrightarrow> set rs \<subseteq> set rs' \<Longrightarrow> sound_choice w rs' c"
  by (auto simp: sound_choice_def split: option.splits)

lemma extends_refl [simp]: "extends s s"
  by (simp add: extends_def)

lemma extends_trans: "extends s t \<Longrightarrow> extends t u \<Longrightarrow> extends s u"
  by (auto simp: extends_def)

lemma extends_resolution: "extends s t \<Longrightarrow> r \<in> set (rv_resolutions s) \<Longrightarrow> r \<in> set (rv_resolutions t)"
  by (auto simp: extends_def)

lemma grown_refl [simp]: "grown w s s"
  by (simp add: grown_def)

lemma grown_trans:
  assumes "grown w s t" and "grown w t u"
  shows "grown w s u"
proof -
  from assms obtain a b where
      a: "rv_choices t = rv_choices s @ a" "distinct (map ch_implementation a)" "list_all (sound_choice w (rv_resolutions t)) a"
        "ch_implementation ` set a \<subseteq> set (rv_visited t) - set (rv_visited s)"
      and b: "rv_choices u = rv_choices t @ b" "distinct (map ch_implementation b)" "list_all (sound_choice w (rv_resolutions u)) b"
        "ch_implementation ` set b \<subseteq> set (rv_visited u) - set (rv_visited t)"
      and ext: "extends s t" "extends t u"
    unfolding grown_def by blast
  have "list_all (sound_choice w (rv_resolutions u)) a"
    using a(3) ext(2) by (auto simp: list_all_iff extends_def intro: sound_choice_mono)
  moreover have "distinct (map ch_implementation (a @ b))" using a(2,4) b(2,4) by auto
  moreover have "ch_implementation ` set (a @ b) \<subseteq> set (rv_visited u) - set (rv_visited s)"
    using a(4) b(4) ext by (auto simp: extends_def)
  moreover have "rv_choices u = rv_choices s @ (a @ b)" using a b by simp
  ultimately show ?thesis using extends_trans [OF ext] b(3) unfolding grown_def by (intro conjI exI [of _ "a @ b"]) simp_all
qed

lemma grows_done [simp]: "grows_run w (Some (c, s)) s"
  by (simp add: grows_run_def)

lemma grows_checked [simp]: "grows_run w (checked_run c s) s"
  by (simp add: checked_run_def)

lemma grows_then:
  assumes "grows_run w m s" and "\<And>t. extends s t \<Longrightarrow> grows_run w (f t) t"
  shows "grows_run w (then_run m f) s"
proof (cases m)
  case None
  then show ?thesis by (simp add: then_run_def grows_run_def)
next
  case (Some p)
  obtain c t where p: "p = (c, t)" by (cases p)
  with Some assms(1) have t: "grown w s t" by (simp add: grows_run_def)
  show ?thesis
  proof (cases c)
    case (Inl e)
    with Some p t show ?thesis by (simp add: then_run_def grows_run_def)
  next
    case (Inr u)
    have "grows_run w (f t) t" using assms(2) t by (simp add: grown_def)
    with Inr Some p t show ?thesis by (auto simp: then_run_def grows_run_def intro: grown_trans)
  qed
qed

lemma matched_ids_needs:
  "(k, ids) \<in> set (matched_ids ms ns) \<Longrightarrow> (k, ids) \<in> set ms \<or> (\<exists>n \<in> set ns. nd_key n = k \<and> matched n = ids)"
proof (induction ns arbitrary: ms)
  case (Cons n ns)
  let ?ms = "if nd_key n \<in> fst ` set ms then map (\<lambda>(k, v). (k, if k = nd_key n then matched n else v)) ms
    else ms @ [(nd_key n, matched n)]"
  from Cons.prems have "(k, ids) \<in> set (matched_ids ?ms ns)" by (simp add: Let_def)
  then consider "(k, ids) \<in> set ?ms" | "\<exists>n \<in> set ns. nd_key n = k \<and> matched n = ids" using Cons.IH by blast
  then show ?case
  proof cases
    case 1
    then show ?thesis by (auto split: if_splits)
  qed auto
qed simp

locale growing =
  fixes w :: resolve_world and sub :: "nat \<Rightarrow> nat \<Rightarrow> resolving \<Rightarrow> run"
  assumes sub_grows: "(res, impl) \<in> set (rv_resolutions s) \<Longrightarrow> grows_run w (sub impl res s) s"
begin

lemma one_grows:
  assumes "(res, owner) \<in> set (rv_resolutions s)" and "d \<in> set (vw_dependencies w owner)"
    and "fits_need w d key impl" and "impl \<notin> set (rv_visited s)"
  shows "grows_run w (resolve_one sub w res d key impl s) s"
proof (cases "vw_dependencies w impl = []")
  case True
  let ?c = "\<lparr>ch_resolution = res, ch_dependency = dr_pk d, ch_key = key, ch_implementation = impl, ch_down = None\<rparr>"
  have "sound_choice w (rv_resolutions s) ?c" using assms(1-3) True by (auto simp: sound_choice_def)
  then show ?thesis using assms(4) True
    by (auto simp: resolve_one_def grows_run_def grown_def extends_def mark_visited_def take_choice_def)
next
  case False
  let ?s = "new_resolution impl (mark_visited impl s)"
  let ?c = "\<lparr>ch_resolution = res, ch_dependency = dr_pk d, ch_key = key, ch_implementation = impl, ch_down = Some (rv_fresh s)\<rparr>"
  have made: "(rv_fresh s, impl) \<in> set (rv_resolutions ?s)" by (simp add: new_resolution_def mark_visited_def)
  show ?thesis
  proof (cases "sub impl (rv_fresh s) ?s")
    case None
    with False show ?thesis by (simp add: resolve_one_def then_run_def grows_run_def)
  next
    case (Some p)
    obtain c t where p: "p = (c, t)" by (cases p)
    let ?t = "take_choice res d key impl (Some (rv_fresh s)) t"
    from Some p sub_grows [OF made] have "grown w ?s t" by (simp add: grows_run_def)
    then obtain new where new: "rv_choices t = rv_choices s @ new" "distinct (map ch_implementation new)"
        "list_all (sound_choice w (rv_resolutions t)) new"
        "ch_implementation ` set new \<subseteq> set (rv_visited t) - insert impl (set (rv_visited s))"
        and sub: "insert impl (set (rv_visited s)) \<subseteq> set (rv_visited t)"
        and below: "insert (rv_fresh s, impl) (set (rv_resolutions s)) \<subseteq> set (rv_resolutions t)"
      by (auto simp: grown_def extends_def new_resolution_def mark_visited_def)
    have ext: "extends s t" "extends s ?t" using sub below by (simp_all add: extends_def take_choice_def)
    have "grown w s t" using new ext by (auto simp: grown_def)
    moreover have "grown w s ?t"
      unfolding grown_def
    proof (intro conjI exI [of _ "new @ [?c]"])
      show "extends s ?t" by (rule ext)
      show "rv_choices ?t = rv_choices s @ (new @ [?c])" using new(1) by (simp add: take_choice_def)
      show "distinct (map ch_implementation (new @ [?c]))" using new(2,4) by auto
      have "sound_choice w (rv_resolutions t) ?c" using assms(1-3) False below by (auto simp: sound_choice_def)
      with new(3) show "list_all (sound_choice w (rv_resolutions ?t)) (new @ [?c])" by (simp add: take_choice_def)
      show "ch_implementation ` set (new @ [?c]) \<subseteq> set (rv_visited ?t) - set (rv_visited s)"
        using new(4) sub assms(4) by (auto simp: take_choice_def)
    qed
    ultimately show ?thesis using False Some p
      by (cases c) (simp_all add: resolve_one_def then_run_def grows_run_def)
  qed
qed

lemma viable_grows:
  assumes "d \<in> set (vw_dependencies w owner)"
  shows "(res, owner) \<in> set (rv_resolutions s) \<Longrightarrow> list_all (fits_need w d key) impls \<Longrightarrow>
    grows_run w (resolve_viable sub w res d key count impls s) s"
proof (induction impls arbitrary: count s)
  case (Cons impl impls)
  have "grows_run w (resolve_viable sub w res d key (Suc count) impls t) t" if "extends s t" for t
    using Cons extends_resolution [OF that] by simp
  then show ?case using Cons one_grows [OF Cons.prems(1) assms] by (auto intro!: grows_then)
qed simp

lemma keys_grow:
  assumes "d \<in> set (vw_dependencies w owner)" and "fitting_agents w d = a # as"
  shows "(res, owner) \<in> set (rv_resolutions s) \<Longrightarrow>
    \<forall>(k, ids) \<in> set ms. \<exists>n \<in> set (dr_actions d). nd_key n = k \<and> matched n = ids \<Longrightarrow>
    grows_run w (resolve_keys sub w res d a ms s) s"
proof (induction ms arbitrary: s)
  case (Cons m ms)
  obtain key ids where m: "m = (key, ids)" by (cases m)
  with Cons.prems obtain n where n: "n \<in> set (dr_actions d)" "nd_key n = key" "matched n = ids" by auto
  have "list_all (fits_need w d key) (viable_of w a ids)"
    using n assms(2) by (auto simp: list_all_iff viable_of_def fits_need_def)
  then have "grows_run w (resolve_viable sub w res d key 0 (viable_of w a ids) s) s"
    using viable_grows [OF assms(1) Cons.prems(1)] by blast
  moreover have "grows_run w (resolve_keys sub w res d a ms t) t" if "extends s t" for t
    using Cons extends_resolution [OF that] by simp
  ultimately show ?case by (simp add: m grows_then)
qed simp

lemma dependency_grows:
  assumes "d \<in> set (vw_dependencies w owner)" and "(res, owner) \<in> set (rv_resolutions s)"
  shows "grows_run w (resolve_dependency sub w res d s) s"
  unfolding resolve_dependency_def
proof (rule grows_then [OF grows_checked])
  fix t :: resolving assume "extends s t"
  then have "(res, owner) \<in> set (rv_resolutions t)" using assms(2) extends_resolution by blast
  moreover have "\<forall>(k, ids) \<in> set (matched_ids [] (dr_actions d)). \<exists>n \<in> set (dr_actions d). nd_key n = k \<and> matched n = ids"
    using matched_ids_needs [of _ _ "[]" "dr_actions d"] by auto
  ultimately show "grows_run w (case fitting_agents w d of [] \<Rightarrow> checked_run (Inl (ValueError [Txt ''No agent found that can satisfy dependency '', Txt (dr_key d)])) t
      | a # _ \<Rightarrow> resolve_keys sub w res d a (matched_ids [] (dr_actions d)) t) t"
    by (cases "fitting_agents w d") (auto intro: keys_grow [OF assms(1)])
qed

lemma dependencies_grow:
  "(res, owner) \<in> set (rv_resolutions s) \<Longrightarrow> set ds \<subseteq> set (vw_dependencies w owner) \<Longrightarrow>
    grows_run w (resolve_dependencies sub w res ds s) s"
proof (induction ds arbitrary: s)
  case (Cons d ds)
  have "grows_run w (resolve_dependencies sub w res ds t) t" if "extends s t" for t
    using Cons extends_resolution [OF that] by simp
  then show ?case using Cons.prems dependency_grows [of d owner res s] by (auto intro!: grows_then)
qed simp

end

lemma auto_resolve_grows: "(res, impl) \<in> set (rv_resolutions s) \<Longrightarrow> grows_run w (auto_resolve n w impl res s) s"
proof (induction n arbitrary: impl res s)
  case (Suc n)
  have "growing w (auto_resolve n w)" by (rule growing.intro) (rule Suc.IH)
  from growing.dependencies_grow [OF this Suc.prems order_refl] show ?case by simp
qed (simp add: grows_run_def)

interpretation chooser: growing w "auto_resolve n w" for w n
  by unfold_locales (rule auto_resolve_grows)

section \<open>The mutation\<close>

lemma request_returns:
  assumes "impl \<in> vi_pk ` set (vw_implementations w)"
  shows "\<exists>c t. auto_resolve_request w impl s = Some (c, t)"
proof -
  let ?s = "new_resolution impl (s\<lparr>rv_visited := []\<rparr>)"
  have "card (unvisited w ?s) \<le> card (vi_pk ` set (vw_implementations w))" by (rule card_mono) (auto simp: unvisited_def)
  also have "\<dots> \<le> length (vw_implementations w)" by (metis card_length set_map length_map)
  finally have "returns (auto_resolve (Suc (length (vw_implementations w))) w impl (rv_fresh s) ?s) ?s"
    by (intro auto_resolve_settles) simp
  with assms show ?thesis by (auto simp: auto_resolve_request_def returns_def simp del: auto_resolve.simps)
qed

lemma request_grows:
  assumes "auto_resolve_request w impl s = Some (c, t)" and "impl \<in> vi_pk ` set (vw_implementations w)"
  shows "grown w (new_resolution impl (s\<lparr>rv_visited := []\<rparr>)) t"
proof -
  let ?s = "new_resolution impl (s\<lparr>rv_visited := []\<rparr>)"
  from assms have "auto_resolve (Suc (length (vw_implementations w))) w impl (rv_fresh s) ?s = Some (c, t)"
    by (simp add: auto_resolve_request_def del: auto_resolve.simps)
  moreover have "(rv_fresh s, impl) \<in> set (rv_resolutions ?s)" by (simp add: new_resolution_def)
  ultimately show ?thesis using auto_resolve_grows unfolding grows_run_def by blast
qed

text \<open>
  C23. \<open>autoResolve\<close> ends, whatever cycles the dependencies have, and what it has written by then, whether it
  returned or raised, is sound: every choice is made in a resolution of the implementation that declares the
  dependency, for a demand of that dependency, and takes an implementation of a matching action of the agent
  that was selected; it has a resolution below it, of the implementation taken, exactly when that one has
  dependencies of its own; and no implementation is taken twice. Nothing that was there is lost.
\<close>

theorem auto_resolve_sound:
  "\<exists>c t new. auto_resolve_request w impl s = Some (c, t) \<and> rv_choices t = rv_choices s @ new \<and>
     set (rv_resolutions s) \<subseteq> set (rv_resolutions t) \<and>
     distinct (map ch_implementation new) \<and> list_all (sound_choice w (rv_resolutions t)) new"
proof (cases "impl \<in> vi_pk ` set (vw_implementations w)")
  case True
  obtain c t where run: "auto_resolve_request w impl s = Some (c, t)" using request_returns [OF True] by blast
  then show ?thesis using request_grows [OF run True] by (auto simp: grown_def extends_def new_resolution_def)
next
  case False
  then show ?thesis by (intro exI [of _ "[]"] exI [of _ s] exI [of _ "Inl (DoesNotExist ''Implementation'')"])
      (simp add: auto_resolve_request_def)
qed

section \<open>A microscope\<close>

text \<open>
  A scan needs a stage that moves and homes; the mover, with a light below it, needs something switched on.
\<close>

definition scope_world :: resolve_world where
  "scope_world = \<lparr>vw_agents = [1, 2],
     vw_implementations = [\<lparr>vi_pk = 10, vi_agent = 1, vi_action = 100\<rparr>, \<lparr>vi_pk = 20, vi_agent = 2, vi_action = 200\<rparr>,
       \<lparr>vi_pk = 21, vi_agent = 2, vi_action = 201\<rparr>],
     vw_dependencies = (\<lambda>i. if i = 10
       then [\<lparr>dr_pk = 7, dr_key = ''stage'',
          dr_actions = [\<lparr>nd_key = ''move'', nd_actions = Inr [200]\<rparr>, \<lparr>nd_key = ''home'', nd_actions = Inr [200, 201]\<rparr>],
          dr_states = [Held_By [2]], dr_prefered = Some 1\<rparr>]
       else if i = 20
       then [\<lparr>dr_pk = 8, dr_key = ''light'', dr_actions = [\<lparr>nd_key = ''on'', nd_actions = Inr [200, 201]\<rparr>], dr_states = [], dr_prefered = None\<rparr>]
       else [])\<rparr>"

definition untouched :: resolving where
  "untouched = \<lparr>rv_visited = [], rv_resolutions = [], rv_choices = [], rv_fresh = 1\<rparr>"

definition scope_run :: run where
  "scope_run = auto_resolve_request scope_world 10 untouched"

text \<open>
  The stage's key \<open>home\<close> has two implementations and gets no choice, though the run succeeds: one was visited
  for \<open>move\<close>, the other for the light below it.
\<close>

lemma key_left_unresolved:
  "map_option (\<lambda>(c, t). (c, map (\<lambda>x. (ch_key x, ch_implementation x)) (rv_choices t))) scope_run =
     Some (Inr (), [(''on'', 21), (''move'', 20)])"
  by code_simp

text \<open>
  With no agent for the light, the run raises and the two resolutions it made stay, since no transaction
  holds them.
\<close>

definition dark_world :: resolve_world where
  "dark_world = scope_world\<lparr>vw_dependencies := (\<lambda>i. if i = 20
     then [\<lparr>dr_pk = 8, dr_key = ''light'', dr_actions = [], dr_states = [Held_By []], dr_prefered = None\<rparr>]
     else vw_dependencies scope_world i)\<rparr>"

lemma raised_run_leaves_rows:
  "map_option (\<lambda>(c, t). (c, rv_resolutions t)) (auto_resolve_request dark_world 10 untouched) =
     Some (Inl (ValueError [Txt ''No agent found that can satisfy dependency '', Txt ''light'']), [(1, 10), (2, 20)])"
  by code_simp

end
