(* ===== verification/Spec2Isabelle.thy ===== *)
theory Spec2Isabelle
  imports Examples Definitions Catalogs Services Descriptors Blok_Examples Assets Matching_Text State_Replay Automation_Examples Resolve_Facts
begin

text \<open>
  Rekuest is the server agents register at with the actions they implement and the UI (bloks) they
  bring. This library models the rules \<open>src/rekuest_core/\<close> holds every registration to and the rules by which
  an assignment is checked, and of \<open>src/facade/\<close> the components that keep state of their own: catalogs,
  services, bloks and their revisions, assets, the matching engine, the log of agents' states and what
  runs by itself.

  \<^item> \<open>Prelude\<close>, \<open>Json\<close>: what the code uses of Python: results as \<open>py_error + 'a\<close>, with one constructor
    per exception class; strings as lists of ASCII characters; a JSON value as a datatype whose
    objects are association lists with distinct keys. Messages are lists of pieces, the parts of an
    f-string: their wording is abbreviated where nothing depends on it.
  \<^item> \<open>Vocabulary\<close>, \<open>Vocabulary_Data\<close>: \<open>vocabulary/vocabulary.py\<close>, its parser, findings and errors, and
    \<open>vocabulary/vocabulary.json\<close>, the shipped data, parsed by the model's own parser.
  \<^item> \<open>Calls\<close>, \<open>Tree\<close>, \<open>Ports\<close>, \<open>Port_Models\<close>, \<open>Formulas\<close>, \<open>Bloks\<close>: \<open>inputs/models.py\<close>, from the leaves up:
    the arguments of a call and its purity, component trees, ports with their widgets and
    validators, runtime formulas, what a blok declares. A pydantic model is a record or datatype;
    its validators are functions that return the (possibly rewritten) value or the error; a nested
    model is validated before the model that holds it (\<open>build_port\<close>).
  \<^item> \<open>Values\<close>: \<open>values.py\<close>, whether a JSON value fits a port, with an inductive definition of fitting.
  \<^item> \<open>Units\<close>: \<open>units.py\<close>, the canonical text of a dimensionality, whose exponents are rational, with the number
    format \<open>:g\<close>.
  \<^item> \<open>Walk\<close>: \<open>vocabulary/walk.py\<close>, the walk of a tree with a visitor, its scopes, and the locales that lift
    a property of one visit to the whole walk.
  \<^item> \<open>View\<close>, \<open>Infer\<close>: \<open>vocabulary/view.py\<close> (which component definition draws a name) and
    \<open>vocabulary/infer.py\<close> (the kinds of locals).
  \<^item> \<open>Paths\<close>, \<open>Checker\<close>, \<open>Checker_Facts\<close>, \<open>Checker_Total\<close>: \<open>vocabulary/check.py\<close>, the checker of a blok tree,
    what it finds wherever a rule is broken, and that it always returns findings.
  \<^item> \<open>Manifests\<close>, \<open>Definitions\<close>: \<open>inputs/models.py\<close> again, from the top down: the blok manifests (where the
    declaration rules and the checker meet) and what an agent registers, with the validators that
    look across a whole definition or implementation.
  \<^item> \<open>Catalogs\<close>: \<open>catalogs/__init__.py\<close> and \<open>src/facade/catalog_validation.py\<close>, which operations and
    components are in force, and whether calls, widgets and bloks fit them; \<open>register_module\<close>.
  \<^item> \<open>Tables\<close>, \<open>Services\<close>: tables with unique keys as Django keeps them, and \<open>src/facade/service_catalog.py\<close>,
    which brings the rows of a service in line with what it declares.
  \<^item> \<open>Descriptors\<close>: \<open>src/facade/descriptors.py\<close>, descriptor demands as JSONPath.
  \<^item> \<open>Revisions\<close>, \<open>Blok_Mutations\<close>, \<open>Blok_Edits\<close>: \<open>src/facade/blok_revisions.py\<close>, \<open>src/facade/mutations/blok.py\<close> and
    \<open>src/facade/mutations/materialized_blok.py\<close>, the bloks of one organization: their revisions, the copy of
    the head on the blok's row and dependency rows, and the requests that write them, each a function
    from the tables to a result and the tables after it. A request that raises leaves the tables as they
    were (every mutation is one transaction).
  \<^item> \<open>Blok_History\<close>, \<open>Blok_Properties\<close>: the requests as steps, the states they reach, the invariant every
    reachable state has, and what single requests promise on top of it; \<open>Blok_Examples\<close> runs them.
  \<^item> \<open>Images\<close>, \<open>Assets\<close>: \<open>src/facade/image_validation.py\<close>, which reads the header of a PNG, JPEG or WebP file
    (bytes are \<open>8 word\<close>), and \<open>src/facade/asset_store.py\<close> with its mutations: who may upload which file, the grant,
    the check of what was uploaded and its record. Requests run in two halves, so that they may
    interleave; an object may be written again while the credentials of its grant last, which the reachable
    states keep account of. The layouts of the three formats leave every byte free that does not say the sides.
  \<^item> \<open>Sql\<close>, \<open>Matching\<close>: \<open>src/facade/managers.py\<close>. The statements are a syntax tree with a text (its pieces and
    named placeholders) and a meaning (three truth values); the builders are the code's, with the dict of
    parameters they write to. \<open>Matching_Facts\<close>: no builder overwrites another's parameter.
    \<open>Matching_Meaning\<close>, \<open>Matching_Demands\<close>: what a demand asks for, said on the rows, and that the statement
    selects exactly the owners that meet it. \<open>Matching_Text\<close>: when a demand is refused, and its placeholders.
  \<^item> \<open>State_Log\<close>, \<open>State_Replay\<close>: \<open>get_latest_state\<close> of \<open>src/facade/logic.py\<close> and \<open>src/facade/queries/state.py\<close>, how
    a state is read back from its snapshots and patches: that a log which records a state's history reads back
    as it, whichever snapshots are kept, and where the two readers agree. An ordering of the code that leaves
    ties open takes them in the order of the table.
  \<^item> \<open>Resolve\<close>, \<open>Resolve_Facts\<close>: \<open>auto_resolve\<close> of \<open>src/facade/logic.py\<close> and \<open>src/facade/mutations/resolution.py\<close>, how
    the dependencies of an implementation are resolved by themselves. A run is what it returns or raises with
    the rows written by then; the locales say what a nested run has to keep, and the recursion provides it.
  \<^item> \<open>Automation\<close>, \<open>Rule_Mutations\<close>, \<open>Wiregrams\<close>: \<open>src/facade/rules.py\<close>, \<open>schedules.py\<close>, \<open>triggers.py\<close>,
    \<open>wiregrams.py\<close> with their mutations and \<open>inputs/wiregram.py\<close>: the schedules and triggers of one organization,
    what they must satisfy, their changes field by field, and the wiregram documents that own some of them.
    A notice to takt is an entry of the list of notices; what takt does with it is not modelled. The document is kept
    on the wiregram's row as imported; the times of the rows are left out. A rule that is updated keeps its caller.
    \<open>Change_Facts\<close>: what a patch changes and reports. \<open>Rule_Facts\<close>, \<open>Wiregram_Facts\<close>: what an import makes of the
    rules. \<open>Automation_Facts\<close>, \<open>Automation_Runs\<close>: the invariant of the tables over every step, and the runs of
    rules that go. \<open>Automation_Export\<close>: an exported import. \<open>Automation_Properties\<close>, \<open>Automation_Examples\<close>: what
    holds, and a laboratory it holds of. The tables of the model share one counter of primary keys.
  \<^item> \<open>Examples\<close>: the properties at work on small inputs.

  Parameters of the model, because their code is not in the repository: pint's unit registry
  (\<open>ext_pint\<close>: the dimensions of a unit expression, or that it has none), graphql-core's parser
  (\<open>ext_graphql\<close>: the variables of the operations of a document), \<open>datetime.fromisoformat\<close>
  (\<open>ext_iso_date\<close>), the catalog files of the spec (an argument of \<open>blok_view\<close>), SHA-256 and the reader of 3D
  models (\<open>asset_world\<close>), PostgreSQL's \<open>jsonb_path_match\<close> (\<open>mh_path_match\<close>), jsonpatch (\<open>patch_library\<close>), takt's
  judgement of a timing (\<open>rw_timing\<close>), the text of a float, and the clock (the moment before which a heartbeat is stale). Recursion is
  structural or has a measure (\<open>next_free\<close>: the names still taken; \<open>arg_port_rows\<close>: the ports still to be
  written; \<open>jpeg_frame\<close>: the bytes left). Only \<open>auto_resolve\<close> has fuel: one unit for every implementation and one
  more, which is enough because every nested run has visited one more implementation.

  Not modelled: the declarations of GraphQL types, inputs, filters and subscriptions over strawberry, Django
  settings, migrations and management commands, which have no logic of their own; what is forwarded to takt
  (the executor, in Rust): tasks, their events and the agents' connections, running a schedule
  now and firing a trigger by hand; the legacy scan of shortcuts' JSON
  ports and the estimate of a runtime in \<open>managers.py\<close>; toolboxes, dashboards, spaces and probes.
\<close>

end
